(* ===== verification/Go_Prelude.thy ===== *)
theory Go_Prelude
  imports Main "HOL-Library.Sublist"
begin

text \<open>
  Shared vocabulary of the development: the Go values the agent computes with (byte strings,
  instants, durations, 64-bit integers), the string functions of the Go standard library the
  sources call, and the list and association-list lemmas the components share.

  A Go string is a list of bytes, which is what \<open>string\<close> is here: \<open>length\<close> is Go's
  \<open>len\<close>, and slicing cuts bytes. An instant is a number of nanoseconds since Go's zero time
  (1 January of year 1, UTC), so \<open>IsZero\<close> is \<open>t = 0\<close>, \<open>UTC()\<close> is the identity and
  \<open>After\<close> is \<open><\<close>. Durations are 64-bit nanosecond counts, and \<open>Time.Sub\<close> saturates.
\<close>

named_theorems go_simps \<open>defining equations of the Go library functions\<close>
named_theorems frame_intros \<open>an operation leaves a part of the state alone\<close>

subsection \<open>Instants, durations and 64-bit integers\<close>

type_synonym instant = int
type_synonym duration = int

definition int64_min :: int where
  "int64_min = - (2 ^ 63)"

definition int64_max :: int where
  "int64_max = 2 ^ 63 - 1"

definition wrap64 :: "int \<Rightarrow> int" where
  "wrap64 n = (n + 2 ^ 63) mod 2 ^ 64 - 2 ^ 63"

lemma wrap64_id: "int64_min \<le> n \<Longrightarrow> n \<le> int64_max \<Longrightarrow> wrap64 n = n"
  by (simp add: wrap64_def int64_min_def int64_max_def)

lemma wrap64_range: "int64_min \<le> wrap64 n \<and> wrap64 n \<le> int64_max"
proof -
  have "0 \<le> (n + 2 ^ 63) mod 2 ^ 64" "(n + 2 ^ 63) mod 2 ^ 64 < 2 ^ 64"
    by (simp_all del: power_numeral)
  then show ?thesis
    by (simp add: wrap64_def int64_min_def int64_max_def)
qed

lemma wrap64_max: "wrap64 (int64_max + 1) = int64_min"
  by (simp add: wrap64_def int64_min_def int64_max_def)

definition is_zero_time :: "instant \<Rightarrow> bool" where
  [go_simps]: "is_zero_time t \<longleftrightarrow> t = 0"

text \<open>\<open>a.Sub(b)\<close>: the difference, saturated at the ends of the duration range.\<close>

definition time_sub :: "instant \<Rightarrow> instant \<Rightarrow> duration" where
  "time_sub a b = max int64_min (min int64_max (a - b))"

lemma time_sub_ge_iff: "d \<le> int64_max \<Longrightarrow> int64_min < d \<Longrightarrow> d \<le> time_sub a b \<longleftrightarrow> d \<le> a - b"
  by (auto simp: time_sub_def int64_min_def int64_max_def)

lemma time_sub_self [simp]: "time_sub a a = 0"
  by (simp add: time_sub_def int64_min_def int64_max_def)

lemma time_sub_mono: "a \<le> b \<Longrightarrow> time_sub a c \<le> time_sub b c"
  by (auto simp: time_sub_def)

definition second :: duration where
  "second = 1000000000"

subsection \<open>Byte strings\<close>

definition byte :: "char \<Rightarrow> nat" where
  "byte c = of_char c"

definition has_prefix :: "string \<Rightarrow> string \<Rightarrow> bool" where
  [go_simps]: "has_prefix s p \<longleftrightarrow> prefix p s"

fun contains_sub :: "string \<Rightarrow> string \<Rightarrow> bool" where
  "contains_sub [] t = (t = [])"
| "contains_sub (c # cs) t = (prefix t (c # cs) \<or> contains_sub cs t)"

definition contains_any :: "string \<Rightarrow> string \<Rightarrow> bool" where
  [go_simps]: "contains_any s chars \<longleftrightarrow> list_ex (\<lambda>c. c \<in> set chars) s"

definition cut :: "nat \<Rightarrow> string \<Rightarrow> string" where
  [go_simps]: "cut n s = take n s"

lemma contains_sub_iff: "contains_sub s t \<longleftrightarrow> (\<exists>u v. s = u @ t @ v)"
proof (induction s)
  case Nil
  then show ?case by auto
next
  case (Cons c cs)
  show ?case
  proof
    assume "contains_sub (c # cs) t"
    then consider "prefix t (c # cs)" | "contains_sub cs t" by auto
    then show "\<exists>u v. c # cs = u @ t @ v"
    proof cases
      case 1
      then obtain v where "c # cs = t @ v" by (auto simp: prefix_def)
      then have "c # cs = [] @ t @ v" by simp
      then show ?thesis by blast
    next
      case 2
      with Cons.IH obtain u v where "cs = u @ t @ v" by auto
      then have "c # cs = (c # u) @ t @ v" by simp
      then show ?thesis by blast
    qed
  next
    assume "\<exists>u v. c # cs = u @ t @ v"
    then obtain u v where uv: "c # cs = u @ t @ v" by blast
    show "contains_sub (c # cs) t"
    proof (cases u)
      case Nil
      with uv have "prefix t (c # cs)" by (auto simp: prefix_def)
      then show ?thesis by (subst contains_sub.simps) blast
    next
      case (Cons d u')
      with uv have "cs = u' @ t @ v" by simp
      then show ?thesis using Cons.IH by auto
    qed
  qed
qed

text \<open>
  \<open>strings.TrimSpace\<close>: the white space of Unicode, as the byte sequences of its UTF-8
  encoding (ASCII space and controls, U+0085, U+00A0, U+1680, U+2000 to U+200A, U+2028, U+2029,
  U+202F, U+205F, U+3000).
\<close>

definition ascii_space :: "char \<Rightarrow> bool" where
  "ascii_space c \<longleftrightarrow> byte c \<in> {9, 10, 11, 12, 13, 32}"

definition wide_space :: "nat list \<Rightarrow> bool" where
  "wide_space bs \<longleftrightarrow>
     bs \<in> {[194, 133], [194, 160], [225, 154, 128], [226, 128, 168], [226, 128, 169],
           [226, 128, 175], [226, 129, 159], [227, 128, 128]} \<or>
     (case bs of [a, b, c] \<Rightarrow> a = 226 \<and> b = 128 \<and> 128 \<le> c \<and> c \<le> 138 | _ \<Rightarrow> False)"

definition space_prefix :: "string \<Rightarrow> nat" where
  "space_prefix s =
     (case s of [] \<Rightarrow> 0
      | c # _ \<Rightarrow>
          if ascii_space c then 1
          else if wide_space (map byte (take 2 s)) then 2
          else if wide_space (map byte (take 3 s)) then 3
          else 0)"

definition space_suffix :: "string \<Rightarrow> nat" where
  "space_suffix r =
     (case r of [] \<Rightarrow> 0
      | c # _ \<Rightarrow>
          if ascii_space c then 1
          else if wide_space (map byte (rev (take 2 r))) then 2
          else if wide_space (map byte (rev (take 3 r))) then 3
          else 0)"

lemma wide_space_length: "wide_space bs \<Longrightarrow> length bs = 2 \<or> length bs = 3"
  unfolding wide_space_def by (elim disjE) (auto split: list.splits)

lemma wide_take2: "wide_space (map byte (take 2 s)) \<Longrightarrow> 2 \<le> length s"
  by (drule wide_space_length) auto

lemma wide_take3:
  "wide_space (map byte (take 3 s)) \<Longrightarrow> \<not> wide_space (map byte (take 2 s)) \<Longrightarrow> 3 \<le> length s"
  by (frule wide_space_length) (auto simp: min_def split: if_splits)

lemma wide_rev_take2: "wide_space (map byte (rev (take 2 s))) \<Longrightarrow> 2 \<le> length s"
  by (drule wide_space_length) auto

lemma wide_rev_take3:
  "wide_space (map byte (rev (take 3 s))) \<Longrightarrow> \<not> wide_space (map byte (rev (take 2 s))) \<Longrightarrow>
   3 \<le> length s"
  by (frule wide_space_length) (auto simp: min_def split: if_splits)

lemma space_prefix_le: "space_prefix s \<le> length s"
  unfolding space_prefix_def
  by (auto split: list.split dest: wide_take2 wide_take3 simp del: take_Cons_numeral)

lemma space_suffix_le: "space_suffix s \<le> length s"
  unfolding space_suffix_def
  by (auto split: list.split dest: wide_rev_take2 wide_rev_take3 simp del: take_Cons_numeral)

lemma space_suffix_prefix: "0 < space_suffix s \<Longrightarrow> s \<noteq> []"
  by (cases s) (simp_all add: space_suffix_def)

lemma space_prefix_nonempty: "0 < space_prefix s \<Longrightarrow> s \<noteq> []"
  by (cases s) (simp_all add: space_prefix_def)

lemma drop_shorter: "0 < n \<Longrightarrow> s \<noteq> [] \<Longrightarrow> length (drop n s) < length s"
  by (simp add: length_greater_0_conv [symmetric] del: length_greater_0_conv)

function trim_left :: "string \<Rightarrow> string" where
  "trim_left s = (if space_prefix s = 0 then s else trim_left (drop (space_prefix s) s))"
  by pat_completeness auto
termination
  by (relation "measure length") (simp_all add: drop_shorter space_prefix_nonempty del: length_drop)

text \<open>Trimming on the right works on the reversed bytes.\<close>

function trim_rev :: "string \<Rightarrow> string" where
  "trim_rev r = (if space_suffix r = 0 then r else trim_rev (drop (space_suffix r) r))"
  by pat_completeness auto
termination
  by (relation "measure length") (simp_all add: drop_shorter space_suffix_prefix del: length_drop)

declare trim_left.simps [simp del] trim_rev.simps [simp del]

definition trim_space :: "string \<Rightarrow> string" where
  "trim_space s = rev (trim_rev (rev (trim_left s)))"

lemma trim_left_suffix: "suffix (trim_left s) s"
proof (induction s rule: trim_left.induct)
  case (1 s)
  show ?case
  proof (cases "space_prefix s = 0")
    case True
    then show ?thesis by (simp add: trim_left.simps)
  next
    case False
    with 1 have "suffix (trim_left (drop (space_prefix s) s)) (drop (space_prefix s) s)" by simp
    also have "suffix (drop (space_prefix s) s) s" by (simp add: suffix_drop)
    finally show ?thesis using False by (simp add: trim_left.simps [of s])
  qed
qed

lemma trim_rev_suffix: "suffix (trim_rev r) r"
proof (induction r rule: trim_rev.induct)
  case (1 r)
  show ?case
  proof (cases "space_suffix r = 0")
    case True
    then show ?thesis by (simp add: trim_rev.simps)
  next
    case False
    with 1 have "suffix (trim_rev (drop (space_suffix r) r)) (drop (space_suffix r) r)" by simp
    also have "suffix (drop (space_suffix r) r) r" by (simp add: suffix_drop)
    finally show ?thesis using False by (simp add: trim_rev.simps [of r])
  qed
qed

lemma trim_space_prefix: "prefix (trim_space s) (trim_left s)"
  using trim_rev_suffix [of "rev (trim_left s)"]
  by (simp add: trim_space_def suffix_to_prefix)

lemma set_trim_space: "set (trim_space s) \<subseteq> set s"
  using set_mono_prefix [OF trim_space_prefix [of s]] set_mono_suffix [OF trim_left_suffix [of s]]
  by blast

lemma length_trim_space: "length (trim_space s) \<le> length s"
  using prefix_length_le [OF trim_space_prefix [of s]] suffix_length_le [OF trim_left_suffix [of s]]
  by simp

text \<open>A text without any byte of a white-space encoding is its own trimming.\<close>

definition space_free :: "char \<Rightarrow> bool" where
  "space_free c \<longleftrightarrow> 32 < byte c \<and> byte c < 128"

lemma wide_space_high: "wide_space bs \<Longrightarrow> 194 \<le> hd bs"
  unfolding wide_space_def by (elim disjE) (auto split: list.splits)

lemma wide_space_last: "wide_space bs \<Longrightarrow> 128 \<le> last bs"
  unfolding wide_space_def by (elim disjE) (auto split: list.splits)

lemma space_prefix_free: "s = [] \<or> space_free (hd s) \<Longrightarrow> space_prefix s = 0"
  by (cases s) (auto simp: space_prefix_def space_free_def ascii_space_def dest: wide_space_high)

lemma space_suffix_free: "r = [] \<or> space_free (hd r) \<Longrightarrow> space_suffix r = 0"
proof (cases r)
  case (Cons c cs)
  assume "r = [] \<or> space_free (hd r)"
  with Cons have c: "32 < byte c" "byte c < 128" by (auto simp: space_free_def)
  have "\<not> wide_space (map byte (rev (take n r)))" for n
  proof (cases n)
    case 0
    then show ?thesis by (auto dest: wide_space_length)
  next
    case (Suc m)
    then show ?thesis using c Cons by (auto dest!: wide_space_last)
  qed
  then show ?thesis using c Cons by (simp add: space_suffix_def ascii_space_def del: take_Cons_numeral)
qed (simp add: space_suffix_def)

lemma trim_space_free:
  assumes "s = [] \<or> (space_free (hd s) \<and> space_free (last s))"
  shows "trim_space s = s"
proof -
  have "trim_left s = s"
    using assms by (subst trim_left.simps) (auto simp: space_prefix_free)
  moreover have "trim_rev (rev s) = rev s"
    using assms by (subst trim_rev.simps) (auto simp: space_suffix_free hd_rev)
  ultimately show ?thesis by (simp add: trim_space_def)
qed

text \<open>
  \<open>strings.ToLower\<close>: exact on ASCII and on the two non-ASCII letters whose lower case is an
  ASCII letter (U+0130 and U+212A); the other non-ASCII runes are left as they are.
\<close>

definition lower_char :: "char \<Rightarrow> char" where
  "lower_char c = (if 65 \<le> byte c \<and> byte c \<le> 90 then char_of (byte c + 32) else c)"

fun to_lower :: "string \<Rightarrow> string" where
  "to_lower [] = []"
| "to_lower (c # cs) =
     (if byte c = 196 \<and> map byte (take 1 cs) = [176] then CHR ''i'' # to_lower (drop 1 cs)
      else if byte c = 226 \<and> map byte (take 2 cs) = [132, 170] then CHR ''k'' # to_lower (drop 2 cs)
      else lower_char c # to_lower cs)"

lemma lower_char_idem: "lower_char (lower_char c) = lower_char c"
  by (simp add: lower_char_def byte_def)

lemma length_to_lower: "length (to_lower s) \<le> length s"
  by (induction s rule: to_lower.induct) auto

text \<open>\<open>strings.ReplaceAll\<close> for a non-empty pattern.\<close>

function replace_all :: "string \<Rightarrow> string \<Rightarrow> string \<Rightarrow> string" where
  "replace_all old new s =
     (if s = [] \<or> old = [] then s
      else if prefix old s then new @ replace_all old new (drop (length old) s)
      else hd s # replace_all old new (tl s))"
  by pat_completeness auto
termination
  by (relation "measure (\<lambda>(old, new, s). length s)") (auto simp: diff_less)

declare replace_all.simps [simp del]

lemma replace_all_id: "\<not> contains_sub s old \<Longrightarrow> replace_all old new s = s"
proof (induction s)
  case Nil
  then show ?case by (simp add: replace_all.simps)
next
  case (Cons c cs)
  then have "\<not> prefix old (c # cs)" "\<not> contains_sub cs old" by auto
  with Cons.IH show ?case by (subst replace_all.simps) simp
qed

subsection \<open>UTF-8 runes\<close>

text \<open>
  The runes of a string, each as the bytes it occupies, the way \<open>utf8.DecodeRuneInString\<close>
  walks it: a well-formed sequence is one rune, any other byte is a rune of its own.
\<close>

definition cont :: "nat \<Rightarrow> bool" where
  "cont n \<longleftrightarrow> 128 \<le> n \<and> n \<le> 191"

definition lead2 :: "nat \<Rightarrow> bool" where
  "lead2 n \<longleftrightarrow> 194 \<le> n \<and> n \<le> 223"

definition second3 :: "nat \<Rightarrow> nat \<Rightarrow> bool" where
  "second3 a b \<longleftrightarrow>
     (a = 224 \<and> 160 \<le> b \<and> b \<le> 191) \<or>
     (a = 237 \<and> 128 \<le> b \<and> b \<le> 159) \<or>
     (225 \<le> a \<and> a \<le> 239 \<and> a \<noteq> 237 \<and> cont b)"

definition second4 :: "nat \<Rightarrow> nat \<Rightarrow> bool" where
  "second4 a b \<longleftrightarrow>
     (a = 240 \<and> 144 \<le> b \<and> b \<le> 191) \<or>
     (a = 244 \<and> 128 \<le> b \<and> b \<le> 143) \<or>
     (241 \<le> a \<and> a \<le> 243 \<and> cont b)"

definition rune_len :: "string \<Rightarrow> nat" where
  "rune_len s =
     (case map byte (take 4 s) of
        a # b # rest \<Rightarrow>
          if lead2 a \<and> cont b then 2
          else if second3 a b \<and> (case rest of c # _ \<Rightarrow> cont c | [] \<Rightarrow> False) then 3
          else if second4 a b \<and> (case rest of c # d # _ \<Rightarrow> cont c \<and> cont d | _ \<Rightarrow> False) then 4
          else 1
      | _ \<Rightarrow> 1)"

lemma rune_len_pos: "0 < rune_len s"
  by (simp add: rune_len_def split: list.split)

function runes :: "string \<Rightarrow> string list" where
  "runes s = (if s = [] then [] else take (rune_len s) s # runes (drop (rune_len s) s))"
  by pat_completeness auto
termination
  by (relation "measure length") (simp_all add: drop_shorter rune_len_pos del: length_drop)

declare runes.simps [simp del]

lemma runes_Nil [simp]: "runes [] = []"
  by (simp add: runes.simps)

lemma concat_runes [simp]: "concat (runes s) = s"
proof (induction s rule: runes.induct)
  case (1 s)
  then show ?case by (cases "s = []") (simp_all add: runes.simps [of s])
qed

definition ascii :: "char \<Rightarrow> bool" where
  "ascii c \<longleftrightarrow> byte c < 128"

lemma rune_len_ascii: "ascii c \<Longrightarrow> rune_len (c # cs) = 1"
  by (auto simp: rune_len_def ascii_def lead2_def second3_def second4_def split: list.split)

lemma runes_ascii_Cons [simp]: "ascii c \<Longrightarrow> runes (c # cs) = [c] # runes cs"
  by (subst runes.simps) (simp add: rune_len_ascii)

lemma runes_ascii_append: "list_all ascii u \<Longrightarrow> runes (u @ v) = map (\<lambda>c. [c]) u @ runes v"
  by (induction u) auto

lemma runes_ascii: "list_all ascii s \<Longrightarrow> runes s = map (\<lambda>c. [c]) s"
  using runes_ascii_append [of s "[]"] by simp

text \<open>
  \<open>strings.EqualFold\<close>: rune by rune, up to simple case folding. ASCII letters fold to lower
  case, and U+212A (Kelvin sign) and U+017F (long s) fold to the letters \<open>k\<close> and \<open>s\<close>;
  other non-ASCII runes are compared as they are.
\<close>

definition fold_rune :: "string \<Rightarrow> string" where
  "fold_rune r =
     (case r of
        [c] \<Rightarrow> [lower_char c]
      | _ \<Rightarrow> if map byte r = [226, 132, 170] then ''k''
             else if map byte r = [197, 191] then ''s'' else r)"

definition equal_fold :: "string \<Rightarrow> string \<Rightarrow> bool" where
  "equal_fold s t \<longleftrightarrow> map fold_rune (runes s) = map fold_rune (runes t)"

lemma equal_fold_refl [simp]: "equal_fold s s"
  by (simp add: equal_fold_def)

lemma equal_fold_sym: "equal_fold s t \<Longrightarrow> equal_fold t s"
  by (simp add: equal_fold_def)

lemma equal_fold_trans: "equal_fold s t \<Longrightarrow> equal_fold t u \<Longrightarrow> equal_fold s u"
  by (simp add: equal_fold_def)

subsection \<open>Splitting and joining\<close>

fun split_on :: "char \<Rightarrow> string \<Rightarrow> string list" where
  "split_on c [] = [[]]"
| "split_on c (x # xs) =
     (if x = c then [] # split_on c xs
      else (case split_on c xs of [] \<Rightarrow> [[x]] | y # ys \<Rightarrow> (x # y) # ys))"

fun join_with :: "string \<Rightarrow> string list \<Rightarrow> string" where
  "join_with sep [] = []"
| "join_with sep [x] = x"
| "join_with sep (x # y # xs) = x @ sep @ join_with sep (y # xs)"

lemma split_on_not_Nil [simp]: "split_on c s \<noteq> []"
  by (induction s) (auto split: list.split)

lemma split_on_free: "c \<notin> set s \<Longrightarrow> split_on c s = [s]"
  by (induction s) auto

lemma split_on_append: "c \<notin> set x \<Longrightarrow> split_on c (x @ c # s) = x # split_on c s"
  by (induction x) auto

lemma split_join:
  "xs \<noteq> [] \<Longrightarrow> \<forall>x \<in> set xs. c \<notin> set x \<Longrightarrow> split_on c (join_with [c] xs) = xs"
  by (induction "[c]" xs rule: join_with.induct) (auto simp: split_on_free split_on_append)

lemma join_split: "join_with [c] (split_on c s) = s"
proof (induction s)
  case (Cons x s)
  obtain y ys where "split_on c s = y # ys" using split_on_not_Nil [of c s] by (cases "split_on c s") auto
  with Cons show ?case by (cases ys) auto
qed simp

lemma split_on_elements: "x \<in> set (split_on c s) \<Longrightarrow> c \<notin> set x"
  by (induction s arbitrary: x) (auto split: list.splits if_splits)

lemma set_split_on: "x \<in> set (split_on c s) \<Longrightarrow> set x \<subseteq> set s"
  by (induction s arbitrary: x) (auto split: list.splits if_splits; fastforce)+

end
