(* ===== verification/Go_Float.thy ===== *)
theory Go_Float
  imports Go_Prelude Complex_Main
begin

text \<open>
  Go's \<open>float64\<close>: the finite values are the rationals they denote (with the negative zero
  apart), and arithmetic rounds to the nearest 53-bit significand, ties to even. Comparison, the
  absolute value, subtraction and the \<open>%g\<close> text are what the rule engine uses of them.
\<close>

datatype float64 = NaN | PInf | NInf | Neg_Zero | Fin rat

definition finite_value :: "float64 \<Rightarrow> rat" where
  "finite_value x = (case x of Fin r \<Rightarrow> r | _ \<Rightarrow> 0)"

text \<open>Rounding to an integer, ties to even.\<close>

definition round_even :: "rat \<Rightarrow> int" where
  "round_even x =
     (let f = \<lfloor>x\<rfloor>; d = x - of_int f in
      if d < 1 / 2 then f else if d > 1 / 2 then f + 1 else if even f then f else f + 1)"

definition two_to :: "int \<Rightarrow> rat" where
  "two_to e = (if 0 \<le> e then 2 ^ nat e else 1 / 2 ^ nat (- e))"

function bit_length :: "int \<Rightarrow> int" where
  "bit_length n = (if n \<le> 0 then 0 else 1 + bit_length (n div 2))"
  by pat_completeness auto
termination
  by (relation "measure nat") auto

declare bit_length.simps [simp del]

text \<open>
  The exponent of the last place: the significand has 53 bits unless the value is subnormal. The
  estimate from the bit lengths of numerator and denominator is right or one too small.
\<close>

definition last_place :: "rat \<Rightarrow> int" where
  "last_place x =
     (let (p, q) = quotient_of x;
          e = bit_length p - bit_length q - 53;
          e1 = (if x / two_to e \<ge> 2 ^ 53 then e + 1 else e)
      in max e1 (- 1074))"

definition round_positive :: "rat \<Rightarrow> float64" where
  "round_positive x =
     (let e = last_place x; r = of_int (round_even (x / two_to e)) * two_to e in
      if r \<ge> 2 ^ 1024 then PInf else Fin r)"

definition fl_neg :: "float64 \<Rightarrow> float64" where
  "fl_neg x =
     (case x of NaN \<Rightarrow> NaN | PInf \<Rightarrow> NInf | NInf \<Rightarrow> PInf | Neg_Zero \<Rightarrow> Fin 0
      | Fin r \<Rightarrow> if r = 0 then Neg_Zero else Fin (- r))"

definition round64 :: "rat \<Rightarrow> float64" where
  "round64 x =
     (if x = 0 then Fin 0 else if 0 < x then round_positive x else fl_neg (round_positive (- x)))"

subsection \<open>Comparison and arithmetic\<close>

fun fl_less :: "float64 \<Rightarrow> float64 \<Rightarrow> bool" where
  "fl_less NaN y = False"
| "fl_less x NaN = False"
| "fl_less PInf y = False"
| "fl_less x NInf = False"
| "fl_less NInf y = True"
| "fl_less x PInf = True"
| "fl_less x y = (finite_value x < finite_value y)"

fun fl_eq :: "float64 \<Rightarrow> float64 \<Rightarrow> bool" where
  "fl_eq NaN y = False"
| "fl_eq x NaN = False"
| "fl_eq PInf y = (y = PInf)"
| "fl_eq x PInf = False"
| "fl_eq NInf y = (y = NInf)"
| "fl_eq x NInf = False"
| "fl_eq x y = (finite_value x = finite_value y)"

definition fl_le :: "float64 \<Rightarrow> float64 \<Rightarrow> bool" where
  "fl_le x y \<longleftrightarrow> fl_less x y \<or> fl_eq x y"

definition fl_abs :: "float64 \<Rightarrow> float64" where
  "fl_abs x = (case x of NInf \<Rightarrow> PInf | Neg_Zero \<Rightarrow> Fin 0 | Fin r \<Rightarrow> Fin \<bar>r\<bar> | _ \<Rightarrow> x)"

text \<open>Subtraction; the sign of a zero difference is not kept, which only \<open>math.Abs\<close> reads.\<close>

fun fl_sub :: "float64 \<Rightarrow> float64 \<Rightarrow> float64" where
  "fl_sub NaN y = NaN"
| "fl_sub x NaN = NaN"
| "fl_sub PInf y = (if y = PInf then NaN else PInf)"
| "fl_sub NInf y = (if y = NInf then NaN else NInf)"
| "fl_sub x PInf = NInf"
| "fl_sub x NInf = PInf"
| "fl_sub x y = round64 (finite_value x - finite_value y)"

lemma fl_less_irrefl: "\<not> fl_less x x"
  by (cases x) simp_all

lemma fl_less_trans: "fl_less x y \<Longrightarrow> fl_less y z \<Longrightarrow> fl_less x z"
  by (cases x; cases y; cases z) auto

lemma fl_trichotomy: "x \<noteq> NaN \<Longrightarrow> y \<noteq> NaN \<Longrightarrow> fl_less x y \<or> fl_eq x y \<or> fl_less y x"
  by (cases x; cases y) (auto simp: finite_value_def)

lemma fl_less_not_le: "x \<noteq> NaN \<Longrightarrow> y \<noteq> NaN \<Longrightarrow> fl_less x y \<longleftrightarrow> \<not> fl_le y x"
  by (cases x; cases y) (auto simp: finite_value_def fl_le_def)

subsection \<open>The text of a value\<close>

text \<open>
  \<open>strconv.FormatFloat(x, 'g', -1, 64)\<close>: the shortest decimal digits that round back to the
  value, the closest of them when there are two, in exponent form when the exponent is below -4 or
  at least 6 (the precision Go takes for this decision in the shortest form).
\<close>

function decimal_digits :: "int \<Rightarrow> string" where
  "decimal_digits n =
     (if n < 10 then [char_of (48 + nat n)]
      else decimal_digits (n div 10) @ [char_of (48 + nat (n mod 10))])"
  by pat_completeness auto
termination
  by (relation "measure nat") auto

declare decimal_digits.simps [simp del]

definition ten_to :: "int \<Rightarrow> rat" where
  "ten_to e = (if 0 \<le> e then 10 ^ nat e else 1 / 10 ^ nat (- e))"

text \<open>The decimal exponent \<open>e\<close> with \<open>10 ^ e \<le> x < 10 ^ (e + 1)\<close>, searched from an estimate.\<close>

fun search_exponent :: "nat \<Rightarrow> rat \<Rightarrow> int \<Rightarrow> int" where
  "search_exponent 0 x e = e"
| "search_exponent (Suc k) x e =
     (if x < ten_to e then search_exponent k x (e - 1)
      else if ten_to (e + 1) \<le> x then search_exponent k x (e + 1)
      else e)"

definition decimal_exponent :: "rat \<Rightarrow> int" where
  "decimal_exponent x = search_exponent 700 x 0"

text \<open>The digits of length \<open>n\<close> on either side of the value that read back as the value.\<close>

definition decimal_of_length :: "rat \<Rightarrow> int \<Rightarrow> nat \<Rightarrow> int option" where
  "decimal_of_length x e n =
     (let unit = ten_to (e - int n + 1);
          down = \<lfloor>x / unit\<rfloor>;
          up = down + 1;
          back = (\<lambda>d. round64 (of_int d * unit) = Fin x);
          near_down = x - of_int down * unit \<le> of_int up * unit - x
      in if back down \<and> (near_down \<or> \<not> back up) then Some down
         else if back up then Some up else None)"

fun shortest_decimal :: "nat \<Rightarrow> rat \<Rightarrow> int \<Rightarrow> nat \<Rightarrow> int \<times> nat" where
  "shortest_decimal 0 x e n = (\<lfloor>x / ten_to (e - int n + 1)\<rfloor>, n)"
| "shortest_decimal (Suc k) x e n =
     (case decimal_of_length x e n of Some d \<Rightarrow> (d, n) | None \<Rightarrow> shortest_decimal k x e (n + 1))"

definition exponent_text :: "int \<Rightarrow> string" where
  "exponent_text e =
     (if e < 0 then ''e-'' else ''e+'') @ (if \<bar>e\<bar> < 10 then ''0'' else []) @ decimal_digits \<bar>e\<bar>"

definition fixed_text :: "string \<Rightarrow> int \<Rightarrow> string" where
  "fixed_text ds e =
     (if e < 0 then ''0.'' @ replicate (nat (- e) - 1) (CHR ''0'') @ ds
      else if int (length ds) \<le> e + 1 then ds @ replicate (nat (e + 1) - length ds) (CHR ''0'')
      else take (nat (e + 1)) ds @ ''.'' @ drop (nat (e + 1)) ds)"

definition format_positive :: "rat \<Rightarrow> string" where
  "format_positive x =
     (let e0 = decimal_exponent x;
          (d, n) = shortest_decimal 17 x e0 1;
          ds = decimal_digits d;
          e = (if length ds > n then e0 + 1 else e0);
          trimmed = rev (dropWhile (\<lambda>c. c = CHR ''0'') (rev ds))
      in if e < -4 \<or> e \<ge> 6
         then (if length trimmed = 1 then trimmed else take 1 trimmed @ ''.'' @ drop 1 trimmed) @ exponent_text e
         else fixed_text trimmed e)"

definition format_g :: "float64 \<Rightarrow> string" where
  "format_g x =
     (case x of
        NaN \<Rightarrow> ''NaN'' | PInf \<Rightarrow> ''+Inf'' | NInf \<Rightarrow> ''-Inf'' | Neg_Zero \<Rightarrow> ''-0''
      | Fin r \<Rightarrow> if r = 0 then ''0''
                 else if 0 < r then format_positive r else ''-'' @ format_positive (- r))"

end
