(* ===== verification/Go_Regexp.thy ===== *)
theory Go_Regexp
  imports Go_Prelude
begin

text \<open>
  The part of Go's \<open>regexp\<close> package the sources rely on: a backtracking matcher with
  leftmost-first (Perl) priorities, captures, ASCII word boundaries, greedy and lazy repetition,
  and \<open>ReplaceAllString\<close>. It runs over the runes of the text, so counted repetitions count
  runes and unmatched bytes are copied unchanged. \<open>ends r s\<close> lists every position a match
  of \<open>r\<close> started at \<open>s\<close> may end at, best alternative first; \<open>matches\<close> is the
  declarative meaning it is proved equal to.
\<close>

datatype re =
    Eps
  | Chr "string \<Rightarrow> bool"
  | Cat re re
  | Alt re re
  | Star re
  | Lazy re
  | Word_Boundary
  | Text_Begin
  | Group nat re

record position =
  prev_rune :: "string option"
  rest :: "string list"
  groups :: "(nat \<times> string) list"

definition word_rune :: "string \<Rightarrow> bool" where
  "word_rune r =
     (case r of
        [c] \<Rightarrow> (48 \<le> byte c \<and> byte c \<le> 57) \<or> (65 \<le> byte c \<and> byte c \<le> 90) \<or>
               (97 \<le> byte c \<and> byte c \<le> 122) \<or> byte c = 95
      | _ \<Rightarrow> False)"

definition at_word_boundary :: "position \<Rightarrow> bool" where
  "at_word_boundary s \<longleftrightarrow>
     (case prev_rune s of None \<Rightarrow> False | Some r \<Rightarrow> word_rune r) \<noteq>
     (case rest s of [] \<Rightarrow> False | r # _ \<Rightarrow> word_rune r)"

definition captured :: "position \<Rightarrow> position \<Rightarrow> string" where
  "captured s t = concat (take (length (rest s) - length (rest t)) (rest s))"

text \<open>
  Repetition: each round must consume, so the length of the remaining text bounds the number of
  rounds and is passed as the counter.
\<close>

primrec greedy :: "nat \<Rightarrow> (position \<Rightarrow> position list) \<Rightarrow> position \<Rightarrow> position list" where
  "greedy 0 f s = [s]"
| "greedy (Suc n) f s =
     concat (map (greedy n f) (filter (\<lambda>t. length (rest t) < length (rest s)) (f s))) @ [s]"

primrec lazily :: "nat \<Rightarrow> (position \<Rightarrow> position list) \<Rightarrow> position \<Rightarrow> position list" where
  "lazily 0 f s = [s]"
| "lazily (Suc n) f s =
     s # concat (map (lazily n f) (filter (\<lambda>t. length (rest t) < length (rest s)) (f s)))"

primrec ends :: "re \<Rightarrow> position \<Rightarrow> position list" where
  "ends Eps s = [s]"
| "ends (Chr p) s =
     (case rest s of
        [] \<Rightarrow> []
      | r # rs \<Rightarrow> if p r then [s\<lparr>prev_rune := Some r, rest := rs\<rparr>] else [])"
| "ends (Cat a b) s = concat (map (ends b) (ends a s))"
| "ends (Alt a b) s = ends a s @ ends b s"
| "ends (Star a) s = greedy (length (rest s)) (ends a) s"
| "ends (Lazy a) s = lazily (length (rest s)) (ends a) s"
| "ends Word_Boundary s = (if at_word_boundary s then [s] else [])"
| "ends Text_Begin s = (if prev_rune s = None then [s] else [])"
| "ends (Group n a) s = map (\<lambda>t. t\<lparr>groups := (n, captured s t) # groups t\<rparr>) (ends a s)"

text \<open>The declarative meaning of an expression.\<close>

inductive matches :: "re \<Rightarrow> position \<Rightarrow> position \<Rightarrow> bool" where
  eps: "matches Eps s s"
| chr: "rest s = r # rs \<Longrightarrow> p r \<Longrightarrow> matches (Chr p) s (s\<lparr>prev_rune := Some r, rest := rs\<rparr>)"
| cat: "matches a s t \<Longrightarrow> matches b t u \<Longrightarrow> matches (Cat a b) s u"
| alt_left: "matches a s t \<Longrightarrow> matches (Alt a b) s t"
| alt_right: "matches b s t \<Longrightarrow> matches (Alt a b) s t"
| star_stop: "matches (Star a) s s"
| star_step: "matches a s t \<Longrightarrow> length (rest t) < length (rest s) \<Longrightarrow> matches (Star a) t u \<Longrightarrow>
    matches (Star a) s u"
| lazy_stop: "matches (Lazy a) s s"
| lazy_step: "matches a s t \<Longrightarrow> length (rest t) < length (rest s) \<Longrightarrow> matches (Lazy a) t u \<Longrightarrow>
    matches (Lazy a) s u"
| boundary: "at_word_boundary s \<Longrightarrow> matches Word_Boundary s s"
| beginning: "prev_rune s = None \<Longrightarrow> matches Text_Begin s s"
| group: "matches a s t \<Longrightarrow> matches (Group n a) s (t\<lparr>groups := (n, captured s t) # groups t\<rparr>)"

inductive_cases matches_EpsE: "matches Eps s t"
inductive_cases matches_ChrE: "matches (Chr p) s t"
inductive_cases matches_CatE: "matches (Cat a b) s t"
inductive_cases matches_AltE: "matches (Alt a b) s t"
inductive_cases matches_StarE: "matches (Star a) s t"
inductive_cases matches_LazyE: "matches (Lazy a) s t"
inductive_cases matches_BoundaryE: "matches Word_Boundary s t"
inductive_cases matches_BeginE: "matches Text_Begin s t"
inductive_cases matches_GroupE: "matches (Group n a) s t"

lemmas matches_elims =
  matches_EpsE matches_ChrE matches_CatE matches_AltE matches_BoundaryE matches_BeginE matches_GroupE

lemma greedy_sound:
  assumes "\<And>s t. t \<in> set (f s) \<Longrightarrow> matches a s t"
  shows "t \<in> set (greedy n f s) \<Longrightarrow> matches (Star a) s t"
  by (induction n arbitrary: s) (auto intro: matches.intros assms)

lemma lazily_sound:
  assumes "\<And>s t. t \<in> set (f s) \<Longrightarrow> matches a s t"
  shows "t \<in> set (lazily n f s) \<Longrightarrow> matches (Lazy a) s t"
  by (induction n arbitrary: s) (auto intro: matches.intros assms)

lemma greedy_complete:
  assumes "\<And>s t. matches a s t \<Longrightarrow> t \<in> set (f s)"
  shows "matches (Star a) s t \<Longrightarrow> length (rest s) \<le> n \<Longrightarrow> t \<in> set (greedy n f s)"
proof (induction n arbitrary: s)
  case 0
  from "0.prems" show ?case by (auto elim: matches_StarE)
next
  case (Suc n)
  from Suc.prems(1) consider "t = s"
    | u where "matches a s u" "length (rest u) < length (rest s)" "matches (Star a) u t"
    by (auto elim: matches_StarE)
  then show ?case
  proof cases
    case 2
    with Suc.prems(2) have "t \<in> set (greedy n f u)" by (intro Suc.IH) auto
    with 2 show ?thesis by (auto intro!: bexI [of _ u] assms)
  qed simp
qed

lemma lazily_complete:
  assumes "\<And>s t. matches a s t \<Longrightarrow> t \<in> set (f s)"
  shows "matches (Lazy a) s t \<Longrightarrow> length (rest s) \<le> n \<Longrightarrow> t \<in> set (lazily n f s)"
proof (induction n arbitrary: s)
  case 0
  from "0.prems" show ?case by (auto elim: matches_LazyE)
next
  case (Suc n)
  from Suc.prems(1) consider "t = s"
    | u where "matches a s u" "length (rest u) < length (rest s)" "matches (Lazy a) u t"
    by (auto elim: matches_LazyE)
  then show ?case
  proof cases
    case 2
    with Suc.prems(2) have "t \<in> set (lazily n f u)" by (intro Suc.IH) auto
    with 2 show ?thesis by (auto intro!: bexI [of _ u] assms)
  qed simp
qed

lemma ends_sound: "t \<in> set (ends r s) \<Longrightarrow> matches r s t"
proof (induction r arbitrary: s t)
  case (Cat a b)
  then obtain u where "u \<in> set (ends a s)" "t \<in> set (ends b u)" by auto
  with Cat.IH show ?case by (blast intro: matches.cat)
qed (auto intro: matches.eps matches.chr matches.alt_left matches.alt_right matches.boundary
      matches.beginning matches.group greedy_sound lazily_sound split: list.splits if_splits)

lemma ends_complete: "matches r s t \<Longrightarrow> t \<in> set (ends r s)"
proof (induction r arbitrary: s t)
  case (Star r)
  then show ?case by (auto intro: greedy_complete)
next
  case (Lazy r)
  then show ?case by (auto intro: lazily_complete)
qed (fastforce elim: matches_elims)+

lemma ends_iff_matches: "t \<in> set (ends r s) \<longleftrightarrow> matches r s t"
  by (blast intro: ends_sound ends_complete)

lemma matches_suffix: "matches r s t \<Longrightarrow> suffix (rest t) (rest s)"
  by (induction rule: matches.induct) (auto simp: suffix_def)

text \<open>
  Replacement. The text before the leftmost match is copied, the match is replaced by what the
  template makes of its captures, and the search goes on behind it. No pattern of the sources
  matches the empty text, so an empty match, which Go would also replace, does not occur
  (\<open>no_empty_match\<close> below states the condition).
\<close>

function replace_from :: "re \<Rightarrow> (position \<Rightarrow> string) \<Rightarrow> string option \<Rightarrow> string list \<Rightarrow> string" where
  "replace_from r tmpl prev rs =
     (case ends r \<lparr>prev_rune = prev, rest = rs, groups = []\<rparr> of
        t # _ \<Rightarrow>
          if length (rest t) < length rs then tmpl t @ replace_from r tmpl (prev_rune t) (rest t)
          else (case rs of [] \<Rightarrow> [] | x # xs \<Rightarrow> x @ replace_from r tmpl (Some x) xs)
      | [] \<Rightarrow> (case rs of [] \<Rightarrow> [] | x # xs \<Rightarrow> x @ replace_from r tmpl (Some x) xs))"
  by pat_completeness auto
termination
  by (relation "measure (\<lambda>(r, tmpl, prev, rs). length rs)") auto

declare replace_from.simps [simp del]

definition replace_all_string :: "re \<Rightarrow> (position \<Rightarrow> string) \<Rightarrow> string \<Rightarrow> string" where
  "replace_all_string r tmpl s = replace_from r tmpl None (runes s)"

definition group_text :: "nat \<Rightarrow> position \<Rightarrow> string" where
  "group_text n t = (case map_of (groups t) n of None \<Rightarrow> [] | Some s \<Rightarrow> s)"

text \<open>Building blocks for writing patterns.\<close>

definition lit :: "string \<Rightarrow> re" where
  "lit s = foldr (\<lambda>c r. Cat (Chr (\<lambda>x. x = [c])) r) s Eps"

text \<open>A literal under the \<open>(?i)\<close> flag, written in lower case.\<close>

definition ilit :: "string \<Rightarrow> re" where
  "ilit s = foldr (\<lambda>c r. Cat (Chr (\<lambda>x. fold_rune x = [c])) r) s Eps"

definition opt :: "re \<Rightarrow> re" where
  "opt r = Alt r Eps"

definition plus :: "re \<Rightarrow> re" where
  "plus r = Cat r (Star r)"

primrec at_least :: "nat \<Rightarrow> re \<Rightarrow> re" where
  "at_least 0 r = Star r"
| "at_least (Suc n) r = Cat r (at_least n r)"

fun alts :: "re list \<Rightarrow> re" where
  "alts [] = Chr (\<lambda>_. False)"
| "alts [r] = r"
| "alts (r # rs) = Alt r (alts rs)"

fun cats :: "re list \<Rightarrow> re" where
  "cats [] = Eps"
| "cats [r] = r"
| "cats (r # rs) = Cat r (cats rs)"

definition one_of :: "string \<Rightarrow> string \<Rightarrow> bool" where
  "one_of chars r = (case r of [c] \<Rightarrow> c \<in> set chars | _ \<Rightarrow> False)"

definition in_range :: "nat \<Rightarrow> nat \<Rightarrow> string \<Rightarrow> bool" where
  "in_range lo hi r = (case r of [c] \<Rightarrow> lo \<le> byte c \<and> byte c \<le> hi | _ \<Rightarrow> False)"

definition space_rune :: "string \<Rightarrow> bool" where
  "space_rune r = (case r of [c] \<Rightarrow> byte c \<in> {9, 10, 12, 13, 32} | _ \<Rightarrow> False)"

subsection \<open>Texts a pattern leaves alone\<close>

text \<open>
  \<open>needs p r\<close>: every match of \<open>r\<close> consumes a rune that satisfies \<open>p\<close>. It is a
  syntactic check (an \<open>Alt\<close> needs it on both sides, a \<open>Cat\<close> on one) on what a
  character class lets through, and a text without such a rune is left as it is.
\<close>

inductive needs :: "(string \<Rightarrow> bool) \<Rightarrow> re \<Rightarrow> bool" for p where
  needs_chr: "(\<And>r. q r \<Longrightarrow> p r) \<Longrightarrow> needs p (Chr q)"
| needs_cat1: "needs p a \<Longrightarrow> needs p (Cat a b)"
| needs_cat2: "needs p b \<Longrightarrow> needs p (Cat a b)"
| needs_alt: "needs p a \<Longrightarrow> needs p b \<Longrightarrow> needs p (Alt a b)"
| needs_group: "needs p a \<Longrightarrow> needs p (Group n a)"

lemma needs_consumes:
  assumes "needs p r" "matches r s t"
  shows "\<exists>x \<in> set (rest s). p x"
  using assms
proof (induction arbitrary: s t rule: needs.induct)
  case (needs_cat2 b a)
  from needs_cat2.prems obtain u where u: "matches a s u" "matches b u t"
    by (auto elim: matches_CatE)
  from needs_cat2.IH [OF u(2)] matches_suffix [OF u(1)] show ?case
    by (meson set_mono_suffix subsetD)
qed (auto elim!: matches_elims)

lemma ends_empty_needs:
  "needs p r \<Longrightarrow> list_all (\<lambda>x. \<not> p x) (rest s) \<Longrightarrow> ends r s = []"
  using needs_consumes [of p r s] ends_sound [of _ r s]
  by (cases "ends r s") (auto simp: list_all_iff)

lemma replace_from_needs:
  "needs p r \<Longrightarrow> list_all (\<lambda>x. \<not> p x) rs \<Longrightarrow> replace_from r tmpl prev rs = concat rs"
proof (induction rs arbitrary: prev)
  case Nil
  then show ?case by (simp add: replace_from.simps ends_empty_needs)
next
  case (Cons x xs)
  then show ?case by (subst replace_from.simps) (simp add: ends_empty_needs)
qed

lemma replace_all_string_needs:
  "needs p r \<Longrightarrow> list_all (\<lambda>x. \<not> p x) (runes s) \<Longrightarrow> replace_all_string r tmpl s = s"
  by (simp add: replace_all_string_def replace_from_needs)

definition no_empty_match :: "re \<Rightarrow> bool" where
  "no_empty_match r \<longleftrightarrow> (\<forall>s t. matches r s t \<longrightarrow> length (rest t) < length (rest s))"

lemma needs_no_empty_match:
  assumes "needs p r"
  shows "no_empty_match r"
proof -
  have "matches r s t \<Longrightarrow> length (rest t) < length (rest s)" for s t
    using assms
  proof (induction arbitrary: s t rule: needs.induct)
    case (needs_cat1 a b)
    then show ?case by (auto elim!: matches_CatE dest!: matches_suffix [of b] suffix_length_le intro: le_less_trans)
  next
    case (needs_cat2 b a)
    then show ?case by (auto elim!: matches_CatE dest!: matches_suffix [of a] suffix_length_le intro: less_le_trans)
  qed (auto elim!: matches_elims)
  then show ?thesis by (simp add: no_empty_match_def)
qed

end
