(* ===== verification/Redaction.thy ===== *)
theory Redaction
  imports Go_Regexp
begin

text \<open>
  \<open>internal/redaction\<close>: the seven patterns of \<open>patterns.go\<close> written as expressions of
  \<open>Go_Regexp\<close>, \<open>Redact\<close> as the chain of replacements of \<open>redact.go\<close>, and
  \<open>IsSensitiveKey\<close>. Every other component calls \<open>Redact\<close>; the lemmas say which texts it
  leaves alone.
\<close>

definition Replacement :: string where
  "Replacement = ''[REDACTED]''"

subsection \<open>Character classes\<close>

definition alnum :: "string \<Rightarrow> bool" where
  "alnum r \<longleftrightarrow> in_range 65 90 r \<or> in_range 97 122 r \<or> in_range 48 57 r"

text \<open>The same class under \<open>(?i)\<close>, where simple folding adds U+212A and U+017F.\<close>

definition ialnum :: "string \<Rightarrow> bool" where
  "ialnum r \<longleftrightarrow> in_range 97 122 (fold_rune r) \<or> in_range 48 57 r"

definition token_rune :: "string \<Rightarrow> bool" where
  "token_rune r \<longleftrightarrow> alnum r \<or> one_of ''._~+/=-'' r"

definition itoken_rune :: "string \<Rightarrow> bool" where
  "itoken_rune r \<longleftrightarrow> ialnum r \<or> one_of ''._~+/=-'' r"

definition quote_or_angle :: "string \<Rightarrow> bool" where
  "quote_or_angle r \<longleftrightarrow> one_of [CHR 0x22, CHR 0x27, CHR ''<'', CHR ''>''] r"

definition url_rune :: "string \<Rightarrow> bool" where
  "url_rune r \<longleftrightarrow> \<not> space_rune r \<and> \<not> quote_or_angle r"

definition key_rune :: "string \<Rightarrow> bool" where
  "key_rune r \<longleftrightarrow> ialnum r \<or> one_of ''_.-'' r"

definition value_rune :: "string \<Rightarrow> bool" where
  "value_rune r \<longleftrightarrow> \<not> space_rune r \<and> \<not> one_of '',;&'' r"

subsection \<open>The patterns\<close>

definition discordWebhookPattern :: re where
  "discordWebhookPattern =
     cats [lit ''https://'', opt (Cat (Alt (lit ''canary'') (lit ''ptb'')) (lit ''.'')),
           lit ''discord'', opt (lit ''app''), lit ''.com/api/webhooks/'',
           plus (Chr (in_range 48 57)), lit ''/'', plus (Chr token_rune)]"

definition genericWebhookTokenURLPattern :: re where
  "genericWebhookTokenURLPattern =
     cats [Word_Boundary, ilit ''http'', opt (ilit ''s''), ilit ''://'', Star (Chr url_rune),
           Alt Text_Begin (ilit ''/''), ilit ''webhook'', opt (ilit ''s''), ilit ''/'',
           at_least 8 (Chr (\<lambda>r. url_rune r \<and> \<not> one_of ''/'' r)), ilit ''/'',
           at_least 16 (Chr itoken_rune), Star (Chr url_rune)]"

definition privateKeyPattern :: re where
  "privateKeyPattern =
     cats [ilit ''-----begin '', Star (Chr (\<lambda>r. ialnum r \<or> one_of '' '' r)),
           ilit ''private key-----'', Lazy (Chr (\<lambda>_. True)),
           ilit ''-----end '', Star (Chr (\<lambda>r. ialnum r \<or> one_of '' '' r)),
           ilit ''private key-----'']"

definition authorizedKeyPattern :: re where
  "authorizedKeyPattern =
     cats [Word_Boundary,
           alts [lit ''ssh-rsa'', lit ''ssh-ed25519'',
                 Cat (lit ''ecdsa-sha2-nistp'') (plus (Chr (in_range 48 57))),
                 lit ''sk-ssh-ed25519@openssh.com'', lit ''sk-ecdsa-sha2-nistp256@openssh.com''],
           plus (Chr space_rune), at_least 20 (Chr (\<lambda>r. alnum r \<or> one_of ''+/='' r)),
           opt (Cat (plus (Chr space_rune)) (plus (Chr (\<lambda>r. \<not> space_rune r))))]"

definition colon_or_equals :: re where
  "colon_or_equals = Chr (one_of '':='')"

definition authorizationPattern :: re where
  "authorizationPattern =
     cats [Word_Boundary,
           Group 1 (cats [ilit ''authorization'', Star (Chr space_rune), colon_or_equals,
                          Star (Chr space_rune)]),
           opt (alts [ilit ''bearer'', ilit ''basic'', ilit ''token'']),
           Star (Chr space_rune), plus (Chr itoken_rune)]"

definition api_key_word :: re where
  "api_key_word = cats [ilit ''api'', opt (Chr (one_of ''_-'')), ilit ''key'']"

definition querySecretPattern :: re where
  "querySecretPattern =
     cats [Group 1 (cats [Chr (one_of ''?&''),
             alts [ilit ''access_token'', ilit ''refresh_token'', ilit ''id_token'', ilit ''token'',
                   api_key_word, ilit ''apikey'', ilit ''key'', ilit ''password'', ilit ''passwd'',
                   ilit ''pwd'', ilit ''secret'', ilit ''signature'', ilit ''sig'', ilit ''auth'',
                   ilit ''authorization'', ilit ''code''],
             Chr (one_of ''='')]),
           plus (Chr (\<lambda>r. url_rune r \<and> \<not> one_of ''&'' r))]"

definition secret_words :: re where
  "secret_words =
     alts [ilit ''token'', ilit ''secret'', ilit ''password'', ilit ''passwd'', ilit ''pwd'',
           api_key_word, ilit ''apikey'', ilit ''authorization'', ilit ''webhook'',
           cats [ilit ''private'', opt (Chr (one_of ''_-'')), ilit ''key'']]"

definition keyValuePattern :: re where
  "keyValuePattern =
     cats [Word_Boundary,
           Group 1 (alts [cats [Star (Chr key_rune), secret_words, Star (Chr key_rune)],
                          ilit ''password'', ilit ''passwd'', ilit ''pwd'', ilit ''token'',
                          api_key_word, ilit ''apikey'', ilit ''secret'', ilit ''client_secret'',
                          ilit ''authorization'', ilit ''webhook'']),
           Word_Boundary,
           Group 2 (cats [Star (Chr space_rune), colon_or_equals, Star (Chr space_rune)]),
           Group 3 (alts [cats [Chr (one_of [CHR 0x22]), Star (Chr (\<lambda>r. \<not> one_of [CHR 0x22] r)),
                                Chr (one_of [CHR 0x22])],
                          cats [Chr (one_of [CHR 0x27]), Star (Chr (\<lambda>r. \<not> one_of [CHR 0x27] r)),
                                Chr (one_of [CHR 0x27])],
                          plus (Chr value_rune)])]"

definition Redact :: "string \<Rightarrow> string" where
  "Redact s =
     (if s = [] then s
      else
        (let out = replace_all_string privateKeyPattern (\<lambda>_. Replacement) s;
             out = replace_all_string discordWebhookPattern (\<lambda>_. Replacement) out;
             out = replace_all_string genericWebhookTokenURLPattern (\<lambda>_. Replacement) out;
             out = replace_all_string authorizedKeyPattern (\<lambda>_. Replacement) out;
             out = replace_all_string authorizationPattern (\<lambda>t. group_text 1 t @ Replacement) out;
             out = replace_all_string querySecretPattern (\<lambda>t. group_text 1 t @ Replacement) out;
             out = replace_all_string keyValuePattern
                     (\<lambda>t. group_text 1 t @ group_text 2 t @ Replacement) out
         in out))"

definition sensitive_needles :: "string list" where
  "sensitive_needles =
     [''token'', ''secret'', ''password'', ''passwd'', ''pwd'', ''apikey'', ''authorization'',
      ''webhook'', ''privatekey'', ''authorizedkeys'']"

definition IsSensitiveKey :: "string \<Rightarrow> bool" where
  "IsSensitiveKey key =
     (let normalized = filter (\<lambda>c. c \<notin> set ''_-.'') (to_lower key)
      in list_ex (contains_sub normalized) sensitive_needles)"

subsection \<open>Texts redaction leaves alone\<close>

lemma lower_char_other: "lower_char c = d \<Longrightarrow> \<not> (97 \<le> byte d \<and> byte d \<le> 122) \<Longrightarrow> c = d"
  by (auto simp: lower_char_def byte_def)

lemma fold_rune_other: "fold_rune x = [d] \<Longrightarrow> \<not> (97 \<le> byte d \<and> byte d \<le> 122) \<Longrightarrow> x = [d]"
  by (auto simp: fold_rune_def byte_def split: list.splits if_splits intro: lower_char_other)

lemma needs_lit: "c \<in> set s \<Longrightarrow> p [c] \<Longrightarrow> needs p (lit s)"
proof (induction s)
  case (Cons d s)
  then show ?case
    by (cases "c = d") (auto simp: lit_def intro: needs_cat1 needs_cat2 needs_chr)
qed simp

lemma needs_ilit:
  "c \<in> set s \<Longrightarrow> p [c] \<Longrightarrow> \<not> (97 \<le> byte c \<and> byte c \<le> 122) \<Longrightarrow> needs p (ilit s)"
proof (induction s)
  case (Cons d s)
  show ?case
  proof (cases "c = d")
    case True
    have "needs p (Chr (\<lambda>x. fold_rune x = [d]))"
      using Cons.prems True by (auto intro!: needs_chr dest: fold_rune_other)
    then show ?thesis by (simp add: ilit_def needs_cat1)
  next
    case False
    with Cons show ?thesis by (auto simp: ilit_def intro: needs_cat2)
  qed
qed simp

lemma needs_cats: "r \<in> set rs \<Longrightarrow> needs p r \<Longrightarrow> needs p (cats rs)"
  by (induction rs rule: cats.induct) (auto intro: needs_cat1 needs_cat2)

lemma needs_alts: "(\<And>r. r \<in> set rs \<Longrightarrow> needs p r) \<Longrightarrow> needs p (alts rs)"
  by (induction rs rule: alts.induct) (auto intro: needs_alt needs_chr)

lemma needs_plus: "needs p r \<Longrightarrow> needs p (plus r)"
  by (simp add: plus_def needs_cat1)

lemma needs_one_of: "(\<And>c. c \<in> set cs \<Longrightarrow> p [c]) \<Longrightarrow> needs p (Chr (one_of cs))"
  by (rule needs_chr) (auto simp: one_of_def split: list.splits)

lemma byte_of_char [simp]: "byte (Char b0 b1 b2 b3 b4 b5 b6 b7) =
    of_bool b0 + 2 * of_bool b1 + 4 * of_bool b2 + 8 * of_bool b3 + 16 * of_bool b4 +
    32 * of_bool b5 + 64 * of_bool b6 + 128 * of_bool b7"
  by (simp add: byte_def of_char_def)

lemma needs_discord: "p '':'' \<Longrightarrow> needs p discordWebhookPattern"
  unfolding discordWebhookPattern_def
  by (rule needs_cats [of "lit ''https://''"]) (auto intro: needs_lit [of "CHR '':''"])

lemma needs_generic: "p '':'' \<Longrightarrow> needs p genericWebhookTokenURLPattern"
  unfolding genericWebhookTokenURLPattern_def
  by (rule needs_cats [of "ilit ''://''"]) (auto intro: needs_ilit [of "CHR '':''"])

lemma needs_private: "p ''-'' \<or> p '' '' \<Longrightarrow> needs p privateKeyPattern"
  unfolding privateKeyPattern_def
  by (rule needs_cats [of "ilit ''-----begin ''"])
     (auto intro: needs_ilit [of "CHR ''-''"] needs_ilit [of "CHR '' ''"])

lemma needs_authorized_space:
  "(\<And>r. space_rune r \<Longrightarrow> p r) \<Longrightarrow> needs p authorizedKeyPattern"
  unfolding authorizedKeyPattern_def
  by (rule needs_cats [of "plus (Chr space_rune)"]) (auto intro: needs_plus needs_chr)

lemma needs_authorized_dash: "p ''-'' \<Longrightarrow> needs p authorizedKeyPattern"
  unfolding authorizedKeyPattern_def
  by (rule needs_cats [OF list.set_intros(2) [OF list.set_intros(1)]], rule needs_alts)
     (auto intro: needs_lit [of "CHR ''-''"] intro!: needs_cat1 [OF needs_lit [of "CHR ''-''"]])

lemma needs_authorization: "p '':'' \<Longrightarrow> p ''='' \<Longrightarrow> needs p authorizationPattern"
  unfolding authorizationPattern_def colon_or_equals_def
  by (rule needs_cats [OF list.set_intros(2) [OF list.set_intros(1)]], rule needs_group,
      rule needs_cats [of "Chr (one_of '':='')"]) (auto intro: needs_one_of)

lemma needs_query: "p ''='' \<Longrightarrow> needs p querySecretPattern"
  unfolding querySecretPattern_def
  by (rule needs_cats [OF list.set_intros(1)], rule needs_group,
      rule needs_cats [of "Chr (one_of ''='')"]) (auto intro: needs_one_of)

lemma needs_key_value: "p '':'' \<Longrightarrow> p ''='' \<Longrightarrow> needs p keyValuePattern"
  unfolding keyValuePattern_def colon_or_equals_def
  by (rule needs_cats [OF list.set_intros(2) [OF list.set_intros(2)
        [OF list.set_intros(2) [OF list.set_intros(1)]]]], rule needs_group,
      rule needs_cats [of "Chr (one_of '':='')"]) (auto intro: needs_one_of)

lemma runes_chars: "[c] \<in> set (runes s) \<Longrightarrow> c \<in> set s"
  using set_concat [of "runes s"] by (auto intro: bexI [of _ "[c]"])

definition plain_text :: "string \<Rightarrow> bool" where
  "plain_text s \<longleftrightarrow> CHR '':'' \<notin> set s \<and> CHR ''='' \<notin> set s \<and>
     (CHR ''-'' \<notin> set s \<or> list_all (\<lambda>c. \<not> space_rune [c]) s)"

lemma replace_undashed:
  assumes "CHR '':'' \<notin> set s" "CHR ''='' \<notin> set s" "CHR ''-'' \<notin> set s"
    "needs (\<lambda>r. r = '':'' \<or> r = ''='' \<or> r = ''-'') p"
  shows "replace_all_string p tmpl s = s"
  using assms by (auto simp: list_all_iff dest: runes_chars intro!: replace_all_string_needs)

lemma space_rune_single: "space_rune r \<Longrightarrow> \<exists>c. r = [c]"
  by (auto simp: space_rune_def split: list.splits)

lemma replace_unspaced:
  assumes "CHR '':'' \<notin> set s" "CHR ''='' \<notin> set s" "list_all (\<lambda>c. \<not> space_rune [c]) s"
    "needs (\<lambda>r. r = '':'' \<or> r = ''='' \<or> space_rune r) p"
  shows "replace_all_string p tmpl s = s"
proof (rule replace_all_string_needs [OF assms(4)])
  have "\<not> (x = '':'' \<or> x = ''='' \<or> space_rune x)" if "x \<in> set (runes s)" for x
    using that assms(1-3) runes_chars space_rune_single by (fastforce simp: list_all_iff)
  then show "list_all (\<lambda>x. \<not> (x = '':'' \<or> x = ''='' \<or> space_rune x)) (runes s)"
    by (simp add: list_all_iff)
qed

lemmas needs_patterns =
  needs_private needs_discord needs_generic needs_authorized_dash needs_authorized_space
  needs_authorization needs_query needs_key_value

lemma Redact_plain [simp]:
  assumes "plain_text s"
  shows "Redact s = s"
proof -
  have sp: "space_rune '' ''" by (simp add: space_rune_def)
  consider "CHR ''-'' \<notin> set s" | "list_all (\<lambda>c. \<not> space_rune [c]) s"
    using assms by (auto simp: plain_text_def)
  then show ?thesis
  proof cases
    case 1
    then show ?thesis using assms
      by (simp add: Redact_def plain_text_def replace_undashed needs_patterns)
  next
    case 2
    then show ?thesis using assms sp
      by (simp add: Redact_def plain_text_def replace_unspaced needs_patterns)
  qed
qed

lemma Redact_Nil [simp]: "Redact [] = []"
  by (simp add: Redact_def)

end
