(* ===== verification/Go_Strconv.thy ===== *)
theory Go_Strconv
  imports Go_Prelude
begin

text \<open>
  \<open>strconv\<close> for decimal integers: \<open>Itoa\<close>, \<open>ParseUint\<close>, \<open>ParseInt\<close> and \<open>Atoi\<close> in base 10 for
  64-bit values. A failure is the kind of the error (syntax or range).
\<close>

datatype num_error = Err_Syntax | Err_Range

definition digit_char :: "char \<Rightarrow> bool" where
  "digit_char c \<longleftrightarrow> byte (CHR ''0'') \<le> byte c \<and> byte c \<le> byte (CHR ''9'')"

definition digit_value :: "char \<Rightarrow> nat" where
  "digit_value c = byte c - byte (CHR ''0'')"

function nat_text :: "nat \<Rightarrow> string" where
  "nat_text n = (if n < 10 then [char_of (48 + n)] else nat_text (n div 10) @ [char_of (48 + n mod 10)])"
  by pat_completeness auto
termination by (relation "measure id") auto

declare nat_text.simps [simp del]

definition Itoa :: "int \<Rightarrow> string" where
  "Itoa n = (if n < 0 then CHR ''-'' # nat_text (nat (- n)) else nat_text (nat n))"

definition digits_value :: "string \<Rightarrow> nat" where
  "digits_value s = foldl (\<lambda>n c. 10 * n + digit_value c) 0 s"

text \<open>The digits are read in order, so a value that is too large is noticed before a later character.\<close>

definition ParseUint :: "string \<Rightarrow> num_error + nat" where
  "ParseUint s =
     (if s = [] then Inl Err_Syntax
      else if digits_value (takeWhile digit_char s) \<ge> 2 ^ 64 then Inl Err_Range
      else if \<not> list_all digit_char s then Inl Err_Syntax
      else Inr (digits_value s))"

lemma takeWhile_digits: "list_all digit_char s \<Longrightarrow> takeWhile digit_char s = s"
  by (simp add: list_all_iff)

definition ParseInt :: "string \<Rightarrow> num_error + int" where
  "ParseInt s =
     (let neg = prefix ''-'' s;
          rest = (if neg \<or> prefix ''+'' s then tl s else s)
      in case ParseUint rest of
           Inl e \<Rightarrow> Inl e
         | Inr n \<Rightarrow>
             if \<not> neg \<and> n \<ge> 2 ^ 63 then Inl Err_Range
             else if neg \<and> n > 2 ^ 63 then Inl Err_Range
             else Inr (if neg then - int n else int n))"

abbreviation Atoi :: "string \<Rightarrow> num_error + int" where
  "Atoi \<equiv> ParseInt"

subsection \<open>Printing and reading back\<close>

lemma byte_digit: "(n::nat) < 10 \<Longrightarrow> byte (char_of (48 + n)) = 48 + n"
  by (simp add: byte_def)

lemma digit_char_digit [simp]: "(n::nat) < 10 \<Longrightarrow> digit_char (char_of (48 + n))"
  by (simp add: digit_char_def byte_digit) (simp add: byte_def)

lemma digit_value_digit [simp]: "(n::nat) < 10 \<Longrightarrow> digit_value (char_of (48 + n)) = n"
  by (simp add: digit_value_def byte_digit) (simp add: byte_def)

lemma nat_text_digits: "list_all digit_char (nat_text n)"
  by (induction n rule: nat_text.induct) (subst nat_text.simps, simp)

lemma nat_text_not_Nil [simp]: "nat_text n \<noteq> []"
  by (subst nat_text.simps) simp

lemma nat_text_value: "digits_value (nat_text n) = n"
proof (induction n rule: nat_text.induct)
  case (1 n)
  show ?case
  proof (cases "n < 10")
    case True
    then show ?thesis by (subst nat_text.simps) (simp add: digits_value_def)
  next
    case False
    with 1 have "digits_value (nat_text (n div 10)) = n div 10" by simp
    with False show ?thesis by (subst nat_text.simps) (simp add: digits_value_def)
  qed
qed

lemma ParseUint_nat_text: "n < 2 ^ 64 \<Longrightarrow> ParseUint (nat_text n) = Inr n"
  by (simp add: ParseUint_def nat_text_digits nat_text_value takeWhile_digits)

lemma nat_text_no_sign: "c \<in> set (nat_text n) \<Longrightarrow> c \<noteq> CHR ''-'' \<and> c \<noteq> CHR ''+''"
  using nat_text_digits [of n] by (auto simp: list_all_iff digit_char_def byte_def)

lemma nat_text_unsigned: "\<not> prefix ''-'' (nat_text n)" "\<not> prefix ''+'' (nat_text n)"
proof -
  have "\<not> prefix [c] (nat_text n)" if "c = CHR ''-'' \<or> c = CHR ''+''" for c
  proof
    assume "prefix [c] (nat_text n)"
    then have "c \<in> set (nat_text n)" by (auto simp: prefix_def)
    from nat_text_no_sign [OF this] that show False by blast
  qed
  then show "\<not> prefix ''-'' (nat_text n)" "\<not> prefix ''+'' (nat_text n)" by blast+
qed

lemma ParseInt_Itoa: "- (2 ^ 63) \<le> n \<Longrightarrow> n < 2 ^ 63 \<Longrightarrow> ParseInt (Itoa n) = Inr n"
  by (auto simp: ParseInt_def Itoa_def ParseUint_nat_text nat_text_unsigned nat_less_iff)

lemma ParseUint_range: "ParseUint s = Inr n \<Longrightarrow> n < 2 ^ 64"
  by (auto simp: ParseUint_def takeWhile_digits split: if_splits)

end
