(* ===== verification/Go_Runtime.thy ===== *)
theory Go_Runtime
  imports Redaction Go_Strconv
begin

text \<open>
  Go's error values and the world an operation runs in. An error is a tree of wrappers over
  sentinels, so that \<open>errors.Is\<close> and the text of an error compute; \<open>Storage_Error\<close> is
  \<open>storage.Error\<close> of \<open>internal/storage/errors.go\<close>, \<open>Cycle_Error\<close> is
  \<open>safeCycleError\<close> of \<open>internal/agent/scheduler.go\<close>, \<open>Command_Error\<close> is
  \<open>command.CommandError\<close> of \<open>internal/command/result.go\<close> (class, path, exit code, captured error
  output, cause), and \<open>Sys_Error\<close> an error of the system with its text and the sentinel it is.

  The world carries the data an operation works on, the reading of the wall clock, and a script
  of what the outside does to it: every poll of a context and every SQL statement consumes one
  entry, \<open>None\<close> for "goes through" and \<open>Some f\<close> for a failure (the context was
  canceled or ran out of time, or the driver reported an error). The empty script is
  a world where nothing fails. Operations are state transformers that return an error or a value.
\<close>

subsection \<open>Errors\<close>

datatype error_class =
    ErrorClassValidation | ErrorClassOpen | ErrorClassMigrate | ErrorClassQuery
  | ErrorClassWrite | ErrorClassNotFound | ErrorClassClosed | ErrorClassFuture

definition error_class_text :: "error_class \<Rightarrow> string" where
  "error_class_text c =
     (case c of
        ErrorClassValidation \<Rightarrow> ''validation'' | ErrorClassOpen \<Rightarrow> ''open''
      | ErrorClassMigrate \<Rightarrow> ''migrate'' | ErrorClassQuery \<Rightarrow> ''query''
      | ErrorClassWrite \<Rightarrow> ''write'' | ErrorClassNotFound \<Rightarrow> ''not_found''
      | ErrorClassClosed \<Rightarrow> ''closed'' | ErrorClassFuture \<Rightarrow> ''future_schema'')"

datatype go_error =
    Text_Error string
  | Wrap_Error string go_error
  | Storage_Error string error_class go_error
  | Redacted_Error string
  | Cycle_Error string string "go_error option"
  | Joined_Error go_error go_error
  | ErrNotFound | ErrClosed | ErrFutureSchema | ErrNoRows
  | Context_Canceled | Context_DeadlineExceeded
  | ErrCycleAlreadyRunning | ErrCollectorFailure | ErrNotificationFailure
  | Sys_Error string go_error
  | ErrNotExist | ErrPermission | ELOOP
  | Command_Error string string int string "go_error option"

text \<open>\<open>safeSummary\<close> of the scheduler, which the text of a cycle error goes through.\<close>

definition cycle_summary :: "string \<Rightarrow> string" where
  "cycle_summary value =
     (let value = Redact value
      in if value = [] then ''scheduler cycle failed''
         else if length value > 300 then cut 300 value else value)"

text \<open>The parts of the text of a command error: a part that is empty or zero is left out.\<close>

definition command_parts :: "string \<Rightarrow> string \<Rightarrow> int \<Rightarrow> string list \<Rightarrow> string \<Rightarrow> string list" where
  "command_parts cls path code cause stderr =
     [''command failed'', ''class='' @ cls] @ (if path \<noteq> [] then [''path='' @ path] else []) @
     (if code \<noteq> 0 then [''exit_code='' @ Itoa code] else []) @ cause @
     (if stderr \<noteq> [] then [''stderr='' @ stderr] else [])"

fun error_text :: "go_error \<Rightarrow> string" where
  "error_text (Text_Error s) = s"
| "error_text (Wrap_Error p e) = p @ '': '' @ error_text e"
| "error_text (Storage_Error op cls e) =
     Redact (''storage '' @ op @ '' failed class='' @ error_class_text cls @ '': '' @ error_text e)"
| "error_text (Redacted_Error s) = s"
| "error_text (Cycle_Error c s e) = cycle_summary s"
| "error_text (Joined_Error a b) = error_text a @ [CHR 0x0A] @ error_text b"
| "error_text ErrNotFound = ''storage record not found''"
| "error_text ErrClosed = ''storage is closed''"
| "error_text ErrFutureSchema = ''database schema is newer than this binary supports''"
| "error_text ErrNoRows = ''sql: no rows in result set''"
| "error_text Context_Canceled = ''context canceled''"
| "error_text Context_DeadlineExceeded = ''context deadline exceeded''"
| "error_text ErrCycleAlreadyRunning = ''scheduler cycle already running''"
| "error_text ErrCollectorFailure = ''collector failure''"
| "error_text ErrNotificationFailure = ''notification delivery failure''"
| "error_text (Sys_Error s e) = s"
| "error_text ErrNotExist = ''file does not exist''"
| "error_text ErrPermission = ''permission denied''"
| "error_text ELOOP = ''too many levels of symbolic links''"
| "error_text (Command_Error cls path code stderr None) = Redact (join_with '' '' (command_parts cls path code [] stderr))"
| "error_text (Command_Error cls path code stderr (Some e)) =
     Redact (join_with '' '' (command_parts cls path code [''error='' @ error_text e] stderr))"

fun errors_is :: "go_error \<Rightarrow> go_error \<Rightarrow> bool" where
  "errors_is (Wrap_Error p e) t = (Wrap_Error p e = t \<or> errors_is e t)"
| "errors_is (Storage_Error op cls e) t = (Storage_Error op cls e = t \<or> errors_is e t)"
| "errors_is (Cycle_Error c s (Some e)) t = (Cycle_Error c s (Some e) = t \<or> errors_is e t)"
| "errors_is (Joined_Error a b) t = (Joined_Error a b = t \<or> errors_is a t \<or> errors_is b t)"
| "errors_is (Sys_Error s e) t = (Sys_Error s e = t \<or> errors_is e t)"
| "errors_is e t = (e = t)"

lemma errors_is_refl [simp]: "errors_is e e"
  by (cases e) (auto split: option.split, metis errors_is.simps option.exhaust)

text \<open>\<open>redaction.Error\<close> keeps the redacted text and drops the chain.\<close>

definition redacted_error :: "go_error \<Rightarrow> go_error" where
  "redacted_error e = Redacted_Error (Redact (error_text e))"

definition wrapError :: "string \<Rightarrow> error_class \<Rightarrow> go_error \<Rightarrow> go_error" where
  "wrapError op cls err =
     (if errors_is err ErrNotFound \<or> errors_is err ErrClosed \<or> errors_is err ErrFutureSchema
      then Storage_Error op cls err
      else Storage_Error op cls (redacted_error err))"

definition notFound :: "string \<Rightarrow> go_error" where
  "notFound op = Storage_Error op ErrorClassNotFound ErrNotFound"

lemma errors_is_notFound [simp]: "errors_is (notFound op) ErrNotFound"
  by (simp add: notFound_def)

lemma wrapError_is_sentinel:
  "t \<in> {ErrNotFound, ErrClosed, ErrFutureSchema} \<Longrightarrow> errors_is (wrapError op cls e) t = errors_is e t"
  by (auto simp: wrapError_def redacted_error_def)

lemma wrapError_hides_context:
  "\<not> errors_is e ErrNotFound \<Longrightarrow> \<not> errors_is e ErrClosed \<Longrightarrow> \<not> errors_is e ErrFutureSchema \<Longrightarrow>
   t \<in> {Context_Canceled, Context_DeadlineExceeded} \<Longrightarrow> \<not> errors_is (wrapError op cls e) t"
  by (auto simp: wrapError_def redacted_error_def)

subsection \<open>Worlds and operations\<close>

datatype failure = Canceled | Deadline_Exceeded | Driver_Error string

definition failure_error :: "failure \<Rightarrow> go_error" where
  "failure_error f =
     (case f of
        Canceled \<Rightarrow> Context_Canceled
      | Deadline_Exceeded \<Rightarrow> Context_DeadlineExceeded
      | Driver_Error s \<Rightarrow> Text_Error s)"

record 'd world =
  data :: 'd
  script :: "failure option list"
  wall :: instant

type_synonym ('a, 'd) op = "'d world \<Rightarrow> (go_error + 'a) \<times> 'd world"

datatype ctx = Nil_Context | Live_Context

definition quiet :: "'d world \<Rightarrow> bool" where
  "quiet w \<longleftrightarrow> script w = []"

definition external :: "'d world \<Rightarrow> go_error option \<times> 'd world" where
  "external w = (case script w of [] \<Rightarrow> (None, w) | x # xs \<Rightarrow> (map_option failure_error x, w\<lparr>script := xs\<rparr>))"

definition ok :: "'a \<Rightarrow> ('a, 'd) op" where
  "ok x w = (Inr x, w)"

definition fail :: "go_error \<Rightarrow> ('a, 'd) op" where
  "fail e w = (Inl e, w)"

definition andThen :: "('a, 'd) op \<Rightarrow> ('a \<Rightarrow> ('b, 'd) op) \<Rightarrow> ('b, 'd) op" where
  "andThen m f w = (case m w of (Inl e, w1) \<Rightarrow> (Inl e, w1) | (Inr a, w1) \<Rightarrow> f a w1)"

text \<open>A poll of the context: \<open>ctx.Err()\<close> is returned when it is not nil.\<close>

definition ctx_err :: "(unit, 'd) op" where
  "ctx_err w = (case external w of (Some e, w1) \<Rightarrow> (Inl e, w1) | (None, w1) \<Rightarrow> (Inr (), w1))"

text \<open>\<open>time.Now()\<close>.\<close>

definition time_now :: "(instant, 'd) op" where
  "time_now w = (Inr (wall w), w)"

text \<open>A SQL statement: it may fail outside, leaving the data as it is, or compute on the data.\<close>

definition statement :: "(instant \<Rightarrow> 'd \<Rightarrow> (go_error + 'a) \<times> 'd) \<Rightarrow> ('a, 'd) op" where
  "statement f w =
     (case external w of
        (Some e, w1) \<Rightarrow> (Inl e, w1)
      | (None, w1) \<Rightarrow> (case f (wall w1) (data w1) of (r, d) \<Rightarrow> (r, w1\<lparr>data := d\<rparr>)))"

text \<open>An error of the operation is rewritten before it is returned.\<close>

definition map_err :: "(go_error \<Rightarrow> go_error) \<Rightarrow> ('a, 'd) op \<Rightarrow> ('a, 'd) op" where
  "map_err g m w = (case m w of (Inl e, w1) \<Rightarrow> (Inl (g e), w1) | (Inr a, w1) \<Rightarrow> (Inr a, w1))"

definition checked :: "go_error option \<Rightarrow> (unit, 'd) op" where
  "checked r = (case r of None \<Rightarrow> ok () | Some e \<Rightarrow> fail e)"

definition lift_result :: "go_error + 'a \<Rightarrow> ('a, 'd) op" where
  "lift_result r = (case r of Inl e \<Rightarrow> fail e | Inr a \<Rightarrow> ok a)"

text \<open>
  A transaction: the body runs on the data, and an error of the body or of the commit rolls the
  data back. What the script consumed stays consumed.
\<close>

definition transaction ::
    "(go_error \<Rightarrow> go_error) \<Rightarrow> (go_error \<Rightarrow> go_error) \<Rightarrow> ('a, 'd) op \<Rightarrow> ('a, 'd) op" where
  "transaction begin_err commit_err body w =
     (case external w of
        (Some e, w1) \<Rightarrow> (Inl (begin_err e), w1)
      | (None, w1) \<Rightarrow>
          (case body w1 of
             (Inl e, w2) \<Rightarrow> (Inl e, w2\<lparr>data := data w\<rparr>)
           | (Inr a, w2) \<Rightarrow>
               (case external w2 of
                  (Some e, w3) \<Rightarrow> (Inl (commit_err e), w3\<lparr>data := data w\<rparr>)
                | (None, w3) \<Rightarrow> (Inr a, w3))))"

subsection \<open>Reasoning about operations\<close>

lemma external_quiet [simp]: "quiet w \<Longrightarrow> external w = (None, w)"
  by (simp add: quiet_def external_def)

lemma external_data [simp]: "data (snd (external w)) = data w"
  by (simp add: external_def split: list.split)

lemma external_dataD: "external w = (r, w1) \<Longrightarrow> data w1 = data w"
  using external_data [of w] by simp

lemma external_failure:
  "external w = (Some e, w1) \<Longrightarrow>
     \<not> errors_is e ErrNotFound \<and> \<not> errors_is e ErrNoRows \<and> \<not> errors_is e ErrClosed"
  by (cases "script w"; cases "hd (script w)"; cases "the (hd (script w))")
     (auto simp: external_def failure_error_def)

lemma quiet_data_update [simp]: "quiet (w\<lparr>data := d\<rparr>) = quiet w"
  by (simp add: quiet_def)

lemma andThen_ok [simp]: "andThen (ok x) f = f x"
  by (simp add: fun_eq_iff andThen_def ok_def)

lemma andThen_fail [simp]: "andThen (fail e) f = fail e"
  by (simp add: fun_eq_iff andThen_def fail_def)

lemma andThen_Inr_iff:
  "andThen m f w = (Inr b, w2) \<longleftrightarrow> (\<exists>a w1. m w = (Inr a, w1) \<and> f a w1 = (Inr b, w2))"
  by (simp add: andThen_def split: prod.split sum.split)

lemma andThen_Inl_iff:
  "andThen m f w = (Inl e, w2) \<longleftrightarrow>
     m w = (Inl e, w2) \<or> (\<exists>a w1. m w = (Inr a, w1) \<and> f a w1 = (Inl e, w2))"
  by (auto simp: andThen_def split: prod.split sum.split)

lemma ctx_err_quiet [simp]: "quiet w \<Longrightarrow> ctx_err w = (Inr (), w)"
  by (simp add: ctx_err_def)

lemma statement_quiet [simp]:
  "quiet w \<Longrightarrow> statement f w = (let (r, d) = f (wall w) (data w) in (r, w\<lparr>data := d\<rparr>))"
  by (simp add: statement_def Let_def)

lemma checked_simps [simp]: "checked None w = (Inr (), w)" "checked (Some e) w = (Inl e, w)"
  by (simp_all add: checked_def ok_def fail_def)

text \<open>What an operation never changes, and what holds of the data after it if it did before.\<close>

definition preserves :: "('d \<Rightarrow> bool) \<Rightarrow> ('a, 'd) op \<Rightarrow> bool" where
  "preserves P m \<longleftrightarrow> (\<forall>w. P (data w) \<longrightarrow> P (data (snd (m w))))"

definition keeps :: "('d \<Rightarrow> 'v) \<Rightarrow> ('a, 'd) op \<Rightarrow> bool" where
  "keeps g m \<longleftrightarrow> (\<forall>w. g (data (snd (m w))) = g (data w))"

definition failure_atomic :: "('a, 'd) op \<Rightarrow> bool" where
  "failure_atomic m \<longleftrightarrow> (\<forall>w e w1. m w = (Inl e, w1) \<longrightarrow> data w1 = data w)"

lemma preservesD: "preserves P m \<Longrightarrow> m w = (r, w1) \<Longrightarrow> P (data w) \<Longrightarrow> P (data w1)"
  by (metis preserves_def snd_conv)

lemma keepsD: "keeps g m \<Longrightarrow> m w = (r, w1) \<Longrightarrow> g (data w1) = g (data w)"
  by (metis keeps_def snd_conv)

lemma keeps_ok [frame_intros]: "keeps g (ok x)"
  by (simp add: keeps_def ok_def)

lemma keeps_fail [frame_intros]: "keeps g (fail e)"
  by (simp add: keeps_def fail_def)

lemma keeps_ctx_err [frame_intros]: "keeps g ctx_err"
  by (auto simp: keeps_def ctx_err_def split: prod.split option.split dest: external_dataD)

lemma keeps_time_now [frame_intros]: "keeps g time_now"
  by (simp add: keeps_def time_now_def)

lemma keeps_checked [frame_intros]: "keeps g (checked r)"
  by (simp add: checked_def keeps_ok keeps_fail split: option.split)

lemma keeps_lift_result [frame_intros]: "keeps g (lift_result r)"
  by (simp add: lift_result_def keeps_ok keeps_fail split: sum.split)

lemma keeps_andThen [frame_intros]:
  assumes "keeps g m" "\<And>a. keeps g (f a)"
  shows "keeps g (andThen m f)"
  using assms by (auto simp: keeps_def andThen_def split: prod.split sum.split) (metis snd_conv)+

lemma keeps_map_err [frame_intros]: "keeps g m \<Longrightarrow> keeps g (map_err h m)"
  by (auto simp: keeps_def map_err_def split: prod.split sum.split) (metis snd_conv)+

lemma keeps_statement [frame_intros]:
  "(\<And>t d. g (snd (f t d)) = g d) \<Longrightarrow> keeps g (statement f)"
  by (auto simp: keeps_def statement_def split: prod.split option.split dest!: external_dataD)
     (metis snd_conv)

lemma preserves_ok [frame_intros]: "preserves P (ok x)"
  by (simp add: preserves_def ok_def)

lemma preserves_fail [frame_intros]: "preserves P (fail e)"
  by (simp add: preserves_def fail_def)

lemma preserves_keeps: "keeps P m \<Longrightarrow> preserves P m"
  by (simp add: keeps_def preserves_def)

lemma preserves_ctx_err [frame_intros]: "preserves P ctx_err"
  by (rule preserves_keeps) (rule keeps_ctx_err)

lemma preserves_checked [frame_intros]: "preserves P (checked r)"
  by (rule preserves_keeps) (rule keeps_checked)

lemma preserves_andThen [frame_intros]:
  assumes "preserves P m" "\<And>a. preserves P (f a)"
  shows "preserves P (andThen m f)"
  using assms by (auto simp: preserves_def andThen_def split: prod.split sum.split; metis snd_conv)

lemma preserves_map_err [frame_intros]: "preserves P m \<Longrightarrow> preserves P (map_err h m)"
  by (auto simp: preserves_def map_err_def split: prod.split sum.split; metis snd_conv)

lemma preserves_statement [frame_intros]:
  "(\<And>t d. P d \<Longrightarrow> P (snd (f t d))) \<Longrightarrow> preserves P (statement f)"
  by (auto simp: preserves_def statement_def split: prod.split option.split dest!: external_dataD;
      metis snd_conv)

lemma preserves_transaction [frame_intros]:
  assumes "preserves P body"
  shows "preserves P (transaction b c body)"
  using assms
  by (auto simp: preserves_def transaction_def split: prod.split sum.split option.split
      dest!: external_dataD; metis snd_conv)

lemma transaction_atomic: "failure_atomic (transaction b c body)"
  by (auto simp: failure_atomic_def transaction_def split: prod.splits sum.splits option.splits
      dest!: external_dataD)

text \<open>Reads before one write: an operation that writes last and fails has changed nothing.\<close>

lemma failure_atomicD: "failure_atomic m \<Longrightarrow> m w = (Inl e, w1) \<Longrightarrow> data w1 = data w"
  by (simp add: failure_atomic_def)

lemma failure_atomic_andThen:
  "keeps (\<lambda>d. d) m \<Longrightarrow> (\<And>a. failure_atomic (f a)) \<Longrightarrow> failure_atomic (andThen m f)"
  unfolding failure_atomic_def keeps_def andThen_Inl_iff by (metis snd_conv)

lemma failure_atomic_keeps: "keeps (\<lambda>d. d) m \<Longrightarrow> failure_atomic m"
  unfolding failure_atomic_def keeps_def by (metis snd_conv)

lemma failure_atomic_then_ok: "failure_atomic m \<Longrightarrow> failure_atomic (andThen m (\<lambda>a. ok (f a)))"
  by (auto simp: failure_atomic_def andThen_Inl_iff ok_def)

lemma failure_atomic_if: "failure_atomic m \<Longrightarrow> failure_atomic n \<Longrightarrow> failure_atomic (if b then m else n)"
  by simp

lemma failure_atomic_option:
  "failure_atomic m \<Longrightarrow> (\<And>a. failure_atomic (f a)) \<Longrightarrow> failure_atomic (case x of None \<Rightarrow> m | Some a \<Rightarrow> f a)"
  by (simp split: option.split)

lemmas failure_atomic_intros =
  failure_atomic_if failure_atomic_option failure_atomic_andThen failure_atomic_keeps [OF keeps_ok] failure_atomic_keeps [OF keeps_fail]
  keeps_lift_result keeps_ctx_err keeps_checked

lemma transaction_quiet:
  assumes "quiet w" "body w = (Inr a, w1)" "quiet w1"
  shows "transaction b c body w = (Inr a, w1)"
  using assms by (simp add: transaction_def)

lemma external_wall: "external w = (r, w1) \<Longrightarrow> wall w1 = wall w"
  by (auto simp: external_def split: list.splits)

lemma transaction_Inr:
  assumes "transaction b c body w = (Inr a, w3)"
  obtains w1 w2 where "data w1 = data w" "wall w1 = wall w" "body w1 = (Inr a, w2)" "data w3 = data w2"
proof -
  obtain r w1 where e: "external w = (r, w1)" by fastforce
  with assms have "r = None" by (auto simp: transaction_def split: option.splits)
  moreover obtain x w2 where b: "body w1 = (x, w2)" by fastforce
  ultimately obtain y where x: "x = Inr y" using assms e
    by (auto simp: transaction_def split: sum.splits)
  obtain q w4 where q: "external w2 = (q, w4)" by fastforce
  with assms e b x \<open>r = None\<close> have "q = None" "y = a" "w4 = w3"
    by (auto simp: transaction_def split: option.splits)
  with that [of w1 w2] e b x q show ?thesis
    by (auto dest: external_dataD external_wall)
qed

end
