(* ===== verification/Storage_Records.thy ===== *)
theory Storage_Records
  imports Go_Runtime "HOL-Library.List_Lexorder" "HOL-Library.Product_Lexorder"
begin

text \<open>
  The records of \<open>internal/storage/records.go\<close>, the validation and column helpers of
  \<open>repository_helpers.go\<close> and \<open>time.go\<close>, and the rows of the tables of
  \<open>migrations.go\<close> with the scan functions that read them back. A TEXT column holding a time
  is \<open>Time_Text t\<close>, the RFC 3339 text of the instant \<open>t\<close>, or \<open>Other_Text s\<close>, any other
  text. The text of an instant is parsed back without loss if its year has four digits; Go writes
  the text of every other year too, and then refuses to parse it.
\<close>

subsection \<open>Records\<close>

record MetadataRecord =
  md_Key :: string
  md_Value :: string
  md_UpdatedAt :: instant

record CollectorStateRecord =
  cs_Collector :: string
  cs_Target :: string
  cs_Status :: string
  cs_StateJSON :: string
  cs_LastAttemptAt :: "instant option"
  cs_LastSuccessAt :: "instant option"
  cs_LastErrorClass :: string
  cs_LastErrorSummary :: string
  cs_UpdatedAt :: instant

record IncidentRecord =
  inc_ID :: string
  inc_Fingerprint :: string
  inc_NodeID :: string
  inc_Type :: string
  inc_Target :: string
  inc_Condition :: string
  inc_Severity :: string
  inc_Status :: string
  inc_Summary :: string
  inc_FirstSeen :: instant
  inc_LastSeen :: instant
  inc_LastAlerted :: "instant option"
  inc_OccurrenceCount :: int
  inc_EvidencePath :: string
  inc_ResolvedAt :: "instant option"
  inc_LastTransition :: "instant option"
  inc_UpdatedAt :: instant

record NotificationDeliveryRecord =
  nd_ID :: string
  nd_IncidentID :: string
  nd_Receiver :: string
  nd_CostClass :: string
  nd_Status :: string
  nd_Attempt :: int
  nd_AttemptedAt :: instant
  nd_DeliveredAt :: "instant option"
  nd_ErrorClass :: string
  nd_ErrorSummary :: string

record RuleEvaluationStateRecord =
  rs_RuleID :: string
  rs_Target :: string
  rs_State :: string
  rs_Severity :: string
  rs_ConditionMetSince :: "instant option"
  rs_RecoverySince :: "instant option"
  rs_LastEvaluatedAt :: instant
  rs_LastObservedAt :: "instant option"
  rs_LastResultSummary :: string
  rs_PendingSeverity :: string
  rs_UpdatedAt :: instant

subsection \<open>Columns\<close>

datatype time_text = Time_Text instant | Other_Text string

definition formatTime :: "instant \<Rightarrow> instant \<Rightarrow> time_text" where
  "formatTime now t = Time_Text (if is_zero_time t then now else t)"

text \<open>
  The instants of the years 0 to 9999. Counted in nanoseconds from 1 January of year 1, year 0 is the
  366 days before and year 9999 ends after 3652059 days.
\<close>

definition readable_time :: "instant \<Rightarrow> bool" where
  "readable_time t \<longleftrightarrow> - 31622400000000000 \<le> t \<and> t < 315537897600000000000"

definition parseTime :: "time_text \<Rightarrow> go_error + instant" where
  "parseTime v =
     (case v of
        Time_Text t \<Rightarrow> if readable_time t then Inr t else Inl (Text_Error ''cannot parse time'')
      | Other_Text s \<Rightarrow> if s = [] then Inr 0 else Inl (Text_Error ''cannot parse time''))"

definition nullableTime :: "instant \<Rightarrow> instant option \<Rightarrow> time_text option" where
  "nullableTime now t =
     (case t of None \<Rightarrow> None | Some x \<Rightarrow> if is_zero_time x then None else Some (formatTime now x))"

definition scanNullableTime :: "time_text option \<Rightarrow> go_error + instant option" where
  "scanNullableTime v =
     (case v of
        None \<Rightarrow> Inr None
      | Some x \<Rightarrow>
          if x = Other_Text [] then Inr None
          else (case parseTime x of Inl e \<Rightarrow> Inl e | Inr t \<Rightarrow> Inr (Some t)))"

definition nullableString :: "string \<Rightarrow> string option" where
  "nullableString value = (if value = [] then None else Some (Redact value))"

definition stringFromNull :: "string option \<Rightarrow> string" where
  "stringFromNull value = (case value of None \<Rightarrow> [] | Some s \<Rightarrow> s)"

definition orNow :: "instant \<Rightarrow> instant \<Rightarrow> instant" where
  "orNow now t = (if is_zero_time t then now else t)"

definition classifyQueryErr :: "string \<Rightarrow> go_error \<Rightarrow> go_error" where
  "classifyQueryErr op err =
     (if errors_is err ErrNoRows then notFound op else wrapError op ErrorClassQuery err)"

subsection \<open>Validation\<close>

definition required :: "string \<Rightarrow> string \<Rightarrow> go_error option" where
  "required value field =
     (if trim_space value = [] then Some (Text_Error (field @ '' is required'')) else None)"

definition requiredTime :: "string \<Rightarrow> instant \<Rightarrow> go_error option" where
  "requiredTime field t =
     (if is_zero_time t then Some (Text_Error (field @ '' is required'')) else None)"

text \<open>
  The checks run one after the other and the first error is returned. Go walks the map of
  required fields in an unspecified order; the model takes the order it is written in, which
  only chooses which missing field is named.
\<close>

primrec first_error :: "go_error option list \<Rightarrow> go_error option" where
  "first_error [] = None"
| "first_error (r # rs) = (case r of Some e \<Rightarrow> Some e | None \<Rightarrow> first_error rs)"

definition validateMetadata :: "MetadataRecord \<Rightarrow> go_error option" where
  "validateMetadata r = required (md_Key r) ''metadata key''"

definition validateCollectorState :: "CollectorStateRecord \<Rightarrow> go_error option" where
  "validateCollectorState r =
     first_error [required (cs_Collector r) ''collector'', required (cs_Target r) ''target'',
                  required (cs_Status r) ''status'']"

definition validateIncident :: "IncidentRecord \<Rightarrow> go_error option" where
  "validateIncident r =
     first_error
       [required (inc_ID r) ''id'', required (inc_Fingerprint r) ''fingerprint'',
        required (inc_NodeID r) ''node_id'', required (inc_Type r) ''type'',
        required (inc_Target r) ''target'', required (inc_Condition r) ''condition'',
        required (inc_Severity r) ''severity'', required (inc_Status r) ''status'',
        required (inc_Summary r) ''summary'',
        requiredTime ''first_seen'' (inc_FirstSeen r), requiredTime ''last_seen'' (inc_LastSeen r),
        (if inc_OccurrenceCount r < 0 then Some (Text_Error ''occurrence_count cannot be negative'')
         else None)]"

definition validateRuleEvaluationState :: "RuleEvaluationStateRecord \<Rightarrow> go_error option" where
  "validateRuleEvaluationState r =
     first_error
       [required (rs_RuleID r) ''rule_id'', required (rs_Target r) ''target'',
        required (rs_State r) ''state'', required (rs_Severity r) ''severity'',
        required (rs_LastResultSummary r) ''last_result_summary'',
        requiredTime ''last_evaluated_at'' (rs_LastEvaluatedAt r)]"

definition validateNotificationDelivery :: "NotificationDeliveryRecord \<Rightarrow> go_error option" where
  "validateNotificationDelivery r =
     first_error
       [required (nd_ID r) ''id'', required (nd_IncidentID r) ''incident_id'',
        required (nd_Receiver r) ''receiver'', required (nd_CostClass r) ''cost_class'',
        required (nd_Status r) ''status'',
        (if nd_Attempt r < 1 then Some (Text_Error ''attempt must be greater than zero'') else None),
        requiredTime ''attempted_at'' (nd_AttemptedAt r)]"

lemma first_error_None_iff: "first_error rs = None \<longleftrightarrow> list_all (\<lambda>r. r = None) rs"
  by (induction rs) (auto split: option.splits)

lemma required_None_iff: "required v f = None \<longleftrightarrow> trim_space v \<noteq> []"
  by (simp add: required_def)

lemma requiredTime_None_iff: "requiredTime f t = None \<longleftrightarrow> t \<noteq> 0"
  by (simp add: requiredTime_def is_zero_time_def)

lemma validateIncident_None_iff:
  "validateIncident r = None \<longleftrightarrow>
     (\<forall>v \<in> {inc_ID r, inc_Fingerprint r, inc_NodeID r, inc_Type r, inc_Target r, inc_Condition r,
             inc_Severity r, inc_Status r, inc_Summary r}. trim_space v \<noteq> []) \<and>
     inc_FirstSeen r \<noteq> 0 \<and> inc_LastSeen r \<noteq> 0 \<and> 0 \<le> inc_OccurrenceCount r"
  unfolding validateIncident_def first_error_None_iff
  by (auto simp: required_None_iff requiredTime_None_iff)

lemma validateRuleEvaluationState_None_iff:
  "validateRuleEvaluationState r = None \<longleftrightarrow>
     (\<forall>v \<in> {rs_RuleID r, rs_Target r, rs_State r, rs_Severity r, rs_LastResultSummary r}.
        trim_space v \<noteq> []) \<and> rs_LastEvaluatedAt r \<noteq> 0"
  unfolding validateRuleEvaluationState_def first_error_None_iff
  by (auto simp: required_None_iff requiredTime_None_iff)

lemma validateNotificationDelivery_None_iff:
  "validateNotificationDelivery r = None \<longleftrightarrow>
     (\<forall>v \<in> {nd_ID r, nd_IncidentID r, nd_Receiver r, nd_CostClass r, nd_Status r}.
        trim_space v \<noteq> []) \<and> 1 \<le> nd_Attempt r \<and> nd_AttemptedAt r \<noteq> 0"
  unfolding validateNotificationDelivery_def first_error_None_iff
  by (auto simp: required_None_iff requiredTime_None_iff)

subsection \<open>Rows\<close>

record incident_row =
  ir_id :: string
  ir_node_id :: string
  ir_type :: string
  ir_target :: string
  ir_condition :: string
  ir_severity :: string
  ir_status :: string
  ir_summary :: string
  ir_first_seen :: time_text
  ir_last_seen :: time_text
  ir_last_alerted :: "time_text option"
  ir_occurrence_count :: int
  ir_evidence_path :: "string option"
  ir_resolved_at :: "time_text option"
  ir_updated_at :: time_text
  ir_fingerprint :: "string option"
  ir_last_transition :: "time_text option"

record delivery_row =
  dr_id :: string
  dr_incident_id :: string
  dr_receiver :: string
  dr_cost_class :: string
  dr_status :: string
  dr_attempt :: int
  dr_attempted_at :: time_text
  dr_delivered_at :: "time_text option"
  dr_error_class :: "string option"
  dr_error_summary :: "string option"

record rule_row =
  rr_rule_id :: string
  rr_target :: string
  rr_state :: string
  rr_severity :: string
  rr_condition_met_since :: "time_text option"
  rr_recovery_since :: "time_text option"
  rr_last_evaluated_at :: time_text
  rr_last_observed_at :: "time_text option"
  rr_last_result_summary :: string
  rr_pending_severity :: "string option"
  rr_updated_at :: time_text

record metadata_row =
  mr_key :: string
  mr_value :: string
  mr_updated_at :: time_text

record collector_row =
  cr_collector :: string
  cr_target :: string
  cr_status :: string
  cr_state_json :: string
  cr_last_attempt_at :: "time_text option"
  cr_last_success_at :: "time_text option"
  cr_last_error_class :: "string option"
  cr_last_error_summary :: "string option"
  cr_updated_at :: time_text

text \<open>The values each INSERT binds, in the wall clock reading of the statement.\<close>

definition incident_values :: "instant \<Rightarrow> IncidentRecord \<Rightarrow> incident_row" where
  "incident_values now r =
     \<lparr>ir_id = inc_ID r, ir_node_id = inc_NodeID r, ir_type = inc_Type r, ir_target = inc_Target r,
      ir_condition = inc_Condition r, ir_severity = Redact (inc_Severity r),
      ir_status = Redact (inc_Status r), ir_summary = Redact (inc_Summary r),
      ir_first_seen = formatTime now (inc_FirstSeen r),
      ir_last_seen = formatTime now (inc_LastSeen r),
      ir_last_alerted = nullableTime now (inc_LastAlerted r),
      ir_occurrence_count = inc_OccurrenceCount r,
      ir_evidence_path = nullableString (inc_EvidencePath r),
      ir_resolved_at = nullableTime now (inc_ResolvedAt r),
      ir_updated_at = formatTime now (orNow now (inc_UpdatedAt r)),
      ir_fingerprint = Some (Redact (inc_Fingerprint r)),
      ir_last_transition = nullableTime now (inc_LastTransition r)\<rparr>"

definition delivery_values :: "instant \<Rightarrow> NotificationDeliveryRecord \<Rightarrow> delivery_row" where
  "delivery_values now r =
     \<lparr>dr_id = nd_ID r, dr_incident_id = nd_IncidentID r, dr_receiver = nd_Receiver r,
      dr_cost_class = nd_CostClass r, dr_status = Redact (nd_Status r), dr_attempt = nd_Attempt r,
      dr_attempted_at = formatTime now (nd_AttemptedAt r),
      dr_delivered_at = nullableTime now (nd_DeliveredAt r),
      dr_error_class = nullableString (nd_ErrorClass r),
      dr_error_summary = nullableString (nd_ErrorSummary r)\<rparr>"

definition rule_values :: "instant \<Rightarrow> RuleEvaluationStateRecord \<Rightarrow> rule_row" where
  "rule_values now r =
     \<lparr>rr_rule_id = Redact (rs_RuleID r), rr_target = Redact (rs_Target r),
      rr_state = Redact (rs_State r), rr_severity = Redact (rs_Severity r),
      rr_condition_met_since = nullableTime now (rs_ConditionMetSince r),
      rr_recovery_since = nullableTime now (rs_RecoverySince r),
      rr_last_evaluated_at = formatTime now (rs_LastEvaluatedAt r),
      rr_last_observed_at = nullableTime now (rs_LastObservedAt r),
      rr_last_result_summary = Redact (rs_LastResultSummary r),
      rr_pending_severity = nullableString (rs_PendingSeverity r),
      rr_updated_at = formatTime now (orNow now (rs_UpdatedAt r))\<rparr>"

definition metadata_values :: "instant \<Rightarrow> MetadataRecord \<Rightarrow> metadata_row" where
  "metadata_values now r =
     \<lparr>mr_key = md_Key r, mr_value = Redact (md_Value r),
      mr_updated_at = formatTime now (orNow now (md_UpdatedAt r))\<rparr>"

definition collector_values :: "instant \<Rightarrow> CollectorStateRecord \<Rightarrow> collector_row" where
  "collector_values now r =
     \<lparr>cr_collector = cs_Collector r, cr_target = cs_Target r, cr_status = Redact (cs_Status r),
      cr_state_json = Redact (cs_StateJSON r),
      cr_last_attempt_at = nullableTime now (cs_LastAttemptAt r),
      cr_last_success_at = nullableTime now (cs_LastSuccessAt r),
      cr_last_error_class = nullableString (cs_LastErrorClass r),
      cr_last_error_summary = nullableString (cs_LastErrorSummary r),
      cr_updated_at = formatTime now (orNow now (cs_UpdatedAt r))\<rparr>"

subsection \<open>Scanning rows back into records\<close>

text \<open>A column that does not parse is a query error that names the column.\<close>

definition column :: "string \<Rightarrow> (go_error + 'a) \<Rightarrow> ('a \<Rightarrow> go_error + 'b) \<Rightarrow> go_error + 'b" where
  "column op r k = (case r of Inl e \<Rightarrow> Inl (wrapError op ErrorClassQuery e) | Inr a \<Rightarrow> k a)"

lemma column_Inr [simp]: "column op (Inr a) k = k a"
  by (simp add: column_def)

definition scanIncident :: "incident_row \<Rightarrow> go_error + IncidentRecord" where
  "scanIncident row =
     column ''scan incident first_seen'' (parseTime (ir_first_seen row)) (\<lambda>first.
     column ''scan incident last_seen'' (parseTime (ir_last_seen row)) (\<lambda>last.
     column ''scan incident last_alerted'' (scanNullableTime (ir_last_alerted row)) (\<lambda>alerted.
     column ''scan incident resolved_at'' (scanNullableTime (ir_resolved_at row)) (\<lambda>resolved.
     column ''scan incident updated_at'' (parseTime (ir_updated_at row)) (\<lambda>updated.
     column ''scan incident last_transition'' (scanNullableTime (ir_last_transition row)) (\<lambda>trans.
       Inr \<lparr>inc_ID = ir_id row, inc_Fingerprint = stringFromNull (ir_fingerprint row),
            inc_NodeID = ir_node_id row, inc_Type = ir_type row, inc_Target = ir_target row,
            inc_Condition = ir_condition row, inc_Severity = ir_severity row,
            inc_Status = ir_status row, inc_Summary = ir_summary row,
            inc_FirstSeen = first, inc_LastSeen = last, inc_LastAlerted = alerted,
            inc_OccurrenceCount = ir_occurrence_count row,
            inc_EvidencePath = stringFromNull (ir_evidence_path row),
            inc_ResolvedAt = resolved, inc_LastTransition = trans, inc_UpdatedAt = updated\<rparr>))))))"

definition scanNotificationDelivery :: "delivery_row \<Rightarrow> go_error + NotificationDeliveryRecord" where
  "scanNotificationDelivery row =
     column ''scan notification delivery attempted_at'' (parseTime (dr_attempted_at row)) (\<lambda>attempted.
     column ''scan notification delivery delivered_at'' (scanNullableTime (dr_delivered_at row))
       (\<lambda>delivered.
       Inr \<lparr>nd_ID = dr_id row, nd_IncidentID = dr_incident_id row, nd_Receiver = dr_receiver row,
            nd_CostClass = dr_cost_class row, nd_Status = dr_status row,
            nd_Attempt = dr_attempt row, nd_AttemptedAt = attempted, nd_DeliveredAt = delivered,
            nd_ErrorClass = stringFromNull (dr_error_class row),
            nd_ErrorSummary = stringFromNull (dr_error_summary row)\<rparr>))"

definition scanRuleEvaluationState :: "rule_row \<Rightarrow> go_error + RuleEvaluationStateRecord" where
  "scanRuleEvaluationState row =
     column ''scan rule evaluation state condition_met_since''
       (scanNullableTime (rr_condition_met_since row)) (\<lambda>met.
     column ''scan rule evaluation state recovery_since''
       (scanNullableTime (rr_recovery_since row)) (\<lambda>recovery.
     column ''scan rule evaluation state last_evaluated_at''
       (parseTime (rr_last_evaluated_at row)) (\<lambda>evaluated.
     column ''scan rule evaluation state last_observed_at''
       (scanNullableTime (rr_last_observed_at row)) (\<lambda>observed.
     column ''scan rule evaluation state updated_at'' (parseTime (rr_updated_at row)) (\<lambda>updated.
       Inr \<lparr>rs_RuleID = rr_rule_id row, rs_Target = rr_target row, rs_State = rr_state row,
            rs_Severity = rr_severity row, rs_ConditionMetSince = met,
            rs_RecoverySince = recovery, rs_LastEvaluatedAt = evaluated,
            rs_LastObservedAt = observed, rs_LastResultSummary = rr_last_result_summary row,
            rs_PendingSeverity = stringFromNull (rr_pending_severity row),
            rs_UpdatedAt = updated\<rparr>)))))"

definition scanMetadata :: "metadata_row \<Rightarrow> go_error + MetadataRecord" where
  "scanMetadata row =
     column ''scan metadata'' (parseTime (mr_updated_at row)) (\<lambda>updated.
       Inr \<lparr>md_Key = mr_key row, md_Value = mr_value row, md_UpdatedAt = updated\<rparr>)"

definition scanCollectorState :: "collector_row \<Rightarrow> go_error + CollectorStateRecord" where
  "scanCollectorState row =
     column ''scan collector state last_attempt_at'' (scanNullableTime (cr_last_attempt_at row)) (\<lambda>attempt.
     column ''scan collector state last_success_at'' (scanNullableTime (cr_last_success_at row)) (\<lambda>success.
     column ''scan collector state updated_at'' (parseTime (cr_updated_at row)) (\<lambda>updated.
       Inr \<lparr>cs_Collector = cr_collector row, cs_Target = cr_target row, cs_Status = cr_status row,
            cs_StateJSON = cr_state_json row, cs_LastAttemptAt = attempt,
            cs_LastSuccessAt = success,
            cs_LastErrorClass = stringFromNull (cr_last_error_class row),
            cs_LastErrorSummary = stringFromNull (cr_last_error_summary row),
            cs_UpdatedAt = updated\<rparr>)))"

text \<open>
  What a row reads back as: the record with its text columns redacted, zero times replaced by the
  clock reading, and zero optional times dropped.
\<close>

definition stored_time :: "instant option \<Rightarrow> instant option" where
  "stored_time t = (case t of None \<Rightarrow> None | Some x \<Rightarrow> if x = 0 then None else Some x)"

definition stored_incident :: "instant \<Rightarrow> IncidentRecord \<Rightarrow> IncidentRecord" where
  "stored_incident now r =
     r\<lparr>inc_Fingerprint := Redact (inc_Fingerprint r), inc_Severity := Redact (inc_Severity r),
       inc_Status := Redact (inc_Status r), inc_Summary := Redact (inc_Summary r),
       inc_FirstSeen := orNow now (inc_FirstSeen r), inc_LastSeen := orNow now (inc_LastSeen r),
       inc_LastAlerted := stored_time (inc_LastAlerted r),
       inc_EvidencePath := Redact (inc_EvidencePath r),
       inc_ResolvedAt := stored_time (inc_ResolvedAt r),
       inc_LastTransition := stored_time (inc_LastTransition r),
       inc_UpdatedAt := orNow now (inc_UpdatedAt r)\<rparr>"

definition stored_rule :: "instant \<Rightarrow> RuleEvaluationStateRecord \<Rightarrow> RuleEvaluationStateRecord" where
  "stored_rule now r =
     r\<lparr>rs_RuleID := Redact (rs_RuleID r), rs_Target := Redact (rs_Target r),
       rs_State := Redact (rs_State r), rs_Severity := Redact (rs_Severity r),
       rs_ConditionMetSince := stored_time (rs_ConditionMetSince r),
       rs_RecoverySince := stored_time (rs_RecoverySince r),
       rs_LastEvaluatedAt := orNow now (rs_LastEvaluatedAt r),
       rs_LastObservedAt := stored_time (rs_LastObservedAt r),
       rs_LastResultSummary := Redact (rs_LastResultSummary r),
       rs_PendingSeverity := Redact (rs_PendingSeverity r),
       rs_UpdatedAt := orNow now (rs_UpdatedAt r)\<rparr>"

definition stored_delivery :: "instant \<Rightarrow> NotificationDeliveryRecord \<Rightarrow> NotificationDeliveryRecord" where
  "stored_delivery now r =
     r\<lparr>nd_Status := Redact (nd_Status r), nd_AttemptedAt := orNow now (nd_AttemptedAt r),
       nd_DeliveredAt := stored_time (nd_DeliveredAt r),
       nd_ErrorClass := Redact (nd_ErrorClass r), nd_ErrorSummary := Redact (nd_ErrorSummary r)\<rparr>"

text \<open>
  What a row says, whether or not its times can be parsed. Scanning a row yields it or an error.
\<close>

definition time_of :: "time_text \<Rightarrow> instant" where
  "time_of v = (case v of Time_Text t \<Rightarrow> t | Other_Text s \<Rightarrow> 0)"

definition nullable_time_of :: "time_text option \<Rightarrow> instant option" where
  "nullable_time_of v = (case v of None \<Rightarrow> None | Some x \<Rightarrow> if x = Other_Text [] then None else Some (time_of x))"

definition incident_of_row :: "incident_row \<Rightarrow> IncidentRecord" where
  "incident_of_row row =
     \<lparr>inc_ID = ir_id row, inc_Fingerprint = stringFromNull (ir_fingerprint row), inc_NodeID = ir_node_id row,
      inc_Type = ir_type row, inc_Target = ir_target row, inc_Condition = ir_condition row,
      inc_Severity = ir_severity row, inc_Status = ir_status row, inc_Summary = ir_summary row,
      inc_FirstSeen = time_of (ir_first_seen row), inc_LastSeen = time_of (ir_last_seen row),
      inc_LastAlerted = nullable_time_of (ir_last_alerted row), inc_OccurrenceCount = ir_occurrence_count row,
      inc_EvidencePath = stringFromNull (ir_evidence_path row), inc_ResolvedAt = nullable_time_of (ir_resolved_at row),
      inc_LastTransition = nullable_time_of (ir_last_transition row), inc_UpdatedAt = time_of (ir_updated_at row)\<rparr>"

definition delivery_of_row :: "delivery_row \<Rightarrow> NotificationDeliveryRecord" where
  "delivery_of_row row =
     \<lparr>nd_ID = dr_id row, nd_IncidentID = dr_incident_id row, nd_Receiver = dr_receiver row,
      nd_CostClass = dr_cost_class row, nd_Status = dr_status row, nd_Attempt = dr_attempt row,
      nd_AttemptedAt = time_of (dr_attempted_at row), nd_DeliveredAt = nullable_time_of (dr_delivered_at row),
      nd_ErrorClass = stringFromNull (dr_error_class row), nd_ErrorSummary = stringFromNull (dr_error_summary row)\<rparr>"

definition rule_of_row :: "rule_row \<Rightarrow> RuleEvaluationStateRecord" where
  "rule_of_row row =
     \<lparr>rs_RuleID = rr_rule_id row, rs_Target = rr_target row, rs_State = rr_state row, rs_Severity = rr_severity row,
      rs_ConditionMetSince = nullable_time_of (rr_condition_met_since row),
      rs_RecoverySince = nullable_time_of (rr_recovery_since row), rs_LastEvaluatedAt = time_of (rr_last_evaluated_at row),
      rs_LastObservedAt = nullable_time_of (rr_last_observed_at row), rs_LastResultSummary = rr_last_result_summary row,
      rs_PendingSeverity = stringFromNull (rr_pending_severity row), rs_UpdatedAt = time_of (rr_updated_at row)\<rparr>"

definition metadata_of_row :: "metadata_row \<Rightarrow> MetadataRecord" where
  "metadata_of_row row = \<lparr>md_Key = mr_key row, md_Value = mr_value row, md_UpdatedAt = time_of (mr_updated_at row)\<rparr>"

definition collector_of_row :: "collector_row \<Rightarrow> CollectorStateRecord" where
  "collector_of_row row =
     \<lparr>cs_Collector = cr_collector row, cs_Target = cr_target row, cs_Status = cr_status row,
      cs_StateJSON = cr_state_json row, cs_LastAttemptAt = nullable_time_of (cr_last_attempt_at row),
      cs_LastSuccessAt = nullable_time_of (cr_last_success_at row),
      cs_LastErrorClass = stringFromNull (cr_last_error_class row),
      cs_LastErrorSummary = stringFromNull (cr_last_error_summary row), cs_UpdatedAt = time_of (cr_updated_at row)\<rparr>"

text \<open>The times of a row, and the rows whose times can all be parsed.\<close>

definition readable_text :: "time_text \<Rightarrow> bool" where
  "readable_text v \<longleftrightarrow> (case v of Time_Text t \<Rightarrow> readable_time t | Other_Text s \<Rightarrow> s = [])"

definition readable_times :: "time_text list \<Rightarrow> time_text option list \<Rightarrow> bool" where
  "readable_times ts os \<longleftrightarrow> list_all readable_text ts \<and> list_all (pred_option readable_text) os"

definition incident_readable :: "incident_row \<Rightarrow> bool" where
  "incident_readable row \<longleftrightarrow>
     readable_times [ir_first_seen row, ir_last_seen row, ir_updated_at row]
       [ir_last_alerted row, ir_resolved_at row, ir_last_transition row]"

definition delivery_readable :: "delivery_row \<Rightarrow> bool" where
  "delivery_readable row \<longleftrightarrow> readable_times [dr_attempted_at row] [dr_delivered_at row]"

definition rule_readable :: "rule_row \<Rightarrow> bool" where
  "rule_readable row \<longleftrightarrow>
     readable_times [rr_last_evaluated_at row, rr_updated_at row]
       [rr_condition_met_since row, rr_recovery_since row, rr_last_observed_at row]"

definition metadata_readable :: "metadata_row \<Rightarrow> bool" where
  "metadata_readable row \<longleftrightarrow> readable_times [mr_updated_at row] []"

definition collector_readable :: "collector_row \<Rightarrow> bool" where
  "collector_readable row \<longleftrightarrow> readable_times [cr_updated_at row] [cr_last_attempt_at row, cr_last_success_at row]"

lemmas row_readable =
  incident_readable_def delivery_readable_def rule_readable_def metadata_readable_def collector_readable_def
  readable_times_def

lemma readable_zero [simp]: "readable_time 0"
  by (simp add: readable_time_def)

lemma parseTime_cases: "(parseTime v = Inr (time_of v) \<and> readable_text v) \<or> (\<exists>e. parseTime v = Inl e \<and> \<not> readable_text v)"
  by (auto simp: parseTime_def time_of_def readable_text_def split: time_text.split)

lemma scanNullableTime_cases:
  "(scanNullableTime v = Inr (nullable_time_of v) \<and> pred_option readable_text v) \<or>
   (\<exists>e. scanNullableTime v = Inl e \<and> \<not> pred_option readable_text v)"
proof (cases v)
  case (Some x)
  then show ?thesis
    using parseTime_cases [of x] by (auto simp: scanNullableTime_def nullable_time_of_def readable_text_def)
qed (simp add: scanNullableTime_def nullable_time_of_def)

lemma parseTime_readable [simp]: "readable_text v \<Longrightarrow> parseTime v = Inr (time_of v)"
  using parseTime_cases [of v] by auto

lemma scanNullableTime_readable [simp]: "pred_option readable_text v \<Longrightarrow> scanNullableTime v = Inr (nullable_time_of v)"
  using scanNullableTime_cases [of v] by auto

lemma parseTime_Inr: "parseTime v = Inr t \<longleftrightarrow> readable_text v \<and> t = time_of v"
  using parseTime_cases [of v] by auto

lemma scanNullableTime_Inr: "scanNullableTime v = Inr t \<longleftrightarrow> pred_option readable_text v \<and> t = nullable_time_of v"
  using scanNullableTime_cases [of v] by auto

text \<open>The text of a time says the time, and is readable exactly if the time is.\<close>

lemma time_of_format [simp]: "time_of (formatTime now t) = orNow now t"
  by (simp add: time_of_def formatTime_def orNow_def)

lemma nullable_time_of_nullable [simp]: "nullable_time_of (nullableTime now t) = stored_time t"
  by (simp add: nullable_time_of_def nullableTime_def stored_time_def formatTime_def time_of_def
      is_zero_time_def split: option.split)

lemma readable_format [simp]: "readable_text (formatTime now t) \<longleftrightarrow> readable_time (orNow now t)"
  by (simp add: readable_text_def formatTime_def orNow_def)

lemma readable_nullable [simp]: "pred_option readable_text (nullableTime now t) \<longleftrightarrow> pred_option readable_time t"
  by (cases t) (simp_all add: nullableTime_def readable_text_def formatTime_def is_zero_time_def)

lemma string_from_nullable [simp]: "stringFromNull (nullableString s) = Redact s"
  by (simp add: stringFromNull_def nullableString_def)

lemma stringFromNull_Some [simp]: "stringFromNull (Some s) = s"
  by (simp add: stringFromNull_def)

lemma orNow_idem [simp]: "orNow now (orNow now t) = orNow now t"
  by (simp add: orNow_def)

lemma orNow_nonzero [simp]: "t \<noteq> 0 \<Longrightarrow> orNow now t = t"
  by (simp add: orNow_def is_zero_time_def)

text \<open>Scanning a row: what it says if all its times are readable, an error otherwise.\<close>

lemma column_Inr_iff: "column op r k = Inr x \<longleftrightarrow> (\<exists>a. r = Inr a \<and> k a = Inr x)"
  by (cases r) (simp_all add: column_def)

lemmas row_defs =
  scanIncident_def scanNotificationDelivery_def scanRuleEvaluationState_def scanMetadata_def scanCollectorState_def
  incident_of_row_def delivery_of_row_def rule_of_row_def metadata_of_row_def collector_of_row_def

lemma scan_rows:
  "scanIncident row1 = Inr r1 \<longleftrightarrow> incident_readable row1 \<and> r1 = incident_of_row row1"
  "scanNotificationDelivery row2 = Inr r2 \<longleftrightarrow> delivery_readable row2 \<and> r2 = delivery_of_row row2"
  "scanRuleEvaluationState row3 = Inr r3 \<longleftrightarrow> rule_readable row3 \<and> r3 = rule_of_row row3"
  "scanMetadata row4 = Inr r4 \<longleftrightarrow> metadata_readable row4 \<and> r4 = metadata_of_row row4"
  "scanCollectorState row5 = Inr r5 \<longleftrightarrow> collector_readable row5 \<and> r5 = collector_of_row row5"
  by (auto simp: row_defs row_readable column_Inr_iff parseTime_Inr scanNullableTime_Inr)

lemma scan_readable [simp]:
  "incident_readable row1 \<Longrightarrow> scanIncident row1 = Inr (incident_of_row row1)"
  "delivery_readable row2 \<Longrightarrow> scanNotificationDelivery row2 = Inr (delivery_of_row row2)"
  "rule_readable row3 \<Longrightarrow> scanRuleEvaluationState row3 = Inr (rule_of_row row3)"
  "metadata_readable row4 \<Longrightarrow> scanMetadata row4 = Inr (metadata_of_row row4)"
  "collector_readable row5 \<Longrightarrow> scanCollectorState row5 = Inr (collector_of_row row5)"
  by (simp_all add: scan_rows)

text \<open>The rows written for a record say the stored record; its times decide whether they are readable.\<close>

lemma values_of_row [simp]:
  "incident_of_row (incident_values now i) = stored_incident now i"
  "delivery_of_row (delivery_values now d) = stored_delivery now d"
  "rule_of_row (rule_values now r) = stored_rule now r"
  by (simp_all add: incident_of_row_def incident_values_def stored_incident_def delivery_of_row_def delivery_values_def
      stored_delivery_def rule_of_row_def rule_values_def stored_rule_def)

lemma values_readable:
  "incident_readable (incident_values now i) \<longleftrightarrow>
     list_all (\<lambda>t. readable_time (orNow now t)) [inc_FirstSeen i, inc_LastSeen i, inc_UpdatedAt i] \<and>
     list_all (pred_option readable_time) [inc_LastAlerted i, inc_ResolvedAt i, inc_LastTransition i]"
  "delivery_readable (delivery_values now d) \<longleftrightarrow>
     readable_time (orNow now (nd_AttemptedAt d)) \<and> pred_option readable_time (nd_DeliveredAt d)"
  "rule_readable (rule_values now r) \<longleftrightarrow>
     list_all (\<lambda>t. readable_time (orNow now t)) [rs_LastEvaluatedAt r, rs_UpdatedAt r] \<and>
     list_all (pred_option readable_time) [rs_ConditionMetSince r, rs_RecoverySince r, rs_LastObservedAt r]"
  "metadata_readable (metadata_values now m) \<longleftrightarrow> readable_time (orNow now (md_UpdatedAt m))"
  "collector_readable (collector_values now c) \<longleftrightarrow>
     readable_time (orNow now (cs_UpdatedAt c)) \<and>
     list_all (pred_option readable_time) [cs_LastAttemptAt c, cs_LastSuccessAt c]"
  by (simp_all add: row_readable incident_values_def delivery_values_def rule_values_def metadata_values_def
      collector_values_def)

text \<open>The records whose times are all readable, as the ones of readable rows are.\<close>

definition times_readable :: "IncidentRecord \<Rightarrow> bool" where
  "times_readable r \<longleftrightarrow>
     list_all readable_time [inc_FirstSeen r, inc_LastSeen r, inc_UpdatedAt r] \<and>
     list_all (pred_option readable_time) [inc_LastAlerted r, inc_ResolvedAt r, inc_LastTransition r]"

lemma readable_orNow: "readable_time now \<Longrightarrow> readable_time t \<Longrightarrow> readable_time (orNow now t)"
  by (simp add: orNow_def)

lemma incident_times_are_readable:
  "readable_time now \<Longrightarrow> times_readable r \<Longrightarrow> incident_readable (incident_values now r)"
  by (simp add: times_readable_def values_readable readable_orNow)

lemma readable_time_of: "readable_text v \<Longrightarrow> readable_time (time_of v)"
  by (auto simp: readable_text_def time_of_def split: time_text.splits)

lemma readable_nullable_time_of: "pred_option readable_text v \<Longrightarrow> pred_option readable_time (nullable_time_of v)"
  by (cases v) (auto simp: nullable_time_of_def readable_time_of)

lemma times_readable_of_row: "incident_readable row \<Longrightarrow> times_readable (incident_of_row row)"
  by (simp add: times_readable_def incident_of_row_def row_readable readable_time_of readable_nullable_time_of)

end
