(* ===== verification/Storage.thy ===== *)
theory Storage
  imports Storage_Records
begin

text \<open>
  \<open>internal/storage\<close>: the database the agent keeps (\<open>sqlite.go\<close>, the tables of
  \<open>migrations.go\<close> with their keys, unique index, foreign key and checks) and the repository
  operations on it, in and out of a transaction. A statement that breaks a constraint fails and
  leaves the table as it was; every operation validates, asks for the open database, and wraps the
  driver's error, in the order the code does.
\<close>

record database =
  db_open :: bool
  metadata_rows :: "metadata_row list"
  collector_rows :: "collector_row list"
  incident_rows :: "incident_row list"
  delivery_rows :: "delivery_row list"
  rule_rows :: "rule_row list"

definition empty_database :: database where
  "empty_database =
     \<lparr>db_open = True, metadata_rows = [], collector_rows = [], incident_rows = [],
      delivery_rows = [], rule_rows = []\<rparr>"

text \<open>
  \<open>INSERT ... ON CONFLICT(key) DO UPDATE\<close>: the row with the key is replaced in place, or the
  row is added behind the others.
\<close>

fun put_row :: "('r \<Rightarrow> 'k) \<Rightarrow> 'r \<Rightarrow> 'r list \<Rightarrow> 'r list" where
  "put_row key r [] = [r]"
| "put_row key r (x # xs) = (if key x = key r then r # xs else x # put_row key r xs)"

definition get_row :: "('r \<Rightarrow> bool) \<Rightarrow> 'r list \<Rightarrow> 'r option" where
  "get_row p xs = find p xs"

definition constraint_failed :: go_error where
  "constraint_failed = Text_Error ''constraint failed''"

definition fingerprint_indexed :: "incident_row \<Rightarrow> bool" where
  "fingerprint_indexed r \<longleftrightarrow> ir_fingerprint r \<noteq> None \<and> ir_fingerprint r \<noteq> Some []"

definition incident_allowed :: "incident_row \<Rightarrow> incident_row list \<Rightarrow> bool" where
  "incident_allowed r rows \<longleftrightarrow>
     0 \<le> ir_occurrence_count r \<and>
     \<not> (fingerprint_indexed r \<and>
        list_ex (\<lambda>x. ir_id x \<noteq> ir_id r \<and> ir_fingerprint x = ir_fingerprint r) rows)"

definition delivery_allowed :: "delivery_row \<Rightarrow> database \<Rightarrow> bool" where
  "delivery_allowed r d \<longleftrightarrow>
     1 \<le> dr_attempt r \<and> \<not> list_ex (\<lambda>x. dr_id x = dr_id r) (delivery_rows d) \<and>
     list_ex (\<lambda>x. ir_id x = dr_incident_id r) (incident_rows d)"

subsection \<open>Statements\<close>

definition exec_put_incident :: "IncidentRecord \<Rightarrow> instant \<Rightarrow> database \<Rightarrow> (go_error + unit) \<times> database" where
  "exec_put_incident r now d =
     (let row = incident_values now r
      in if incident_allowed row (incident_rows d)
         then (Inr (), d\<lparr>incident_rows := put_row ir_id row (incident_rows d)\<rparr>)
         else (Inl constraint_failed, d))"

definition exec_put_rule ::
    "RuleEvaluationStateRecord \<Rightarrow> instant \<Rightarrow> database \<Rightarrow> (go_error + unit) \<times> database" where
  "exec_put_rule r now d =
     (Inr (), d\<lparr>rule_rows := put_row (\<lambda>x. (rr_rule_id x, rr_target x)) (rule_values now r) (rule_rows d)\<rparr>)"

definition exec_insert_delivery ::
    "NotificationDeliveryRecord \<Rightarrow> instant \<Rightarrow> database \<Rightarrow> (go_error + unit) \<times> database" where
  "exec_insert_delivery r now d =
     (let row = delivery_values now r
      in if delivery_allowed row d then (Inr (), d\<lparr>delivery_rows := delivery_rows d @ [row]\<rparr>)
         else (Inl constraint_failed, d))"

definition exec_last_alerted ::
    "string \<Rightarrow> instant \<Rightarrow> instant \<Rightarrow> database \<Rightarrow> (go_error + nat) \<times> database" where
  "exec_last_alerted ident alerted now d =
     (Inr (length (filter (\<lambda>x. ir_id x = ident) (incident_rows d))),
      d\<lparr>incident_rows :=
          map (\<lambda>x. if ir_id x = ident
                   then x\<lparr>ir_last_alerted := Some (formatTime now alerted), ir_updated_at := Time_Text now\<rparr>
                   else x) (incident_rows d)\<rparr>)"

definition query :: "(database \<Rightarrow> 'a) \<Rightarrow> instant \<Rightarrow> database \<Rightarrow> (go_error + 'a) \<times> database" where
  "query f now d = (Inr (f d), d)"

text \<open>\<open>QueryRow ... Scan\<close>: no row is \<open>ErrNoRows\<close>.\<close>

definition query_row :: "string \<Rightarrow> (database \<Rightarrow> 'r option) \<Rightarrow> ('r \<Rightarrow> go_error + 'a) \<Rightarrow> ('a, database) op" where
  "query_row op select scan =
     andThen (map_err (wrapError op ErrorClassQuery) (statement (query select)))
       (\<lambda>row. case row of
          None \<Rightarrow> fail (classifyQueryErr op ErrNoRows)
        | Some r \<Rightarrow> lift_result (scan r))"

subsection \<open>The open database\<close>

definition database_handle :: "(unit, database) op" where
  "database_handle w =
     (if db_open (data w) then (Inr (), w)
      else (Inl (wrapError ''database'' ErrorClassClosed ErrClosed), w))"

definition Close :: "(unit, database) op" where
  "Close w =
     (if \<not> db_open (data w) then (Inr (), w)
      else case external w of
             (r, w1) \<Rightarrow>
               let w2 = w1\<lparr>data := (data w1)\<lparr>db_open := False\<rparr>\<rparr>
               in (case r of None \<Rightarrow> (Inr (), w2)
                   | Some e \<Rightarrow> (Inl (wrapError ''close'' ErrorClassClosed e), w2)))"

definition validated :: "string \<Rightarrow> go_error option \<Rightarrow> (unit, 'd) op" where
  "validated op r = map_err (wrapError op ErrorClassValidation) (checked r)"

subsection \<open>Incidents\<close>

definition upsertIncident :: "IncidentRecord \<Rightarrow> (unit, database) op" where
  "upsertIncident r =
     map_err (wrapError ''upsert incident'' ErrorClassWrite) (statement (exec_put_incident r))"

definition UpsertIncident :: "IncidentRecord \<Rightarrow> (unit, database) op" where
  "UpsertIncident r =
     andThen (validated ''upsert incident'' (validateIncident r)) (\<lambda>_.
     andThen database_handle (\<lambda>_. upsertIncident r))"

definition getIncident :: "string \<Rightarrow> (IncidentRecord, database) op" where
  "getIncident ident =
     query_row ''scan incident'' (\<lambda>d. get_row (\<lambda>x. ir_id x = ident) (incident_rows d)) scanIncident"

definition GetIncident :: "string \<Rightarrow> (IncidentRecord, database) op" where
  "GetIncident ident =
     andThen (validated ''get incident'' (required ident ''incident id'')) (\<lambda>_.
     andThen database_handle (\<lambda>_. getIncident ident))"

definition getIncidentByFingerprint :: "string \<Rightarrow> (IncidentRecord, database) op" where
  "getIncidentByFingerprint fp =
     query_row ''scan incident'' (\<lambda>d. get_row (\<lambda>x. ir_fingerprint x = Some fp) (incident_rows d))
       scanIncident"

definition GetIncidentByFingerprint :: "string \<Rightarrow> (IncidentRecord, database) op" where
  "GetIncidentByFingerprint fp =
     andThen (validated ''get incident by fingerprint'' (required fp ''incident fingerprint'')) (\<lambda>_.
     andThen database_handle (\<lambda>_. getIncidentByFingerprint fp))"

subsection \<open>Rule evaluation state\<close>

definition upsertRuleEvaluationState :: "RuleEvaluationStateRecord \<Rightarrow> (unit, database) op" where
  "upsertRuleEvaluationState r =
     map_err (wrapError ''upsert rule evaluation state'' ErrorClassWrite) (statement (exec_put_rule r))"

definition UpsertRuleEvaluationState :: "RuleEvaluationStateRecord \<Rightarrow> (unit, database) op" where
  "UpsertRuleEvaluationState r =
     andThen (validated ''upsert rule evaluation state'' (validateRuleEvaluationState r)) (\<lambda>_.
     andThen database_handle (\<lambda>_. upsertRuleEvaluationState r))"

definition getRuleEvaluationState :: "string \<Rightarrow> string \<Rightarrow> (RuleEvaluationStateRecord, database) op" where
  "getRuleEvaluationState rule target =
     query_row ''scan rule evaluation state''
       (\<lambda>d. get_row (\<lambda>x. rr_rule_id x = rule \<and> rr_target x = target) (rule_rows d))
       scanRuleEvaluationState"

definition GetRuleEvaluationState :: "string \<Rightarrow> string \<Rightarrow> (RuleEvaluationStateRecord, database) op" where
  "GetRuleEvaluationState rule target =
     andThen (validated ''get rule evaluation state'' (required rule ''rule id'')) (\<lambda>_.
     andThen (validated ''get rule evaluation state'' (required target ''rule target'')) (\<lambda>_.
     andThen database_handle (\<lambda>_. getRuleEvaluationState rule target)))"

text \<open>The operations of an open transaction: the same, without asking for the database.\<close>

definition txGetRuleEvaluationState :: "string \<Rightarrow> string \<Rightarrow> (RuleEvaluationStateRecord, database) op" where
  "txGetRuleEvaluationState rule target =
     andThen (validated ''get rule evaluation state'' (required rule ''rule id'')) (\<lambda>_.
     andThen (validated ''get rule evaluation state'' (required target ''rule target'')) (\<lambda>_.
     getRuleEvaluationState rule target))"

definition txUpsertRuleEvaluationState :: "RuleEvaluationStateRecord \<Rightarrow> (unit, database) op" where
  "txUpsertRuleEvaluationState r =
     andThen (validated ''upsert rule evaluation state'' (validateRuleEvaluationState r)) (\<lambda>_.
     upsertRuleEvaluationState r)"

definition txGetIncidentByFingerprint :: "string \<Rightarrow> (IncidentRecord, database) op" where
  "txGetIncidentByFingerprint fp =
     andThen (validated ''get incident by fingerprint'' (required fp ''incident fingerprint'')) (\<lambda>_.
     getIncidentByFingerprint fp)"

definition txUpsertIncident :: "IncidentRecord \<Rightarrow> (unit, database) op" where
  "txUpsertIncident r =
     andThen (validated ''upsert incident'' (validateIncident r)) (\<lambda>_. upsertIncident r)"

definition RuleEvaluationTransaction :: "('a, database) op \<Rightarrow> ('a, database) op" where
  "RuleEvaluationTransaction fn =
     andThen database_handle (\<lambda>_.
       transaction (wrapError ''rule evaluation transaction begin'' ErrorClassWrite)
         (wrapError ''rule evaluation transaction commit'' ErrorClassWrite) fn)"

subsection \<open>Notification deliveries\<close>

definition insertNotificationDelivery :: "NotificationDeliveryRecord \<Rightarrow> (unit, database) op" where
  "insertNotificationDelivery r =
     map_err (wrapError ''insert notification delivery'' ErrorClassWrite) (statement (exec_insert_delivery r))"

definition updateIncidentLastAlerted :: "string \<Rightarrow> instant \<Rightarrow> (unit, database) op" where
  "updateIncidentLastAlerted ident alerted =
     andThen (map_err (wrapError ''update incident last_alerted'' ErrorClassWrite)
               (statement (exec_last_alerted ident alerted)))
       (\<lambda>rows. if rows = 0 then fail (notFound ''update incident last_alerted'') else ok ())"

definition InsertNotificationDelivery :: "NotificationDeliveryRecord \<Rightarrow> (unit, database) op" where
  "InsertNotificationDelivery r =
     andThen (validated ''insert notification delivery'' (validateNotificationDelivery r)) (\<lambda>_.
     andThen database_handle (\<lambda>_. insertNotificationDelivery r))"

definition UpdateIncidentLastAlerted :: "string \<Rightarrow> instant \<Rightarrow> (unit, database) op" where
  "UpdateIncidentLastAlerted ident alerted =
     andThen (validated ''update incident last_alerted'' (required ident ''incident id'')) (\<lambda>_.
     andThen (validated ''update incident last_alerted'' (requiredTime ''last_alerted'' alerted)) (\<lambda>_.
     andThen database_handle (\<lambda>_. updateIncidentLastAlerted ident alerted)))"

definition txInsertNotificationDelivery :: "NotificationDeliveryRecord \<Rightarrow> (unit, database) op" where
  "txInsertNotificationDelivery r =
     andThen (validated ''insert notification delivery'' (validateNotificationDelivery r)) (\<lambda>_.
     insertNotificationDelivery r)"

definition txUpdateIncidentLastAlerted :: "string \<Rightarrow> instant \<Rightarrow> (unit, database) op" where
  "txUpdateIncidentLastAlerted ident alerted =
     andThen (validated ''update incident last_alerted'' (required ident ''incident id'')) (\<lambda>_.
     andThen (validated ''update incident last_alerted'' (requiredTime ''last_alerted'' alerted)) (\<lambda>_.
     updateIncidentLastAlerted ident alerted))"

definition NotificationDeliveryTransaction :: "('a, database) op \<Rightarrow> ('a, database) op" where
  "NotificationDeliveryTransaction fn =
     andThen database_handle (\<lambda>_.
       transaction (wrapError ''notification delivery transaction begin'' ErrorClassWrite)
         (wrapError ''notification delivery transaction commit'' ErrorClassWrite) fn)"

text \<open>
  \<open>ORDER BY attempted_at\<close> orders the text of the times. RFC 3339 text with the trailing zeros
  of the fraction dropped compares by the second first and then by the bytes of what follows:
  nothing but \<open>Z\<close> for a whole second, a dot and digits otherwise. A dot sorts before
  \<open>Z\<close>, and so do digits. This is the order of the texts for the years 0 to 9999, the only ones whose
  rows can be read back.
\<close>

fun digits :: "nat \<Rightarrow> nat \<Rightarrow> string" where
  "digits 0 n = []"
| "digits (Suc k) n = digits k (n div 10) @ [char_of (48 + n mod 10)]"

definition fraction_text :: "nat \<Rightarrow> string" where
  "fraction_text n =
     (if n = 0 then ''Z''
      else ''.'' @ rev (dropWhile (\<lambda>c. c = CHR ''0'') (rev (digits 9 n))) @ ''Z'')"

definition text_key :: "time_text \<Rightarrow> int \<times> nat list" where
  "text_key v =
     (case v of
        Time_Text t \<Rightarrow> (t div 1000000000, map byte (fraction_text (nat (t mod 1000000000))))
      | Other_Text s \<Rightarrow> (- (2 ^ 63), map byte s))"

text \<open>Rows are scanned in order; the first that does not scan ends the listing with its error.\<close>

fun those_rows :: "(go_error + 'a) list \<Rightarrow> go_error + 'a list" where
  "those_rows [] = Inr []"
| "those_rows (Inl e # rs) = Inl e"
| "those_rows (Inr a # rs) = (case those_rows rs of Inl e \<Rightarrow> Inl e | Inr as \<Rightarrow> Inr (a # as))"

text \<open>
  \<open>QueryContext\<close> and the loop over its rows: the query may fail, a row may not scan, and
  \<open>rows.Err\<close> reports a failure of the iteration.
\<close>

definition list_rows ::
    "string \<Rightarrow> string \<Rightarrow> (database \<Rightarrow> 'r list) \<Rightarrow> ('r \<Rightarrow> go_error + 'a) \<Rightarrow> ('a list, database) op" where
  "list_rows list_op iterate_op select scan =
     andThen (map_err (wrapError list_op ErrorClassQuery) (statement (query select))) (\<lambda>rows.
     andThen (lift_result (those_rows (map scan rows))) (\<lambda>records.
     andThen (map_err (wrapError iterate_op ErrorClassQuery) (statement (query (\<lambda>_. ())))) (\<lambda>_.
     ok records)))"

definition ListNotificationDeliveries :: "string \<Rightarrow> (NotificationDeliveryRecord list, database) op" where
  "ListNotificationDeliveries incident =
     andThen (validated ''list notification deliveries'' (required incident ''incident id'')) (\<lambda>_.
     andThen database_handle (\<lambda>_.
     list_rows ''list notification deliveries'' ''iterate notification deliveries''
       (\<lambda>d. sort_key (\<lambda>x. (text_key (dr_attempted_at x), map byte (dr_id x)))
              (filter (\<lambda>x. dr_incident_id x = incident) (delivery_rows d)))
       scanNotificationDelivery))"

end
