(* ===== verification/Store_Interfaces.thy ===== *)
theory Store_Interfaces
  imports Storage_Records
begin

text \<open>
  The Go interfaces the engines are written against, as locales: \<open>incidents.Store\<close>
  (\<open>incident_store\<close>) and \<open>rules.Store\<close> (\<open>rule_store\<close>, which embeds the former).
  Each fixes the operations the
  client calls together with a view, what a lookup of the data returns, and assumes the laws that
  tie the two: reads report the view and change nothing, a successful write updates the view at its
  key only, and a failed write changes nothing.

  \<open>healthy\<close> is a store that is open with rows that scan; \<open>clash\<close> says that a record's
  identifier and fingerprint are held by different rows, which a collision of the identifier hash
  would cause. A write keeps the store healthy if the times of the record can be parsed back.
\<close>

locale incident_store =
  fixes get :: "string \<Rightarrow> (IncidentRecord, 'd) op"
    and upsert :: "IncidentRecord \<Rightarrow> (unit, 'd) op"
    and view :: "'d \<Rightarrow> string \<Rightarrow> IncidentRecord option"
    and clash :: "'d \<Rightarrow> IncidentRecord \<Rightarrow> bool"
    and healthy :: "'d \<Rightarrow> bool"
  assumes get_found: "get fp w = (Inr r, w1) \<Longrightarrow> view (data w) fp = Some r"
    and get_missing: "get fp w = (Inl e, w1) \<Longrightarrow> errors_is e ErrNotFound \<Longrightarrow> view (data w) fp = None"
    and get_pure: "get fp w = (x, w1) \<Longrightarrow> data w1 = data w \<and> wall w1 = wall w"
    and get_live: "quiet w \<Longrightarrow> healthy (data w) \<Longrightarrow> trim_space fp \<noteq> [] \<Longrightarrow>
       (\<exists>r. get fp w = (Inr r, w)) \<or> (\<exists>e. get fp w = (Inl e, w) \<and> errors_is e ErrNotFound)"
    and upsert_same: "upsert r w = (Inr u, w1) \<Longrightarrow> Redact (inc_Fingerprint r) = inc_Fingerprint r \<Longrightarrow>
       view (data w1) (inc_Fingerprint r) = Some (stored_incident (wall w) r)"
    and upsert_other: "upsert r w = (Inr u, w1) \<Longrightarrow> Redact (inc_Fingerprint r) = inc_Fingerprint r \<Longrightarrow>
       \<not> clash (data w) r \<Longrightarrow> fp \<noteq> inc_Fingerprint r \<Longrightarrow> view (data w1) fp = view (data w) fp"
    and upsert_failed: "upsert r w = (Inl e, w1) \<Longrightarrow> data w1 = data w"
    and upsert_live: "quiet w \<Longrightarrow> healthy (data w) \<Longrightarrow> validateIncident r = None \<Longrightarrow>
       Redact (inc_Fingerprint r) = inc_Fingerprint r \<Longrightarrow> \<not> clash (data w) r \<Longrightarrow>
       incident_readable (incident_values (wall w) r) \<Longrightarrow>
       \<exists>w1. upsert r w = (Inr (), w1) \<and> quiet w1 \<and> healthy (data w1) \<and> wall w1 = wall w"
    and found_no_clash: "healthy d \<Longrightarrow> view d fp = Some r \<Longrightarrow> fp \<noteq> [] \<Longrightarrow> inc_ID r1 = inc_ID r \<Longrightarrow>
       inc_Fingerprint r1 = fp \<Longrightarrow> \<not> clash d r1"
    and view_key: "view d fp = Some r \<Longrightarrow> inc_Fingerprint r = fp"
    and view_times: "healthy d \<Longrightarrow> view d fp = Some r \<Longrightarrow> times_readable r"

locale rule_store = incident_store get upsert view clash healthy
  for get :: "string \<Rightarrow> (IncidentRecord, 'd) op"
    and upsert :: "IncidentRecord \<Rightarrow> (unit, 'd) op"
    and view :: "'d \<Rightarrow> string \<Rightarrow> IncidentRecord option"
    and clash :: "'d \<Rightarrow> IncidentRecord \<Rightarrow> bool"
    and healthy :: "'d \<Rightarrow> bool" +
  fixes get_rule :: "string \<Rightarrow> string \<Rightarrow> (RuleEvaluationStateRecord, 'd) op"
    and put_rule :: "RuleEvaluationStateRecord \<Rightarrow> (unit, 'd) op"
    and rule_view :: "'d \<Rightarrow> string \<Rightarrow> string \<Rightarrow> RuleEvaluationStateRecord option"
  assumes get_rule_found: "get_rule i t w = (Inr r, w1) \<Longrightarrow> rule_view (data w) i t = Some r"
    and get_rule_missing: "get_rule i t w = (Inl e, w1) \<Longrightarrow> errors_is e ErrNotFound \<Longrightarrow>
       rule_view (data w) i t = None"
    and get_rule_pure: "get_rule i t w = (z, w1) \<Longrightarrow> data w1 = data w \<and> wall w1 = wall w"
    and get_rule_live: "quiet w \<Longrightarrow> healthy (data w) \<Longrightarrow> trim_space i \<noteq> [] \<Longrightarrow> trim_space t \<noteq> [] \<Longrightarrow>
       (\<exists>r. get_rule i t w = (Inr r, w)) \<or>
       (\<exists>e. get_rule i t w = (Inl e, w) \<and> errors_is e ErrNotFound)"
    and put_rule_same: "put_rule r w = (Inr u, w1) \<Longrightarrow>
       rule_view (data w1) (Redact (rs_RuleID r)) (Redact (rs_Target r)) = Some (stored_rule (wall w) r)"
    and put_rule_other: "put_rule r w = (Inr u, w1) \<Longrightarrow>
       (i, t) \<noteq> (Redact (rs_RuleID r), Redact (rs_Target r)) \<Longrightarrow>
       rule_view (data w1) i t = rule_view (data w) i t"
    and put_rule_incidents: "put_rule r w = (y, w1) \<Longrightarrow>
       view (data w1) = view (data w) \<and> clash (data w1) = clash (data w) \<and> wall w1 = wall w"
    and put_rule_failed: "put_rule r w = (Inl e, w1) \<Longrightarrow> data w1 = data w"
    and put_rule_live: "quiet w \<Longrightarrow> healthy (data w) \<Longrightarrow> validateRuleEvaluationState r = None \<Longrightarrow>
       rule_readable (rule_values (wall w) r) \<Longrightarrow>
       \<exists>w1. put_rule r w = (Inr (), w1) \<and> quiet w1 \<and> healthy (data w1) \<and> wall w1 = wall w"
    and upsert_rules: "upsert inc w = (y, w1) \<Longrightarrow> rule_view (data w1) = rule_view (data w) \<and>
       wall w1 = wall w"

end
