(* ===== verification/Storage_Laws.thy ===== *)
theory Storage_Laws
  imports Storage Store_Interfaces
begin

text \<open>
  What the SQL store of \<open>Storage\<close> promises: the integrity constraints of the schema hold in
  every reachable database, a failed operation changes nothing, and the operations satisfy the
  interfaces of \<open>Store_Interfaces\<close>, inside a transaction and outside one.
\<close>

subsection \<open>Keyed rows\<close>

lemma set_put_row: "x \<in> set (put_row key r xs) \<Longrightarrow> x = r \<or> x \<in> set xs"
  by (induction xs) (auto split: if_splits)

lemma put_row_mem [simp]: "r \<in> set (put_row key r xs)"
  by (induction xs) auto

lemma put_row_keeps: "x \<in> set xs \<Longrightarrow> key x \<noteq> key r \<Longrightarrow> x \<in> set (put_row key r xs)"
  by (induction xs) auto

lemma keys_put_row: "set (map key (put_row key r xs)) = insert (key r) (set (map key xs))"
  by (induction xs) auto

lemma distinct_put_row: "distinct (map key xs) \<Longrightarrow> distinct (map key (put_row key r xs))"
proof (induction xs)
  case (Cons x xs)
  then show ?case using keys_put_row [of key r xs] by auto
qed simp

lemma find_put_row_same:
  assumes "p r" "\<And>x. x \<in> set xs \<Longrightarrow> p x \<Longrightarrow> key x = key r"
  shows "find p (put_row key r xs) = Some r"
  using assms by (induction xs) auto

lemma find_put_row_other:
  assumes "\<not> p r" "\<And>x. x \<in> set xs \<Longrightarrow> key x = key r \<Longrightarrow> \<not> p x"
  shows "find p (put_row key r xs) = find p xs"
  using assms by (induction xs) auto

subsection \<open>Single operations\<close>

lemma validated_simps [simp]:
  "validated op None w = (Inr (), w)"
  "validated op (Some e) w = (Inl (wrapError op ErrorClassValidation e), w)"
  by (simp_all add: validated_def map_err_def)

lemma validated_cases:
  "validated op r w = (x, w1) \<Longrightarrow>
     w1 = w \<and> (x = Inr () \<and> r = None \<or> (\<exists>e. r = Some e \<and> x = Inl (wrapError op ErrorClassValidation e)))"
  by (cases r) auto

lemma required_not_found: "required v f = Some e \<Longrightarrow> \<not> errors_is e ErrNotFound"
  by (auto simp: required_def split: if_splits)

lemma database_handle_cases:
  "database_handle w = (x, w1) \<Longrightarrow>
     w1 = w \<and> (if db_open (data w) then x = Inr ()
               else x = Inl (wrapError ''database'' ErrorClassClosed ErrClosed))"
  by (simp add: database_handle_def split: if_splits)

lemma database_handle_open [simp]: "db_open (data w) \<Longrightarrow> database_handle w = (Inr (), w)"
  by (simp add: database_handle_def)

lemma keeps_database_handle [frame_intros]: "keeps g database_handle"
  by (simp add: keeps_def database_handle_def)

lemma keeps_validated [frame_intros]: "keeps g (validated op r)"
  by (simp add: validated_def frame_intros)

lemma keeps_query [frame_intros]: "keeps g (statement (query f))"
  by (rule keeps_statement) (simp add: query_def)

lemma keeps_query_row [frame_intros]: "keeps g (query_row op select scan)"
  unfolding query_row_def by (intro frame_intros) (simp add: frame_intros split: option.split)

lemma statement_wall: "statement f w = (x, w1) \<Longrightarrow> wall w1 = wall w"
  by (auto simp: statement_def split: prod.splits option.splits dest: external_wall)

text \<open>The result of a query: the selected row scanned, or an error that is not "not found".\<close>

lemma query_row_result:
  assumes "query_row op select scan w = (x, w1)"
  shows "data w1 = data w \<and> wall w1 = wall w \<and>
    (case x of
       Inr r \<Rightarrow> \<exists>row. select (data w) = Some row \<and> scan row = Inr r
     | Inl e \<Rightarrow> errors_is e ErrNotFound \<longrightarrow>
         select (data w) = None \<or> (\<exists>row. select (data w) = Some row \<and> scan row = Inl e))"
proof -
  obtain r w2 where e: "external w = (r, w2)" by fastforce
  show ?thesis
  proof (cases r)
    case (Some f)
    with e assms external_failure [of w f w2] show ?thesis
      by (auto simp: query_row_def andThen_def map_err_def statement_def wrapError_is_sentinel
          dest: external_dataD external_wall)
  next
    case None
    with e assms show ?thesis
      by (auto simp: query_row_def andThen_def map_err_def statement_def query_def lift_result_def
          ok_def fail_def dest: external_dataD external_wall split: option.splits sum.splits)
  qed
qed

lemma query_row_quiet:
  "quiet w \<Longrightarrow> query_row op select scan w =
     (case select (data w) of
        None \<Rightarrow> (Inl (notFound op), w)
      | Some row \<Rightarrow> (scan row, w))"
  by (simp add: query_row_def andThen_def map_err_def query_def lift_result_def ok_def fail_def
      classifyQueryErr_def split: option.split sum.split)

text \<open>Scanning fails with a query error, never with "not found".\<close>

definition benign :: "go_error + 'a \<Rightarrow> bool" where
  "benign r \<longleftrightarrow> (\<forall>e. r = Inl e \<longrightarrow> \<not> errors_is e ErrNotFound)"

lemma benign_Inr [intro!, simp]: "benign (Inr a)"
  by (simp add: benign_def)

lemma benign_column [intro!]: "benign r \<Longrightarrow> (\<And>a. benign (k a)) \<Longrightarrow> benign (column op r k)"
  by (auto simp: benign_def column_def wrapError_is_sentinel split: sum.splits)

lemma benign_parseTime [intro!]: "benign (parseTime v)"
  by (auto simp: benign_def parseTime_def split: time_text.splits)

lemma benign_scanNullableTime [intro!]: "benign (scanNullableTime v)"
  using benign_parseTime
  by (auto simp: benign_def scanNullableTime_def split: option.splits sum.splits)

lemma benign_scanIncident: "benign (scanIncident row)"
  unfolding scanIncident_def by (intro benign_column benign_parseTime benign_scanNullableTime benign_Inr)

lemma benign_scanRule: "benign (scanRuleEvaluationState row)"
  unfolding scanRuleEvaluationState_def
  by (intro benign_column benign_parseTime benign_scanNullableTime benign_Inr)

lemma benignD: "benign r \<Longrightarrow> r = Inl e \<Longrightarrow> errors_is e ErrNotFound \<Longrightarrow> False"
  by (simp add: benign_def)

subsection \<open>Guards\<close>

text \<open>Validation and the closed-database test either pass or fail without touching anything.\<close>

definition guard :: "(unit, 'd) op \<Rightarrow> bool" where
  "guard g \<longleftrightarrow> (\<forall>w. g w = (Inr (), w) \<or> (\<exists>e. g w = (Inl e, w) \<and> \<not> errors_is e ErrNotFound))"

lemma guard_andThen:
  "guard g \<Longrightarrow> andThen g f w = (x, w1) \<Longrightarrow>
     f () w = (x, w1) \<and> g w = (Inr (), w) \<or> (\<exists>e. x = Inl e \<and> w1 = w \<and> \<not> errors_is e ErrNotFound)"
  unfolding guard_def andThen_def by (auto split: prod.splits sum.splits dest!: spec [of _ w])

lemma guard_database_handle: "guard database_handle"
  by (auto simp: guard_def database_handle_def wrapError_is_sentinel)

lemma guard_validated:
  "(\<And>e. r = Some e \<Longrightarrow> \<not> errors_is e ErrNotFound) \<Longrightarrow> guard (validated op r)"
  by (cases r) (auto simp: guard_def wrapError_is_sentinel)

lemma guard_required: "guard (validated op (required v f))"
  by (rule guard_validated) (rule required_not_found)

lemma first_error_mem: "first_error rs = Some e \<Longrightarrow> Some e \<in> set rs"
  by (induction rs) (auto split: option.splits)

lemma guard_validate_incident: "guard (validated op (validateIncident r))"
  by (rule guard_validated)
     (auto simp: validateIncident_def requiredTime_def dest!: first_error_mem required_not_found [OF sym]
       simp del: first_error.simps split: if_splits)

lemma guard_validate_rule: "guard (validated op (validateRuleEvaluationState r))"
  by (rule guard_validated)
     (auto simp: validateRuleEvaluationState_def requiredTime_def
       dest!: first_error_mem required_not_found [OF sym] simp del: first_error.simps split: if_splits)

subsection \<open>Views\<close>

text \<open>What the rows of a key say; a lookup returns it when the row's times can be parsed.\<close>

definition scanned :: "go_error + 'a \<Rightarrow> 'a option" where
  "scanned r = (case r of Inl e \<Rightarrow> None | Inr a \<Rightarrow> Some a)"

definition incident_view :: "database \<Rightarrow> string \<Rightarrow> IncidentRecord option" where
  "incident_view d fp =
     map_option incident_of_row (get_row (\<lambda>x. ir_fingerprint x = Some fp) (incident_rows d))"

definition incident_clash :: "database \<Rightarrow> IncidentRecord \<Rightarrow> bool" where
  "incident_clash d r \<longleftrightarrow>
     list_ex (\<lambda>x. (ir_id x = inc_ID r) \<noteq> (ir_fingerprint x = Some (inc_Fingerprint r))) (incident_rows d)"

definition rule_state_view :: "database \<Rightarrow> string \<Rightarrow> string \<Rightarrow> RuleEvaluationStateRecord option" where
  "rule_state_view d rule target =
     map_option rule_of_row (get_row (\<lambda>x. rr_rule_id x = rule \<and> rr_target x = target) (rule_rows d))"

definition incident_keys :: "incident_row list \<Rightarrow> bool" where
  "incident_keys rows \<longleftrightarrow>
     distinct (map ir_id rows) \<and> distinct (map ir_fingerprint (filter fingerprint_indexed rows))"

definition healthy_database :: "database \<Rightarrow> bool" where
  "healthy_database d \<longleftrightarrow>
     db_open d \<and> incident_keys (incident_rows d) \<and>
     list_all incident_readable (incident_rows d) \<and> list_all rule_readable (rule_rows d)"

lemma scanned_simps [simp]: "scanned (Inr a) = Some a" "scanned (Inl e) = None"
  by (simp_all add: scanned_def)

lemma scanned_SomeD: "scanned r = Some a \<Longrightarrow> r = Inr a"
  by (cases r) simp_all

subsection \<open>The SQL operations keep the laws\<close>

lemma getIncidentByFingerprint_law:
  assumes "getIncidentByFingerprint fp w = (x, w1)"
  shows "data w1 = data w \<and> wall w1 = wall w \<and>
    (\<forall>r. x = Inr r \<longrightarrow> incident_view (data w) fp = Some r) \<and>
    (\<forall>e. x = Inl e \<longrightarrow> errors_is e ErrNotFound \<longrightarrow> incident_view (data w) fp = None)"
  using query_row_result [OF assms [unfolded getIncidentByFingerprint_def]]
  by (auto simp: incident_view_def scan_rows split: sum.splits option.splits dest: benignD [OF benign_scanIncident])

lemma getRuleEvaluationState_law:
  assumes "getRuleEvaluationState i t w = (x, w1)"
  shows "data w1 = data w \<and> wall w1 = wall w \<and>
    (\<forall>r. x = Inr r \<longrightarrow> rule_state_view (data w) i t = Some r) \<and>
    (\<forall>e. x = Inl e \<longrightarrow> errors_is e ErrNotFound \<longrightarrow> rule_state_view (data w) i t = None)"
  using query_row_result [OF assms [unfolded getRuleEvaluationState_def]]
  by (auto simp: rule_state_view_def scan_rows split: sum.splits option.splits dest: benignD [OF benign_scanRule])

lemma healthy_incident:
  "healthy_database d \<Longrightarrow> get_row p (incident_rows d) = Some row \<Longrightarrow> \<exists>r. scanIncident row = Inr r"
  by (auto simp: healthy_database_def get_row_def list_all_iff find_Some_iff)

lemma healthy_rule:
  "healthy_database d \<Longrightarrow> get_row p (rule_rows d) = Some row \<Longrightarrow> \<exists>r. scanRuleEvaluationState row = Inr r"
  by (auto simp: healthy_database_def get_row_def list_all_iff find_Some_iff)

lemma getIncidentByFingerprint_live:
  "quiet w \<Longrightarrow> healthy_database (data w) \<Longrightarrow>
     (\<exists>r. getIncidentByFingerprint fp w = (Inr r, w)) \<or>
     (\<exists>e. getIncidentByFingerprint fp w = (Inl e, w) \<and> errors_is e ErrNotFound)"
  by (auto simp: getIncidentByFingerprint_def query_row_quiet dest: healthy_incident split: option.split)

lemma getRuleEvaluationState_live:
  "quiet w \<Longrightarrow> healthy_database (data w) \<Longrightarrow>
     (\<exists>r. getRuleEvaluationState i t w = (Inr r, w)) \<or>
     (\<exists>e. getRuleEvaluationState i t w = (Inl e, w) \<and> errors_is e ErrNotFound)"
  by (auto simp: getRuleEvaluationState_def query_row_quiet dest: healthy_rule split: option.split)

lemma statement_cases:
  assumes "statement f w = (x, w1)"
  shows "wall w1 = wall w \<and>
    ((\<exists>e. x = Inl e \<and> data w1 = data w) \<or> f (wall w) (data w) = (x, data w1))"
proof -
  obtain r w2 where e: "external w = (r, w2)" by fastforce
  with external_dataD [OF e] external_wall [OF e] assms show ?thesis
    by (cases r) (auto simp: statement_def split: prod.splits)
qed

lemma map_err_cases:
  "map_err g m w = (x, w1) \<Longrightarrow>
     (\<exists>e. x = Inl (g e) \<and> m w = (Inl e, w1)) \<or> (\<exists>a. x = Inr a \<and> m w = (Inr a, w1))"
  by (auto simp: map_err_def split: prod.splits sum.splits)

lemma those_rows_Inr: "those_rows rs = Inr as \<Longrightarrow> rs = map Inr as"
  by (induction rs arbitrary: as rule: those_rows.induct) (auto split: sum.splits)

lemma query_Inr: "map_err g (statement (query f)) w = (Inr a, w1) \<Longrightarrow> a = f (data w)"
  by (auto simp: query_def dest!: map_err_cases statement_cases)

lemma lift_result_Inr_iff: "lift_result r w = (Inr a, w1) \<longleftrightarrow> r = Inr a \<and> w1 = w"
  by (cases r) (auto simp: lift_result_def ok_def fail_def)

lemma list_rows_Inr:
  assumes "list_rows op1 op2 select scan w = (Inr xs, w1)"
  shows "map scan (select (data w)) = map Inr xs"
  using assms unfolding list_rows_def andThen_Inr_iff lift_result_Inr_iff
  by (auto simp: ok_def dest!: query_Inr those_rows_Inr)

lemma keeps_list_rows [frame_intros]: "keeps g (list_rows op1 op2 select scan)"
  unfolding list_rows_def by (intro frame_intros)

lemma upsertIncident_Inr:
  assumes "upsertIncident r w = (Inr u, w1)"
  shows "incident_allowed (incident_values (wall w) r) (incident_rows (data w)) \<and>
    data w1 = (data w)\<lparr>incident_rows :=
      put_row ir_id (incident_values (wall w) r) (incident_rows (data w))\<rparr>"
  using assms
  by (auto simp: upsertIncident_def exec_put_incident_def Let_def
      dest!: map_err_cases statement_cases split: if_splits)

lemma upsertIncident_Inl: "upsertIncident r w = (Inl e, w1) \<Longrightarrow> data w1 = data w"
  by (auto simp: upsertIncident_def exec_put_incident_def Let_def
      dest!: map_err_cases statement_cases split: if_splits)

lemma upsertIncident_quiet:
  "quiet w \<Longrightarrow> incident_allowed (incident_values (wall w) r) (incident_rows (data w)) \<Longrightarrow>
   upsertIncident r w = (Inr (), w\<lparr>data := (data w)\<lparr>incident_rows :=
      put_row ir_id (incident_values (wall w) r) (incident_rows (data w))\<rparr>\<rparr>)"
  by (simp add: upsertIncident_def map_err_def exec_put_incident_def)

lemma upsertRule_Inr:
  assumes "upsertRuleEvaluationState r w = (Inr u, w1)"
  shows "data w1 = (data w)\<lparr>rule_rows :=
    put_row (\<lambda>x. (rr_rule_id x, rr_target x)) (rule_values (wall w) r) (rule_rows (data w))\<rparr>"
  using assms
  by (auto simp: upsertRuleEvaluationState_def exec_put_rule_def dest!: map_err_cases statement_cases)

lemma upsertRule_Inl: "upsertRuleEvaluationState r w = (Inl e, w1) \<Longrightarrow> data w1 = data w"
  by (auto simp: upsertRuleEvaluationState_def exec_put_rule_def dest!: map_err_cases statement_cases)

lemma upsertRule_quiet:
  "quiet w \<Longrightarrow> upsertRuleEvaluationState r w = (Inr (), w\<lparr>data := (data w)\<lparr>rule_rows :=
    put_row (\<lambda>x. (rr_rule_id x, rr_target x)) (rule_values (wall w) r) (rule_rows (data w))\<rparr>\<rparr>)"
  by (simp add: upsertRuleEvaluationState_def map_err_def exec_put_rule_def)

lemma incident_values_key [simp]:
  "ir_id (incident_values now r) = inc_ID r"
  "ir_fingerprint (incident_values now r) = Some (Redact (inc_Fingerprint r))"
  "ir_occurrence_count (incident_values now r) = inc_OccurrenceCount r"
  by (simp_all add: incident_values_def)

lemma rule_values_key [simp]:
  "rr_rule_id (rule_values now r) = Redact (rs_RuleID r)"
  "rr_target (rule_values now r) = Redact (rs_Target r)"
  by (simp_all add: rule_values_def)

lemma incident_view_put_same:
  assumes "incident_allowed (incident_values now r) rows" "Redact (inc_Fingerprint r) = inc_Fingerprint r"
    "inc_Fingerprint r \<noteq> []" "incident_rows d = put_row ir_id (incident_values now r) rows"
  shows "incident_view d (inc_Fingerprint r) = Some (stored_incident now r)"
proof -
  have "get_row (\<lambda>x. ir_fingerprint x = Some (inc_Fingerprint r)) (incident_rows d) =
      Some (incident_values now r)"
    using assms unfolding get_row_def
    by (auto intro!: find_put_row_same simp: incident_allowed_def fingerprint_indexed_def list_ex_iff)
  then show ?thesis by (simp add: incident_view_def)
qed

lemma incident_view_put_other:
  assumes "Redact (inc_Fingerprint r) = inc_Fingerprint r" "\<not> incident_clash d0 r"
    "fp \<noteq> inc_Fingerprint r" "incident_rows d = put_row ir_id (incident_values now r) (incident_rows d0)"
  shows "incident_view d fp = incident_view d0 fp"
proof -
  have "get_row (\<lambda>x. ir_fingerprint x = Some fp) (incident_rows d) =
      get_row (\<lambda>x. ir_fingerprint x = Some fp) (incident_rows d0)"
    using assms unfolding get_row_def
    by (auto intro!: find_put_row_other simp: incident_clash_def list_ex_iff)
  then show ?thesis by (simp add: incident_view_def)
qed

lemma rule_view_put_same:
  assumes "rule_rows d = put_row (\<lambda>x. (rr_rule_id x, rr_target x)) (rule_values now r) rows"
  shows "rule_state_view d (Redact (rs_RuleID r)) (Redact (rs_Target r)) = Some (stored_rule now r)"
proof -
  have "get_row (\<lambda>x. rr_rule_id x = Redact (rs_RuleID r) \<and> rr_target x = Redact (rs_Target r)) (rule_rows d) =
      Some (rule_values now r)"
    using assms unfolding get_row_def by (auto intro!: find_put_row_same)
  then show ?thesis by (simp add: rule_state_view_def)
qed

lemma rule_view_put_other:
  assumes "(i, t) \<noteq> (Redact (rs_RuleID r), Redact (rs_Target r))"
    "rule_rows d = put_row (\<lambda>x. (rr_rule_id x, rr_target x)) (rule_values now r) (rule_rows d0)"
  shows "rule_state_view d i t = rule_state_view d0 i t"
proof -
  have "get_row (\<lambda>x. rr_rule_id x = i \<and> rr_target x = t) (rule_rows d) =
      get_row (\<lambda>x. rr_rule_id x = i \<and> rr_target x = t) (rule_rows d0)"
    using assms unfolding get_row_def by (auto intro!: find_put_row_other)
  then show ?thesis by (simp add: rule_state_view_def)
qed

text \<open>A partial key (the indexed fingerprint) stays distinct when no other row holds the new row's.\<close>

lemma distinct_filter_put_row:
  "distinct (map f (filter P rows)) \<Longrightarrow>
   \<forall>x\<in>set rows. P x \<longrightarrow> P r \<longrightarrow> key x \<noteq> key r \<longrightarrow> f x \<noteq> f r \<Longrightarrow>
   distinct (map key rows) \<Longrightarrow> distinct (map f (filter P (put_row key r rows)))"
proof (induction rows)
  case (Cons x rows)
  show ?case
  proof (cases "key x = key r")
    case True
    with Cons.prems have "\<forall>y\<in>set rows. key y \<noteq> key r" by (auto simp: image_iff)
    then have "P r \<Longrightarrow> y \<in> set rows \<Longrightarrow> P y \<Longrightarrow> f r \<noteq> f y" for y
      using Cons.prems(2) by fastforce
    with True Cons.prems(1) show ?thesis by (auto simp: image_iff split: if_splits)
  next
    case False
    with Cons.prems have new: "\<forall>y\<in>set (put_row key r rows). P x \<longrightarrow> P y \<longrightarrow> f x \<noteq> f y"
      by (auto dest!: set_put_row split: if_splits)
    have "distinct (map f (filter P (put_row key r rows)))"
      using Cons by (simp split: if_splits)
    with False new show ?thesis by auto
  qed
qed simp

lemma incident_keys_put_row:
  "incident_allowed row rows \<Longrightarrow> incident_keys rows \<Longrightarrow> incident_keys (put_row ir_id row rows)"
  unfolding incident_keys_def incident_allowed_def list_ex_iff
  by (intro conjI distinct_put_row distinct_filter_put_row)
     (auto simp: fingerprint_indexed_def)

lemma healthy_put_incident:
  "healthy_database d \<Longrightarrow> incident_allowed (incident_values now r) (incident_rows d) \<Longrightarrow>
   incident_readable (incident_values now r) \<Longrightarrow>
   healthy_database (d\<lparr>incident_rows := put_row ir_id (incident_values now r) (incident_rows d)\<rparr>)"
  by (auto simp: healthy_database_def incident_keys_put_row list_all_iff dest!: set_put_row)

lemma incident_of_row_keys [simp]:
  "inc_ID (incident_of_row row) = ir_id row" "inc_Fingerprint (incident_of_row row) = stringFromNull (ir_fingerprint row)"
  by (simp_all add: incident_of_row_def)

lemma incident_view_row:
  assumes "incident_view d fp = Some r"
  obtains row where "row \<in> set (incident_rows d)" "ir_fingerprint row = Some fp" "r = incident_of_row row"
proof -
  from assms obtain row where "find (\<lambda>x. ir_fingerprint x = Some fp) (incident_rows d) = Some row"
      and row: "r = incident_of_row row"
    by (auto simp: incident_view_def get_row_def)
  then show thesis using that [of row] by (auto simp: find_Some_iff)
qed

lemma incident_view_key: "incident_view d fp = Some r \<Longrightarrow> inc_Fingerprint r = fp"
  by (erule incident_view_row) auto

lemma distinct_filter_eq:
  "distinct (map f (filter P xs)) \<Longrightarrow> x \<in> set xs \<Longrightarrow> y \<in> set xs \<Longrightarrow> P x \<Longrightarrow> P y \<Longrightarrow> f x = f y \<Longrightarrow> x = y"
  by (auto simp: distinct_map dest: inj_onD)

lemma incident_keysD:
  assumes "healthy_database d" "x \<in> set (incident_rows d)" "y \<in> set (incident_rows d)"
  shows "ir_id x = ir_id y \<Longrightarrow> x = y"
    "ir_fingerprint x = Some fp \<Longrightarrow> ir_fingerprint y = Some fp \<Longrightarrow> fp \<noteq> [] \<Longrightarrow> x = y"
  using assms distinct_filter_eq [of ir_id "\<lambda>x. True" "incident_rows d" x y]
    distinct_filter_eq [of ir_fingerprint fingerprint_indexed "incident_rows d" x y]
  by (auto simp: healthy_database_def incident_keys_def fingerprint_indexed_def)

lemma found_incident_clash:
  assumes "healthy_database d" "incident_view d fp = Some r" "fp \<noteq> []"
    "inc_ID r1 = inc_ID r" "inc_Fingerprint r1 = fp"
  shows "\<not> incident_clash d r1"
proof -
  obtain row where row: "row \<in> set (incident_rows d)" "ir_fingerprint row = Some fp" "r = incident_of_row row"
    using incident_view_row [OF assms(2)] .
  then have "ir_id row = inc_ID r"
    by simp
  moreover have "ir_fingerprint x = Some fp \<longleftrightarrow> ir_id x = ir_id row" if "x \<in> set (incident_rows d)" for x
    using incident_keysD [OF assms(1) that row(1)] row(2) assms(3) by auto
  ultimately show ?thesis
    using row assms by (auto simp: incident_clash_def list_ex_iff)
qed

lemma healthy_put_rule:
  "healthy_database d \<Longrightarrow> rule_readable (rule_values now r) \<Longrightarrow> healthy_database (d\<lparr>rule_rows :=
     put_row (\<lambda>x. (rr_rule_id x, rr_target x)) (rule_values now r) (rule_rows d)\<rparr>)"
  by (auto simp: healthy_database_def list_all_iff dest!: set_put_row)

lemma not_clash_allowed:
  "validateIncident r = None \<Longrightarrow> Redact (inc_Fingerprint r) = inc_Fingerprint r \<Longrightarrow> \<not> incident_clash d r \<Longrightarrow>
   incident_allowed (incident_values now r) (incident_rows d)"
  by (auto simp: incident_allowed_def incident_clash_def list_ex_iff validateIncident_None_iff)

lemma trim_space_Nil [simp]: "trim_space [] = []"
  by (simp add: trim_space_free)

lemma validated_fingerprint: "validateIncident r = None \<Longrightarrow> inc_Fingerprint r \<noteq> []"
  by (auto simp: validateIncident_None_iff)

subsection \<open>The interfaces\<close>

lemma upsertIncident_live:
  assumes "quiet w" "healthy_database (data w)" "validateIncident r = None"
    "Redact (inc_Fingerprint r) = inc_Fingerprint r" "\<not> incident_clash (data w) r"
    "incident_readable (incident_values (wall w) r)"
  shows "\<exists>w1. upsertIncident r w = (Inr (), w1) \<and> quiet w1 \<and> healthy_database (data w1) \<and> wall w1 = wall w"
  using assms by (simp add: upsertIncident_quiet not_clash_allowed healthy_put_incident)

lemma upsertRule_live:
  assumes "quiet w" "healthy_database (data w)" "rule_readable (rule_values (wall w) r)"
  shows "\<exists>w1. upsertRuleEvaluationState r w = (Inr (), w1) \<and> quiet w1 \<and> healthy_database (data w1) \<and>
    wall w1 = wall w"
  using assms by (simp add: upsertRule_quiet healthy_put_rule)

lemma healthy_open: "healthy_database d \<Longrightarrow> db_open d"
  by (simp add: healthy_database_def)

lemma andThen_step: "m w = (Inr a, w) \<Longrightarrow> andThen m f w = f a w"
  by (simp add: andThen_def)

lemma keeps_wall_upsertIncident: "upsertIncident r w = (x, w1) \<Longrightarrow> wall w1 = wall w"
  by (auto simp: upsertIncident_def dest!: map_err_cases statement_cases)

text \<open>What a guarded read reports, whatever the guards are.\<close>

lemma guarded_incident_read:
  assumes "guard g" "andThen g (\<lambda>_. getIncidentByFingerprint fp) w = (x, w1)"
  shows "data w1 = data w \<and> wall w1 = wall w \<and>
    (\<forall>r. x = Inr r \<longrightarrow> incident_view (data w) fp = Some r) \<and>
    (\<forall>e. x = Inl e \<longrightarrow> errors_is e ErrNotFound \<longrightarrow> incident_view (data w) fp = None)"
  using guard_andThen [OF assms] by (auto dest!: getIncidentByFingerprint_law)

lemma guarded_rule_read:
  assumes "guard g" "andThen g (\<lambda>_. getRuleEvaluationState i t) w = (x, w1)"
  shows "data w1 = data w \<and> wall w1 = wall w \<and>
    (\<forall>r. x = Inr r \<longrightarrow> rule_state_view (data w) i t = Some r) \<and>
    (\<forall>e. x = Inl e \<longrightarrow> errors_is e ErrNotFound \<longrightarrow> rule_state_view (data w) i t = None)"
  using guard_andThen [OF assms] by (auto dest!: getRuleEvaluationState_law)

lemma andThen_assoc: "andThen (andThen m f) g = andThen m (\<lambda>a. andThen (f a) g)"
  by (auto simp: fun_eq_iff andThen_def split: prod.split sum.split)

lemma guard_then: "guard g \<Longrightarrow> guard h \<Longrightarrow> guard (andThen g (\<lambda>_. h))"
  unfolding guard_def andThen_def by (auto split: prod.splits sum.splits) (metis Inl_inject Pair_inject sum.distinct(1))+

lemmas guards = guard_then guard_required guard_database_handle

lemma incident_data_only:
  "upsertIncident r w = (x, w1) \<Longrightarrow>
     rule_state_view (data w1) = rule_state_view (data w) \<and> db_open (data w1) = db_open (data w) \<and>
     wall w1 = wall w"
  using keeps_wall_upsertIncident [of r w x w1]
  by (cases x) (auto dest!: upsertIncident_Inr upsertIncident_Inl simp: rule_state_view_def fun_eq_iff)

lemma keeps_wall_upsertRule: "upsertRuleEvaluationState r w = (x, w1) \<Longrightarrow> wall w1 = wall w"
  by (auto simp: upsertRuleEvaluationState_def dest!: map_err_cases statement_cases)

lemma rule_data_only:
  "upsertRuleEvaluationState r w = (x, w1) \<Longrightarrow>
     incident_view (data w1) = incident_view (data w) \<and> incident_clash (data w1) = incident_clash (data w) \<and>
     wall w1 = wall w"
  using keeps_wall_upsertRule [of r w x w1]
  by (cases x) (auto dest!: upsertRule_Inr upsertRule_Inl simp: incident_view_def incident_clash_def fun_eq_iff)

lemma upsert_same_law:
  assumes "validateIncident r = None" "upsertIncident r w = (Inr u, w1)"
    "Redact (inc_Fingerprint r) = inc_Fingerprint r"
  shows "incident_view (data w1) (inc_Fingerprint r) = Some (stored_incident (wall w) r)"
  using upsertIncident_Inr [OF assms(2)] validated_fingerprint [OF assms(1)] assms(3)
  by (auto intro: incident_view_put_same)

lemma upsert_other_law:
  assumes "upsertIncident r w = (Inr u, w1)" "Redact (inc_Fingerprint r) = inc_Fingerprint r"
    "\<not> incident_clash (data w) r" "fp \<noteq> inc_Fingerprint r"
  shows "incident_view (data w1) fp = incident_view (data w) fp"
  using upsertIncident_Inr [OF assms(1)] assms(2-) by (intro incident_view_put_other) auto

lemma put_rule_same_law:
  "upsertRuleEvaluationState r w = (Inr u, w1) \<Longrightarrow>
   rule_state_view (data w1) (Redact (rs_RuleID r)) (Redact (rs_Target r)) = Some (stored_rule (wall w) r)"
  by (drule upsertRule_Inr) (auto intro: rule_view_put_same)

lemma put_rule_other_law:
  "upsertRuleEvaluationState r w = (Inr u, w1) \<Longrightarrow> (i, t) \<noteq> (Redact (rs_RuleID r), Redact (rs_Target r)) \<Longrightarrow>
   rule_state_view (data w1) i t = rule_state_view (data w) i t"
  by (drule upsertRule_Inr) (intro rule_view_put_other, auto)

text \<open>
  The methods of \<open>Store\<close> ask for the database after validating, those of a transaction do
  not. Both are instances of the operations below, for \<open>h\<close> the database test or nothing.
\<close>

definition guarded_get_incident :: "(unit, database) op \<Rightarrow> string \<Rightarrow> (IncidentRecord, database) op" where
  "guarded_get_incident h fp =
     andThen (andThen (validated ''get incident by fingerprint'' (required fp ''incident fingerprint''))
       (\<lambda>_. h)) (\<lambda>_. getIncidentByFingerprint fp)"

definition guarded_put_incident :: "(unit, database) op \<Rightarrow> IncidentRecord \<Rightarrow> (unit, database) op" where
  "guarded_put_incident h r =
     andThen (andThen (validated ''upsert incident'' (validateIncident r)) (\<lambda>_. h)) (\<lambda>_. upsertIncident r)"

definition guarded_get_rule ::
    "(unit, database) op \<Rightarrow> string \<Rightarrow> string \<Rightarrow> (RuleEvaluationStateRecord, database) op" where
  "guarded_get_rule h i t =
     andThen (andThen (validated ''get rule evaluation state'' (required i ''rule id''))
       (\<lambda>_. andThen (validated ''get rule evaluation state'' (required t ''rule target'')) (\<lambda>_. h)))
       (\<lambda>_. getRuleEvaluationState i t)"

definition guarded_put_rule :: "(unit, database) op \<Rightarrow> RuleEvaluationStateRecord \<Rightarrow> (unit, database) op" where
  "guarded_put_rule h r =
     andThen (andThen (validated ''upsert rule evaluation state'' (validateRuleEvaluationState r)) (\<lambda>_. h))
       (\<lambda>_. upsertRuleEvaluationState r)"

lemma guarded_put_incident_cases:
  assumes "guard h" "guarded_put_incident h r w = (y, w1)"
  shows "(validateIncident r = None \<and> upsertIncident r w = (y, w1)) \<or> (\<exists>e. y = Inl e \<and> w1 = w)"
proof -
  have g: "guard (andThen (validated ''upsert incident'' (validateIncident r)) (\<lambda>_. h))"
    by (intro guard_then guard_validate_incident assms)
  from guard_andThen [OF g assms(2) [unfolded guarded_put_incident_def]] show ?thesis
    by (auto simp: andThen_Inr_iff dest!: validated_cases)
qed

lemma guarded_put_rule_cases:
  assumes "guard h" "guarded_put_rule h r w = (y, w1)"
  shows "upsertRuleEvaluationState r w = (y, w1) \<or> (\<exists>e. y = Inl e \<and> w1 = w)"
proof -
  have g: "guard (andThen (validated ''upsert rule evaluation state'' (validateRuleEvaluationState r)) (\<lambda>_. h))"
    by (intro guard_then guard_validate_rule assms)
  from guard_andThen [OF g assms(2) [unfolded guarded_put_rule_def]] show ?thesis by auto
qed

lemma guarded_get_incident_law:
  "guard h \<Longrightarrow> guarded_get_incident h fp w = (x, w1) \<Longrightarrow> data w1 = data w \<and> wall w1 = wall w \<and>
    (\<forall>r. x = Inr r \<longrightarrow> incident_view (data w) fp = Some r) \<and>
    (\<forall>e. x = Inl e \<longrightarrow> errors_is e ErrNotFound \<longrightarrow> incident_view (data w) fp = None)"
  unfolding guarded_get_incident_def
  by (erule guarded_incident_read [OF guard_then [OF guard_required]])

lemma guarded_get_rule_law:
  "guard h \<Longrightarrow> guarded_get_rule h i t w = (x, w1) \<Longrightarrow> data w1 = data w \<and> wall w1 = wall w \<and>
    (\<forall>r. x = Inr r \<longrightarrow> rule_state_view (data w) i t = Some r) \<and>
    (\<forall>e. x = Inl e \<longrightarrow> errors_is e ErrNotFound \<longrightarrow> rule_state_view (data w) i t = None)"
  unfolding guarded_get_rule_def
  by (erule guarded_rule_read [OF guard_then [OF guard_required guard_then [OF guard_required]]])

lemma store_laws:
  assumes g: "guard h" and pass: "\<And>w. db_open (data w) \<Longrightarrow> h w = (Inr (), w)"
  shows "rule_store (guarded_get_incident h) (guarded_put_incident h) incident_view incident_clash
    healthy_database (guarded_get_rule h) (guarded_put_rule h) rule_state_view"
proof (unfold_locales, goal_cases)
  case (4 w fp)
  then show ?case using getIncidentByFingerprint_live [of w fp]
    by (simp add: guarded_get_incident_def required_def andThen_step healthy_open pass)
next
  case (8 w r)
  then show ?case using upsertIncident_live [of w r]
    by (simp add: guarded_put_incident_def andThen_step healthy_open pass)
next
  case (15 w i t)
  then show ?case using getRuleEvaluationState_live [of w i t]
    by (simp add: guarded_get_rule_def required_def andThen_step healthy_open pass)
next
  case (18 r w y w1)
  then show ?case using guarded_put_rule_cases [OF g 18] rule_data_only by auto
next
  case (20 w r)
  then show ?case using upsertRule_live [of w r]
    by (simp add: guarded_put_rule_def andThen_step healthy_open pass)
next
  case (21 inc w y w1)
  then show ?case using guarded_put_incident_cases [OF g 21] incident_data_only by auto
next
  case (9 d fp r r1)
  then show ?case by (intro found_incident_clash) auto
next
  case (10 d fp r)
  then show ?case by (rule incident_view_key)
next
  case (11 d fp r)
  then show ?case
    by (auto elim!: incident_view_row intro: times_readable_of_row simp: healthy_database_def list_all_iff)
qed (auto dest: guarded_get_incident_law [OF g] guarded_get_rule_law [OF g]
      dest!: guarded_put_incident_cases [OF g] guarded_put_rule_cases [OF g] upsertIncident_Inl
        upsertRule_Inl
      intro: upsert_same_law upsert_other_law put_rule_same_law put_rule_other_law)

lemma Store_methods:
  "GetIncidentByFingerprint = guarded_get_incident database_handle"
  "UpsertIncident = guarded_put_incident database_handle"
  "GetRuleEvaluationState = guarded_get_rule database_handle"
  "UpsertRuleEvaluationState = guarded_put_rule database_handle"
  by (simp_all add: fun_eq_iff guarded_get_incident_def guarded_put_incident_def guarded_get_rule_def
      guarded_put_rule_def GetIncidentByFingerprint_def UpsertIncident_def GetRuleEvaluationState_def
      UpsertRuleEvaluationState_def andThen_assoc)

lemma andThen_ok_right [simp]: "andThen m (\<lambda>_. ok ()) = m"
  by (auto simp: fun_eq_iff andThen_def ok_def split: prod.split sum.split)

lemma transaction_methods:
  "txGetIncidentByFingerprint = guarded_get_incident (ok ())"
  "txUpsertIncident = guarded_put_incident (ok ())"
  "txGetRuleEvaluationState = guarded_get_rule (ok ())"
  "txUpsertRuleEvaluationState = guarded_put_rule (ok ())"
  by (simp_all add: fun_eq_iff guarded_get_incident_def guarded_put_incident_def guarded_get_rule_def
      guarded_put_rule_def txGetIncidentByFingerprint_def txUpsertIncident_def
      txGetRuleEvaluationState_def txUpsertRuleEvaluationState_def andThen_assoc)

lemma guard_ok: "guard (ok ())"
  by (simp add: guard_def ok_def)

interpretation sql: rule_store GetIncidentByFingerprint UpsertIncident incident_view incident_clash
  healthy_database GetRuleEvaluationState UpsertRuleEvaluationState rule_state_view
  unfolding Store_methods by (rule store_laws) (simp_all add: guard_database_handle)

interpretation sqltx: rule_store txGetIncidentByFingerprint txUpsertIncident incident_view incident_clash
  healthy_database txGetRuleEvaluationState txUpsertRuleEvaluationState rule_state_view
  unfolding transaction_methods by (rule store_laws) (simp_all add: guard_ok ok_def)

end
