(* ===== verification/Go_Sha256.thy ===== *)
theory Go_Sha256
  imports Go_Prelude "HOL-Library.Word"
begin

text \<open>
  \<open>crypto/sha256.Sum256\<close> and \<open>hex.EncodeToString\<close>, which the sources use to derive
  incident and delivery identifiers. The definitions compute; no property of the development
  rests on the hash being injective without saying so.
\<close>

unbundle bit_operations_syntax

type_synonym u32 = "32 word"

definition rotr :: "nat \<Rightarrow> u32 \<Rightarrow> u32" where
  "rotr n x = drop_bit n x OR push_bit (32 - n) x"

definition round_constants :: "u32 list" where
  "round_constants =
    [1116352408, 1899447441, 3049323471, 3921009573, 961987163, 1508970993, 2453635748, 2870763221,
     3624381080, 310598401, 607225278, 1426881987, 1925078388, 2162078206, 2614888103, 3248222580,
     3835390401, 4022224774, 264347078, 604807628, 770255983, 1249150122, 1555081692, 1996064986,
     2554220882, 2821834349, 2952996808, 3210313671, 3336571891, 3584528711, 113926993, 338241895,
     666307205, 773529912, 1294757372, 1396182291, 1695183700, 1986661051, 2177026350, 2456956037,
     2730485921, 2820302411, 3259730800, 3345764771, 3516065817, 3600352804, 4094571909, 275423344,
     430227734, 506948616, 659060556, 883997877, 958139571, 1322822218, 1537002063, 1747873779,
     1955562222, 2024104815, 2227730452, 2361852424, 2428436474, 2756734187, 3204031479, 3329325298]"

definition initial_hash :: "u32 list" where
  "initial_hash =
    [1779033703, 3144134277, 1013904242, 2773480762, 1359893119, 2600822924, 528734635, 1541459225]"

text \<open>Padding to a multiple of 64 bytes: 0x80, zeros, and the bit length in eight bytes.\<close>

definition big_endian :: "nat \<Rightarrow> nat \<Rightarrow> nat list" where
  "big_endian k n = map (\<lambda>i. n div 256 ^ i mod 256) (rev [0..<k])"

definition padded :: "nat list \<Rightarrow> nat list" where
  "padded m = m @ [128] @ replicate ((119 - length m mod 64) mod 64) 0 @ big_endian 8 (8 * length m)"

fun be_words :: "nat list \<Rightarrow> u32 list" where
  "be_words (a # b # c # d # rest) = of_nat (a * 16777216 + b * 65536 + c * 256 + d) # be_words rest"
| "be_words _ = []"

text \<open>The message schedule, newest word first.\<close>

primrec extend_schedule :: "nat \<Rightarrow> u32 list \<Rightarrow> u32 list" where
  "extend_schedule 0 ws = ws"
| "extend_schedule (Suc n) ws =
     (let a = ws ! 14; b = ws ! 1;
          s0 = rotr 7 a XOR rotr 18 a XOR drop_bit 3 a;
          s1 = rotr 17 b XOR rotr 19 b XOR drop_bit 10 b
      in extend_schedule n ((ws ! 15 + s0 + ws ! 6 + s1) # ws))"

fun compress :: "(u32 \<times> u32) list \<Rightarrow> u32 list \<Rightarrow> u32 list" where
  "compress ((k, w) # rounds) [a, b, c, d, e, f, g, h] =
     (let s1 = rotr 6 e XOR rotr 11 e XOR rotr 25 e;
          ch = (e AND f) XOR (NOT e AND g);
          t1 = h + s1 + ch + k + w;
          s0 = rotr 2 a XOR rotr 13 a XOR rotr 22 a;
          maj = (a AND b) XOR (a AND c) XOR (b AND c)
      in compress rounds [t1 + s0 + maj, a, b, c, d + t1, e, f, g])"
| "compress _ st = st"

definition hash_block :: "u32 list \<Rightarrow> u32 list \<Rightarrow> u32 list" where
  "hash_block st ws =
     map2 (+) st (compress (zip round_constants (rev (extend_schedule 48 (rev ws)))) st)"

primrec hash_blocks :: "nat \<Rightarrow> u32 list \<Rightarrow> u32 list \<Rightarrow> u32 list" where
  "hash_blocks 0 st ws = st"
| "hash_blocks (Suc n) st ws = hash_blocks n (hash_block st (take 16 ws)) (drop 16 ws)"

definition sha256 :: "string \<Rightarrow> nat list" where
  "sha256 s =
     (let m = padded (map byte s)
      in concat (map (\<lambda>w. big_endian 4 (unat w))
           (hash_blocks (length m div 64) initial_hash (be_words m))))"

definition hex_digit :: "nat \<Rightarrow> char" where
  "hex_digit n = (if n < 10 then char_of (48 + n) else char_of (87 + n))"

definition hex :: "nat list \<Rightarrow> string" where
  "hex bs = concat (map (\<lambda>b. [hex_digit (b div 16), hex_digit (b mod 16)]) bs)"

lemma length_hex [simp]: "length (hex bs) = 2 * length bs"
  by (induction bs) (simp_all add: hex_def)

lemma hex_Nil_iff [simp]: "hex bs = [] \<longleftrightarrow> bs = []"
  using length_hex [of bs] by (metis length_0_conv mult_eq_0_iff zero_neq_numeral)

lemma length_big_endian [simp]: "length (big_endian k n) = k"
  by (simp add: big_endian_def)

lemma length_compress [simp]: "length st = 8 \<Longrightarrow> length (compress rounds st) = 8"
  by (induction rounds st rule: compress.induct) (simp_all add: Let_def)

lemma length_hash_block [simp]: "length st = 8 \<Longrightarrow> length (hash_block st ws) = 8"
  by (simp add: hash_block_def)

lemma length_hash_blocks [simp]: "length st = 8 \<Longrightarrow> length (hash_blocks n st ws) = 8"
  by (induction n arbitrary: st ws) simp_all

lemma length_concat_map_const: "(\<And>x. length (f x) = k) \<Longrightarrow> length (concat (map f xs)) = k * length xs"
  by (induction xs) simp_all

lemma length_sha256 [simp]: "length (sha256 s) = 32"
  by (simp add: sha256_def Let_def initial_hash_def length_concat_map_const [where k = 4])

text \<open>The texts \<open>hex\<close> produces are lower-case hexadecimal digits.\<close>

definition hex_char :: "char \<Rightarrow> bool" where
  "hex_char c \<longleftrightarrow> (48 \<le> byte c \<and> byte c \<le> 57) \<or> (97 \<le> byte c \<and> byte c \<le> 102)"

lemma hex_digit_char: "n < 16 \<Longrightarrow> hex_char (hex_digit n)"
  by (auto simp: hex_char_def hex_digit_def byte_def)

lemma big_endian_bytes: "b \<in> set (big_endian k n) \<Longrightarrow> b < 256"
  by (auto simp: big_endian_def)

lemma sha256_bytes: "b \<in> set (sha256 s) \<Longrightarrow> b < 256"
  by (auto simp: sha256_def Let_def dest: big_endian_bytes)

lemma hex_chars: "list_all (\<lambda>b. b < 256) bs \<Longrightarrow> list_all hex_char (hex bs)"
  by (induction bs) (auto simp: hex_def intro!: hex_digit_char)

end
