(* ===== verification/Incident_Engine.thy ===== *)
theory Incident_Engine
  imports Storage_Laws Go_Sha256
begin

text \<open>
  \<open>internal/incidents\<close>: candidates and transitions (\<open>incident.go\<close>), fingerprints and
  incident identifiers (\<open>fingerprint.go\<close>), and the lifecycle of an incident in its store
  (\<open>lifecycle.go\<close>). Severities and statuses are Go strings; a store is a record of the two
  methods the engine calls.
\<close>

definition SeverityNone :: string where "SeverityNone = ''none''"
definition SeverityWarning :: string where "SeverityWarning = ''warning''"
definition SeverityFailure :: string where "SeverityFailure = ''failure''"
definition SeverityCritical :: string where "SeverityCritical = ''critical''"

definition StatusOpen :: string where "StatusOpen = ''open''"
definition StatusResolved :: string where "StatusResolved = ''resolved''"

lemmas severity_texts = SeverityNone_def SeverityWarning_def SeverityFailure_def SeverityCritical_def

lemma severity_distinct [simp]:
  "SeverityNone \<noteq> SeverityWarning" "SeverityNone \<noteq> SeverityFailure" "SeverityNone \<noteq> SeverityCritical"
  "SeverityWarning \<noteq> SeverityNone" "SeverityWarning \<noteq> SeverityFailure" "SeverityWarning \<noteq> SeverityCritical"
  "SeverityFailure \<noteq> SeverityNone" "SeverityFailure \<noteq> SeverityWarning" "SeverityFailure \<noteq> SeverityCritical"
  "SeverityCritical \<noteq> SeverityNone" "SeverityCritical \<noteq> SeverityWarning" "SeverityCritical \<noteq> SeverityFailure"
  by (simp_all add: severity_texts)

lemma severity_not_Nil [simp]:
  "SeverityNone \<noteq> []" "SeverityWarning \<noteq> []" "SeverityFailure \<noteq> []" "SeverityCritical \<noteq> []"
  by (simp_all add: severity_texts)

lemma severity_redacted [simp]:
  "Redact SeverityNone = SeverityNone" "Redact SeverityWarning = SeverityWarning"
  "Redact SeverityFailure = SeverityFailure" "Redact SeverityCritical = SeverityCritical"
  by (simp_all add: severity_texts plain_text_def)

lemma status_distinct [simp]: "StatusOpen \<noteq> StatusResolved" "StatusResolved \<noteq> StatusOpen"
  by (simp_all add: StatusOpen_def StatusResolved_def)

lemma status_redacted [simp]: "Redact StatusOpen = StatusOpen" "Redact StatusResolved = StatusResolved"
  by (simp_all add: StatusOpen_def StatusResolved_def plain_text_def)

datatype Action =
  ActionNone | ActionOpened | ActionUpdated | ActionEscalated | ActionResolved | ActionReopened

record Candidate =
  cand_NodeID :: string
  cand_Type :: string
  cand_Target :: string
  cand_Condition :: string
  cand_Severity :: string
  cand_Active :: bool
  cand_Summary :: string
  cand_EvidencePath :: string
  cand_ObservedAt :: instant

record Transition =
  tr_Action :: Action
  tr_IncidentID :: string
  tr_Fingerprint :: string
  tr_Severity :: string
  tr_Status :: string
  tr_Summary :: string

record 'd Store =
  GetByFingerprint :: "string \<Rightarrow> (IncidentRecord, 'd) op"
  Upsert :: "IncidentRecord \<Rightarrow> (unit, 'd) op"

subsection \<open>Fingerprints\<close>

definition MaxFingerprintComponentLength :: nat where "MaxFingerprintComponentLength = 128"
definition MaxFingerprintLength :: nat where "MaxFingerprintLength = 512"

text \<open>\<open>fingerprintComponentPattern\<close>: one character of the class \<open>[a-z0-9._:@/-]\<close>.\<close>

definition fingerprint_char :: "char \<Rightarrow> bool" where
  "fingerprint_char c \<longleftrightarrow>
     97 \<le> byte c \<and> byte c \<le> 122 \<or> 48 \<le> byte c \<and> byte c \<le> 57 \<or> c \<in> set ''._:@/-''"

definition fingerprintComponentPattern :: "string \<Rightarrow> bool" where
  "fingerprintComponentPattern s \<longleftrightarrow> s \<noteq> [] \<and> list_all fingerprint_char s"

definition normalizeFingerprintComponent :: "string \<Rightarrow> go_error + string" where
  "normalizeFingerprintComponent value =
     (let normalized = to_lower (trim_space value) in
      if normalized = [] then Inl (Text_Error ''is required'')
      else if length normalized > MaxFingerprintComponentLength
        then Inl (Text_Error ''exceeds 128 bytes'')
      else if contains_any normalized [CHR 0x00, CHR 0x0D, CHR 0x0A, CHR 0x09, CHR '' '']
        then Inl (Text_Error ''contains unsafe whitespace or control characters'')
      else if contains_sub normalized ''..''
        then Inl (Text_Error ''contains unsafe traversal marker'')
      else if \<not> fingerprintComponentPattern normalized
        then Inl (Text_Error ''contains unsupported characters'')
      else if Redact normalized \<noteq> normalized
        then Inl (Text_Error ''contains sensitive material'')
      else Inr normalized)"

text \<open>The components in order; the first that does not normalize is named in the error.\<close>

fun normalize_components :: "(string \<times> string) list \<Rightarrow> go_error + string list" where
  "normalize_components [] = Inr []"
| "normalize_components ((name, part) # parts) =
     (case normalizeFingerprintComponent part of
        Inl e \<Rightarrow> Inl (Wrap_Error name e)
      | Inr v \<Rightarrow> (case normalize_components parts of Inl e \<Rightarrow> Inl e | Inr vs \<Rightarrow> Inr (v # vs)))"

definition Fingerprint :: "string \<Rightarrow> string \<Rightarrow> string \<Rightarrow> string \<Rightarrow> go_error + string" where
  "Fingerprint nodeID incidentType target condition =
     (case normalize_components
             [(''node_id'', nodeID), (''type'', incidentType), (''target'', target), (''condition'', condition)] of
        Inl e \<Rightarrow> Inl e
      | Inr normalized \<Rightarrow>
          let fingerprint = join_with '':'' normalized in
          if length fingerprint > MaxFingerprintLength
            then Inl (Text_Error ''fingerprint exceeds 512 bytes'')
          else if Redact fingerprint \<noteq> fingerprint
            then Inl (Text_Error ''fingerprint contains sensitive material'')
          else Inr fingerprint)"

definition IncidentIDForFingerprint :: "string \<Rightarrow> go_error + string" where
  "IncidentIDForFingerprint fingerprint =
     (if trim_space fingerprint = [] then Inl (Text_Error ''fingerprint is required'')
      else if length fingerprint > MaxFingerprintLength
        then Inl (Text_Error ''fingerprint exceeds 512 bytes'')
      else Inr (''inc_'' @ hex (take 16 (sha256 fingerprint))))"

subsection \<open>Lifecycle\<close>

fun severityRank :: "string \<Rightarrow> nat" where
  "severityRank severity =
     (if severity = SeverityCritical then 3
      else if severity = SeverityFailure then 2
      else if severity = SeverityWarning then 1
      else 0)"

definition safeSummary :: "string \<Rightarrow> string" where
  "safeSummary summary =
     (let value = Redact summary in
      if length value > 240 then take 240 value
      else if value = [] then ''rule condition observed''
      else value)"

definition normalizeForRecord :: "string \<Rightarrow> string" where
  "normalizeForRecord value =
     (case normalizeFingerprintComponent value of Inl e \<Rightarrow> Redact value | Inr v \<Rightarrow> v)"

definition transition :: "Action \<Rightarrow> IncidentRecord \<Rightarrow> Transition" where
  "transition action r =
     \<lparr>tr_Action = action, tr_IncidentID = inc_ID r, tr_Fingerprint = inc_Fingerprint r,
      tr_Severity = inc_Severity r, tr_Status = inc_Status r, tr_Summary = inc_Summary r\<rparr>"

text \<open>The record is written, and the transition is reported once it is.\<close>

definition write_incident :: "'d Store \<Rightarrow> Action \<Rightarrow> IncidentRecord \<Rightarrow> (Transition, 'd) op" where
  "write_incident store action r = andThen (Upsert store r) (\<lambda>_. ok (transition action r))"

definition new_record :: "string \<Rightarrow> string \<Rightarrow> Candidate \<Rightarrow> instant \<Rightarrow> IncidentRecord" where
  "new_record ident fingerprint c now =
     \<lparr>inc_ID = ident, inc_Fingerprint = fingerprint,
      inc_NodeID = normalizeForRecord (cand_NodeID c), inc_Type = normalizeForRecord (cand_Type c),
      inc_Target = normalizeForRecord (cand_Target c),
      inc_Condition = normalizeForRecord (cand_Condition c),
      inc_Severity = cand_Severity c, inc_Status = StatusOpen,
      inc_Summary = safeSummary (cand_Summary c),
      inc_FirstSeen = now, inc_LastSeen = now, inc_LastAlerted = None, inc_OccurrenceCount = 1,
      inc_EvidencePath = Redact (cand_EvidencePath c), inc_ResolvedAt = None,
      inc_LastTransition = Some now, inc_UpdatedAt = now\<rparr>"

definition active_action :: "IncidentRecord \<Rightarrow> Candidate \<Rightarrow> Action" where
  "active_action r c =
     (if inc_Status r = StatusResolved then ActionReopened
      else if severityRank (cand_Severity c) > severityRank (inc_Severity r) then ActionEscalated
      else ActionUpdated)"

definition active_record :: "IncidentRecord \<Rightarrow> Candidate \<Rightarrow> instant \<Rightarrow> IncidentRecord" where
  "active_record r c now =
     (let r1 = (if inc_Status r = StatusResolved
                  then r\<lparr>inc_ResolvedAt := None, inc_LastTransition := Some now\<rparr>
                else if severityRank (cand_Severity c) > severityRank (inc_Severity r)
                  then r\<lparr>inc_LastTransition := Some now\<rparr>
                else if inc_Severity r \<noteq> cand_Severity c then r\<lparr>inc_LastTransition := Some now\<rparr>
                else r)
      in r1\<lparr>inc_Status := StatusOpen, inc_Severity := cand_Severity c,
            inc_Summary := safeSummary (cand_Summary c), inc_LastSeen := now,
            inc_OccurrenceCount := wrap64 (inc_OccurrenceCount r + 1), inc_UpdatedAt := now\<rparr>)"

definition updateActive :: "'d Store \<Rightarrow> IncidentRecord \<Rightarrow> Candidate \<Rightarrow> instant \<Rightarrow> (Transition, 'd) op" where
  "updateActive store r c now =
     (let action = active_action r c; r1 = active_record r c now in
      andThen (lift_result
        (if inc_Fingerprint r1 = []
         then Fingerprint (cand_NodeID c) (cand_Type c) (cand_Target c) (cand_Condition c)
         else Inr (inc_Fingerprint r1))) (\<lambda>fp.
      andThen (lift_result (if inc_ID r1 = [] then IncidentIDForFingerprint fp else Inr (inc_ID r1))) (\<lambda>ident.
        let r2 = r1\<lparr>inc_Fingerprint := fp, inc_ID := ident\<rparr>;
            r3 = (if inc_EvidencePath r2 = []
                  then r2\<lparr>inc_EvidencePath := Redact (cand_EvidencePath c)\<rparr> else r2)
        in write_incident store action r3)))"

definition resolve :: "'d Store \<Rightarrow> IncidentRecord \<Rightarrow> Candidate \<Rightarrow> instant \<Rightarrow> (Transition, 'd) op" where
  "resolve store r c now =
     (if inc_Status r = StatusResolved
      then write_incident store ActionUpdated
             (r\<lparr>inc_LastSeen := now, inc_UpdatedAt := now, inc_Summary := safeSummary (cand_Summary c)\<rparr>)
      else write_incident store ActionResolved
             (r\<lparr>inc_Status := StatusResolved, inc_Severity := SeverityNone,
                inc_Summary := safeSummary (cand_Summary c), inc_LastSeen := now,
                inc_ResolvedAt := Some now, inc_LastTransition := Some now, inc_UpdatedAt := now\<rparr>))"

text \<open>\<open>e.now()\<close>: the engine's clock, or the wall clock when it has none.\<close>

definition engine_now :: "instant option \<Rightarrow> (instant, 'd) op" where
  "engine_now clock = (case clock of Some t \<Rightarrow> ok t | None \<Rightarrow> time_now)"

text \<open>A lookup that reports "not found" is an answer; any other error ends the operation.\<close>

definition find_existing :: "'d Store \<Rightarrow> string \<Rightarrow> (IncidentRecord option, 'd) op" where
  "find_existing store fingerprint w =
     (case GetByFingerprint store fingerprint w of
        (Inr r, w1) \<Rightarrow> (Inr (Some r), w1)
      | (Inl e, w1) \<Rightarrow> if errors_is e ErrNotFound then (Inr None, w1) else (Inl e, w1))"

definition Apply :: "instant option \<Rightarrow> ctx \<Rightarrow> 'd Store option \<Rightarrow> Candidate \<Rightarrow> (Transition, 'd) op" where
  "Apply clock ctx st c =
     (if ctx = Nil_Context then fail (Text_Error ''context is nil'')
      else andThen ctx_err (\<lambda>_. case st of
          None \<Rightarrow> fail (Text_Error ''incident store is nil'')
        | Some store \<Rightarrow>
            andThen (if is_zero_time (cand_ObservedAt c) then engine_now clock else ok (cand_ObservedAt c)) (\<lambda>now.
            andThen (lift_result (Fingerprint (cand_NodeID c) (cand_Type c) (cand_Target c) (cand_Condition c)))
              (\<lambda>fingerprint.
            andThen (lift_result (IncidentIDForFingerprint fingerprint)) (\<lambda>ident.
            andThen (find_existing store fingerprint) (\<lambda>existing.
              if \<not> cand_Active c then
                (case existing of
                   None \<Rightarrow> ok \<lparr>tr_Action = ActionNone, tr_IncidentID = ident, tr_Fingerprint = fingerprint,
                               tr_Severity = SeverityNone, tr_Status = StatusResolved, tr_Summary = []\<rparr>
                 | Some r \<Rightarrow> resolve store r c now)
              else if cand_Severity c = [] \<or> cand_Severity c = SeverityNone
                then fail (Text_Error ''active incident candidate requires severity'')
              else
                (case existing of
                   None \<Rightarrow> write_incident store ActionOpened (new_record ident fingerprint c now)
                 | Some r \<Rightarrow> updateActive store r c now)))))))"

subsection \<open>What a fingerprint is\<close>

lemma normalize_Inr:
  assumes "normalizeFingerprintComponent v = Inr n"
  shows "n = to_lower (trim_space v) \<and> n \<noteq> [] \<and> length n \<le> 128 \<and> list_all fingerprint_char n \<and>
    \<not> contains_sub n ''..'' \<and> Redact n = n"
  using assms
  by (auto simp: normalizeFingerprintComponent_def Let_def fingerprintComponentPattern_def
      MaxFingerprintComponentLength_def split: if_splits)

lemma Fingerprint_Inr:
  assumes "Fingerprint a b c d = Inr fp"
  obtains a1 b1 c1 d1 where
    "normalizeFingerprintComponent a = Inr a1" "normalizeFingerprintComponent b = Inr b1"
    "normalizeFingerprintComponent c = Inr c1" "normalizeFingerprintComponent d = Inr d1"
    "fp = a1 @ '':'' @ b1 @ '':'' @ c1 @ '':'' @ d1" "length fp \<le> 512" "Redact fp = fp"
  using assms
  by (auto simp: Fingerprint_def Let_def MaxFingerprintLength_def split: sum.splits if_splits)

lemma fingerprint_char_space_free: "fingerprint_char c \<Longrightarrow> space_free c"
  by (auto simp: fingerprint_char_def space_free_def byte_def)

lemma fingerprint_char_trim: "list_all fingerprint_char s \<Longrightarrow> trim_space s = s"
  by (rule trim_space_free) (cases s rule: rev_cases;
      auto simp: list_all_iff fingerprint_char_space_free neq_Nil_conv hd_append split: list.split)

text \<open>A fingerprint survives the redaction of the store and names an incident.\<close>

lemma Fingerprint_stored:
  assumes "Fingerprint a b c d = Inr fp"
  shows "Redact fp = fp \<and> fp \<noteq> [] \<and> list_all fingerprint_char fp \<and> length fp \<le> 512 \<and> trim_space fp = fp"
proof (rule Fingerprint_Inr [OF assms])
  fix a1 b1 c1 d1
  assume n: "normalizeFingerprintComponent a = Inr a1" "normalizeFingerprintComponent b = Inr b1"
    "normalizeFingerprintComponent c = Inr c1" "normalizeFingerprintComponent d = Inr d1"
    and fp: "fp = a1 @ '':'' @ b1 @ '':'' @ c1 @ '':'' @ d1" "length fp \<le> 512" "Redact fp = fp"
  have "list_all fingerprint_char fp"
    using n [THEN normalize_Inr] fp(1) by (auto simp: fingerprint_char_def)
  with fp show ?thesis by (auto simp: fingerprint_char_trim)
qed

lemma Fingerprint_names_incident:
  "Fingerprint a b c d = Inr fp \<Longrightarrow> IncidentIDForFingerprint fp = Inr (''inc_'' @ hex (take 16 (sha256 fp)))"
  by (drule Fingerprint_stored) (auto simp: IncidentIDForFingerprint_def MaxFingerprintLength_def)

subsection \<open>The lifecycle as a function of the stored record\<close>

text \<open>
  What the engine promises: the action and the record a candidate leads to, from the record the
  store holds for the fingerprint.
\<close>

definition touched :: "string \<Rightarrow> Candidate \<Rightarrow> instant \<Rightarrow> IncidentRecord \<Rightarrow> IncidentRecord" where
  "touched ident c now r =
     (let r1 = active_record r c now;
          r2 = (if inc_ID r1 = [] then r1\<lparr>inc_ID := ident\<rparr> else r1)
      in if inc_EvidencePath r2 = [] then r2\<lparr>inc_EvidencePath := Redact (cand_EvidencePath c)\<rparr> else r2)"

definition noted_resolved :: "Candidate \<Rightarrow> instant \<Rightarrow> IncidentRecord \<Rightarrow> IncidentRecord" where
  "noted_resolved c now r =
     r\<lparr>inc_LastSeen := now, inc_UpdatedAt := now, inc_Summary := safeSummary (cand_Summary c)\<rparr>"

definition closed_record :: "Candidate \<Rightarrow> instant \<Rightarrow> IncidentRecord \<Rightarrow> IncidentRecord" where
  "closed_record c now r =
     r\<lparr>inc_Status := StatusResolved, inc_Severity := SeverityNone,
       inc_Summary := safeSummary (cand_Summary c), inc_LastSeen := now, inc_ResolvedAt := Some now,
       inc_LastTransition := Some now, inc_UpdatedAt := now\<rparr>"

definition incident_step ::
    "string \<Rightarrow> string \<Rightarrow> Candidate \<Rightarrow> instant \<Rightarrow> IncidentRecord option \<Rightarrow> Action \<times> IncidentRecord option" where
  "incident_step ident fingerprint c now existing =
     (case existing of
        None \<Rightarrow> if cand_Active c then (ActionOpened, Some (new_record ident fingerprint c now))
                else (ActionNone, None)
      | Some r \<Rightarrow>
          if cand_Active c then (active_action r c, Some (touched ident c now r))
          else if inc_Status r = StatusResolved then (ActionUpdated, Some (noted_resolved c now r))
          else (ActionResolved, Some (closed_record c now r)))"

lemma active_record_keys [simp]:
  "inc_Fingerprint (active_record r c now) = inc_Fingerprint r"
  "inc_ID (active_record r c now) = inc_ID r"
  by (simp_all add: active_record_def Let_def)

lemma incident_step_fingerprint:
  "incident_step ident fp c now existing = (a, Some r1) \<Longrightarrow>
   (\<And>r. existing = Some r \<Longrightarrow> inc_Fingerprint r = fp) \<Longrightarrow> inc_Fingerprint r1 = fp"
  by (auto simp: incident_step_def new_record_def touched_def noted_resolved_def closed_record_def Let_def
      split: option.splits if_splits)

lemma same_keys [simp]:
  "inc_Fingerprint r = fp \<Longrightarrow> r\<lparr>inc_Fingerprint := fp\<rparr> = (r :: IncidentRecord)"
  "inc_ID r = ident \<Longrightarrow> r\<lparr>inc_ID := ident\<rparr> = (r :: IncidentRecord)"
  by (cases r; simp)+

lemma updateActive_known:
  assumes "inc_Fingerprint r = fp" "fp \<noteq> []" "IncidentIDForFingerprint fp = Inr ident"
  shows "updateActive store r c now = write_incident store (active_action r c) (touched ident c now r)"
  using assms by (simp add: updateActive_def touched_def Let_def lift_result_def)

text \<open>
  What one call does, given what the lookup of the fingerprint answered: nothing when there is no
  incident and none is wanted, the write of the record of \<open>incident_step\<close> otherwise.
\<close>

definition incident_write ::
    "'d Store \<Rightarrow> string \<Rightarrow> string \<Rightarrow> Candidate \<Rightarrow> instant \<Rightarrow> IncidentRecord option \<Rightarrow> (Transition, 'd) op" where
  "incident_write store ident fingerprint c now existing =
     (case incident_step ident fingerprint c now existing of
        (a, Some r) \<Rightarrow> write_incident store a r
      | (a, None) \<Rightarrow> ok \<lparr>tr_Action = ActionNone, tr_IncidentID = ident, tr_Fingerprint = fingerprint,
                        tr_Severity = SeverityNone, tr_Status = StatusResolved, tr_Summary = []\<rparr>)"

definition candidate_time :: "instant option \<Rightarrow> Candidate \<Rightarrow> instant \<Rightarrow> instant" where
  "candidate_time clock c wall_now =
     (if is_zero_time (cand_ObservedAt c) then (case clock of Some t \<Rightarrow> t | None \<Rightarrow> wall_now)
      else cand_ObservedAt c)"

lemma observation_time:
  "(if is_zero_time (cand_ObservedAt c) then engine_now clock else ok (cand_ObservedAt c)) w =
   (Inr (candidate_time clock c (wall w)), w)"
  by (simp add: candidate_time_def engine_now_def ok_def time_now_def split: option.split)

definition acceptable :: "Candidate \<Rightarrow> bool" where
  "acceptable c \<longleftrightarrow> (cand_Active c \<longrightarrow> cand_Severity c \<noteq> [] \<and> cand_Severity c \<noteq> SeverityNone)"

lemma lift_result_simps [simp]: "lift_result (Inr a) = ok a" "lift_result (Inl e) = fail e"
  by (simp_all add: lift_result_def)

lemma Apply_unfold:
  assumes "Fingerprint (cand_NodeID c) (cand_Type c) (cand_Target c) (cand_Condition c) = Inr fp"
    "IncidentIDForFingerprint fp = Inr ident" "ctx_err w = (Inr (), w1)"
    "\<And>r. find_existing store fp w1 = (Inr (Some r), w2) \<Longrightarrow> inc_Fingerprint r = fp"
    "find_existing store fp w1 = (Inr existing, w2)" "acceptable c"
  shows "Apply clock Live_Context (Some store) c w = incident_write store ident fp c (candidate_time clock c (wall w1)) existing w2"
proof -
  have "fp \<noteq> []" using Fingerprint_stored [OF assms(1)] by simp
  then show ?thesis
    using assms
    by (auto simp: Apply_def andThen_def Let_def incident_write_def incident_step_def resolve_def
        ok_def acceptable_def observation_time updateActive_known closed_record_def noted_resolved_def
        split: option.split)
qed

lemma incident_id_not_blank: "IncidentIDForFingerprint fp = Inr ident \<Longrightarrow> trim_space ident \<noteq> []"
proof -
  have "sha256 fp \<noteq> []" using length_sha256 [of fp] by (metis list.size(3) zero_neq_numeral)
  then have "hex (take 16 (sha256 fp)) \<noteq> []" by simp
  then have l: "last (hex (take 16 (sha256 fp))) \<in> set (hex (take 16 (sha256 fp)))" by simp
  have "list_all hex_char (hex (take 16 (sha256 fp)))"
    by (rule hex_chars) (auto simp: list_all_iff dest: in_set_takeD sha256_bytes)
  with l have "space_free (last (hex (take 16 (sha256 fp))))"
    by (auto simp: list_all_iff hex_char_def space_free_def dest!: bspec [OF _ l])
  then have "trim_space (''inc_'' @ hex (take 16 (sha256 fp))) = ''inc_'' @ hex (take 16 (sha256 fp))"
    using \<open>hex _ \<noteq> []\<close> by (intro trim_space_free) (auto simp: space_free_def byte_def)
  then show "IncidentIDForFingerprint fp = Inr ident \<Longrightarrow> trim_space ident \<noteq> []"
    by (auto simp: IncidentIDForFingerprint_def split: if_splits)
qed

lemma normalizeForRecord_not_blank: "normalizeFingerprintComponent v = Inr n \<Longrightarrow> trim_space (normalizeForRecord v) \<noteq> []"
  by (auto simp: normalizeForRecord_def fingerprint_char_trim dest!: normalize_Inr)

lemma status_not_blank [simp]: "trim_space StatusOpen \<noteq> []" "trim_space StatusResolved \<noteq> []"
  by (simp_all add: StatusOpen_def StatusResolved_def trim_space_free space_free_def byte_def)

lemma severity_not_blank [simp]:
  "trim_space SeverityNone \<noteq> []" "trim_space SeverityWarning \<noteq> []" "trim_space SeverityFailure \<noteq> []"
  "trim_space SeverityCritical \<noteq> []"
  by (simp_all add: severity_texts trim_space_free space_free_def byte_def)

text \<open>A candidate whose record passes the store's validation.\<close>

definition recordable :: "Candidate \<Rightarrow> bool" where
  "recordable c \<longleftrightarrow> trim_space (safeSummary (cand_Summary c)) \<noteq> [] \<and>
     (cand_Active c \<longrightarrow> trim_space (cand_Severity c) \<noteq> [] \<and> cand_Severity c \<noteq> SeverityNone)"

lemma recordable_acceptable: "recordable c \<Longrightarrow> acceptable c"
  by (auto simp: recordable_def acceptable_def)

lemma wrap64_small: "- (2 ^ 63) \<le> x \<Longrightarrow> x < 2 ^ 63 \<Longrightarrow> wrap64 x = x"
  by (simp add: wrap64_def)

lemma touched_fields [simp]:
  "inc_ID (touched ident c now r) = (if inc_ID r = [] then ident else inc_ID r)"
  "inc_Fingerprint (touched ident c now r) = inc_Fingerprint r"
  "inc_NodeID (touched ident c now r) = inc_NodeID r"
  "inc_Type (touched ident c now r) = inc_Type r"
  "inc_Target (touched ident c now r) = inc_Target r"
  "inc_Condition (touched ident c now r) = inc_Condition r"
  "inc_Severity (touched ident c now r) = cand_Severity c"
  "inc_Status (touched ident c now r) = StatusOpen"
  "inc_Summary (touched ident c now r) = safeSummary (cand_Summary c)"
  "inc_FirstSeen (touched ident c now r) = inc_FirstSeen r"
  "inc_LastSeen (touched ident c now r) = now"
  "inc_OccurrenceCount (touched ident c now r) = wrap64 (inc_OccurrenceCount r + 1)"
  by (simp_all add: touched_def active_record_def Let_def)

lemma validate_touched:
  assumes "validateIncident r = None" "inc_OccurrenceCount r < 2 ^ 63 - 1" "now \<noteq> 0"
    "trim_space (safeSummary (cand_Summary c)) \<noteq> []" "trim_space (cand_Severity c) \<noteq> []"
  shows "validateIncident (touched ident c now r) = None"
proof -
  have "wrap64 (inc_OccurrenceCount r + 1) = inc_OccurrenceCount r + 1"
    using assms(1,2) by (intro wrap64_small) (auto simp: validateIncident_None_iff)
  moreover have "inc_ID r \<noteq> []" using assms(1) by (auto simp: validateIncident_None_iff)
  ultimately show ?thesis using assms unfolding validateIncident_None_iff by simp
qed

lemma active_record_times: "readable_time now \<Longrightarrow> times_readable r \<Longrightarrow> times_readable (active_record r c now)"
  by (simp add: active_record_def times_readable_def Let_def)

lemma touched_times: "readable_time now \<Longrightarrow> times_readable r \<Longrightarrow> times_readable (touched ident c now r)"
  using active_record_times [of now r c] by (simp add: touched_def times_readable_def Let_def)

lemma noted_resolved_times: "readable_time now \<Longrightarrow> times_readable r \<Longrightarrow> times_readable (noted_resolved c now r)"
  by (simp add: noted_resolved_def times_readable_def)

lemma closed_record_times: "readable_time now \<Longrightarrow> times_readable r \<Longrightarrow> times_readable (closed_record c now r)"
  by (simp add: closed_record_def times_readable_def)

lemmas record_times = active_record_times touched_times noted_resolved_times closed_record_times

lemma incident_step_valid:
  assumes "Fingerprint (cand_NodeID c) (cand_Type c) (cand_Target c) (cand_Condition c) = Inr fp"
    "IncidentIDForFingerprint fp = Inr ident" "recordable c" "now \<noteq> 0"
    "\<And>r. existing = Some r \<Longrightarrow> validateIncident r = None \<and> inc_OccurrenceCount r < 2 ^ 63 - 1"
    "incident_step ident fp c now existing = (a, Some r1)"
  shows "validateIncident r1 = None"
proof (cases existing)
  case None
  with assms(6) have r1: "cand_Active c" "r1 = new_record ident fp c now"
    by (auto simp: incident_step_def split: if_splits)
  obtain a1 b1 c1 d1 where "normalizeFingerprintComponent (cand_NodeID c) = Inr a1"
    "normalizeFingerprintComponent (cand_Type c) = Inr b1" "normalizeFingerprintComponent (cand_Target c) = Inr c1"
    "normalizeFingerprintComponent (cand_Condition c) = Inr d1"
    by (rule Fingerprint_Inr [OF assms(1)])
  with r1 assms(2-4) Fingerprint_stored [OF assms(1)] show ?thesis
    by (simp add: validateIncident_None_iff new_record_def recordable_def incident_id_not_blank
        normalizeForRecord_not_blank)
next
  case (Some r)
  with assms have r: "validateIncident r = None" "inc_OccurrenceCount r < 2 ^ 63 - 1" by auto
  with Some assms(3,4,6) validate_touched [of r now c ident] show ?thesis
    by (cases "cand_Active c"; cases "inc_Status r = StatusResolved")
       (auto simp: incident_step_def noted_resolved_def closed_record_def validateIncident_None_iff recordable_def)
qed

subsection \<open>Histories\<close>

text \<open>What successive candidates of one fingerprint do to its record, through the store.\<close>

fun incident_history ::
    "string \<Rightarrow> string \<Rightarrow> (Candidate \<times> instant) list \<Rightarrow> IncidentRecord option \<Rightarrow> Action list \<times> IncidentRecord option" where
  "incident_history ident fp [] existing = ([], existing)"
| "incident_history ident fp ((c, now) # cs) existing =
     (let (a, r) = incident_step ident fp c now existing;
          (as, final) = incident_history ident fp cs (map_option (stored_incident now) r)
      in (a # as, final))"

definition starts_incident :: "Action \<Rightarrow> bool" where
  "starts_incident a \<longleftrightarrow> a = ActionOpened \<or> a = ActionReopened"

definition incident_open :: "IncidentRecord option \<Rightarrow> bool" where
  "incident_open existing \<longleftrightarrow> (\<exists>r. existing = Some r \<and> inc_Status r \<noteq> StatusResolved)"

lemma new_record_fields [simp]:
  "inc_ID (new_record ident fp c now) = ident"
  "inc_Fingerprint (new_record ident fp c now) = fp"
  "inc_OccurrenceCount (new_record ident fp c now) = 1"
  by (simp_all add: new_record_def)

lemma step_record_status [simp]:
  "inc_Status (new_record ident fp c now) = StatusOpen"
  "inc_Status (touched ident c now r) = StatusOpen"
  "inc_Status (closed_record c now r) = StatusResolved"
  "inc_Status (noted_resolved c now r) = inc_Status r"
  "inc_Status (stored_incident now r) = Redact (inc_Status r)"
  by (simp_all add: new_record_def touched_def active_record_def closed_record_def noted_resolved_def
      stored_incident_def Let_def)

lemma incident_step_open:
  assumes "incident_step ident fp c now existing = (a, r)"
  shows "incident_open (map_option (stored_incident now) r) = (cand_Active c)"
    "starts_incident a \<longleftrightarrow> cand_Active c \<and> \<not> incident_open existing"
    "a = ActionResolved \<longleftrightarrow> \<not> cand_Active c \<and> incident_open existing"
  using assms
  by (cases existing; cases "cand_Active c";
      auto simp: incident_step_def incident_open_def starts_incident_def active_action_def split: if_splits)+

lemma incident_history_alternates:
  "incident_history ident fp cs existing = (as, final) \<Longrightarrow>
   length (filter starts_incident as) + (if incident_open existing then 1 else 0) =
   length (filter (\<lambda>a. a = ActionResolved) as) + (if incident_open final then 1 else 0)"
proof (induction cs arbitrary: existing as)
  case (Cons x cs)
  obtain c now where x: "x = (c, now)" by fastforce
  obtain a r where step: "incident_step ident fp c now existing = (a, r)" by fastforce
  obtain as1 final1 where tail:
    "incident_history ident fp cs (map_option (stored_incident now) r) = (as1, final1)" by fastforce
  from Cons.prems x step tail have "as = a # as1" "final1 = final" by auto
  with Cons.IH [OF tail [unfolded \<open>final1 = final\<close>]] incident_step_open [OF step] show ?case
    by (auto simp: starts_incident_def split: if_splits)
qed simp

text \<open>The stored counter is the number of active candidates since the incident was opened.\<close>

lemma wrap64_add: "wrap64 (wrap64 x + y) = wrap64 (x + y)"
proof -
  have "wrap64 x + y + 2 ^ 63 = (x + 2 ^ 63) mod 2 ^ 64 + y"
    by (simp add: wrap64_def)
  then have "(wrap64 x + y + 2 ^ 63) mod 2 ^ 64 = (x + 2 ^ 63 + y) mod 2 ^ 64"
    by (metis mod_add_left_eq)
  then show ?thesis
    unfolding wrap64_def [of "wrap64 x + y"] wrap64_def [of "x + y"] by (simp add: algebra_simps)
qed

definition occurrences :: "IncidentRecord option \<Rightarrow> int" where
  "occurrences existing = (case existing of None \<Rightarrow> 0 | Some r \<Rightarrow> inc_OccurrenceCount r)"

lemma incident_step_occurrences:
  "incident_step ident fp c now existing = (a, r) \<Longrightarrow>
   occurrences (map_option (stored_incident now) r) =
     (if cand_Active c then wrap64 (occurrences existing + 1) else occurrences existing)"
  by (cases existing; cases "cand_Active c")
     (auto simp: incident_step_def occurrences_def stored_incident_def noted_resolved_def
       closed_record_def wrap64_small split: if_splits)

lemma incident_history_occurrences:
  "incident_history ident fp cs existing = (as, final) \<Longrightarrow>
   wrap64 (occurrences final) =
   wrap64 (occurrences existing + int (length (filter (\<lambda>x. cand_Active (fst x)) cs)))"
proof (induction cs arbitrary: existing as)
  case (Cons x cs)
  obtain c now where x: "x = (c, now)" by fastforce
  obtain a r where step: "incident_step ident fp c now existing = (a, r)" by fastforce
  obtain as1 final1 where tail:
    "incident_history ident fp cs (map_option (stored_incident now) r) = (as1, final1)" by fastforce
  from Cons.prems x step tail have "final1 = final" by auto
  with Cons.IH [OF tail [unfolded \<open>final1 = final\<close>]] incident_step_occurrences [OF step] x show ?case
    by (simp add: wrap64_add algebra_simps)
qed simp

subsection \<open>The engine over any store that keeps the laws\<close>

lemma ctx_err_Inr: "ctx_err w = (Inr u, w1) \<Longrightarrow> data w1 = data w \<and> wall w1 = wall w"
  by (auto simp: ctx_err_def split: prod.splits option.splits dest: external_dataD external_wall)

lemma ctx_err_data: "ctx_err w = (x, w1) \<Longrightarrow> data w1 = data w"
  by (auto simp: ctx_err_def split: prod.splits option.splits dest: external_dataD)

lemma Apply_reaches:
  assumes "Apply clock ctx (Some store) c w = (Inr t, w3)"
  obtains fp ident w1 existing w2 where "ctx = Live_Context" "ctx_err w = (Inr (), w1)"
    "Fingerprint (cand_NodeID c) (cand_Type c) (cand_Target c) (cand_Condition c) = Inr fp"
    "IncidentIDForFingerprint fp = Inr ident" "find_existing store fp w1 = (Inr existing, w2)" "acceptable c"
  using assms
  by (cases ctx)
     (auto simp: Apply_def andThen_Inr_iff Let_def acceptable_def observation_time lift_result_def ok_def fail_def
       split: sum.splits if_splits)

context incident_store
begin

lemma find_existing_law:
  assumes "find_existing \<lparr>GetByFingerprint = get, Upsert = upsert\<rparr> fp w = (x, w1)"
  shows "data w1 = data w \<and> wall w1 = wall w \<and> (\<forall>e. x = Inr e \<longrightarrow> view (data w) fp = e)"
  using assms
  by (auto simp: find_existing_def split: prod.splits sum.splits if_splits
      dest: get_pure get_found get_missing)

lemma write_incident_Inr:
  assumes "write_incident \<lparr>GetByFingerprint = get, Upsert = upsert\<rparr> a r w = (Inr t, w1)"
    "Redact (inc_Fingerprint r) = inc_Fingerprint r"
  shows "t = transition a r \<and> view (data w1) (inc_Fingerprint r) = Some (stored_incident (wall w) r) \<and>
    (\<not> clash (data w) r \<longrightarrow> (\<forall>g. g \<noteq> inc_Fingerprint r \<longrightarrow> view (data w1) g = view (data w) g))"
  using assms upsert_same upsert_other by (auto simp: write_incident_def andThen_Inr_iff ok_def)

lemma failure_atomic_write:
  "failure_atomic (write_incident \<lparr>GetByFingerprint = get, Upsert = upsert\<rparr> a r)"
  unfolding write_incident_def
  by (rule failure_atomic_then_ok) (auto simp: failure_atomic_def dest: upsert_failed)

lemma keeps_find_existing: "keeps (\<lambda>d. d) (find_existing \<lparr>GetByFingerprint = get, Upsert = upsert\<rparr> fp)"
  unfolding keeps_def by (metis find_existing_law prod.collapse)

text \<open>A successful call takes the step of \<open>incident_step\<close> at its fingerprint and no other.\<close>

lemma Apply_refines:
  assumes "Apply clock ctx (Some \<lparr>GetByFingerprint = get, Upsert = upsert\<rparr>) c w = (Inr t, w3)"
  obtains fp ident a existing' where
    "Fingerprint (cand_NodeID c) (cand_Type c) (cand_Target c) (cand_Condition c) = Inr fp"
    "IncidentIDForFingerprint fp = Inr ident" "acceptable c"
    "incident_step ident fp c (candidate_time clock c (wall w)) (view (data w) fp) = (a, existing')"
    "tr_Action t = a" "tr_Fingerprint t = fp"
    "case existing' of None \<Rightarrow> data w3 = data w
     | Some r \<Rightarrow> t = transition a r \<and> view (data w3) fp = Some (stored_incident (wall w) r) \<and>
         (\<not> clash (data w) r \<longrightarrow> (\<forall>g. g \<noteq> fp \<longrightarrow> view (data w3) g = view (data w) g))"
proof (rule Apply_reaches [OF assms])
  let ?st = "\<lparr>GetByFingerprint = get, Upsert = upsert\<rparr>"
  fix fp ident w1 existing w2
  assume reached: "ctx = Live_Context" "ctx_err w = (Inr (), w1)"
    "Fingerprint (cand_NodeID c) (cand_Type c) (cand_Target c) (cand_Condition c) = Inr fp"
    "IncidentIDForFingerprint fp = Inr ident" "find_existing ?st fp w1 = (Inr existing, w2)" "acceptable c"
  have same: "data w1 = data w" "wall w1 = wall w" "data w2 = data w" "wall w2 = wall w"
      and view: "view (data w) fp = existing"
    using ctx_err_Inr [OF reached(2)] find_existing_law [OF reached(5)] by auto
  have key: "inc_Fingerprint r = fp" if "existing = Some r" for r
    using view_key view that by blast
  have "incident_write ?st ident fp c (candidate_time clock c (wall w)) existing w2 = (Inr t, w3)"
    using Apply_unfold [OF reached(3,4,2) _ reached(5,6)] assms reached(1,5) key same by auto
  moreover obtain a r where step: "incident_step ident fp c (candidate_time clock c (wall w)) existing = (a, r)" by fastforce
  ultimately show thesis
  proof (cases r)
    case None
    with step \<open>incident_write _ _ _ _ _ _ _ = _\<close> have "a = ActionNone" "tr_Action t = ActionNone"
        "tr_Fingerprint t = fp" "w3 = w2"
      by (auto simp: incident_write_def ok_def incident_step_def split: option.splits if_splits)
    with None step that reached view same show ?thesis by simp
  next
    case (Some r1)
    have fp1: "inc_Fingerprint r1 = fp"
      using incident_step_fingerprint step Some key by blast
    have red: "Redact fp = fp" using Fingerprint_stored [OF reached(3)] by simp
    with write_incident_Inr [of a r1 w2 t w3] step Some fp1 \<open>incident_write _ _ _ _ _ _ _ = _\<close> same
    have "t = transition a r1 \<and> view (data w3) fp = Some (stored_incident (wall w) r1) \<and>
      (\<not> clash (data w) r1 \<longrightarrow> (\<forall>g. g \<noteq> fp \<longrightarrow> view (data w3) g = view (data w) g))"
      by (simp add: incident_write_def)
    with that Some step reached view fp1 show ?thesis
      by (simp add: transition_def)
  qed
qed

lemma failure_atomic_resolve:
  "failure_atomic (resolve \<lparr>GetByFingerprint = get, Upsert = upsert\<rparr> r c now)"
  unfolding resolve_def by (intro failure_atomic_if failure_atomic_write)

lemma failure_atomic_updateActive:
  "failure_atomic (updateActive \<lparr>GetByFingerprint = get, Upsert = upsert\<rparr> r c now)"
  unfolding updateActive_def Let_def by (intro failure_atomic_intros failure_atomic_write)

lemma failure_atomic_Apply:
  "failure_atomic (Apply clock ctx (Some \<lparr>GetByFingerprint = get, Upsert = upsert\<rparr>) c)"
proof -
  have "keeps (\<lambda>d. d) (if is_zero_time (cand_ObservedAt c) then engine_now clock else ok (cand_ObservedAt c))"
    unfolding keeps_def observation_time by simp
  then show ?thesis
    unfolding Apply_def option.case
    by (intro failure_atomic_intros keeps_find_existing failure_atomic_write failure_atomic_resolve
        failure_atomic_updateActive)
qed

lemma find_existing_live:
  assumes "quiet w" "healthy (data w)" "trim_space fp \<noteq> []"
  shows "find_existing \<lparr>GetByFingerprint = get, Upsert = upsert\<rparr> fp w = (Inr (view (data w) fp), w)"
proof -
  obtain x w1 where f: "find_existing \<lparr>GetByFingerprint = get, Upsert = upsert\<rparr> fp w = (x, w1)" by fastforce
  with get_live [OF assms] have "\<exists>e. x = Inr e \<and> w1 = w"
    by (auto simp: find_existing_def)
  with f find_existing_law [OF f] show ?thesis by auto
qed

text \<open>When nothing fails outside, a recordable candidate is recorded.\<close>

lemma Apply_live:
  assumes "quiet w" "healthy (data w)" "recordable c"
    "Fingerprint (cand_NodeID c) (cand_Type c) (cand_Target c) (cand_Condition c) = Inr fp"
    "IncidentIDForFingerprint fp = Inr ident" "candidate_time clock c (wall w) \<noteq> 0"
    "readable_time (candidate_time clock c (wall w))" "readable_time (wall w)"
    "\<And>r. view (data w) fp = Some r \<Longrightarrow> validateIncident r = None \<and> inc_OccurrenceCount r < 2 ^ 63 - 1"
    "\<And>r. view (data w) fp = None \<Longrightarrow> inc_ID r = ident \<Longrightarrow> inc_Fingerprint r = fp \<Longrightarrow> \<not> clash (data w) r"
  shows "\<exists>t w1. Apply clock Live_Context (Some \<lparr>GetByFingerprint = get, Upsert = upsert\<rparr>) c w = (Inr t, w1) \<and>
    quiet w1 \<and> healthy (data w1) \<and> wall w1 = wall w"
proof -
  let ?st = "\<lparr>GetByFingerprint = get, Upsert = upsert\<rparr>"
  have fp: "Redact fp = fp" "fp \<noteq> []" "trim_space fp \<noteq> []"
    using Fingerprint_stored [OF assms(4)] by auto
  have find: "find_existing ?st fp w = (Inr (view (data w) fp), w)"
    using find_existing_live assms(1,2) fp by blast
  have key: "inc_Fingerprint r = fp" if "view (data w) fp = Some r" for r
    using view_key [OF that] .
  have eq: "Apply clock Live_Context (Some ?st) c w =
      incident_write ?st ident fp c (candidate_time clock c (wall w)) (view (data w) fp) w"
    using assms(1) find key by (intro Apply_unfold assms(4,5) recordable_acceptable assms(3)) auto
  obtain a existing' where step:
    "incident_step ident fp c (candidate_time clock c (wall w)) (view (data w) fp) = (a, existing')" by fastforce
  show ?thesis
  proof (cases existing')
    case None
    with eq step assms(1,2) show ?thesis by (simp add: incident_write_def ok_def)
  next
    case (Some r)
    have r: "inc_Fingerprint r = fp" "validateIncident r = None"
      using incident_step_fingerprint step Some key
        incident_step_valid [OF assms(4,5,3,6,9) step [unfolded Some]] by blast+
    have "\<not> clash (data w) r"
    proof (cases "view (data w) fp")
      case None
      with step Some assms(10) [OF None, of r] show ?thesis
        by (auto simp: incident_step_def split: if_splits)
    next
      case (Some r0)
      with assms(9) have "inc_ID r0 \<noteq> []" by (auto simp: validateIncident_None_iff)
      with Some step \<open>existing' = Some r\<close> have "inc_ID r = inc_ID r0"
        by (auto simp: incident_step_def noted_resolved_def closed_record_def split: if_splits)
      with Some fp r assms(2) found_no_clash show ?thesis by blast
    qed
    moreover have "times_readable r"
    proof (cases "view (data w) fp")
      case None
      with step Some assms(7) show ?thesis
        by (auto simp: incident_step_def new_record_def times_readable_def split: if_splits)
    next
      case (Some r0)
      from view_times [OF assms(2) Some] Some step \<open>existing' = Some r\<close> assms(7) show ?thesis
        by (auto simp: incident_step_def record_times split: if_splits)
    qed
    ultimately show ?thesis
      using upsert_live [of w r] incident_times_are_readable [of "wall w" r] assms(1,2,8) r fp eq step Some
      by (auto simp: incident_write_def write_incident_def andThen_def ok_def)
  qed
qed

end

end
