(* ===== verification/Rule_Conditions.thy ===== *)
theory Rule_Conditions
  imports Go_Float Incident_Engine
begin

text \<open>
  Observations as \<open>internal/collectors/resources/types.go\<close> declares them, and the matching
  of a rule against them, \<open>internal/rules/condition.go\<close>: which metrics and events a rule sees,
  for which targets, and the severity the thresholds ask for. A Go map is a partial function;
  reading a missing label gives the empty string.
\<close>

subsection \<open>Observations\<close>

record Metric =
  m_Name :: string
  m_Value :: float64
  m_Kind :: string
  m_Unit :: string
  m_Labels :: "string \<rightharpoonup> string"
  m_Timestamp :: instant

record Event =
  ev_Category :: string
  ev_Timestamp :: instant
  ev_Summary :: string
  ev_Labels :: "string \<rightharpoonup> string"
  ev_Fields :: "string \<rightharpoonup> string"

record Observation =
  ob_Collector :: string
  ob_Target :: string
  ob_Timestamp :: instant
  ob_Duration :: duration
  ob_Success :: bool
  ob_Supported :: bool
  ob_Stale :: bool
  ob_Metrics :: "Metric list"
  ob_Summary :: string
  ob_ErrorClass :: string
  ob_Fields :: "string \<rightharpoonup> string"
  ob_Events :: "Event list"

definition ErrorNone :: string where "ErrorNone = []"
definition ErrorUnsupported :: string where "ErrorUnsupported = ''unsupported''"
definition ErrorCounterReset :: string where "ErrorCounterReset = ''counter_reset''"
definition ErrorInternal :: string where "ErrorInternal = ''internal_error''"

subsection \<open>Rules\<close>

datatype Operator =
    OpGreaterThan | OpGreaterThanOrEqual | OpLessThan | OpLessThanOrEqual | OpEqual | OpNotEqual
  | OpBooleanTrue | OpBooleanFalse | OpStateMatch | OpEventCategoryMatch | Operator_Other string

datatype Policy = PolicyIgnore | PolicyStale | PolicyWarn | PolicyFail | Policy_Other string

record Value =
  v_Number :: float64
  v_String :: string
  v_Bool :: bool
  v_Kind :: string

record Threshold =
  th_Operator :: Operator
  th_Value :: Value
  th_For :: duration

record Rule =
  ru_ID :: string
  ru_Enabled :: bool
  ru_Collector :: string
  ru_Metric :: string
  ru_Target :: string
  ru_EventCategory :: string
  ru_Warn :: "Threshold option"
  ru_Fail :: "Threshold option"
  ru_Critical :: "Threshold option"
  ru_RecoverFor :: duration
  ru_MissingData :: Policy
  ru_StaleData :: Policy
  ru_Summary :: string
  ru_Labels :: "string \<rightharpoonup> string"

record matchResult =
  mt_Matched :: bool
  mt_Target :: string
  mt_Observed :: instant
  mt_Metric :: "Metric option"
  mt_Event :: "Event option"

subsection \<open>Targets\<close>

text \<open>The first of the keys whose label is not empty.\<close>

fun first_label :: "(string \<rightharpoonup> string) \<Rightarrow> string list \<Rightarrow> string option" where
  "first_label labels [] = None"
| "first_label labels (k # ks) =
     (case labels k of
        Some v \<Rightarrow> if v \<noteq> [] then Some v else first_label labels ks
      | None \<Rightarrow> first_label labels ks)"

definition observation_target :: "Observation \<Rightarrow> string" where
  "observation_target ob = (if ob_Target ob \<noteq> [] then ob_Target ob else ''system'')"

definition metricTarget :: "Observation \<Rightarrow> Metric \<Rightarrow> string" where
  "metricTarget ob m =
     (case first_label (m_Labels m)
             [''mount'', ''interface'', ''device'', ''unit'', ''directive'', ''port'', ''watch'', ''collector''] of
        Some v \<Rightarrow> v
      | None \<Rightarrow> observation_target ob)"

definition eventTarget :: "Observation \<Rightarrow> Event \<Rightarrow> string" where
  "eventTarget ob e =
     (case first_label (ev_Labels e)
             [''unit'', ''stream'', ''event_category'', ''interface'', ''device'', ''watch''] of
        Some v \<Rightarrow> v
      | None \<Rightarrow> observation_target ob)"

definition targetMatches :: "string \<Rightarrow> string \<Rightarrow> bool" where
  "targetMatches ruleTarget observedTarget \<longleftrightarrow>
     ruleTarget = [] \<or> ruleTarget = ''any'' \<or> (ruleTarget = ''system'' \<and> observedTarget = ''all'') \<or>
     ruleTarget = observedTarget"

definition collectorMatches :: "string \<Rightarrow> string \<Rightarrow> bool" where
  "collectorMatches ruleCollector observationCollector \<longleftrightarrow>
     ruleCollector = observationCollector \<or>
     (ruleCollector = ''resources'' \<and>
      observationCollector \<in> set [''cpu'', ''load'', ''memory'', ''pressure'', ''filesystem'', ''diskio'',
                                   ''network'', ''uptime''])"

definition defaultTarget :: "Rule \<Rightarrow> string" where
  "defaultTarget r = (if ru_Target r \<noteq> [] \<and> ru_Target r \<noteq> ''any'' then ru_Target r else ''system'')"

subsection \<open>Matches\<close>

definition or_time :: "instant \<Rightarrow> instant \<Rightarrow> instant" where
  "or_time t fallback = (if is_zero_time t then fallback else t)"

definition metric_matches :: "Rule \<Rightarrow> Observation \<Rightarrow> matchResult list" where
  "metric_matches r ob =
     (if ru_Metric r = [] then []
      else map (\<lambda>m. \<lparr>mt_Matched = True, mt_Target = metricTarget ob m, mt_Observed = or_time (m_Timestamp m) (ob_Timestamp ob),
                      mt_Metric = Some m, mt_Event = None\<rparr>)
             (filter (\<lambda>m. m_Name m = ru_Metric r \<and> targetMatches (ru_Target r) (metricTarget ob m))
                (ob_Metrics ob)))"

definition event_matches :: "Rule \<Rightarrow> Observation \<Rightarrow> matchResult list" where
  "event_matches r ob =
     (if ru_EventCategory r = [] then []
      else map (\<lambda>e. \<lparr>mt_Matched = True, mt_Target = eventTarget ob e, mt_Observed = or_time (ev_Timestamp e) (ob_Timestamp ob),
                      mt_Metric = None, mt_Event = Some e\<rparr>)
             (filter (\<lambda>e. targetMatches (ru_Target r) (eventTarget ob e) \<and> ev_Category e = ru_EventCategory r)
                (ob_Events ob)))"

definition findMatches :: "Rule \<Rightarrow> Observation list \<Rightarrow> matchResult list" where
  "findMatches r observations =
     concat (map (\<lambda>ob. if collectorMatches (ru_Collector r) (ob_Collector ob)
                       then metric_matches r ob @ event_matches r ob else []) observations)"

text \<open>Targets in the order they are first seen; the set of seen targets is the list built so far.\<close>

definition note_target :: "Rule \<Rightarrow> matchResult \<Rightarrow> string list \<Rightarrow> string list" where
  "note_target r m targets =
     (let target = (if mt_Target m = [] then defaultTarget r else mt_Target m) in
      if target \<in> set targets then targets else targets @ [target])"

definition matchingTargets :: "Rule \<Rightarrow> Observation list \<Rightarrow> string list" where
  "matchingTargets r observations =
     (if ru_Target r \<noteq> [] \<and> ru_Target r \<noteq> ''any'' then [ru_Target r]
      else (let targets = fold (note_target r) (findMatches r observations) []
            in if targets = [] then [defaultTarget r] else targets))"

subsection \<open>Thresholds\<close>

definition numeric :: "matchResult \<Rightarrow> float64" where
  "numeric m = (case mt_Metric m of None \<Rightarrow> Fin 0 | Some x \<Rightarrow> m_Value x)"

definition boolValue :: "matchResult \<Rightarrow> bool" where
  "boolValue m \<longleftrightarrow> \<not> fl_eq (numeric m) (Fin 0)"

definition stringValue :: "matchResult \<Rightarrow> string" where
  "stringValue m =
     (case mt_Event m of
        Some e \<Rightarrow> ev_Category e
      | None \<Rightarrow>
          (case mt_Metric m of
             None \<Rightarrow> []
           | Some x \<Rightarrow>
               (case first_label (m_Labels x)
                       [''state'', ''status'', ''directive'', ''port'', ''unit'', ''interface'', ''mount'',
                        ''device'', ''watch''] of
                  Some v \<Rightarrow> v
                | None \<Rightarrow> format_g (m_Value x))))"

text \<open>The \<open>float64\<close> nearest to \<open>1e-12\<close>.\<close>

definition equality_tolerance :: float64 where
  "equality_tolerance = Fin (4951760157141521 / 4951760157141521099596496896)"

definition distance :: "float64 \<Rightarrow> float64 \<Rightarrow> float64" where
  "distance x y = fl_abs (fl_sub x y)"

definition thresholdMatches :: "Threshold \<Rightarrow> matchResult \<Rightarrow> bool" where
  "thresholdMatches th m =
     (let v = th_Value th in
      case th_Operator th of
        OpGreaterThan \<Rightarrow> fl_less (v_Number v) (numeric m)
      | OpGreaterThanOrEqual \<Rightarrow> fl_le (v_Number v) (numeric m)
      | OpLessThan \<Rightarrow> fl_less (numeric m) (v_Number v)
      | OpLessThanOrEqual \<Rightarrow> fl_le (numeric m) (v_Number v)
      | OpEqual \<Rightarrow>
          if v_Kind v = ''string'' then equal_fold (stringValue m) (v_String v)
          else if v_Kind v = ''bool'' then boolValue m = v_Bool v
          else fl_less (distance (numeric m) (v_Number v)) equality_tolerance
      | OpNotEqual \<Rightarrow>
          if v_Kind v = ''string'' then \<not> equal_fold (stringValue m) (v_String v)
          else if v_Kind v = ''bool'' then boolValue m \<noteq> v_Bool v
          else fl_le equality_tolerance (distance (numeric m) (v_Number v))
      | OpBooleanTrue \<Rightarrow> boolValue m
      | OpBooleanFalse \<Rightarrow> \<not> boolValue m
      | OpStateMatch \<Rightarrow> equal_fold (stringValue m) (v_String v)
      | OpEventCategoryMatch \<Rightarrow>
          (case mt_Event m of None \<Rightarrow> False | Some e \<Rightarrow> equal_fold (ev_Category e) (v_String v))
      | Operator_Other s \<Rightarrow> False)"

definition matches_threshold :: "Threshold option \<Rightarrow> matchResult \<Rightarrow> bool" where
  "matches_threshold th m = (case th of None \<Rightarrow> False | Some t \<Rightarrow> thresholdMatches t m)"

text \<open>The critical loop also finds the latest observation, up to the match it stops at.\<close>

fun critical_scan :: "Threshold option \<Rightarrow> matchResult list \<Rightarrow> instant \<Rightarrow> instant \<times> bool" where
  "critical_scan th [] observed = (observed, False)"
| "critical_scan th (m # ms) observed =
     (let observed = (if is_zero_time observed \<or> mt_Observed m > observed then mt_Observed m else observed) in
      if matches_threshold th m then (observed, True) else critical_scan th ms observed)"

definition target_matches :: "Rule \<Rightarrow> string \<Rightarrow> matchResult \<Rightarrow> bool" where
  "target_matches r target m \<longleftrightarrow>
     mt_Target m = target \<or> (target = ''system'' \<and> mt_Target m = ''all'') \<or>
     (target = defaultTarget r \<and> mt_Target m = [])"

record desired_result =
  ds_Severity :: string
  ds_Reason :: string
  ds_Observed :: instant
  ds_Matched :: bool

definition desiredSeverityForTarget :: "Rule \<Rightarrow> Observation list \<Rightarrow> string \<Rightarrow> desired_result" where
  "desiredSeverityForTarget r observations target =
     (let found = findMatches r observations;
          matches = (if target \<noteq> [] then filter (target_matches r target) found else found)
      in if matches = []
         then \<lparr>ds_Severity = SeverityNone, ds_Reason = ''metric or event was not observed'', ds_Observed = 0,
               ds_Matched = False\<rparr>
         else
           (let (observed, critical) = critical_scan (ru_Critical r) matches 0 in
            if critical
              then \<lparr>ds_Severity = SeverityCritical, ds_Reason = ''critical threshold matched'',
                    ds_Observed = observed, ds_Matched = True\<rparr>
            else if list_ex (matches_threshold (ru_Fail r)) matches
              then \<lparr>ds_Severity = SeverityFailure, ds_Reason = ''failure threshold matched'',
                    ds_Observed = observed, ds_Matched = True\<rparr>
            else if list_ex (matches_threshold (ru_Warn r)) matches
              then \<lparr>ds_Severity = SeverityWarning, ds_Reason = ''warning threshold matched'',
                    ds_Observed = observed, ds_Matched = True\<rparr>
            else \<lparr>ds_Severity = SeverityNone, ds_Reason = ''condition is not true'', ds_Observed = observed,
                  ds_Matched = True\<rparr>))"

definition desiredSeverity :: "Rule \<Rightarrow> Observation list \<Rightarrow> desired_result" where
  "desiredSeverity r observations = desiredSeverityForTarget r observations []"

subsection \<open>What the matching promises\<close>

text \<open>The thresholds a rule has, with the severity each stands for.\<close>

definition rule_thresholds :: "Rule \<Rightarrow> (Threshold option \<times> string) list" where
  "rule_thresholds r =
     [(ru_Critical r, SeverityCritical), (ru_Fail r, SeverityFailure), (ru_Warn r, SeverityWarning)]"

definition relevant_matches :: "Rule \<Rightarrow> Observation list \<Rightarrow> string \<Rightarrow> matchResult list" where
  "relevant_matches r observations target =
     (if target \<noteq> [] then filter (target_matches r target) (findMatches r observations)
      else findMatches r observations)"

definition severity_levels :: "string set" where
  "severity_levels = {SeverityNone, SeverityWarning, SeverityFailure, SeverityCritical}"

lemma severityRank_simps [simp]:
  "severityRank SeverityNone = 0" "severityRank SeverityWarning = 1" "severityRank SeverityFailure = 2"
  "severityRank SeverityCritical = 3"
  by simp_all

declare severityRank.simps [simp del]

lemma critical_scan_found: "snd (critical_scan th ms observed) = list_ex (matches_threshold th) ms"
  by (induction th ms observed rule: critical_scan.induct) (simp_all add: Let_def)

lemma desired_unfold:
  "desiredSeverityForTarget r observations target =
     (let matches = relevant_matches r observations target in
      if matches = [] then \<lparr>ds_Severity = SeverityNone, ds_Reason = ''metric or event was not observed'',
                           ds_Observed = 0, ds_Matched = False\<rparr>
      else \<lparr>ds_Severity =
              (if list_ex (matches_threshold (ru_Critical r)) matches then SeverityCritical
               else if list_ex (matches_threshold (ru_Fail r)) matches then SeverityFailure
               else if list_ex (matches_threshold (ru_Warn r)) matches then SeverityWarning
               else SeverityNone),
            ds_Reason =
              (if list_ex (matches_threshold (ru_Critical r)) matches then ''critical threshold matched''
               else if list_ex (matches_threshold (ru_Fail r)) matches then ''failure threshold matched''
               else if list_ex (matches_threshold (ru_Warn r)) matches then ''warning threshold matched''
               else ''condition is not true''),
            ds_Observed = fst (critical_scan (ru_Critical r) matches 0), ds_Matched = True\<rparr>)"
  unfolding desiredSeverityForTarget_def relevant_matches_def [symmetric] Let_def
  by (simp add: case_prod_beta critical_scan_found)

lemma desired_severity_level: "ds_Severity (desiredSeverityForTarget r observations target) \<in> severity_levels"
  by (simp add: desired_unfold Let_def severity_levels_def)

text \<open>The desired severity is the most severe one whose threshold some relevant match meets.\<close>

definition met_thresholds :: "Rule \<Rightarrow> matchResult list \<Rightarrow> string list" where
  "met_thresholds r ms =
     map snd (filter (\<lambda>(th, s). list_ex (matches_threshold th) ms) (rule_thresholds r))"

lemma latest_critical_scan:
  "\<not> list_ex (matches_threshold th) ms \<Longrightarrow> 0 \<le> t \<Longrightarrow> \<forall>m \<in> set ms. 0 < mt_Observed m \<Longrightarrow>
   fst (critical_scan th ms t) = Max (insert t (mt_Observed ` set ms))"
proof (induction th ms t rule: critical_scan.induct)
  case (2 th m ms t)
  let ?t = "if is_zero_time t \<or> mt_Observed m > t then mt_Observed m else t"
  have "?t = max t (mt_Observed m)" using 2 by (auto simp: is_zero_time_def)
  moreover have "Max (insert (max t (mt_Observed m)) (mt_Observed ` set ms)) =
      max t (Max (insert (mt_Observed m) (mt_Observed ` set ms)))"
    by (cases "ms = []") (simp_all add: max.assoc)
  ultimately show ?case using 2 by (simp add: Let_def)
qed simp

lemma note_target_new: "distinct ts \<Longrightarrow> distinct (note_target r m ts)"
  by (simp add: note_target_def Let_def)

lemma fold_note_target:
  "distinct ts \<Longrightarrow> distinct (fold (note_target r) ms ts) \<and>
   set (fold (note_target r) ms ts) =
     set ts \<union> (\<lambda>m. if mt_Target m = [] then defaultTarget r else mt_Target m) ` set ms"
proof (induction ms arbitrary: ts)
  case (Cons m ms)
  with Cons.IH [OF note_target_new [OF Cons.prems, of r m]] show ?case
    by (auto simp: note_target_def Let_def)
qed simp

lemma defaultTarget_not_Nil [simp]: "defaultTarget r \<noteq> []" "[] \<noteq> defaultTarget r"
  by (auto simp: defaultTarget_def)

lemma matchingTargets_distinct: "distinct (matchingTargets r observations)"
  using fold_note_target [of "[]" r] by (simp add: matchingTargets_def Let_def)

lemma matchingTargets_not_Nil: "matchingTargets r observations \<noteq> [] \<and> [] \<notin> set (matchingTargets r observations)"
  using fold_note_target [of "[]" r "findMatches r observations"]
  by (auto simp: matchingTargets_def Let_def)

lemma findMatches_target:
  "m \<in> set (findMatches r observations) \<Longrightarrow> targetMatches (ru_Target r) (mt_Target m)"
  by (auto simp: findMatches_def metric_matches_def event_matches_def split: if_splits)

end
