(* ===== verification/Rule_Engine.thy ===== *)
theory Rule_Engine
  imports Rule_Conditions
begin

text \<open>
  \<open>internal/rules/engine.go\<close> and \<open>state.go\<close>: the memory a rule keeps per target, the
  state machine that turns the desired severity into pending, active and recovering states, the
  policies for missing and stale data, and the evaluation of all rules against a store. A state is
  a Go string; the constants are the constructors and \<open>State_Other\<close> is any other text.
\<close>

subsection \<open>States and memory\<close>

datatype State =
    StateOK | StatePendingWarn | StateWarn | StatePendingFail | StateFail | StateCritical
  | StateRecovering | StateRecovered | StateStale | StateUnknown | State_Other string

definition state_text :: "State \<Rightarrow> string" where
  "state_text s =
     (case s of
        StateOK \<Rightarrow> ''OK'' | StatePendingWarn \<Rightarrow> ''PENDING_WARN'' | StateWarn \<Rightarrow> ''WARN''
      | StatePendingFail \<Rightarrow> ''PENDING_FAIL'' | StateFail \<Rightarrow> ''FAIL'' | StateCritical \<Rightarrow> ''CRITICAL''
      | StateRecovering \<Rightarrow> ''RECOVERING'' | StateRecovered \<Rightarrow> ''RECOVERED'' | StateStale \<Rightarrow> ''STALE''
      | StateUnknown \<Rightarrow> ''UNKNOWN'' | State_Other t \<Rightarrow> t)"

definition named_states :: "State list" where
  "named_states =
     [StateOK, StatePendingWarn, StateWarn, StatePendingFail, StateFail, StateCritical, StateRecovering,
      StateRecovered, StateStale, StateUnknown]"

definition state_of :: "string \<Rightarrow> State" where
  "state_of t = (case find (\<lambda>s. state_text s = t) named_states of Some s \<Rightarrow> s | None \<Rightarrow> State_Other t)"

record EvaluationMemory =
  mem_State :: State
  mem_Severity :: string
  mem_ConditionMetSince :: "instant option"
  mem_RecoverySince :: "instant option"
  mem_LastEvaluatedAt :: instant
  mem_LastObservedAt :: "instant option"
  mem_LastResultSummary :: string
  mem_PendingSeverity :: string

record Result =
  res_RuleID :: string
  res_Target :: string
  res_State :: State
  res_Severity :: string
  res_Matched :: bool
  res_Summary :: string
  res_IncidentTransition :: "Transition option"
  res_Labels :: "string \<rightharpoonup> string"

record Evaluation =
  eva_Results :: "Result list"
  eva_Transitions :: "Transition list"

subsection \<open>The state machine\<close>

definition isActive :: "State \<Rightarrow> bool" where
  "isActive s \<longleftrightarrow> s = StateWarn \<or> s = StateFail \<or> s = StateCritical \<or> s = StateRecovering"

definition isActiveSeverity :: "string \<Rightarrow> string \<Rightarrow> bool" where
  "isActiveSeverity current desired \<longleftrightarrow> severityRank current \<ge> severityRank desired"

definition stateForSeverity :: "string \<Rightarrow> State" where
  "stateForSeverity severity =
     (if severity = SeverityCritical then StateCritical
      else if severity = SeverityFailure then StateFail
      else if severity = SeverityWarning then StateWarn
      else StateOK)"

definition pendingStateForSeverity :: "string \<Rightarrow> State" where
  "pendingStateForSeverity severity =
     (if severityRank severity \<ge> severityRank SeverityFailure then StatePendingFail else StatePendingWarn)"

definition threshold_for :: "Threshold option \<Rightarrow> duration" where
  "threshold_for th = (case th of Some t \<Rightarrow> th_For t | None \<Rightarrow> 0)"

definition durationFor :: "Rule \<Rightarrow> string \<Rightarrow> duration" where
  "durationFor r severity =
     (if severity = SeverityCritical then threshold_for (ru_Critical r)
      else if severity = SeverityFailure then threshold_for (ru_Fail r)
      else if severity = SeverityWarning then threshold_for (ru_Warn r)
      else 0)"

definition incidentCandidate :: "Rule \<Rightarrow> string \<Rightarrow> string \<Rightarrow> bool \<Rightarrow> string \<Rightarrow> instant \<Rightarrow> Candidate" where
  "incidentCandidate r target severity active summary now =
     \<lparr>cand_NodeID = [],
      cand_Type = (if ru_Collector r = [] then ''rule'' else ru_Collector r),
      cand_Target = target,
      cand_Condition =
        (if ru_EventCategory r \<noteq> [] then ru_EventCategory r
         else if ru_Metric r \<noteq> [] then ru_Metric r else ru_ID r),
      cand_Severity = severity, cand_Active = active, cand_Summary = summary, cand_EvidencePath = [],
      cand_ObservedAt = now\<rparr>"

definition renderSummary :: "Rule \<Rightarrow> string \<Rightarrow> string \<Rightarrow> string \<Rightarrow> string" where
  "renderSummary r target severity reason =
     (if ru_Summary r \<noteq> []
      then replace_all ''{{severity}}'' severity
             (replace_all ''{{target}}'' target (replace_all ''{{rule_id}}'' (ru_ID r) (ru_Summary r)))
      else if severity = SeverityNone then ru_ID r @ '' recovered for '' @ target
      else ru_ID r @ '' '' @ severity @ '' for '' @ target @ '': '' @ reason)"

definition rule_safeSummary :: "string \<Rightarrow> string" where
  "rule_safeSummary summary =
     (let value = Redact summary in
      if value = [] then ''rule evaluated'' else if length value > 240 then take 240 value else value)"

text \<open>A result as the state machine builds it; the caller fills in the rest.\<close>

definition partial_result :: "State \<Rightarrow> string \<Rightarrow> string \<Rightarrow> Result" where
  "partial_result s severity summary =
     \<lparr>res_RuleID = [], res_Target = [], res_State = s, res_Severity = severity, res_Matched = False,
      res_Summary = summary, res_IncidentTransition = None, res_Labels = Map.empty\<rparr>"

definition memory_result :: "EvaluationMemory \<Rightarrow> Result" where
  "memory_result m = partial_result (mem_State m) (mem_Severity m) (mem_LastResultSummary m)"

text \<open>The part of \<open>transitionState\<close> for a condition that does not hold.\<close>

definition recover_step ::
    "Rule \<Rightarrow> string \<Rightarrow> EvaluationMemory \<Rightarrow> instant \<Rightarrow> EvaluationMemory \<times> Candidate option \<times> Result" where
  "recover_step r target m now =
     (if isActive (mem_State m) then
        (case mem_RecoverySince m of
           None \<Rightarrow>
             let m1 = m\<lparr>mem_RecoverySince := Some now, mem_State := StateRecovering\<rparr> in (m1, None, memory_result m1)
         | Some since \<Rightarrow>
             if time_sub now since \<ge> ru_RecoverFor r then
               let m1 = m\<lparr>mem_State := StateRecovered, mem_Severity := SeverityNone,
                          mem_ConditionMetSince := None, mem_PendingSeverity := SeverityNone\<rparr>
               in (m1, Some (incidentCandidate r target SeverityNone False (mem_LastResultSummary m1) now),
                   memory_result m1)
             else let m1 = m\<lparr>mem_State := StateRecovering\<rparr> in (m1, None, memory_result m1))
      else
        let m1 = m\<lparr>mem_State := StateOK, mem_Severity := SeverityNone, mem_ConditionMetSince := None,
                   mem_RecoverySince := None, mem_PendingSeverity := SeverityNone\<rparr>
        in (m1, None, memory_result m1))"

text \<open>The part for a condition that holds at severity \<open>desired\<close>.\<close>

definition alert_step ::
    "Rule \<Rightarrow> string \<Rightarrow> EvaluationMemory \<Rightarrow> string \<Rightarrow> instant \<Rightarrow> EvaluationMemory \<times> Candidate option \<times> Result" where
  "alert_step r target m0 desired now =
     (let m = m0\<lparr>mem_RecoverySince := None\<rparr>;
          alert = (\<lambda>m1. (m1, Some (incidentCandidate r target desired True (mem_LastResultSummary m1) now),
                         memory_result m1))
      in if isActiveSeverity (mem_Severity m) desired \<and> isActive (mem_State m) then
           if desired = SeverityCritical \<and> mem_Severity m \<noteq> SeverityCritical
           then alert (m\<lparr>mem_Severity := SeverityCritical, mem_State := StateCritical\<rparr>)
           else alert (m\<lparr>mem_Severity := desired, mem_State := stateForSeverity desired\<rparr>)
         else if mem_PendingSeverity m \<noteq> desired \<or> mem_ConditionMetSince m = None then
           let m1 = m\<lparr>mem_ConditionMetSince := Some now, mem_PendingSeverity := desired,
                      mem_State := pendingStateForSeverity desired\<rparr>
           in (m1, None, memory_result m1)
         else if time_sub now (the (mem_ConditionMetSince m)) \<ge> durationFor r desired then
           alert (m\<lparr>mem_Severity := desired, mem_State := stateForSeverity desired\<rparr>)
         else let m1 = m\<lparr>mem_State := pendingStateForSeverity desired\<rparr> in (m1, None, memory_result m1))"

definition evaluated_memory ::
    "Rule \<Rightarrow> string \<Rightarrow> EvaluationMemory \<Rightarrow> string \<Rightarrow> string \<Rightarrow> instant \<Rightarrow> instant \<Rightarrow> EvaluationMemory" where
  "evaluated_memory r target previous desired reason observedAt now =
     (let m = (if mem_State previous = State_Other []
               then previous\<lparr>mem_State := StateOK, mem_Severity := SeverityNone\<rparr> else previous);
          m1 = m\<lparr>mem_LastEvaluatedAt := now\<rparr>;
          m2 = (if is_zero_time observedAt then m1 else m1\<lparr>mem_LastObservedAt := Some observedAt\<rparr>)
      in m2\<lparr>mem_LastResultSummary := rule_safeSummary (renderSummary r target desired reason)\<rparr>)"

definition transitionState ::
    "Rule \<Rightarrow> string \<Rightarrow> EvaluationMemory \<Rightarrow> string \<Rightarrow> string \<Rightarrow> instant \<Rightarrow> instant \<Rightarrow>
     EvaluationMemory \<times> Candidate option \<times> Result" where
  "transitionState r target previous desired reason observedAt now =
     (let m = evaluated_memory r target previous desired reason observedAt now in
      if desired = SeverityNone then recover_step r target m now else alert_step r target m desired now)"

subsection \<open>Memory in the store\<close>

record 'd rule_methods =
  GetRule :: "string \<Rightarrow> string \<Rightarrow> (RuleEvaluationStateRecord, 'd) op"
  PutRule :: "RuleEvaluationStateRecord \<Rightarrow> (unit, 'd) op"
  Incidents :: "'d Store"

definition initial_memory :: EvaluationMemory where
  "initial_memory =
     \<lparr>mem_State = StateOK, mem_Severity = SeverityNone, mem_ConditionMetSince = None,
      mem_RecoverySince = None, mem_LastEvaluatedAt = 0, mem_LastObservedAt = None,
      mem_LastResultSummary = [], mem_PendingSeverity = []\<rparr>"

definition memory_of_record :: "RuleEvaluationStateRecord \<Rightarrow> EvaluationMemory" where
  "memory_of_record r =
     \<lparr>mem_State = state_of (rs_State r), mem_Severity = rs_Severity r,
      mem_ConditionMetSince = rs_ConditionMetSince r, mem_RecoverySince = rs_RecoverySince r,
      mem_LastEvaluatedAt = rs_LastEvaluatedAt r, mem_LastObservedAt = rs_LastObservedAt r,
      mem_LastResultSummary = rs_LastResultSummary r, mem_PendingSeverity = rs_PendingSeverity r\<rparr>"

definition loadMemory :: "'d rule_methods \<Rightarrow> string \<Rightarrow> string \<Rightarrow> (EvaluationMemory, 'd) op" where
  "loadMemory store rule target w =
     (case GetRule store rule target w of
        (Inr r, w1) \<Rightarrow> (Inr (memory_of_record r), w1)
      | (Inl e, w1) \<Rightarrow> if errors_is e ErrNotFound then (Inr initial_memory, w1) else (Inl e, w1))"

definition record_of_memory :: "string \<Rightarrow> string \<Rightarrow> EvaluationMemory \<Rightarrow> RuleEvaluationStateRecord" where
  "record_of_memory rule target m =
     \<lparr>rs_RuleID = rule, rs_Target = target,
      rs_State = (if mem_State m = State_Other [] then state_text StateOK else state_text (mem_State m)),
      rs_Severity = (if mem_Severity m = [] then SeverityNone else mem_Severity m),
      rs_ConditionMetSince = mem_ConditionMetSince m, rs_RecoverySince = mem_RecoverySince m,
      rs_LastEvaluatedAt = mem_LastEvaluatedAt m, rs_LastObservedAt = mem_LastObservedAt m,
      rs_LastResultSummary = mem_LastResultSummary m, rs_PendingSeverity = mem_PendingSeverity m,
      rs_UpdatedAt = mem_LastEvaluatedAt m\<rparr>"

definition saveMemory :: "'d rule_methods \<Rightarrow> string \<Rightarrow> string \<Rightarrow> EvaluationMemory \<Rightarrow> (unit, 'd) op" where
  "saveMemory store rule target m =
     andThen ctx_err (\<lambda>_. PutRule store (record_of_memory rule target m))"

subsection \<open>Evaluating one rule for one target\<close>

record ruleObservationStatus =
  st_class :: string
  st_summary :: string

text \<open>The first matching observation that is not simply fresh and successful decides.\<close>

fun observationStatus :: "Rule \<Rightarrow> Observation list \<Rightarrow> ruleObservationStatus" where
  "observationStatus r [] = \<lparr>st_class = ErrorNone, st_summary = []\<rparr>"
| "observationStatus r (ob # obs) =
     (if \<not> collectorMatches (ru_Collector r) (ob_Collector ob) then observationStatus r obs
      else if \<not> ob_Supported ob then \<lparr>st_class = ErrorUnsupported, st_summary = ''collector unsupported''\<rparr>
      else if ob_ErrorClass ob = ErrorCounterReset
        then \<lparr>st_class = ErrorCounterReset, st_summary = ''counter reset or first baseline''\<rparr>
      else if ob_Stale ob then \<lparr>st_class = ob_ErrorClass ob, st_summary = ''stale observation''\<rparr>
      else if \<not> ob_Success ob then
        (let cls = (if ob_ErrorClass ob = [] then ErrorInternal else ob_ErrorClass ob)
         in \<lparr>st_class = cls, st_summary = ''collector failure: '' @ cls\<rparr>)
      else observationStatus r obs)"

definition safeLabels :: "(string \<rightharpoonup> string) \<Rightarrow> (string \<rightharpoonup> string)" where
  "safeLabels labels = (\<lambda>k. map_option Redact (labels k))"

definition labelled :: "Rule \<Rightarrow> string \<Rightarrow> bool \<Rightarrow> Result \<Rightarrow> Result" where
  "labelled r target matched result =
     result\<lparr>res_RuleID := ru_ID r, res_Target := target, res_Matched := matched,
            res_Labels := safeLabels (ru_Labels r)\<rparr>"

text \<open>
  The memory is saved, and a candidate is applied to the incidents of the same store; the three
  callers of \<open>transitionState\<close> share this ending.
\<close>

definition commit_step ::
    "string \<Rightarrow> 'd rule_methods \<Rightarrow> instant \<Rightarrow> Rule \<Rightarrow> string \<Rightarrow> bool \<Rightarrow>
     EvaluationMemory \<times> Candidate option \<times> Result \<Rightarrow> (Result \<times> Transition option, 'd) op" where
  "commit_step nodeID store now r target matched stepped =
     (case stepped of (memory, candidate, result) \<Rightarrow>
        andThen (saveMemory store (ru_ID r) target memory) (\<lambda>_.
          case candidate of
            None \<Rightarrow> ok (labelled r target matched result, None)
          | Some c \<Rightarrow>
              andThen (Apply (Some now) Live_Context (Some (Incidents store)) (c\<lparr>cand_NodeID := nodeID\<rparr>)) (\<lambda>got.
                ok (labelled r target matched result\<lparr>res_IncidentTransition := Some got\<rparr>, Some got))))"

text \<open>A memory that is only noted as evaluated, with the state reported beside it.\<close>

definition note_step ::
    "'d rule_methods \<Rightarrow> Rule \<Rightarrow> string \<Rightarrow> EvaluationMemory \<Rightarrow> State \<Rightarrow> string \<Rightarrow> instant \<Rightarrow>
     (Result \<times> Transition option, 'd) op" where
  "note_step store r target m s summary now =
     (let memory = m\<lparr>mem_LastEvaluatedAt := now, mem_LastResultSummary := summary\<rparr> in
      andThen (saveMemory store (ru_ID r) target memory) (\<lambda>_.
        ok (labelled r target False (partial_result s (mem_Severity memory) summary), None)))"

definition or_stale :: "Policy \<Rightarrow> Policy" where
  "or_stale p = (if p = Policy_Other [] then PolicyStale else p)"

definition policy_severity :: "Policy \<Rightarrow> string" where
  "policy_severity p = (if p = PolicyFail then SeverityFailure else SeverityWarning)"

definition evaluateMissing ::
    "string \<Rightarrow> 'd rule_methods \<Rightarrow> Rule \<Rightarrow> string \<Rightarrow> EvaluationMemory \<Rightarrow> instant \<Rightarrow>
     (Result \<times> Transition option, 'd) op" where
  "evaluateMissing nodeID store r target previous now =
     (let policy = or_stale (ru_MissingData r) in
      if policy = PolicyWarn \<or> policy = PolicyFail then
        commit_step nodeID store now r target False
          (transitionState r target previous (policy_severity policy) ''missing data policy matched'' now now)
      else
        note_step store r target previous
          (if policy = PolicyIgnore
           then (if mem_State previous = State_Other [] then StateOK else mem_State previous)
           else StateStale) ''missing data'' now)"

definition started_memory :: "EvaluationMemory \<Rightarrow> EvaluationMemory" where
  "started_memory m =
     (if mem_State m = State_Other [] then m\<lparr>mem_State := StateOK, mem_Severity := SeverityNone\<rparr> else m)"

definition evaluatePolicyStatus ::
    "string \<Rightarrow> 'd rule_methods \<Rightarrow> Rule \<Rightarrow> string \<Rightarrow> EvaluationMemory \<Rightarrow> ruleObservationStatus \<Rightarrow> instant \<Rightarrow>
     (Result \<times> Transition option, 'd) op" where
  "evaluatePolicyStatus nodeID store r target previous status now =
     (if st_class status = ErrorUnsupported \<or> st_class status = ErrorCounterReset then
        note_step store r target (started_memory previous)
          (if st_class status = ErrorCounterReset then StateStale else StateUnknown) (st_summary status) now
      else
        (let policy = or_stale (ru_StaleData r) in
         if policy = PolicyWarn \<or> policy = PolicyFail then
           commit_step nodeID store now r target False
             (transitionState r target previous (policy_severity policy) (st_summary status) now now)
         else note_step store r target (started_memory previous) StateStale (st_summary status) now))"

definition evaluateRuleTarget ::
    "string \<Rightarrow> 'd rule_methods \<Rightarrow> Rule \<Rightarrow> string \<Rightarrow> Observation list \<Rightarrow> instant \<Rightarrow>
     (Result \<times> Transition option, 'd) op" where
  "evaluateRuleTarget nodeID store r target observations now =
     andThen (loadMemory store (ru_ID r) target) (\<lambda>previous.
       let status = observationStatus r observations in
       if st_class status \<noteq> [] then evaluatePolicyStatus nodeID store r target previous status now
       else
         (let desired = desiredSeverityForTarget r observations target in
          if \<not> ds_Matched desired then evaluateMissing nodeID store r target previous now
          else commit_step nodeID store now r target True
                 (transitionState r target previous (ds_Severity desired) (ds_Reason desired)
                    (ds_Observed desired) now)))"

subsection \<open>Evaluating all rules\<close>

text \<open>
  A store may offer a transaction with methods of its own; the evaluation of a target then runs in
  one. An error ends the evaluation, which is returned as far as it got.
\<close>

record 'd RuleStore =
  Methods :: "'d rule_methods"
  Transactional ::
    "('d rule_methods \<times> ((Result \<times> Transition option, 'd) op \<Rightarrow> (Result \<times> Transition option, 'd) op)) option"

definition evaluateMaybeTransactional ::
    "string \<Rightarrow> 'd RuleStore \<Rightarrow> Rule \<Rightarrow> string \<Rightarrow> Observation list \<Rightarrow> instant \<Rightarrow>
     (Result \<times> Transition option, 'd) op" where
  "evaluateMaybeTransactional nodeID store r target observations now =
     (case Transactional store of
        None \<Rightarrow> evaluateRuleTarget nodeID (Methods store) r target observations now
      | Some (tx, run) \<Rightarrow> run (evaluateRuleTarget nodeID tx r target observations now))"

type_synonym 'd evaluation_run = "'d world \<Rightarrow> (Evaluation \<times> go_error option) \<times> 'd world"

definition add_result :: "Result \<Rightarrow> Transition option \<Rightarrow> Evaluation \<Rightarrow> Evaluation" where
  "add_result result got e =
     (let e1 = e\<lparr>eva_Results := eva_Results e @ [result]\<rparr> in
      case got of
        None \<Rightarrow> e1
      | Some t \<Rightarrow> if tr_Action t \<noteq> ActionNone then e1\<lparr>eva_Transitions := eva_Transitions e1 @ [t]\<rparr> else e1)"

fun evaluate_targets ::
    "string \<Rightarrow> 'd RuleStore \<Rightarrow> Rule \<Rightarrow> Observation list \<Rightarrow> instant \<Rightarrow> string list \<Rightarrow> Evaluation \<Rightarrow>
     'd evaluation_run" where
  "evaluate_targets nodeID store r obs now [] e w = ((e, None), w)"
| "evaluate_targets nodeID store r obs now (t # ts) e w =
     (case evaluateMaybeTransactional nodeID store r t obs now w of
        (Inl err, w1) \<Rightarrow> ((e, Some err), w1)
      | (Inr (result, got), w1) \<Rightarrow>
          evaluate_targets nodeID store r obs now ts (add_result result got e) w1)"

fun evaluate_rules ::
    "string \<Rightarrow> 'd RuleStore \<Rightarrow> Rule list \<Rightarrow> Observation list \<Rightarrow> instant \<Rightarrow> Evaluation \<Rightarrow> 'd evaluation_run" where
  "evaluate_rules nodeID store [] obs now e w = ((e, None), w)"
| "evaluate_rules nodeID store (r # rs) obs now e w =
     (case ctx_err w of
        (Inl err, w1) \<Rightarrow> ((e, Some err), w1)
      | (Inr u, w1) \<Rightarrow>
          if \<not> ru_Enabled r then evaluate_rules nodeID store rs obs now e w1
          else
            (case evaluate_targets nodeID store r obs now (matchingTargets r obs) e w1 of
               ((e1, Some err), w2) \<Rightarrow> ((e1, Some err), w2)
             | ((e1, None), w2) \<Rightarrow> evaluate_rules nodeID store rs obs now e1 w2))"

definition no_evaluation :: Evaluation where
  "no_evaluation = \<lparr>eva_Results = [], eva_Transitions = []\<rparr>"

definition Evaluate ::
    "string \<Rightarrow> Rule list \<Rightarrow> instant option \<Rightarrow> ctx \<Rightarrow> 'd RuleStore option \<Rightarrow> Observation list \<Rightarrow>
     'd evaluation_run" where
  "Evaluate nodeID rules clock ctx st obs w =
     (if ctx = Nil_Context then ((no_evaluation, Some (Text_Error ''context is nil'')), w)
      else
        (case ctx_err w of
           (Inl err, w1) \<Rightarrow> ((no_evaluation, Some err), w1)
         | (Inr u, w1) \<Rightarrow>
             (case st of
                None \<Rightarrow> ((no_evaluation, Some (Text_Error ''rule store is nil'')), w1)
              | Some store \<Rightarrow>
                  evaluate_rules nodeID store rules obs
                    (case clock of Some t \<Rightarrow> t | None \<Rightarrow> wall w1) no_evaluation w1)))"

end
