(* ===== verification/Rule_Machine.thy ===== *)
theory Rule_Machine
  imports Rule_Engine
begin

text \<open>
  The state machine of \<open>transitionState\<close> over time: its well-formedness invariant, what lets
  it raise and resolve an incident, and how long a condition has held when it does.
\<close>

subsection \<open>One step\<close>

definition alert_levels :: "string set" where
  "alert_levels = {SeverityWarning, SeverityFailure, SeverityCritical}"

lemma alert_levels_rank: "s \<in> alert_levels \<Longrightarrow> 0 < severityRank s \<and> s \<noteq> SeverityNone \<and> s \<noteq> []"
  by (auto simp: alert_levels_def)

lemma severity_levels_split: "s \<in> severity_levels \<longleftrightarrow> s = SeverityNone \<or> s \<in> alert_levels"
  by (auto simp: severity_levels_def alert_levels_def)

lemma rank_inj: "s \<in> severity_levels \<Longrightarrow> t \<in> severity_levels \<Longrightarrow> severityRank s = severityRank t \<Longrightarrow> s = t"
  by (auto simp: severity_levels_def)

lemma stateForSeverity_simps [simp]:
  "stateForSeverity SeverityCritical = StateCritical" "stateForSeverity SeverityFailure = StateFail"
  "stateForSeverity SeverityWarning = StateWarn" "stateForSeverity SeverityNone = StateOK"
  by (simp_all add: stateForSeverity_def)

lemma pendingStateForSeverity_simps [simp]:
  "pendingStateForSeverity SeverityCritical = StatePendingFail"
  "pendingStateForSeverity SeverityFailure = StatePendingFail"
  "pendingStateForSeverity SeverityWarning = StatePendingWarn"
  by (simp_all add: pendingStateForSeverity_def)

definition pending :: "State \<Rightarrow> bool" where
  "pending s \<longleftrightarrow> s = StatePendingWarn \<or> s = StatePendingFail"

lemma isActive_simps [simp]:
  "isActive StateWarn" "isActive StateFail" "isActive StateCritical" "isActive StateRecovering"
  "\<not> isActive StateOK" "\<not> isActive StatePendingWarn" "\<not> isActive StatePendingFail"
  "\<not> isActive StateRecovered" "\<not> isActive StateStale" "\<not> isActive StateUnknown" "\<not> isActive (State_Other t)"
  by (simp_all add: isActive_def)

text \<open>What the memory looks like in each state.\<close>

fun fits :: "State \<Rightarrow> string \<Rightarrow> instant option \<Rightarrow> instant option \<Rightarrow> string \<Rightarrow> bool" where
  "fits StateOK sev met rec pend = (sev = SeverityNone \<and> met = None \<and> rec = None)"
| "fits StatePendingWarn sev met rec pend =
     (sev \<in> severity_levels \<and> pend = SeverityWarning \<and> met \<noteq> None \<and> rec = None)"
| "fits StatePendingFail sev met rec pend =
     (sev \<in> severity_levels \<and> pend \<in> {SeverityFailure, SeverityCritical} \<and> met \<noteq> None \<and> rec = None)"
| "fits StateWarn sev met rec pend = (sev = SeverityWarning \<and> rec = None)"
| "fits StateFail sev met rec pend = (sev = SeverityFailure \<and> rec = None)"
| "fits StateCritical sev met rec pend = (sev = SeverityCritical \<and> rec = None)"
| "fits StateRecovering sev met rec pend = (sev \<in> alert_levels \<and> rec \<noteq> None)"
| "fits StateRecovered sev met rec pend = (sev = SeverityNone \<and> met = None \<and> rec \<noteq> None)"
| "fits StateStale sev met rec pend = False"
| "fits StateUnknown sev met rec pend = False"
| "fits (State_Other t) sev met rec pend = False"

definition memory_wf :: "EvaluationMemory \<Rightarrow> bool" where
  "memory_wf m \<longleftrightarrow>
     fits (mem_State m) (mem_Severity m) (mem_ConditionMetSince m) (mem_RecoverySince m) (mem_PendingSeverity m)"

lemma fits_severity: "fits s sev met rec pend \<Longrightarrow> sev \<in> severity_levels"
  by (cases s) (auto simp: severity_levels_def alert_levels_def)

lemma fits_alert: "d \<in> alert_levels \<Longrightarrow> fits (stateForSeverity d) d met None pend"
  by (auto simp: alert_levels_def)

lemma fits_pending:
  "d \<in> alert_levels \<Longrightarrow> sev \<in> severity_levels \<Longrightarrow> fits (pendingStateForSeverity d) sev (Some since) None d"
  by (auto simp: alert_levels_def)

lemma fits_recovering:
  "fits s sev met rec pend \<Longrightarrow> isActive s \<Longrightarrow> fits StateRecovering sev met (Some since) pend"
  by (cases s) (auto simp: alert_levels_def)

lemma memory_wf_initial: "memory_wf initial_memory"
  by (simp add: memory_wf_def initial_memory_def severity_levels_def)

lemma evaluated_memory_fields [simp]:
  assumes "mem_State m \<noteq> State_Other []"
  shows "mem_State (evaluated_memory r target m desired reason obs now) = mem_State m"
    "mem_Severity (evaluated_memory r target m desired reason obs now) = mem_Severity m"
  using assms by (simp_all add: evaluated_memory_def Let_def)

lemma evaluated_memory_kept [simp]:
  "mem_ConditionMetSince (evaluated_memory r target m desired reason obs now) = mem_ConditionMetSince m"
  "mem_RecoverySince (evaluated_memory r target m desired reason obs now) = mem_RecoverySince m"
  "mem_PendingSeverity (evaluated_memory r target m desired reason obs now) = mem_PendingSeverity m"
  "mem_LastEvaluatedAt (evaluated_memory r target m desired reason obs now) = now"
  by (simp_all add: evaluated_memory_def Let_def)

lemma memory_wf_started: "memory_wf m \<Longrightarrow> mem_State m \<noteq> State_Other []"
  by (cases "mem_State m") (auto simp: memory_wf_def)

lemma memory_wf_evaluated:
  "memory_wf m \<Longrightarrow> memory_wf (evaluated_memory r target m desired reason obs now)"
  using memory_wf_started [of m] by (simp add: memory_wf_def)

lemma recover_step_wf:
  assumes "memory_wf m" "recover_step r target m now = (m1, c, res)"
  shows "memory_wf m1"
  using assms fits_recovering [OF assms(1) [unfolded memory_wf_def]]
  by (auto simp: recover_step_def memory_wf_def Let_def split: if_splits option.splits)

lemma alert_step_wf:
  assumes "memory_wf m" "desired \<in> alert_levels" "alert_step r target m desired now = (m1, c, res)"
  shows "memory_wf m1"
  using assms fits_alert [OF assms(2)] fits_pending [OF assms(2) fits_severity [OF assms(1) [unfolded memory_wf_def]]]
  by (auto simp: alert_step_def memory_wf_def Let_def split: if_splits)

lemma transitionState_wf:
  assumes "memory_wf m" "desired \<in> severity_levels"
    "transitionState r target m desired reason obs now = (m1, c, res)"
  shows "memory_wf m1"
proof (cases "desired = SeverityNone")
  case True
  with assms(3) show ?thesis
    using recover_step_wf [OF memory_wf_evaluated [OF assms(1)]] by (simp add: transitionState_def)
next
  case False
  with assms(2,3) show ?thesis
    using alert_step_wf [OF memory_wf_evaluated [OF assms(1)]]
    by (simp add: transitionState_def severity_levels_split)
qed

text \<open>What a step raises: an alert at the desired severity, or a resolution, or nothing.\<close>

lemma alert_step_candidate:
  assumes "alert_step r target m desired now = (m1, c, res)"
  shows "(case c of
      None \<Rightarrow> mem_State m1 = pendingStateForSeverity desired \<and> mem_Severity m1 = mem_Severity m \<and>
              mem_PendingSeverity m1 = desired \<and>
              (mem_ConditionMetSince m1 = Some now \<or>
               mem_ConditionMetSince m1 = mem_ConditionMetSince m \<and> mem_PendingSeverity m = desired \<and>
               mem_ConditionMetSince m \<noteq> None)
    | Some x \<Rightarrow> x = incidentCandidate r target desired True (mem_LastResultSummary m) now \<and>
              mem_State m1 = stateForSeverity desired \<and> mem_Severity m1 = desired \<and>
              mem_ConditionMetSince m1 = mem_ConditionMetSince m \<and> mem_PendingSeverity m1 = mem_PendingSeverity m \<and>
              (isActive (mem_State m) \<and> severityRank desired \<le> severityRank (mem_Severity m) \<or>
               (\<exists>since. mem_PendingSeverity m = desired \<and> mem_ConditionMetSince m = Some since \<and>
                        durationFor r desired \<le> time_sub now since))) \<and>
    mem_RecoverySince m1 = None \<and> res = memory_result m1"
  using assms by (auto simp: alert_step_def isActiveSeverity_def Let_def split: if_splits)

lemma recover_step_candidate:
  assumes "recover_step r target m now = (m1, c, res)"
  shows "(case c of
      None \<Rightarrow> (if isActive (mem_State m)
               then mem_State m1 = StateRecovering \<and> mem_Severity m1 = mem_Severity m \<and>
                    mem_ConditionMetSince m1 = mem_ConditionMetSince m \<and>
                    mem_PendingSeverity m1 = mem_PendingSeverity m \<and>
                    mem_RecoverySince m1 = (if mem_RecoverySince m = None then Some now else mem_RecoverySince m)
               else mem_State m1 = StateOK \<and> mem_Severity m1 = SeverityNone \<and>
                    mem_ConditionMetSince m1 = None \<and> mem_RecoverySince m1 = None)
    | Some x \<Rightarrow> x = incidentCandidate r target SeverityNone False (mem_LastResultSummary m) now \<and>
              isActive (mem_State m) \<and> mem_State m1 = StateRecovered \<and>
              (\<exists>since. mem_RecoverySince m = Some since \<and> ru_RecoverFor r \<le> time_sub now since)) \<and>
    res = memory_result m1"
  using assms by (auto simp: recover_step_def Let_def split: if_splits option.splits)

subsection \<open>Histories\<close>

text \<open>
  An evaluation either judges the condition (desired severity, reason, time of the observation,
  time of the evaluation) or only notes that it ran, which is what the missing and stale policies do.
\<close>

datatype event = Judged string string instant instant | Noted string instant

fun event_time :: "event \<Rightarrow> instant" where
  "event_time (Judged d reason obs now) = now"
| "event_time (Noted summary now) = now"

fun event_desired :: "event \<Rightarrow> string option" where
  "event_desired (Judged d reason obs now) = Some d"
| "event_desired (Noted summary now) = None"

fun event_step :: "Rule \<Rightarrow> string \<Rightarrow> EvaluationMemory \<Rightarrow> event \<Rightarrow> EvaluationMemory \<times> Candidate option" where
  "event_step r target m (Judged d reason obs now) =
     (case transitionState r target m d reason obs now of (m1, c, res) \<Rightarrow> (m1, c))"
| "event_step r target m (Noted summary now) =
     ((started_memory m)\<lparr>mem_LastEvaluatedAt := now, mem_LastResultSummary := summary\<rparr>, None)"

definition memory_after :: "Rule \<Rightarrow> string \<Rightarrow> event list \<Rightarrow> EvaluationMemory" where
  "memory_after r target h = fold (\<lambda>ev m. fst (event_step r target m ev)) h initial_memory"

fun raised_from :: "Rule \<Rightarrow> string \<Rightarrow> EvaluationMemory \<Rightarrow> event list \<Rightarrow> Candidate list" where
  "raised_from r target m [] = []"
| "raised_from r target m (ev # evs) =
     (case event_step r target m ev of (m1, c) \<Rightarrow>
        (case c of None \<Rightarrow> raised_from r target m1 evs | Some x \<Rightarrow> x # raised_from r target m1 evs))"

definition plausible :: "event list \<Rightarrow> bool" where
  "plausible h \<longleftrightarrow>
     list_all (\<lambda>ev. case event_desired ev of None \<Rightarrow> True | Some d \<Rightarrow> d \<in> severity_levels) h \<and>
     sorted (map event_time h)"

text \<open>The history judged the condition at \<open>d\<close> at time \<open>since\<close> and at nothing else afterwards.\<close>

definition sustained :: "string \<Rightarrow> instant \<Rightarrow> event list \<Rightarrow> bool" where
  "sustained d since h \<longleftrightarrow>
     (\<exists>before ev suf. h = before @ ev # suf \<and> event_desired ev = Some d \<and> event_time ev = since \<and>
        (\<forall>x \<in> set suf. event_desired x = None \<or> event_desired x = Some d))"

lemma sustained_start: "event_desired ev = Some d \<Longrightarrow> sustained d (event_time ev) (h @ [ev])"
  unfolding sustained_def by fastforce

lemma sustained_Nil [simp]: "\<not> sustained d since []"
  by (simp add: sustained_def)

lemma sustained_more:
  assumes "sustained d since h" "event_desired ev = None \<or> event_desired ev = Some d"
  shows "sustained d since (h @ [ev])"
proof -
  from assms(1) obtain a e b where "h = a @ e # b" "event_desired e = Some d" "event_time e = since"
    "\<forall>x \<in> set b. event_desired x = None \<or> event_desired x = Some d" by (auto simp: sustained_def)
  with assms(2) show ?thesis
    unfolding sustained_def by (intro exI [of _ a] exI [of _ e] exI [of _ "b @ [ev]"]) auto
qed

lemma memory_after_snoc:
  "memory_after r target (h @ [ev]) = fst (event_step r target (memory_after r target h) ev)"
  by (simp add: memory_after_def)

lemma plausible_snoc:
  "plausible (h @ [ev]) \<Longrightarrow> plausible h \<and> (\<forall>x \<in> set h. event_time x \<le> event_time ev) \<and>
     (\<forall>d. event_desired ev = Some d \<longrightarrow> d \<in> severity_levels)"
  by (auto simp: plausible_def sorted_append)

text \<open>
  What the timers of the memory mean: a pending state has been judged at the pending severity
  since the timer started, a recovering state at none; an active state has served the duration of
  the severity its timer is about.
\<close>

definition timers_ok :: "Rule \<Rightarrow> EvaluationMemory \<Rightarrow> event list \<Rightarrow> bool" where
  "timers_ok r m h \<longleftrightarrow>
     memory_wf m \<and> (\<forall>x \<in> set h. event_time x \<le> mem_LastEvaluatedAt m) \<and>
     (h \<noteq> [] \<longrightarrow> mem_LastEvaluatedAt m = event_time (last h)) \<and>
     (pending (mem_State m) \<longrightarrow>
        (\<exists>since. mem_ConditionMetSince m = Some since \<and> sustained (mem_PendingSeverity m) since h)) \<and>
     (mem_State m = StateRecovering \<longrightarrow>
        (\<exists>since. mem_RecoverySince m = Some since \<and> sustained SeverityNone since h)) \<and>
     (isActive (mem_State m) \<longrightarrow> h \<noteq> [] \<and>
        (\<exists>since. mem_ConditionMetSince m = Some since \<and>
                 durationFor r (mem_PendingSeverity m) \<le> time_sub (mem_LastEvaluatedAt m) since))"

lemma states_of_alert [simp]:
  "d \<in> alert_levels \<Longrightarrow> isActive (stateForSeverity d) \<and> stateForSeverity d \<noteq> StateRecovering \<and>
     \<not> pending (stateForSeverity d) \<and> pending (pendingStateForSeverity d) \<and> \<not> isActive (pendingStateForSeverity d) \<and>
     pendingStateForSeverity d \<noteq> StateRecovering"
  by (auto simp: alert_levels_def pending_def)

lemma alert_event_timers:
  assumes ok: "timers_ok r m h" and d: "d \<in> alert_levels" and later: "\<forall>x \<in> set h. event_time x \<le> now"
    and step: "transitionState r target m d reason obs now = (m1, c, res)"
  shows "timers_ok r m1 (h @ [Judged d reason obs now])"
proof -
  let ?m = "evaluated_memory r target m d reason obs now"
  have wf: "memory_wf m" and started: "mem_State m \<noteq> State_Other []"
    using ok memory_wf_started by (auto simp: timers_ok_def)
  have level: "d \<in> severity_levels" "d \<noteq> SeverityNone"
    using d by (auto simp: severity_levels_split alert_levels_def)
  have alert: "alert_step r target ?m d now = (m1, c, res)"
    using step level by (simp add: transitionState_def)
  have wf1: "memory_wf m1" using transitionState_wf [OF wf level(1) step] .
  have last1: "mem_LastEvaluatedAt m1 = now"
    using alert by (auto simp: alert_step_def Let_def split: if_splits)
  note step_facts = alert_step_candidate [OF alert]
  have served: "\<exists>since. mem_ConditionMetSince m = Some since \<and> durationFor r (mem_PendingSeverity m) \<le> time_sub now since"
    if "isActive (mem_State m)"
  proof -
    from ok that obtain since where s: "mem_ConditionMetSince m = Some since"
      "durationFor r (mem_PendingSeverity m) \<le> time_sub (mem_LastEvaluatedAt m) since" "h \<noteq> []"
      by (auto simp: timers_ok_def)
    moreover have "mem_LastEvaluatedAt m \<le> now"
      using ok later s(3) by (auto simp: timers_ok_def)
    ultimately show ?thesis using time_sub_mono [of "mem_LastEvaluatedAt m" now since] by force
  qed
  show ?thesis
  proof (cases c)
    case (Some x)
    with step_facts served started have "\<exists>since. mem_ConditionMetSince m1 = Some since \<and>
        durationFor r (mem_PendingSeverity m1) \<le> time_sub now since"
      by auto
    with Some step_facts d wf1 last1 later show ?thesis by (auto simp: timers_ok_def)
  next
    case None
    have "\<exists>since. mem_ConditionMetSince m1 = Some since \<and> sustained d since (h @ [Judged d reason obs now])"
    proof (cases "mem_ConditionMetSince m1 = Some now")
      case True
      then show ?thesis using sustained_start [of "Judged d reason obs now" d h] by auto
    next
      case False
      with None step_facts obtain since where kept: "mem_ConditionMetSince m1 = Some since"
        "mem_ConditionMetSince m = Some since" "mem_PendingSeverity m = d" by auto
      have "\<not> isActive (mem_State m)"
      proof
        assume active: "isActive (mem_State m)"
        with served kept have "durationFor r d \<le> time_sub now since" by auto
        with kept alert None started show False by (auto simp: alert_step_def Let_def split: if_splits)
      qed
      then have "pending (mem_State m)"
        using wf kept(2) by (cases "mem_State m") (auto simp: memory_wf_def pending_def)
      with ok kept have "sustained d since h" by (auto simp: timers_ok_def)
      with kept show ?thesis using sustained_more [of d since h] by auto
    qed
    with None step_facts d wf1 last1 later show ?thesis by (auto simp: timers_ok_def)
  qed
qed

lemma recover_event_timers:
  assumes ok: "timers_ok r m h" and later: "\<forall>x \<in> set h. event_time x \<le> now"
    and step: "transitionState r target m SeverityNone reason obs now = (m1, c, res)"
  shows "timers_ok r m1 (h @ [Judged SeverityNone reason obs now])"
proof -
  let ?m = "evaluated_memory r target m SeverityNone reason obs now"
  have wf: "memory_wf m" and started: "mem_State m \<noteq> State_Other []"
    using ok memory_wf_started by (auto simp: timers_ok_def)
  have recover: "recover_step r target ?m now = (m1, c, res)"
    using step by (simp add: transitionState_def)
  have wf1: "memory_wf m1"
    using transitionState_wf [OF wf _ step] by (simp add: severity_levels_def)
  have last1: "mem_LastEvaluatedAt m1 = now"
    using recover by (auto simp: recover_step_def Let_def split: if_splits option.splits)
  note step_facts = recover_step_candidate [OF recover]
  show ?thesis
  proof (cases "c = None \<and> isActive (mem_State m)")
    case False
    with step_facts started have "mem_State m1 = StateRecovered \<or> mem_State m1 = StateOK"
      by (auto split: option.splits)
    with wf1 last1 later show ?thesis by (auto simp: timers_ok_def pending_def)
  next
    case True
    with step_facts started have m1: "mem_State m1 = StateRecovering"
      "mem_ConditionMetSince m1 = mem_ConditionMetSince m" "mem_PendingSeverity m1 = mem_PendingSeverity m"
      "mem_RecoverySince m1 = (if mem_RecoverySince m = None then Some now else mem_RecoverySince m)"
      by auto
    have "\<exists>since. mem_RecoverySince m1 = Some since \<and>
        sustained SeverityNone since (h @ [Judged SeverityNone reason obs now])"
    proof (cases "mem_RecoverySince m")
      case None
      then show ?thesis
        using m1 sustained_start [of "Judged SeverityNone reason obs now" SeverityNone h] by auto
    next
      case (Some since)
      with wf True have "mem_State m = StateRecovering"
        by (cases "mem_State m") (auto simp: memory_wf_def)
      with ok Some m1 sustained_more [of SeverityNone since h] show ?thesis by (auto simp: timers_ok_def)
    qed
    moreover obtain since where "mem_ConditionMetSince m = Some since"
      "durationFor r (mem_PendingSeverity m) \<le> time_sub (mem_LastEvaluatedAt m) since" "h \<noteq> []"
      using ok True by (auto simp: timers_ok_def)
    moreover have "mem_LastEvaluatedAt m \<le> now"
      using ok later \<open>h \<noteq> []\<close> by (auto simp: timers_ok_def)
    ultimately show ?thesis
      using m1 wf1 last1 later time_sub_mono [of "mem_LastEvaluatedAt m" now since]
      by (auto simp: timers_ok_def pending_def)
  qed
qed

lemma noted_event_timers:
  assumes ok: "timers_ok r m h" and later: "\<forall>x \<in> set h. event_time x \<le> now"
  shows "timers_ok r (fst (event_step r target m (Noted summary now))) (h @ [Noted summary now])"
proof -
  have started: "started_memory m = m"
    using ok memory_wf_started [of m] by (simp add: timers_ok_def started_memory_def)
  have "durationFor r (mem_PendingSeverity m) \<le> time_sub now since"
    if "isActive (mem_State m)" "durationFor r (mem_PendingSeverity m) \<le> time_sub (mem_LastEvaluatedAt m) since" for since
  proof -
    have "mem_LastEvaluatedAt m \<le> now" using ok later that by (auto simp: timers_ok_def)
    with that time_sub_mono [of "mem_LastEvaluatedAt m" now since] show ?thesis by simp
  qed
  with ok later show ?thesis
    by (auto simp: timers_ok_def started memory_wf_def sustained_more)
qed

lemma timers_ok_after: "plausible h \<Longrightarrow> timers_ok r (memory_after r target h) h"
proof (induction h rule: rev_induct)
  case Nil
  then show ?case by (simp add: timers_ok_def memory_after_def memory_wf_initial) (simp add: initial_memory_def pending_def)
next
  case (snoc ev h)
  note parts = plausible_snoc [OF snoc.prems]
  with snoc.IH have ok: "timers_ok r (memory_after r target h) h" by blast
  show ?case
  proof (cases ev)
    case (Noted summary now)
    with noted_event_timers [OF ok] parts show ?thesis by (simp add: memory_after_snoc)
  next
    case (Judged d reason obs now)
    obtain m1 c res where step: "transitionState r target (memory_after r target h) d reason obs now = (m1, c, res)"
      using prod_cases3 by blast
    have "d = SeverityNone \<or> d \<in> alert_levels" using parts Judged by (auto simp: severity_levels_split)
    with alert_event_timers [OF ok _ _ step] recover_event_timers [OF ok _ ] step parts Judged
    show ?thesis by (auto simp: memory_after_snoc)
  qed
qed

subsection \<open>What a raised candidate means\<close>

subsection \<open>Alerts and resolutions\<close>

definition raised :: "Rule \<Rightarrow> string \<Rightarrow> event list \<Rightarrow> Candidate list" where
  "raised r target h = raised_from r target initial_memory h"

lemma raised_from_append:
  "raised_from r target m (h @ [ev]) =
   raised_from r target m h @
     (case snd (event_step r target (fold (\<lambda>ev m. fst (event_step r target m ev)) h m) ev) of
        None \<Rightarrow> [] | Some c \<Rightarrow> [c])"
  by (induction h arbitrary: m) (auto split: prod.split option.split)

lemma raised_snoc:
  "raised r target (h @ [ev]) =
   raised r target h @ (case snd (event_step r target (memory_after r target h) ev) of None \<Rightarrow> [] | Some c \<Rightarrow> [c])"
  by (simp add: raised_def raised_from_append memory_after_def)

text \<open>Whether the last candidate raised left an incident open.\<close>

definition left_open :: "Candidate list \<Rightarrow> bool" where
  "left_open cs \<longleftrightarrow> cs \<noteq> [] \<and> cand_Active (last cs)"

lemma left_open_snoc [simp]: "left_open (cs @ [c]) = cand_Active c" "\<not> left_open []"
  by (simp_all add: left_open_def)

text \<open>The memory of a rule that only ever judges at one severity.\<close>

definition single_level :: "string \<Rightarrow> event list \<Rightarrow> bool" where
  "single_level s h \<longleftrightarrow> list_all (\<lambda>ev. event_desired ev \<in> {None, Some SeverityNone, Some s}) h"

lemma single_level_event:
  assumes wf: "memory_wf m" and sev: "mem_Severity m \<in> {SeverityNone, s}" and s: "s \<in> alert_levels"
    and ev: "event_desired ev \<in> {None, Some SeverityNone, Some s}"
    and step: "event_step r target m ev = (m1, c)"
  shows "memory_wf m1 \<and> mem_Severity m1 \<in> {SeverityNone, s} \<and>
    isActive (mem_State m1) = (case c of None \<Rightarrow> isActive (mem_State m) | Some x \<Rightarrow> cand_Active x)"
proof (cases ev)
  case (Noted summary now)
  with wf step memory_wf_started [OF wf] sev show ?thesis
    by (auto simp: started_memory_def memory_wf_def)
next
  case (Judged d reason obs now)
  with step obtain res where t: "transitionState r target m d reason obs now = (m1, c, res)"
    by (auto split: prod.splits)
  have started: "mem_State m \<noteq> State_Other []" using memory_wf_started [OF wf] .
  have "d \<in> severity_levels" using ev Judged s by (auto simp: severity_levels_split)
  with transitionState_wf [OF wf _ t] have wf1: "memory_wf m1" by blast
  show ?thesis
  proof (cases "d = SeverityNone")
    case True
    with t have "recover_step r target (evaluated_memory r target m d reason obs now) now = (m1, c, res)"
      by (simp add: transitionState_def)
    from recover_step_candidate [OF this] wf1 sev started show ?thesis
      by (auto simp: incidentCandidate_def memory_wf_def split: option.splits if_splits)
  next
    case False
    with ev Judged have d: "d = s" by auto
    have alert: "alert_step r target (evaluated_memory r target m d reason obs now) d now = (m1, c, res)"
      using False t by (simp add: transitionState_def)
    have "c \<noteq> None" if "isActive (mem_State m)"
    proof -
      have "mem_Severity m \<in> alert_levels"
        using wf that by (cases "mem_State m") (auto simp: memory_wf_def alert_levels_def)
      with sev have "mem_Severity m = s" by (auto simp: alert_levels_def)
      with alert that started d show ?thesis
        by (auto simp: alert_step_def isActiveSeverity_def Let_def split: if_splits)
    qed
    with alert_step_candidate [OF alert] wf1 sev started d s show ?thesis
      by (auto simp: incidentCandidate_def split: option.splits)
  qed
qed

end
