(* ===== verification/Rule_Engine_Laws.thy ===== *)
theory Rule_Engine_Laws
  imports Rule_Engine
begin

text \<open>
  The evaluation of rules over a store: what one target's evaluation saves and raises as a
  function of what the store held, what it leaves alone, and which results a whole evaluation
  returns.
\<close>

subsection \<open>The decision of one evaluation\<close>

text \<open>Whether the condition was observed, and the step the memory takes.\<close>

definition noted :: "EvaluationMemory \<Rightarrow> State \<Rightarrow> string \<Rightarrow> instant \<Rightarrow> EvaluationMemory \<times> Candidate option \<times> Result" where
  "noted m s summary now =
     (m\<lparr>mem_LastEvaluatedAt := now, mem_LastResultSummary := summary\<rparr>, None,
      partial_result s (mem_Severity m) summary)"

definition decide ::
    "Rule \<Rightarrow> string \<Rightarrow> Observation list \<Rightarrow> instant \<Rightarrow> EvaluationMemory \<Rightarrow>
     bool \<times> EvaluationMemory \<times> Candidate option \<times> Result" where
  "decide r target observations now previous =
     (let status = observationStatus r observations;
          desired = desiredSeverityForTarget r observations target;
          missing = or_stale (ru_MissingData r);
          stale = or_stale (ru_StaleData r)
      in if st_class status \<noteq> [] then
           (False,
            if st_class status = ErrorUnsupported \<or> st_class status = ErrorCounterReset
              then noted (started_memory previous)
                     (if st_class status = ErrorCounterReset then StateStale else StateUnknown)
                     (st_summary status) now
            else if stale = PolicyWarn \<or> stale = PolicyFail
              then transitionState r target previous (policy_severity stale) (st_summary status) now now
            else noted (started_memory previous) StateStale (st_summary status) now)
         else if \<not> ds_Matched desired then
           (False,
            if missing = PolicyWarn \<or> missing = PolicyFail
              then transitionState r target previous (policy_severity missing) ''missing data policy matched'' now now
            else noted previous
                   (if missing = PolicyIgnore
                    then (if mem_State previous = State_Other [] then StateOK else mem_State previous)
                    else StateStale) ''missing data'' now)
         else
           (True, transitionState r target previous (ds_Severity desired) (ds_Reason desired)
                    (ds_Observed desired) now))"

lemma note_step_commits:
  "note_step store r target m s summary now = commit_step nodeID store now r target False (noted m s summary now)"
  by (simp add: note_step_def commit_step_def noted_def Let_def)

lemma evaluateRuleTarget_decides:
  "evaluateRuleTarget nodeID store r target observations now =
   andThen (loadMemory store (ru_ID r) target) (\<lambda>previous.
     case decide r target observations now previous of (matched, stepped) \<Rightarrow>
       commit_step nodeID store now r target matched stepped)"
proof -
  have "(let status = observationStatus r observations in
       if st_class status \<noteq> [] then evaluatePolicyStatus nodeID store r target previous status now
       else
         (let desired = desiredSeverityForTarget r observations target in
          if \<not> ds_Matched desired then evaluateMissing nodeID store r target previous now
          else commit_step nodeID store now r target True
                 (transitionState r target previous (ds_Severity desired) (ds_Reason desired)
                    (ds_Observed desired) now))) =
      (case decide r target observations now previous of (matched, stepped) \<Rightarrow>
         commit_step nodeID store now r target matched stepped)" for previous
    by (simp add: decide_def evaluatePolicyStatus_def evaluateMissing_def note_step_commits [of _ _ _ _ _ _ _ nodeID] Let_def)
  then show ?thesis unfolding evaluateRuleTarget_def by (simp only:)
qed

definition memory_in :: "RuleEvaluationStateRecord option \<Rightarrow> EvaluationMemory" where
  "memory_in held = (case held of None \<Rightarrow> initial_memory | Some r \<Rightarrow> memory_of_record r)"

context rule_store
begin

lemma loadMemory_law:
  assumes "loadMemory \<lparr>GetRule = get_rule, PutRule = put_rule, Incidents = inc\<rparr> i t w = (x, w1)"
  shows "data w1 = data w \<and> wall w1 = wall w \<and> (\<forall>m. x = Inr m \<longrightarrow> m = memory_in (rule_view (data w) i t))"
  using assms
  by (auto simp: loadMemory_def memory_in_def split: prod.splits sum.splits if_splits
      dest: get_rule_pure get_rule_found get_rule_missing)

lemma saveMemory_Inr:
  assumes "saveMemory \<lparr>GetRule = get_rule, PutRule = put_rule, Incidents = inc\<rparr> i t m w = (Inr u, w1)"
  shows "rule_view (data w1) (Redact i) (Redact t) = Some (stored_rule (wall w) (record_of_memory i t m)) \<and>
    (\<forall>j s. (j, s) \<noteq> (Redact i, Redact t) \<longrightarrow> rule_view (data w1) j s = rule_view (data w) j s) \<and>
    view (data w1) = view (data w) \<and> clash (data w1) = clash (data w) \<and> wall w1 = wall w"
proof -
  from assms obtain w0 where w0: "data w0 = data w" "wall w0 = wall w"
      "put_rule (record_of_memory i t m) w0 = (Inr u, w1)"
    by (auto simp: saveMemory_def andThen_Inr_iff dest: ctx_err_Inr)
  have keys: "rs_RuleID (record_of_memory i t m) = i" "rs_Target (record_of_memory i t m) = t"
    by (simp_all add: record_of_memory_def)
  show ?thesis
    using put_rule_same [OF w0(3)] put_rule_other [OF w0(3)] put_rule_incidents [OF w0(3)] w0(1,2) keys by auto
qed

lemma failure_atomic_saveMemory:
  "failure_atomic (saveMemory \<lparr>GetRule = get_rule, PutRule = put_rule, Incidents = inc\<rparr> i t m)"
  unfolding saveMemory_def
  by (intro failure_atomic_intros) (auto simp: failure_atomic_def dest: put_rule_failed)

lemma Apply_keeps_rules:
  assumes "Apply clock ctx (Some \<lparr>GetByFingerprint = get, Upsert = upsert\<rparr>) c w = (Inr t, w3)"
  shows "rule_view (data w3) = rule_view (data w)"
proof (rule Apply_reaches [OF assms])
  let ?st = "\<lparr>GetByFingerprint = get, Upsert = upsert\<rparr>"
  fix fp ident w1 existing w2
  assume reached: "ctx = Live_Context" "ctx_err w = (Inr (), w1)"
    "Fingerprint (cand_NodeID c) (cand_Type c) (cand_Target c) (cand_Condition c) = Inr fp"
    "IncidentIDForFingerprint fp = Inr ident" "find_existing ?st fp w1 = (Inr existing, w2)" "acceptable c"
  have same: "data w2 = data w" and key: "existing = Some r \<Longrightarrow> inc_Fingerprint r = fp" for r
    using ctx_err_Inr [OF reached(2)] find_existing_law [OF reached(5)] view_key by auto
  have "incident_write ?st ident fp c (candidate_time clock c (wall w1)) existing w2 = (Inr t, w3)"
    using Apply_unfold [OF reached(3,4,2) _ reached(5,6)] assms reached(1,5) key by auto
  then have "data w3 = data w2 \<or> (\<exists>r u. upsert r w2 = (Inr u, w3))"
    by (auto simp: incident_write_def write_incident_def andThen_Inr_iff ok_def split: prod.splits option.splits)
  with same show ?thesis by (metis upsert_rules)
qed

text \<open>
  A successful evaluation stores the memory of the decision under the rule and target, and the
  incident of its candidate, if it raises one, takes its step; nothing else changes.
\<close>

lemma evaluateRuleTarget_refines:
  assumes "evaluateRuleTarget nodeID
      \<lparr>GetRule = get_rule, PutRule = put_rule, Incidents = \<lparr>GetByFingerprint = get, Upsert = upsert\<rparr>\<rparr>
      r target observations now w = (Inr (res, got), w3)"
    "decide r target observations now (memory_in (rule_view (data w) (ru_ID r) target)) = (matched, m, c, res0)"
  shows "rule_view (data w3) (Redact (ru_ID r)) (Redact target) =
      Some (stored_rule (wall w) (record_of_memory (ru_ID r) target m))"
    "(j, s) \<noteq> (Redact (ru_ID r), Redact target) \<Longrightarrow> rule_view (data w3) j s = rule_view (data w) j s"
    "c = None \<Longrightarrow> got = None \<and> view (data w3) = view (data w)"
    "c = Some x \<Longrightarrow> \<exists>t fp ident a existing'. got = Some t \<and>
       Fingerprint nodeID (cand_Type x) (cand_Target x) (cand_Condition x) = Inr fp \<and>
       IncidentIDForFingerprint fp = Inr ident \<and>
       incident_step ident fp (x\<lparr>cand_NodeID := nodeID\<rparr>) (candidate_time (Some now) x (wall w)) (view (data w) fp) =
         (a, existing') \<and> tr_Action t = a \<and> tr_Fingerprint t = fp \<and>
       (case existing' of None \<Rightarrow> view (data w3) = view (data w)
        | Some i \<Rightarrow> view (data w3) fp = Some (stored_incident (wall w) i) \<and>
            (\<not> clash (data w) i \<longrightarrow> (\<forall>g. g \<noteq> fp \<longrightarrow> view (data w3) g = view (data w) g)))"
proof -
  let ?inc = "\<lparr>GetByFingerprint = get, Upsert = upsert\<rparr>"
  let ?st = "\<lparr>GetRule = get_rule, PutRule = put_rule, Incidents = ?inc\<rparr>"
  from assms(1) obtain previous w1 where load: "loadMemory ?st (ru_ID r) target w = (Inr previous, w1)"
    and commit: "(case decide r target observations now previous of (matched, stepped) \<Rightarrow>
        commit_step nodeID ?st now r target matched stepped) w1 = (Inr (res, got), w3)"
    unfolding evaluateRuleTarget_decides by (auto simp: andThen_Inr_iff)
  have same: "data w1 = data w" "wall w1 = wall w" "previous = memory_in (rule_view (data w) (ru_ID r) target)"
    using loadMemory_law [OF load] by auto
  with commit assms(2) have commit1: "commit_step nodeID ?st now r target matched (m, c, res0) w1 = (Inr (res, got), w3)"
    by simp
  then obtain u w2 where save: "saveMemory ?st (ru_ID r) target m w1 = (Inr u, w2)"
    and rest: "(case c of None \<Rightarrow> ok (labelled r target matched res0, None)
       | Some x \<Rightarrow> andThen (Apply (Some now) Live_Context (Some ?inc) (x\<lparr>cand_NodeID := nodeID\<rparr>)) (\<lambda>got.
           ok (labelled r target matched res0\<lparr>res_IncidentTransition := Some got\<rparr>, Some got))) w2 =
       (Inr (res, got), w3)"
    by (auto simp: commit_step_def andThen_Inr_iff cong: option.case_cong)
  note saved = saveMemory_Inr [OF save]
  show "c = None \<Longrightarrow> got = None \<and> view (data w3) = view (data w)"
    using rest saved same by (auto simp: ok_def)
  have rules3: "rule_view (data w3) = rule_view (data w2)"
  proof (cases c)
    case None
    with rest show ?thesis by (simp add: ok_def)
  next
    case (Some x)
    with rest obtain t where "Apply (Some now) Live_Context (Some ?inc) (x\<lparr>cand_NodeID := nodeID\<rparr>) w2 = (Inr t, w3)"
      by (auto simp: andThen_Inr_iff ok_def)
    then show ?thesis by (rule Apply_keeps_rules)
  qed
  with saved same show "rule_view (data w3) (Redact (ru_ID r)) (Redact target) =
      Some (stored_rule (wall w) (record_of_memory (ru_ID r) target m))"
    by simp
  show "(j, s) \<noteq> (Redact (ru_ID r), Redact target) \<Longrightarrow> rule_view (data w3) j s = rule_view (data w) j s"
    using rules3 saved same by simp
  assume c: "c = Some x"
  with rest obtain t where "Apply (Some now) Live_Context (Some ?inc) (x\<lparr>cand_NodeID := nodeID\<rparr>) w2 = (Inr t, w3)"
      "got = Some t"
    by (auto simp: andThen_Inr_iff ok_def)
  then show "\<exists>t fp ident a existing'. got = Some t \<and>
       Fingerprint nodeID (cand_Type x) (cand_Target x) (cand_Condition x) = Inr fp \<and>
       IncidentIDForFingerprint fp = Inr ident \<and>
       incident_step ident fp (x\<lparr>cand_NodeID := nodeID\<rparr>) (candidate_time (Some now) x (wall w)) (view (data w) fp) =
         (a, existing') \<and> tr_Action t = a \<and> tr_Fingerprint t = fp \<and>
       (case existing' of None \<Rightarrow> view (data w3) = view (data w)
        | Some i \<Rightarrow> view (data w3) fp = Some (stored_incident (wall w) i) \<and>
            (\<not> clash (data w) i \<longrightarrow> (\<forall>g. g \<noteq> fp \<longrightarrow> view (data w3) g = view (data w) g)))"
    using saved same
    by (elim Apply_refines)
       (auto simp: candidate_time_def split: option.splits)
qed

end

subsection \<open>The results of an evaluation\<close>

text \<open>A transaction returns what its body returned.\<close>

definition runs_body :: "(('a, 'd) op \<Rightarrow> ('a, 'd) op) \<Rightarrow> bool" where
  "runs_body run \<longleftrightarrow> (\<forall>body w a w1. run body w = (Inr a, w1) \<longrightarrow> (\<exists>w2 w3. body w2 = (Inr a, w3)))"

definition honest_store :: "'d RuleStore \<Rightarrow> bool" where
  "honest_store store \<longleftrightarrow> (case Transactional store of None \<Rightarrow> True | Some (tx, run) \<Rightarrow> runs_body run)"

lemma commit_step_key:
  "commit_step nodeID store now r target matched stepped w = (Inr (res, got), w1) \<Longrightarrow>
   res_RuleID res = ru_ID r \<and> res_Target res = target \<and> res_Matched res = matched \<and>
   res_Labels res = safeLabels (ru_Labels r)"
  by (cases stepped; cases "fst (snd stepped)") (auto simp: commit_step_def andThen_Inr_iff ok_def labelled_def)

lemma evaluateRuleTarget_key:
  "evaluateRuleTarget nodeID store r target obs now w = (Inr (res, got), w1) \<Longrightarrow>
   res_RuleID res = ru_ID r \<and> res_Target res = target \<and> res_Labels res = safeLabels (ru_Labels r)"
  unfolding evaluateRuleTarget_decides andThen_Inr_iff case_prod_beta by (auto dest!: commit_step_key)

lemma evaluateMaybeTransactional_key:
  assumes "honest_store store" "evaluateMaybeTransactional nodeID store r target obs now w = (Inr (res, got), w1)"
  shows "res_RuleID res = ru_ID r \<and> res_Target res = target \<and> res_Labels res = safeLabels (ru_Labels r)"
  using assms
  by (auto simp: evaluateMaybeTransactional_def honest_store_def runs_body_def split: option.splits
      dest!: evaluateRuleTarget_key) (metis evaluateRuleTarget_key)+

definition result_keys :: "Result list \<Rightarrow> (string \<times> string) list" where
  "result_keys rs = map (\<lambda>x. (res_RuleID x, res_Target x)) rs"

definition expected_keys :: "Rule list \<Rightarrow> Observation list \<Rightarrow> (string \<times> string) list" where
  "expected_keys rules obs =
     concat (map (\<lambda>r. if ru_Enabled r then map (Pair (ru_ID r)) (matchingTargets r obs) else []) rules)"

lemma add_result_keys [simp]:
  "result_keys (eva_Results (add_result res got e)) = result_keys (eva_Results e) @ [(res_RuleID res, res_Target res)]"
  by (simp add: add_result_def result_keys_def Let_def split: option.split)

lemma evaluate_targets_keys:
  "honest_store store \<Longrightarrow> evaluate_targets nodeID store r obs now ts e w = ((e1, err), w1) \<Longrightarrow>
   (\<exists>ks. prefix ks (map (Pair (ru_ID r)) ts) \<and>
     result_keys (eva_Results e1) = result_keys (eva_Results e) @ ks \<and>
     (err = None \<longrightarrow> ks = map (Pair (ru_ID r)) ts))"
proof (induction ts arbitrary: e w)
  case (Cons t ts)
  obtain x w2 where step: "evaluateMaybeTransactional nodeID store r t obs now w = (x, w2)" by fastforce
  show ?case
  proof (cases x)
    case (Inl er)
    with Cons.prems step show ?thesis by (auto intro: exI [of _ "[]"])
  next
    case (Inr pair)
    obtain res got where "pair = (res, got)" by fastforce
    with Inr step Cons.prems have "evaluate_targets nodeID store r obs now ts (add_result res got e) w2 = ((e1, err), w1)"
      and key: "(res_RuleID res, res_Target res) = (ru_ID r, t)"
      using evaluateMaybeTransactional_key by fastforce+
    with Cons.IH [OF Cons.prems(1)] obtain ks where "prefix ks (map (Pair (ru_ID r)) ts)"
      "result_keys (eva_Results e1) = result_keys (eva_Results e) @ (ru_ID r, t) # ks"
      "err = None \<longrightarrow> ks = map (Pair (ru_ID r)) ts"
      by fastforce
    then show ?thesis by (intro exI [of _ "(ru_ID r, t) # ks"]) simp
  qed
qed (auto intro: exI [of _ "[]"])

lemma evaluate_rules_keys:
  "honest_store store \<Longrightarrow> evaluate_rules nodeID store rules obs now e w = ((e1, err), w1) \<Longrightarrow>
   (\<exists>ks. prefix ks (expected_keys rules obs) \<and>
     result_keys (eva_Results e1) = result_keys (eva_Results e) @ ks \<and>
     (err = None \<longrightarrow> ks = expected_keys rules obs))"
proof (induction rules arbitrary: e w)
  case (Cons r rules)
  obtain x w2 where poll: "ctx_err w = (x, w2)" by fastforce
  show ?case
  proof (cases x)
    case (Inl er)
    with Cons.prems poll show ?thesis by (auto intro: exI [of _ "[]"])
  next
    case (Inr u)
    show ?thesis
    proof (cases "ru_Enabled r")
      case False
      with Cons.IH [OF Cons.prems(1), of e w2] Cons.prems(2) poll Inr show ?thesis
        by (simp add: expected_keys_def)
    next
      case True
      let ?ts = "matchingTargets r obs"
      obtain e2 err2 w3 where step: "evaluate_targets nodeID store r obs now ?ts e w2 = ((e2, err2), w3)"
        using prod_cases3 by (metis prod.collapse)
      obtain ks where ks: "prefix ks (map (Pair (ru_ID r)) ?ts)"
        "result_keys (eva_Results e2) = result_keys (eva_Results e) @ ks"
        "err2 = None \<longrightarrow> ks = map (Pair (ru_ID r)) ?ts"
        using evaluate_targets_keys [OF Cons.prems(1) step] by blast
      show ?thesis
      proof (cases err2)
        case (Some er)
        with Cons.prems(2) poll Inr True step have "e1 = e2" "err = Some er" by simp_all
        with ks True show ?thesis by (auto simp: expected_keys_def intro!: exI [of _ ks])
      next
        case None
        with Cons.prems(2) poll Inr True step
        have "evaluate_rules nodeID store rules obs now e2 w3 = ((e1, err), w1)" by simp
        from Cons.IH [OF Cons.prems(1) this] ks None True show ?thesis
          by (auto simp: expected_keys_def)
      qed
    qed
  qed
qed (auto simp: expected_keys_def intro: exI [of _ "[]"])

subsection \<open>The SQL store\<close>

definition sql_incidents :: "database Store" where
  "sql_incidents = \<lparr>GetByFingerprint = GetIncidentByFingerprint, Upsert = UpsertIncident\<rparr>"

definition tx_incidents :: "database Store" where
  "tx_incidents = \<lparr>GetByFingerprint = txGetIncidentByFingerprint, Upsert = txUpsertIncident\<rparr>"

definition sql_rules :: "database rule_methods" where
  "sql_rules = \<lparr>GetRule = GetRuleEvaluationState, PutRule = UpsertRuleEvaluationState, Incidents = sql_incidents\<rparr>"

definition tx_rules :: "database rule_methods" where
  "tx_rules =
     \<lparr>GetRule = txGetRuleEvaluationState, PutRule = txUpsertRuleEvaluationState, Incidents = tx_incidents\<rparr>"

definition sql_rule_store :: "database RuleStore" where
  "sql_rule_store = \<lparr>Methods = sql_rules, Transactional = Some (tx_rules, RuleEvaluationTransaction)\<rparr>"

lemma runs_body_transaction: "runs_body RuleEvaluationTransaction"
proof -
  have "\<exists>w2 w3. body w2 = (Inr a, w3)" if "RuleEvaluationTransaction body w = (Inr a, w1)"
    for body :: "('a, database) op" and w a w1
  proof -
    from that obtain w0 where "transaction (wrapError ''rule evaluation transaction begin'' ErrorClassWrite)
        (wrapError ''rule evaluation transaction commit'' ErrorClassWrite) body w0 = (Inr a, w1)"
      by (auto simp: RuleEvaluationTransaction_def andThen_Inr_iff)
    then show ?thesis by (rule transaction_Inr) blast
  qed
  then show ?thesis unfolding runs_body_def by blast
qed

lemma honest_sql: "honest_store sql_rule_store"
  by (simp add: honest_store_def sql_rule_store_def runs_body_transaction)

lemma failure_atomic_RuleEvaluationTransaction: "failure_atomic (RuleEvaluationTransaction body)"
  unfolding RuleEvaluationTransaction_def
  by (intro failure_atomic_andThen transaction_atomic keeps_database_handle)

lemma failure_atomic_evaluation: "failure_atomic (evaluateMaybeTransactional nodeID sql_rule_store r target obs now)"
  by (simp add: evaluateMaybeTransactional_def sql_rule_store_def failure_atomic_RuleEvaluationTransaction)

text \<open>The memory comes back from the store as it went in, with the summary redacted again.\<close>

lemma state_of_text: "s \<in> set named_states \<Longrightarrow> state_of (state_text s) = s"
  unfolding named_states_def by (auto simp: state_of_def named_states_def state_text_def)

lemma state_text_plain: "s \<in> set named_states \<Longrightarrow> Redact (state_text s) = state_text s"
  unfolding named_states_def by (auto simp: state_text_def plain_text_def)

lemma stored_time_same: "t \<noteq> Some 0 \<Longrightarrow> stored_time t = t"
  by (auto simp: stored_time_def split: option.split)

lemma severity_level_redacted: "s \<in> insert [] severity_levels \<Longrightarrow> Redact s = s"
  by (auto simp: severity_levels_def Redact_Nil)

end
