(* ===== verification/Rule_Properties.thy ===== *)
theory Rule_Properties
  imports Rule_Machine Rule_Engine_Laws
begin

text \<open>
  What rule evaluation promises: which severity a rule wants, that no match is lost, what the state
  machine needs to have seen before it alerts or resolves, that the memory in the database is one
  the machine reaches, and the two histories in which the machine forgets something.
\<close>

subsection \<open>Examples\<close>

definition example_threshold :: "duration \<Rightarrow> Threshold" where
  "example_threshold d =
     \<lparr>th_Operator = OpGreaterThan, th_Value = \<lparr>v_Number = Fin 5, v_String = [], v_Bool = False, v_Kind = []\<rparr>,
      th_For = d\<rparr>"

definition example_rule :: Rule where
  "example_rule =
     \<lparr>ru_ID = ''r'', ru_Enabled = True, ru_Collector = ''cpu'', ru_Metric = ''m'', ru_Target = [],
      ru_EventCategory = [], ru_Warn = Some (example_threshold 10), ru_Fail = None,
      ru_Critical = Some (example_threshold 10), ru_RecoverFor = 10,
      ru_MissingData = PolicyStale, ru_StaleData = PolicyStale, ru_Summary = [], ru_Labels = Map.empty\<rparr>"

definition example_observation :: "float64 \<Rightarrow> Observation" where
  "example_observation x =
     \<lparr>ob_Collector = ''cpu'', ob_Target = ''s'', ob_Timestamp = 3, ob_Duration = 0, ob_Success = True,
      ob_Supported = True, ob_Stale = False,
      ob_Metrics = [\<lparr>m_Name = ''m'', m_Value = x, m_Kind = ''gauge'', m_Unit = [], m_Labels = Map.empty,
                     m_Timestamp = 3\<rparr>],
      ob_Summary = [], ob_ErrorClass = [], ob_Fields = Map.empty, ob_Events = []\<rparr>"

lemma severities_distinct [simp]:
  "SeverityNone \<noteq> SeverityWarning" "SeverityNone \<noteq> SeverityFailure" "SeverityNone \<noteq> SeverityCritical"
  "SeverityWarning \<noteq> SeverityNone" "SeverityFailure \<noteq> SeverityNone" "SeverityCritical \<noteq> SeverityNone"
  "SeverityWarning \<noteq> SeverityFailure" "SeverityWarning \<noteq> SeverityCritical" "SeverityFailure \<noteq> SeverityCritical"
  "SeverityFailure \<noteq> SeverityWarning" "SeverityCritical \<noteq> SeverityWarning" "SeverityCritical \<noteq> SeverityFailure"
  "[] \<noteq> SeverityWarning" "[] \<noteq> SeverityFailure" "[] \<noteq> SeverityCritical"
  by (simp_all add: severity_texts)

lemma initial_memory_fields [simp]:
  "mem_State initial_memory = StateOK" "mem_Severity initial_memory = SeverityNone"
  "mem_ConditionMetSince initial_memory = None" "mem_RecoverySince initial_memory = None"
  "mem_PendingSeverity initial_memory = []"
  by (simp_all add: initial_memory_def)

lemma example_durations [simp]:
  "durationFor example_rule SeverityWarning = 10" "durationFor example_rule SeverityCritical = 10"
  "ru_RecoverFor example_rule = 10"
  by (simp_all add: durationFor_def threshold_for_def example_rule_def example_threshold_def)

lemma short_times [simp]: "time_sub 20 1 = 19" "time_sub 21 1 = 20" "time_sub 40 21 = 19"
  by (simp_all add: time_sub_def int64_min_def int64_max_def)

subsection \<open>Wanted severities\<close>

text \<open>
  The severity a rule wants for a target is the most severe one whose threshold is met by some
  match relevant to the target, and none when no threshold is met.
\<close>

theorem desired_rank:
  "severityRank (ds_Severity (desiredSeverityForTarget r observations target)) =
   Max (insert 0 (severityRank ` set (met_thresholds r (relevant_matches r observations target))))"
  by (simp add: desired_unfold Let_def met_thresholds_def rule_thresholds_def)

text \<open>
  C13: No match of a rule is lost: each is relevant to one of the targets that are evaluated, the
  targets are distinct, and none is empty.
\<close>

theorem matches_covered:
  assumes "m \<in> set (findMatches r observations)"
  shows "(\<exists>t \<in> set (matchingTargets r observations). m \<in> set (relevant_matches r observations t)) \<and>
    distinct (matchingTargets r observations) \<and> [] \<notin> set (matchingTargets r observations)"
proof (cases "ru_Target r \<noteq> [] \<and> ru_Target r \<noteq> ''any''")
  case True
  with findMatches_target [OF assms] assms show ?thesis
    using matchingTargets_distinct matchingTargets_not_Nil
    by (auto simp: matchingTargets_def relevant_matches_def target_matches_def targetMatches_def)
next
  case False
  let ?ts = "fold (note_target r) (findMatches r observations) []"
  let ?t = "if mt_Target m = [] then defaultTarget r else mt_Target m"
  have "?t \<in> set ?ts" using fold_note_target [of "[]" r "findMatches r observations"] assms by auto
  then have "?t \<in> set (matchingTargets r observations)"
    using False by (auto simp: matchingTargets_def Let_def)
  moreover have "m \<in> set (relevant_matches r observations ?t)"
    using assms by (auto simp: relevant_matches_def target_matches_def)
  ultimately show ?thesis using matchingTargets_distinct matchingTargets_not_Nil by blast
qed

theorem matches_covered_witness:
  "let m = hd (findMatches example_rule [example_observation (Fin 7)]);
       ts = matchingTargets example_rule [example_observation (Fin 7)]
   in (\<exists>t \<in> set ts. m \<in> set (relevant_matches example_rule [example_observation (Fin 7)] t)) \<and> distinct ts \<and>
      [] \<notin> set ts"
proof -
  have "findMatches example_rule [example_observation (Fin 7)] \<noteq> []"
    by (simp add: findMatches_def metric_matches_def example_rule_def example_observation_def targetMatches_def
        collectorMatches_def)
  then have "hd (findMatches example_rule [example_observation (Fin 7)]) \<in> set (findMatches example_rule [example_observation (Fin 7)])"
    by simp
  from matches_covered [OF this] show ?thesis by (simp add: Let_def)
qed

subsection \<open>Alerts and resolutions\<close>

text \<open>
  C5: A rule that is not active alerts only after the condition has been judged at the alerted
  severity for the duration of its threshold, with no other judgement in between.
\<close>

theorem raised_alert:
  assumes "plausible (h @ [Judged d reason obs now])" "\<not> isActive (mem_State (memory_after r target h))"
    "transitionState r target (memory_after r target h) d reason obs now = (m1, Some c, res)"
  shows "cand_Active c \<and> cand_Severity c = d \<and> d \<in> alert_levels \<and>
    (\<exists>since. sustained d since h \<and> durationFor r d \<le> time_sub now since)"
proof -
  let ?m = "memory_after r target h"
  have ok: "timers_ok r ?m h" using timers_ok_after plausible_snoc [OF assms(1)] by blast
  then have wf: "memory_wf ?m" "mem_State ?m \<noteq> State_Other []"
    using memory_wf_started by (auto simp: timers_ok_def)
  have "d \<in> severity_levels" using plausible_snoc [OF assms(1)] by simp
  moreover have "d \<noteq> SeverityNone"
  proof
    assume "d = SeverityNone"
    with assms(3) have "recover_step r target (evaluated_memory r target ?m d reason obs now) now = (m1, Some c, res)"
      by (simp add: transitionState_def)
    from recover_step_candidate [OF this] assms(2) wf(2) show False by simp
  qed
  ultimately have d: "d \<in> alert_levels" "d \<noteq> SeverityNone" by (auto simp: severity_levels_split)
  with assms(3) have "alert_step r target (evaluated_memory r target ?m d reason obs now) d now = (m1, Some c, res)"
    by (simp add: transitionState_def)
  from alert_step_candidate [OF this] assms(2) wf(2) obtain since where
    s: "c = incidentCandidate r target d True (mem_LastResultSummary (evaluated_memory r target ?m d reason obs now)) now"
    "mem_PendingSeverity ?m = d" "mem_ConditionMetSince ?m = Some since" "durationFor r d \<le> time_sub now since"
    by auto
  have "pending (mem_State ?m)"
    using wf assms(2) s(3) by (cases "mem_State ?m") (auto simp: memory_wf_def pending_def)
  with ok s have "sustained d since h" by (auto simp: timers_ok_def)
  with s d show ?thesis by (auto simp: incidentCandidate_def)
qed

definition example_history :: "event list" where
  "example_history = [Judged SeverityWarning ''x'' 1 1]"

lemma example_memory:
  "memory_after example_rule ''s'' example_history =
     (evaluated_memory example_rule ''s'' initial_memory SeverityWarning ''x'' 1 1)
       \<lparr>mem_RecoverySince := None, mem_ConditionMetSince := Some 1, mem_PendingSeverity := SeverityWarning,
        mem_State := StatePendingWarn\<rparr>"
  by (simp add: memory_after_def example_history_def transitionState_def alert_step_def
      isActiveSeverity_def Let_def)

theorem raised_alert_witness:
  "\<exists>m1 c res. transitionState example_rule ''s'' (memory_after example_rule ''s'' example_history)
       SeverityWarning ''x'' 20 20 = (m1, Some c, res) \<and>
     cand_Active c \<and> cand_Severity c = SeverityWarning \<and> SeverityWarning \<in> alert_levels \<and>
     (\<exists>since. sustained SeverityWarning since example_history \<and>
        durationFor example_rule SeverityWarning \<le> time_sub 20 since)"
proof -
  have plausible: "plausible (example_history @ [Judged SeverityWarning ''x'' 20 20])"
    by (simp add: plausible_def example_history_def severity_levels_def)
  obtain m1 c res where step: "transitionState example_rule ''s'' (memory_after example_rule ''s'' example_history)
       SeverityWarning ''x'' 20 20 = (m1, Some c, res)"
    by (simp add: example_memory transitionState_def alert_step_def isActiveSeverity_def Let_def)
  show ?thesis
    using raised_alert [OF plausible _ step] step by (auto simp: example_memory)
qed

text \<open>
  C6: An incident is resolved only after the condition has been judged false for the recovery
  duration, with no other judgement in between, and the rule is recovered then.
\<close>

theorem raised_resolution:
  assumes "plausible (h @ [Judged d reason obs now])"
    "transitionState r target (memory_after r target h) d reason obs now = (m1, Some c, res)" "\<not> cand_Active c"
  shows "d = SeverityNone \<and> mem_State m1 = StateRecovered \<and>
    (\<exists>since. sustained SeverityNone since h \<and> ru_RecoverFor r \<le> time_sub now since)"
proof -
  let ?m = "memory_after r target h"
  have ok: "timers_ok r ?m h" using timers_ok_after plausible_snoc [OF assms(1)] by blast
  then have wf: "memory_wf ?m" "mem_State ?m \<noteq> State_Other []"
    using memory_wf_started by (auto simp: timers_ok_def)
  have d: "d = SeverityNone"
  proof (rule ccontr)
    assume "d \<noteq> SeverityNone"
    with assms(2) have "alert_step r target (evaluated_memory r target ?m d reason obs now) d now = (m1, Some c, res)"
      by (simp add: transitionState_def)
    from alert_step_candidate [OF this] assms(3) show False by (auto simp: incidentCandidate_def)
  qed
  with assms(2) have "recover_step r target (evaluated_memory r target ?m d reason obs now) now = (m1, Some c, res)"
    by (simp add: transitionState_def)
  from recover_step_candidate [OF this] wf(2) obtain since where
    s: "isActive (mem_State ?m)" "mem_State m1 = StateRecovered" "mem_RecoverySince ?m = Some since"
    "ru_RecoverFor r \<le> time_sub now since" by auto
  have "mem_State ?m = StateRecovering"
    using wf s(1,3) by (cases "mem_State ?m") (auto simp: memory_wf_def)
  with ok s d show ?thesis by (auto simp: timers_ok_def)
qed

definition recovery_history :: "event list" where
  "recovery_history = [Judged SeverityWarning ''x'' 1 1, Judged SeverityWarning ''x'' 20 20, Judged SeverityNone ''x'' 21 21]"

theorem raised_resolution_witness:
  "\<exists>m1 c res. transitionState example_rule ''s'' (memory_after example_rule ''s'' recovery_history)
       SeverityNone ''x'' 40 40 = (m1, Some c, res) \<and> \<not> cand_Active c \<and> mem_State m1 = StateRecovered \<and>
     (\<exists>since. sustained SeverityNone since recovery_history \<and> ru_RecoverFor example_rule \<le> time_sub 40 since)"
proof -
  have plausible: "plausible (recovery_history @ [Judged SeverityNone ''x'' 40 40])"
    by (simp add: plausible_def recovery_history_def severity_levels_def)
  obtain m1 c res where step: "transitionState example_rule ''s'' (memory_after example_rule ''s'' recovery_history)
       SeverityNone ''x'' 40 40 = (m1, Some c, res)" "\<not> cand_Active c"
    by (simp add: recovery_history_def memory_after_def transitionState_def alert_step_def recover_step_def
        isActiveSeverity_def Let_def incidentCandidate_def)
  show ?thesis
    using raised_resolution [OF plausible step] step by auto
qed

text \<open>
  C7: A rule with one alerting severity keeps in step with its incident: after every history the
  rule is active exactly if the last incident it raised is open.
\<close>

theorem single_level_in_step:
  "s \<in> alert_levels \<Longrightarrow> single_level s h \<Longrightarrow>
   memory_wf (memory_after r target h) \<and> mem_Severity (memory_after r target h) \<in> {SeverityNone, s} \<and>
   isActive (mem_State (memory_after r target h)) = left_open (raised r target h)"
proof (induction h rule: rev_induct)
  case Nil
  have "memory_after r target [] = initial_memory" "raised r target [] = []"
    by (simp_all add: memory_after_def raised_def)
  then show ?case using memory_wf_initial by (simp add: initial_memory_def)
next
  case (snoc ev h)
  obtain m1 c where step: "event_step r target (memory_after r target h) ev = (m1, c)" by fastforce
  have "single_level s h" "event_desired ev \<in> {None, Some SeverityNone, Some s}"
    using snoc.prems by (auto simp: single_level_def)
  then have "memory_wf (memory_after r target h)" "mem_Severity (memory_after r target h) \<in> {SeverityNone, s}"
      "isActive (mem_State (memory_after r target h)) = left_open (raised r target h)"
    using snoc.IH [OF snoc.prems(1)] by blast+
  with single_level_event [OF this(1,2) snoc.prems(1) \<open>event_desired ev \<in> _\<close> step] show ?case
    by (cases c) (simp_all add: memory_after_snoc raised_snoc step)
qed

theorem single_level_in_step_witness:
  "isActive (mem_State (memory_after example_rule ''s'' recovery_history)) =
   left_open (raised example_rule ''s'' recovery_history)"
proof -
  have "SeverityWarning \<in> alert_levels" "single_level SeverityWarning recovery_history"
    by (simp_all add: alert_levels_def single_level_def recovery_history_def)
  from single_level_in_step [OF this] show ?thesis by blast
qed

subsection \<open>Two things the machine forgets\<close>

definition active_memory :: "State \<Rightarrow> string \<Rightarrow> instant \<Rightarrow> EvaluationMemory" where
  "active_memory s severity since =
     initial_memory\<lparr>mem_State := s, mem_Severity := severity, mem_ConditionMetSince := Some since,
       mem_PendingSeverity := severity\<rparr>"

text \<open>
  C17: From \<open>WARN\<close>, a failure that starts and clears before its duration has passed leaves the rule
  \<open>OK\<close> without a resolution: the warning incident stays open and nothing tracks it any more.
\<close>

theorem escalation_forgets_incident:
  assumes "memory_wf m" "mem_State m = StateWarn" "mem_PendingSeverity m \<noteq> SeverityFailure"
  shows "raised_from r target m [Judged SeverityFailure x1 o1 t1, Judged SeverityNone x2 o2 t2] = [] \<and>
    mem_State (fst (event_step r target (fst (event_step r target m (Judged SeverityFailure x1 o1 t1)))
      (Judged SeverityNone x2 o2 t2))) = StateOK"
  using assms
  by (simp add: memory_wf_def transitionState_def alert_step_def recover_step_def isActiveSeverity_def Let_def)

theorem escalation_forgets_incident_witness:
  "raised_from example_rule ''s'' (active_memory StateWarn SeverityWarning 1)
     [Judged SeverityFailure ''x'' 2 2, Judged SeverityNone ''x'' 3 3] = []"
proof -
  have "memory_wf (active_memory StateWarn SeverityWarning 1)"
    by (simp add: memory_wf_def active_memory_def)
  from escalation_forgets_incident [OF this] show ?thesis
    by (simp add: active_memory_def)
qed

text \<open>
  C18: The timer of a critical alert survives a downgrade, so the next critical sample alerts at once,
  whatever duration the rule asks for.
\<close>

theorem stale_timer_realerts:
  assumes "memory_wf m" "mem_State m = StateCritical" "mem_PendingSeverity m = SeverityCritical"
    "mem_ConditionMetSince m = Some since" "durationFor r SeverityCritical \<le> time_sub t2 since"
  shows "map cand_Severity (raised_from r target m
    [Judged SeverityWarning x1 o1 t1, Judged SeverityCritical x2 o2 t2]) = [SeverityWarning, SeverityCritical]"
  using assms
  by (simp add: memory_wf_def transitionState_def alert_step_def isActiveSeverity_def Let_def
      incidentCandidate_def split: option.split)

theorem stale_timer_realerts_witness:
  "map cand_Severity (raised_from example_rule ''s'' (active_memory StateCritical SeverityCritical 1)
     [Judged SeverityWarning ''x'' 20 20, Judged SeverityCritical ''x'' 21 21]) = [SeverityWarning, SeverityCritical]"
proof -
  have "memory_wf (active_memory StateCritical SeverityCritical 1)"
    by (simp add: memory_wf_def active_memory_def)
  then show ?thesis
    by (rule stale_timer_realerts [where since = 1])
       (simp_all add: active_memory_def)
qed

subsection \<open>The memory in the store\<close>

lemma memory_roundtrip:
  assumes "mem_State m \<in> set named_states" "mem_Severity m \<in> severity_levels"
    "mem_PendingSeverity m \<in> insert [] severity_levels" "mem_LastEvaluatedAt m \<noteq> 0"
    "Some 0 \<notin> {mem_ConditionMetSince m, mem_RecoverySince m, mem_LastObservedAt m}"
  shows "memory_in (Some (stored_rule now (record_of_memory i t m))) =
    m\<lparr>mem_LastResultSummary := Redact (mem_LastResultSummary m)\<rparr>"
proof -
  have "mem_Severity m \<noteq> []" "mem_State m \<noteq> State_Other []"
    using assms(1,2) by (auto simp: severity_levels_def named_states_def)
  with assms show ?thesis
    by (auto simp: memory_in_def memory_of_record_def stored_rule_def record_of_memory_def state_text_plain
        state_of_text stored_time_same severity_level_redacted)
qed

subsection \<open>Evaluations\<close>

text \<open>
  C14: An evaluation returns one result per enabled rule and target, in the order of the rules and of
  the targets; one that stops at an error has returned a prefix of them.
\<close>

theorem Evaluate_keys:
  assumes "honest_store store" "Evaluate nodeID rules clock ctx (Some store) obs w = ((e, err), w1)"
  shows "prefix (result_keys (eva_Results e)) (expected_keys rules obs) \<and>
    (err = None \<longrightarrow> result_keys (eva_Results e) = expected_keys rules obs)"
proof -
  have none: "result_keys (eva_Results no_evaluation) = []"
    by (simp add: result_keys_def no_evaluation_def)
  show ?thesis
    using assms(2) evaluate_rules_keys [OF assms(1)] none
    by (auto simp: Evaluate_def split: prod.splits sum.splits if_splits) (metis append_Nil)+
qed

theorem Evaluate_keys_witness:
  "case Evaluate ''n'' [example_rule] None Live_Context (Some sql_rule_store) [example_observation (Fin 7)]
      \<lparr>data = empty_database, script = [], wall = 7\<rparr> of
     ((e, err), w1) \<Rightarrow> prefix (result_keys (eva_Results e)) (expected_keys [example_rule] [example_observation (Fin 7)])"
proof -
  obtain e err w1 where run: "Evaluate ''n'' [example_rule] None Live_Context (Some sql_rule_store)
      [example_observation (Fin 7)] \<lparr>data = empty_database, script = [], wall = 7\<rparr> = ((e, err), w1)"
    by (metis prod.collapse)
  from Evaluate_keys [OF honest_sql this] show ?thesis by (simp add: run)
qed

end
