(* ===== verification/Incident_Properties.thy ===== *)
theory Incident_Properties
  imports Rule_Engine_Laws
begin

text \<open>
  What the incident engine promises over the SQL store: any sequence of candidates of one
  fingerprint, with failures anywhere, opens and resolves its incident in turns and counts its
  occurrences; a failed call leaves the database as it was, and a call that nothing disturbs
  succeeds.
\<close>

subsection \<open>Sequences of candidates\<close>

text \<open>
  The calls a caller makes one after the other. A call that fails is not retried; what the
  successful ones returned is listed with their candidates.
\<close>

fun applied ::
    "instant option \<Rightarrow> 'd Store \<Rightarrow> Candidate list \<Rightarrow> 'd world \<Rightarrow> (Candidate \<times> Transition) list \<times> 'd world" where
  "applied clock store [] w = ([], w)"
| "applied clock store (c # cs) w =
     (case Apply clock Live_Context (Some store) c w of
        (Inl e, w1) \<Rightarrow> applied clock store cs w1
      | (Inr t, w1) \<Rightarrow> (case applied clock store cs w1 of (ts, w2) \<Rightarrow> ((c, t) # ts, w2)))"

definition candidate_fingerprint :: "Candidate \<Rightarrow> go_error + string" where
  "candidate_fingerprint c = Fingerprint (cand_NodeID c) (cand_Type c) (cand_Target c) (cand_Condition c)"

definition opened_in :: "(Candidate \<times> Transition) list \<Rightarrow> nat" where
  "opened_in ts = length (filter (\<lambda>(c, t). starts_incident (tr_Action t)) ts)"

definition resolved_in :: "(Candidate \<times> Transition) list \<Rightarrow> nat" where
  "resolved_in ts = length (filter (\<lambda>(c, t). tr_Action t = ActionResolved) ts)"

definition active_in :: "(Candidate \<times> Transition) list \<Rightarrow> nat" where
  "active_in ts = length (filter (\<lambda>(c, t). cand_Active c) ts)"

lemma counts_in_Nil [simp]: "opened_in [] = 0" "resolved_in [] = 0" "active_in [] = 0"
  by (simp_all add: opened_in_def resolved_in_def active_in_def)

lemma counts_in_Cons [simp]:
  "opened_in ((c, t) # ts) = (if starts_incident (tr_Action t) then 1 else 0) + opened_in ts"
  "resolved_in ((c, t) # ts) = (if tr_Action t = ActionResolved then 1 else 0) + resolved_in ts"
  "active_in ((c, t) # ts) = (if cand_Active c then 1 else 0) + active_in ts"
  by (simp_all add: opened_in_def resolved_in_def active_in_def)

lemma candidate_time_wall [simp]:
  "candidate_time clock c now = 0 \<longleftrightarrow> cand_ObservedAt c = 0 \<and> (case clock of Some t \<Rightarrow> t | None \<Rightarrow> now) = 0"
  by (auto simp: candidate_time_def is_zero_time_def)

lemma incident_open_Some [simp]: "incident_open (Some r) = (inc_Status r \<noteq> StatusResolved)"
  by (simp add: incident_open_def)

lemma incident_open_None [simp]: "\<not> incident_open None"
  by (simp add: incident_open_def)

lemma occurrences_stored [simp]: "occurrences (Some (stored_incident now r)) = inc_OccurrenceCount r"
  by (simp add: occurrences_def stored_incident_def)

text \<open>One step, in the terms the sequences count.\<close>

lemma incident_step_counts:
  assumes "incident_step ident fp c now existing = (a, Some r)"
  shows "Redact (inc_Status r) \<noteq> StatusResolved \<longleftrightarrow> cand_Active c"
    "starts_incident a \<longleftrightarrow> cand_Active c \<and> \<not> incident_open existing"
    "a = ActionResolved \<longleftrightarrow> \<not> cand_Active c \<and> incident_open existing"
    "inc_OccurrenceCount r = (if cand_Active c then wrap64 (occurrences existing + 1) else occurrences existing)"
  using incident_step_open [OF assms] incident_step_occurrences [OF assms] by (simp_all add: occurrences_def stored_incident_def)

lemma wrap64_add_right: "wrap64 (y + wrap64 x) = wrap64 (y + x)"
  using wrap64_add [of x y] by (simp add: add.commute)

context incident_store
begin

lemma Apply_counts:
  assumes "Apply clock Live_Context (Some \<lparr>GetByFingerprint = get, Upsert = upsert\<rparr>) c w = (Inr t, w1)"
    "candidate_fingerprint c = Inr fp"
  shows "incident_open (view (data w1) fp) = cand_Active c \<and>
    (starts_incident (tr_Action t) \<longleftrightarrow> cand_Active c \<and> \<not> incident_open (view (data w) fp)) \<and>
    (tr_Action t = ActionResolved \<longleftrightarrow> \<not> cand_Active c \<and> incident_open (view (data w) fp)) \<and>
    occurrences (view (data w1) fp) =
      (if cand_Active c then wrap64 (occurrences (view (data w) fp) + 1) else occurrences (view (data w) fp))"
proof (rule Apply_refines [OF assms(1)])
  fix fp1 ident a existing'
  assume fp1: "Fingerprint (cand_NodeID c) (cand_Type c) (cand_Target c) (cand_Condition c) = Inr fp1"
    and step: "incident_step ident fp1 c (candidate_time clock c (wall w)) (view (data w) fp1) = (a, existing')"
    and t: "tr_Action t = a"
    and after: "case existing' of None \<Rightarrow> data w1 = data w
      | Some r \<Rightarrow> t = transition a r \<and> view (data w1) fp1 = Some (stored_incident (wall w) r) \<and>
         (\<not> clash (data w) r \<longrightarrow> (\<forall>g. g \<noteq> fp1 \<longrightarrow> view (data w1) g = view (data w) g))"
  from fp1 assms(2) have fp: "fp1 = fp" by (simp add: candidate_fingerprint_def)
  show ?thesis
  proof (cases existing')
    case None
    with step have "view (data w) fp1 = None" "\<not> cand_Active c" "a = ActionNone"
      by (auto simp: incident_step_def split: option.splits if_splits)
    with None after fp t show ?thesis by (simp add: starts_incident_def)
  next
    case (Some r)
    with after have v: "view (data w1) fp1 = Some (stored_incident (wall w) r)" by simp
    show ?thesis
      using incident_step_counts [OF step [unfolded Some]] v t unfolding fp by simp
  qed
qed

lemma applied_counts:
  assumes "\<forall>c \<in> set cs. candidate_fingerprint c = Inr fp"
    "applied clock \<lparr>GetByFingerprint = get, Upsert = upsert\<rparr> cs w = (ts, w1)"
  shows "opened_in ts + (if incident_open (view (data w) fp) then 1 else 0) =
      resolved_in ts + (if incident_open (view (data w1) fp) then 1 else 0) \<and>
    wrap64 (occurrences (view (data w1) fp)) = wrap64 (occurrences (view (data w) fp) + int (active_in ts))"
  using assms
proof (induction cs arbitrary: w ts w1)
  case (Cons c cs)
  let ?st = "\<lparr>GetByFingerprint = get, Upsert = upsert\<rparr>"
  obtain x w2 where step: "Apply clock Live_Context (Some ?st) c w = (x, w2)" by fastforce
  obtain ts2 w3 where rest: "applied clock ?st cs w2 = (ts2, w3)" by fastforce
  have IH: "opened_in ts2 + (if incident_open (view (data w2) fp) then 1 else 0) =
      resolved_in ts2 + (if incident_open (view (data w3) fp) then 1 else 0) \<and>
    wrap64 (occurrences (view (data w3) fp)) = wrap64 (occurrences (view (data w2) fp) + int (active_in ts2))"
    using Cons.IH [OF _ rest] Cons.prems(1) by simp
  show ?case
  proof (cases x)
    case (Inl e)
    then have "data w2 = data w" using failure_atomicD [OF failure_atomic_Apply] step by blast
    with Cons.prems(2) step rest Inl IH show ?thesis by simp
  next
    case (Inr t)
    have "candidate_fingerprint c = Inr fp" using Cons.prems(1) by simp
    note counts = Apply_counts [OF step [unfolded Inr] this]
    from Cons.prems(2) step rest Inr have "ts = (c, t) # ts2" "w1 = w3" by auto
    with counts IH show ?thesis by (auto simp: wrap64_add wrap64_add_right ac_simps)
  qed
qed simp

end

lemma example_fingerprint: "Fingerprint ''n'' ''t'' ''s'' ''c'' = Inr ''n:t:s:c''"
  by code_simp

text \<open>A candidate the witnesses apply, and the store they apply it to.\<close>

definition example_candidate :: "bool \<Rightarrow> Candidate" where
  "example_candidate active =
     \<lparr>cand_NodeID = ''n'', cand_Type = ''t'', cand_Target = ''s'', cand_Condition = ''c'',
      cand_Severity = ''warning'', cand_Active = active, cand_Summary = ''x'', cand_EvidencePath = [],
      cand_ObservedAt = 7\<rparr>"

definition quiet_world :: "database world" where
  "quiet_world = \<lparr>data = empty_database, script = [], wall = 7\<rparr>"

lemma example_candidate_fingerprint [simp]: "candidate_fingerprint (example_candidate b) = Inr ''n:t:s:c''"
  by (simp add: candidate_fingerprint_def example_candidate_def example_fingerprint)

subsection \<open>Incidents over the SQL store\<close>

text \<open>
  C1: Whatever candidates of one fingerprint are applied, and whichever of the calls fail, opening
  (or reopening) and resolving alternate: there is one more of the first than of the second exactly
  when the incident was resolved or absent before and is open after.
\<close>

theorem incidents_alternate:
  assumes "\<forall>c \<in> set cs. candidate_fingerprint c = Inr fp" "applied clock sql_incidents cs w = (ts, w1)"
  shows "opened_in ts + (if incident_open (incident_view (data w) fp) then 1 else 0) =
    resolved_in ts + (if incident_open (incident_view (data w1) fp) then 1 else 0)"
  using sql.applied_counts [OF assms(1) assms(2) [unfolded sql_incidents_def]] by blast

theorem incidents_alternate_witness:
  "let (ts, w1) = applied None sql_incidents [example_candidate True, example_candidate False] quiet_world
   in opened_in ts + (if incident_open (incident_view (data quiet_world) ''n:t:s:c'') then 1 else 0) =
      resolved_in ts + (if incident_open (incident_view (data w1) ''n:t:s:c'') then 1 else 0)"
proof -
  obtain ts w1 where "applied None sql_incidents [example_candidate True, example_candidate False] quiet_world = (ts, w1)"
    by fastforce
  with incidents_alternate [OF _ this] show ?thesis by simp
qed

text \<open>
  C8: The occurrence counter of an incident counts the successful calls with an active candidate,
  as a 64-bit integer, across resolutions and reopenings; failed calls do not count.
\<close>

theorem occurrences_counted:
  assumes "\<forall>c \<in> set cs. candidate_fingerprint c = Inr fp" "applied clock sql_incidents cs w = (ts, w1)"
  shows "wrap64 (occurrences (incident_view (data w1) fp)) =
    wrap64 (occurrences (incident_view (data w) fp) + int (active_in ts))"
  using sql.applied_counts [OF assms(1) assms(2) [unfolded sql_incidents_def]] by blast

theorem occurrences_counted_witness:
  "let (ts, w1) = applied None sql_incidents [example_candidate True, example_candidate True] quiet_world
   in wrap64 (occurrences (incident_view (data w1) ''n:t:s:c'')) =
      wrap64 (occurrences (incident_view (data quiet_world) ''n:t:s:c'') + int (active_in ts))"
proof -
  obtain ts w1 where "applied None sql_incidents [example_candidate True, example_candidate True] quiet_world = (ts, w1)"
    by fastforce
  with occurrences_counted [OF _ this] show ?thesis by simp
qed

text \<open>
  C9: When nothing fails outside, a recordable candidate is recorded: over a healthy database, at a
  time whose text can be read back (of the years 0 to 9999), with a stored incident that is valid and
  below the counter's bound, or with a free identifier, the call succeeds, the incident of the fingerprint is open exactly if the candidate is active, and the
  database stays healthy.
\<close>

theorem candidate_recorded:
  assumes "quiet w" "healthy_database (data w)" "recordable c" "candidate_fingerprint c = Inr fp"
    "IncidentIDForFingerprint fp = Inr ident" "candidate_time clock c (wall w) \<noteq> 0"
    "readable_time (candidate_time clock c (wall w))" "readable_time (wall w)"
    "case incident_view (data w) fp of
       None \<Rightarrow> ident \<notin> ir_id ` set (incident_rows (data w))
     | Some r \<Rightarrow> validateIncident r = None \<and> inc_OccurrenceCount r < 2 ^ 63 - 1"
  shows "\<exists>t w1. Apply clock Live_Context (Some sql_incidents) c w = (Inr t, w1) \<and> healthy_database (data w1) \<and>
    incident_open (incident_view (data w1) fp) = cand_Active c"
proof -
  have free: "\<not> incident_clash (data w) r"
    if "incident_view (data w) fp = None" "inc_ID r = ident" "inc_Fingerprint r = fp" for r
  proof -
    have "get_row (\<lambda>x. ir_fingerprint x = Some fp) (incident_rows (data w)) = None"
      using that(1) healthy_incident [OF assms(2)]
      by (cases "get_row (\<lambda>x. ir_fingerprint x = Some fp) (incident_rows (data w))") (fastforce simp: incident_view_def)+
    then show ?thesis
      using assms(9) that by (fastforce simp: incident_clash_def list_ex_iff get_row_def find_None_iff image_iff)
  qed
  have "\<exists>t w1. Apply clock Live_Context (Some sql_incidents) c w = (Inr t, w1) \<and> quiet w1 \<and> healthy_database (data w1) \<and>
      wall w1 = wall w"
    unfolding sql_incidents_def
    using assms(4,9) free
    by (intro sql.Apply_live [OF assms(1-3) _ assms(5-8)]) (auto simp: candidate_fingerprint_def)
  then show ?thesis
    using sql.Apply_counts [OF _ assms(4)] unfolding sql_incidents_def by blast
qed

theorem candidate_recorded_witness:
  "\<exists>t w1. Apply None Live_Context (Some sql_incidents) (example_candidate True) quiet_world = (Inr t, w1) \<and>
     healthy_database (data w1) \<and>
     incident_open (incident_view (data w1) ''n:t:s:c'') = cand_Active (example_candidate True)"
proof -
  have summary: "safeSummary ''x'' = ''x''" by (simp add: safeSummary_def plain_text_def)
  show ?thesis
    using Fingerprint_names_incident [OF example_fingerprint] example_candidate_fingerprint [of True]
    by (intro candidate_recorded)
       (simp_all add: quiet_world_def quiet_def empty_database_def healthy_database_def incident_keys_def
         recordable_def example_candidate_def summary severity_texts trim_space_free space_free_def byte_def
         incident_view_def get_row_def readable_time_def candidate_time_def)
qed

text \<open>
  C10: A call that fails, at whatever point, leaves the database as it was; one that succeeds
  returns the transition of the incident it stored, under the fingerprint of the candidate, and
  leaves the rule states alone.
\<close>

theorem failed_candidate_changes_nothing:
  "case Apply clock ctx (Some sql_incidents) c w of
     (Inl e, w1) \<Rightarrow> data w1 = data w
   | (Inr t, w1) \<Rightarrow> candidate_fingerprint c = Inr (tr_Fingerprint t) \<and>
       rule_state_view (data w1) = rule_state_view (data w)"
proof (cases "Apply clock ctx (Some sql_incidents) c w")
  case (Pair x w1)
  show ?thesis
  proof (cases x)
    case (Inl e)
    with Pair show ?thesis
      using failure_atomicD [OF sql.failure_atomic_Apply] by (auto simp: sql_incidents_def)
  next
    case (Inr t)
    note run = Pair [unfolded Inr sql_incidents_def]
    have "candidate_fingerprint c = Inr (tr_Fingerprint t)"
      using sql.Apply_refines [OF run] by (metis candidate_fingerprint_def)
    with sql.Apply_keeps_rules [OF run] Pair Inr show ?thesis by simp
  qed
qed

subsection \<open>Fingerprints\<close>

lemma fingerprint_char_lower: "fingerprint_char c \<Longrightarrow> lower_char c = c \<and> byte c < 128"
  by (auto simp: fingerprint_char_def lower_char_def byte_def)

lemma to_lower_fingerprint: "list_all fingerprint_char s \<Longrightarrow> to_lower s = s"
  by (induction s rule: to_lower.induct) (auto simp: fingerprint_char_lower dest: fingerprint_char_lower)

lemma normalize_again:
  assumes "normalizeFingerprintComponent v = Inr n"
  shows "normalizeFingerprintComponent n = Inr n"
proof -
  have n: "n = to_lower (trim_space v)" "list_all fingerprint_char n" using normalize_Inr [OF assms] by auto
  then have "to_lower (trim_space n) = n" by (simp add: fingerprint_char_trim to_lower_fingerprint)
  with assms n(1) show ?thesis unfolding normalizeFingerprintComponent_def by metis
qed

lemma normalizeForRecord_Inr: "normalizeFingerprintComponent v = Inr n \<Longrightarrow> normalizeForRecord v = n"
  by (simp add: normalizeForRecord_def)

text \<open>
  C15: A fingerprint is a non-empty text of at most 512 of the allowed characters that redaction
  leaves alone; it names an incident identifier of 36 characters, and the components an incident
  record keeps give the same fingerprint again.
\<close>

theorem fingerprint_sound:
  "case Fingerprint a b c d of
     Inl e \<Rightarrow> True
   | Inr fp \<Rightarrow> fp \<noteq> [] \<and> length fp \<le> 512 \<and> list_all fingerprint_char fp \<and> Redact fp = fp \<and>
       (\<exists>ident. IncidentIDForFingerprint fp = Inr ident \<and> length ident = 36) \<and>
       Fingerprint (normalizeForRecord a) (normalizeForRecord b) (normalizeForRecord c) (normalizeForRecord d) = Inr fp"
proof (cases "Fingerprint a b c d")
  case (Inr fp)
  have "length (''inc_'' @ hex (take 16 (sha256 fp))) = 36" by (simp add: length_hex length_sha256)
  moreover have "Fingerprint (normalizeForRecord a) (normalizeForRecord b) (normalizeForRecord c)
      (normalizeForRecord d) = Inr fp"
  proof (rule Fingerprint_Inr [OF Inr])
    fix a1 b1 c1 d1
    assume "normalizeFingerprintComponent a = Inr a1" "normalizeFingerprintComponent b = Inr b1"
      "normalizeFingerprintComponent c = Inr c1" "normalizeFingerprintComponent d = Inr d1"
    with Inr show ?thesis
      by (simp add: Fingerprint_def normalizeForRecord_Inr normalize_again)
  qed
  ultimately show ?thesis
    using Inr Fingerprint_stored [OF Inr] Fingerprint_names_incident [OF Inr] by simp
qed simp

lemma example_components:
  "normalizeFingerprintComponent ''n'' = Inr ''n''" "normalizeFingerprintComponent ''n:n'' = Inr ''n:n''"
  "Redact ''n:n:n:n:n'' = ''n:n:n:n:n''"
  by code_simp+

text \<open>
  The fingerprint does not determine its components: the separator is an allowed character of a
  component, so two different targets and conditions share a fingerprint, and with it an incident.
\<close>

theorem fingerprint_ambiguous:
  "Fingerprint ''n'' ''n'' ''n:n'' ''n'' = Inr ''n:n:n:n:n'' \<and> Fingerprint ''n'' ''n'' ''n'' ''n:n'' = Inr ''n:n:n:n:n''"
  by (simp add: Fingerprint_def example_components MaxFingerprintLength_def)

end
