(* ===== verification/Rule_Store.thy ===== *)
theory Rule_Store
  imports Rule_Properties Incident_Properties
begin

text \<open>
  Rule evaluation over the SQL store: an evaluation of a target happens in the database at once or
  not at all, and the memory the database holds for a rule and target is always one the state
  machine reaches through some history.
\<close>

subsection \<open>Memories and their records\<close>

text \<open>The summary a memory carries does not influence what an evaluation does with it.\<close>

definition same_machine :: "EvaluationMemory \<Rightarrow> EvaluationMemory \<Rightarrow> bool" where
  "same_machine m m' \<longleftrightarrow> m = m'\<lparr>mem_LastResultSummary := mem_LastResultSummary m\<rparr>"

lemma event_step_summary: "event_step r target (m\<lparr>mem_LastResultSummary := s\<rparr>) ev = event_step r target m ev"
  by (cases ev) (simp_all add: transitionState_def evaluated_memory_def started_memory_def Let_def)

lemma same_machine_step: "same_machine m m' \<Longrightarrow> event_step r target m ev = event_step r target m' ev"
  unfolding same_machine_def using event_step_summary [where m = m' and s = "mem_LastResultSummary m"] by metis

text \<open>Every decision is a step of the machine, at the time of the evaluation.\<close>

definition admissible :: "event \<Rightarrow> bool" where
  "admissible ev \<longleftrightarrow> (case event_desired ev of None \<Rightarrow> True | Some d \<Rightarrow> d \<in> severity_levels)"

lemma noted_event:
  "memory_wf m \<Longrightarrow> noted m s summary now =
     (fst (event_step r target m (Noted summary now)), None, partial_result s (mem_Severity m) summary)"
  using memory_wf_started [of m] by (simp add: noted_def started_memory_def)

definition takes_step ::
    "Rule \<Rightarrow> string \<Rightarrow> instant \<Rightarrow> EvaluationMemory \<Rightarrow> bool \<times> EvaluationMemory \<times> Candidate option \<times> Result \<Rightarrow> bool" where
  "takes_step r target now m x \<longleftrightarrow>
     (\<exists>ev. fst (snd x) = fst (event_step r target m ev) \<and> event_time ev = now \<and> admissible ev)"

lemma takes_step_noted: "memory_wf m \<Longrightarrow> takes_step r target now m (b, noted m s summary now)"
  unfolding takes_step_def
  by (rule exI [of _ "Noted summary now"]) (simp add: noted_event [of m s summary now r target] admissible_def)

lemma takes_step_judged:
  "d \<in> severity_levels \<Longrightarrow> takes_step r target now m (b, transitionState r target m d reason o1 now)"
  unfolding takes_step_def
  by (rule exI [of _ "Judged d reason o1 now"]) (simp add: admissible_def split: prod.split)

lemma policy_severity_level: "policy_severity p \<in> severity_levels"
  by (simp add: policy_severity_def severity_levels_def)

lemma decide_takes_step:
  assumes "memory_wf m"
  shows "takes_step r target now m (decide r target obs now m)"
proof -
  have started: "started_memory m = m" using memory_wf_started [OF assms] by (simp add: started_memory_def)
  show ?thesis
    unfolding decide_def Let_def started
    by (simp add: takes_step_noted [OF assms] takes_step_judged policy_severity_level desired_severity_level)
qed

text \<open>A memory the store gives back as it was, up to its summary.\<close>

definition storable :: "EvaluationMemory \<Rightarrow> bool" where
  "storable m \<longleftrightarrow> memory_wf m \<and> mem_PendingSeverity m \<in> insert [] severity_levels \<and>
     Some 0 \<notin> {mem_ConditionMetSince m, mem_RecoverySince m, mem_LastObservedAt m}"

lemma storable_initial: "storable initial_memory"
  using memory_wf_initial by (simp add: storable_def) (simp add: initial_memory_def)

lemma pending_kept:
  "mem_PendingSeverity m \<in> insert [] severity_levels \<Longrightarrow> desired \<in> severity_levels \<Longrightarrow>
   alert_step r target m desired now = (m1, c, res) \<Longrightarrow> mem_PendingSeverity m1 \<in> insert [] severity_levels"
  by (auto simp: alert_step_def Let_def split: if_splits)

lemma pending_recovered:
  "mem_PendingSeverity m \<in> insert [] severity_levels \<Longrightarrow>
   recover_step r target m now = (m1, c, res) \<Longrightarrow> mem_PendingSeverity m1 \<in> insert [] severity_levels"
  by (auto simp: recover_step_def Let_def severity_levels_def split: if_splits option.splits)

lemma transitionState_times:
  assumes "transitionState r target m d reason obs now = (m1, c, res)" "now \<noteq> 0"
    "Some 0 \<notin> {mem_ConditionMetSince m, mem_RecoverySince m, mem_LastObservedAt m}"
  shows "Some 0 \<notin> {mem_ConditionMetSince m1, mem_RecoverySince m1, mem_LastObservedAt m1} \<and> mem_LastEvaluatedAt m1 = now"
proof -
  let ?m = "evaluated_memory r target m d reason obs now"
  have "Some 0 \<notin> {mem_ConditionMetSince ?m, mem_RecoverySince ?m, mem_LastObservedAt ?m}"
    using assms(3) by (auto simp: evaluated_memory_def is_zero_time_def Let_def)
  moreover have "mem_LastEvaluatedAt ?m = now" by simp
  ultimately show ?thesis
    using assms(1,2) unfolding transitionState_def Let_def
    by (auto simp: recover_step_def alert_step_def Let_def split: if_splits option.splits)
qed

lemma storable_step:
  assumes "storable m" "admissible ev" "event_time ev \<noteq> 0"
  shows "storable (fst (event_step r target m ev)) \<and> mem_LastEvaluatedAt (fst (event_step r target m ev)) = event_time ev"
proof (cases ev)
  case (Noted summary now)
  with assms memory_wf_started [of m] show ?thesis
    by (auto simp: storable_def started_memory_def memory_wf_def)
next
  case (Judged d reason obs now)
  obtain m1 c res where step: "transitionState r target m d reason obs now = (m1, c, res)"
    using prod_cases3 by blast
  have d: "d \<in> severity_levels" using assms(2) Judged by (simp add: admissible_def)
  have "memory_wf m1" using assms(1) transitionState_wf [OF _ d step] by (simp add: storable_def)
  moreover have "mem_PendingSeverity (evaluated_memory r target m d reason obs now) \<in> insert [] severity_levels"
    using assms(1) by (simp add: storable_def)
  then have "mem_PendingSeverity m1 \<in> insert [] severity_levels"
    using step d pending_kept pending_recovered unfolding transitionState_def Let_def by (metis (full_types))
  ultimately show ?thesis
    using transitionState_times [OF step] assms(1,3) step Judged by (simp add: storable_def)
qed

lemma memory_wf_named: "memory_wf m \<Longrightarrow> mem_State m \<in> set named_states"
  by (cases "mem_State m") (simp_all add: memory_wf_def named_states_def)

lemma storable_back:
  assumes "storable m" "mem_LastEvaluatedAt m \<noteq> 0"
  shows "same_machine (memory_in (Some (stored_rule now (record_of_memory i t m)))) m"
proof -
  have wf: "memory_wf m" using assms(1) by (simp add: storable_def)
  have "memory_in (Some (stored_rule now (record_of_memory i t m))) =
      m\<lparr>mem_LastResultSummary := Redact (mem_LastResultSummary m)\<rparr>"
    using assms memory_wf_named [OF wf] fits_severity [OF wf [unfolded memory_wf_def]]
    by (intro memory_roundtrip) (simp_all add: storable_def)
  then show ?thesis by (simp add: same_machine_def)
qed

subsection \<open>Evaluations of one target\<close>

text \<open>A transaction that returns has run its body once, on the data it found.\<close>

lemma evaluation_runs:
  assumes "evaluateMaybeTransactional nodeID sql_rule_store r target obs now w = (Inr x, w1)"
  obtains w0 w2 where "data w0 = data w" "wall w0 = wall w"
    "evaluateRuleTarget nodeID tx_rules r target obs now w0 = (Inr x, w2)" "data w1 = data w2"
proof -
  from assms have "RuleEvaluationTransaction (evaluateRuleTarget nodeID tx_rules r target obs now) w = (Inr x, w1)"
    by (simp add: evaluateMaybeTransactional_def sql_rule_store_def)
  then have "transaction (wrapError ''rule evaluation transaction begin'' ErrorClassWrite)
      (wrapError ''rule evaluation transaction commit'' ErrorClassWrite)
      (evaluateRuleTarget nodeID tx_rules r target obs now) w = (Inr x, w1)"
    by (auto simp: RuleEvaluationTransaction_def andThen_Inr_iff dest!: database_handle_cases)
  then show thesis by (rule transaction_Inr) (rule that)
qed

text \<open>The incident a candidate leaves behind.\<close>

lemma candidate_outcome:
  assumes "incident_step ident fp x tm (incident_view d fp) = (a, existing')" "tr_Fingerprint t = fp"
    "case existing' of None \<Rightarrow> incident_view d1 = incident_view d
     | Some i \<Rightarrow> incident_view d1 fp = Some (stored_incident later i) \<and> Q i"
  shows "incident_open (incident_view d1 (tr_Fingerprint t)) = cand_Active x"
proof (cases existing')
  case None
  with assms(1) have "incident_view d fp = None" "\<not> cand_Active x"
    by (auto simp: incident_step_def split: option.splits if_splits)
  with None assms show ?thesis by simp
next
  case (Some i)
  with assms incident_step_counts(1) [OF assms(1) [unfolded Some]] show ?thesis by simp
qed

text \<open>
  C2: What an evaluation of a target does in the database, it does at once: if it fails, nothing has
  changed; if it succeeds, the memory of its decision is stored, and the incident of the candidate it
  raised, if any, is open exactly if the candidate is active.
\<close>

theorem evaluation_at_once:
  "case decide r target obs now (memory_in (rule_state_view (data w) (ru_ID r) target)) of
     (matched, m, c, res0) \<Rightarrow>
       (case evaluateMaybeTransactional nodeID sql_rule_store r target obs now w of
          (Inl e, w1) \<Rightarrow> data w1 = data w
        | (Inr (res, got), w1) \<Rightarrow>
            rule_state_view (data w1) (Redact (ru_ID r)) (Redact target) =
              Some (stored_rule (wall w) (record_of_memory (ru_ID r) target m)) \<and>
            (case c of
               None \<Rightarrow> got = None \<and> incident_view (data w1) = incident_view (data w)
             | Some x \<Rightarrow>
                 \<exists>t. got = Some t \<and> Fingerprint nodeID (cand_Type x) (cand_Target x) (cand_Condition x) = Inr (tr_Fingerprint t) \<and>
                     incident_open (incident_view (data w1) (tr_Fingerprint t)) = cand_Active x))"
proof -
  obtain matched m c res0 where d:
    "decide r target obs now (memory_in (rule_state_view (data w) (ru_ID r) target)) = (matched, m, c, res0)"
    using prod_cases4 by blast
  obtain y w1 where run: "evaluateMaybeTransactional nodeID sql_rule_store r target obs now w = (y, w1)" by fastforce
  show ?thesis
  proof (cases y)
    case (Inl e)
    with run d failure_atomicD [OF failure_atomic_evaluation] show ?thesis by auto
  next
    case (Inr rg)
    obtain res got where rg: "rg = (res, got)" by fastforce
    obtain w0 w2 where body: "data w0 = data w" "wall w0 = wall w"
        "evaluateRuleTarget nodeID tx_rules r target obs now w0 = (Inr (res, got), w2)" "data w1 = data w2"
      by (rule evaluation_runs [OF run [unfolded Inr rg]])
    note laws = sqltx.evaluateRuleTarget_refines [OF body(3) [unfolded tx_rules_def tx_incidents_def] d [folded body(1)]]
    have "\<exists>t. got = Some t \<and> Fingerprint nodeID (cand_Type x) (cand_Target x) (cand_Condition x) = Inr (tr_Fingerprint t) \<and>
        incident_open (incident_view (data w1) (tr_Fingerprint t)) = cand_Active x" if c: "c = Some x" for x
    proof -
      obtain t fp ident a existing' where t: "got = Some t"
          "tr_Fingerprint t = fp"
        and step: "incident_step ident fp (x\<lparr>cand_NodeID := nodeID\<rparr>) (candidate_time (Some now) x (wall w0))
          (incident_view (data w0) fp) = (a, existing')"
        and fp: "Fingerprint nodeID (cand_Type x) (cand_Target x) (cand_Condition x) = Inr fp"
        and after: "case existing' of None \<Rightarrow> incident_view (data w2) = incident_view (data w0)
          | Some i \<Rightarrow> incident_view (data w2) fp = Some (stored_incident (wall w0) i) \<and>
              (\<not> incident_clash (data w0) i \<longrightarrow> (\<forall>g. g \<noteq> fp \<longrightarrow> incident_view (data w2) g = incident_view (data w0) g))"
        using laws(4) [OF c] by blast
      show ?thesis
        using candidate_outcome [OF step t(2) after] t fp body(4) by simp
    qed
    with run Inr rg d laws(1,3) body show ?thesis by (auto split: option.split)
  qed
qed


subsection \<open>Runs\<close>

text \<open>The evaluations of one rule and target, one after the other, failed ones included.\<close>

fun evaluation_run ::
    "string \<Rightarrow> Rule \<Rightarrow> string \<Rightarrow> (Observation list \<times> instant) list \<Rightarrow> database world \<Rightarrow> database world" where
  "evaluation_run nodeID r target [] w = w"
| "evaluation_run nodeID r target ((obs, now) # runs) w =
     evaluation_run nodeID r target runs
       (snd (evaluateMaybeTransactional nodeID sql_rule_store r target obs now w))"

text \<open>The memory the database holds is what the machine reaches through the history, up to its summary.\<close>

definition memory_follows :: "Rule \<Rightarrow> string \<Rightarrow> database \<Rightarrow> event list \<Rightarrow> bool" where
  "memory_follows r target d h \<longleftrightarrow>
     same_machine (memory_in (rule_state_view d (ru_ID r) target)) (memory_after r target h) \<and>
     storable (memory_after r target h) \<and> plausible h"

lemma same_machine_wf:
  assumes "same_machine m m'" "memory_wf m'"
  shows "memory_wf m"
proof -
  have "memory_wf (m'\<lparr>mem_LastResultSummary := x\<rparr>) = memory_wf m'" for x
    by (simp add: memory_wf_def)
  with assms show ?thesis unfolding same_machine_def by metis
qed

lemma same_machine_refl: "same_machine m m"
  by (simp add: same_machine_def)

lemma memory_follows_initial: "rule_state_view d (ru_ID r) target = None \<Longrightarrow> memory_follows r target d []"
  by (simp add: memory_follows_def memory_in_def memory_after_def storable_initial same_machine_refl plausible_def)

lemma plausible_add:
  "plausible h \<Longrightarrow> admissible ev \<Longrightarrow> \<forall>x \<in> set h. event_time x \<le> event_time ev \<Longrightarrow> plausible (h @ [ev])"
  by (auto simp: plausible_def admissible_def sorted_append)

lemma evaluation_follows:
  assumes "memory_follows r target (data w) h" "\<forall>x \<in> set h. event_time x \<le> now" "now \<noteq> 0"
    "Redact (ru_ID r) = ru_ID r" "Redact target = target"
    "evaluateMaybeTransactional nodeID sql_rule_store r target obs now w = (x, w1)"
  shows "\<exists>evs. length evs \<le> 1 \<and> (\<forall>ev \<in> set evs. event_time ev = now) \<and> memory_follows r target (data w1) (h @ evs)"
proof (cases x)
  case (Inl e)
  with assms(6) have "data w1 = data w" using failure_atomicD [OF failure_atomic_evaluation] by simp
  with assms(1) show ?thesis by (intro exI [of _ "[]"]) simp
next
  case (Inr rg)
  obtain res got where rg: "rg = (res, got)" by fastforce
  obtain w0 w2 where body: "data w0 = data w" "wall w0 = wall w"
      "evaluateRuleTarget nodeID tx_rules r target obs now w0 = (Inr (res, got), w2)" "data w1 = data w2"
    by (rule evaluation_runs [OF assms(6) [unfolded Inr rg]])
  let ?held = "memory_in (rule_state_view (data w0) (ru_ID r) target)" and ?m = "memory_after r target h"
  have held: "same_machine ?held ?m" "storable ?m" "plausible h"
    using assms(1) body(1) by (simp_all add: memory_follows_def)
  then have "memory_wf ?held" using same_machine_wf by (simp add: storable_def)
  obtain matched m c res0 where d: "decide r target obs now ?held = (matched, m, c, res0)"
    using prod_cases4 by blast
  obtain ev where ev: "m = fst (event_step r target ?held ev)" "event_time ev = now" "admissible ev"
    using decide_takes_step [OF \<open>memory_wf ?held\<close>, of r target now obs] d by (auto simp: takes_step_def)
  then have m: "m = memory_after r target (h @ [ev])"
    using same_machine_step [OF held(1)] by (simp add: memory_after_snoc)
  have "rule_state_view (data w1) (ru_ID r) target = Some (stored_rule (wall w0) (record_of_memory (ru_ID r) target m))"
    using sqltx.evaluateRuleTarget_refines(1) [OF body(3) [unfolded tx_rules_def tx_incidents_def] d] assms(4,5) body(4)
    by simp
  moreover have "storable m" "mem_LastEvaluatedAt m = now"
    using storable_step [OF held(2) ev(3)] ev(2) assms(3) m by (auto simp: memory_after_snoc)
  ultimately have "memory_follows r target (data w1) (h @ [ev])"
    using storable_back [of m "wall w0" "ru_ID r" target] assms(2,3) plausible_add [OF held(3) ev(3)] ev(2) m
    by (simp add: memory_follows_def)
  with ev(2) show ?thesis by (intro exI [of _ "[ev]"]) simp
qed

lemma evaluation_run_follows:
  assumes "Redact (ru_ID r) = ru_ID r" "Redact target = target"
  shows "memory_follows r target (data w) h \<Longrightarrow> \<forall>x \<in> set h. \<forall>t \<in> snd ` set runs. event_time x \<le> t \<Longrightarrow>
    sorted (map snd runs) \<Longrightarrow> 0 \<notin> snd ` set runs \<Longrightarrow>
    \<exists>evs. length evs \<le> length runs \<and> memory_follows r target (data (evaluation_run nodeID r target runs w)) (h @ evs)"
proof (induction runs arbitrary: w h)
  case (Cons run runs)
  obtain obs now where run: "run = (obs, now)" by fastforce
  obtain x w1 where step: "evaluateMaybeTransactional nodeID sql_rule_store r target obs now w = (x, w1)" by fastforce
  obtain ev where ev: "length ev \<le> 1" "\<forall>x \<in> set ev. event_time x = now" "memory_follows r target (data w1) (h @ ev)"
    using evaluation_follows [OF Cons.prems(1) _ _ assms step] Cons.prems(2,4) run by auto
  have "\<forall>x \<in> set (h @ ev). \<forall>t \<in> snd ` set runs. event_time x \<le> t"
    using Cons.prems(2,3) ev(2) run by auto
  from Cons.IH [OF ev(3) this] Cons.prems(3,4) obtain evs where
    "length evs \<le> length runs" "memory_follows r target (data (evaluation_run nodeID r target runs w1)) ((h @ ev) @ evs)"
    by auto
  with ev(1) step run show ?case by (intro exI [of _ "ev @ evs"]) simp
qed (auto intro: exI [of _ "[]"])

text \<open>
  C3: Starting from a target the database knows nothing of, and whichever evaluations fail, the
  memory the database holds for a rule and target is the one the state machine reaches through some
  history of at most as many judgements, with non-decreasing times; in particular it is well-formed.
\<close>

theorem stored_memory_reachable:
  assumes "Redact (ru_ID r) = ru_ID r" "Redact target = target" "rule_state_view (data w) (ru_ID r) target = None"
    "sorted (map snd runs)" "0 \<notin> snd ` set runs"
  shows "\<exists>h. length h \<le> length runs \<and> plausible h \<and> memory_wf (memory_after r target h) \<and>
    same_machine (memory_in (rule_state_view (data (evaluation_run nodeID r target runs w)) (ru_ID r) target))
      (memory_after r target h)"
  using evaluation_run_follows [OF assms(1,2) memory_follows_initial [OF assms(3)], of runs nodeID] assms(4,5)
  by (auto simp: memory_follows_def storable_def)

definition example_runs :: "(Observation list \<times> instant) list" where
  "example_runs = [([example_observation (Fin 7)], 1), ([], 2)]"

theorem stored_memory_reachable_witness:
  "\<exists>h. length h \<le> length example_runs \<and> plausible h \<and> memory_wf (memory_after example_rule ''s'' h) \<and>
    same_machine (memory_in (rule_state_view
        (data (evaluation_run ''n'' example_rule ''s'' example_runs quiet_world)) (ru_ID example_rule) ''s''))
      (memory_after example_rule ''s'' h)"
  by (rule stored_memory_reachable)
     (simp_all add: example_rule_def example_runs_def plain_text_def quiet_world_def empty_database_def
       rule_state_view_def get_row_def)

end
