(* ===== verification/Go_Time.thy ===== *)
theory Go_Time
  imports Storage
begin

text \<open>
  The RFC 3339 text of an instant, \<open>t.Format(time.RFC3339Nano)\<close> in UTC: the civil date of the
  proleptic Gregorian calendar from the days since 1 January of year 1, the time of day, and the
  fraction without trailing zeros.
\<close>

text \<open>Year and day of the year, by cycles of 400, 100, 4 and 1 years.\<close>

definition civil_year :: "int \<Rightarrow> int \<times> int" where
  "civil_year d =
     (let n400 = d div 146097; r400 = d mod 146097;
          n100 = min 3 (r400 div 36524); r100 = r400 - n100 * 36524;
          n4 = r100 div 1461; r4 = r100 mod 1461;
          n1 = min 3 (r4 div 365)
      in (400 * n400 + 100 * n100 + 4 * n4 + n1 + 1, r4 - 365 * n1))"

definition leap_year :: "int \<Rightarrow> bool" where
  "leap_year y \<longleftrightarrow> y mod 4 = 0 \<and> (y mod 100 \<noteq> 0 \<or> y mod 400 = 0)"

definition month_lengths :: "int \<Rightarrow> int list" where
  "month_lengths y = [31, if leap_year y then 29 else 28, 31, 30, 31, 30, 31, 31, 30, 31, 30, 31]"

fun month_day :: "int list \<Rightarrow> int \<Rightarrow> int \<Rightarrow> int \<times> int" where
  "month_day [] m d = (m, d + 1)"
| "month_day (l # ls) m d = (if d < l \<or> ls = [] then (m, d + 1) else month_day ls (m + 1) (d - l))"

text \<open>A year has at least four digits, after a sign when it is before the year 0.\<close>

definition year_text :: "int \<Rightarrow> string" where
  "year_text y =
     (let n = nat (abs y); ds = (if n < 10000 then digits 4 n else nat_text n) in if y < 0 then ''-'' @ ds else ds)"

definition rfc3339 :: "instant \<Rightarrow> string" where
  "rfc3339 t =
     (let s = t div second; (y, yd) = civil_year (s div 86400); (m, d) = month_day (month_lengths y) 1 yd;
          tod = s mod 86400
      in year_text y @ ''-'' @ digits 2 (nat m) @ ''-'' @ digits 2 (nat d) @ ''T'' @
         digits 2 (nat (tod div 3600)) @ '':'' @ digits 2 (nat (tod div 60 mod 60)) @ '':'' @
         digits 2 (nat (tod mod 60)) @ fraction_text (nat (t mod second)))"

end
