(* ===== verification/Go_Path.thy ===== *)
theory Go_Path
  imports Go_Prelude
begin

text \<open>
  The lexical part of \<open>path/filepath\<close> on Unix, by path elements: \<open>Clean\<close>, \<open>Join\<close>,
  \<open>Rel\<close>, \<open>IsAbs\<close> and \<open>Base\<close>.
\<close>

subsection \<open>Elements\<close>

abbreviation slash :: char where "slash \<equiv> CHR ''/''"

definition dot :: string where "dot = ''.''"
definition dotdot :: string where "dotdot = ''..''"

lemma dots_distinct [simp]:
  "dot \<noteq> dotdot" "dotdot \<noteq> dot" "dot \<noteq> []" "dotdot \<noteq> []" "slash \<notin> set dot" "slash \<notin> set dotdot"
  by (simp_all add: dot_def dotdot_def)

definition IsAbs :: "string \<Rightarrow> bool" where
  "IsAbs p \<longleftrightarrow> prefix ''/'' p"

lemma IsAbs_iff: "IsAbs p \<longleftrightarrow> (\<exists>q. p = slash # q)"
  by (cases p) (auto simp: IsAbs_def)

subsection \<open>Clean\<close>

text \<open>One element onto the reversed result: an empty element or a dot is dropped, dot-dot backs up.\<close>

definition clean_element :: "bool \<Rightarrow> string \<Rightarrow> string list \<Rightarrow> string list" where
  "clean_element rooted x stack =
     (if x = [] \<or> x = dot then stack
      else if x = dotdot then
        (case stack of
           [] \<Rightarrow> if rooted then [] else [dotdot]
         | y # ys \<Rightarrow> if y = dotdot then dotdot # stack else ys)
      else x # stack)"

definition clean_elements :: "bool \<Rightarrow> string list \<Rightarrow> string list" where
  "clean_elements rooted xs = rev (fold (clean_element rooted) xs [])"

definition Clean :: "string \<Rightarrow> string" where
  "Clean p =
     (let rooted = IsAbs p; xs = clean_elements rooted (split_on slash p) in
      if rooted then slash # join_with ''/'' xs
      else if xs = [] then dot else join_with ''/'' xs)"

text \<open>The elements of a cleaned path: plain ones, after some dot-dots when it is relative.\<close>

definition plain_element :: "string \<Rightarrow> bool" where
  "plain_element x \<longleftrightarrow> x \<noteq> [] \<and> x \<noteq> dot \<and> x \<noteq> dotdot \<and> slash \<notin> set x"

fun clean_stack :: "bool \<Rightarrow> string list \<Rightarrow> bool" where
  "clean_stack rooted [] = True"
| "clean_stack rooted (x # xs) =
     (if x = dotdot then \<not> rooted \<and> list_all (\<lambda>y. y = dotdot) xs
      else plain_element x \<and> clean_stack rooted xs)"

lemma clean_stack_dotdots: "\<not> rooted \<Longrightarrow> list_all (\<lambda>y. y = dotdot) xs \<Longrightarrow> clean_stack rooted xs"
  by (cases xs) auto

lemma clean_element_stack:
  "slash \<notin> set x \<Longrightarrow> clean_stack rooted st \<Longrightarrow> clean_stack rooted (clean_element rooted x st)"
  by (cases st) (auto simp: clean_element_def plain_element_def)

lemma fold_clean_stack:
  "\<forall>x \<in> set xs. slash \<notin> set x \<Longrightarrow> clean_stack rooted st \<Longrightarrow>
   clean_stack rooted (fold (clean_element rooted) xs st)"
  by (induction xs arbitrary: st) (auto simp: clean_element_stack)

lemma clean_stack_elements: "clean_stack rooted st \<Longrightarrow> x \<in> set st \<Longrightarrow> plain_element x \<or> x = dotdot \<and> \<not> rooted"
  by (induction rooted st rule: clean_stack.induct) (auto simp: list_all_iff split: if_splits)

lemma clean_elements_plain:
  assumes "x \<in> set (clean_elements rooted (split_on slash p))"
  shows "plain_element x \<or> x = dotdot \<and> \<not> rooted"
proof -
  have "clean_stack rooted (fold (clean_element rooted) (split_on slash p) [])"
    by (rule fold_clean_stack) (auto dest: split_on_elements)
  with assms show ?thesis by (auto simp: clean_elements_def dest: clean_stack_elements)
qed

lemma clean_elements_free: "\<forall>x \<in> set (clean_elements rooted (split_on slash p)). slash \<notin> set x"
proof
  fix x
  assume "x \<in> set (clean_elements rooted (split_on slash p))"
  then have "plain_element x \<or> x = dotdot \<and> \<not> rooted" by (rule clean_elements_plain)
  then show "slash \<notin> set x" by (auto simp: plain_element_def)
qed

lemma plain_elementD: "plain_element x \<or> x = dotdot \<and> b \<Longrightarrow> x \<noteq> [] \<and> x \<noteq> dot \<and> slash \<notin> set x"
  by (auto simp: plain_element_def)

text \<open>What the elements of a cleaned path are.\<close>

lemma split_Clean_relative:
  assumes "\<not> IsAbs p" "Clean p \<noteq> dot"
  shows "split_on slash (Clean p) = clean_elements False (split_on slash p)"
proof -
  let ?xs = "clean_elements False (split_on slash p)"
  have xs: "?xs \<noteq> []" using assms by (auto simp: Clean_def Let_def)
  then have "Clean p = join_with ''/'' ?xs" using assms by (simp add: Clean_def Let_def)
  with xs show ?thesis using split_join [OF _ clean_elements_free, of False p] by simp
qed

lemma split_Clean_rooted:
  assumes "IsAbs p" "clean_elements True (split_on slash p) \<noteq> []"
  shows "split_on slash (Clean p) = [] # clean_elements True (split_on slash p)"
proof -
  let ?xs = "clean_elements True (split_on slash p)"
  have "Clean p = slash # join_with ''/'' ?xs" using assms by (simp add: Clean_def Let_def)
  with assms(2) show ?thesis using split_join [OF _ clean_elements_free, of True p] by simp
qed

lemma IsAbs_Clean [simp]: "IsAbs (Clean p) = IsAbs p"
proof (cases "IsAbs p")
  case True
  then show ?thesis by (simp add: Clean_def Let_def IsAbs_iff)
next
  case False
  show ?thesis
  proof (cases "Clean p = dot")
    case True
    with False show ?thesis by (simp add: IsAbs_def dot_def)
  next
    case other: False
    have "hd (split_on slash (Clean p)) \<noteq> []"
      using split_Clean_relative [OF False other] clean_elements_plain [of _ False p] plain_elementD
      by (metis hd_in_set split_on_not_Nil)
    with False show ?thesis by (auto simp: IsAbs_iff)
  qed
qed

subsection \<open>Relative paths and joins\<close>

definition path_elements :: "string \<Rightarrow> string list" where
  "path_elements p = filter (\<lambda>x. x \<noteq> []) (split_on slash p)"

fun strip_common :: "string list \<Rightarrow> string list \<Rightarrow> string list \<times> string list" where
  "strip_common (x # xs) (y # ys) = (if x = y then strip_common xs ys else (x # xs, y # ys))"
| "strip_common xs ys = (xs, ys)"

text \<open>\<open>None\<close> is the error that the target cannot be reached from the base.\<close>

definition Rel :: "string \<Rightarrow> string \<Rightarrow> string option" where
  "Rel basepath targpath =
     (let base = Clean basepath; targ = Clean targpath in
      if base = targ then Some dot
      else
        (let base1 = (if base = dot then [] else base) in
         if IsAbs base1 \<noteq> IsAbs targ then None
         else
           (case strip_common (path_elements base1) (path_elements targ) of
              ([], ts) \<Rightarrow> Some (join_with ''/'' ts)
            | (b # bs, ts) \<Rightarrow>
                if b = dotdot then None
                else Some (join_with ''/'' (replicate (length (b # bs)) dotdot @ ts)))))"

definition Join :: "string list \<Rightarrow> string" where
  "Join parts =
     (let rest = dropWhile (\<lambda>x. x = []) parts in
      if rest = [] then [] else Clean (join_with ''/'' rest))"

text \<open>\<open>filepath.Base\<close>: the last element, without trailing slashes.\<close>

definition Base :: "string \<Rightarrow> string" where
  "Base p =
     (if p = [] then dot
      else
        (let q = rev (dropWhile (\<lambda>c. c = slash) (rev p)) in
         if q = [] then ''/'' else last (split_on slash q)))"

lemma strip_common_split:
  "strip_common xs ys = (as, bs) \<Longrightarrow> \<exists>cs. xs = cs @ as \<and> ys = cs @ bs \<and> (as \<noteq> [] \<longrightarrow> bs \<noteq> [] \<longrightarrow> hd as \<noteq> hd bs)"
proof (induction xs ys arbitrary: as bs rule: strip_common.induct)
  case (1 x xs y ys)
  show ?case
  proof (cases "x = y")
    case True
    with 1 obtain cs where "xs = cs @ as" "ys = cs @ bs" "as \<noteq> [] \<longrightarrow> bs \<noteq> [] \<longrightarrow> hd as \<noteq> hd bs" by auto
    with True show ?thesis by (intro exI [of _ "x # cs"]) simp
  next
    case False
    with 1 show ?thesis by (intro exI [of _ "[]"]) auto
  qed
qed auto

lemma path_elements_Clean_rooted:
  "IsAbs p \<Longrightarrow> path_elements (Clean p) = clean_elements True (split_on slash p)"
proof (cases "clean_elements True (split_on slash p) = []")
  case True
  assume "IsAbs p"
  with True show ?thesis by (simp add: path_elements_def Clean_def Let_def)
next
  case False
  assume "IsAbs p"
  with split_Clean_rooted [OF this False] show ?thesis
    using clean_elements_plain [of _ True p] by (auto simp: path_elements_def filter_id_conv plain_element_def)
qed

text \<open>Cleaning twice is cleaning once.\<close>

lemma fold_clean_rev: "clean_stack rooted st \<Longrightarrow> fold (clean_element rooted) (rev st) [] = st"
proof (induction st)
  case (Cons x st)
  then have "clean_stack rooted st"
    using clean_stack_dotdots [of rooted st] by (auto split: if_splits)
  with Cons show ?case
    by (cases st) (auto simp: clean_element_def plain_element_def split: if_splits)
qed simp

lemma clean_elements_fixed:
  "clean_elements rooted (clean_elements rooted (split_on slash p)) = clean_elements rooted (split_on slash p)"
proof -
  have "clean_stack rooted (fold (clean_element rooted) (split_on slash p) [])"
    by (rule fold_clean_stack) (auto dest: split_on_elements)
  then show ?thesis unfolding clean_elements_def by (simp add: fold_clean_rev)
qed

lemma clean_elements_leading_empty [simp]: "clean_elements rooted ([] # xs) = clean_elements rooted xs"
  by (simp add: clean_elements_def clean_element_def)

lemma Clean_idem [simp]: "Clean (Clean p) = Clean p"
proof (cases "IsAbs p")
  case True
  show ?thesis
  proof (cases "clean_elements True (split_on slash p) = []")
    case True
    then have "Clean p = ''/''" using \<open>IsAbs p\<close> by (simp add: Clean_def Let_def)
    then show ?thesis by (simp add: Clean_def Let_def IsAbs_def clean_elements_def clean_element_def)
  next
    case False
    then have "clean_elements True (split_on slash (Clean p)) = clean_elements True (split_on slash p)"
      using split_Clean_rooted [OF True False] by (simp add: clean_elements_fixed)
    with True have "Clean (Clean p) = slash # join_with ''/'' (clean_elements True (split_on slash p))"
      by (simp only: Clean_def [of "Clean p"] Let_def IsAbs_Clean simp_thms if_True)
    with True show ?thesis by (simp add: Clean_def [of p] Let_def)
  qed
next
  case False
  show ?thesis
  proof (cases "Clean p = dot")
    case True
    moreover have "Clean dot = dot"
      by (simp add: Clean_def Let_def IsAbs_def dot_def clean_elements_def clean_element_def)
    ultimately show ?thesis by simp
  next
    case other: False
    then have "clean_elements False (split_on slash (Clean p)) = clean_elements False (split_on slash p)"
      using split_Clean_relative [OF False] by (simp add: clean_elements_fixed)
    then have "Clean (Clean p) =
        (if clean_elements False (split_on slash p) = [] then dot
         else join_with ''/'' (clean_elements False (split_on slash p)))"
      using False by (simp only: Clean_def [of "Clean p"] Let_def IsAbs_Clean simp_thms if_False)
    with False show ?thesis by (simp add: Clean_def [of p] Let_def)
  qed
qed

text \<open>Between rooted paths: the target continues the base, or the way leads up first.\<close>

lemma Rel_rooted:
  assumes "IsAbs b" "IsAbs t" "Rel b t = Some rel"
  shows "(rel = dot \<and> Clean b = Clean t) \<or>
    (\<exists>rest. path_elements (Clean t) = path_elements (Clean b) @ rest \<and> rel = join_with ''/'' rest) \<or>
    (\<exists>n ts. rel = join_with ''/'' (replicate (Suc n) dotdot @ ts))"
proof (cases "Clean b = Clean t")
  case False
  have "Clean b \<noteq> dot" using assms(1) IsAbs_Clean [of b] by (auto simp: IsAbs_iff dot_def simp del: IsAbs_Clean)
  obtain as bs where strip: "strip_common (path_elements (Clean b)) (path_elements (Clean t)) = (as, bs)" by fastforce
  from strip_common_split [OF this] obtain cs where
    "path_elements (Clean b) = cs @ as" "path_elements (Clean t) = cs @ bs" by blast
  with assms False \<open>Clean b \<noteq> dot\<close> strip show ?thesis
    by (cases as) (auto simp: Rel_def Let_def split: if_splits)
qed (use assms in \<open>auto simp: Rel_def\<close>)

end
