(* ===== verification/Storage_Path.thy ===== *)
theory Storage_Path
  imports Go_Path Redaction
begin

text \<open>
  \<open>internal/storage/path.go\<close>, the part that decides on names: which evidence paths may leave
  the process, joining under a base directory, plain file names and path segments. The walk over
  the file system (\<open>ensureDirNoSymlink\<close>) is not here. Whether \<open>net/url\<close> finds a
  scheme in a text is the parameter \<open>has_scheme\<close>; nothing depends on its value.
\<close>

definition containsControl :: "string \<Rightarrow> bool" where
  "containsControl value \<longleftrightarrow> list_ex (\<lambda>c. byte c < 32 \<or> byte c = 127) value"

definition relEscapes :: "string \<Rightarrow> bool" where
  "relEscapes rel \<longleftrightarrow>
     rel = dotdot \<or> IsAbs rel \<or> prefix ''../'' rel \<or> contains_sub rel ''/../'' \<or> suffix ''/..'' rel"

definition SafeEvidencePath :: "(string \<Rightarrow> bool) \<Rightarrow> string \<Rightarrow> string \<Rightarrow> string" where
  "SafeEvidencePath has_scheme path root =
     (let path = trim_space path in
      if path = [] \<or> contains_sub path Replacement \<or> Redact path \<noteq> path \<or> containsControl path then []
      else if has_scheme path then []
      else
        (let root = trim_space root;
             finish = (\<lambda>toClean.
               if relEscapes toClean then []
               else
                 (let clean = Clean toClean in
                  if clean = dot \<or> clean = dotdot \<or> IsAbs clean then []
                  else if relEscapes clean then [] else clean))
         in if IsAbs path then
              (if root = [] \<or> containsControl root then []
               else (case Rel (Clean root) (Clean path) of
                       None \<Rightarrow> []
                     | Some rel \<Rightarrow> if rel = dot \<or> relEscapes rel then [] else finish rel))
            else finish path))"

definition secureJoin :: "string \<Rightarrow> string list \<Rightarrow> string + string" where
  "secureJoin base parts =
     (if base = [] then Inl ''base path is required''
      else if \<not> IsAbs base then Inl ''base path must be absolute''
      else
        (let cleanBase = Clean base; joined = Join (cleanBase # parts) in
         case Rel cleanBase joined of
           None \<Rightarrow> Inl (''Rel: can'' @ [CHR 0x27] @ ''t make '' @ joined @ '' relative to '' @ cleanBase)
         | Some rel \<Rightarrow>
             if rel = dot then Inr joined
             else if prefix ''../'' rel \<or> rel = dotdot \<or> IsAbs rel then Inl ''path escapes base directory''
             else Inr joined))"

definition validatePlainFilename :: "string \<Rightarrow> string option" where
  "validatePlainFilename name =
     (if name = [] then Some ''filename is required''
      else if IsAbs name \<or> Base name \<noteq> name \<or> name = dot \<or> name = dotdot
        then Some ''filename must be a plain relative filename''
      else None)"

text \<open>A rune outside the safe set becomes one underscore, however many bytes it has.\<close>

definition segment_char :: "char \<Rightarrow> bool" where
  "segment_char c \<longleftrightarrow>
     97 \<le> byte c \<and> byte c \<le> 122 \<or> 65 \<le> byte c \<and> byte c \<le> 90 \<or> 48 \<le> byte c \<and> byte c \<le> 57 \<or>
     c \<in> set ''.-_:''"

definition segment_rune :: "string \<Rightarrow> char" where
  "segment_rune r = (case r of [c] \<Rightarrow> if segment_char c then c else CHR ''_'' | _ \<Rightarrow> CHR ''_'')"

definition trim_dots :: "string \<Rightarrow> string" where
  "trim_dots s = rev (dropWhile (\<lambda>c. c = CHR ''.'') (rev (dropWhile (\<lambda>c. c = CHR ''.'') s)))"

definition sanitizeSegment :: "string \<Rightarrow> string + string" where
  "sanitizeSegment value =
     (if value = [] then Inl ''value is required''
      else
        (let out = trim_space (trim_dots (map segment_rune (runes value))) in
         if out = [] \<or> out = dot \<or> out = dotdot then Inl ''value does not contain a safe path segment''
         else Inr out))"

subsection \<open>No path escapes\<close>

lemma split_on_dotdot_prefix: "prefix ''../'' s \<Longrightarrow> dotdot \<in> set (split_on slash s)"
  by (auto simp: prefix_def dotdot_def)

lemma split_on_append_slash: "split_on c (x @ c # y) = split_on c x @ split_on c y"
proof (induction x)
  case (Cons a x)
  obtain b bs where "split_on c x = b # bs" using split_on_not_Nil [of c x] by (cases "split_on c x") auto
  with Cons show ?case by auto
qed simp

lemma join_with_slash_snoc: "xs \<noteq> [] \<Longrightarrow> join_with [c] (xs @ [x]) = join_with [c] xs @ c # x"
  by (induction "[c]" xs rule: join_with.induct) auto

lemma join_with_append:
  "xs \<noteq> [] \<Longrightarrow> ys \<noteq> [] \<Longrightarrow> join_with [c] (xs @ ys) = join_with [c] xs @ c # join_with [c] ys"
  by (induction "[c]" xs rule: join_with.induct) (auto simp: neq_Nil_conv)

text \<open>The textual tests of \<open>relEscapes\<close> find exactly the paths with a dot-dot element.\<close>

lemma relEscapes_iff: "relEscapes s \<longleftrightarrow> IsAbs s \<or> dotdot \<in> set (split_on slash s)"
proof
  assume "relEscapes s"
  then consider "s = dotdot" | "IsAbs s" | r where "s = ''../'' @ r" | a b where "s = a @ ''/../'' @ b"
    | a where "s = a @ ''/..''"
    by (auto simp: relEscapes_def prefix_def suffix_def contains_sub_iff)
  then show "IsAbs s \<or> dotdot \<in> set (split_on slash s)"
  proof cases
    case 4
    then have "s = a @ slash # (dotdot @ slash # b)" by (simp add: dotdot_def)
    then have "split_on slash s = split_on slash a @ split_on slash dotdot @ split_on slash b"
      by (simp only: split_on_append_slash)
    then show ?thesis by (simp add: split_on_free)
  next
    case 5
    then have "s = a @ slash # dotdot" by (simp add: dotdot_def)
    then have "split_on slash s = split_on slash a @ split_on slash dotdot"
      by (simp only: split_on_append_slash)
    then show ?thesis by (simp add: split_on_free)
  qed (auto simp: split_on_free dotdot_def)
next
  assume "IsAbs s \<or> dotdot \<in> set (split_on slash s)"
  moreover have "relEscapes s" if "dotdot \<in> set (split_on slash s)"
  proof -
    from that obtain xs ys where split: "split_on slash s = xs @ dotdot # ys" by (auto simp: in_set_conv_decomp)
    then have s: "s = join_with [slash] (xs @ dotdot # ys)" using join_split [of slash s] by simp
    show ?thesis
    proof (cases "xs = []")
      case True
      with s show ?thesis
        by (cases ys) (auto simp: relEscapes_def dotdot_def prefix_def)
    next
      case False
      have s2: "s = join_with [slash] xs @ slash # join_with [slash] (dotdot # ys)"
        using join_with_append [OF False, of "dotdot # ys" slash] s by simp
      show ?thesis
      proof (cases "ys = []")
        case True
        with s2 have "suffix ''/..'' s" by (auto simp: suffix_def dotdot_def)
        then show ?thesis by (simp add: relEscapes_def)
      next
        case ys: False
        with s2 have "s = join_with [slash] xs @ ''/../'' @ join_with [slash] ys"
          by (cases ys) (auto simp: dotdot_def)
        then show ?thesis by (auto simp: relEscapes_def contains_sub_iff)
      qed
    qed
  qed
  ultimately show "relEscapes s" by (auto simp: relEscapes_def)
qed

lemma finish_safe:
  assumes "\<not> relEscapes toClean" "Clean toClean \<noteq> dot" "\<not> relEscapes (Clean toClean)"
  shows "list_all plain_element (split_on slash (Clean toClean)) \<and> \<not> IsAbs (Clean toClean)"
proof -
  have "\<not> IsAbs toClean" using assms(1) by (simp add: relEscapes_def)
  with assms(2) have split: "split_on slash (Clean toClean) = clean_elements False (split_on slash toClean)"
    using split_Clean_relative [OF \<open>\<not> IsAbs toClean\<close>] by blast
  then have "plain_element x" if "x \<in> set (split_on slash (Clean toClean))" for x
    using that clean_elements_plain [of x False toClean] assms(3) by (auto simp: relEscapes_iff)
  with assms(3) show ?thesis by (auto simp: list_all_iff relEscapes_def)
qed

lemma SafeEvidencePath_shown:
  assumes "SafeEvidencePath has_scheme path root = r" "r \<noteq> []"
  shows "list_all plain_element (split_on slash r) \<and> \<not> IsAbs r"
  using assms finish_safe
  by (auto simp: SafeEvidencePath_def Let_def split: if_splits option.splits)

text \<open>
  An evidence path that is shown is empty, or a relative path made of plain elements (none of
  them empty, dot or dot-dot), whatever the stored path and root are: it names something below the root.
\<close>

theorem SafeEvidencePath_safe:
  "SafeEvidencePath has_scheme path root = [] \<or>
   list_all plain_element (split_on slash (SafeEvidencePath has_scheme path root)) \<and>
   \<not> IsAbs (SafeEvidencePath has_scheme path root)"
  using SafeEvidencePath_shown [OF refl] by blast

lemma join_dotdots_escape:
  "rel = join_with ''/'' (replicate (Suc n) dotdot @ ts) \<Longrightarrow> rel = dotdot \<or> prefix ''../'' rel"
  by (cases n; cases ts) (auto simp: dotdot_def)

lemma secureJoin_Inr:
  assumes "secureJoin base parts = Inr p"
  shows "IsAbs p \<and> (\<exists>rest. path_elements p = path_elements (Clean base) @ rest \<and> list_all plain_element rest)"
proof -
  from assms have base: "IsAbs base" "base \<noteq> []" and p: "p = Join (Clean base # parts)"
    by (auto simp: secureJoin_def Let_def split: if_splits option.splits)
  obtain q where q: "Clean base = slash # q" using base(1) IsAbs_Clean [of base] by (auto simp: IsAbs_iff simp del: IsAbs_Clean)
  let ?j = "join_with ''/'' (Clean base # parts)"
  have j: "IsAbs ?j" using q by (cases parts) (auto simp: IsAbs_iff)
  then have pj: "p = Clean ?j" "IsAbs p" "Clean p = p" using p q by (auto simp: Join_def)
  obtain rel where rel: "Rel (Clean base) p = Some rel"
    "rel = dot \<or> \<not> prefix ''../'' rel \<and> rel \<noteq> dotdot"
    using assms p by (auto simp: secureJoin_def Let_def split: if_splits option.splits)
  have "\<exists>rest. path_elements p = path_elements (Clean base) @ rest"
  proof -
    have "rel \<noteq> join_with ''/'' (replicate (Suc n) dotdot @ ts)" for n ts
    proof
      assume "rel = join_with ''/'' (replicate (Suc n) dotdot @ ts)"
      with join_dotdots_escape [OF this] rel(2) have "rel = dot" "rel = dotdot \<or> prefix ''../'' rel" by auto
      then show False by (auto simp: dot_def dotdot_def)
    qed
    with Rel_rooted [OF _ pj(2) rel(1)] base(1) pj(3) show ?thesis by fastforce
  qed
  moreover have "list_all plain_element (path_elements p)"
    using clean_elements_plain [of _ True ?j] path_elements_Clean_rooted [OF j] pj(1) by (auto simp: list_all_iff)
  ultimately show ?thesis using pj(2) by auto
qed

text \<open>
  C16: A joined path stays below its base: it is absolute, and its elements are those of the base
  followed by plain ones, whatever the parts are; otherwise the join is refused.
\<close>

theorem secureJoin_below:
  "case secureJoin base parts of
     Inl e \<Rightarrow> True
   | Inr p \<Rightarrow> IsAbs p \<and> (\<exists>more. path_elements p = path_elements (Clean base) @ more \<and> list_all plain_element more)"
  using secureJoin_Inr by (auto split: sum.split)

lemma segment_rune_char: "segment_char (segment_rune r)"
  by (auto simp: segment_rune_def segment_char_def byte_def split: list.split)

lemma sanitizeSegment_Inr:
  assumes "sanitizeSegment value = Inr out"
  shows "plain_element out \<and> list_all segment_char out"
proof -
  have "set (trim_dots s) \<subseteq> set s" for s
    by (auto simp: trim_dots_def dest!: set_dropWhileD)
  then have "set out \<subseteq> set (map segment_rune (runes value))"
    using assms set_trim_space by (fastforce simp: sanitizeSegment_def Let_def split: if_splits)
  then have chars: "list_all segment_char out" by (auto simp: list_all_iff segment_rune_char dest!: subsetD)
  moreover have "\<not> segment_char slash" by (simp add: segment_char_def byte_def)
  ultimately have "slash \<notin> set out" by (auto simp: list_all_iff)
  with chars assms show ?thesis
    by (auto simp: plain_element_def sanitizeSegment_def Let_def split: if_splits)
qed

lemma validatePlainFilename_None: "validatePlainFilename name = None \<Longrightarrow> plain_element name"
proof -
  assume v: "validatePlainFilename name = None"
  then have n: "name \<noteq> []" "\<not> IsAbs name" "Base name = name" "name \<noteq> dot" "name \<noteq> dotdot"
    by (auto simp: validatePlainFilename_def split: if_splits)
  let ?q = "rev (dropWhile (\<lambda>c. c = slash) (rev name))"
  have "?q \<noteq> []"
  proof
    assume "?q = []"
    with n(1,3) have "name = ''/''" by (simp add: Base_def)
    with n(2) show False by (simp add: IsAbs_def)
  qed
  with n(1,3) have "last (split_on slash ?q) = name" by (simp add: Base_def Let_def del: rev_is_Nil_conv dropWhile_eq_Nil_conv)
  then have "slash \<notin> set name"
    using split_on_elements [of name slash ?q] last_in_set [of "split_on slash ?q"] by simp
  with n show ?thesis by (simp add: plain_element_def)
qed

text \<open>
  A sanitized segment and an accepted file name are one plain path element, the segment of safe
  characters only, so neither can leave the directory it is joined to.
\<close>

theorem segments_plain:
  "(case sanitizeSegment v of Inl e \<Rightarrow> True | Inr out \<Rightarrow> plain_element out \<and> list_all segment_char out) \<and>
   (case validatePlainFilename v of Some e \<Rightarrow> True | None \<Rightarrow> plain_element v)"
  using sanitizeSegment_Inr validatePlainFilename_None by (auto split: sum.split option.split)

end
