(* ===== verification/Notify.thy ===== *)
theory Notify
  imports Go_Time Storage_Path Rule_Engine_Laws
begin

text \<open>
  \<open>internal/notify\<close>: the rendering of a payload (\<open>renderer.go\<close>), the keys and attempts
  that suppress duplicates (\<open>dedupe.go\<close>), the receivers (\<open>receiver.go\<close>) and the delivery
  of an incident or of the transitions of an evaluation (\<open>delivery.go\<close>). The HTTP client is a
  parameter: what it answers to a request is a function of the URL and the payload.
\<close>

subsection \<open>Types\<close>

definition EventOpened :: string where "EventOpened = ''opened''"
definition EventEscalated :: string where "EventEscalated = ''escalated''"
definition EventResolved :: string where "EventResolved = ''resolved''"
definition EventReopened :: string where "EventReopened = ''reopened''"

lemmas event_texts = EventOpened_def EventEscalated_def EventResolved_def EventReopened_def

datatype DeliveryStatus = StatusUnset | StatusDelivered | StatusFailed | StatusDryRun | StatusSkipped

definition status_text :: "DeliveryStatus \<Rightarrow> string" where
  "status_text s =
     (case s of
        StatusUnset \<Rightarrow> [] | StatusDelivered \<Rightarrow> ''delivered'' | StatusFailed \<Rightarrow> ''failed''
      | StatusDryRun \<Rightarrow> ''dry_run'' | StatusSkipped \<Rightarrow> ''skipped'')"

record ReceiverSpec =
  sp_ID :: string
  sp_DisplayName :: string
  sp_Enabled :: bool
  sp_Type :: string
  sp_URL :: string
  sp_URLConfigured :: bool
  sp_Timeout :: duration
  sp_Events :: "string list"
  sp_Severities :: "string list"
  sp_AllowInsecureLocal :: bool
  sp_CostClass :: string

record Payload =
  pl_Event :: string
  pl_IncidentID :: string
  pl_Fingerprint :: string
  pl_NodeID :: string
  pl_Type :: string
  pl_Target :: string
  pl_Condition :: string
  pl_Severity :: string
  pl_Status :: string
  pl_Summary :: string
  pl_FirstSeen :: instant
  pl_LastSeen :: instant
  pl_OccurrenceCount :: int
  pl_LastTransition :: "instant option"
  pl_ResolvedAt :: "instant option"
  pl_EvidencePath :: string

record DeliveryResult =
  dl_IncidentID :: string
  dl_ReceiverID :: string
  dl_Event :: string
  dl_Status :: DeliveryStatus
  dl_Attempt :: int
  dl_ErrorClass :: string
  dl_Summary :: string

record Report =
  rp_Results :: "DeliveryResult list"
  rp_Delivered :: nat
  rp_Failed :: nat
  rp_Skipped :: nat
  rp_DryRun :: nat

record DeliveryOutcome =
  oc_Success :: bool
  oc_ErrorClass :: string
  oc_Summary :: string

subsection \<open>Rendering\<close>

definition notify_safeSummary :: "string \<Rightarrow> string" where
  "notify_safeSummary summary =
     (let value = Redact summary in
      if value = [] then ''incident lifecycle event'' else if length value > 500 then take 500 value else value)"

definition utcPtr :: "instant option \<Rightarrow> instant option" where
  "utcPtr t = (case t of None \<Rightarrow> None | Some x \<Rightarrow> if is_zero_time x then None else Some x)"

definition RenderPayloadWithEvidenceRoot ::
    "(string \<Rightarrow> bool) \<Rightarrow> IncidentRecord \<Rightarrow> string \<Rightarrow> string \<Rightarrow> Payload" where
  "RenderPayloadWithEvidenceRoot has_scheme i event evidence_root =
     \<lparr>pl_Event = event, pl_IncidentID = Redact (inc_ID i), pl_Fingerprint = Redact (inc_Fingerprint i),
      pl_NodeID = Redact (inc_NodeID i), pl_Type = Redact (inc_Type i), pl_Target = Redact (inc_Target i),
      pl_Condition = Redact (inc_Condition i), pl_Severity = Redact (inc_Severity i),
      pl_Status = Redact (inc_Status i), pl_Summary = notify_safeSummary (inc_Summary i),
      pl_FirstSeen = inc_FirstSeen i, pl_LastSeen = inc_LastSeen i,
      pl_OccurrenceCount = inc_OccurrenceCount i, pl_LastTransition = utcPtr (inc_LastTransition i),
      pl_ResolvedAt = utcPtr (inc_ResolvedAt i),
      pl_EvidencePath = SafeEvidencePath has_scheme (inc_EvidencePath i) evidence_root\<rparr>"

definition RenderPayload :: "(string \<Rightarrow> bool) \<Rightarrow> IncidentRecord \<Rightarrow> string \<Rightarrow> Payload" where
  "RenderPayload has_scheme i event = RenderPayloadWithEvidenceRoot has_scheme i event []"

subsection \<open>Keys and attempts\<close>

definition transitionTime :: "IncidentRecord \<Rightarrow> instant" where
  "transitionTime i =
     (case utcPtr (inc_LastTransition i) of
        Some t \<Rightarrow> t
      | None \<Rightarrow>
          (case utcPtr (inc_ResolvedAt i) of
             Some t \<Rightarrow> t
           | None \<Rightarrow> if is_zero_time (inc_LastSeen i) then inc_FirstSeen i else inc_LastSeen i))"

definition deliveryKey :: "IncidentRecord \<Rightarrow> string \<Rightarrow> string \<Rightarrow> string" where
  "deliveryKey i receiverID event =
     ''del_'' @ hex (take 12 (sha256 (join_with [CHR 0x00]
       [inc_ID i, receiverID, event, inc_Severity i, inc_Status i, rfc3339 (transitionTime i)])))"

text \<open>\<open>%03d\<close>.\<close>

definition padded3 :: "int \<Rightarrow> string" where
  "padded3 n = (let ds = decimal_digits n in replicate (3 - length ds) (CHR ''0'') @ ds)"

definition deliveryID :: "string \<Rightarrow> int \<Rightarrow> string" where
  "deliveryID key attempt = key @ ''_a'' @ padded3 (if attempt < 1 then 1 else attempt)"

fun next_attempt_from :: "string \<Rightarrow> NotificationDeliveryRecord list \<Rightarrow> int \<Rightarrow> bool \<Rightarrow> int \<times> bool" where
  "next_attempt_from p [] attempt delivered = (attempt, delivered)"
| "next_attempt_from p (d # ds) attempt delivered =
     (if \<not> prefix p (nd_ID d) then next_attempt_from p ds attempt delivered
      else next_attempt_from p ds
             (if nd_Attempt d \<ge> attempt then wrap64 (nd_Attempt d + 1) else attempt)
             (delivered \<or> nd_Status d = status_text StatusDelivered))"

definition nextAttempt :: "NotificationDeliveryRecord list \<Rightarrow> string \<Rightarrow> int \<times> bool" where
  "nextAttempt deliveries key = next_attempt_from (key @ ''_a'') deliveries 1 False"

subsection \<open>Receivers\<close>

record 'd Receiver =
  rc_spec :: ReceiverSpec
  rc_Deliver :: "Payload \<Rightarrow> 'd world \<Rightarrow> DeliveryOutcome \<times> 'd world"

definition CostClass :: "ReceiverSpec \<Rightarrow> string" where
  "CostClass s = (if sp_CostClass s = [] then ''free_core'' else sp_CostClass s)"

definition receiver_Summary :: "ReceiverSpec \<Rightarrow> string" where
  "receiver_Summary s = (if sp_DisplayName s \<noteq> [] then Redact (sp_DisplayName s) else Redact (sp_ID s))"

definition Matches :: "ReceiverSpec \<Rightarrow> string \<Rightarrow> string \<Rightarrow> bool" where
  "Matches s event severity =
     (if sp_Events s \<noteq> [] \<and> event \<notin> set (sp_Events s) then False
      else if event = EventResolved then True
      else if sp_Severities s \<noteq> [] \<and> severity \<notin> set (sp_Severities s) then False
      else True)"

definition failed_outcome :: "string \<Rightarrow> string \<Rightarrow> DeliveryOutcome" where
  "failed_outcome cls summary = \<lparr>oc_Success = False, oc_ErrorClass = cls, oc_Summary = summary\<rparr>"

definition delivered_outcome :: "string \<Rightarrow> DeliveryOutcome" where
  "delivered_outcome summary = \<lparr>oc_Success = True, oc_ErrorClass = [], oc_Summary = summary\<rparr>"

text \<open>
  What the client does with a request: it cannot be built, \<open>Do\<close> fails (with the error and
  whether it is a network timeout), the body cannot be read, or a status and a body come back.
\<close>

datatype http_result =
  Bad_Request | Do_Failed go_error bool | Read_Failed int | Responded int string

definition classifyWebhookError :: "go_error \<Rightarrow> bool \<Rightarrow> DeliveryOutcome" where
  "classifyWebhookError err timed_out =
     (if errors_is err Context_Canceled then failed_outcome ''canceled'' ''webhook delivery canceled''
      else if errors_is err Context_DeadlineExceeded then failed_outcome ''timeout'' ''webhook delivery timed out''
      else if timed_out then failed_outcome ''timeout'' ''webhook delivery timed out''
      else failed_outcome ''delivery_error'' (Redact (error_text err)))"

definition maxWebhookResponseBytes :: nat where "maxWebhookResponseBytes = 4096"

text \<open>\<open>json.Marshal\<close> refuses a time outside the years 0 to 9999.\<close>

definition json_time :: "instant \<Rightarrow> bool" where
  "json_time t \<longleftrightarrow> - (366 * 86400 * second) \<le> t \<and> t < 3652059 * 86400 * second"

definition encodable :: "Payload \<Rightarrow> bool" where
  "encodable p \<longleftrightarrow> json_time (pl_FirstSeen p) \<and> json_time (pl_LastSeen p) \<and>
     (case pl_LastTransition p of None \<Rightarrow> True | Some t \<Rightarrow> json_time t) \<and>
     (case pl_ResolvedAt p of None \<Rightarrow> True | Some t \<Rightarrow> json_time t)"

definition webhook_timeout :: "ReceiverSpec \<Rightarrow> duration" where
  "webhook_timeout s = (if sp_Timeout s \<le> 0 then 5 * second else sp_Timeout s)"

definition webhook_response :: "int \<Rightarrow> string \<Rightarrow> DeliveryOutcome" where
  "webhook_response status body =
     (let read = take (maxWebhookResponseBytes + 1) body;
          truncated = length read > maxWebhookResponseBytes;
          shown = (if truncated then take maxWebhookResponseBytes read else read)
      in if status < 200 \<or> status > 299 then
           failed_outcome ''http_status''
             (''webhook returned HTTP '' @ decimal_digits status @
              (if (status < 300 \<or> status > 399) \<and> shown \<noteq> [] then '': '' @ Redact shown else []) @
              (if truncated then '' (truncated)'' else []))
         else delivered_outcome ''webhook delivered'')"

definition webhook_deliver ::
    "(duration \<Rightarrow> string \<Rightarrow> Payload \<Rightarrow> http_result) \<Rightarrow> ReceiverSpec \<Rightarrow> Payload \<Rightarrow> DeliveryOutcome" where
  "webhook_deliver client s payload =
     (if sp_URL s = [] then failed_outcome ''config'' ''webhook URL is not configured''
      else if \<not> encodable payload then failed_outcome ''render'' ''notification payload could not be encoded''
      else
        (case client (webhook_timeout s) (sp_URL s) payload of
           Bad_Request \<Rightarrow> failed_outcome ''config'' ''webhook request could not be created''
         | Do_Failed err timed_out \<Rightarrow> classifyWebhookError err timed_out
         | Read_Failed status \<Rightarrow> failed_outcome ''response_read'' ''webhook response could not be read''
         | Responded status body \<Rightarrow> webhook_response status body))"

definition NewWebhookReceiver ::
    "(duration \<Rightarrow> string \<Rightarrow> Payload \<Rightarrow> http_result) \<Rightarrow> ReceiverSpec \<Rightarrow> 'd Receiver" where
  "NewWebhookReceiver client s = \<lparr>rc_spec = s, rc_Deliver = (\<lambda>p w. (webhook_deliver client s p, w))\<rparr>"

definition noop_deliver :: "Payload \<Rightarrow> 'd world \<Rightarrow> DeliveryOutcome \<times> 'd world" where
  "noop_deliver p w =
     (case ctx_err w of
        (Inl e, w1) \<Rightarrow> (failed_outcome ''canceled'' ''noop delivery canceled'', w1)
      | (Inr u, w1) \<Rightarrow> (delivered_outcome ''noop delivered'', w1))"

definition NewNoopReceiver :: "ReceiverSpec \<Rightarrow> 'd Receiver" where
  "NewNoopReceiver s = \<lparr>rc_spec = s, rc_Deliver = noop_deliver\<rparr>"

text \<open>\<open>%q\<close> of a text that needs no escapes.\<close>

definition quoted :: "string \<Rightarrow> string" where
  "quoted s = [CHR 0x22] @ s @ [CHR 0x22]"

fun BuildReceivers ::
    "(duration \<Rightarrow> string \<Rightarrow> Payload \<Rightarrow> http_result) \<Rightarrow> ReceiverSpec list \<Rightarrow> go_error + 'd Receiver list" where
  "BuildReceivers client [] = Inr []"
| "BuildReceivers client (s # ss) =
     (if sp_Type s = ''webhook'' then
        (case BuildReceivers client ss of Inl e \<Rightarrow> Inl e | Inr rs \<Rightarrow> Inr (NewWebhookReceiver client s # rs))
      else if sp_Type s = ''noop'' then
        (case BuildReceivers client ss of Inl e \<Rightarrow> Inl e | Inr rs \<Rightarrow> Inr (NewNoopReceiver s # rs))
      else Inl (Text_Error (''unsupported notify receiver type '' @ quoted (Redact (sp_Type s)))))"

subsection \<open>Delivery\<close>

record 'd NotifyStore =
  ns_GetIncident :: "string \<Rightarrow> (IncidentRecord, 'd) op"
  ns_List :: "string \<Rightarrow> (NotificationDeliveryRecord list, 'd) op"
  ns_Transaction :: "(unit, 'd) op \<Rightarrow> (unit, 'd) op"
  ns_Insert :: "NotificationDeliveryRecord \<Rightarrow> (unit, 'd) op"
  ns_Alerted :: "string \<Rightarrow> instant \<Rightarrow> (unit, 'd) op"

record 'd Service =
  sv_Enabled :: bool
  sv_DryRun :: bool
  sv_Store :: "'d NotifyStore option"
  sv_Receivers :: "'d Receiver list"
  sv_Clock :: "instant option"
  sv_EvidenceRoot :: string
  sv_HasScheme :: "string \<Rightarrow> bool"

definition empty_report :: Report where
  "empty_report = \<lparr>rp_Results = [], rp_Delivered = 0, rp_Failed = 0, rp_Skipped = 0, rp_DryRun = 0\<rparr>"

definition addResult :: "DeliveryResult \<Rightarrow> Report \<Rightarrow> Report" where
  "addResult x r =
     (let r1 = r\<lparr>rp_Results := rp_Results r @ [x]\<rparr> in
      case dl_Status x of
        StatusDelivered \<Rightarrow> r1\<lparr>rp_Delivered := rp_Delivered r1 + 1\<rparr>
      | StatusFailed \<Rightarrow> r1\<lparr>rp_Failed := rp_Failed r1 + 1\<rparr>
      | StatusDryRun \<Rightarrow> r1\<lparr>rp_DryRun := rp_DryRun r1 + 1\<rparr>
      | StatusSkipped \<Rightarrow> r1\<lparr>rp_Skipped := rp_Skipped r1 + 1\<rparr>
      | StatusUnset \<Rightarrow> r1)"

definition add_report :: "Report \<Rightarrow> Report \<Rightarrow> Report" where
  "add_report other r = fold addResult (rp_Results other) r"

definition Failed :: "Report \<Rightarrow> bool" where
  "Failed r \<longleftrightarrow> rp_Failed r > 0"

definition EventFromTransition :: "Transition \<Rightarrow> string option" where
  "EventFromTransition t =
     (case tr_Action t of
        ActionOpened \<Rightarrow> Some EventOpened
      | ActionReopened \<Rightarrow> Some EventOpened
      | ActionEscalated \<Rightarrow> Some EventEscalated
      | ActionResolved \<Rightarrow> Some EventResolved
      | _ \<Rightarrow> None)"

definition EventFromIncident :: "IncidentRecord \<Rightarrow> string" where
  "EventFromIncident i = (if inc_Status i = StatusResolved then EventResolved else EventOpened)"

definition safeResultSummary :: "string \<Rightarrow> string" where
  "safeResultSummary summary =
     (let value = Redact summary in
      if value = [] then ''notification delivery result''
      else if length value > 300 then take 300 value else value)"

definition delivery_result :: "IncidentRecord \<Rightarrow> ReceiverSpec \<Rightarrow> string \<Rightarrow> DeliveryResult" where
  "delivery_result i s event =
     \<lparr>dl_IncidentID = inc_ID i, dl_ReceiverID = sp_ID s, dl_Event = event, dl_Status = StatusUnset,
      dl_Attempt = 0, dl_ErrorClass = [], dl_Summary = []\<rparr>"

definition attempt_record ::
    "IncidentRecord \<Rightarrow> ReceiverSpec \<Rightarrow> string \<Rightarrow> int \<Rightarrow> DeliveryOutcome \<Rightarrow> instant \<Rightarrow>
     NotificationDeliveryRecord" where
  "attempt_record i s key attempt outcome now =
     \<lparr>nd_ID = deliveryID key attempt, nd_IncidentID = inc_ID i, nd_Receiver = sp_ID s,
      nd_CostClass = CostClass s,
      nd_Status = status_text (if oc_Success outcome then StatusDelivered else StatusFailed),
      nd_Attempt = attempt, nd_AttemptedAt = now,
      nd_DeliveredAt = (if oc_Success outcome then Some now else None),
      nd_ErrorClass = (if oc_Success outcome then [] else safeResultSummary (oc_ErrorClass outcome)),
      nd_ErrorSummary = (if oc_Success outcome then [] else safeResultSummary (oc_Summary outcome))\<rparr>"

definition attempt_result ::
    "IncidentRecord \<Rightarrow> ReceiverSpec \<Rightarrow> string \<Rightarrow> int \<Rightarrow> DeliveryOutcome \<Rightarrow> DeliveryResult" where
  "attempt_result i s event attempt outcome =
     (delivery_result i s event)\<lparr>dl_Attempt := attempt,
        dl_Status := (if oc_Success outcome then StatusDelivered else StatusFailed),
        dl_ErrorClass := (if oc_Success outcome then [] else safeResultSummary (oc_ErrorClass outcome)),
        dl_Summary := safeResultSummary (oc_Summary outcome)\<rparr>"

text \<open>
  One receiver. The result is returned beside the error, if there is one; what the code has set in
  it by then is what the caller adds to its report.
\<close>

definition deliverToReceiver ::
    "'d Service \<Rightarrow> 'd Receiver \<Rightarrow> IncidentRecord \<Rightarrow> Payload \<Rightarrow> string \<Rightarrow> string \<Rightarrow> 'd world \<Rightarrow>
     (DeliveryResult \<times> go_error option) \<times> 'd world" where
  "deliverToReceiver sv rc i payload event severity w =
     (let s = rc_spec rc; result = delivery_result i s event in
      if \<not> sp_Enabled s \<and> \<not> sv_DryRun sv then
        ((result\<lparr>dl_Status := StatusSkipped, dl_Summary := ''receiver disabled''\<rparr>, None), w)
      else if \<not> Matches s event severity then
        ((result\<lparr>dl_Status := StatusSkipped, dl_Summary := ''receiver filters did not match''\<rparr>, None), w)
      else if sv_DryRun sv then
        ((result\<lparr>dl_Status := StatusDryRun,
                 dl_Summary := Redact (''dry-run payload rendered for '' @ receiver_Summary s)\<rparr>, None), w)
      else
        (case sv_Store sv of
           None \<Rightarrow> ((result, Some (Text_Error ''notification store is nil'')), w)
         | Some store \<Rightarrow>
             (case ns_List store (inc_ID i) w of
                (Inl e, w1) \<Rightarrow> ((result, Some e), w1)
              | (Inr deliveries, w1) \<Rightarrow>
                  let key = deliveryKey i (sp_ID s) event;
                      (attempt, delivered) = nextAttempt deliveries key
                  in if delivered then
                       ((result\<lparr>dl_Attempt := attempt, dl_Status := StatusSkipped,
                                dl_Summary := ''duplicate notification suppressed''\<rparr>, None), w1)
                     else
                       (case rc_Deliver rc payload w1 of
                          (outcome, w2) \<Rightarrow>
                            let now = (case sv_Clock sv of Some t \<Rightarrow> t | None \<Rightarrow> wall w2);
                                r = attempt_record i s key attempt outcome now
                            in (case ns_Transaction store
                                       (if oc_Success outcome
                                        then andThen (ns_Insert store r) (\<lambda>_. ns_Alerted store (inc_ID i) now)
                                        else ns_Insert store r) w2 of
                                  (Inl e, w3) \<Rightarrow> ((attempt_result i s event attempt outcome, Some e), w3)
                                | (Inr u, w3) \<Rightarrow> ((attempt_result i s event attempt outcome, None), w3))))))"

fun deliver_receivers ::
    "'d Service \<Rightarrow> IncidentRecord \<Rightarrow> Payload \<Rightarrow> string \<Rightarrow> string \<Rightarrow> 'd Receiver list \<Rightarrow> Report \<Rightarrow> 'd world \<Rightarrow>
     (Report \<times> go_error option) \<times> 'd world" where
  "deliver_receivers sv i payload event severity [] report w = ((report, None), w)"
| "deliver_receivers sv i payload event severity (rc # rcs) report w =
     (case ctx_err w of
        (Inl e, w1) \<Rightarrow> ((report, Some e), w1)
      | (Inr u, w1) \<Rightarrow>
          (case deliverToReceiver sv rc i payload event severity w1 of
             ((result, Some e), w2) \<Rightarrow> ((addResult result report, Some e), w2)
           | ((result, None), w2) \<Rightarrow>
               deliver_receivers sv i payload event severity rcs (addResult result report) w2))"

definition skipped_report :: "IncidentRecord \<Rightarrow> string \<Rightarrow> string \<Rightarrow> Report" where
  "skipped_report i event summary =
     empty_report\<lparr>rp_Results :=
         [\<lparr>dl_IncidentID = inc_ID i, dl_ReceiverID = [], dl_Event = event, dl_Status = StatusSkipped,
           dl_Attempt = 0, dl_ErrorClass = [], dl_Summary = summary\<rparr>],
       rp_Skipped := 1\<rparr>"

definition DeliverIncident ::
    "'d Service \<Rightarrow> ctx \<Rightarrow> IncidentRecord \<Rightarrow> string \<Rightarrow> 'd world \<Rightarrow> (Report \<times> go_error option) \<times> 'd world" where
  "DeliverIncident sv ctx i event w =
     (if ctx = Nil_Context then ((empty_report, Some (Text_Error ''context is nil'')), w)
      else
        (case ctx_err w of
           (Inl e, w1) \<Rightarrow> ((empty_report, Some e), w1)
         | (Inr u, w1) \<Rightarrow>
             if \<not> sv_Enabled sv \<and> \<not> sv_DryRun sv
               then ((skipped_report i event ''notifications disabled'', None), w1)
             else if sv_Receivers sv = []
               then ((skipped_report i event ''no receivers configured'', None), w1)
             else deliver_receivers sv i
                    (RenderPayloadWithEvidenceRoot (sv_HasScheme sv) i event (sv_EvidenceRoot sv)) event
                    (if event = EventResolved then SeverityNone else inc_Severity i)
                    (sv_Receivers sv) empty_report w1))"

fun deliver_transitions ::
    "'d Service \<Rightarrow> Transition list \<Rightarrow> Report \<Rightarrow> 'd world \<Rightarrow> (Report \<times> go_error option) \<times> 'd world" where
  "deliver_transitions sv [] report w = ((report, None), w)"
| "deliver_transitions sv (t # ts) report w =
     (case EventFromTransition t of
        None \<Rightarrow> deliver_transitions sv ts report w
      | Some event \<Rightarrow>
          (case sv_Store sv of
             None \<Rightarrow> ((report, Some (Text_Error ''notification store is nil'')), w)
           | Some store \<Rightarrow>
               (case ns_GetIncident store (tr_IncidentID t) w of
                  (Inl e, w1) \<Rightarrow> ((report, Some e), w1)
                | (Inr i, w1) \<Rightarrow>
                    (case DeliverIncident sv Live_Context i event w1 of
                       ((part, Some e), w2) \<Rightarrow> ((add_report part report, Some e), w2)
                     | ((part, None), w2) \<Rightarrow> deliver_transitions sv ts (add_report part report) w2))))"

definition DeliverTransitions ::
    "'d Service \<Rightarrow> ctx \<Rightarrow> Transition list \<Rightarrow> 'd world \<Rightarrow> (Report \<times> go_error option) \<times> 'd world" where
  "DeliverTransitions sv ctx ts w =
     (if ctx = Nil_Context then ((empty_report, Some (Text_Error ''context is nil'')), w)
      else deliver_transitions sv ts empty_report w)"

definition sql_notify_store :: "database NotifyStore" where
  "sql_notify_store =
     \<lparr>ns_GetIncident = GetIncident, ns_List = ListNotificationDeliveries,
      ns_Transaction = NotificationDeliveryTransaction, ns_Insert = txInsertNotificationDelivery,
      ns_Alerted = txUpdateIncidentLastAlerted\<rparr>"

end
