(* ===== verification/Notify_Laws.thy ===== *)
theory Notify_Laws
  imports Notify
begin

text \<open>
  What the delivery of notifications promises. The locale \<open>delivery_store\<close> is the part of
  \<open>notify.Store\<close> the service relies on; the SQL store is an instance. The client lemmas: at
  most one attempt per incident and key is recorded as delivered, attempts number upwards, a
  suppressed, filtered or dry-run delivery changes nothing, and a report counts its results.
\<close>

subsection \<open>Keys and attempts\<close>

lemma length_deliveryKey [simp]: "length (deliveryKey i receiver event) = 28"
  by (simp add: deliveryKey_def)

text \<open>A delivery belongs to a key when its identifier starts with the key's prefix.\<close>

definition of_key :: "string \<Rightarrow> NotificationDeliveryRecord \<Rightarrow> bool" where
  "of_key key d \<longleftrightarrow> prefix (key @ ''_a'') (nd_ID d)"

definition is_delivered :: "NotificationDeliveryRecord \<Rightarrow> bool" where
  "is_delivered d \<longleftrightarrow> nd_Status d = status_text StatusDelivered"


lemma of_key_deliveryID:
  "length k = length key \<Longrightarrow> nd_ID d = deliveryID key n \<Longrightarrow> of_key k d \<longleftrightarrow> k = key"
  by (auto simp: of_key_def deliveryID_def prefix_def)

lemma next_attempt_from_delivered:
  "snd (next_attempt_from p ds attempt delivered) \<longleftrightarrow>
     delivered \<or> (\<exists>d \<in> set ds. prefix p (nd_ID d) \<and> is_delivered d)"
  by (induction p ds attempt delivered rule: next_attempt_from.induct) (auto simp: is_delivered_def)

lemma nextAttempt_delivered:
  "snd (nextAttempt ds key) \<longleftrightarrow> (\<exists>d \<in> set ds. of_key key d \<and> is_delivered d)"
  by (simp add: nextAttempt_def next_attempt_from_delivered of_key_def)

lemma next_attempt_from_bound:
  "\<forall>d \<in> set ds. prefix p (nd_ID d) \<longrightarrow> - (2 ^ 63) \<le> nd_Attempt d \<and> nd_Attempt d < 2 ^ 63 - 1 \<Longrightarrow>
   attempt \<le> fst (next_attempt_from p ds attempt delivered) \<and>
   (\<forall>d \<in> set ds. prefix p (nd_ID d) \<longrightarrow> nd_Attempt d < fst (next_attempt_from p ds attempt delivered))"
proof (induction p ds attempt delivered rule: next_attempt_from.induct)
  case (2 p d ds attempt delivered)
  show ?case
  proof (cases "prefix p (nd_ID d)")
    case True
    then have "wrap64 (nd_Attempt d + 1) = nd_Attempt d + 1" using 2(3) by (intro wrap64_small) auto
    with True 2 show ?thesis by fastforce
  qed (use 2 in auto)
qed simp

lemma nextAttempt_bound:
  "\<forall>d \<in> set ds. of_key key d \<longrightarrow> - (2 ^ 63) \<le> nd_Attempt d \<and> nd_Attempt d < 2 ^ 63 - 1 \<Longrightarrow>
   1 \<le> fst (nextAttempt ds key) \<and> (\<forall>d \<in> set ds. of_key key d \<longrightarrow> nd_Attempt d < fst (nextAttempt ds key))"
  using next_attempt_from_bound [of ds "key @ ''_a''" 1 False] by (simp add: nextAttempt_def of_key_def)

subsection \<open>Reports\<close>

definition count_status :: "DeliveryStatus \<Rightarrow> DeliveryResult list \<Rightarrow> nat" where
  "count_status s xs = length (filter (\<lambda>x. dl_Status x = s) xs)"

definition report_counts :: "Report \<Rightarrow> bool" where
  "report_counts r \<longleftrightarrow>
     rp_Delivered r = count_status StatusDelivered (rp_Results r) \<and>
     rp_Failed r = count_status StatusFailed (rp_Results r) \<and>
     rp_Skipped r = count_status StatusSkipped (rp_Results r) \<and>
     rp_DryRun r = count_status StatusDryRun (rp_Results r)"

lemma report_counts_empty [simp]: "report_counts empty_report"
  by (simp add: report_counts_def empty_report_def count_status_def)

lemma report_counts_skipped [simp]: "report_counts (skipped_report i event summary)"
  by (simp add: report_counts_def skipped_report_def empty_report_def count_status_def)

lemma report_counts_addResult [simp]: "report_counts r \<Longrightarrow> report_counts (addResult x r)"
  by (cases "dl_Status x") (simp_all add: report_counts_def addResult_def count_status_def Let_def)

lemma report_counts_fold: "report_counts r \<Longrightarrow> report_counts (fold addResult xs r)"
  by (induction xs arbitrary: r) simp_all

lemma report_counts_receivers:
  "report_counts r \<Longrightarrow> deliver_receivers sv i payload event severity rcs r w = ((r1, err), w1) \<Longrightarrow> report_counts r1"
proof (induction rcs arbitrary: r w)
  case (Cons rc rcs)
  obtain x w2 where poll: "ctx_err w = (x, w2)" by fastforce
  obtain res e w3 where step: "deliverToReceiver sv rc i payload event severity w2 = ((res, e), w3)"
    by (metis prod.collapse)
  from Cons.IH [of "addResult res r" w3] Cons.prems poll step show ?case
    by (cases x; cases e) auto
qed simp

lemma report_counts_DeliverIncident: "DeliverIncident sv ctx i event w = ((r, err), w1) \<Longrightarrow> report_counts r"
  by (auto simp: DeliverIncident_def split: prod.splits sum.splits if_splits dest: report_counts_receivers [rotated])

lemma report_counts_transitions:
  "report_counts r \<Longrightarrow> deliver_transitions sv ts r w = ((r1, err), w1) \<Longrightarrow> report_counts r1"
proof (induction ts arbitrary: r w)
  case (Cons t ts)
  then show ?case
    by (auto simp: add_report_def split: prod.splits sum.splits option.splits dest: report_counts_fold)
qed simp

lemma report_counts_DeliverTransitions: "DeliverTransitions sv ctx ts w = ((r, err), w1) \<Longrightarrow> report_counts r"
  by (auto simp: DeliverTransitions_def split: if_splits dest: report_counts_transitions [rotated])

subsection \<open>The store\<close>

definition hands_off :: "'d Receiver \<Rightarrow> bool" where
  "hands_off rc \<longleftrightarrow> (\<forall>p w. data (snd (rc_Deliver rc p w)) = data w)"

lemma hands_offD: "hands_off rc \<Longrightarrow> rc_Deliver rc p w = (outcome, w1) \<Longrightarrow> data w1 = data w"
  by (metis hands_off_def snd_conv)

lemma hands_off_webhook: "hands_off (NewWebhookReceiver client s)"
  by (simp add: hands_off_def NewWebhookReceiver_def)

lemma hands_off_noop: "hands_off (NewNoopReceiver s)"
  by (auto simp: hands_off_def NewNoopReceiver_def noop_deliver_def dest: ctx_err_data split: prod.split sum.split)

lemma BuildReceivers_hands_off: "BuildReceivers client ss = Inr rs \<Longrightarrow> list_all hands_off rs"
  by (induction ss arbitrary: rs) (auto simp: hands_off_webhook hands_off_noop split: if_splits sum.splits)

text \<open>No incident has two attempts of one key recorded as delivered.\<close>

definition single_delivered :: "NotificationDeliveryRecord set \<Rightarrow> bool" where
  "single_delivered D \<longleftrightarrow>
     (\<forall>key a b. length key = 28 \<longrightarrow> a \<in> D \<longrightarrow> b \<in> D \<longrightarrow> nd_IncidentID a = nd_IncidentID b \<longrightarrow>
        of_key key a \<longrightarrow> of_key key b \<longrightarrow> is_delivered a \<longrightarrow> is_delivered b \<longrightarrow> a = b)"

lemma stored_delivery_fields [simp]:
  "nd_ID (stored_delivery now r) = nd_ID r" "nd_IncidentID (stored_delivery now r) = nd_IncidentID r"
  by (simp_all add: stored_delivery_def)

lemma single_delivered_insert:
  assumes "single_delivered D" "nd_ID r = deliveryID key n" "length key = 28"
    "\<not> (\<exists>d \<in> D. nd_IncidentID d = nd_IncidentID r \<and> is_delivered d \<and> of_key key d)"
  shows "single_delivered (insert (stored_delivery now r) D)"
proof -
  have "of_key k (stored_delivery now r) \<longleftrightarrow> k = key" if "length k = 28" for k
    using of_key_deliveryID [of k key "stored_delivery now r" n] assms(2,3) that by simp
  with assms(1,4) show ?thesis
    unfolding single_delivered_def by (simp add: all_conj_distrib) metis
qed

text \<open>A record that may be added: a new attempt of a key that is not delivered yet.\<close>

definition fresh_attempt ::
    "NotificationDeliveryRecord set \<Rightarrow> IncidentRecord \<Rightarrow> string \<Rightarrow> NotificationDeliveryRecord \<Rightarrow> bool" where
  "fresh_attempt D i key r \<longleftrightarrow>
     nd_IncidentID r = inc_ID i \<and> (\<exists>n. nd_ID r = deliveryID key n) \<and> nd_ID r \<notin> nd_ID ` D \<and>
     \<not> (\<exists>d \<in> D. nd_IncidentID d = inc_ID i \<and> is_delivered d \<and> of_key key d)"

locale delivery_store =
  fixes list_for :: "string \<Rightarrow> (NotificationDeliveryRecord list, 'd) op"
    and transact :: "(unit, 'd) op \<Rightarrow> (unit, 'd) op"
    and insert_delivery :: "NotificationDeliveryRecord \<Rightarrow> (unit, 'd) op"
    and alerted :: "string \<Rightarrow> instant \<Rightarrow> (unit, 'd) op"
    and deliveries :: "'d \<Rightarrow> NotificationDeliveryRecord set"
  assumes list_found: "list_for inc w = (Inr ds, w1) \<Longrightarrow> set ds = {d \<in> deliveries (data w). nd_IncidentID d = inc}"
    and list_pure: "list_for inc w = (x, w1) \<Longrightarrow> data w1 = data w"
    and transact_failed: "transact body w = (Inl e, w1) \<Longrightarrow> data w1 = data w"
    and transact_done: "transact body w = (Inr u, w1) \<Longrightarrow>
      \<exists>w0 w2. data w0 = data w \<and> body w0 = (Inr u, w2) \<and> data w1 = data w2"
    and insert_stored: "insert_delivery r w = (Inr u, w1) \<Longrightarrow>
      deliveries (data w1) = insert (stored_delivery (wall w) r) (deliveries (data w)) \<and>
      nd_ID r \<notin> nd_ID ` deliveries (data w)"
    and alerted_keeps: "alerted i t w = (y, w1) \<Longrightarrow> deliveries (data w1) = deliveries (data w)"

definition service_store ::
    "(string \<Rightarrow> (IncidentRecord, 'd) op) \<Rightarrow> (string \<Rightarrow> (NotificationDeliveryRecord list, 'd) op) \<Rightarrow>
     ((unit, 'd) op \<Rightarrow> (unit, 'd) op) \<Rightarrow> (NotificationDeliveryRecord \<Rightarrow> (unit, 'd) op) \<Rightarrow>
     (string \<Rightarrow> instant \<Rightarrow> (unit, 'd) op) \<Rightarrow> 'd NotifyStore" where
  "service_store get list transact ins alerted =
     \<lparr>ns_GetIncident = get, ns_List = list, ns_Transaction = transact, ns_Insert = ins, ns_Alerted = alerted\<rparr>"

lemma service_store_fields [simp]:
  "ns_GetIncident (service_store get list transact ins alerted) = get"
  "ns_List (service_store get list transact ins alerted) = list"
  "ns_Transaction (service_store get list transact ins alerted) = transact"
  "ns_Insert (service_store get list transact ins alerted) = ins"
  "ns_Alerted (service_store get list transact ins alerted) = alerted"
  by (simp_all add: service_store_def)

context delivery_store
begin

lemma transact_insert:
  assumes "transact (if success then andThen (insert_delivery r) (\<lambda>_. alerted i t) else insert_delivery r) w = (x, w1)"
  shows "(\<exists>e. x = Inl e \<and> data w1 = data w) \<or>
    (x = Inr () \<and> (\<exists>now. deliveries (data w1) = insert (stored_delivery now r) (deliveries (data w))) \<and>
     nd_ID r \<notin> nd_ID ` deliveries (data w))"
proof (cases x)
  case (Inl e)
  with assms show ?thesis by (auto dest: transact_failed)
next
  case (Inr u)
  with assms obtain w0 w2 where w: "data w0 = data w" "data w1 = data w2"
      "(if success then andThen (insert_delivery r) (\<lambda>_. alerted i t) else insert_delivery r) w0 = (Inr u, w2)"
    by (auto dest: transact_done)
  then obtain u1 w3 where "insert_delivery r w0 = (Inr u1, w3)" "deliveries (data w2) = deliveries (data w3)"
    by (auto simp: andThen_Inr_iff dest: alerted_keeps split: if_splits)
  with insert_stored [of r w0 u1 w3] w Inr show ?thesis by auto
qed

text \<open>One receiver: nothing is recorded, or one attempt that was not delivered before.\<close>

lemma deliverToReceiver_records:
  assumes "sv_Store sv = Some (service_store get list_for transact insert_delivery alerted)" "hands_off rc"
    "deliverToReceiver sv rc i payload event severity w = ((res, err), w1)"
  shows "data w1 = data w \<or>
    (\<exists>r now. deliveries (data w1) = insert (stored_delivery now r) (deliveries (data w)) \<and>
       fresh_attempt (deliveries (data w)) i (deliveryKey i (sp_ID (rc_spec rc)) event) r)"
proof -
  let ?key = "deliveryKey i (sp_ID (rc_spec rc)) event"
  obtain x w2 where l: "list_for (inc_ID i) w = (x, w2)" by fastforce
  have w2: "data w2 = data w" using list_pure [OF l] .
  show ?thesis
  proof (cases x)
    case (Inl e)
    with assms l w2 show ?thesis by (auto simp: deliverToReceiver_def Let_def split: if_splits)
  next
    case (Inr ds)
    obtain n delivered where na: "nextAttempt ds ?key = (n, delivered)" by fastforce
    obtain outcome w3 where d: "rc_Deliver rc payload w2 = (outcome, w3)" by fastforce
    have w3: "data w3 = data w" using hands_offD [OF assms(2) d] w2 by simp
    let ?now = "case sv_Clock sv of Some t \<Rightarrow> t | None \<Rightarrow> wall w3"
    let ?r = "attempt_record i (rc_spec rc) ?key n outcome ?now"
    obtain y w4 where t: "transact (if oc_Success outcome
        then andThen (insert_delivery ?r) (\<lambda>_. alerted (inc_ID i) ?now) else insert_delivery ?r) w3 = (y, w4)" by fastforce
    have r: "nd_IncidentID ?r = inc_ID i" "nd_ID ?r = deliveryID ?key n" by (simp_all add: attempt_record_def)
    have "data w1 = data w \<or> (w1 = w4 \<and> \<not> delivered)"
      using assms(1,3) l w2 Inr na d t by (auto simp: deliverToReceiver_def Let_def split: if_splits sum.splits)
    moreover have fresh: "\<not> delivered \<Longrightarrow> \<not> (\<exists>d \<in> deliveries (data w). nd_IncidentID d = inc_ID i \<and> is_delivered d \<and> of_key ?key d)"
      using nextAttempt_delivered [of ds ?key] na list_found [OF l [unfolded Inr]] by auto
    moreover have "fresh_attempt (deliveries (data w)) i ?key ?r"
      if "\<not> delivered" "nd_ID ?r \<notin> nd_ID ` deliveries (data w)"
      unfolding fresh_attempt_def using fresh that r by blast
    ultimately show ?thesis
      using transact_insert [OF t] w3 by metis
  qed
qed

lemma deliverToReceiver_single:
  assumes "sv_Store sv = Some (service_store get list_for transact insert_delivery alerted)" "hands_off rc"
    "deliverToReceiver sv rc i payload event severity w = ((res, err), w1)" "single_delivered (deliveries (data w))"
  shows "single_delivered (deliveries (data w1))"
  using deliverToReceiver_records [OF assms(1-3)]
proof (elim disjE exE conjE)
  fix r now
  assume "deliveries (data w1) = insert (stored_delivery now r) (deliveries (data w))"
    "fresh_attempt (deliveries (data w)) i (deliveryKey i (sp_ID (rc_spec rc)) event) r"
  then show ?thesis
    using single_delivered_insert [OF assms(4), of r "deliveryKey i (sp_ID (rc_spec rc)) event" _ now]
    by (auto simp: fresh_attempt_def)
qed (use assms(4) in simp)

lemma deliver_receivers_single:
  assumes "sv_Store sv = Some (service_store get list_for transact insert_delivery alerted)"
  shows "list_all hands_off rcs \<Longrightarrow> single_delivered (deliveries (data w)) \<Longrightarrow>
    deliver_receivers sv i payload event severity rcs report w = ((report1, err), w1) \<Longrightarrow>
    single_delivered (deliveries (data w1))"
proof (induction rcs arbitrary: report w)
  case (Cons rc rcs)
  obtain x w2 where poll: "ctx_err w = (x, w2)" by fastforce
  obtain res e w3 where step: "deliverToReceiver sv rc i payload event severity w2 = ((res, e), w3)"
    by (metis prod.collapse)
  have single: "single_delivered (deliveries (data w2))" using ctx_err_data [OF poll] Cons.prems(2) by simp
  then have "single_delivered (deliveries (data w3))"
    using deliverToReceiver_single [OF assms _ step] Cons.prems(1) by simp
  note single3 = this
  show ?case
  proof (cases x)
    case (Inl er)
    with Cons.prems(3) poll single show ?thesis by simp
  next
    case (Inr u)
    show ?thesis
    proof (cases e)
      case (Some er)
      with Cons.prems(3) poll step Inr single3 show ?thesis by simp
    next
      case None
      with Cons.prems(3) poll step Inr
      have "deliver_receivers sv i payload event severity rcs (addResult res report) w3 = ((report1, err), w1)" by simp
      from Cons.IH [OF _ single3 this] Cons.prems(1) show ?thesis by simp
    qed
  qed
qed simp

lemma DeliverIncident_single:
  assumes "sv_Store sv = Some (service_store get list_for transact insert_delivery alerted)"
    "list_all hands_off (sv_Receivers sv)" "single_delivered (deliveries (data w))"
    "DeliverIncident sv ctx i event w = ((report, err), w1)"
  shows "single_delivered (deliveries (data w1))"
proof -
  obtain x w2 where poll: "ctx_err w = (x, w2)" by fastforce
  have same: "data w2 = data w" using ctx_err_data [OF poll] .
  show ?thesis
  proof (cases "data w1 = data w")
    case False
    with assms(4) poll same obtain payload severity where
      "deliver_receivers sv i payload event severity (sv_Receivers sv) empty_report w2 = ((report, err), w1)"
      by (auto simp: DeliverIncident_def split: sum.splits if_splits)
    from deliver_receivers_single [OF assms(1,2) _ this] same assms(3) show ?thesis by simp
  qed (use assms(3) in simp)
qed

lemma deliver_transitions_single:
  assumes "sv_Store sv = Some (service_store get list_for transact insert_delivery alerted)"
    "list_all hands_off (sv_Receivers sv)" "\<And>ident w x w1. get ident w = (x, w1) \<Longrightarrow> data w1 = data w"
  shows "single_delivered (deliveries (data w)) \<Longrightarrow>
    deliver_transitions sv ts report w = ((report1, err), w1) \<Longrightarrow> single_delivered (deliveries (data w1))"
proof (induction ts arbitrary: report w)
  case (Cons t ts)
  show ?case
  proof (cases "EventFromTransition t")
    case None
    with Cons show ?thesis by simp
  next
    case (Some event)
    obtain x w2 where found: "get (tr_IncidentID t) w = (x, w2)" by fastforce
    have single: "single_delivered (deliveries (data w2))" using assms(3) [OF found] Cons.prems(1) by simp
    show ?thesis
    proof (cases x)
      case (Inl er)
      with Cons.prems(2) Some found single assms(1) show ?thesis by simp
    next
      case (Inr i)
      obtain part e w3 where step: "DeliverIncident sv Live_Context i event w2 = ((part, e), w3)"
        by (metis prod.collapse)
      have single3: "single_delivered (deliveries (data w3))"
        using DeliverIncident_single [OF assms(1,2) single step] .
      show ?thesis
      proof (cases e)
        case (Some er)
        with Cons.prems(2) \<open>EventFromTransition t = Some event\<close> found Inr step single3 assms(1) show ?thesis by simp
      next
        case None
        with Cons.prems(2) \<open>EventFromTransition t = Some event\<close> found Inr step assms(1)
        have "deliver_transitions sv ts (add_report part report) w3 = ((report1, err), w1)" by simp
        from Cons.IH [OF single3 this] show ?thesis .
      qed
    qed
  qed
qed simp

text \<open>A key that is delivered is not delivered again: the receiver is not even called.\<close>

lemma duplicate_suppressed:
  assumes "sv_Store sv = Some (service_store get list_for transact insert_delivery alerted)"
    "list_for (inc_ID i) w = (Inr ds, w1)" "d \<in> deliveries (data w)" "nd_IncidentID d = inc_ID i"
    "is_delivered d" "of_key (deliveryKey i (sp_ID (rc_spec rc)) event) d" "\<not> sv_DryRun sv"
  shows "\<exists>res. deliverToReceiver sv rc i payload event severity w = ((res, None), if
      sp_Enabled (rc_spec rc) \<and> Matches (rc_spec rc) event severity then w1 else w) \<and> dl_Status res = StatusSkipped"
proof -
  have "snd (nextAttempt ds (deliveryKey i (sp_ID (rc_spec rc)) event))"
    unfolding nextAttempt_delivered using list_found [OF assms(2)] assms(3-6) by blast
  with assms(1,2,7) show ?thesis
    by (auto simp: deliverToReceiver_def Let_def split: prod.split)
qed

end

text \<open>The SQL store.\<close>

definition recorded_deliveries :: "database \<Rightarrow> NotificationDeliveryRecord set" where
  "recorded_deliveries d = delivery_of_row ` set (delivery_rows d)"

lemma ListNotificationDeliveries_law:
  assumes "ListNotificationDeliveries inc w = (Inr ds, w1)"
  shows "set ds = {d \<in> recorded_deliveries (data w). nd_IncidentID d = inc}"
proof -
  let ?rows = "filter (\<lambda>x. dr_incident_id x = inc) (delivery_rows (data w))"
  let ?key = "\<lambda>x. (text_key (dr_attempted_at x), map byte (dr_id x))"
  have scanned: "map scanNotificationDelivery (sort_key ?key ?rows) = map Inr ds"
    using assms
    by (auto simp: ListNotificationDeliveries_def andThen_Inr_iff
        dest!: validated_cases database_handle_cases list_rows_Inr)
  have inc: "nd_IncidentID (delivery_of_row row) = dr_incident_id row" for row
    by (simp add: delivery_of_row_def)
  have read: "delivery_readable row" if "row \<in> set ?rows" for row
  proof -
    from that have "scanNotificationDelivery row \<in> set (map Inr ds)"
      unfolding scanned [symmetric] by simp
    then show ?thesis by (auto simp: scan_rows)
  qed
  have "d \<in> set ds \<longleftrightarrow> (\<exists>row \<in> set ?rows. scanNotificationDelivery row = Inr d)" for d
  proof -
    have "d \<in> set ds \<longleftrightarrow> Inr d \<in> set (map Inr ds :: (go_error + NotificationDeliveryRecord) list)" by auto
    also have "\<dots> \<longleftrightarrow> (\<exists>row \<in> set ?rows. scanNotificationDelivery row = Inr d)"
      unfolding scanned [symmetric] by (auto simp: image_iff; metis)
    finally show ?thesis .
  qed
  then show ?thesis using inc read by (auto simp: recorded_deliveries_def scan_rows)
qed

lemma txInsertNotificationDelivery_law:
  assumes "txInsertNotificationDelivery r w = (Inr u, w1)"
  shows "recorded_deliveries (data w1) = insert (stored_delivery (wall w) r) (recorded_deliveries (data w)) \<and>
    nd_ID r \<notin> nd_ID ` recorded_deliveries (data w)"
proof -
  from assms have step: "delivery_allowed (delivery_values (wall w) r) (data w)"
      "data w1 = (data w)\<lparr>delivery_rows := delivery_rows (data w) @ [delivery_values (wall w) r]\<rparr>"
    by (auto simp: txInsertNotificationDelivery_def insertNotificationDelivery_def andThen_Inr_iff
        exec_insert_delivery_def Let_def dest!: validated_cases map_err_cases statement_cases split: if_splits)
  have "nd_ID (delivery_of_row row) = dr_id row" for row
    by (simp add: delivery_of_row_def)
  then have "nd_ID r \<notin> nd_ID ` recorded_deliveries (data w)"
    using step(1) by (auto simp: delivery_allowed_def list_ex_iff recorded_deliveries_def delivery_values_def)
  then show ?thesis
    using step(2) by (auto simp: recorded_deliveries_def)
qed

lemma recorded_deliveries_alerted:
  "txUpdateIncidentLastAlerted i t w = (x, w1) \<Longrightarrow> delivery_rows (data w1) = delivery_rows (data w)"
proof -
  have "keeps delivery_rows (txUpdateIncidentLastAlerted i t)"
    unfolding txUpdateIncidentLastAlerted_def updateIncidentLastAlerted_def
    by (intro frame_intros) (auto simp: exec_last_alerted_def frame_intros)
  then show "txUpdateIncidentLastAlerted i t w = (x, w1) \<Longrightarrow> delivery_rows (data w1) = delivery_rows (data w)"
    by (auto dest: keepsD)
qed

lemma keeps_ListNotificationDeliveries: "keeps (\<lambda>d. d) (ListNotificationDeliveries inc)"
  unfolding ListNotificationDeliveries_def by (intro frame_intros)

lemma failure_atomic_NotificationDeliveryTransaction: "failure_atomic (NotificationDeliveryTransaction body)"
  unfolding NotificationDeliveryTransaction_def
  by (intro failure_atomic_andThen transaction_atomic keeps_database_handle)

lemma NotificationDeliveryTransaction_done:
  assumes "NotificationDeliveryTransaction body w = (Inr u, w1)"
  shows "\<exists>w0 w2. data w0 = data w \<and> body w0 = (Inr u, w2) \<and> data w1 = data w2"
proof -
  from assms have "transaction (wrapError ''notification delivery transaction begin'' ErrorClassWrite)
      (wrapError ''notification delivery transaction commit'' ErrorClassWrite) body w = (Inr u, w1)"
    by (auto simp: NotificationDeliveryTransaction_def andThen_Inr_iff dest!: database_handle_cases)
  then show ?thesis by (rule transaction_Inr) blast
qed

interpretation sqlnotify: delivery_store ListNotificationDeliveries NotificationDeliveryTransaction
  txInsertNotificationDelivery txUpdateIncidentLastAlerted recorded_deliveries
proof (unfold_locales, goal_cases)
  case (1 inc w ds w1)
  then show ?case by (rule ListNotificationDeliveries_law)
next
  case (2 inc w x w1)
  then show ?case using keepsD [OF keeps_ListNotificationDeliveries] by simp
next
  case (3 body w e w1)
  then show ?case by (rule failure_atomicD [OF failure_atomic_NotificationDeliveryTransaction])
next
  case (4 body w u w1)
  then show ?case by (rule NotificationDeliveryTransaction_done)
next
  case (5 r w u w1)
  then show ?case by (rule txInsertNotificationDelivery_law)
next
  case (6 i t w y w1)
  then show ?case using recorded_deliveries_alerted [OF 6] by (simp add: recorded_deliveries_def)
qed

lemma sql_notify_store_service:
  "sql_notify_store = service_store GetIncident ListNotificationDeliveries NotificationDeliveryTransaction
     txInsertNotificationDelivery txUpdateIncidentLastAlerted"
  by (simp add: sql_notify_store_def service_store_def)

lemma keeps_GetIncident: "keeps (\<lambda>d. d) (GetIncident ident)"
  unfolding GetIncident_def getIncident_def by (intro frame_intros keeps_validated keeps_database_handle keeps_query_row)

end
