(* ===== verification/Notify_Properties.thy ===== *)
theory Notify_Properties
  imports Notify_Laws
begin

text \<open>
  What the delivery of notifications promises over the SQL store: no attempt of a delivered key is
  ever recorded as delivered again, attempts are numbered upwards, and the counters of a report
  count its results.
\<close>

text \<open>
  C4: Delivering transitions over the SQL store never records two deliveries of the same incident,
  receiver, event and transition time as delivered, whichever statements, receivers or polls of the
  context fail on the way.
\<close>

theorem delivered_once:
  assumes "sv_Store sv = Some sql_notify_store" "list_all hands_off (sv_Receivers sv)"
    "single_delivered (recorded_deliveries (data w))" "DeliverTransitions sv ctx ts w = ((report, err), w1)"
  shows "single_delivered (recorded_deliveries (data w1))"
proof (cases "ctx = Nil_Context")
  case False
  then have "deliver_transitions sv ts empty_report w = ((report, err), w1)"
    using assms(4) by (simp add: DeliverTransitions_def)
  from sqlnotify.deliver_transitions_single [OF assms(1) [unfolded sql_notify_store_service] assms(2) _ assms(3) this]
  show ?thesis using keepsD [OF keeps_GetIncident] by blast
qed (use assms in \<open>simp add: DeliverTransitions_def\<close>)

definition example_spec :: ReceiverSpec where
  "example_spec =
     \<lparr>sp_ID = ''a'', sp_DisplayName = [], sp_Enabled = True, sp_Type = ''noop'', sp_URL = [],
      sp_URLConfigured = False, sp_Timeout = 0, sp_Events = [], sp_Severities = [],
      sp_AllowInsecureLocal = False, sp_CostClass = []\<rparr>"

definition example_service :: "database Service" where
  "example_service =
     \<lparr>sv_Enabled = True, sv_DryRun = False, sv_Store = Some sql_notify_store,
      sv_Receivers = [NewNoopReceiver example_spec], sv_Clock = None, sv_EvidenceRoot = [],
      sv_HasScheme = (\<lambda>_. False)\<rparr>"

definition example_transition :: Transition where
  "example_transition =
     \<lparr>tr_Action = ActionOpened, tr_IncidentID = ''i'', tr_Fingerprint = ''f'', tr_Severity = SeverityWarning,
      tr_Status = StatusOpen, tr_Summary = []\<rparr>"

definition empty_world :: "database world" where
  "empty_world = \<lparr>data = empty_database, script = [], wall = 7\<rparr>"

theorem delivered_once_witness:
  "single_delivered (recorded_deliveries (data (snd
     (DeliverTransitions example_service Live_Context [example_transition] empty_world))))"
proof -
  obtain report err w1 where run:
    "DeliverTransitions example_service Live_Context [example_transition] empty_world = ((report, err), w1)"
    by (metis prod.collapse)
  have "single_delivered (recorded_deliveries (data empty_world))"
    by (simp add: single_delivered_def recorded_deliveries_def empty_world_def empty_database_def)
  moreover have "sv_Store example_service = Some sql_notify_store" "list_all hands_off (sv_Receivers example_service)"
    by (simp_all add: example_service_def hands_off_noop)
  ultimately show ?thesis using delivered_once [OF _ _ _ run] run by simp
qed

text \<open>
  C11: A notification that was delivered is not sent again: the receiver is not called, nothing is
  written, and the result is reported as skipped.
\<close>

theorem duplicate_not_sent:
  assumes "sv_Store sv = Some sql_notify_store" "ListNotificationDeliveries (inc_ID i) w = (Inr ds, w1)"
    "d \<in> recorded_deliveries (data w)" "nd_IncidentID d = inc_ID i" "is_delivered d"
    "of_key (deliveryKey i (sp_ID (rc_spec rc)) event) d" "\<not> sv_DryRun sv"
  shows "case deliverToReceiver sv rc i payload event severity w of
    ((res, err), w2) \<Rightarrow> err = None \<and> dl_Status res = StatusSkipped \<and> data w2 = data w \<and> w2 \<in> {w, w1}"
proof -
  have "data w1 = data w" using keepsD [OF keeps_ListNotificationDeliveries assms(2)] by simp
  with sqlnotify.duplicate_suppressed [OF assms(1) [unfolded sql_notify_store_service] assms(2-7), of payload severity]
  show ?thesis by (auto split: if_splits)
qed

definition example_incident :: IncidentRecord where
  "example_incident =
     \<lparr>inc_ID = ''i'', inc_Fingerprint = ''f'', inc_NodeID = ''n'', inc_Type = ''t'', inc_Target = ''s'',
      inc_Condition = ''c'', inc_Severity = SeverityWarning, inc_Status = StatusOpen, inc_Summary = ''x'',
      inc_FirstSeen = 7, inc_LastSeen = 7, inc_LastAlerted = None, inc_OccurrenceCount = 1,
      inc_EvidencePath = [], inc_ResolvedAt = None, inc_LastTransition = Some 7, inc_UpdatedAt = 7\<rparr>"

definition sent_delivery :: NotificationDeliveryRecord where
  "sent_delivery =
     \<lparr>nd_ID = deliveryID (deliveryKey example_incident ''a'' EventOpened) 1, nd_IncidentID = ''i'',
      nd_Receiver = ''a'', nd_CostClass = ''c'', nd_Status = ''delivered'', nd_Attempt = 1,
      nd_AttemptedAt = 7, nd_DeliveredAt = Some 7, nd_ErrorClass = [], nd_ErrorSummary = []\<rparr>"

definition sent_world :: "database world" where
  "sent_world = empty_world\<lparr>data := empty_database\<lparr>delivery_rows := [delivery_values 7 sent_delivery]\<rparr>\<rparr>"

lemma sent_row: "dr_incident_id (delivery_values 7 sent_delivery) = ''i''"
  by (simp add: delivery_values_def sent_delivery_def)

lemma sent_readable: "delivery_readable (delivery_values 7 sent_delivery)"
  by (simp add: values_readable sent_delivery_def readable_time_def orNow_def is_zero_time_def)

lemma sent_listed: "ListNotificationDeliveries ''i'' sent_world = (Inr [stored_delivery 7 sent_delivery], sent_world)"
  by (simp add: ListNotificationDeliveries_def list_rows_def sent_world_def empty_world_def empty_database_def quiet_def
      andThen_def validated_def map_err_def required_def trim_space_free space_free_def byte_def
      database_handle_def query_def ok_def sent_readable sent_row Let_def)

theorem duplicate_not_sent_witness:
  "case deliverToReceiver example_service (NewNoopReceiver example_spec) example_incident
      (RenderPayload (\<lambda>_. False) example_incident EventOpened) EventOpened SeverityWarning sent_world of
    ((res, err), w2) \<Rightarrow> err = None \<and> dl_Status res = StatusSkipped \<and> data w2 = data sent_world"
proof -
  have "stored_delivery 7 sent_delivery \<in> recorded_deliveries (data sent_world)"
    by (auto simp: recorded_deliveries_def sent_world_def)
  moreover have "is_delivered (stored_delivery 7 sent_delivery)"
    by (simp add: is_delivered_def stored_delivery_def sent_delivery_def status_text_def plain_text_def)
  moreover have "of_key (deliveryKey example_incident ''a'' EventOpened) (stored_delivery 7 sent_delivery)"
    by (simp add: of_key_def sent_delivery_def deliveryID_def)
  moreover have fields: "sv_Store example_service = Some sql_notify_store" "inc_ID example_incident = ''i''"
      "nd_IncidentID (stored_delivery 7 sent_delivery) = inc_ID example_incident" "\<not> sv_DryRun example_service"
      "sp_ID (rc_spec (NewNoopReceiver example_spec :: database Receiver)) = ''a''"
    by (simp_all add: example_service_def example_incident_def sent_delivery_def NewNoopReceiver_def example_spec_def)
  moreover have "ListNotificationDeliveries (inc_ID example_incident) sent_world =
      (Inr [stored_delivery 7 sent_delivery], sent_world)"
    using sent_listed fields(2) by simp
  ultimately have "case deliverToReceiver example_service (NewNoopReceiver example_spec) example_incident
      (RenderPayload (\<lambda>_. False) example_incident EventOpened) EventOpened SeverityWarning sent_world of
    ((res, err), w2) \<Rightarrow> err = None \<and> dl_Status res = StatusSkipped \<and> data w2 = data sent_world \<and> w2 \<in> {sent_world, sent_world}"
    by (intro duplicate_not_sent) simp_all
  then show ?thesis by (auto split: prod.splits)
qed

text \<open>
  C12: The next attempt of a key is a positive number above every recorded attempt of the key, and it
  is known to be delivered exactly if a delivered attempt of the key is recorded.
\<close>

theorem attempts_increase:
  assumes "\<forall>d \<in> set ds. of_key key d \<longrightarrow> - (2 ^ 63) \<le> nd_Attempt d \<and> nd_Attempt d < 2 ^ 63 - 1"
  shows "1 \<le> fst (nextAttempt ds key) \<and> (\<forall>d \<in> set ds. of_key key d \<longrightarrow> nd_Attempt d < fst (nextAttempt ds key)) \<and>
    (snd (nextAttempt ds key) \<longleftrightarrow> (\<exists>d \<in> set ds. of_key key d \<and> is_delivered d))"
  using nextAttempt_bound [OF assms] nextAttempt_delivered by blast

definition example_delivery :: NotificationDeliveryRecord where
  "example_delivery =
     \<lparr>nd_ID = ''k_a002'', nd_IncidentID = ''i'', nd_Receiver = ''a'', nd_CostClass = ''c'', nd_Status = ''failed'',
      nd_Attempt = 2, nd_AttemptedAt = 7, nd_DeliveredAt = None, nd_ErrorClass = [], nd_ErrorSummary = []\<rparr>"

theorem attempts_increase_witness:
  "1 \<le> fst (nextAttempt [example_delivery] ''k'') \<and> nd_Attempt example_delivery < fst (nextAttempt [example_delivery] ''k'')"
  using attempts_increase [of "[example_delivery]" "''k''"]
  by (simp add: example_delivery_def of_key_def)

text \<open>
  The counters of a report are the numbers of its results with each status, also in the partial
  report of a delivery that stopped at an error.
\<close>

theorem report_counters:
  "report_counts (fst (fst (DeliverTransitions sv ctx ts w))) \<and> report_counts (fst (fst (DeliverIncident sv ctx i event w)))"
  using report_counts_DeliverIncident report_counts_DeliverTransitions by (metis prod.collapse)

text \<open>
  No transition is announced as reopened: the event a receiver may be configured for is never
  produced, and a receiver configured for nothing else matches no transition at all.
\<close>

theorem reopened_never_announced:
  "EventFromTransition t \<noteq> Some EventReopened \<and>
   (case EventFromTransition t of
      None \<Rightarrow> True
    | Some event \<Rightarrow> \<not> Matches (example_spec\<lparr>sp_Events := [EventReopened]\<rparr>) event severity)"
  by (cases "tr_Action t") (simp_all add: EventFromTransition_def event_texts Matches_def)

end
