(* ===== verification/Storage_Queries.thy ===== *)
theory Storage_Queries
  imports Storage_Laws
begin

text \<open>
  The rest of the repository: \<open>metadata.go\<close>, \<open>collector_state.go\<close>, \<open>summary.go\<close> and
  the listings of \<open>incidents.go\<close> and \<open>rule_state.go\<close>.
\<close>

subsection \<open>Metadata\<close>

definition exec_put_metadata :: "MetadataRecord \<Rightarrow> instant \<Rightarrow> database \<Rightarrow> (go_error + unit) \<times> database" where
  "exec_put_metadata r now d = (Inr (), d\<lparr>metadata_rows := put_row mr_key (metadata_values now r) (metadata_rows d)\<rparr>)"

definition UpsertMetadata :: "MetadataRecord \<Rightarrow> (unit, database) op" where
  "UpsertMetadata r =
     andThen (validated ''upsert metadata'' (validateMetadata r)) (\<lambda>_.
     andThen database_handle (\<lambda>_.
     map_err (wrapError ''upsert metadata'' ErrorClassWrite) (statement (exec_put_metadata r))))"

definition GetMetadata :: "string \<Rightarrow> (MetadataRecord, database) op" where
  "GetMetadata key =
     andThen (validated ''get metadata'' (required key ''metadata key'')) (\<lambda>_.
     andThen database_handle (\<lambda>_.
     query_row ''get metadata'' (\<lambda>d. get_row (\<lambda>x. mr_key x = key) (metadata_rows d)) scanMetadata))"

definition scan_listed_metadata :: "metadata_row \<Rightarrow> go_error + MetadataRecord" where
  "scan_listed_metadata row =
     column ''scan metadata time'' (parseTime (mr_updated_at row)) (\<lambda>updated.
       Inr \<lparr>md_Key = mr_key row, md_Value = mr_value row, md_UpdatedAt = updated\<rparr>)"

definition ListMetadata :: "(MetadataRecord list, database) op" where
  "ListMetadata =
     andThen database_handle (\<lambda>_.
     list_rows ''list metadata'' ''iterate metadata''
       (\<lambda>d. sort_key (\<lambda>x. map byte (mr_key x)) (metadata_rows d)) scan_listed_metadata)"

definition exec_delete_metadata :: "string \<Rightarrow> instant \<Rightarrow> database \<Rightarrow> (go_error + nat) \<times> database" where
  "exec_delete_metadata key now d =
     (Inr (length (filter (\<lambda>x. mr_key x = key) (metadata_rows d))),
      d\<lparr>metadata_rows := filter (\<lambda>x. mr_key x \<noteq> key) (metadata_rows d)\<rparr>)"

definition DeleteMetadata :: "string \<Rightarrow> (unit, database) op" where
  "DeleteMetadata key =
     andThen (validated ''delete metadata'' (required key ''metadata key'')) (\<lambda>_.
     andThen database_handle (\<lambda>_.
     andThen (map_err (wrapError ''delete metadata'' ErrorClassWrite) (statement (exec_delete_metadata key))) (\<lambda>n.
     andThen (map_err (wrapError ''delete metadata rows'' ErrorClassQuery) (statement (query (\<lambda>_. n)))) (\<lambda>rows.
     if rows = 0 then fail (notFound ''delete metadata'') else ok ()))))"

subsection \<open>Collector state\<close>

definition exec_put_collector :: "CollectorStateRecord \<Rightarrow> instant \<Rightarrow> database \<Rightarrow> (go_error + unit) \<times> database" where
  "exec_put_collector r now d =
     (Inr (), d\<lparr>collector_rows :=
        put_row (\<lambda>x. (cr_collector x, cr_target x)) (collector_values now r) (collector_rows d)\<rparr>)"

definition UpsertCollectorState :: "CollectorStateRecord \<Rightarrow> (unit, database) op" where
  "UpsertCollectorState r =
     andThen (validated ''upsert collector state'' (validateCollectorState r)) (\<lambda>_.
     andThen database_handle (\<lambda>_.
     map_err (wrapError ''upsert collector state'' ErrorClassWrite) (statement (exec_put_collector r))))"

definition GetCollectorState :: "string \<Rightarrow> string \<Rightarrow> (CollectorStateRecord, database) op" where
  "GetCollectorState collector target =
     andThen (validated ''get collector state'' (required collector ''collector'')) (\<lambda>_.
     andThen (validated ''get collector state'' (required target ''target'')) (\<lambda>_.
     andThen database_handle (\<lambda>_.
     query_row ''scan collector state''
       (\<lambda>d. get_row (\<lambda>x. cr_collector x = collector \<and> cr_target x = target) (collector_rows d))
       scanCollectorState)))"

definition ListCollectorState :: "(CollectorStateRecord list, database) op" where
  "ListCollectorState =
     andThen database_handle (\<lambda>_.
     list_rows ''list collector state'' ''iterate collector state''
       (\<lambda>d. sort_key (\<lambda>x. (map byte (cr_collector x), map byte (cr_target x))) (collector_rows d))
       scanCollectorState)"

subsection \<open>Listings and counts\<close>

text \<open>\<open>ORDER BY key DESC\<close>, rows of equal keys in the order they had.\<close>

definition sort_desc :: "('r \<Rightarrow> 'k::linorder) \<Rightarrow> 'r list \<Rightarrow> 'r list" where
  "sort_desc key rows = rev (sort_key key (rev rows))"

definition recent_incidents :: "database \<Rightarrow> incident_row list" where
  "recent_incidents d =
     sort_desc (\<lambda>x. text_key (ir_updated_at x)) (sort_key (\<lambda>x. map byte (ir_id x)) (incident_rows d))"

definition ListIncidents :: "(IncidentRecord list, database) op" where
  "ListIncidents =
     andThen database_handle (\<lambda>_.
     list_rows ''list incidents'' ''iterate incidents'' recent_incidents scanIncident)"

definition ListRuleEvaluationState :: "(RuleEvaluationStateRecord list, database) op" where
  "ListRuleEvaluationState =
     andThen database_handle (\<lambda>_.
     list_rows ''list rule evaluation state'' ''iterate rule evaluation state''
       (\<lambda>d. sort_key (\<lambda>x. (map byte (rr_rule_id x), map byte (rr_target x))) (rule_rows d))
       scanRuleEvaluationState)"

definition limit_error :: "int \<Rightarrow> go_error option" where
  "limit_error limit =
     (if limit \<le> 0 \<or> limit > 1000 then Some (Text_Error ''limit must be between 1 and 1000'') else None)"

definition ListRecentIncidents :: "int \<Rightarrow> (IncidentRecord list, database) op" where
  "ListRecentIncidents limit =
     andThen (validated ''list recent incidents'' (limit_error limit)) (\<lambda>_.
     andThen database_handle (\<lambda>_.
     list_rows ''list recent incidents'' ''iterate recent incidents''
       (\<lambda>d. take (nat limit) (recent_incidents d)) scanIncident))"

definition ListRecentNotificationDeliveries :: "string \<Rightarrow> int \<Rightarrow> (NotificationDeliveryRecord list, database) op" where
  "ListRecentNotificationDeliveries incident limit =
     andThen (validated ''list recent notification deliveries'' (limit_error limit)) (\<lambda>_.
     andThen database_handle (\<lambda>_.
     list_rows ''list recent notification deliveries'' ''iterate recent notification deliveries''
       (\<lambda>d. take (nat limit)
              (sort_desc (\<lambda>x. text_key (dr_attempted_at x))
                 (sort_key (\<lambda>x. map byte (dr_id x))
                    (if incident \<noteq> [] then filter (\<lambda>x. dr_incident_id x = incident) (delivery_rows d)
                     else delivery_rows d))))
       scanNotificationDelivery))"

text \<open>\<open>GROUP BY status\<close>: one row per status that occurs, gathered in a map.\<close>

definition status_counts :: "string list \<Rightarrow> (string \<rightharpoonup> int)" where
  "status_counts statuses s = (if s \<in> set statuses then Some (int (count_list statuses s)) else None)"

definition count_statuses ::
    "string \<Rightarrow> string \<Rightarrow> (database \<Rightarrow> string list) \<Rightarrow> (string \<rightharpoonup> int, database) op" where
  "count_statuses count_op iterate_op select =
     andThen database_handle (\<lambda>_.
     andThen (map_err (wrapError count_op ErrorClassQuery) (statement (query (\<lambda>d. status_counts (select d))))) (\<lambda>counts.
     andThen (map_err (wrapError iterate_op ErrorClassQuery) (statement (query (\<lambda>_. ())))) (\<lambda>_.
     ok counts)))"

definition IncidentStatusCounts :: "(string \<rightharpoonup> int, database) op" where
  "IncidentStatusCounts =
     count_statuses ''count incident statuses'' ''iterate incident status counts'' (\<lambda>d. map ir_status (incident_rows d))"

definition NotificationDeliveryStatusCounts :: "(string \<rightharpoonup> int, database) op" where
  "NotificationDeliveryStatusCounts =
     count_statuses ''count notification deliveries'' ''iterate notification delivery counts''
       (\<lambda>d. map dr_status (delivery_rows d))"

end
