(* ===== verification/Storage_Integrity.thy ===== *)
theory Storage_Integrity
  imports Storage_Queries
begin

text \<open>
  The integrity of the database: what the keys, the unique index, the checks and the foreign key of
  the schema say holds in every database that calls of the repository reach, whatever fails on the
  way; which of its rows can be read back; and what an upsert followed by a lookup returns.
\<close>

subsection \<open>Calls\<close>

text \<open>The methods of an open rule transaction and of an open delivery transaction.\<close>

datatype rule_tx_call =
    Tx_GetRule string string | Tx_PutRule RuleEvaluationStateRecord
  | Tx_GetIncident string | Tx_PutIncident IncidentRecord

datatype delivery_tx_call = Tx_Insert NotificationDeliveryRecord | Tx_LastAlerted string instant

datatype storage_call =
    Call_UpsertMetadata MetadataRecord | Call_GetMetadata string | Call_ListMetadata | Call_DeleteMetadata string
  | Call_UpsertCollectorState CollectorStateRecord | Call_GetCollectorState string string | Call_ListCollectorState
  | Call_UpsertIncident IncidentRecord | Call_GetIncident string | Call_GetIncidentByFingerprint string
  | Call_ListIncidents | Call_ListRecentIncidents int | Call_IncidentStatusCounts
  | Call_UpsertRuleState RuleEvaluationStateRecord | Call_GetRuleState string string | Call_ListRuleState
  | Call_InsertDelivery NotificationDeliveryRecord | Call_LastAlerted string instant
  | Call_ListDeliveries string | Call_ListRecentDeliveries string int | Call_DeliveryStatusCounts
  | Call_RuleTransaction "rule_tx_call list" | Call_DeliveryTransaction "delivery_tx_call list" | Call_Close

definition discard :: "('a, 'd) op \<Rightarrow> (unit, 'd) op" where
  "discard m = andThen m (\<lambda>_. ok ())"

fun run_rule_tx :: "rule_tx_call \<Rightarrow> (unit, database) op" where
  "run_rule_tx (Tx_GetRule i t) = discard (txGetRuleEvaluationState i t)"
| "run_rule_tx (Tx_PutRule r) = txUpsertRuleEvaluationState r"
| "run_rule_tx (Tx_GetIncident fp) = discard (txGetIncidentByFingerprint fp)"
| "run_rule_tx (Tx_PutIncident r) = txUpsertIncident r"

fun run_delivery_tx :: "delivery_tx_call \<Rightarrow> (unit, database) op" where
  "run_delivery_tx (Tx_Insert r) = txInsertNotificationDelivery r"
| "run_delivery_tx (Tx_LastAlerted i t) = txUpdateIncidentLastAlerted i t"

fun in_order :: "(unit, 'd) op list \<Rightarrow> (unit, 'd) op" where
  "in_order [] = ok ()"
| "in_order (m # ms) = andThen m (\<lambda>_. in_order ms)"

fun run_call :: "storage_call \<Rightarrow> (unit, database) op" where
  "run_call (Call_UpsertMetadata r) = UpsertMetadata r"
| "run_call (Call_GetMetadata k) = discard (GetMetadata k)"
| "run_call Call_ListMetadata = discard ListMetadata"
| "run_call (Call_DeleteMetadata k) = DeleteMetadata k"
| "run_call (Call_UpsertCollectorState r) = UpsertCollectorState r"
| "run_call (Call_GetCollectorState c t) = discard (GetCollectorState c t)"
| "run_call Call_ListCollectorState = discard ListCollectorState"
| "run_call (Call_UpsertIncident r) = UpsertIncident r"
| "run_call (Call_GetIncident i) = discard (GetIncident i)"
| "run_call (Call_GetIncidentByFingerprint fp) = discard (GetIncidentByFingerprint fp)"
| "run_call Call_ListIncidents = discard ListIncidents"
| "run_call (Call_ListRecentIncidents n) = discard (ListRecentIncidents n)"
| "run_call Call_IncidentStatusCounts = discard IncidentStatusCounts"
| "run_call (Call_UpsertRuleState r) = UpsertRuleEvaluationState r"
| "run_call (Call_GetRuleState i t) = discard (GetRuleEvaluationState i t)"
| "run_call Call_ListRuleState = discard ListRuleEvaluationState"
| "run_call (Call_InsertDelivery r) = InsertNotificationDelivery r"
| "run_call (Call_LastAlerted i t) = UpdateIncidentLastAlerted i t"
| "run_call (Call_ListDeliveries i) = discard (ListNotificationDeliveries i)"
| "run_call (Call_ListRecentDeliveries i n) = discard (ListRecentNotificationDeliveries i n)"
| "run_call Call_DeliveryStatusCounts = discard NotificationDeliveryStatusCounts"
| "run_call (Call_RuleTransaction cs) = RuleEvaluationTransaction (in_order (map run_rule_tx cs))"
| "run_call (Call_DeliveryTransaction cs) = NotificationDeliveryTransaction (in_order (map run_delivery_tx cs))"
| "run_call Call_Close = Close"

text \<open>The databases that calls reach from an empty one, in any order and with any failures.\<close>

inductive reachable_database :: "database \<Rightarrow> bool" where
  reach_empty: "reachable_database empty_database"
| reach_call: "reachable_database (data w) \<Longrightarrow> run_call c w = (x, w1) \<Longrightarrow> reachable_database (data w1)"

subsection \<open>Integrity\<close>

text \<open>The time columns of a row. Those that are set hold the text of an instant.\<close>

definition incident_texts :: "incident_row \<Rightarrow> time_text option list" where
  "incident_texts row =
     [Some (ir_first_seen row), Some (ir_last_seen row), Some (ir_updated_at row), ir_last_alerted row,
      ir_resolved_at row, ir_last_transition row]"

definition delivery_texts :: "delivery_row \<Rightarrow> time_text option list" where
  "delivery_texts row = [Some (dr_attempted_at row), dr_delivered_at row]"

definition rule_texts :: "rule_row \<Rightarrow> time_text option list" where
  "rule_texts row =
     [Some (rr_last_evaluated_at row), Some (rr_updated_at row), rr_condition_met_since row, rr_recovery_since row,
      rr_last_observed_at row]"

definition metadata_texts :: "metadata_row \<Rightarrow> time_text option list" where
  "metadata_texts row = [Some (mr_updated_at row)]"

definition collector_texts :: "collector_row \<Rightarrow> time_text option list" where
  "collector_texts row = [Some (cr_updated_at row), cr_last_attempt_at row, cr_last_success_at row]"

lemmas texts_defs =
  incident_texts_def delivery_texts_def rule_texts_def metadata_texts_def collector_texts_def

definition instant_text :: "time_text \<Rightarrow> bool" where
  "instant_text v \<longleftrightarrow> (case v of Time_Text t \<Rightarrow> True | Other_Text s \<Rightarrow> False)"

definition timed :: "('r \<Rightarrow> time_text option list) \<Rightarrow> 'r list \<Rightarrow> bool" where
  "timed texts rows \<longleftrightarrow> list_all (\<lambda>row. list_all (pred_option instant_text) (texts row)) rows"

definition integrity :: "database \<Rightarrow> bool" where
  "integrity d \<longleftrightarrow>
     distinct (map mr_key (metadata_rows d)) \<and> timed metadata_texts (metadata_rows d) \<and>
     distinct (map (\<lambda>x. (cr_collector x, cr_target x)) (collector_rows d)) \<and> timed collector_texts (collector_rows d) \<and>
     incident_keys (incident_rows d) \<and> (\<forall>x \<in> set (incident_rows d). 0 \<le> ir_occurrence_count x) \<and>
     timed incident_texts (incident_rows d) \<and>
     distinct (map (\<lambda>x. (rr_rule_id x, rr_target x)) (rule_rows d)) \<and> timed rule_texts (rule_rows d) \<and>
     distinct (map dr_id (delivery_rows d)) \<and> timed delivery_texts (delivery_rows d) \<and>
     (\<forall>x \<in> set (delivery_rows d). 1 \<le> dr_attempt x \<and> dr_incident_id x \<in> ir_id ` set (incident_rows d))"

text \<open>
  A table reads back if every row scans to what it says as long as its times are of the years 0 to
  9999, and is refused otherwise.
\<close>

definition text_in_years :: "time_text \<Rightarrow> bool" where
  "text_in_years v \<longleftrightarrow> readable_time (time_of v)"

definition reads_back ::
    "('r \<Rightarrow> go_error + 'a) \<Rightarrow> ('r \<Rightarrow> 'a) \<Rightarrow> ('r \<Rightarrow> time_text option list) \<Rightarrow> 'r list \<Rightarrow> bool" where
  "reads_back scan says texts rows \<longleftrightarrow>
     list_all (\<lambda>row. if list_all (pred_option text_in_years) (texts row) then scan row = Inr (says row)
                    else scanned (scan row) = None) rows"

definition database_reads_back :: "database \<Rightarrow> bool" where
  "database_reads_back d \<longleftrightarrow>
     reads_back scanMetadata metadata_of_row metadata_texts (metadata_rows d) \<and>
     reads_back scanCollectorState collector_of_row collector_texts (collector_rows d) \<and>
     reads_back scanIncident incident_of_row incident_texts (incident_rows d) \<and>
     reads_back scanRuleEvaluationState rule_of_row rule_texts (rule_rows d) \<and>
     reads_back scanNotificationDelivery delivery_of_row delivery_texts (delivery_rows d)"

lemma instant_text_readable: "instant_text v \<Longrightarrow> readable_text v \<longleftrightarrow> text_in_years v"
  by (auto simp: instant_text_def readable_text_def text_in_years_def time_of_def split: time_text.splits)

lemma instant_text_nullable:
  "pred_option instant_text v \<Longrightarrow> pred_option readable_text v \<longleftrightarrow> pred_option text_in_years v"
  by (cases v) (auto simp: instant_text_readable)

lemma scanned_None: "scanned r = None \<longleftrightarrow> (\<forall>a. r \<noteq> Inr a)"
  by (cases r) auto

lemma timed_reads_back:
  assumes "timed texts rows"
    and "\<And>row r. scan row = Inr r \<longleftrightarrow> list_all (pred_option readable_text) (texts row) \<and> r = says row"
  shows "reads_back scan says texts rows"
proof -
  have "list_all (pred_option readable_text) (texts row) = list_all (pred_option text_in_years) (texts row)"
    if "row \<in> set rows" for row
    using assms(1) that instant_text_nullable by (simp add: timed_def list_all_iff)
  then show ?thesis by (simp add: reads_back_def list_all_iff scanned_None assms(2))
qed

lemma integrity_reads_back: "integrity d \<Longrightarrow> database_reads_back d"
  unfolding database_reads_back_def integrity_def
  by (intro conjI timed_reads_back) (auto simp: scan_rows row_readable texts_defs)

lemma timed_put_row: "timed texts rows \<Longrightarrow> list_all (pred_option instant_text) (texts r) \<Longrightarrow> timed texts (put_row key r rows)"
  by (auto simp: timed_def list_all_iff dest!: set_put_row)

lemma timed_filter: "timed texts rows \<Longrightarrow> timed texts (filter p rows)"
  by (auto simp: timed_def list_all_iff)

lemma instant_texts [simp]: "instant_text (Time_Text t)" "instant_text (formatTime now t)" "pred_option instant_text (nullableTime now o_t)"
  by (simp_all add: instant_text_def formatTime_def nullableTime_def split: option.split)

lemma values_texts [simp]:
  "list_all (pred_option instant_text) (metadata_texts (metadata_values now m))"
  "list_all (pred_option instant_text) (collector_texts (collector_values now c))"
  "list_all (pred_option instant_text) (incident_texts (incident_values now i))"
  "list_all (pred_option instant_text) (rule_texts (rule_values now r))"
  "list_all (pred_option instant_text) (delivery_texts (delivery_values now d))"
  by (simp_all add: texts_defs metadata_values_def collector_values_def incident_values_def rule_values_def
      delivery_values_def)

lemma integrity_metadata:
  "integrity d \<Longrightarrow> integrity (snd (exec_put_metadata r now d))" "integrity d \<Longrightarrow> integrity (snd (exec_delete_metadata k now d))"
  by (simp_all add: integrity_def exec_put_metadata_def exec_delete_metadata_def distinct_put_row timed_put_row
      timed_filter distinct_map_filter)

lemma integrity_collector: "integrity d \<Longrightarrow> integrity (snd (exec_put_collector r now d))"
  by (simp add: integrity_def exec_put_collector_def distinct_put_row timed_put_row)

lemma integrity_rule: "integrity d \<Longrightarrow> integrity (snd (exec_put_rule r now d))"
  by (simp add: integrity_def exec_put_rule_def distinct_put_row timed_put_row)

lemma ids_put_row: "ir_id ` set (put_row ir_id r rows) = insert (ir_id r) (ir_id ` set rows)"
  using keys_put_row [of ir_id r rows] by simp

lemma integrity_incident:
  assumes "integrity d"
  shows "integrity (snd (exec_put_incident r now d))"
proof (cases "incident_allowed (incident_values now r) (incident_rows d)")
  case True
  have "\<forall>x \<in> set (put_row ir_id (incident_values now r) (incident_rows d)). 0 \<le> ir_occurrence_count x"
    using assms True by (auto simp: integrity_def incident_allowed_def dest!: set_put_row)
  with assms True show ?thesis
    by (simp add: integrity_def exec_put_incident_def incident_keys_put_row timed_put_row ids_put_row)
qed (use assms in \<open>simp add: exec_put_incident_def Let_def\<close>)

lemma integrity_delivery: "integrity d \<Longrightarrow> integrity (snd (exec_insert_delivery r now d))"
  by (auto simp: integrity_def exec_insert_delivery_def Let_def delivery_allowed_def list_ex_iff timed_def
      intro: rev_image_eqI)

text \<open>Stamping a row keeps its keys and sets its times.\<close>

definition stamped :: "string \<Rightarrow> instant \<Rightarrow> instant \<Rightarrow> incident_row \<Rightarrow> incident_row" where
  "stamped ident alerted now x =
     (if ir_id x = ident
      then x\<lparr>ir_last_alerted := Some (formatTime now alerted), ir_updated_at := Time_Text now\<rparr> else x)"

lemma stamped_fields [simp]:
  "ir_id (stamped ident alerted now x) = ir_id x"
  "ir_fingerprint (stamped ident alerted now x) = ir_fingerprint x"
  "ir_occurrence_count (stamped ident alerted now x) = ir_occurrence_count x"
  "fingerprint_indexed (stamped ident alerted now x) = fingerprint_indexed x"
  by (simp_all add: stamped_def fingerprint_indexed_def)

lemma timed_stamped: "timed incident_texts rows \<Longrightarrow> timed incident_texts (map (stamped ident alerted now) rows)"
  by (auto simp: timed_def list_all_iff stamped_def incident_texts_def)

lemma stamped_incidents:
  "snd (exec_last_alerted ident alerted now d) =
   d\<lparr>incident_rows := map (stamped ident alerted now) (incident_rows d)\<rparr>"
  by (simp add: exec_last_alerted_def stamped_def cong: map_cong)

lemma integrity_alerted: "integrity d \<Longrightarrow> integrity (snd (exec_last_alerted ident alerted now d))"
  unfolding stamped_incidents
  by (simp add: integrity_def incident_keys_def comp_def filter_map timed_stamped image_image)

subsection \<open>Every call keeps it\<close>

lemma preserves_keeps_data: "keeps (\<lambda>d. d) m \<Longrightarrow> preserves P m"
  by (simp add: keeps_def preserves_def)

lemma preserves_database_handle [frame_intros]: "preserves P database_handle"
  by (rule preserves_keeps_data) (rule keeps_database_handle)

lemma preserves_validated [frame_intros]: "preserves P (validated op r)"
  by (rule preserves_keeps_data) (rule keeps_validated)

lemma preserves_query [frame_intros]: "preserves P (statement (query f))"
  by (rule preserves_keeps_data) (rule keeps_query)

lemma preserves_query_row [frame_intros]: "preserves P (query_row op select scan)"
  by (rule preserves_keeps_data) (rule keeps_query_row)

lemma preserves_list_rows [frame_intros]: "preserves P (list_rows op1 op2 select scan)"
  by (rule preserves_keeps_data) (rule keeps_list_rows)

lemma preserves_if [frame_intros]: "preserves P m \<Longrightarrow> preserves P n \<Longrightarrow> preserves P (if b then m else n)"
  by simp

lemma preserves_done [frame_intros]: "preserves P m \<Longrightarrow> preserves P (discard m)"
  unfolding discard_def by (intro frame_intros)

lemma preserves_in_order [frame_intros]: "(\<And>m. m \<in> set ms \<Longrightarrow> preserves P m) \<Longrightarrow> preserves P (in_order ms)"
  by (induction ms) (simp_all add: frame_intros)

lemma preserves_Close: "(\<And>d. P d \<Longrightarrow> P (d\<lparr>db_open := False\<rparr>)) \<Longrightarrow> preserves P Close"
  by (auto simp: preserves_def Close_def Let_def dest!: external_dataD split: prod.split option.split)

lemmas integrity_statements =
  integrity_metadata integrity_collector integrity_rule integrity_incident integrity_delivery integrity_alerted

lemmas storage_operations =
  UpsertMetadata_def GetMetadata_def ListMetadata_def DeleteMetadata_def UpsertCollectorState_def
  GetCollectorState_def ListCollectorState_def UpsertIncident_def upsertIncident_def GetIncident_def
  getIncident_def GetIncidentByFingerprint_def getIncidentByFingerprint_def ListIncidents_def
  ListRecentIncidents_def IncidentStatusCounts_def count_statuses_def UpsertRuleEvaluationState_def
  upsertRuleEvaluationState_def GetRuleEvaluationState_def getRuleEvaluationState_def
  ListRuleEvaluationState_def InsertNotificationDelivery_def insertNotificationDelivery_def
  UpdateIncidentLastAlerted_def updateIncidentLastAlerted_def ListNotificationDeliveries_def
  ListRecentNotificationDeliveries_def NotificationDeliveryStatusCounts_def

lemmas transaction_operations =
  txGetRuleEvaluationState_def getRuleEvaluationState_def txUpsertRuleEvaluationState_def
  upsertRuleEvaluationState_def txGetIncidentByFingerprint_def getIncidentByFingerprint_def
  txUpsertIncident_def upsertIncident_def txInsertNotificationDelivery_def insertNotificationDelivery_def
  txUpdateIncidentLastAlerted_def updateIncidentLastAlerted_def

lemma run_rule_tx_integrity: "preserves integrity (run_rule_tx c)"
  by (cases c; simp only: run_rule_tx.simps transaction_operations; intro frame_intros integrity_statements)

lemma run_delivery_tx_integrity: "preserves integrity (run_delivery_tx c)"
  by (cases c; simp only: run_delivery_tx.simps transaction_operations; intro frame_intros integrity_statements)

lemma run_call_integrity: "preserves integrity (run_call c)"
proof (cases c)
  case (Call_RuleTransaction cs)
  show ?thesis
    unfolding Call_RuleTransaction run_call.simps RuleEvaluationTransaction_def
    by (auto intro!: frame_intros run_rule_tx_integrity)
next
  case (Call_DeliveryTransaction cs)
  show ?thesis
    unfolding Call_DeliveryTransaction run_call.simps NotificationDeliveryTransaction_def
    by (auto intro!: frame_intros run_delivery_tx_integrity)
next
  case Call_Close
  show ?thesis
    unfolding Call_Close run_call.simps by (rule preserves_Close) (simp add: integrity_def)
qed (simp only: run_call.simps storage_operations; intro frame_intros integrity_statements)+

lemma reachable_integrity: "reachable_database d \<Longrightarrow> integrity d"
proof (induction rule: reachable_database.induct)
  case reach_empty
  show ?case by (simp add: integrity_def empty_database_def incident_keys_def timed_def)
next
  case (reach_call w c x w1)
  with preservesD [OF run_call_integrity] show ?case by blast
qed

text \<open>
  C19: Every database that calls of the repository reach keeps the integrity of the schema, whatever
  fails on the way: the keys of all five tables are unique, and so are the fingerprints; counters and
  attempts are in range, every delivery belongs to an incident, and every time column that is set
  holds the text of an instant. A row whose instants are of the years 0 to 9999 reads back as what
  it says; a row with an instant of another year was written all the same and cannot be read.
\<close>

theorem reachable_database_integrity:
  assumes "reachable_database d"
  shows "integrity d \<and> database_reads_back d"
  using reachable_integrity [OF assms] integrity_reads_back by blast

definition example_metadata :: MetadataRecord where
  "example_metadata = \<lparr>md_Key = ''k'', md_Value = ''v'', md_UpdatedAt = 3\<rparr>"

definition storage_world :: "database world" where
  "storage_world = \<lparr>data = empty_database, script = [], wall = 7\<rparr>"

theorem reachable_database_integrity_witness:
  "integrity (data (snd (run_call (Call_UpsertMetadata example_metadata) storage_world))) \<and>
   database_reads_back (data (snd (run_call (Call_UpsertMetadata example_metadata) storage_world)))"
proof -
  obtain x w1 where run: "run_call (Call_UpsertMetadata example_metadata) storage_world = (x, w1)" by fastforce
  have "reachable_database (data storage_world)" by (simp add: storage_world_def reach_empty)
  from reach_call [OF this run] have "reachable_database (data w1)" .
  from reachable_database_integrity [OF this] show ?thesis unfolding run by simp
qed

subsection \<open>What was written is read\<close>

text \<open>An upsert and a lookup of one table, over a database where nothing fails.\<close>

lemma find_put_row_key: "find (\<lambda>x. key x = key r) (put_row key r rows) = Some r"
  by (rule find_put_row_same) auto

lemma upsert_get_metadata:
  assumes "quiet w" "db_open (data w)" "validateMetadata r = None" "metadata_readable (metadata_values (wall w) r)"
  shows "fst (andThen (UpsertMetadata r) (\<lambda>_. GetMetadata (md_Key r)) w) = Inr (metadata_of_row (metadata_values (wall w) r))"
proof -
  have "get_row (\<lambda>x. mr_key x = md_Key r) (put_row mr_key (metadata_values (wall w) r) (metadata_rows (data w))) =
      Some (metadata_values (wall w) r)"
    using find_put_row_key [of mr_key "metadata_values (wall w) r"] by (simp add: get_row_def metadata_values_def)
  with assms show ?thesis
    by (simp add: UpsertMetadata_def GetMetadata_def andThen_def map_err_def exec_put_metadata_def
        query_row_quiet validateMetadata_def database_handle_def)
qed

lemma upsert_get_collector:
  assumes "quiet w" "db_open (data w)" "validateCollectorState r = None" "collector_readable (collector_values (wall w) r)"
  shows "fst (andThen (UpsertCollectorState r) (\<lambda>_. GetCollectorState (cs_Collector r) (cs_Target r)) w) =
    Inr (collector_of_row (collector_values (wall w) r))"
proof -
  let ?key = "\<lambda>x. (cr_collector x, cr_target x)"
  have "get_row (\<lambda>x. cr_collector x = cs_Collector r \<and> cr_target x = cs_Target r)
      (put_row ?key (collector_values (wall w) r) (collector_rows (data w))) = Some (collector_values (wall w) r)"
    using find_put_row_key [of ?key "collector_values (wall w) r"] by (simp add: get_row_def collector_values_def)
  moreover have "required (cs_Collector r) f = None" "required (cs_Target r) f = None" for f
    using assms(3) by (auto simp: validateCollectorState_def required_None_iff split: option.splits)
  ultimately show ?thesis
    using assms
    by (simp add: UpsertCollectorState_def GetCollectorState_def andThen_def map_err_def exec_put_collector_def
        query_row_quiet database_handle_def)
qed

lemma upsert_get_incident:
  assumes "quiet w" "db_open (data w)" "validateIncident r = None"
    "incident_allowed (incident_values (wall w) r) (incident_rows (data w))"
    "incident_readable (incident_values (wall w) r)"
  shows "fst (andThen (UpsertIncident r) (\<lambda>_. GetIncident (inc_ID r)) w) = Inr (stored_incident (wall w) r)"
proof -
  have "get_row (\<lambda>x. ir_id x = inc_ID r) (put_row ir_id (incident_values (wall w) r) (incident_rows (data w))) =
      Some (incident_values (wall w) r)"
    using find_put_row_key [of ir_id "incident_values (wall w) r"] by (simp add: get_row_def incident_values_def)
  moreover have "required (inc_ID r) f = None" for f
    using assms(3) by (auto simp: validateIncident_None_iff required_None_iff)
  ultimately show ?thesis
    using assms
    by (simp add: UpsertIncident_def upsertIncident_def GetIncident_def getIncident_def andThen_def map_err_def
        exec_put_incident_def query_row_quiet database_handle_def)
qed

lemma upsert_get_rule:
  assumes "quiet w" "db_open (data w)" "validateRuleEvaluationState r = None" "rule_readable (rule_values (wall w) r)"
    "Redact (rs_RuleID r) = rs_RuleID r" "Redact (rs_Target r) = rs_Target r"
  shows "fst (andThen (UpsertRuleEvaluationState r) (\<lambda>_. GetRuleEvaluationState (rs_RuleID r) (rs_Target r)) w) =
    Inr (stored_rule (wall w) r)"
proof -
  let ?key = "\<lambda>x. (rr_rule_id x, rr_target x)"
  have "get_row (\<lambda>x. rr_rule_id x = rs_RuleID r \<and> rr_target x = rs_Target r)
      (put_row ?key (rule_values (wall w) r) (rule_rows (data w))) = Some (rule_values (wall w) r)"
    using find_put_row_key [of ?key "rule_values (wall w) r"] assms(5,6) by (simp add: get_row_def)
  moreover have "required (rs_RuleID r) f = None" "required (rs_Target r) f = None" for f
    using assms(3) by (auto simp: validateRuleEvaluationState_None_iff required_None_iff)
  ultimately show ?thesis
    using assms
    by (simp add: UpsertRuleEvaluationState_def upsertRule_quiet GetRuleEvaluationState_def
        getRuleEvaluationState_def andThen_def query_row_quiet database_handle_def)
qed

lemma those_rows_readable: "(\<And>row. row \<in> set rows \<Longrightarrow> scan row = Inr (says row)) \<Longrightarrow>
  those_rows (map scan rows) = Inr (map says rows)"
  by (induction rows) auto

lemma insert_list_delivery:
  assumes "quiet w" "db_open (data w)" "validateNotificationDelivery r = None"
    "delivery_allowed (delivery_values (wall w) r) (data w)" "delivery_readable (delivery_values (wall w) r)"
    "\<And>row. row \<in> set (delivery_rows (data w)) \<Longrightarrow> dr_incident_id row = nd_IncidentID r \<Longrightarrow> delivery_readable row"
  shows "\<exists>ds. fst (andThen (InsertNotificationDelivery r) (\<lambda>_. ListNotificationDeliveries (nd_IncidentID r)) w) = Inr ds \<and>
    set ds = insert (stored_delivery (wall w) r)
      (delivery_of_row ` {row \<in> set (delivery_rows (data w)). dr_incident_id row = nd_IncidentID r})"
proof -
  let ?d = "(data w)\<lparr>delivery_rows := delivery_rows (data w) @ [delivery_values (wall w) r]\<rparr>"
  let ?rows = "sort_key (\<lambda>x. (text_key (dr_attempted_at x), map byte (dr_id x)))
      (filter (\<lambda>x. dr_incident_id x = nd_IncidentID r) (delivery_rows ?d))"
  have run: "InsertNotificationDelivery r w = (Inr (), w\<lparr>data := ?d\<rparr>)"
    using assms(1-4) by (simp add: InsertNotificationDelivery_def insertNotificationDelivery_def andThen_def
        map_err_def exec_insert_delivery_def database_handle_def Let_def)
  have key: "dr_incident_id (delivery_values (wall w) r) = nd_IncidentID r" by (simp add: delivery_values_def)
  have "scanNotificationDelivery row = Inr (delivery_of_row row)" if "row \<in> set ?rows" for row
    using that assms(5,6) key by auto
  then have "those_rows (map scanNotificationDelivery ?rows) = Inr (map delivery_of_row ?rows)"
    by (rule those_rows_readable)
  moreover have "required (nd_IncidentID r) f = None" for f
    using assms(3) by (auto simp: validateNotificationDelivery_None_iff required_None_iff)
  ultimately have "fst (ListNotificationDeliveries (nd_IncidentID r) (w\<lparr>data := ?d\<rparr>)) = Inr (map delivery_of_row ?rows)"
    using assms(1,2) by (simp add: ListNotificationDeliveries_def list_rows_def andThen_def map_err_def query_def
        lift_result_def ok_def database_handle_def)
  with run key show ?thesis
    by (auto simp: andThen_def image_iff) 
qed

text \<open>
  C20: What was written is what is read when nothing fails, over an open database and for times of the
  years 0 to 9999: an upsert of a valid metadata or collector record, of a valid incident that breaks
  no constraint, or of a valid rule state whose identifiers redaction leaves alone, followed by the
  lookup of its key, returns the record with its free texts redacted, missing times replaced by the
  time of the write and zero times dropped; and a valid delivery that breaks no constraint is listed
  among those of its incident, with nothing lost and nothing else added.
\<close>

theorem upsert_then_get:
  assumes "quiet w" "db_open (data w)"
  shows "(validateMetadata m = None \<longrightarrow> readable_time (orNow (wall w) (md_UpdatedAt m)) \<longrightarrow>
      fst (andThen (UpsertMetadata m) (\<lambda>_. GetMetadata (md_Key m)) w) =
        Inr \<lparr>md_Key = md_Key m, md_Value = Redact (md_Value m), md_UpdatedAt = orNow (wall w) (md_UpdatedAt m)\<rparr>) \<and>
    (validateCollectorState c = None \<longrightarrow> collector_readable (collector_values (wall w) c) \<longrightarrow>
      fst (andThen (UpsertCollectorState c) (\<lambda>_. GetCollectorState (cs_Collector c) (cs_Target c)) w) =
        Inr (c\<lparr>cs_Status := Redact (cs_Status c), cs_StateJSON := Redact (cs_StateJSON c),
               cs_LastAttemptAt := stored_time (cs_LastAttemptAt c), cs_LastSuccessAt := stored_time (cs_LastSuccessAt c),
               cs_LastErrorClass := Redact (cs_LastErrorClass c), cs_LastErrorSummary := Redact (cs_LastErrorSummary c),
               cs_UpdatedAt := orNow (wall w) (cs_UpdatedAt c)\<rparr>)) \<and>
    (validateIncident i = None \<longrightarrow> incident_allowed (incident_values (wall w) i) (incident_rows (data w)) \<longrightarrow>
      incident_readable (incident_values (wall w) i) \<longrightarrow>
      fst (andThen (UpsertIncident i) (\<lambda>_. GetIncident (inc_ID i)) w) = Inr (stored_incident (wall w) i)) \<and>
    (validateRuleEvaluationState r = None \<longrightarrow> rule_readable (rule_values (wall w) r) \<longrightarrow>
      Redact (rs_RuleID r) = rs_RuleID r \<longrightarrow> Redact (rs_Target r) = rs_Target r \<longrightarrow>
      fst (andThen (UpsertRuleEvaluationState r) (\<lambda>_. GetRuleEvaluationState (rs_RuleID r) (rs_Target r)) w) =
        Inr (stored_rule (wall w) r)) \<and>
    (validateNotificationDelivery n = None \<longrightarrow> delivery_allowed (delivery_values (wall w) n) (data w) \<longrightarrow>
      delivery_readable (delivery_values (wall w) n) \<longrightarrow>
      (\<forall>row \<in> set (delivery_rows (data w)). dr_incident_id row = nd_IncidentID n \<longrightarrow> delivery_readable row) \<longrightarrow>
      (\<exists>ds. fst (andThen (InsertNotificationDelivery n) (\<lambda>_. ListNotificationDeliveries (nd_IncidentID n)) w) = Inr ds \<and>
         set ds = insert (stored_delivery (wall w) n)
           (delivery_of_row ` {row \<in> set (delivery_rows (data w)). dr_incident_id row = nd_IncidentID n})))"
proof (intro conjI impI, goal_cases)
  case 1
  then show ?case using upsert_get_metadata [OF assms, of m]
    by (simp add: values_readable) (simp add: metadata_of_row_def metadata_values_def)
next
  case 2
  then show ?case using upsert_get_collector [OF assms, of c]
    by (simp add: collector_of_row_def collector_values_def)
next
  case 3
  then show ?case using upsert_get_incident [OF assms] by blast
next
  case 4
  then show ?case using upsert_get_rule [OF assms] by blast
next
  case 5
  then show ?case by (intro insert_list_delivery assms) auto
qed

definition example_collector_state :: CollectorStateRecord where
  "example_collector_state =
     \<lparr>cs_Collector = ''cpu'', cs_Target = ''s'', cs_Status = ''x'', cs_StateJSON = [], cs_LastAttemptAt = Some 3,
      cs_LastSuccessAt = None, cs_LastErrorClass = [], cs_LastErrorSummary = [], cs_UpdatedAt = 3\<rparr>"

definition stored_example :: IncidentRecord where
  "stored_example =
     \<lparr>inc_ID = ''i'', inc_Fingerprint = ''f'', inc_NodeID = ''n'', inc_Type = ''t'', inc_Target = ''s'',
      inc_Condition = ''c'', inc_Severity = ''warning'', inc_Status = ''open'', inc_Summary = ''x'',
      inc_FirstSeen = 7, inc_LastSeen = 7, inc_LastAlerted = None, inc_OccurrenceCount = 1,
      inc_EvidencePath = [], inc_ResolvedAt = None, inc_LastTransition = Some 7, inc_UpdatedAt = 7\<rparr>"

theorem upsert_then_get_witness:
  "fst (andThen (UpsertMetadata example_metadata) (\<lambda>_. GetMetadata ''k'') storage_world) =
     Inr \<lparr>md_Key = ''k'', md_Value = Redact ''v'', md_UpdatedAt = orNow 7 3\<rparr> \<and>
   fst (andThen (UpsertCollectorState example_collector_state) (\<lambda>_. GetCollectorState ''cpu'' ''s'') storage_world) =
     Inr (example_collector_state\<lparr>cs_Status := Redact ''x'', cs_StateJSON := Redact [], cs_LastErrorClass := Redact [],
       cs_LastErrorSummary := Redact []\<rparr>) \<and>
   fst (andThen (UpsertIncident stored_example) (\<lambda>_. GetIncident ''i'') storage_world) =
     Inr (stored_incident 7 stored_example)"
  using upsert_then_get [of storage_world example_metadata example_collector_state stored_example]
  by (simp add: storage_world_def quiet_def empty_database_def validateMetadata_def validateCollectorState_def
      validateIncident_None_iff required_def trim_space_free space_free_def byte_def example_metadata_def
      example_collector_state_def stored_example_def incident_allowed_def values_readable readable_time_def orNow_def
      is_zero_time_def stored_time_def)

end
