(* ===== verification/Go_Numbers.thy ===== *)
theory Go_Numbers
  imports Go_Strconv Go_Float
begin

text \<open>
  Reading numbers from text: \<open>strconv.ParseFloat\<close> for 64 bits, \<open>time.ParseDuration\<close>, and
  \<open>strings.Fields\<close>, which the parsers of the collectors start with.
\<close>

subsection \<open>Fields\<close>

function fields_from :: "string \<Rightarrow> string \<Rightarrow> string list" where
  "fields_from w s =
     (if s = [] then (if w = [] then [] else [w])
      else if 0 < space_prefix s then
        (if w = [] then [] else [w]) @ fields_from [] (drop (space_prefix s) s)
      else fields_from (w @ [hd s]) (tl s))"
  by pat_completeness auto
termination
  by (relation "measure (\<lambda>(w, s). length s)") (auto simp del: length_drop intro: drop_shorter)

declare fields_from.simps [simp del]

definition Fields :: "string \<Rightarrow> string list" where
  "Fields s = fields_from [] s"

lemma fields_from_nonempty: "f \<in> set (fields_from w s) \<Longrightarrow> f \<noteq> []"
proof (induction w s rule: fields_from.induct)
  case (1 w s)
  from "1.prems" show ?case
    by (subst (asm) fields_from.simps) (auto split: if_splits dest: "1.IH")
qed

lemma Fields_nonempty: "f \<in> set (Fields s) \<Longrightarrow> f \<noteq> []"
  by (auto simp: Fields_def dest: fields_from_nonempty)

subsection \<open>Floating-point numbers\<close>

definition lower_is :: "char \<Rightarrow> char \<Rightarrow> bool" where
  "lower_is c d \<longleftrightarrow> lower_char c = d"

definition hex_digit :: "char \<Rightarrow> bool" where
  "hex_digit c \<longleftrightarrow> digit_char c \<or> (97 \<le> byte (lower_char c) \<and> byte (lower_char c) \<le> 102)"

definition digit_of :: "char \<Rightarrow> nat" where
  "digit_of c = (if digit_char c then digit_value c else byte (lower_char c) - 87)"

definition mantissa_digit :: "bool \<Rightarrow> char \<Rightarrow> bool" where
  "mantissa_digit hexa c \<longleftrightarrow> (if hexa then hex_digit c else digit_char c)"

definition unsigned :: "string \<Rightarrow> string" where
  "unsigned s = (if prefix ''-'' s \<or> prefix ''+'' s then tl s else s)"

text \<open>The characters of a mantissa: digits, underscores and one dot.\<close>

fun mantissa_span :: "bool \<Rightarrow> bool \<Rightarrow> string \<Rightarrow> string" where
  "mantissa_span hexa sawdot [] = []"
| "mantissa_span hexa sawdot (c # cs) =
     (if c = CHR ''_'' \<or> mantissa_digit hexa c then c # mantissa_span hexa sawdot cs
      else if c = CHR ''.'' \<and> \<not> sawdot then c # mantissa_span hexa True cs
      else [])"

text \<open>Underscores stand between digits, or between a base prefix and a digit.\<close>

datatype last_seen = Seen_Start | Seen_Digit | Seen_Underscore | Seen_Other

fun underscores_from :: "bool \<Rightarrow> last_seen \<Rightarrow> string \<Rightarrow> bool" where
  "underscores_from hexa i [] = (i \<noteq> Seen_Underscore)"
| "underscores_from hexa i (c # cs) =
     (if mantissa_digit hexa c then underscores_from hexa Seen_Digit cs
      else if c = CHR ''_'' then i = Seen_Digit \<and> underscores_from hexa Seen_Underscore cs
      else i \<noteq> Seen_Underscore \<and> underscores_from hexa Seen_Other cs)"

definition underscoreOK :: "string \<Rightarrow> bool" where
  "underscoreOK s =
     (let t = unsigned s in
      case t of
        a # b # u \<Rightarrow>
          if a = CHR ''0'' \<and> lower_char b \<in> set ''box''
          then underscores_from (lower_is b (CHR ''x'')) Seen_Digit u
          else underscores_from False Seen_Start t
      | _ \<Rightarrow> underscores_from False Seen_Start t)"

text \<open>The exponent, which stops growing once it has five digits.\<close>

definition exponent_value :: "string \<Rightarrow> nat" where
  "exponent_value s =
     foldl (\<lambda>e c. if c = CHR ''_'' then e else if e < 10000 then e * 10 + digit_value c else e) 0 s"

text \<open>The exponent part at the start of the text: its value and what follows, \<open>None\<close> if it is broken.\<close>

definition read_exponent :: "string \<Rightarrow> (int \<times> string) option" where
  "read_exponent s =
     (let t = unsigned s in
      if t = [] \<or> \<not> digit_char (hd t) then None
      else
        (let ds = takeWhile (\<lambda>c. digit_char c \<or> c = CHR ''_'') t; e = int (exponent_value ds)
         in Some (if prefix ''-'' s then - e else e, drop (length ds) t)))"

definition mantissa_value :: "bool \<Rightarrow> string \<Rightarrow> rat" where
  "mantissa_value hexa m =
     (let base = (if hexa then 16 else 10);
          ds = filter (mantissa_digit hexa) m;
          fracs = length (filter (mantissa_digit hexa) (dropWhile (\<lambda>c. c \<noteq> CHR ''.'') m))
      in of_nat (foldl (\<lambda>n c. base * n + digit_of c) 0 ds) / of_nat (base ^ fracs))"

text \<open>The value the text denotes before it is rounded.\<close>

definition readFloat :: "string \<Rightarrow> rat option" where
  "readFloat s =
     (let t = unsigned s;
          hexa = (case t of a # b # c # _ \<Rightarrow> a = CHR ''0'' \<and> lower_is b (CHR ''x'') | _ \<Rightarrow> False);
          u = (if hexa then drop 2 t else t);
          m = mantissa_span hexa False u;
          v = drop (length m) u;
          value = mantissa_value hexa m
      in if \<not> list_ex (mantissa_digit hexa) m then None
         else if v \<noteq> [] \<and> lower_is (hd v) (if hexa then CHR ''p'' else CHR ''e'') then
           (case read_exponent (tl v) of
              None \<Rightarrow> None
            | Some (e, left) \<Rightarrow>
                if left \<noteq> [] \<or> (CHR ''_'' \<in> set s \<and> \<not> underscoreOK s) then None
                else Some (value * (if hexa then two_to e else ten_to e)))
         else if hexa \<or> v \<noteq> [] \<or> (CHR ''_'' \<in> set s \<and> \<not> underscoreOK s) then None
         else Some value)"

definition special_float :: "string \<Rightarrow> float64 option" where
  "special_float s =
     (let t = map lower_char s in
      if t \<in> set [''inf'', ''infinity'', ''+inf'', ''+infinity''] then Some PInf
      else if t \<in> set [''-inf'', ''-infinity''] then Some NInf
      else if t = ''nan'' then Some NaN else None)"

definition ParseFloat :: "string \<Rightarrow> num_error + float64" where
  "ParseFloat s =
     (case special_float s of
        Some x \<Rightarrow> Inr x
      | None \<Rightarrow>
          (case readFloat s of
             None \<Rightarrow> Inl Err_Syntax
           | Some q \<Rightarrow>
               let x = round64 q in
               if x = PInf then Inl Err_Range else Inr (if prefix ''-'' s then fl_neg x else x)))"

subsection \<open>Durations\<close>

text \<open>The nanoseconds of a unit; the two spellings of microseconds with a Greek letter included.\<close>

definition duration_unit :: "string \<Rightarrow> nat option" where
  "duration_unit u =
     (if u = ''ns'' then Some 1
      else if u = ''us'' \<or> map byte u = [194, 181, 115] \<or> map byte u = [206, 188, 115] then Some 1000
      else if u = ''ms'' then Some 1000000
      else if u = ''s'' then Some 1000000000
      else if u = ''m'' then Some 60000000000
      else if u = ''h'' then Some 3600000000000 else None)"

fun leading_int :: "nat \<Rightarrow> string \<Rightarrow> (nat \<times> string) option" where
  "leading_int x [] = Some (x, [])"
| "leading_int x (c # cs) =
     (if \<not> digit_char c then Some (x, c # cs)
      else if 2 ^ 63 div 10 < x then None
      else if 2 ^ 63 < x * 10 + digit_value c then None
      else leading_int (x * 10 + digit_value c) cs)"

fun leading_fraction :: "nat \<Rightarrow> nat \<Rightarrow> bool \<Rightarrow> string \<Rightarrow> nat \<times> nat \<times> string" where
  "leading_fraction x scale overflow [] = (x, scale, [])"
| "leading_fraction x scale overflow (c # cs) =
     (if \<not> digit_char c then (x, scale, c # cs)
      else if overflow \<or> (2 ^ 63 - 1) div 10 < x \<or> 2 ^ 63 < x * 10 + digit_value c
      then leading_fraction x scale True cs
      else leading_fraction (x * 10 + digit_value c) (scale * 10) False cs)"

text \<open>\<open>uint64(float64(f) * (float64(unit) / scale))\<close>; a finite value, as the unit is at most an hour.\<close>

definition fraction_part :: "nat \<Rightarrow> nat \<Rightarrow> nat \<Rightarrow> nat" where
  "fraction_part f unit scale =
     nat \<lfloor>finite_value (round64 (finite_value (round64 (of_nat f)) *
       finite_value (round64 (of_nat unit / of_nat scale))))\<rfloor>"

text \<open>One number with its unit: the nanoseconds and what follows.\<close>

definition duration_item :: "string \<Rightarrow> (nat \<times> string) option" where
  "duration_item s =
     (if \<not> (hd s = CHR ''.'' \<or> digit_char (hd s)) then None
      else
        (case leading_int 0 s of
           None \<Rightarrow> None
         | Some (v, s1) \<Rightarrow>
             (let pre = length s1 \<noteq> length s;
                  dot = prefix ''.'' s1;
                  (f, scale, s2) = (if dot then leading_fraction 0 1 False (tl s1) else (0, 1, s1));
                  post = dot \<and> length s2 \<noteq> length (tl s1);
                  u = takeWhile (\<lambda>c. c \<noteq> CHR ''.'' \<and> \<not> digit_char c) s2
              in if \<not> pre \<and> \<not> post then None
                 else
                   (case duration_unit u of
                      None \<Rightarrow> None
                    | Some unit \<Rightarrow>
                        if 2 ^ 63 div unit < v then None
                        else
                          (let w = v * unit + (if 0 < f then fraction_part f unit scale else 0) in
                           if 0 < f \<and> 2 ^ 63 < w then None else Some (w, drop (length u) s2))))))"

lemma duration_unit_nonempty: "duration_unit u = Some n \<Longrightarrow> u \<noteq> []"
  by (auto simp: duration_unit_def)

lemma leading_int_length: "leading_int x s = Some (y, t) \<Longrightarrow> length t \<le> length s"
  by (induction x s rule: leading_int.induct) (auto split: if_splits)

lemma leading_fraction_length: "leading_fraction x k b s = (y, z, t) \<Longrightarrow> length t \<le> length s"
  by (induction x k b s rule: leading_fraction.induct) (auto split: if_splits)

lemma duration_item_shorter:
  assumes "duration_item s = Some (w, t)"
  shows "length t < length s"
proof -
  from assms obtain v s1 where int: "leading_int 0 s = Some (v, s1)"
    by (auto simp: duration_item_def split: if_splits option.splits)
  obtain f scale s2 where frac: "(if prefix ''.'' s1 then leading_fraction 0 1 False (tl s1) else (0, 1, s1)) = (f, scale, s2)"
    by (metis prod_cases3)
  let ?u = "takeWhile (\<lambda>c. c \<noteq> CHR ''.'' \<and> \<not> digit_char c) s2"
  from assms int frac obtain n where unit: "duration_unit ?u = Some n" "t = drop (length ?u) s2"
    by (auto simp: duration_item_def Let_def split: if_splits option.splits prod.splits)
  have "length s2 \<le> length s1"
  proof (cases "prefix ''.'' s1")
    case True
    with frac have "length s2 \<le> length (tl s1)" by (auto dest: leading_fraction_length)
    then show ?thesis by simp
  qed (use frac in simp)
  moreover have "?u \<noteq> []" "length ?u \<le> length s2"
    using unit(1) duration_unit_nonempty by (blast, simp add: length_takeWhile_le)
  ultimately show ?thesis using leading_int_length [OF int] unit(2) by (cases ?u) auto
qed

text \<open>The sum is kept in 64 bits and compared with their half after every item.\<close>

function duration_items :: "nat \<Rightarrow> string \<Rightarrow> nat option" where
  "duration_items d s =
     (if s = [] then Some d
      else
        (case duration_item s of
           None \<Rightarrow> None
         | Some (v, t) \<Rightarrow>
             let d1 = (d + v) mod 2 ^ 64 in if 2 ^ 63 < d1 then None else duration_items d1 t))"
  by pat_completeness auto
termination
  by (relation "measure (\<lambda>(d, s). length s)") (auto dest: duration_item_shorter)

declare duration_items.simps [simp del]

definition ParseDuration :: "string \<Rightarrow> duration option" where
  "ParseDuration s =
     (let t = unsigned s in
      if t = ''0'' then Some 0
      else if t = [] then None
      else
        (case duration_items 0 t of
           None \<Rightarrow> None
         | Some d \<Rightarrow>
             if prefix ''-'' s then Some (- int d)
             else if 2 ^ 63 - 1 < d then None else Some (int d)))"

text \<open>A parsed duration fits into 64 bits.\<close>

lemma duration_items_bound: "duration_items d s = Some e \<Longrightarrow> d \<le> 2 ^ 63 \<Longrightarrow> e \<le> 2 ^ 63"
proof (induction d s rule: duration_items.induct)
  case (1 d s)
  show ?case
  proof (cases "s = []")
    case True
    with "1.prems" show ?thesis by (simp add: duration_items.simps)
  next
    case False
    with "1.prems"(1) obtain v t where item: "duration_item s = Some (v, t)"
      by (auto simp: duration_items.simps [of d s] split: option.splits)
    with False "1.prems"(1) have small: "\<not> 2 ^ 63 < (d + v) mod 2 ^ 64" "duration_items ((d + v) mod 2 ^ 64) t = Some e"
      by (auto simp: duration_items.simps [of d s] Let_def split: if_splits)
    from "1.IH" [OF False item refl refl small(1) small(2)] small(1) show ?thesis by simp
  qed
qed

lemma ParseDuration_range: "ParseDuration s = Some d \<Longrightarrow> int64_min \<le> d \<and> d \<le> int64_max"
proof -
  assume "ParseDuration s = Some d"
  then consider "d = 0" | n where "duration_items 0 (unsigned s) = Some n" "d = - int n"
    | n where "d = int n" "n \<le> 2 ^ 63 - 1"
    by (auto simp: ParseDuration_def Let_def split: if_splits option.splits)
  then show ?thesis
  proof cases
    case 2
    then show ?thesis using duration_items_bound [OF 2(1)] by (simp add: int64_min_def int64_max_def)
  qed (auto simp: int64_min_def int64_max_def)
qed

end
