(* ===== verification/Go_Duration.thy ===== *)
theory Go_Duration
  imports Go_Time Go_Numbers
begin

text \<open>
  The text of a duration, as \<open>time.Duration.String\<close> prints it, with hours, minutes and seconds or a
  smaller unit, and a fraction without trailing zeros.
\<close>

text \<open>\<open>Duration.String\<close>: the digits of a fraction with \<open>prec\<close> places, trailing zeros dropped.\<close>

definition fraction_digits :: "nat \<Rightarrow> nat \<Rightarrow> string" where
  "fraction_digits prec v =
     (let ds = rev (dropWhile (\<lambda>c. c = CHR ''0'') (rev (digits prec v))) in
      if ds = [] then [] else ''.'' @ ds)"

definition below_second_text :: "nat \<Rightarrow> string" where
  "below_second_text u =
     (if u = 0 then ''0s''
      else if u < 1000 then decimal_digits (int u) @ ''ns''
      else if u < 1000000
        then decimal_digits (int (u div 1000)) @ fraction_digits 3 (u mod 1000) @ [CHR 0xC2, CHR 0xB5] @ ''s''
      else decimal_digits (int (u div 1000000)) @ fraction_digits 6 (u mod 1000000) @ ''ms'')"

definition duration_text :: "duration \<Rightarrow> string" where
  "duration_text d =
     (let u = nat \<bar>d\<bar>; s = u div 1000000000; m = s div 60; h = m div 60;
          seconds = decimal_digits (int (s mod 60)) @ fraction_digits 9 (u mod 1000000000) @ ''s''
      in (if d < 0 then ''-'' else []) @
         (if u < 1000000000 then below_second_text u
          else if m = 0 then seconds
          else if h = 0 then decimal_digits (int (m mod 60)) @ ''m'' @ seconds
          else decimal_digits (int h) @ ''h'' @ decimal_digits (int (m mod 60)) @ ''m'' @ seconds))"

end
