(* ===== verification/Scheduler.thy ===== *)
theory Scheduler
  imports Notify Go_Duration
begin

text \<open>
  \<open>internal/agent/scheduler.go\<close>: the status the scheduler keeps, one cycle (collect,
  evaluate, notify, classify, record), the guard against overlapping cycles, and the interleaving
  of cycles with each other and with \<open>Stop\<close>. Collector, evaluator and notifier are calls that
  may return, fail or panic; they run in the world of the store and may advance its clock.
\<close>

subsection \<open>Status and errors\<close>

record SchedulerStatus =
  ss_Enabled :: bool
  ss_Running :: bool
  ss_Interval :: string
  ss_LastAttemptAt :: "instant option"
  ss_LastSuccessfulCycleAt :: "instant option"
  ss_LastCycleDuration :: string
  ss_LastSafeErrorClass :: string
  ss_LastSafeErrorSummary :: string
  ss_CycleCount :: int
  ss_FailedCycleCount :: int
  ss_ConsecutiveFailures :: int
  ss_CurrentlyRunningCycle :: bool
  ss_MaxConsecutiveFailures :: int

definition SafeSchedulerStatus :: "SchedulerStatus \<Rightarrow> SchedulerStatus" where
  "SafeSchedulerStatus s =
     s\<lparr>ss_Interval := Redact (ss_Interval s), ss_LastCycleDuration := Redact (ss_LastCycleDuration s),
       ss_LastSafeErrorClass := Redact (ss_LastSafeErrorClass s),
       ss_LastSafeErrorSummary := Redact (ss_LastSafeErrorSummary s)\<rparr>"

text \<open>\<open>errors.As\<close> to a cycle error: the class of the first one in the tree.\<close>

fun as_cycle_error :: "go_error \<Rightarrow> string option" where
  "as_cycle_error (Cycle_Error cls summary e) = Some cls"
| "as_cycle_error (Wrap_Error p e) = as_cycle_error e"
| "as_cycle_error (Storage_Error op cls e) = as_cycle_error e"
| "as_cycle_error (Joined_Error a b) =
     (case as_cycle_error a of Some c \<Rightarrow> Some c | None \<Rightarrow> as_cycle_error b)"
| "as_cycle_error _ = None"

definition classifyCycleError :: "go_error option \<Rightarrow> string" where
  "classifyCycleError err =
     (case err of
        None \<Rightarrow> []
      | Some e \<Rightarrow>
          (case as_cycle_error e of
             Some cls \<Rightarrow>
               if cls \<noteq> [] then cls
               else if errors_is e Context_DeadlineExceeded then ''timeout''
               else if errors_is e Context_Canceled then ''canceled'' else ''internal_error''
           | None \<Rightarrow>
               if errors_is e Context_DeadlineExceeded then ''timeout''
               else if errors_is e Context_Canceled then ''canceled'' else ''internal_error''))"

definition safeStageError :: "string \<Rightarrow> go_error \<Rightarrow> go_error" where
  "safeStageError defaultClass err =
     Cycle_Error
       (if errors_is err Context_DeadlineExceeded then ''timeout''
        else if errors_is err Context_Canceled then ''canceled'' else defaultClass)
       (error_text err) (Some err)"

fun classifyCollectorObservations :: "Observation list \<Rightarrow> go_error option" where
  "classifyCollectorObservations [] = None"
| "classifyCollectorObservations (ob # obs) =
     (if ob_Success ob \<or> \<not> ob_Supported ob \<or> ob_ErrorClass ob = ErrorCounterReset
      then classifyCollectorObservations obs
      else Some (Cycle_Error ''collector''
             (if ob_Summary ob = [] then ''collector observation failed'' else ob_Summary ob)
             (Some ErrCollectorFailure)))"

subsection \<open>One cycle\<close>

datatype 'a call = Returned 'a | Panicked

record 'd SchedulerOptions =
  op_Enabled :: bool
  op_Interval :: duration
  op_RunOnStart :: bool
  op_CycleTimeout :: duration
  op_MaxConsecutiveFailures :: int
  op_Collector :: "('d world \<Rightarrow> (Observation list \<times> go_error option) call \<times> 'd world) option"
  op_Evaluator :: "(Observation list \<Rightarrow> 'd world \<Rightarrow> (Evaluation \<times> go_error option) call \<times> 'd world) option"
  op_Notifier :: "(Transition list \<Rightarrow> 'd world \<Rightarrow> (Report \<times> go_error option) call \<times> 'd world) option"
  op_StatusStore :: "(SchedulerStatus \<Rightarrow> (unit, 'd) op) option"

record CycleResult =
  cy_Observations :: "Observation list"
  cy_Evaluation :: Evaluation
  cy_Report :: Report
  cy_Status :: SchedulerStatus

record 'd scheduler =
  sc_status :: SchedulerStatus
  sc_locked :: bool
  sc_done :: "bool option"
  sc_cancelled :: bool
  sc_world :: "'d world"

definition initial_status :: "bool \<Rightarrow> duration \<Rightarrow> int \<Rightarrow> SchedulerStatus" where
  "initial_status enabled interval max_failures =
     \<lparr>ss_Enabled = enabled, ss_Running = False, ss_Interval = duration_text interval,
      ss_LastAttemptAt = None, ss_LastSuccessfulCycleAt = None, ss_LastCycleDuration = [],
      ss_LastSafeErrorClass = [], ss_LastSafeErrorSummary = [], ss_CycleCount = 0,
      ss_FailedCycleCount = 0, ss_ConsecutiveFailures = 0, ss_CurrentlyRunningCycle = False,
      ss_MaxConsecutiveFailures = max_failures\<rparr>"

definition effective_interval :: "duration \<Rightarrow> duration" where
  "effective_interval interval = (if interval \<le> 0 then 60 * second else interval)"

definition NewScheduler :: "'d SchedulerOptions \<Rightarrow> 'd world \<Rightarrow> 'd SchedulerOptions \<times> 'd scheduler" where
  "NewScheduler opts w =
     (let interval = effective_interval (op_Interval opts);
          timeout = (if op_CycleTimeout opts \<le> 0 then interval div 2 else op_CycleTimeout opts)
      in (opts\<lparr>op_Interval := interval, op_CycleTimeout := timeout\<rparr>,
          \<lparr>sc_status = initial_status (op_Enabled opts) interval (op_MaxConsecutiveFailures opts),
           sc_locked = False, sc_done = None, sc_cancelled = False, sc_world = w\<rparr>))"

definition markAttempt :: "instant \<Rightarrow> SchedulerStatus \<Rightarrow> SchedulerStatus" where
  "markAttempt started s =
     s\<lparr>ss_LastAttemptAt := Some started, ss_CurrentlyRunningCycle := True,
       ss_CycleCount := wrap64 (ss_CycleCount s + 1)\<rparr>"

definition cycleStatus ::
    "instant \<Rightarrow> SchedulerStatus \<Rightarrow> instant \<Rightarrow> duration \<Rightarrow> go_error option \<Rightarrow> SchedulerStatus" where
  "cycleStatus now base started duration err =
     (let s = base\<lparr>ss_CurrentlyRunningCycle := False, ss_LastCycleDuration := duration_text duration\<rparr> in
      case err of
        Some e \<Rightarrow>
          s\<lparr>ss_FailedCycleCount := wrap64 (ss_FailedCycleCount s + 1),
            ss_ConsecutiveFailures := wrap64 (ss_ConsecutiveFailures s + 1),
            ss_LastSafeErrorClass := classifyCycleError (Some e),
            ss_LastSafeErrorSummary := cycle_summary (error_text e)\<rparr>
      | None \<Rightarrow>
          s\<lparr>ss_LastSuccessfulCycleAt := Some (if is_zero_time started then now else started + duration),
            ss_ConsecutiveFailures := 0, ss_LastSafeErrorClass := [], ss_LastSafeErrorSummary := []\<rparr>)"

definition persist_error :: "go_error \<Rightarrow> go_error" where
  "persist_error e = Cycle_Error ''state_error'' ''scheduler status persistence failed'' (Some e)"

text \<open>The status to write back, and the error of persisting it.\<close>

definition finished_status ::
    "'d SchedulerOptions \<Rightarrow> SchedulerStatus \<Rightarrow> instant \<Rightarrow> duration \<Rightarrow> go_error option \<Rightarrow> 'd world \<Rightarrow>
     (SchedulerStatus \<times> go_error option) \<times> 'd world" where
  "finished_status opts base started duration err w =
     (let status = cycleStatus (wall w) base started duration err in
      case op_StatusStore opts of
        None \<Rightarrow> ((status, None), w)
      | Some save \<Rightarrow>
          (case save status w of
             (Inr u, w1) \<Rightarrow> ((status, None), w1)
           | (Inl e, w1) \<Rightarrow>
               ((if err = None then cycleStatus (wall w1) base started duration (Some (persist_error e)) else status,
                 Some (persist_error e)), w1)))"

definition finishCycle ::
    "'d SchedulerOptions \<Rightarrow> instant \<Rightarrow> duration \<Rightarrow> go_error option \<Rightarrow> 'd scheduler \<Rightarrow>
     go_error option \<times> 'd scheduler" where
  "finishCycle opts started duration err s =
     (case finished_status opts (sc_status s) started duration err (sc_world s) of
        ((status, persist), w) \<Rightarrow> (persist, s\<lparr>sc_status := status, sc_world := w\<rparr>))"

definition panic_error :: go_error where
  "panic_error =
     Cycle_Error ''internal_error'' ''scheduler cycle panic recovered'' (Some (Text_Error ''panic recovered''))"

definition no_result :: CycleResult where
  "no_result =
     \<lparr>cy_Observations = [], cy_Evaluation = no_evaluation, cy_Report = empty_report,
      cy_Status = initial_status False 0 0\<lparr>ss_Interval := []\<rparr>\<rparr>"

text \<open>The end of the body: the collector's own failure, then the context.\<close>

definition cycle_verdict ::
    "go_error option \<Rightarrow> CycleResult \<Rightarrow> 'd world \<Rightarrow> (CycleResult \<times> go_error option) \<times> 'd world" where
  "cycle_verdict collectorErr result w =
     (case collectorErr of
        Some e \<Rightarrow> ((result, Some e), w)
      | None \<Rightarrow>
          (case ctx_err w of
             (Inl e, w1) \<Rightarrow> ((result, Some (Cycle_Error ''timeout'' (error_text e) (Some e))), w1)
           | (Inr u, w1) \<Rightarrow> ((result, None), w1)))"

definition cycle_notify ::
    "'d SchedulerOptions \<Rightarrow> go_error option \<Rightarrow> CycleResult \<Rightarrow> 'd world \<Rightarrow>
     (CycleResult \<times> go_error option) \<times> 'd world" where
  "cycle_notify opts collectorErr result w =
     (case op_Notifier opts of
        Some notifier \<Rightarrow>
          if eva_Transitions (cy_Evaluation result) = [] then cycle_verdict collectorErr result w
          else
            (case notifier (eva_Transitions (cy_Evaluation result)) w of
               (Panicked, w1) \<Rightarrow> ((result, Some panic_error), w1)
             | (Returned (report, err), w1) \<Rightarrow>
                 let result1 = result\<lparr>cy_Report := report\<rparr> in
                 (case err of
                    Some e \<Rightarrow> ((result1, Some (safeStageError ''notification'' e)), w1)
                  | None \<Rightarrow>
                      if Failed report then
                        ((result1, Some (Cycle_Error ''notification''
                           ''one or more notification deliveries failed'' (Some ErrNotificationFailure))), w1)
                      else cycle_verdict collectorErr result1 w1))
      | None \<Rightarrow> cycle_verdict collectorErr result w)"

definition cycle_evaluate ::
    "'d SchedulerOptions \<Rightarrow> CycleResult \<Rightarrow> 'd world \<Rightarrow> (CycleResult \<times> go_error option) \<times> 'd world" where
  "cycle_evaluate opts result w =
     (let collectorErr = classifyCollectorObservations (cy_Observations result) in
      case op_Evaluator opts of
        None \<Rightarrow> ((result, Some (Cycle_Error ''rule'' ''scheduler evaluator is not configured'' None)), w)
      | Some evaluator \<Rightarrow>
          (case evaluator (cy_Observations result) w of
             (Panicked, w1) \<Rightarrow> ((result, Some panic_error), w1)
           | (Returned (evaluation, err), w1) \<Rightarrow>
               let result1 = result\<lparr>cy_Evaluation := evaluation\<rparr> in
               (case err of
                  Some e \<Rightarrow> ((result1, Some (safeStageError ''rule'' e)), w1)
                | None \<Rightarrow> cycle_notify opts collectorErr result1 w1)))"

definition cycle_body ::
    "'d SchedulerOptions \<Rightarrow> 'd world \<Rightarrow> (CycleResult \<times> go_error option) \<times> 'd world" where
  "cycle_body opts w =
     (case op_Collector opts of
        None \<Rightarrow> ((no_result, Some (Cycle_Error ''collector'' ''scheduler collector is not configured'' None)), w)
      | Some collector \<Rightarrow>
          (case collector w of
             (Panicked, w1) \<Rightarrow> ((no_result, Some panic_error), w1)
           | (Returned (observations, err), w1) \<Rightarrow>
               let result = no_result\<lparr>cy_Observations := observations\<rparr> in
               (case err of
                  Some e \<Rightarrow> ((result, Some (safeStageError ''collector'' e)), w1)
                | None \<Rightarrow>
                    (case ctx_err w1 of
                       (Inl e, w2) \<Rightarrow> ((result, Some (safeStageError ''collector'' e)), w2)
                     | (Inr u, w2) \<Rightarrow> cycle_evaluate opts result w2))))"

definition join_errors :: "go_error option \<Rightarrow> go_error option \<Rightarrow> go_error option" where
  "join_errors err finish =
     (case finish of
        None \<Rightarrow> err
      | Some f \<Rightarrow> (case err of None \<Rightarrow> Some f | Some e \<Rightarrow> Some (Joined_Error e f)))"

definition overlap_error :: go_error where
  "overlap_error = Cycle_Error ''overlap'' ''scheduler cycle already running'' (Some ErrCycleAlreadyRunning)"

definition RunOnce ::
    "'d SchedulerOptions \<Rightarrow> ctx \<Rightarrow> 'd scheduler \<Rightarrow> (CycleResult \<times> go_error option) \<times> 'd scheduler" where
  "RunOnce opts ctx s =
     (if ctx = Nil_Context then ((no_result, Some Context_Canceled), s)
      else if sc_locked s then
        (case finishCycle opts (wall (sc_world s)) 0 (Some overlap_error) s of
           (persist, s1) \<Rightarrow>
             ((no_result\<lparr>cy_Status := SafeSchedulerStatus (sc_status s1)\<rparr>, Some overlap_error), s1))
      else
        (let started = wall (sc_world s);
             s1 = s\<lparr>sc_locked := True, sc_status := markAttempt started (sc_status s)\<rparr>
         in case cycle_body opts (sc_world s1) of
              ((result, err), w) \<Rightarrow>
                (case finishCycle opts started (time_sub (wall w) started) err (s1\<lparr>sc_world := w\<rparr>) of
                   (persist, s2) \<Rightarrow>
                     ((result\<lparr>cy_Status := SafeSchedulerStatus (sc_status s2)\<rparr>, join_errors err persist),
                      s2\<lparr>sc_locked := False\<rparr>))))"

definition mark_stopped :: "SchedulerStatus \<Rightarrow> SchedulerStatus" where
  "mark_stopped s = s\<lparr>ss_Running := False, ss_CurrentlyRunningCycle := False\<rparr>"

definition mark_started :: "SchedulerStatus \<Rightarrow> SchedulerStatus" where
  "mark_started s = s\<lparr>ss_Running := True\<rparr>"

subsection \<open>Starting, looping, stopping\<close>

text \<open>
  \<open>sc_done\<close> is the channel the loop closes: missing before a start, open while the loop runs. A
  start reports its error and whether it leaves a loop running.
\<close>

definition Start ::
    "'d SchedulerOptions \<Rightarrow> ctx \<Rightarrow> 'd scheduler \<Rightarrow> (go_error option \<times> bool) \<times> 'd scheduler" where
  "Start opts ctx s =
     (if \<not> op_Enabled opts then ((None, False), s)
      else if ctx = Nil_Context then ((Some Context_Canceled, False), s)
      else case ctx_err (sc_world s) of
             (Inl e, w) \<Rightarrow> ((Some e, False), s\<lparr>sc_world := w\<rparr>)
           | (Inr u, w) \<Rightarrow>
               (let s1 = s\<lparr>sc_world := w\<rparr> in
                if ss_Running (sc_status s1) then ((None, False), s1)
                else
                  (let s2 = s1\<lparr>sc_done := Some False, sc_cancelled := False, sc_status := mark_started (sc_status s1)\<rparr>
                   in ((None, True), if op_RunOnStart opts then snd (RunOnce opts ctx s2) else s2))))"

text \<open>What the loop's \<open>select\<close> picks, in order: a tick, which runs a cycle, or the end of the context.\<close>

datatype loop_event = Tick | Context_Done

fun loop_run :: "'d SchedulerOptions \<Rightarrow> loop_event list \<Rightarrow> 'd scheduler \<Rightarrow> 'd scheduler" where
  "loop_run opts [] s = s"
| "loop_run opts (Tick # es) s = loop_run opts es (snd (RunOnce opts Live_Context s))"
| "loop_run opts (Context_Done # es) s = s\<lparr>sc_done := Some True\<rparr>"

datatype stop_wait = Loop_Ended | Wait_Expired go_error

definition Stop :: "stop_wait \<Rightarrow> 'd scheduler \<Rightarrow> go_error option \<times> 'd scheduler" where
  "Stop waited s =
     (let s1 = s\<lparr>sc_status := mark_stopped (sc_status s), sc_cancelled := True\<rparr>
      in case sc_done s of
           None \<Rightarrow> (None, s1)
         | Some _ \<Rightarrow> (case waited of Loop_Ended \<Rightarrow> (None, s1\<lparr>sc_done := Some True\<rparr>) | Wait_Expired e \<Rightarrow> (Some e, s1)))"

definition Status :: "'d scheduler \<Rightarrow> SchedulerStatus" where
  "Status s = SafeSchedulerStatus (sc_status s)"

subsection \<open>Accounting\<close>

definition accounts :: "go_error option \<Rightarrow> SchedulerStatus \<Rightarrow> SchedulerStatus \<Rightarrow> bool" where
  "accounts err a b \<longleftrightarrow>
     ss_CycleCount b = wrap64 (ss_CycleCount a + 1) \<and> \<not> ss_CurrentlyRunningCycle b \<and> ss_Running b = ss_Running a \<and>
     (case err of
        None \<Rightarrow> ss_FailedCycleCount b = ss_FailedCycleCount a \<and> ss_ConsecutiveFailures b = 0 \<and>
          ss_LastSafeErrorClass b = [] \<and> ss_LastSuccessfulCycleAt b \<noteq> None
      | Some e \<Rightarrow> ss_FailedCycleCount b = wrap64 (ss_FailedCycleCount a + 1) \<and>
          ss_ConsecutiveFailures b = wrap64 (ss_ConsecutiveFailures a + 1) \<and> ss_LastSafeErrorClass b \<noteq> [] \<and>
          ss_LastSuccessfulCycleAt b = ss_LastSuccessfulCycleAt a)"

lemma classify_Some: "classifyCycleError (Some e) \<noteq> []"
  by (simp add: classifyCycleError_def split: option.split)

lemma finished_accounts:
  assumes "finished_status opts (markAttempt t a) t d err w = ((b, persist), w1)"
  shows "accounts (join_errors err persist) a b"
  using assms classify_Some
  by (auto simp: finished_status_def Let_def markAttempt_def cycleStatus_def accounts_def join_errors_def
      split: option.splits prod.splits sum.splits if_splits)

lemma RunOnce_accounts:
  assumes "\<not> sc_locked s" "RunOnce opts Live_Context s = ((result, err), s1)"
  shows "accounts err (sc_status s) (sc_status s1) \<and> \<not> sc_locked s1 \<and>
    cy_Status result = SafeSchedulerStatus (sc_status s1) \<and> sc_done s1 = sc_done s"
proof -
  let ?t = "wall (sc_world s)"
  obtain r e w where body: "cycle_body opts (sc_world s) = ((r, e), w)" by (metis prod.collapse)
  obtain b persist w1 where fin: "finished_status opts (markAttempt ?t (sc_status s)) ?t (time_sub (wall w) ?t) e w = ((b, persist), w1)"
    by (metis prod.collapse)
  from assms body fin have "err = join_errors e persist" "sc_status s1 = b" "\<not> sc_locked s1"
    "cy_Status result = SafeSchedulerStatus b" "sc_done s1 = sc_done s"
    by (auto simp: RunOnce_def Let_def finishCycle_def)
  with finished_accounts [OF fin] show ?thesis by simp
qed

text \<open>The results of successive cycles, the counters after them.\<close>

fun run_cycles :: "'d SchedulerOptions \<Rightarrow> nat \<Rightarrow> 'd scheduler \<Rightarrow> go_error option list \<times> 'd scheduler" where
  "run_cycles opts 0 s = ([], s)"
| "run_cycles opts (Suc n) s =
     (case RunOnce opts Live_Context s of ((result, err), s1) \<Rightarrow>
        (case run_cycles opts n s1 of (errs, s2) \<Rightarrow> (err # errs, s2)))"

definition failures :: "go_error option list \<Rightarrow> nat" where
  "failures errs = length (filter (\<lambda>e. e \<noteq> None) errs)"

definition trailing_failures :: "go_error option list \<Rightarrow> nat" where
  "trailing_failures errs = length (takeWhile (\<lambda>e. e \<noteq> None) (rev errs))"

end
