(* ===== verification/Go_Files.thy ===== *)
theory Go_Files
  imports Go_Path Go_Runtime
begin

text \<open>
  The files of the host, as the calls of package \<open>os\<close> see them: nodes at physical paths (lists
  of plain elements from the root), symbolic links resolved on the way as the kernel does it, and
  the calls as operations that may also fail outside, leaving the files as they are. A failing
  write leaves the first \<open>torn\<close> bytes of its data behind.
\<close>

unbundle bit_operations_syntax

datatype node =
    Dir_Node int
  | File_Node int string
  | Link_Node string
  | Special_Node int

datatype errno = ENOENT | ENOTDIR | ELOOP | EEXIST | EISDIR | ENOTEMPTY

definition errno_text :: "errno \<Rightarrow> string" where
  "errno_text e =
     (case e of
        ENOENT \<Rightarrow> ''no such file or directory'' | ENOTDIR \<Rightarrow> ''not a directory''
      | ELOOP \<Rightarrow> ''too many levels of symbolic links'' | EEXIST \<Rightarrow> ''file exists''
      | EISDIR \<Rightarrow> ''is a directory'' | ENOTEMPTY \<Rightarrow> ''directory not empty'')"

record file_system =
  nodes :: "string list \<rightharpoonup> node"
  cwd :: "string list"
  umask :: int
  pid :: int
  torn :: nat
  goos :: string

definition path_error :: "string \<Rightarrow> string \<Rightarrow> errno \<Rightarrow> go_error" where
  "path_error op path e = Text_Error (op @ '' '' @ path @ '': '' @ errno_text e)"

text \<open>The root is always there.\<close>

definition node_at :: "('z) file_system_scheme \<Rightarrow> string list \<Rightarrow> node option" where
  "node_at d p = (if p = [] then Some (Dir_Node 493) else nodes d p)"

subsection \<open>Resolving a path\<close>

text \<open>
  The physical path of a path, which need not exist in its last element. Linux follows at most 40
  links, and follows the last element unless asked not to.
\<close>

function resolve :: "nat \<Rightarrow> bool \<Rightarrow> (string list \<rightharpoonup> node) \<Rightarrow> string list \<Rightarrow> string list \<Rightarrow> errno + string list" where
  "resolve links follow fs cur [] = Inr cur"
| "resolve links follow fs cur (c # cs) =
     (if c = [] \<or> c = dot then resolve links follow fs cur cs
      else if c = dotdot then resolve links follow fs (butlast cur) cs
      else case fs (cur @ [c]) of
             None \<Rightarrow> if cs = [] then Inr (cur @ [c]) else Inl ENOENT
           | Some n \<Rightarrow>
               (case n of
                  Link_Node t \<Rightarrow>
                    if cs = [] \<and> \<not> follow then Inr (cur @ [c])
                    else (case links of
                            0 \<Rightarrow> Inl ELOOP
                          | Suc k \<Rightarrow> resolve k follow fs (if IsAbs t then [] else cur) (split_on slash t @ cs))
                | Dir_Node m \<Rightarrow> resolve links follow fs (cur @ [c]) cs
                | _ \<Rightarrow> if cs = [] then Inr (cur @ [c]) else Inl ENOTDIR))"
  by pat_completeness auto
termination
  by (relation "measures [\<lambda>(links, _). links, \<lambda>(_, _, _, _, cs). length cs]") auto

definition physical :: "bool \<Rightarrow> ('z) file_system_scheme \<Rightarrow> string \<Rightarrow> errno + string list" where
  "physical follow d path =
     (if path = [] then Inl ENOENT
      else resolve 40 follow (nodes d) (if IsAbs path then [] else cwd d) (split_on slash path))"

subsection \<open>Calls\<close>

text \<open>\<open>Lstat\<close> and \<open>Stat\<close>: no node when the error is \<open>IsNotExist\<close>.\<close>

definition exec_stat ::
    "bool \<Rightarrow> string \<Rightarrow> string \<Rightarrow> instant \<Rightarrow> ('z) file_system_scheme \<Rightarrow> (go_error + node option) \<times> ('z) file_system_scheme" where
  "exec_stat follow op path now d =
     (case physical follow d path of
        Inl e \<Rightarrow> (if e = ENOENT then Inr None else Inl (path_error op path e), d)
      | Inr p \<Rightarrow> (Inr (node_at d p), d))"

definition Lstat :: "string \<Rightarrow> (node option, ('z) file_system_scheme) op" where
  "Lstat path = statement (exec_stat False ''lstat'' path)"

definition Stat :: "string \<Rightarrow> (node option, ('z) file_system_scheme) op" where
  "Stat path = statement (exec_stat True ''stat'' path)"

text \<open>\<open>Mkdir\<close>: whether the directory was made; the path exists otherwise (\<open>IsExist\<close>).\<close>

definition exec_mkdir ::
    "string \<Rightarrow> int \<Rightarrow> instant \<Rightarrow> ('z) file_system_scheme \<Rightarrow> (go_error + bool) \<times> ('z) file_system_scheme" where
  "exec_mkdir path perm now d =
     (case physical False d path of
        Inl e \<Rightarrow> (Inl (path_error ''mkdir'' path e), d)
      | Inr p \<Rightarrow>
          if node_at d p \<noteq> None then (Inr False, d)
          else (Inr True, d\<lparr>nodes := (nodes d)(p \<mapsto> Dir_Node (perm AND NOT (umask d)))\<rparr>))"

definition Mkdir :: "string \<Rightarrow> int \<Rightarrow> (bool, ('z) file_system_scheme) op" where
  "Mkdir path perm = statement (exec_mkdir path perm)"

text \<open>
  Opening for writing with \<open>O_CREATE\<close>: the handle is the physical path. \<open>O_EXCL\<close> wants a new
  name (no handle: \<open>IsExist\<close>), \<open>O_NOFOLLOW\<close> refuses a link as the last element.
\<close>

definition exec_open ::
    "bool \<Rightarrow> bool \<Rightarrow> string \<Rightarrow> int \<Rightarrow> instant \<Rightarrow> ('z) file_system_scheme \<Rightarrow>
     (go_error + string list option) \<times> ('z) file_system_scheme" where
  "exec_open excl nofollow path perm now d =
     (case physical (\<not> excl \<and> \<not> nofollow) d path of
        Inl e \<Rightarrow> (Inl (path_error ''open'' path e), d)
      | Inr p \<Rightarrow>
          (case node_at d p of
             None \<Rightarrow> (Inr (Some p), d\<lparr>nodes := (nodes d)(p \<mapsto> File_Node (perm AND NOT (umask d)) [])\<rparr>)
           | Some n \<Rightarrow>
               if excl then (Inr None, d)
               else (case n of
                       Dir_Node m \<Rightarrow> (Inl (path_error ''open'' path EISDIR), d)
                     | Link_Node t \<Rightarrow> (Inl (path_error ''open'' path ELOOP), d)
                     | _ \<Rightarrow> (Inr (Some p), d))))"

definition open_call :: "bool \<Rightarrow> bool \<Rightarrow> string \<Rightarrow> int \<Rightarrow> (string list option, ('z) file_system_scheme) op" where
  "open_call excl nofollow path perm = statement (exec_open excl nofollow path perm)"

definition fstat :: "string list \<Rightarrow> (node option, ('z) file_system_scheme) op" where
  "fstat h = statement (\<lambda>now d. (Inr (node_at d h), d))"

definition append_bytes :: "string list \<Rightarrow> string \<Rightarrow> ('z) file_system_scheme \<Rightarrow> ('z) file_system_scheme" where
  "append_bytes h bs d =
     (case nodes d h of
        Some (File_Node m old) \<Rightarrow> d\<lparr>nodes := (nodes d)(h \<mapsto> File_Node m (old @ bs))\<rparr>
      | _ \<Rightarrow> d)"

text \<open>Writing at the end of a file: a failure leaves a part of the data written.\<close>

definition write_bytes :: "string list \<Rightarrow> string \<Rightarrow> (unit, ('z) file_system_scheme) op" where
  "write_bytes h bs w =
     (case external w of
        (Some e, w1) \<Rightarrow> (Inl e, w1\<lparr>data := append_bytes h (take (torn (data w1)) bs) (data w1)\<rparr>)
      | (None, w1) \<Rightarrow> (Inr (), w1\<lparr>data := append_bytes h bs (data w1)\<rparr>))"

text \<open>\<open>Sync\<close> and \<open>Close\<close> of a handle only succeed or fail.\<close>

definition settle :: "(unit, ('z) file_system_scheme) op" where
  "settle = statement (\<lambda>now d. (Inr (), d))"

definition has_child :: "(string list \<rightharpoonup> node) \<Rightarrow> string list \<Rightarrow> bool" where
  "has_child fs p \<longleftrightarrow> (\<exists>c. fs (p @ [c]) \<noteq> None)"

text \<open>Renaming a file: what the target name had before is gone.\<close>

definition exec_rename ::
    "string \<Rightarrow> string \<Rightarrow> instant \<Rightarrow> ('z) file_system_scheme \<Rightarrow> (go_error + unit) \<times> ('z) file_system_scheme" where
  "exec_rename old new now d =
     (case (physical False d old, physical False d new) of
        (Inl e, _) \<Rightarrow> (Inl (path_error ''rename'' old e), d)
      | (_, Inl e) \<Rightarrow> (Inl (path_error ''rename'' old e), d)
      | (Inr p, Inr q) \<Rightarrow>
          (case (node_at d p, node_at d q) of
             (None, _) \<Rightarrow> (Inl (path_error ''rename'' old ENOENT), d)
           | (Some (Dir_Node m), _) \<Rightarrow> (Inl (path_error ''rename'' old ENOTDIR), d)
           | (Some n, Some (Dir_Node m)) \<Rightarrow> (Inl (path_error ''rename'' old EISDIR), d)
           | (Some n, _) \<Rightarrow> (Inr (), d\<lparr>nodes := (nodes d)(p := None, q \<mapsto> n)\<rparr>)))"

definition Rename :: "string \<Rightarrow> string \<Rightarrow> (unit, ('z) file_system_scheme) op" where
  "Rename old new = statement (exec_rename old new)"

definition exec_remove ::
    "string \<Rightarrow> instant \<Rightarrow> ('z) file_system_scheme \<Rightarrow> (go_error + unit) \<times> ('z) file_system_scheme" where
  "exec_remove path now d =
     (case physical False d path of
        Inl e \<Rightarrow> (Inl (path_error ''remove'' path e), d)
      | Inr p \<Rightarrow>
          (case node_at d p of
             None \<Rightarrow> (Inl (path_error ''remove'' path ENOENT), d)
           | Some (Dir_Node m) \<Rightarrow>
               if p = [] \<or> has_child (nodes d) p then (Inl (path_error ''remove'' path ENOTEMPTY), d)
               else (Inr (), d\<lparr>nodes := (nodes d)(p := None)\<rparr>)
           | Some n \<Rightarrow> (Inr (), d\<lparr>nodes := (nodes d)(p := None)\<rparr>)))"

definition Remove :: "string \<Rightarrow> (unit, ('z) file_system_scheme) op" where
  "Remove path = statement (exec_remove path)"

text \<open>\<open>filepath.Dir\<close>.\<close>

definition Dir_of :: "string \<Rightarrow> string" where
  "Dir_of p = Clean (rev (dropWhile (\<lambda>c. c \<noteq> slash) (rev p)))"

text \<open>
  \<open>os.MkdirAll\<close> over the prefixes of a path, the shortest first: a prefix that is a directory (behind
  links) is passed, anything else there is an error, and a missing one is made.
\<close>

definition mkdir_step :: "string \<Rightarrow> int \<Rightarrow> (unit, ('z) file_system_scheme) op" where
  "mkdir_step path perm =
     andThen (Stat path) (\<lambda>n.
     case n of
       Some (Dir_Node m) \<Rightarrow> ok ()
     | Some _ \<Rightarrow> fail (path_error ''mkdir'' path ENOTDIR)
     | None \<Rightarrow>
         andThen (Mkdir path perm) (\<lambda>made.
         if made then ok ()
         else andThen (Lstat path) (\<lambda>n.
                case n of Some (Dir_Node m) \<Rightarrow> ok () | _ \<Rightarrow> fail (path_error ''mkdir'' path EEXIST))))"

fun mkdir_from :: "string \<Rightarrow> string list \<Rightarrow> int \<Rightarrow> (unit, ('z) file_system_scheme) op" where
  "mkdir_from base [] perm = ok ()"
| "mkdir_from base (x # xs) perm =
     (let path = (if base = [] then x else if suffix ''/'' base then base @ x else base @ ''/'' @ x)
      in andThen (mkdir_step path perm) (\<lambda>_. mkdir_from path xs perm))"

definition MkdirAll :: "string \<Rightarrow> int \<Rightarrow> (unit, ('z) file_system_scheme) op" where
  "MkdirAll path perm =
     mkdir_from (if IsAbs path then ''/'' else []) (path_elements path) perm"

end
