(* ===== verification/Go_Json.thy ===== *)
theory Go_Json
  imports "HOL-Library.List_Lexorder" Go_Float Go_Prelude
begin

text \<open>
  JSON values as \<open>encoding/json\<close> decodes them into \<open>any\<close> (numbers are floats, objects are maps)
  and the text \<open>Marshal\<close> and \<open>MarshalIndent\<close> write for them: keys in order, HTML characters and
  the line separators escaped, invalid UTF-8 replaced.
\<close>

datatype json =
    J_Null
  | J_Bool bool
  | J_Number float64
  | J_String string
  | J_Array "json list"
  | J_Object "(string \<times> json) list"

definition hex4 :: "nat \<Rightarrow> string" where
  "hex4 n = [CHR 0x5C, CHR ''u''] @ map (\<lambda>i. ''0123456789abcdef'' ! (n div 16 ^ i mod 16)) [3, 2, 1, 0]"

definition escape_rune :: "string \<Rightarrow> string" where
  "escape_rune r =
     (case r of
        [c] \<Rightarrow>
          (let b = byte c
           in if b = 34 \<or> b = 92 then [CHR 0x5C, c]
              else if b = 8 then [CHR 0x5C, CHR ''b''] else if b = 9 then [CHR 0x5C, CHR ''t'']
              else if b = 10 then [CHR 0x5C, CHR ''n''] else if b = 12 then [CHR 0x5C, CHR ''f'']
              else if b = 13 then [CHR 0x5C, CHR ''r'']
              else if b < 32 \<or> c \<in> set ''<>&'' then hex4 b
              else if 128 \<le> b then hex4 0xFFFD
              else [c])
      | _ \<Rightarrow>
          if map byte r = [0xE2, 0x80, 0xA8] then hex4 0x2028
          else if map byte r = [0xE2, 0x80, 0xA9] then hex4 0x2029 else r)"

definition quote_json :: "string \<Rightarrow> string" where
  "quote_json s = [CHR 0x22] @ concat (map escape_rune (runes s)) @ [CHR 0x22]"

text \<open>The shortest digits of a positive value and its decimal exponent.\<close>

definition shortest_digits :: "rat \<Rightarrow> string \<times> int" where
  "shortest_digits x =
     (let e0 = decimal_exponent x;
          (d, n) = shortest_decimal 17 x e0 1;
          ds = decimal_digits d
      in (rev (dropWhile (\<lambda>c. c = CHR ''0'') (rev ds)), if length ds > n then e0 + 1 else e0))"

definition json_positive :: "rat \<Rightarrow> string" where
  "json_positive x =
     (let (ds, e) = shortest_digits x
      in if x < 1 / 10 ^ 6 \<or> 10 ^ 21 \<le> x
         then (if length ds = 1 then ds else take 1 ds @ ''.'' @ drop 1 ds) @
              (if e < 0 then ''e-'' @ decimal_digits (- e) else ''e+'' @ decimal_digits e)
         else fixed_text ds e)"

definition json_number :: "float64 \<Rightarrow> string" where
  "json_number x =
     (case x of
        Fin r \<Rightarrow> if r = 0 then ''0'' else if 0 < r then json_positive r else ''-'' @ json_positive (- r)
      | Neg_Zero \<Rightarrow> ''-0''
      | _ \<Rightarrow> [])"

definition join_members :: "string \<Rightarrow> string list \<Rightarrow> string" where
  "join_members sep xs = join_with sep xs"

definition sort_members :: "(string \<times> 'v) list \<Rightarrow> (string \<times> 'v) list" where
  "sort_members kvs = sort_key (\<lambda>(k, _). map byte k) kvs"

fun marshal :: "json \<Rightarrow> string" where
  "marshal J_Null = ''null''"
| "marshal (J_Bool b) = (if b then ''true'' else ''false'')"
| "marshal (J_Number x) = json_number x"
| "marshal (J_String s) = quote_json s"
| "marshal (J_Array xs) = ''['' @ join_members '','' (map marshal xs) @ '']''"
| "marshal (J_Object kvs) =
     ''{'' @ join_members '','' (map (\<lambda>(k, v). quote_json k @ '':'' @ v) (sort_members (map (map_prod id marshal) kvs))) @ ''}''"

definition new_line :: "nat \<Rightarrow> string" where
  "new_line depth = CHR 0x0A # replicate (2 * depth) CHR '' ''"

fun marshal_indent :: "nat \<Rightarrow> json \<Rightarrow> string" where
  "marshal_indent depth (J_Array xs) =
     (if xs = [] then ''[]''
      else ''['' @ new_line (Suc depth) @
           join_members ('','' @ new_line (Suc depth)) (map (marshal_indent (Suc depth)) xs) @
           new_line depth @ '']'')"
| "marshal_indent depth (J_Object kvs) =
     (if kvs = [] then ''{}''
      else ''{'' @ new_line (Suc depth) @
           join_members ('','' @ new_line (Suc depth))
             (map (\<lambda>(k, v). quote_json k @ '': '' @ v) (sort_members (map (map_prod id (marshal_indent (Suc depth))) kvs))) @
           new_line depth @ ''}'')"
| "marshal_indent depth v = marshal v"

end
