(* ===== verification/Storage_Files.thy ===== *)
theory Storage_Files
  imports Go_Files Go_Json Go_Strconv Storage_Path
begin

text \<open>
  The part of \<open>internal/storage\<close> that works on files: directories without symbolic links
  (\<open>path.go\<close>), files that are replaced at once (\<open>atomic.go\<close>), evidence (\<open>evidence.go\<close>), event logs
  (\<open>jsonl.go\<close>), the current state and the sanitized JSON they hold (\<open>current_state.go\<close>,
  \<open>json_sanitize.go\<close>), and the modes of \<open>permissions.go\<close>. Opening without following links is
  the Unix variant.
\<close>

definition DirMode :: int where "DirMode = 0x1E8"
definition FileMode :: int where "FileMode = 0x1A0"
definition DefaultMaxEventBytes :: int where "DefaultMaxEventBytes = 64 * 1024"

definition fileModeIsRestrictive :: "int \<Rightarrow> bool" where
  "fileModeIsRestrictive mode \<longleftrightarrow>
     (let perm = mode AND 0x1FF
      in perm AND 7 = 0 \<and> perm AND 16 = 0 \<and> perm AND 256 \<noteq> 0 \<and> perm AND 128 \<noteq> 0)"

text \<open>An error leaves a clean-up behind, whose own failure is dropped.\<close>

definition on_error :: "('a, 'd) op \<Rightarrow> (unit, 'd) op \<Rightarrow> ('a, 'd) op" where
  "on_error m c w = (case m w of (Inl e, w1) \<Rightarrow> (Inl e, snd (c w1)) | (Inr a, w1) \<Rightarrow> (Inr a, w1))"

subsection \<open>Directories\<close>

definition ensureDir :: "string \<Rightarrow> (unit, ('z) file_system_scheme) op" where
  "ensureDir path =
     (if path = [] then fail (Text_Error ''directory path is required'') else MkdirAll path DirMode)"

definition rejectUnsafeExistingFile :: "string \<Rightarrow> (unit, ('z) file_system_scheme) op" where
  "rejectUnsafeExistingFile path =
     andThen (Lstat path) (\<lambda>n.
     case n of
       None \<Rightarrow> ok ()
     | Some (Link_Node t) \<Rightarrow> fail (Text_Error (''path is a symlink: '' @ path))
     | Some (File_Node m bs) \<Rightarrow> ok ()
     | Some _ \<Rightarrow> fail (Text_Error (''path is not a regular file: '' @ path)))"

definition allowedPlatformRootSymlink :: "string \<Rightarrow> string \<Rightarrow> bool" where
  "allowedPlatformRootSymlink os path \<longleftrightarrow>
     os = ''darwin'' \<and> (let clean = Clean path in clean = ''/var'' \<or> clean = ''/tmp'')"

definition runtime_goos :: "(string, ('z) file_system_scheme) op" where
  "runtime_goos w = (Inr (goos (data w)), w)"

text \<open>One element of the walk: what is there must be a directory, what is missing is made.\<close>

definition ensure_element :: "string \<Rightarrow> (unit, ('z) file_system_scheme) op" where
  "ensure_element current =
     andThen runtime_goos (\<lambda>os.
     andThen (Lstat current) (\<lambda>n.
     case n of
       Some (Link_Node t) \<Rightarrow>
         if allowedPlatformRootSymlink os current then ok ()
         else fail (Text_Error (''path contains symlink: '' @ current))
     | Some (Dir_Node m) \<Rightarrow> ok ()
     | Some _ \<Rightarrow> fail (Text_Error (''path is not a directory: '' @ current))
     | None \<Rightarrow> andThen (Mkdir current DirMode) (\<lambda>_. ok ())))"

fun ensure_elements :: "string \<Rightarrow> string list \<Rightarrow> (unit, ('z) file_system_scheme) op" where
  "ensure_elements current [] = ok ()"
| "ensure_elements current (part # parts) =
     (if part = [] \<or> part = dot then ensure_elements current parts
      else let next_path = Join [current, part]
           in andThen (ensure_element next_path) (\<lambda>_. ensure_elements next_path parts))"

definition trim_slashes :: "string \<Rightarrow> string" where
  "trim_slashes s = rev (dropWhile (\<lambda>c. c = slash) (rev (dropWhile (\<lambda>c. c = slash) s)))"

definition ensureDirNoSymlink :: "string \<Rightarrow> (unit, ('z) file_system_scheme) op" where
  "ensureDirNoSymlink path =
     (let clean = Clean path
      in if clean = dot then ensure_element dot
         else ensure_elements (if IsAbs clean then ''/'' else []) (split_on slash (trim_slashes clean)))"

definition ensureDirNoSymlinkUnder :: "string \<Rightarrow> string \<Rightarrow> (unit, ('z) file_system_scheme) op" where
  "ensureDirNoSymlinkUnder base path =
     (if base = [] \<or> path = [] then fail (Text_Error ''base and path are required'')
      else
        (let cleanBase = Clean base; cleanPath = Clean path
         in andThen (ensureDir cleanBase) (\<lambda>_.
            andThen (Lstat cleanBase) (\<lambda>n.
            case n of
              None \<Rightarrow> fail (path_error ''lstat'' cleanBase ENOENT)
            | Some (Link_Node t) \<Rightarrow> fail (Text_Error (''configured root is a symlink: '' @ cleanBase))
            | Some _ \<Rightarrow>
                (case Rel cleanBase cleanPath of
                   None \<Rightarrow> fail (Text_Error (''Rel: can'' @ [CHR 0x27] @ ''t make '' @ cleanPath @ '' relative to '' @ cleanBase))
                 | Some rel \<Rightarrow>
                     if rel = dot then ok ()
                     else if prefix ''../'' rel \<or> rel = dotdot \<or> IsAbs rel
                     then fail (Text_Error ''path escapes base directory'')
                     else ensure_elements cleanBase (split_on slash rel))))))"

subsection \<open>Opening and replacing files\<close>

definition openRegularNoFollow :: "string \<Rightarrow> int \<Rightarrow> (string list, ('z) file_system_scheme) op" where
  "openRegularNoFollow name perm =
     andThen (open_call False True name perm) (\<lambda>handle.
     case handle of
       None \<Rightarrow> fail (path_error ''open'' name EEXIST)
     | Some h \<Rightarrow>
         on_error (andThen (fstat h) (\<lambda>n.
           case n of
             Some (File_Node m bs) \<Rightarrow> ok h
           | _ \<Rightarrow> fail (Text_Error ''path is not a regular file''))) settle)"

definition node_mode :: "node option \<Rightarrow> int" where
  "node_mode n = (case n of Some (File_Node m bs) \<Rightarrow> m | Some (Dir_Node m) \<Rightarrow> m | Some (Special_Node m) \<Rightarrow> m | _ \<Rightarrow> 0)"

definition prepareDatabaseFile :: "string \<Rightarrow> (unit, ('z) file_system_scheme) op" where
  "prepareDatabaseFile path =
     andThen (openRegularNoFollow path FileMode) (\<lambda>h w.
       (case andThen (fstat h) (\<lambda>n.
               if \<not> fileModeIsRestrictive (node_mode n)
               then fail (Text_Error ''database file permissions are too permissive'') else ok ()) w of
          (r, w1) \<Rightarrow> (r, snd (settle w1))))"

text \<open>\<open>UnixNano\<close>: instants count from the year 1.\<close>

definition unix_nano :: "instant \<Rightarrow> int" where
  "unix_nano now = wrap64 (now - 62135596800 * 1000000000)"

definition temp_name :: "string \<Rightarrow> int \<Rightarrow> instant \<Rightarrow> nat \<Rightarrow> string" where
  "temp_name base process now i =
     ''.'' @ base @ ''.tmp-'' @ Itoa process @ ''-'' @ Itoa (unix_nano now) @ ''-'' @ Itoa (int i)"

definition getpid :: "(int, ('z) file_system_scheme) op" where
  "getpid w = (Inr (pid (data w)), w)"

text \<open>\<open>tries\<close> counts down from 100.\<close>

fun create_temp :: "nat \<Rightarrow> nat \<Rightarrow> string \<Rightarrow> string \<Rightarrow> (string list \<times> string, ('z) file_system_scheme) op" where
  "create_temp 0 i dir base = fail (Text_Error ''could not create unique temporary file'')"
| "create_temp (Suc tries) i dir base =
     andThen getpid (\<lambda>process.
     andThen time_now (\<lambda>now.
     let path = Join [dir, temp_name base process now i]
     in andThen (open_call True False path FileMode) (\<lambda>handle.
        case handle of
          Some h \<Rightarrow> ok (h, path)
        | None \<Rightarrow> create_temp tries (Suc i) dir base)))"

definition createAtomicTempFile :: "string \<Rightarrow> string \<Rightarrow> (string list \<times> string, ('z) file_system_scheme) op" where
  "createAtomicTempFile dir base = create_temp 100 0 dir base"

definition syncDir :: "string \<Rightarrow> (unit, ('z) file_system_scheme) op" where
  "syncDir path =
     andThen (statement (exec_stat True ''open'' path)) (\<lambda>n.
     if n = None then fail (path_error ''open'' path ENOENT)
     else (\<lambda>w. case settle w of (r, w1) \<Rightarrow> (r, snd (settle w1))))"

definition replace_file :: "string list \<Rightarrow> string \<Rightarrow> string \<Rightarrow> string \<Rightarrow> (unit, ('z) file_system_scheme) op" where
  "replace_file h tmpPath path bs =
     andThen (on_error (andThen (write_bytes h bs) (\<lambda>_. andThen ctx_err (\<lambda>_. settle))) settle) (\<lambda>_.
     andThen settle (\<lambda>_. Rename tmpPath path))"

definition atomicWriteFile :: "ctx \<Rightarrow> string \<Rightarrow> string \<Rightarrow> (unit, ('z) file_system_scheme) op" where
  "atomicWriteFile c path bs =
     (if c = Nil_Context then fail (Text_Error ''context is nil'')
      else
        andThen ctx_err (\<lambda>_.
        if path = [] then fail (Text_Error ''path is required'')
        else
          (let dir = Dir_of path
           in andThen (ensureDirNoSymlink dir) (\<lambda>_.
              andThen (rejectUnsafeExistingFile path) (\<lambda>_.
              andThen (createAtomicTempFile dir (Base path)) (\<lambda>(h, tmpPath).
              andThen (on_error (replace_file h tmpPath path bs) (Remove tmpPath)) (\<lambda>_.
              syncDir dir)))))))"

subsection \<open>Sanitized JSON\<close>

text \<open>A sensitive key hides its value; an array keeps the key of the member it is the value of.\<close>

fun sanitizeJSONValue :: "string \<Rightarrow> json \<Rightarrow> json" where
  "sanitizeJSONValue key (J_Object kvs) =
     (if IsSensitiveKey key then J_String Replacement
      else J_Object (map (\<lambda>(k, v). (k, sanitizeJSONValue k v)) kvs))"
| "sanitizeJSONValue key (J_Array xs) =
     (if IsSensitiveKey key then J_String Replacement else J_Array (map (sanitizeJSONValue key) xs))"
| "sanitizeJSONValue key (J_String s) =
     (if IsSensitiveKey key then J_String Replacement else J_String (Redact s))"
| "sanitizeJSONValue key v = (if IsSensitiveKey key then J_String Replacement else v)"

text \<open>The value is what decoding its encoding gives, or the error of that.\<close>

definition sanitizedJSONBytes :: "go_error + json \<Rightarrow> bool \<Rightarrow> go_error + string" where
  "sanitizedJSONBytes val indent =
     (case val of
        Inl e \<Rightarrow> Inl e
      | Inr decoded \<Rightarrow>
          (let sanitized = sanitizeJSONValue [] decoded
           in Inr (if indent then marshal_indent 0 sanitized else marshal sanitized)))"

definition WriteCurrentState :: "ctx \<Rightarrow> string \<Rightarrow> go_error + json \<Rightarrow> (unit, ('z) file_system_scheme) op" where
  "WriteCurrentState c path val =
     andThen (map_err (wrapError ''current state encode'' ErrorClassWrite) (lift_result (sanitizedJSONBytes val True))) (\<lambda>bs.
     map_err (wrapError ''current state write'' ErrorClassWrite) (atomicWriteFile c path (bs @ [CHR 0x0A])))"

subsection \<open>Evidence\<close>

definition text_result :: "string + 'a \<Rightarrow> go_error + 'a" where
  "text_result r = (case r of Inl e \<Rightarrow> Inl (Text_Error e) | Inr a \<Rightarrow> Inr a)"

definition evidencePath :: "string \<Rightarrow> string \<Rightarrow> string \<Rightarrow> string + string" where
  "evidencePath logDir incidentID filename =
     (if logDir = [] then Inl ''log directory is required''
      else case sanitizeSegment incidentID of
        Inl e \<Rightarrow> Inl e
      | Inr safeIncidentID \<Rightarrow>
          (case validatePlainFilename filename of
             Some e \<Rightarrow> Inl e
           | None \<Rightarrow>
               (case sanitizeSegment filename of
                  Inl e \<Rightarrow> Inl e
                | Inr safeFilename \<Rightarrow>
                    (case secureJoin (Clean logDir) [''incidents'', ''open'', safeIncidentID] of
                       Inl e \<Rightarrow> Inl e
                     | Inr incidentDir \<Rightarrow> secureJoin incidentDir [safeFilename]))))"

definition evidence_dir :: "string \<Rightarrow> string \<Rightarrow> string \<Rightarrow> (string, ('z) file_system_scheme) op" where
  "evidence_dir logDir incidentID filename =
     andThen (map_err (wrapError ''evidence path'' ErrorClassValidation)
       (lift_result (text_result (evidencePath logDir incidentID filename)))) (\<lambda>path.
     andThen (map_err (wrapError ''evidence mkdir'' ErrorClassWrite)
       (ensureDirNoSymlinkUnder (Clean logDir) (Dir_of path))) (\<lambda>_.
     ok path))"

definition WriteText :: "string \<Rightarrow> ctx \<Rightarrow> string \<Rightarrow> string \<Rightarrow> string \<Rightarrow> (string, ('z) file_system_scheme) op" where
  "WriteText logDir c incidentID filename content =
     andThen (evidence_dir logDir incidentID filename) (\<lambda>path.
     andThen (map_err (wrapError ''evidence write'' ErrorClassWrite) (atomicWriteFile c path (Redact content))) (\<lambda>_.
     ok path))"

definition WriteJSON :: "string \<Rightarrow> ctx \<Rightarrow> string \<Rightarrow> string \<Rightarrow> go_error + json \<Rightarrow> (string, ('z) file_system_scheme) op" where
  "WriteJSON logDir c incidentID filename val =
     andThen (evidence_dir logDir incidentID filename) (\<lambda>path.
     andThen (map_err (wrapError ''evidence encode'' ErrorClassWrite) (lift_result (sanitizedJSONBytes val True))) (\<lambda>bs.
     andThen (map_err (wrapError ''evidence write'' ErrorClassWrite) (atomicWriteFile c path (bs @ [CHR 0x0A]))) (\<lambda>_.
     ok path)))"

subsection \<open>Event logs\<close>

record EventWriterOptions =
  eo_Path :: string
  eo_MaxEventBytes :: int
  eo_SyncOnWrite :: bool

record EventWriter =
  ew_file :: "string list option"
  ew_maxEventBytes :: int
  ew_syncOnWrite :: bool
  ew_closed :: bool

definition OpenEventWriter :: "ctx \<Rightarrow> EventWriterOptions \<Rightarrow> (EventWriter, ('z) file_system_scheme) op" where
  "OpenEventWriter c opts =
     (if c = Nil_Context then fail (wrapError ''open event writer'' ErrorClassValidation (Text_Error ''context is nil''))
      else if eo_Path opts = [] then fail (wrapError ''open event writer'' ErrorClassValidation (Text_Error ''path is required''))
      else
        (let maxBytes = (if eo_MaxEventBytes opts \<le> 0 then DefaultMaxEventBytes else eo_MaxEventBytes opts)
         in andThen (map_err (wrapError ''open event writer'' ErrorClassWrite) ctx_err) (\<lambda>_.
            andThen (map_err (wrapError ''open event writer mkdir'' ErrorClassWrite)
              (ensureDirNoSymlink (Dir_of (eo_Path opts)))) (\<lambda>_.
            andThen (map_err (wrapError ''open event writer'' ErrorClassWrite)
              (openRegularNoFollow (eo_Path opts) FileMode)) (\<lambda>h.
            on_error
              (andThen (map_err (wrapError ''stat event writer'' ErrorClassWrite) (fstat h)) (\<lambda>n.
               if \<not> fileModeIsRestrictive (node_mode n)
               then fail (wrapError ''open event writer permissions'' ErrorClassValidation
                     (Text_Error ''event file permissions are too permissive''))
               else ok \<lparr>ew_file = Some h, ew_maxEventBytes = maxBytes,
                        ew_syncOnWrite = eo_SyncOnWrite opts, ew_closed = False\<rparr>)) settle)))))"

definition EventWriter_Write :: "EventWriter \<Rightarrow> ctx \<Rightarrow> go_error + json \<Rightarrow> (unit, ('z) file_system_scheme) op" where
  "EventWriter_Write ew c event =
     (if c = Nil_Context then fail (wrapError ''write event'' ErrorClassValidation (Text_Error ''context is nil''))
      else
        andThen (map_err (wrapError ''write event encode'' ErrorClassWrite) (lift_result (sanitizedJSONBytes event False))) (\<lambda>bs.
        if int (length bs) + 1 > ew_maxEventBytes ew
        then fail (wrapError ''write event oversized'' ErrorClassValidation
               (Text_Error (''event size '' @ Itoa (int (length bs) + 1) @ '' exceeds maximum '' @
                  Itoa (ew_maxEventBytes ew) @ '' bytes'')))
        else
          (case (ew_closed ew, ew_file ew) of
             (False, Some h) \<Rightarrow>
               andThen (map_err (wrapError ''write event'' ErrorClassWrite) ctx_err) (\<lambda>_.
               andThen (map_err (wrapError ''write event'' ErrorClassWrite) (write_bytes h (bs @ [CHR 0x0A]))) (\<lambda>_.
               if ew_syncOnWrite ew then map_err (wrapError ''sync event'' ErrorClassWrite) settle else ok ()))
           | _ \<Rightarrow> fail (wrapError ''write event'' ErrorClassClosed ErrClosed))))"

definition EventWriter_Close :: "EventWriter \<Rightarrow> ('z) file_system_scheme world \<Rightarrow>
    ((go_error + unit) \<times> EventWriter) \<times> ('z) file_system_scheme world" where
  "EventWriter_Close ew w =
     (if ew_closed ew then ((Inr (), ew), w)
      else case ew_file ew of
             None \<Rightarrow> ((Inr (), ew\<lparr>ew_closed := True\<rparr>), w)
           | Some h \<Rightarrow>
               (case map_err (wrapError ''close event writer'' ErrorClassClosed) settle w of
                  (r, w1) \<Rightarrow> ((r, ew\<lparr>ew_closed := True, ew_file := None\<rparr>), w1)))"

end
