(* ===== verification/Storage_Migrations.thy ===== *)
theory Storage_Migrations
  imports Storage_Records Storage_Files
begin

text \<open>
  \<open>migrations.go\<close>: the schema of the database and the migrations that build it. A DDL statement
  is a value of \<open>ddl\<close>; executing one changes the tables, columns and indexes of the schema the
  way SQLite does, or fails and changes nothing. The history is the table \<open>schema_migrations\<close>.
\<close>

record column_def =
  cd_name :: string
  cd_type :: string
  cd_not_null :: bool
  cd_at_least :: "int option"

text \<open>
  A foreign key: its column, the table and column it refers to, and what deleting the row it refers to
  does. The rows an index is over: all of them, or those whose column is neither null nor empty
  (\<open>WHERE c IS NOT NULL AND c != ''\<close>).
\<close>

datatype on_delete = No_Action | Cascade

type_synonym reference = "string \<times> string \<times> string \<times> on_delete"

datatype index_rows = All_Rows | Rows_With string

datatype ddl =
    Create_Table string "column_def list" "string list" "reference list"
  | Create_Index bool string string "string list" index_rows
  | Add_Column string column_def

record table_def =
  tb_columns :: "column_def list"
  tb_key :: "string list"
  tb_references :: "reference list"

record index_def =
  ix_table :: string
  ix_columns :: "string list"
  ix_unique :: bool
  ix_rows :: index_rows

record schema =
  tables :: "(string \<times> table_def) list"
  indexes :: "(string \<times> index_def) list"

record history_row =
  hr_version :: int
  hr_name :: string
  hr_applied_at :: time_text

text \<open>The files of the host and the database that is opened: whether a handle is open, with which name and settings.\<close>

record connection = file_system +
  cn_open :: bool
  data_source :: string
  settings :: "(string \<times> string) list"
  probe_rows :: "string list option"
  objects :: schema
  history :: "history_row list option"

definition empty_schema :: schema where
  "empty_schema = \<lparr>tables = [], indexes = []\<rparr>"

definition fresh_connection :: connection where
  "fresh_connection =
     \<lparr>nodes = (\<lambda>_. None), cwd = [], umask = 18, pid = 7, torn = 0, goos = ''linux'',
      cn_open = False, data_source = [], settings = [], probe_rows = None, objects = empty_schema, history = None\<rparr>"

definition column_names :: "table_def \<Rightarrow> string list" where
  "column_names t = map cd_name (tb_columns t)"

text \<open>\<open>IF NOT EXISTS\<close> makes a statement whose object exists succeed without an effect.\<close>

fun run_ddl :: "ddl \<Rightarrow> schema \<Rightarrow> schema option" where
  "run_ddl (Create_Table name cols key refs) s =
     (if map_of (tables s) name \<noteq> None then Some s
      else Some (s\<lparr>tables := tables s @ [(name, \<lparr>tb_columns = cols, tb_key = key, tb_references = refs\<rparr>)]\<rparr>))"
| "run_ddl (Create_Index unique name tbl cols rows) s =
     (if map_of (indexes s) name \<noteq> None then Some s
      else case map_of (tables s) tbl of
             None \<Rightarrow> None
           | Some t \<Rightarrow>
               if set cols \<union> (case rows of All_Rows \<Rightarrow> {} | Rows_With c \<Rightarrow> {c}) \<subseteq> set (column_names t)
               then Some (s\<lparr>indexes := indexes s @
                      [(name, \<lparr>ix_table = tbl, ix_columns = cols, ix_unique = unique, ix_rows = rows\<rparr>)]\<rparr>)
               else None)"
| "run_ddl (Add_Column tbl c) s =
     (case map_of (tables s) tbl of
        None \<Rightarrow> None
      | Some t \<Rightarrow>
          if cd_name c \<in> set (column_names t) then None
          else Some (s\<lparr>tables := map (\<lambda>(n, u). if n = tbl then (n, u\<lparr>tb_columns := tb_columns u @ [c]\<rparr>) else (n, u)) (tables s)\<rparr>))"

definition exec_ddl :: "ddl \<Rightarrow> instant \<Rightarrow> connection \<Rightarrow> (go_error + unit) \<times> connection" where
  "exec_ddl stmt now d =
     (case run_ddl stmt (objects d) of
        None \<Rightarrow> (Inl (Text_Error ''SQL logic error''), d)
      | Some s \<Rightarrow> (Inr (), d\<lparr>objects := s\<rparr>))"

subsection \<open>The migrations\<close>

record Migration =
  mig_Version :: int
  mig_Name :: string
  mig_Statements :: "ddl list"

definition text_column :: "string \<Rightarrow> column_def" where
  "text_column name = \<lparr>cd_name = name, cd_type = ''TEXT'', cd_not_null = False, cd_at_least = None\<rparr>"

definition required_text :: "string \<Rightarrow> column_def" where
  "required_text name = \<lparr>cd_name = name, cd_type = ''TEXT'', cd_not_null = True, cd_at_least = None\<rparr>"

definition counter_column :: "string \<Rightarrow> int \<Rightarrow> column_def" where
  "counter_column name least = \<lparr>cd_name = name, cd_type = ''INTEGER'', cd_not_null = True, cd_at_least = Some least\<rparr>"

definition defaultMigrations :: "Migration list" where
  "defaultMigrations =
     [\<lparr>mig_Version = 1, mig_Name = ''metadata'', mig_Statements =
         [Create_Table ''metadata''
            [text_column ''key'', required_text ''value'', required_text ''updated_at''] [''key''] []]\<rparr>,
      \<lparr>mig_Version = 2, mig_Name = ''collector_state'', mig_Statements =
         [Create_Table ''collector_state''
            [required_text ''collector'', required_text ''target'', required_text ''status'', required_text ''state_json'',
             text_column ''last_attempt_at'', text_column ''last_success_at'', text_column ''last_error_class'',
             text_column ''last_error_summary'', required_text ''updated_at''] [''collector'', ''target''] []]\<rparr>,
      \<lparr>mig_Version = 3, mig_Name = ''incidents'', mig_Statements =
         [Create_Table ''incidents''
            [text_column ''id'', required_text ''node_id'', required_text ''type'', required_text ''target'',
             required_text ''condition'', required_text ''severity'', required_text ''status'', required_text ''summary'',
             required_text ''first_seen'', required_text ''last_seen'', text_column ''last_alerted'',
             counter_column ''occurrence_count'' 0, text_column ''evidence_path'', text_column ''resolved_at'',
             required_text ''updated_at''] [''id''] [],
          Create_Index False ''idx_incidents_status_updated_at'' ''incidents'' [''status'', ''updated_at''] All_Rows,
          Create_Index False ''idx_incidents_node_type_target'' ''incidents'' [''node_id'', ''type'', ''target''] All_Rows]\<rparr>,
      \<lparr>mig_Version = 4, mig_Name = ''notification_deliveries'', mig_Statements =
         [Create_Table ''notification_deliveries''
            [text_column ''id'', required_text ''incident_id'', required_text ''receiver'', required_text ''cost_class'',
             required_text ''status'', counter_column ''attempt'' 1, required_text ''attempted_at'',
             text_column ''delivered_at'', text_column ''error_class'', text_column ''error_summary''] [''id'']
            [(''incident_id'', ''incidents'', ''id'', Cascade)],
          Create_Index False ''idx_notification_deliveries_incident_attempted'' ''notification_deliveries''
            [''incident_id'', ''attempted_at''] All_Rows]\<rparr>,
      \<lparr>mig_Version = 5, mig_Name = ''rollup_metadata'', mig_Statements =
         [Create_Table ''rollup_metadata''
            [text_column ''key'', required_text ''value'', required_text ''updated_at''] [''key''] []]\<rparr>,
      \<lparr>mig_Version = 6, mig_Name = ''rule_and_incident_state'', mig_Statements =
         [Add_Column ''incidents'' (text_column ''fingerprint''),
          Add_Column ''incidents'' (text_column ''last_transition''),
          Create_Index True ''idx_incidents_fingerprint_unique'' ''incidents'' [''fingerprint'']
            (Rows_With ''fingerprint''),
          Create_Table ''rule_evaluation_state''
            [required_text ''rule_id'', required_text ''target'', required_text ''state'', required_text ''severity'',
             text_column ''condition_met_since'', text_column ''recovery_since'', required_text ''last_evaluated_at'',
             text_column ''last_observed_at'', required_text ''last_result_summary'', text_column ''pending_severity'',
             required_text ''updated_at''] [''rule_id'', ''target''] [],
          Create_Index False ''idx_rule_evaluation_state_updated_at'' ''rule_evaluation_state'' [''updated_at''] All_Rows]\<rparr>]"

definition latestMigrationVersion :: "Migration list \<Rightarrow> int" where
  "latestMigrationVersion ms = fold (\<lambda>m latest. if mig_Version m > latest then mig_Version m else latest) ms 0"

definition LatestSchemaVersion :: int where
  "LatestSchemaVersion = latestMigrationVersion defaultMigrations"

fun check_migrations :: "int \<Rightarrow> Migration list \<Rightarrow> go_error option" where
  "check_migrations previous [] = None"
| "check_migrations previous (m # ms) =
     (if mig_Version m \<le> previous then Some (Text_Error ''migration versions must be unique and increasing'')
      else if mig_Version m \<noteq> previous + 1
      then Some (Text_Error (''migration version '' @ Itoa (mig_Version m) @ '' is not contiguous after '' @ Itoa previous))
      else if mig_Name m = [] then Some (Text_Error (''migration '' @ Itoa (mig_Version m) @ '' name is required''))
      else if mig_Statements m = [] then Some (Text_Error (''migration '' @ Itoa (mig_Version m) @ '' has no statements''))
      else check_migrations (mig_Version m) ms)"

definition validateMigrations :: "Migration list \<Rightarrow> go_error + Migration list" where
  "validateMigrations ms =
     (let ordered = sort_key mig_Version ms
      in case check_migrations 0 ordered of Some e \<Rightarrow> Inl e | None \<Rightarrow> Inr ordered)"

subsection \<open>Running them\<close>

definition exec_history_table :: "instant \<Rightarrow> connection \<Rightarrow> (go_error + unit) \<times> connection" where
  "exec_history_table now d =
     (Inr (), case history d of None \<Rightarrow> d\<lparr>history := Some []\<rparr> | Some _ \<Rightarrow> d)"

definition query_history :: "(history_row list \<Rightarrow> 'a) \<Rightarrow> instant \<Rightarrow> connection \<Rightarrow> (go_error + 'a) \<times> connection" where
  "query_history f now d =
     (case history d of
        None \<Rightarrow> (Inl (Text_Error ''no such table: schema_migrations''), d)
      | Some rows \<Rightarrow> (Inr (f rows), d))"

text \<open>\<open>SELECT MAX(version)\<close> is null for an empty table.\<close>

definition max_version :: "history_row list \<Rightarrow> int option" where
  "max_version rows = (if rows = [] then None else Some (Max (set (map hr_version rows))))"

definition currentSchemaVersion :: "(int, connection) op" where
  "currentSchemaVersion =
     andThen (map_err (wrapError ''schema version'' ErrorClassQuery) (statement (query_history max_version))) (\<lambda>v.
     ok (case v of None \<Rightarrow> 0 | Some n \<Rightarrow> n))"

definition appliedMigrations :: "(int \<rightharpoonup> string, connection) op" where
  "appliedMigrations =
     andThen (map_err (wrapError ''list migrations'' ErrorClassQuery) (statement (query_history (\<lambda>rows. rows)))) (\<lambda>rows.
     andThen (map_err (wrapError ''iterate migrations'' ErrorClassQuery) (statement (query_history (\<lambda>_. ())))) (\<lambda>_.
     ok (map_of (rev (map (\<lambda>r. (hr_version r, hr_name r)) (sort_key hr_version rows))))))"

definition exec_record_migration :: "Migration \<Rightarrow> instant \<Rightarrow> connection \<Rightarrow> (go_error + unit) \<times> connection" where
  "exec_record_migration m now d =
     (case history d of
        None \<Rightarrow> (Inl (Text_Error ''no such table: schema_migrations''), d)
      | Some rows \<Rightarrow>
          if mig_Version m \<in> hr_version ` set rows
          then (Inl (Text_Error ''UNIQUE constraint failed: schema_migrations.version''), d)
          else (Inr (), d\<lparr>history := Some (rows @
                 [\<lparr>hr_version = mig_Version m, hr_name = mig_Name m, hr_applied_at = formatTime now now\<rparr>])\<rparr>))"

fun apply_statements :: "string \<Rightarrow> ddl list \<Rightarrow> (unit, connection) op" where
  "apply_statements name [] = ok ()"
| "apply_statements name (s # ss) =
     andThen (map_err (wrapError (''migrate apply '' @ name) ErrorClassMigrate) (statement (exec_ddl s))) (\<lambda>_.
     apply_statements name ss)"

definition applyMigration :: "Migration \<Rightarrow> (unit, connection) op" where
  "applyMigration m =
     transaction (wrapError ''migrate begin'' ErrorClassMigrate)
       (wrapError (''migrate commit '' @ mig_Name m) ErrorClassMigrate)
       (andThen (apply_statements (mig_Name m) (mig_Statements m)) (\<lambda>_.
        map_err (wrapError (''migrate record '' @ mig_Name m) ErrorClassMigrate) (statement (exec_record_migration m))))"

fun apply_missing :: "(int \<rightharpoonup> string) \<Rightarrow> Migration list \<Rightarrow> (unit, connection) op" where
  "apply_missing applied [] = ok ()"
| "apply_missing applied (m # ms) =
     (if applied (mig_Version m) \<noteq> None then apply_missing applied ms
      else andThen (applyMigration m) (\<lambda>_. apply_missing applied ms))"

definition runMigrations :: "ctx \<Rightarrow> Migration list \<Rightarrow> (unit, connection) op" where
  "runMigrations c migrations =
     (if c = Nil_Context then fail (wrapError ''migrate'' ErrorClassValidation (Text_Error ''context is nil''))
      else
        andThen (map_err (wrapError ''migrate validate'' ErrorClassMigrate) (lift_result (validateMigrations migrations))) (\<lambda>ordered.
        andThen (map_err (wrapError ''migrate table'' ErrorClassMigrate) (statement exec_history_table)) (\<lambda>_.
        andThen currentSchemaVersion (\<lambda>current.
        if current > latestMigrationVersion ordered
        then fail (wrapError ''migrate future schema'' ErrorClassFuture ErrFutureSchema)
        else andThen appliedMigrations (\<lambda>applied. apply_missing applied ordered)))))"

end
