(* ===== verification/Storage_Schema.thy ===== *)
theory Storage_Schema
  imports "HOL-Library.Multiset" Storage_Migrations Storage_Laws
begin

text \<open>
  The migrations keep the schema at one of their versions, whatever fails, and finish when nothing
  does; what the migrated schema offers to the statements of the repository.
\<close>

subsection \<open>Valid lists of migrations\<close>

fun contiguous :: "int \<Rightarrow> Migration list \<Rightarrow> bool" where
  "contiguous previous [] = True"
| "contiguous previous (m # ms) \<longleftrightarrow>
     mig_Version m = previous + 1 \<and> mig_Name m \<noteq> [] \<and> mig_Statements m \<noteq> [] \<and> contiguous (previous + 1) ms"

lemma check_migrations_None: "check_migrations p ms = None \<longleftrightarrow> contiguous p ms"
  by (induction ms arbitrary: p) auto

lemma contiguous_versions:
  "contiguous p ms \<longleftrightarrow>
     map mig_Version ms = [p + 1..p + int (length ms)] \<and> (\<forall>m \<in> set ms. mig_Name m \<noteq> [] \<and> mig_Statements m \<noteq> [])"
proof (induction ms arbitrary: p)
  case (Cons m ms)
  have "[p + 1..p + int (length (m # ms))] = (p + 1) # [(p + 1) + 1..(p + 1) + int (length ms)]"
    by (simp add: upto_rec1 algebra_simps)
  with Cons show ?case by auto
qed simp

lemma contiguous_sorted: "contiguous p ms \<Longrightarrow> sort_key mig_Version ms = ms"
  by (rule sort_key_id_if_sorted) (simp add: contiguous_versions)

lemma contiguous_take: "contiguous p ms \<Longrightarrow> contiguous p (take k ms)"
  by (induction ms arbitrary: p k) (auto simp: take_Cons split: nat.split)

lemma contiguous_nth: "contiguous p ms \<Longrightarrow> i < length ms \<Longrightarrow> mig_Version (ms ! i) = p + int i + 1"
  by (induction ms arbitrary: p i) (auto simp: nth_Cons split: nat.split)

lemma latest_contiguous: "contiguous p ms \<Longrightarrow>
   fold (\<lambda>m latest. if mig_Version m > latest then mig_Version m else latest) ms p = p + int (length ms)"
  by (induction ms arbitrary: p) auto

lemma validate_contiguous: "contiguous 0 ms \<Longrightarrow> validateMigrations ms = Inr ms"
  by (simp add: validateMigrations_def contiguous_sorted check_migrations_None [THEN iffD2])

text \<open>
  A list of migrations is accepted exactly if its versions are the numbers from 1 on, each
  once, in any order, and every migration has a name and statements; what is run is the list in
  the order of the versions.
\<close>

theorem migrations_valid_iff:
  "validateMigrations ms = Inr ordered \<longleftrightarrow>
     mset (map mig_Version ms) = mset [1..int (length ms)] \<and>
     (\<forall>m \<in> set ms. mig_Name m \<noteq> [] \<and> mig_Statements m \<noteq> []) \<and> ordered = sort_key mig_Version ms"
proof -
  let ?o = "sort_key mig_Version ms"
  have same: "mset (map mig_Version ?o) = mset (map mig_Version ms)"
    using mset_sort [of mig_Version ms] unfolding mset_map by metis
  have "map mig_Version ?o = [1..int (length ms)] \<longleftrightarrow> mset (map mig_Version ms) = mset [1..int (length ms)]"
  proof
    assume "mset (map mig_Version ms) = mset [1..int (length ms)]"
    with same have "mset (map mig_Version ?o) = mset [1..int (length ms)]" by (rule trans)
    from properties_for_sort [OF this] properties_for_sort [OF refl, of "[1..int (length ms)]"]
    show "map mig_Version ?o = [1..int (length ms)]" by simp
  qed (metis same)
  then have "check_migrations 0 ?o = None \<longleftrightarrow>
      mset (map mig_Version ms) = mset [1..int (length ms)] \<and> (\<forall>m \<in> set ms. mig_Name m \<noteq> [] \<and> mig_Statements m \<noteq> [])"
    by (simp add: check_migrations_None contiguous_versions)
  moreover have "validateMigrations ms = Inr ordered \<longleftrightarrow> check_migrations 0 ?o = None \<and> ordered = ?o"
    by (auto simp: validateMigrations_def Let_def split: option.split)
  ultimately show ?thesis by (simp only: conj_assoc)
qed

lemma default_contiguous: "contiguous 0 defaultMigrations"
  by (simp add: defaultMigrations_def)

theorem migrations_valid_iff_witness: "validateMigrations (rev defaultMigrations) = Inr defaultMigrations"
proof -
  have "sort_key mig_Version (rev defaultMigrations) = defaultMigrations"
    by (simp add: defaultMigrations_def)
  moreover have "mset (map mig_Version (rev defaultMigrations)) = mset [1..int (length (rev defaultMigrations))]"
    by (simp add: defaultMigrations_def upto_rec1)
  moreover have "\<forall>m \<in> set (rev defaultMigrations). mig_Name m \<noteq> [] \<and> mig_Statements m \<noteq> []"
    by (simp add: defaultMigrations_def)
  ultimately show ?thesis using migrations_valid_iff [of "rev defaultMigrations" defaultMigrations] by metis
qed

subsection \<open>What a run leaves behind\<close>

fun run_all :: "ddl list \<Rightarrow> schema \<Rightarrow> schema option" where
  "run_all [] s = Some s"
| "run_all (x # xs) s = (case run_ddl x s of None \<Rightarrow> None | Some t \<Rightarrow> run_all xs t)"

definition build :: "Migration list \<Rightarrow> schema option" where
  "build ms = run_all (concat (map mig_Statements ms)) empty_schema"

text \<open>The schema is exactly what the first \<open>k\<close> migrations make, and the history lists them.\<close>

definition stands_at :: "Migration list \<Rightarrow> nat \<Rightarrow> connection \<Rightarrow> bool" where
  "stands_at ms k d \<longleftrightarrow>
     k \<le> length ms \<and> build (take k ms) = Some (objects d) \<and>
     (case history d of
        None \<Rightarrow> k = 0
      | Some rows \<Rightarrow> map (\<lambda>r. (hr_version r, hr_name r)) rows = map (\<lambda>m. (mig_Version m, mig_Name m)) (take k ms))"

lemma run_all_append: "run_all (xs @ ys) s = (case run_all xs s of None \<Rightarrow> None | Some t \<Rightarrow> run_all ys t)"
  by (induction xs arbitrary: s) (auto split: option.split)

lemma build_Suc:
  "k < length ms \<Longrightarrow>
   build (take (Suc k) ms) = (case build (take k ms) of None \<Rightarrow> None | Some s \<Rightarrow> run_all (mig_Statements (ms ! k)) s)"
  by (simp add: build_def take_Suc_conv_app_nth run_all_append)

lemma exec_ddl_Inr: "exec_ddl x t d = (Inr u, d1) \<Longrightarrow> run_ddl x (objects d) = Some (objects d1) \<and> history d1 = history d"
  by (auto simp: exec_ddl_def split: option.splits)

lemma exec_record_migration_Inr:
  "exec_record_migration m t d = (Inr u, d1) \<Longrightarrow> objects d1 = objects d \<and>
     (\<exists>rows. history d = Some rows \<and>
        history d1 = Some (rows @ [\<lparr>hr_version = mig_Version m, hr_name = mig_Name m, hr_applied_at = formatTime t t\<rparr>]))"
  by (auto simp: exec_record_migration_def split: option.splits if_splits)

lemma apply_statements_Inr:
  assumes "apply_statements name xs w = (Inr u, w1)"
  shows "run_all xs (objects (data w)) = Some (objects (data w1)) \<and> history (data w1) = history (data w)"
  using assms
proof (induction xs arbitrary: w)
  case (Cons x xs)
  then obtain v w2 where step: "map_err (wrapError (''migrate apply '' @ name) ErrorClassMigrate) (statement (exec_ddl x)) w = (Inr v, w2)"
    and rest: "apply_statements name xs w2 = (Inr u, w1)"
    by (auto simp: andThen_Inr_iff)
  from step have "run_ddl x (objects (data w)) = Some (objects (data w2)) \<and> history (data w2) = history (data w)"
    by (auto dest!: map_err_cases statement_cases exec_ddl_Inr)
  with Cons.IH [OF rest] show ?case by simp
qed (simp add: ok_def)

lemma applyMigration_Inr:
  assumes "applyMigration m w = (Inr u, w1)"
  obtains rows t where "history (data w) = Some rows" "run_all (mig_Statements m) (objects (data w)) = Some (objects (data w1))"
    "history (data w1) = Some (rows @ [\<lparr>hr_version = mig_Version m, hr_name = mig_Name m, hr_applied_at = t\<rparr>])"
proof -
  from assms [unfolded applyMigration_def] obtain wa wb where "data wa = data w" "data w1 = data wb"
    and body: "andThen (apply_statements (mig_Name m) (mig_Statements m)) (\<lambda>_.
        map_err (wrapError (''migrate record '' @ mig_Name m) ErrorClassMigrate) (statement (exec_record_migration m))) wa = (Inr u, wb)"
    by (rule transaction_Inr)
  from body obtain v wc where run: "apply_statements (mig_Name m) (mig_Statements m) wa = (Inr v, wc)"
    and rec: "map_err (wrapError (''migrate record '' @ mig_Name m) ErrorClassMigrate) (statement (exec_record_migration m)) wc = (Inr u, wb)"
    by (auto simp: andThen_Inr_iff)
  from rec obtain rows where "history (data wc) = Some rows" "objects (data wb) = objects (data wc)"
    "history (data wb) = Some (rows @ [\<lparr>hr_version = mig_Version m, hr_name = mig_Name m, hr_applied_at = formatTime (wall wc) (wall wc)\<rparr>])"
    by (auto dest!: map_err_cases statement_cases exec_record_migration_Inr)
  with apply_statements_Inr [OF run] \<open>data wa = data w\<close> \<open>data w1 = data wb\<close> show ?thesis
    by (intro that [of rows]) simp_all
qed

lemma applyMigration_Inl: "applyMigration m w = (Inl e, w1) \<Longrightarrow> data w1 = data w"
  unfolding applyMigration_def using transaction_atomic failure_atomicD by blast

lemma stands_at_next:
  assumes "stands_at ms k (data w)" "k < length ms" "applyMigration (ms ! k) w = (Inr u, w1)"
  shows "stands_at ms (Suc k) (data w1)"
proof -
  obtain rows t where "history (data w) = Some rows" "run_all (mig_Statements (ms ! k)) (objects (data w)) = Some (objects (data w1))"
    "history (data w1) = Some (rows @ [\<lparr>hr_version = mig_Version (ms ! k), hr_name = mig_Name (ms ! k), hr_applied_at = t\<rparr>])"
    by (rule applyMigration_Inr [OF assms(3)])
  with assms(1,2) build_Suc [OF assms(2)] show ?thesis
    by (simp add: stands_at_def) (simp add: take_Suc_conv_app_nth)
qed

text \<open>The map of the applied migrations of a schema that stands at \<open>k\<close> has the keys \<open>1\<close> to \<open>k\<close>.\<close>

definition applies :: "nat \<Rightarrow> (int \<rightharpoonup> string) \<Rightarrow> bool" where
  "applies k applied \<longleftrightarrow> dom applied = {1..int k}"

lemma apply_missing_append:
  "(\<And>m. m \<in> set xs \<Longrightarrow> applied (mig_Version m) \<noteq> None) \<Longrightarrow> apply_missing applied (xs @ ys) = apply_missing applied ys"
  by (induction xs) auto

lemma apply_missing_skip:
  assumes "contiguous 0 ms" "k \<le> length ms" "applies k applied"
  shows "apply_missing applied ms = apply_missing applied (drop k ms)"
proof -
  have "applied (mig_Version m) \<noteq> None" if "m \<in> set (take k ms)" for m
  proof -
    from that obtain i where "i < k" "i < length ms" "m = ms ! i" by (auto simp: in_set_conv_nth)
    with contiguous_nth [OF assms(1)] have "mig_Version m \<in> {1..int k}" by simp
    with assms(3) show ?thesis by (auto simp: applies_def)
  qed
  from apply_missing_append [of "take k ms" applied "drop k ms", OF this] show ?thesis by simp
qed

lemma apply_missing_stands:
  assumes "contiguous 0 ms" "applies k applied" "k \<le> j" "stands_at ms j (data w)"
    "apply_missing applied (drop j ms) w = (x, w1)"
  shows "\<exists>i. j \<le> i \<and> stands_at ms i (data w1) \<and> (x = Inr () \<longrightarrow> i = length ms)"
  using assms(3-)
proof (induction "length ms - j" arbitrary: j w)
  case 0
  then have "drop j ms = []" "j = length ms" by (auto simp: stands_at_def)
  with 0 show ?case by (auto simp: ok_def)
next
  case (Suc n)
  then have j: "j < length ms" by simp
  have "applied (mig_Version (ms ! j)) = None"
    using contiguous_nth [OF assms(1) j] assms(2) Suc.prems(1) domIff [of "int j + 1" applied] by (auto simp: applies_def)
  with Suc.prems(3) have run: "andThen (applyMigration (ms ! j)) (\<lambda>_. apply_missing applied (drop (Suc j) ms)) w = (x, w1)"
    by (simp add: Cons_nth_drop_Suc [OF j, symmetric])
  show ?case
  proof (cases "applyMigration (ms ! j) w")
    case (Pair r w2)
    show ?thesis
    proof (cases r)
      case (Inl e)
      with Pair run have "x = Inl e" "data w1 = data w" by (auto simp: andThen_def dest: applyMigration_Inl)
      with Suc.prems(2) show ?thesis by auto
    next
      case (Inr u)
      with Pair run have "apply_missing applied (drop (Suc j) ms) w2 = (x, w1)" by (simp add: andThen_def)
      moreover have "stands_at ms (Suc j) (data w2)"
        using stands_at_next [OF Suc.prems(2) j] Pair Inr by simp
      ultimately show ?thesis using Suc.hyps(1) [of "Suc j" w2] Suc.hyps(2) Suc.prems(1) Suc_leD by fastforce
    qed
  qed
qed

lemma stands_applied:
  assumes "contiguous 0 ms" "stands_at ms k d" "history d = Some rows"
  shows "map hr_version rows = [1..int k]"
proof -
  have "map hr_version rows = map fst (map (\<lambda>r. (hr_version r, hr_name r)) rows)" by simp
  also have "\<dots> = map mig_Version (take k ms)" using assms(2,3) by (simp add: stands_at_def)
  also have "\<dots> = [1..int k]"
    using contiguous_take [OF assms(1), of k] assms(2) by (simp add: contiguous_versions stands_at_def min_absorb2)
  finally show ?thesis .
qed

lemma applied_map:
  assumes "map hr_version rows = [1..int k]"
  shows "applies k (map_of (rev (map (\<lambda>r. (hr_version r, hr_name r)) (sort_key hr_version rows))))"
proof -
  have "hr_version ` set rows = {1..int k}" using arg_cong [OF assms, of set] by simp
  then show ?thesis by (simp add: applies_def dom_map_of_conv_image_fst image_image)
qed

lemma query_history_Inr:
  "map_err g (statement (query_history f)) w = (Inr a, w1) \<Longrightarrow>
     data w1 = data w \<and> (\<exists>rows. history (data w) = Some rows \<and> a = f rows)"
  by (auto simp: query_history_def dest!: map_err_cases statement_cases split: option.splits)

lemma query_history_data: "map_err g (statement (query_history f)) w = (x, w1) \<Longrightarrow> data w1 = data w"
  by (auto simp: query_history_def dest!: map_err_cases statement_cases split: option.splits)

lemma max_version_upto:
  assumes "map hr_version rows = [1..int k]"
  shows "(case max_version rows of None \<Rightarrow> 0 | Some n \<Rightarrow> n) = int k"
proof (cases "k = 0")
  case False
  then have "Max {1..int k} = int k" by (intro Max_eqI) auto
  moreover have "set (map hr_version rows) = {1..int k}" using assms by simp
  moreover have "rows \<noteq> []" using assms False by auto
  ultimately show ?thesis by (simp add: max_version_def)
qed (use assms in \<open>simp add: max_version_def\<close>)

lemma latest_take: "contiguous 0 ms \<Longrightarrow> j \<le> length ms \<Longrightarrow> latestMigrationVersion (take j ms) = int j"
  using latest_contiguous [of 0 "take j ms"] contiguous_take [of 0 ms j]
  by (simp add: latestMigrationVersion_def min_absorb2)

lemma stands_at_take: "j \<le> length ms \<Longrightarrow> stands_at (take j ms) k d \<longleftrightarrow> stands_at ms k d \<and> k \<le> j"
  by (cases "history d") (auto simp: stands_at_def min_def)

lemma stands_created: "stands_at ms k d \<Longrightarrow> stands_at ms k (snd (exec_history_table t d))"
  by (auto simp: stands_at_def exec_history_table_def split: option.split)

lemma currentSchemaVersion_stands:
  assumes "contiguous 0 ms" "stands_at ms k (data w)" "currentSchemaVersion w = (x, w1)"
  shows "data w1 = data w \<and> (\<forall>v. x = Inr v \<longrightarrow> v = int k)"
proof (cases x)
  case (Inl e)
  with assms(3) show ?thesis
    by (auto simp: currentSchemaVersion_def andThen_Inl_iff ok_def dest: query_history_data)
next
  case (Inr v)
  with assms(3) obtain rows where "history (data w) = Some rows" "data w1 = data w"
    "v = (case max_version rows of None \<Rightarrow> 0 | Some n \<Rightarrow> n)"
    by (auto simp: currentSchemaVersion_def andThen_Inr_iff ok_def dest!: query_history_Inr)
  with max_version_upto [OF stands_applied [OF assms(1,2)]] Inr show ?thesis by simp
qed

lemma appliedMigrations_stands:
  assumes "contiguous 0 ms" "stands_at ms k (data w)" "appliedMigrations w = (x, w1)"
  shows "data w1 = data w \<and> (\<forall>m. x = Inr m \<longrightarrow> applies k m)"
proof (cases x)
  case (Inl e)
  with assms(3) show ?thesis
    by (auto simp: appliedMigrations_def andThen_Inl_iff ok_def dest!: query_history_data)
next
  case (Inr m)
  with assms(3) obtain rows where "history (data w) = Some rows" "data w1 = data w"
    "m = map_of (rev (map (\<lambda>r. (hr_version r, hr_name r)) (sort_key hr_version rows)))"
    by (auto simp: appliedMigrations_def andThen_Inr_iff ok_def dest!: query_history_Inr)
  with applied_map [OF stands_applied [OF assms(1,2)]] Inr show ?thesis by simp
qed

definition migrate_steps :: "Migration list \<Rightarrow> (unit, connection) op" where
  "migrate_steps ordered =
     andThen currentSchemaVersion (\<lambda>current.
     if current > latestMigrationVersion ordered
     then fail (wrapError ''migrate future schema'' ErrorClassFuture ErrFutureSchema)
     else andThen appliedMigrations (\<lambda>applied. apply_missing applied ordered))"

lemma runMigrations_valid:
  "validateMigrations ms = Inr ordered \<Longrightarrow>
   runMigrations Live_Context ms =
     andThen (map_err (wrapError ''migrate table'' ErrorClassMigrate) (statement exec_history_table)) (\<lambda>_. migrate_steps ordered)"
  by (simp add: runMigrations_def migrate_steps_def lift_result_def fun_eq_iff andThen_def map_err_def ok_def)

lemma migrate_steps_stands:
  assumes "contiguous 0 ms" "j \<le> length ms" "stands_at ms k (data w)" "migrate_steps (take j ms) w = (x, w1)"
  shows "\<exists>i. k \<le> i \<and> stands_at ms i (data w1) \<and> (x = Inr () \<longrightarrow> i = j)"
proof -
  note cont = contiguous_take [OF assms(1), of j]
  obtain v w2 where cur: "currentSchemaVersion w = (v, w2)" by fastforce
  note c = currentSchemaVersion_stands [OF assms(1,3) cur]
  show ?thesis
  proof (cases "\<exists>e. v = Inl e \<or> k > j")
    case True
    with cur c assms(3,4) have "data w1 = data w \<and> x \<noteq> Inr ()"
      by (cases v) (auto simp: migrate_steps_def andThen_def fail_def latest_take [OF assms(1,2)] split: if_splits)
    with assms(3) show ?thesis by auto
  next
    case False
    with cur c assms(4) have rest: "andThen appliedMigrations (\<lambda>applied. apply_missing applied (take j ms)) w2 = (x, w1)"
      and "k \<le> j"
      by (auto simp: migrate_steps_def andThen_def latest_take [OF assms(1,2)] split: sum.splits)
    with assms(3) stands_at_take [OF assms(2)] have stands: "stands_at (take j ms) k (data w)" by simp
    obtain m w3 where app: "appliedMigrations w2 = (m, w3)" by fastforce
    from appliedMigrations_stands [OF cont _ app] stands c
    have a: "data w3 = data w" "\<And>f. m = Inr f \<Longrightarrow> applies k f" by auto
    show ?thesis
    proof (cases m)
      case (Inl e)
      with app rest a assms(3) show ?thesis by (auto simp: andThen_def)
    next
      case (Inr f)
      with app rest have "apply_missing f (take j ms) w3 = (x, w1)" by (simp add: andThen_def)
      with apply_missing_skip [OF cont, of k f] a(2) [OF Inr] \<open>k \<le> j\<close> assms(2)
      have "apply_missing f (drop k (take j ms)) w3 = (x, w1)" by simp
      from apply_missing_stands [OF cont a(2) [OF Inr] le_refl _ this] stands a(1)
      obtain i where "k \<le> i" "stands_at (take j ms) i (data w1)" "x = Inr () \<longrightarrow> i = length (take j ms)" by auto
      with stands_at_take [OF assms(2)] assms(2) show ?thesis by (auto simp: min_absorb2)
    qed
  qed
qed

lemma runMigrations_stands:
  assumes "contiguous 0 ms" "j \<le> length ms" "stands_at ms k (data w)" "runMigrations c (take j ms) w = (x, w1)"
  shows "\<exists>i. k \<le> i \<and> stands_at ms i (data w1) \<and> (x = Inr () \<longrightarrow> i = j)"
proof (cases c)
  case Nil_Context
  with assms(3,4) show ?thesis by (auto simp: runMigrations_def fail_def)
next
  case Live_Context
  obtain r w2 where created: "map_err (wrapError ''migrate table'' ErrorClassMigrate) (statement exec_history_table) w = (r, w2)"
    by fastforce
  then have stands: "stands_at ms k (data w2)"
    using stands_created [OF assms(3)] assms(3) by (auto dest!: map_err_cases statement_cases) (metis snd_conv)+
  show ?thesis
  proof (cases r)
    case (Inl e)
    with created assms(4) stands Live_Context show ?thesis
      by (auto simp: runMigrations_valid [OF validate_contiguous [OF contiguous_take [OF assms(1)]]] andThen_def)
  next
    case (Inr u)
    with created assms(4) Live_Context have "migrate_steps (take j ms) w2 = (x, w1)"
      by (simp add: runMigrations_valid [OF validate_contiguous [OF contiguous_take [OF assms(1)]]] andThen_def)
    from migrate_steps_stands [OF assms(1,2) stands this] show ?thesis .
  qed
qed

subsection \<open>Runs where nothing fails\<close>

lemma apply_statements_quiet:
  "quiet w \<Longrightarrow> run_all xs (objects (data w)) = Some s \<Longrightarrow>
     apply_statements name xs w = (Inr (), w\<lparr>data := (data w)\<lparr>objects := s\<rparr>\<rparr>)"
proof (induction xs arbitrary: w)
  case (Cons x xs)
  then obtain t where t: "run_ddl x (objects (data w)) = Some t" "run_all xs t = Some s" by (auto split: option.splits)
  with Cons.IH [of "w\<lparr>data := (data w)\<lparr>objects := t\<rparr>\<rparr>"] Cons.prems(1) show ?case
    by (simp add: andThen_def map_err_def exec_ddl_def)
qed (simp add: ok_def)

lemma applyMigration_quiet:
  assumes "quiet w" "history (data w) = Some rows" "mig_Version m \<notin> hr_version ` set rows"
    "run_all (mig_Statements m) (objects (data w)) = Some s"
  shows "\<exists>w1. applyMigration m w = (Inr (), w1) \<and> quiet w1"
proof -
  let ?row = "\<lparr>hr_version = mig_Version m, hr_name = mig_Name m, hr_applied_at = formatTime (wall w) (wall w)\<rparr>"
  have "andThen (apply_statements (mig_Name m) (mig_Statements m)) (\<lambda>_.
        map_err (wrapError (''migrate record '' @ mig_Name m) ErrorClassMigrate) (statement (exec_record_migration m))) w =
      (Inr (), w\<lparr>data := (data w)\<lparr>objects := s, history := Some (rows @ [?row])\<rparr>\<rparr>)"
    using assms(1-3)
    by (simp add: andThen_def apply_statements_quiet [OF assms(1,4)] map_err_def exec_record_migration_def)
  with assms(1) show ?thesis unfolding applyMigration_def
    by (intro exI conjI) (rule transaction_quiet, assumption+, simp_all)
qed

lemma apply_missing_quiet:
  assumes "contiguous 0 ms" "applies k applied" "k \<le> j" "stands_at ms j (data w)" "history (data w) \<noteq> None"
    "quiet w" "\<And>i. i \<le> length ms \<Longrightarrow> build (take i ms) \<noteq> None"
  shows "\<exists>w1. apply_missing applied (drop j ms) w = (Inr (), w1) \<and> quiet w1"
  using assms(3-6)
proof (induction "length ms - j" arbitrary: j w)
  case 0
  then show ?case by (auto simp: ok_def stands_at_def)
next
  case (Suc n)
  then have j: "j < length ms" by simp
  from Suc.prems obtain rows where rows: "history (data w) = Some rows" by auto
  from stands_applied [OF assms(1) Suc.prems(2) rows] have "hr_version ` set rows = {1..int j}"
    by (metis set_map set_upto)
  with contiguous_nth [OF assms(1) j] have new: "mig_Version (ms ! j) \<notin> hr_version ` set rows" by simp
  have "applied (mig_Version (ms ! j)) = None"
    using contiguous_nth [OF assms(1) j] assms(2) Suc.prems(1) domIff [of "int j + 1" applied] by (auto simp: applies_def)
  then have step: "apply_missing applied (drop j ms) = andThen (applyMigration (ms ! j)) (\<lambda>_. apply_missing applied (drop (Suc j) ms))"
    by (simp add: Cons_nth_drop_Suc [OF j, symmetric])
  obtain s where "run_all (mig_Statements (ms ! j)) (objects (data w)) = Some s"
    using assms(7) [of "Suc j"] j build_Suc [OF j] Suc.prems(2) by (auto simp: stands_at_def)
  from applyMigration_quiet [OF Suc.prems(4) rows new this]
  obtain w2 where run: "applyMigration (ms ! j) w = (Inr (), w2)" "quiet w2" by blast
  have "stands_at ms (Suc j) (data w2)" "history (data w2) \<noteq> None"
    using stands_at_next [OF Suc.prems(2) j run(1)] run(1) by (auto elim: applyMigration_Inr)
  with Suc.hyps(1) [of "Suc j" w2] Suc.hyps(2) Suc.prems(1) run
  show ?case by (simp add: step andThen_def)
qed

lemma query_history_quiet:
  "quiet w \<Longrightarrow> history (data w) = Some rows \<Longrightarrow> map_err g (statement (query_history f)) w = (Inr (f rows), w)"
  by (simp add: map_err_def query_history_def)

lemma migrate_steps_quiet:
  assumes "contiguous 0 ms" "quiet w" "stands_at ms k (data w)" "history (data w) = Some rows"
  shows "\<exists>applied. applies k applied \<and> migrate_steps ms w = apply_missing applied (drop k ms) w"
proof -
  let ?applied = "map_of (rev (map (\<lambda>r. (hr_version r, hr_name r)) (sort_key hr_version rows)))"
  have "currentSchemaVersion w = (Inr (int k), w)"
    using max_version_upto [OF stands_applied [OF assms(1,3,4)]]
    by (simp add: currentSchemaVersion_def andThen_def ok_def query_history_quiet [OF assms(2,4)])
  moreover have "int k \<le> latestMigrationVersion ms"
    using latest_take [OF assms(1) le_refl] assms(3) by (simp add: stands_at_def)
  moreover have "appliedMigrations w = (Inr ?applied, w)"
    by (simp add: appliedMigrations_def andThen_def ok_def query_history_quiet [OF assms(2,4)])
  moreover have "applies k ?applied" by (rule applied_map [OF stands_applied [OF assms(1,3,4)]])
  moreover have "k \<le> length ms" using assms(3) by (simp add: stands_at_def)
  ultimately show ?thesis
    using apply_missing_skip [OF assms(1) _ \<open>applies k ?applied\<close>]
    by (intro exI [of _ ?applied]) (simp add: migrate_steps_def andThen_def)
qed

lemma runMigrations_quiet:
  assumes "contiguous 0 ms" "quiet w" "stands_at ms k (data w)" "\<And>i. i \<le> length ms \<Longrightarrow> build (take i ms) \<noteq> None"
  shows "\<exists>w1. runMigrations Live_Context ms w = (Inr (), w1) \<and> quiet w1 \<and> stands_at ms (length ms) (data w1)"
proof -
  let ?w = "w\<lparr>data := snd (exec_history_table (wall w) (data w))\<rparr>"
  have q: "quiet ?w" and s: "stands_at ms k (data ?w)" using assms stands_created by simp_all
  obtain rows where h: "history (data ?w) = Some rows" by (cases "history (data w)") (auto simp: exec_history_table_def)
  have run: "runMigrations Live_Context ms w = migrate_steps ms ?w"
    using assms(2) by (simp add: runMigrations_valid [OF validate_contiguous [OF assms(1)]] andThen_def map_err_def exec_history_table_def)
  from migrate_steps_quiet [OF assms(1) q s h]
  obtain applied where "applies k applied" "migrate_steps ms ?w = apply_missing applied (drop k ms) ?w" by blast
  with apply_missing_quiet [OF assms(1) _ le_refl s _ q assms(4)] h
  obtain w1 where "migrate_steps ms ?w = (Inr (), w1)" "quiet w1" by auto
  with runMigrations_stands [OF assms(1) le_refl assms(3), of Live_Context] run show ?thesis by auto
qed

lemma runMigrations_again:
  assumes "contiguous 0 ms" "quiet w" "stands_at ms (length ms) (data w)" "history (data w) = Some rows"
  shows "runMigrations Live_Context ms w = (Inr (), w)"
  using migrate_steps_quiet [OF assms] assms(2,4)
  by (auto simp: runMigrations_valid [OF validate_contiguous [OF assms(1)]] andThen_def map_err_def exec_history_table_def ok_def)

subsection \<open>The databases of the agent\<close>

text \<open>
  Databases of the agent: new ones, and those that runs of this binary or of earlier ones, which
  knew a part of the migrations, leave behind, whether they succeeded or not.
\<close>

inductive reachable_schema :: "connection \<Rightarrow> bool" where
  reach_new: "history d = None \<Longrightarrow> objects d = empty_schema \<Longrightarrow> reachable_schema d"
| reach_run: "reachable_schema (data w) \<Longrightarrow> j \<le> length defaultMigrations \<Longrightarrow>
    runMigrations c (take j defaultMigrations) w = (x, w1) \<Longrightarrow> reachable_schema (data w1)"

lemma reachable_stands: "reachable_schema d \<Longrightarrow> \<exists>k \<le> 6. stands_at defaultMigrations k d"
proof (induction rule: reachable_schema.induct)
  case (reach_new d)
  then have "stands_at defaultMigrations 0 d" by (simp add: stands_at_def build_def)
  then show ?case by blast
next
  case (reach_run w j c x w1)
  then obtain k where "stands_at defaultMigrations k (data w)" by blast
  from runMigrations_stands [OF default_contiguous reach_run.hyps(2) this reach_run.hyps(3)]
  obtain i where "stands_at defaultMigrations i (data w1)" by blast
  moreover from this have "i \<le> 6" by (simp add: stands_at_def defaultMigrations_def)
  ultimately show ?case by blast
qed

text \<open>
  C21: however runs of the migrations are interrupted, and in whatever order binaries of different
  age run them, the database is at one of the versions: its tables, columns and indexes are those
  the first migrations make, and exactly these are recorded as applied.
\<close>

theorem schema_at_a_version: "reachable_schema d \<Longrightarrow> \<exists>k \<le> 6. stands_at defaultMigrations k d"
  by (rule reachable_stands)

definition fresh_world :: "failure option list \<Rightarrow> connection world" where
  "fresh_world fs = \<lparr>data = fresh_connection, script = fs, wall = 7\<rparr>"

theorem schema_at_a_version_witness:
  "\<exists>k \<le> 6. stands_at defaultMigrations k
     (data (snd (runMigrations Live_Context (take 5 defaultMigrations) (fresh_world (replicate 9 None @ [Some Canceled])))))"
proof -
  let ?w = "fresh_world (replicate 9 None @ [Some Canceled])"
  obtain x w1 where run: "runMigrations Live_Context (take 5 defaultMigrations) ?w = (x, w1)" by fastforce
  have "reachable_schema (data ?w)" by (rule reach_new) (simp_all add: fresh_world_def fresh_connection_def)
  from reach_run [OF this _ run] have "reachable_schema (data w1)" by (simp add: defaultMigrations_def)
  from schema_at_a_version [OF this] show ?thesis unfolding run by simp
qed

text \<open>The columns and the keys the statements of the repository name.\<close>

definition repository_tables :: "(string \<times> string list \<times> string list) list" where
  "repository_tables =
     [(''metadata'', [''key''], [''key'', ''value'', ''updated_at'']),
      (''collector_state'', [''collector'', ''target''],
        [''collector'', ''target'', ''status'', ''state_json'', ''last_attempt_at'', ''last_success_at'',
         ''last_error_class'', ''last_error_summary'', ''updated_at'']),
      (''incidents'', [''id''],
        [''id'', ''fingerprint'', ''node_id'', ''type'', ''target'', ''condition'', ''severity'', ''status'', ''summary'',
         ''first_seen'', ''last_seen'', ''last_alerted'', ''occurrence_count'', ''evidence_path'', ''resolved_at'',
         ''updated_at'', ''last_transition'']),
      (''notification_deliveries'', [''id''],
        [''id'', ''incident_id'', ''receiver'', ''cost_class'', ''status'', ''attempt'', ''attempted_at'',
         ''delivered_at'', ''error_class'', ''error_summary'']),
      (''rule_evaluation_state'', [''rule_id'', ''target''],
        [''rule_id'', ''target'', ''state'', ''severity'', ''condition_met_since'', ''recovery_since'',
         ''last_evaluated_at'', ''last_observed_at'', ''last_result_summary'', ''pending_severity'', ''updated_at''])]"

definition serves_repository :: "schema \<Rightarrow> bool" where
  "serves_repository s \<longleftrightarrow>
     list_all (\<lambda>(name, key, cols).
       case map_of (tables s) name of
         None \<Rightarrow> False
       | Some t \<Rightarrow> tb_key t = key \<and> list_all (\<lambda>c. c \<in> set (column_names t)) cols \<and>
           list_all (\<lambda>c. cd_not_null c \<longrightarrow> cd_name c \<in> set cols) (tb_columns t)) repository_tables \<and>
     map_of (indexes s) ''idx_incidents_fingerprint_unique'' =
       Some \<lparr>ix_table = ''incidents'', ix_columns = [''fingerprint''], ix_unique = True, ix_rows = Rows_With ''fingerprint''\<rparr> \<and>
     map_option tb_references (map_of (tables s) ''notification_deliveries'') = Some [(''incident_id'', ''incidents'', ''id'', Cascade)]"

lemma default_builds: "i \<le> length defaultMigrations \<Longrightarrow> build (take i defaultMigrations) \<noteq> None"
proof -
  have "list_all (\<lambda>i. build (take i defaultMigrations) \<noteq> None) [0..<7]"
    by code_simp
  moreover assume "i \<le> length defaultMigrations"
  then have "i \<in> set [0..<7]" by (simp add: defaultMigrations_def)
  ultimately show ?thesis unfolding list_all_iff by blast
qed

lemma default_serves: "(case build defaultMigrations of None \<Rightarrow> False | Some s \<Rightarrow> serves_repository s)"
  by code_simp

text \<open>
  C22: from every database the agent left behind, a run where nothing fails ends at the latest
  version, with every column and key that the statements of the repository name and none required
  that they do not fill, the fingerprints of the incidents that have one unique and the deliveries
  deleted with their incident, and a run after it changes nothing.
\<close>

theorem migrations_complete:
  assumes "reachable_schema (data w)" "quiet w"
  shows "\<exists>w1. runMigrations Live_Context defaultMigrations w = (Inr (), w1) \<and>
    serves_repository (objects (data w1)) \<and> currentSchemaVersion w1 = (Inr LatestSchemaVersion, w1) \<and>
    runMigrations Live_Context defaultMigrations w1 = (Inr (), w1)"
proof -
  from reachable_stands [OF assms(1)] obtain k where "stands_at defaultMigrations k (data w)" by blast
  from runMigrations_quiet [OF default_contiguous assms(2) this default_builds]
  obtain w1 where run: "runMigrations Live_Context defaultMigrations w = (Inr (), w1)" "quiet w1"
    and stands: "stands_at defaultMigrations (length defaultMigrations) (data w1)" by blast
  have "length defaultMigrations \<noteq> 0" by (simp add: defaultMigrations_def)
  with stands obtain rows where h: "history (data w1) = Some rows"
    by (cases "history (data w1)") (auto simp: stands_at_def)
  have "currentSchemaVersion w1 = (Inr LatestSchemaVersion, w1)"
    using max_version_upto [OF stands_applied [OF default_contiguous stands h]] latest_take [OF default_contiguous le_refl]
    by (simp add: currentSchemaVersion_def andThen_def ok_def query_history_quiet [OF run(2) h] LatestSchemaVersion_def)
  moreover have "serves_repository (objects (data w1))"
    using stands default_serves by (simp add: stands_at_def)
  ultimately show ?thesis using run(1) runMigrations_again [OF default_contiguous run(2) stands h] by blast
qed

theorem migrations_complete_witness:
  "\<exists>w1. runMigrations Live_Context defaultMigrations (fresh_world []) = (Inr (), w1) \<and>
     serves_repository (objects (data w1))"
proof -
  have "reachable_schema (data (fresh_world []))" by (rule reach_new) (simp_all add: fresh_world_def fresh_connection_def)
  moreover have "quiet (fresh_world [])" by (simp add: fresh_world_def quiet_def)
  ultimately show ?thesis using migrations_complete [of "fresh_world []"] by blast
qed

text \<open>
  C23: a database with a version the binary does not know is refused with the error for a schema
  from the future, or a failure before it, and nothing in it is changed.
\<close>

theorem future_schema_refused:
  assumes "validateMigrations ms = Inr ordered" "history (data w) = Some rows" "r \<in> set rows"
    "hr_version r > latestMigrationVersion ordered" "runMigrations Live_Context ms w = (x, w1)"
  shows "data w1 = data w \<and> (\<exists>e. x = Inl e \<and> (quiet w \<longrightarrow> errors_is e ErrFutureSchema))"
proof -
  have "rows \<noteq> []" using assms(3) by auto
  then have v: "\<exists>v. max_version rows = Some v \<and> v > latestMigrationVersion ordered"
    using assms(3,4) by (auto simp: max_version_def intro: less_le_trans [OF _ Max_ge])
  obtain y w2 where created: "map_err (wrapError ''migrate table'' ErrorClassMigrate) (statement exec_history_table) w = (y, w2)"
    by fastforce
  then have d2: "data w2 = data w" "quiet w \<Longrightarrow> y = Inr () \<and> w2 = w"
    using assms(2) by (auto simp: exec_history_table_def map_err_def dest!: statement_cases split: prod.splits sum.splits)
  show ?thesis
  proof (cases y)
    case (Inl e)
    with created d2 assms(5) show ?thesis by (auto simp: runMigrations_valid [OF assms(1)] andThen_def)
  next
    case (Inr u)
    with created assms(5) have run: "migrate_steps ordered w2 = (x, w1)"
      by (simp add: runMigrations_valid [OF assms(1)] andThen_def)
    obtain q w3 where query: "map_err (wrapError ''schema version'' ErrorClassQuery) (statement (query_history max_version)) w2 = (q, w3)"
      by fastforce
    have d3: "data w3 = data w2" using query_history_data [OF query] .
    have "q = Inr (max_version rows)" if "quiet w"
      using query that d2 assms(2) by (simp add: query_history_quiet)
    moreover have "q = Inr (max_version rows)" if "q = Inr c" for c
      using query query_history_Inr [of _ _ w2 c w3] that d2 assms(2) by auto
    ultimately show ?thesis using run query v d2 d3
      by (cases q) (auto simp: migrate_steps_def currentSchemaVersion_def andThen_def ok_def fail_def wrapError_def)
  qed
qed

theorem future_schema_refused_witness:
  "\<exists>e. fst (runMigrations Live_Context defaultMigrations
      ((fresh_world [])\<lparr>data := fresh_connection\<lparr>history :=
         Some [\<lparr>hr_version = 7, hr_name = ''n'', hr_applied_at = Time_Text 7\<rparr>]\<rparr>\<rparr>)) = Inl e \<and> errors_is e ErrFutureSchema"
proof -
  let ?r = "\<lparr>hr_version = 7, hr_name = ''n'', hr_applied_at = Time_Text 7\<rparr>"
  let ?w = "(fresh_world [])\<lparr>data := fresh_connection\<lparr>history := Some [?r]\<rparr>\<rparr>"
  obtain x w1 where run: "runMigrations Live_Context defaultMigrations ?w = (x, w1)" by fastforce
  have "latestMigrationVersion defaultMigrations < hr_version ?r"
    by (simp add: latestMigrationVersion_def defaultMigrations_def)
  from future_schema_refused [OF validate_contiguous [OF default_contiguous] _ _ this run, of "[?r]"]
  show ?thesis unfolding run by (simp add: fresh_world_def quiet_def)
qed

end
