(* ===== verification/Storage_Open.thy ===== *)
theory Storage_Open
  imports Storage_Migrations
begin

text \<open>
  \<open>sqlite.go\<close>: opening the database with its options, and the checks an open store offers.
\<close>

record SQLiteOptions =
  so_Path :: string
  so_CreateParentDirs :: bool
  so_BusyTimeout :: duration
  so_WAL :: bool
  so_Synchronous :: string

definition millisecond :: int where "millisecond = 1000000"

definition upper_char :: "char \<Rightarrow> char" where
  "upper_char c = (if 97 \<le> byte c \<and> byte c \<le> 122 then char_of (byte c - 32) else c)"

text \<open>Only ASCII letters have the letters of these words as their upper case.\<close>

definition normalizeSynchronous :: "string \<Rightarrow> string" where
  "normalizeSynchronous val =
     (let up = map upper_char val
      in if up \<in> set [''OFF'', ''NORMAL'', ''FULL'', ''EXTRA''] then up else ''NORMAL'')"

definition isMemoryDSN :: "string \<Rightarrow> bool" where
  "isMemoryDSN path \<longleftrightarrow> path = '':memory:'' \<or> prefix ''file::memory:'' path \<or> contains_sub path ''mode=memory''"

text \<open>\<open>url.URL.String\<close> for a file path, and the query of one parameter.\<close>

definition unescaped_char :: "char \<Rightarrow> bool" where
  "unescaped_char c \<longleftrightarrow>
     97 \<le> byte c \<and> byte c \<le> 122 \<or> 65 \<le> byte c \<and> byte c \<le> 90 \<or> 48 \<le> byte c \<and> byte c \<le> 57 \<or> c \<in> set ''-_.~''"

definition percent :: "char \<Rightarrow> string" where
  "percent c = [CHR ''%'', ''0123456789ABCDEF'' ! (byte c div 16), ''0123456789ABCDEF'' ! (byte c mod 16)]"

definition escape_path :: "string \<Rightarrow> string" where
  "escape_path s = concat (map (\<lambda>c. if unescaped_char c \<or> c \<in> set ''$&+,/:;=@'' then [c] else percent c) s)"

definition escape_query :: "string \<Rightarrow> string" where
  "escape_query s =
     concat (map (\<lambda>c. if unescaped_char c then [c] else if c = CHR '' '' then ''+'' else percent c) s)"

definition sqliteDSN :: "string \<Rightarrow> duration \<Rightarrow> string" where
  "sqliteDSN path busyTimeout =
     (if isMemoryDSN path then path
      else ''file://'' @ escape_path path @ ''?'' @ escape_query ''_pragma'' @ ''='' @
           escape_query (''busy_timeout('' @ Itoa (busyTimeout div millisecond) @ '')''))"

subsection \<open>Opening\<close>

definition exec_sql_open :: "string \<Rightarrow> instant \<Rightarrow> connection \<Rightarrow> (go_error + unit) \<times> connection" where
  "exec_sql_open dsn now d = (Inr (), d\<lparr>cn_open := True, data_source := dsn, settings := [], probe_rows := None\<rparr>)"

definition ping :: "(unit, connection) op" where
  "ping = statement (\<lambda>now d. (Inr (), d))"

definition exec_pragma :: "string \<times> string \<Rightarrow> instant \<Rightarrow> connection \<Rightarrow> (go_error + unit) \<times> connection" where
  "exec_pragma p now d = (Inr (), d\<lparr>settings := p # settings d\<rparr>)"

fun run_pragmas :: "(string \<times> string) list \<Rightarrow> (unit, connection) op" where
  "run_pragmas [] = ok ()"
| "run_pragmas (p # ps) =
     andThen (map_err (wrapError ''pragma'' ErrorClassOpen) (statement (exec_pragma p))) (\<lambda>_. run_pragmas ps)"

definition connection_pragmas :: "SQLiteOptions \<Rightarrow> (string \<times> string) list" where
  "connection_pragmas opts =
     [(''foreign_keys'', ''ON''), (''busy_timeout'', Itoa (so_BusyTimeout opts div millisecond)),
      (''synchronous'', normalizeSynchronous (so_Synchronous opts))]"

definition initializeConnection :: "SQLiteOptions \<Rightarrow> (unit, connection) op" where
  "initializeConnection opts =
     andThen (map_err (wrapError ''ping'' ErrorClassOpen) ping) (\<lambda>_.
     andThen (run_pragmas (connection_pragmas opts)) (\<lambda>_.
     andThen (if so_WAL opts \<and> \<not> isMemoryDSN (so_Path opts)
              then map_err (wrapError ''pragma journal_mode'' ErrorClassOpen) (statement (exec_pragma (''journal_mode'', ''WAL'')))
              else ok ()) (\<lambda>_.
     map_err (wrapError ''ping after pragma'' ErrorClassOpen) ping)))"

text \<open>Closing the handle drops it, even when it fails.\<close>

definition close_handle :: "(unit, connection) op" where
  "close_handle w =
     (case external w of (r, w1) \<Rightarrow>
        (case r of None \<Rightarrow> Inr () | Some e \<Rightarrow> Inl e, w1\<lparr>data := (data w1)\<lparr>cn_open := False\<rparr>\<rparr>))"

definition with_defaults :: "SQLiteOptions \<Rightarrow> SQLiteOptions" where
  "with_defaults opts =
     opts\<lparr>so_BusyTimeout := (if so_BusyTimeout opts \<le> 0 then 5000 * millisecond else so_BusyTimeout opts),
          so_Synchronous := (if so_Synchronous opts = [] then ''NORMAL'' else so_Synchronous opts)\<rparr>"

definition prepare_path :: "SQLiteOptions \<Rightarrow> (unit, connection) op" where
  "prepare_path opts =
     (if isMemoryDSN (so_Path opts) then ok ()
      else if \<not> IsAbs (so_Path opts)
      then fail (wrapError ''open'' ErrorClassValidation (Text_Error ''database path must be absolute''))
      else
        andThen (if so_CreateParentDirs opts
                 then map_err (wrapError ''open mkdir'' ErrorClassOpen) (ensureDirNoSymlink (Dir_of (so_Path opts)))
                 else ok ()) (\<lambda>_.
        map_err (wrapError ''open database file'' ErrorClassOpen) (prepareDatabaseFile (so_Path opts))))"

definition Open :: "ctx \<Rightarrow> SQLiteOptions \<Rightarrow> (unit, connection) op" where
  "Open c options =
     (if c = Nil_Context then fail (wrapError ''open'' ErrorClassValidation (Text_Error ''context is nil''))
      else if trim_space (so_Path options) = []
      then fail (wrapError ''open'' ErrorClassValidation (Text_Error ''database path is required''))
      else
        (let opts = with_defaults options
         in andThen (prepare_path opts) (\<lambda>_.
            andThen (map_err (wrapError ''open'' ErrorClassOpen)
              (statement (exec_sql_open (sqliteDSN (so_Path opts) (so_BusyTimeout opts))))) (\<lambda>_.
            on_error (andThen (initializeConnection opts) (\<lambda>_. runMigrations c defaultMigrations)) close_handle))))"

subsection \<open>Checks of an open store\<close>

definition connection_handle :: "(unit, connection) op" where
  "connection_handle w =
     (if cn_open (data w) then (Inr (), w)
      else (Inl (wrapError ''database'' ErrorClassClosed ErrClosed), w))"

definition Store_Ping :: "(unit, connection) op" where
  "Store_Ping = andThen connection_handle (\<lambda>_. map_err (wrapError ''ping'' ErrorClassQuery) ping)"

definition SchemaVersion :: "(int, connection) op" where
  "SchemaVersion = andThen connection_handle (\<lambda>_. currentSchemaVersion)"

definition exec_probe_table :: "instant \<Rightarrow> connection \<Rightarrow> (go_error + unit) \<times> connection" where
  "exec_probe_table now d =
     (Inr (), case probe_rows d of None \<Rightarrow> d\<lparr>probe_rows := Some []\<rparr> | Some _ \<Rightarrow> d)"

definition exec_probe_row :: "string \<Rightarrow> instant \<Rightarrow> connection \<Rightarrow> (go_error + unit) \<times> connection" where
  "exec_probe_row v now d =
     (case probe_rows d of
        None \<Rightarrow> (Inl (Text_Error ''no such table: pooly_doctor_probe''), d)
      | Some rows \<Rightarrow> (Inr (), d\<lparr>probe_rows := Some (rows @ [v])\<rparr>))"

text \<open>A transaction that is always rolled back.\<close>

definition rolled_back :: "(go_error \<Rightarrow> go_error) \<Rightarrow> ('a, 'd) op \<Rightarrow> ('a, 'd) op" where
  "rolled_back begin_err body w =
     (case external w of
        (Some e, w1) \<Rightarrow> (Inl (begin_err e), w1)
      | (None, w1) \<Rightarrow> (case body w1 of (r, w2) \<Rightarrow> (r, w2\<lparr>data := data w\<rparr>)))"

definition WritableProbe :: "(unit, connection) op" where
  "WritableProbe =
     andThen connection_handle (\<lambda>_.
     rolled_back (wrapError ''writable probe begin'' ErrorClassWrite)
       (andThen (map_err (wrapError ''writable probe create'' ErrorClassWrite) (statement exec_probe_table)) (\<lambda>_.
        map_err (wrapError ''writable probe insert'' ErrorClassWrite) (statement (exec_probe_row ''ok'')))))"

end
