(* ===== verification/Storage_Opened.thy ===== *)
theory Storage_Opened
  imports Storage_Schema Storage_Open
begin

text \<open>What opening the database establishes, and what a failure to open it leaves.\<close>

subsection \<open>Calls on files keep the database\<close>

lemma more_connection:
  "file_system.more d1 = file_system.more (d :: connection) \<Longrightarrow>
     objects d1 = objects d \<and> history d1 = history d \<and> cn_open d1 = cn_open d \<and> settings d1 = settings d"
  by (cases d; cases d1) simp

abbreviation files_only :: "('a, 'z file_system_scheme) op \<Rightarrow> bool" where
  "files_only m \<equiv> keeps file_system.more m"

lemma files_only_node_case [frame_intros]:
  "(\<And>a. files_only (f a)) \<Longrightarrow> (\<And>a b. files_only (g a b)) \<Longrightarrow> (\<And>a. files_only (h a)) \<Longrightarrow> (\<And>a. files_only (i a)) \<Longrightarrow>
   files_only (case n of Dir_Node a \<Rightarrow> f a | File_Node a b \<Rightarrow> g a b | Link_Node a \<Rightarrow> h a | Special_Node a \<Rightarrow> i a)"
  by (simp split: node.split)

lemma files_only_option_case [frame_intros]:
  "files_only m \<Longrightarrow> (\<And>a. files_only (f a)) \<Longrightarrow> files_only (case n of None \<Rightarrow> m | Some a \<Rightarrow> f a)"
  by (simp split: option.split)

lemma files_only_if [frame_intros]: "files_only m \<Longrightarrow> files_only n \<Longrightarrow> files_only (if b then m else n)"
  by simp

lemma files_only_on_error [frame_intros]: "keeps g m \<Longrightarrow> keeps g c \<Longrightarrow> keeps g (on_error m c)"
  by (auto simp: keeps_def on_error_def split: prod.split sum.split) (metis snd_conv)+

lemma files_only_calls [frame_intros]:
  "files_only (Lstat p)" "files_only (Mkdir p perm)" "files_only (open_call x y p perm)" "files_only (fstat h)" "files_only settle"
  "files_only runtime_goos"
  by (auto simp: Lstat_def Mkdir_def open_call_def fstat_def settle_def runtime_goos_def exec_stat_def exec_mkdir_def exec_open_def
      keeps_def [of _ runtime_goos] intro!: keeps_statement split: sum.split option.split node.split)

lemma files_only_ensure_element [frame_intros]: "files_only (ensure_element p)"
  unfolding ensure_element_def by (intro frame_intros)

lemma files_only_ensure_elements [frame_intros]: "files_only (ensure_elements p xs)"
  by (induction xs arbitrary: p) (auto simp: Let_def intro!: frame_intros)

lemma files_only_ensureDirNoSymlink [frame_intros]: "files_only (ensureDirNoSymlink p)"
  unfolding ensureDirNoSymlink_def Let_def by (intro frame_intros)

lemma files_only_openRegularNoFollow [frame_intros]: "files_only (openRegularNoFollow p perm)"
  unfolding openRegularNoFollow_def by (intro frame_intros)

lemma keeps_then_close: "keeps g m \<Longrightarrow> keeps g c \<Longrightarrow> keeps g (\<lambda>w. case m w of (r, w1) \<Rightarrow> (r, snd (c w1)))"
  by (auto simp: keeps_def split: prod.split) (metis snd_conv)

lemma files_only_prepareDatabaseFile [frame_intros]: "files_only (prepareDatabaseFile p)"
  unfolding prepareDatabaseFile_def by (intro frame_intros keeps_then_close)

lemma files_only_prepare_path: "files_only (prepare_path opts)"
  unfolding prepare_path_def by (intro frame_intros)

subsection \<open>What a run of the migrations keeps of the handle\<close>

definition handle :: "connection \<Rightarrow> bool \<times> (string \<times> string) list" where
  "handle d = (cn_open d, settings d)"

lemma keeps_transaction: "keeps g body \<Longrightarrow> keeps g (transaction b c body)"
  by (auto simp: keeps_def transaction_def split: prod.split sum.split option.split dest!: external_dataD; metis snd_conv)

lemma keeps_history [frame_intros]: "keeps g (statement (query_history f))"
  by (rule keeps_statement) (simp add: query_history_def split: option.split)

lemma handle_statements [frame_intros]:
  "keeps handle (statement (exec_ddl x))" "keeps handle (statement (exec_record_migration m))"
  "keeps handle (statement exec_history_table)"
  by (auto simp: exec_ddl_def exec_record_migration_def exec_history_table_def handle_def intro!: keeps_statement split: option.split)

lemma handle_apply_statements [frame_intros]: "keeps handle (apply_statements name xs)"
  by (induction xs) (auto intro!: frame_intros)

lemma handle_applyMigration [frame_intros]: "keeps handle (applyMigration m)"
  unfolding applyMigration_def by (intro keeps_transaction frame_intros)

lemma handle_apply_missing [frame_intros]: "keeps handle (apply_missing applied ms)"
  by (induction ms) (auto intro!: frame_intros)

lemma keeps_if [frame_intros]: "keeps g m \<Longrightarrow> keeps g n \<Longrightarrow> keeps g (if b then m else n)"
  by simp

lemma handle_runMigrations: "keeps handle (runMigrations c ms)"
  unfolding runMigrations_def currentSchemaVersion_def appliedMigrations_def by (intro frame_intros)

subsection \<open>Opening\<close>

lemma pragma_Inr:
  "map_err g (statement (exec_pragma p)) w = (Inr u, w1) \<Longrightarrow> data w1 = (data w)\<lparr>settings := p # settings (data w)\<rparr>"
  by (auto simp: exec_pragma_def dest!: map_err_cases statement_cases)

lemma run_pragmas_Inr:
  "run_pragmas ps w = (Inr u, w1) \<Longrightarrow> data w1 = (data w)\<lparr>settings := rev ps @ settings (data w)\<rparr>"
proof (induction ps arbitrary: w)
  case (Cons p ps)
  then obtain v w2 where "map_err (wrapError ''pragma'' ErrorClassOpen) (statement (exec_pragma p)) w = (Inr v, w2)"
    "run_pragmas ps w2 = (Inr u, w1)" by (auto simp: andThen_Inr_iff)
  with Cons.IH [of w2] show ?case by (auto dest!: pragma_Inr)
qed (simp add: ok_def)

definition schema_view :: "connection \<Rightarrow> schema \<times> history_row list option" where
  "schema_view d = (objects d, history d)"

lemma stands_at_view: "schema_view d1 = schema_view d \<Longrightarrow> stands_at ms k d1 = stands_at ms k d"
  by (simp add: stands_at_def schema_view_def)

lemma view_pragma [frame_intros]: "keeps schema_view (statement (exec_pragma p))"
  by (rule keeps_statement) (simp add: exec_pragma_def schema_view_def)

lemma view_run_pragmas [frame_intros]: "keeps schema_view (run_pragmas ps)"
  by (induction ps) (auto intro!: frame_intros)

lemma keeps_ping [frame_intros]: "keeps g ping"
  unfolding ping_def by (rule keeps_statement) simp

lemma view_initialize: "keeps schema_view (initializeConnection opts)"
  unfolding initializeConnection_def by (intro frame_intros)

lemma view_prepare: "prepare_path opts w = (r, w1) \<Longrightarrow>
    schema_view (data w1) = schema_view (data w) \<and> cn_open (data w1) = cn_open (data w)"
proof -
  assume "prepare_path opts w = (r, w1)"
  from more_connection [OF keepsD [OF files_only_prepare_path this]] show ?thesis by (simp add: schema_view_def)
qed

lemma ping_data: "map_err g ping w = (r, w1) \<Longrightarrow> data w1 = data w"
  using keepsD [OF keeps_map_err [OF keeps_ping [of "\<lambda>d. d"]]] by blast

lemma initializeConnection_Inr:
  assumes "initializeConnection opts w = (Inr u, w1)"
  shows "cn_open (data w1) = cn_open (data w) \<and> set (connection_pragmas opts) \<subseteq> set (settings (data w1)) \<and>
    (so_WAL opts \<and> \<not> isMemoryDSN (so_Path opts) \<longrightarrow> (''journal_mode'', ''WAL'') \<in> set (settings (data w1)))"
proof -
  from assms [unfolded initializeConnection_def] obtain w2 w3 w4 where
    "map_err (wrapError ''ping'' ErrorClassOpen) ping w = (Inr (), w2)"
    and ps: "run_pragmas (connection_pragmas opts) w2 = (Inr (), w3)"
    and wal: "(if so_WAL opts \<and> \<not> isMemoryDSN (so_Path opts)
              then map_err (wrapError ''pragma journal_mode'' ErrorClassOpen) (statement (exec_pragma (''journal_mode'', ''WAL'')))
              else ok ()) w3 = (Inr (), w4)"
    and "map_err (wrapError ''ping after pragma'' ErrorClassOpen) ping w4 = (Inr u, w1)"
    by (auto simp: andThen_Inr_iff)
  then have "data w2 = data w" "data w1 = data w4" by (auto dest: ping_data)
  with run_pragmas_Inr [OF ps] wal show ?thesis
    by (auto simp: ok_def dest!: pragma_Inr split: if_splits)
qed

lemma close_handle_data: "close_handle w = (r, w1) \<Longrightarrow> data w1 = (data w)\<lparr>cn_open := False\<rparr>"
  by (auto simp: close_handle_def split: prod.splits dest: external_dataD)

lemma sql_open_cases:
  "map_err (wrapError ''open'' ErrorClassOpen) (statement (exec_sql_open dsn)) w = (r, w1) \<Longrightarrow>
     (\<exists>e. r = Inl e \<and> data w1 = data w) \<or>
     (r = Inr () \<and> data w1 = (data w)\<lparr>cn_open := True, data_source := dsn, settings := [], probe_rows := None\<rparr>)"
  by (auto simp: exec_sql_open_def dest!: map_err_cases statement_cases)

lemma Open_cases:
  assumes "Open c options w = (r, w1)" "\<not> cn_open (data w)" "stands_at defaultMigrations k (data w)"
  shows "(\<exists>i \<ge> k. stands_at defaultMigrations i (data w1) \<and> (r = Inr () \<longrightarrow> i = length defaultMigrations)) \<and>
    (if r = Inr () then cn_open (data w1) \<and> set (connection_pragmas (with_defaults options)) \<subseteq> set (settings (data w1))
     else \<not> cn_open (data w1))"
proof -
  let ?opts = "with_defaults options"
  let ?run = "andThen (initializeConnection ?opts) (\<lambda>_. runMigrations c defaultMigrations)"
  let ?dsn = "sqliteDSN (so_Path ?opts) (so_BusyTimeout ?opts)"
  show ?thesis
  proof (cases "c = Nil_Context \<or> trim_space (so_Path options) = []")
    case True
    with assms(1) have "data w1 = data w" "r \<noteq> Inr ()" by (auto simp: Open_def fail_def split: if_splits)
    with assms(2,3) show ?thesis by auto
  next
    case False
    with assms(1) have open_run: "andThen (prepare_path ?opts) (\<lambda>_.
        andThen (map_err (wrapError ''open'' ErrorClassOpen) (statement (exec_sql_open ?dsn))) (\<lambda>_.
        on_error ?run close_handle)) w = (r, w1)" by (simp add: Open_def Let_def)
    obtain a w2 where prep: "prepare_path ?opts w = (a, w2)" by fastforce
    note v2 = view_prepare [OF prep]
    obtain b w3 where opened: "map_err (wrapError ''open'' ErrorClassOpen) (statement (exec_sql_open ?dsn)) w2 = (b, w3)" by fastforce
    note b = sql_open_cases [OF opened]
    have v3: "schema_view (data w3) = schema_view (data w)" using b v2 by (auto simp: schema_view_def)
    obtain x w4 where run: "?run w3 = (x, w4)" by fastforce
    have st: "stands_at defaultMigrations k (data w2)" "stands_at defaultMigrations k (data w3)"
      using assms(3) stands_at_view v2 v3 by blast+
    show ?thesis
    proof (cases "(\<exists>e. a = Inl e) \<or> (\<exists>e. b = Inl e)")
      case True
      have "r \<noteq> Inr () \<and> (w1 = w2 \<or> w1 = w3 \<and> (\<exists>e. b = Inl e))"
        using open_run prep opened True by (cases a; cases b) (auto simp: andThen_def simp del: run_pragmas.simps)
      moreover have "\<not> cn_open (data w2)" using v2 assms(2) by simp
      moreover have "\<not> cn_open (data w3)" if "b = Inl e" for e using b that \<open>\<not> cn_open (data w2)\<close> by auto
      ultimately show ?thesis using st by auto
    next
      case False
      with open_run prep opened have on: "on_error ?run close_handle w3 = (r, w1)"
        by (cases a; cases b) (auto simp: andThen_def)
      have steps: "\<exists>i \<ge> k. stands_at defaultMigrations i (data w4) \<and> (x = Inr () \<longrightarrow> i = length defaultMigrations)"
      proof -
        obtain y w5 where init: "initializeConnection ?opts w3 = (y, w5)" by fastforce
        have "stands_at defaultMigrations k (data w5)"
          using st(2) stands_at_view [OF keepsD [OF view_initialize init]] by blast
        moreover have "(y = Inr () \<and> runMigrations c defaultMigrations w5 = (x, w4)) \<or> (x \<noteq> Inr () \<and> w4 = w5)"
          using run init by (cases y) (auto simp: andThen_def)
        ultimately show ?thesis
          using runMigrations_stands [OF default_contiguous le_refl, of k w5 c x w4] by auto
      qed
      show ?thesis
      proof (cases x)
        case (Inl e)
        with on run have "r = Inl e" "w1 = snd (close_handle w4)" by (auto simp: on_error_def)
        with close_handle_data [of w4] have "data w1 = (data w4)\<lparr>cn_open := False\<rparr>" by (cases "close_handle w4") auto
        with steps Inl \<open>r = Inl e\<close> stands_at_view [of "data w1" "data w4"] show ?thesis by (auto simp: schema_view_def)
      next
        case (Inr u)
        with on run have "r = Inr ()" "w1 = w4" by (auto simp: on_error_def)
        from run Inr obtain w5 where init: "initializeConnection ?opts w3 = (Inr (), w5)"
          and mig: "runMigrations c defaultMigrations w5 = (Inr (), w4)" by (auto simp: andThen_Inr_iff)
        have "handle (data w4) = handle (data w5)" using keepsD [OF handle_runMigrations mig] .
        with initializeConnection_Inr [OF init] b False
        have "cn_open (data w4) \<and> set (connection_pragmas ?opts) \<subseteq> set (settings (data w4))"
          by (auto simp: handle_def)
        with steps Inr \<open>r = Inr ()\<close> \<open>w1 = w4\<close> show ?thesis by auto
      qed
    qed
  qed
qed

text \<open>
  C24: opening a database of the agent either gives an open handle, on which foreign keys are
  enforced, with the schema at the latest version, every column and key of the repository included,
  or leaves no open handle and the schema at one of its versions, no earlier than it was.
\<close>

theorem opened_database:
  assumes "Open c options w = (r, w1)" "\<not> cn_open (data w)" "stands_at defaultMigrations k (data w)"
  shows "if r = Inr () then cn_open (data w1) \<and> (''foreign_keys'', ''ON'') \<in> set (settings (data w1)) \<and>
      stands_at defaultMigrations (length defaultMigrations) (data w1) \<and> serves_repository (objects (data w1))
    else \<not> cn_open (data w1) \<and> (\<exists>i \<ge> k. stands_at defaultMigrations i (data w1))"
proof -
  have "(''foreign_keys'', ''ON'') \<in> set (connection_pragmas (with_defaults options))"
    by (simp add: connection_pragmas_def)
  moreover have "serves_repository (objects d)" if "stands_at defaultMigrations (length defaultMigrations) d" for d
    using that default_serves by (simp add: stands_at_def)
  ultimately show ?thesis using Open_cases [OF assms] by auto
qed

theorem opened_database_witness:
  "if fst (Open Live_Context \<lparr>so_Path = '':memory:'', so_CreateParentDirs = False, so_BusyTimeout = 0, so_WAL = True,
        so_Synchronous = []\<rparr> (fresh_world [])) = Inr ()
   then serves_repository (objects (data (snd (Open Live_Context \<lparr>so_Path = '':memory:'', so_CreateParentDirs = False,
        so_BusyTimeout = 0, so_WAL = True, so_Synchronous = []\<rparr> (fresh_world [])))))
   else True"
proof -
  let ?o = "\<lparr>so_Path = '':memory:'', so_CreateParentDirs = False, so_BusyTimeout = 0, so_WAL = True, so_Synchronous = []\<rparr>"
  obtain r w1 where run: "Open Live_Context ?o (fresh_world []) = (r, w1)" by fastforce
  have "\<not> cn_open (data (fresh_world []))" "stands_at defaultMigrations 0 (data (fresh_world []))"
    by (simp_all add: fresh_world_def fresh_connection_def stands_at_def build_def)
  from opened_database [OF run this] show ?thesis unfolding run by (auto split: if_splits)
qed

end
