(* ===== verification/Storage_Files_Laws.thy ===== *)
theory Storage_Files_Laws
  imports Storage_Files Storage_Laws
begin

text \<open>
  What the walk over directories, the replacement of a file and the evidence writer do to the files:
  first for paths given by their elements, then for the operations of the code.
\<close>

subsection \<open>Clean rooted paths\<close>

definition abs_path :: "string list \<Rightarrow> string" where
  "abs_path xs = slash # join_with ''/'' xs"

abbreviation plain :: "string list \<Rightarrow> bool" where
  "plain xs \<equiv> list_all plain_element xs"

lemma plain_free: "plain xs \<Longrightarrow> \<forall>x \<in> set xs. slash \<notin> set x"
  by (auto simp: list_all_iff plain_element_def)

lemma split_abs_path: "plain xs \<Longrightarrow> split_on slash (abs_path xs) = [] # (if xs = [] then [[]] else xs)"
  using split_join [of xs slash] plain_free [of xs] by (auto simp: abs_path_def)

lemma path_elements_abs_path [simp]: "plain xs \<Longrightarrow> path_elements (abs_path xs) = xs"
  by (auto simp: path_elements_def split_abs_path list_all_iff plain_element_def filter_id_conv)

lemma IsAbs_abs_path [simp]: "IsAbs (abs_path xs)"
  by (simp add: abs_path_def IsAbs_iff)

lemma clean_elements_plain_id: "plain xs \<Longrightarrow> fold (clean_element b) xs st = rev xs @ st"
  by (induction xs arbitrary: st) (auto simp: clean_element_def plain_element_def)

lemma clean_rooted: "IsAbs p \<Longrightarrow> Clean p = abs_path (clean_elements True (split_on slash p))"
  by (simp add: Clean_def Let_def abs_path_def)

lemma Clean_abs_path [simp]:
  assumes "plain xs"
  shows "Clean (abs_path xs) = abs_path xs"
proof -
  have "clean_elements True ([] # (if xs = [] then [[]] else xs)) = xs"
    using assms by (simp add: clean_elements_def clean_elements_plain_id clean_element_def)
  with split_abs_path [OF assms] show ?thesis by (simp add: clean_rooted)
qed

lemma join_with_first: "\<exists>t. join_with s (x # xs) = x @ t"
  by (cases xs) auto

lemma clean_rooted_plain: "plain (clean_elements True (split_on slash p))"
  using clean_elements_plain [of _ True p] by (auto simp: list_all_iff)

lemma clean_path_elements: "IsAbs p \<Longrightarrow> Clean p = abs_path (path_elements (Clean p)) \<and> plain (path_elements (Clean p))"
  using clean_rooted path_elements_Clean_rooted clean_rooted_plain by simp

lemma abs_path_not_Nil [simp]: "abs_path xs \<noteq> []" "abs_path xs \<noteq> dot"
  by (simp_all add: abs_path_def dot_def)

lemma join_two: "xs \<noteq> [] \<Longrightarrow> join_with ''/'' (xs @ [x]) = join_with ''/'' xs @ slash # x"
  by (rule join_with_slash_snoc)

lemma split_join_plain: "plain ys \<Longrightarrow> ys \<noteq> [] \<Longrightarrow> split_on slash (join_with ''/'' ys) = ys"
  using split_join [of ys slash] plain_free by simp

lemma Join_abs_elements:
  assumes "plain xs" "plain ys"
  shows "Join (abs_path xs # ys) = abs_path (xs @ ys)"
proof (cases "ys = []")
  case True
  with assms show ?thesis by (simp add: Join_def Let_def)
next
  case False
  let ?j = "abs_path xs @ slash # join_with ''/'' ys"
  have "Join (abs_path xs # ys) = Clean ?j"
    using False by (cases ys) (auto simp: Join_def Let_def)
  moreover have "split_on slash ?j = [] # (if xs = [] then [[]] else xs) @ ys"
    using split_on_append_slash [of slash "abs_path xs" "join_with ''/'' ys"] split_abs_path [OF assms(1)]
      split_join_plain [OF assms(2) False] by simp
  moreover have "clean_elements True ([] # (if xs = [] then [[]] else xs) @ ys) = xs @ ys"
    using assms by (auto simp: clean_elements_def clean_elements_plain_id clean_element_def)
  ultimately show ?thesis by (simp add: clean_rooted IsAbs_iff abs_path_def)
qed

lemma Join_abs_path: "plain xs \<Longrightarrow> plain_element x \<Longrightarrow> Join [abs_path xs, x] = abs_path (xs @ [x])"
  by (rule Join_abs_elements) simp_all

lemma dropWhile_free: "c \<notin> set s \<Longrightarrow> dropWhile (\<lambda>x. x \<noteq> c) (s @ c # r) = c # r"
  by (induction s) auto

lemma Dir_abs_path:
  assumes "plain (xs @ [x])"
  shows "Dir_of (abs_path (xs @ [x])) = abs_path xs"
proof -
  have free: "slash \<notin> set (rev x)" using assms by (simp add: plain_element_def)
  show ?thesis
  proof (cases "xs = []")
    case True
    have "rev (dropWhile (\<lambda>c. c \<noteq> slash) (rev (abs_path [x]))) = ''/''"
      using dropWhile_free [OF free, of "[]"] by (simp add: abs_path_def)
    moreover have "Clean ''/'' = ''/''" by (simp add: Clean_def IsAbs_def clean_elements_def clean_element_def)
    ultimately show ?thesis using True by (simp add: Dir_of_def abs_path_def)
  next
    case False
    have eq: "abs_path (xs @ [x]) = abs_path xs @ slash # x" using False by (simp add: abs_path_def join_two)
    have "rev (dropWhile (\<lambda>c. c \<noteq> slash) (rev (abs_path (xs @ [x])))) = abs_path xs @ ''/''"
      using dropWhile_free [OF free, of "rev (abs_path xs)"] by (simp add: eq)
    moreover have "split_on slash (abs_path xs @ ''/'') = [] # xs @ [[]]"
      using split_on_append_slash [of slash "abs_path xs" "[]"] split_abs_path [of xs] assms False by simp
    then have "clean_elements True (split_on slash (abs_path xs @ ''/'')) = xs"
      using assms by (simp add: clean_elements_def clean_elements_plain_id clean_element_def)
    then have "Clean (abs_path xs @ ''/'') = abs_path xs" by (simp add: clean_rooted IsAbs_iff abs_path_def)
    ultimately show ?thesis by (simp add: Dir_of_def)
  qed
qed

lemma Base_abs_path:
  assumes "plain (xs @ [x])"
  shows "Base (abs_path (xs @ [x])) = x"
proof -
  have x: "x \<noteq> []" "slash \<notin> set x" using assms by (simp_all add: plain_element_def)
  then have last: "last x \<noteq> slash" by (metis last_in_set)
  have "\<exists>y. abs_path (xs @ [x]) = y @ x"
    by (cases "xs = []") (auto simp: abs_path_def join_two)
  then obtain y where y: "abs_path (xs @ [x]) = y @ x" by blast
  with x last have "rev (dropWhile (\<lambda>c. c = slash) (rev (abs_path (xs @ [x])))) = abs_path (xs @ [x])"
    by (cases x rule: rev_cases) auto
  moreover have "last (split_on slash (abs_path (xs @ [x]))) = x"
    using split_abs_path [OF assms] by simp
  ultimately show ?thesis by (simp add: Base_def Let_def)
qed

lemma trim_abs_path:
  assumes "plain xs"
  shows "split_on slash (trim_slashes (abs_path xs)) = (if xs = [] then [[]] else xs)"
proof (cases xs rule: rev_cases)
  case Nil
  then show ?thesis by (simp add: trim_slashes_def abs_path_def)
next
  case (snoc ys y)
  then have y: "y \<noteq> []" "slash \<notin> set y" using assms by (simp_all add: plain_element_def)
  obtain z where z: "join_with ''/'' xs = z @ y"
    using snoc by (cases "ys = []") (auto simp: join_two)
  have first: "hd (join_with ''/'' xs) \<noteq> slash \<and> join_with ''/'' xs \<noteq> []"
  proof -
    have "xs \<noteq> []" using snoc by simp
    then obtain c cs where xs: "xs = c # cs" by (meson neq_Nil_conv)
    with assms have "c \<noteq> []" "slash \<notin> set c" by (simp_all add: plain_element_def)
    with join_with_first [of "''/''" c cs] xs show ?thesis by (cases c) auto
  qed
  then have "dropWhile (\<lambda>c. c = slash) (abs_path xs) = join_with ''/'' xs"
    by (cases "join_with ''/'' xs") (auto simp: abs_path_def)
  moreover have "dropWhile (\<lambda>c. c = slash) (rev (z @ y)) = rev (z @ y)"
    using y by (cases y rule: rev_cases) auto
  ultimately have "trim_slashes (abs_path xs) = join_with ''/'' xs" using z by (simp add: trim_slashes_def)
  with split_join [of xs slash] plain_free [OF assms] snoc show ?thesis by simp
qed

subsection \<open>Resolving them\<close>

definition is_dir :: "(string list \<rightharpoonup> node) \<Rightarrow> string list \<Rightarrow> bool" where
  "is_dir fs p \<longleftrightarrow> p = [] \<or> (\<exists>m. fs p = Some (Dir_Node m))"

text \<open>A path all of whose prefixes are directories, none of them a link.\<close>

definition real_dirs :: "(string list \<rightharpoonup> node) \<Rightarrow> string list \<Rightarrow> bool" where
  "real_dirs fs p \<longleftrightarrow> (\<forall>q. prefix q p \<longrightarrow> is_dir fs q)"

lemma real_dirs_Nil [simp]: "real_dirs fs []"
  by (simp add: real_dirs_def is_dir_def)

lemma real_dirs_snoc [simp]: "real_dirs fs (xs @ [x]) \<longleftrightarrow> real_dirs fs xs \<and> is_dir fs (xs @ [x])"
  by (auto simp: real_dirs_def prefix_snoc)

lemma real_dirs_is_dir: "real_dirs fs p \<Longrightarrow> is_dir fs p"
  by (simp add: real_dirs_def)

lemma real_dirs_prefix: "real_dirs fs p \<Longrightarrow> prefix q p \<Longrightarrow> real_dirs fs q"
  by (auto simp: real_dirs_def dest: prefix_order.trans)

lemma resolve_dirs:
  "plain cs \<Longrightarrow> real_dirs fs (cur @ cs) \<Longrightarrow> resolve links follow fs cur (cs @ ds) = resolve links follow fs (cur @ cs) ds"
proof (induction cs arbitrary: cur)
  case (Cons c cs)
  then have "is_dir fs (cur @ [c])"
    by (auto simp: real_dirs_def)
  with Cons.IH [of "cur @ [c]"] Cons.prems show ?case by (auto simp: is_dir_def plain_element_def)
qed simp

definition linked :: "(string list \<rightharpoonup> node) \<Rightarrow> string list \<Rightarrow> bool" where
  "linked fs p \<longleftrightarrow> p \<noteq> [] \<and> (\<exists>t. fs p = Some (Link_Node t))"

lemma resolve_real:
  assumes "plain (cs @ [c])" "real_dirs fs cs" "follow \<Longrightarrow> \<not> linked fs (cs @ [c])"
  shows "resolve links follow fs [] (cs @ [c]) = Inr (cs @ [c])"
  using resolve_dirs [of cs fs "[]" links follow "[c]"] assms
  by (auto simp: plain_element_def linked_def split: option.split node.split)

lemma physical_real:
  assumes "plain (xs @ [x])" "real_dirs (nodes d) xs" "follow \<Longrightarrow> \<not> linked (nodes d) (xs @ [x])"
  shows "physical follow d (abs_path (xs @ [x])) = Inr (xs @ [x])"
proof -
  have split: "split_on slash (abs_path (xs @ [x])) = [] # (xs @ [x])"
    using split_abs_path [OF assms(1)] by simp
  have "resolve 40 follow (nodes d) [] ([] # (xs @ [x])) = resolve 40 follow (nodes d) [] (xs @ [x])"
    by simp
  with resolve_real [OF assms(1,2), of follow 40] assms(3) split show ?thesis
    by (simp add: physical_def del: resolve.simps)
qed

subsection \<open>Calls on a real path\<close>

text \<open>What a call leaves of the files: only directories where nothing was, on the way to a path.\<close>

definition dirs_added :: "string list \<Rightarrow> ('z) file_system_scheme \<Rightarrow> ('z) file_system_scheme \<Rightarrow> bool" where
  "dirs_added p d d1 \<longleftrightarrow>
     d1 = d\<lparr>nodes := nodes d1\<rparr> \<and>
     (\<forall>q. nodes d1 q = nodes d q \<or> nodes d q = None \<and> prefix q p \<and> q \<noteq> [] \<and> is_dir (nodes d1) q)"

lemma dirs_added_refl [simp]: "dirs_added p d d"
  by (simp add: dirs_added_def)

lemma dirs_added_mono: "dirs_added p d d1 \<Longrightarrow> prefix p q \<Longrightarrow> dirs_added q d d1"
  unfolding dirs_added_def by (blast intro: prefix_order.trans)

lemma dirs_added_is_dir: "dirs_added p d d1 \<Longrightarrow> is_dir (nodes d) q \<Longrightarrow> is_dir (nodes d1) q"
  unfolding dirs_added_def is_dir_def by (metis option.distinct(1))

lemma dirs_added_real: "dirs_added p d d1 \<Longrightarrow> real_dirs (nodes d) q \<Longrightarrow> real_dirs (nodes d1) q"
  by (auto simp: real_dirs_def dest: dirs_added_is_dir)

lemma dirs_added_trans:
  assumes "dirs_added p d d1" "dirs_added p d1 d2"
  shows "dirs_added p d d2"
proof -
  have "d2 = d1\<lparr>nodes := nodes d2\<rparr>" "d1 = d\<lparr>nodes := nodes d1\<rparr>" using assms by (simp_all add: dirs_added_def)
  then have "d2 = d\<lparr>nodes := nodes d2\<rparr>" by (metis file_system.update_convs(1) file_system.surjective)
  moreover have "nodes d2 q = nodes d q \<or> nodes d q = None \<and> prefix q p \<and> q \<noteq> [] \<and> is_dir (nodes d2) q" for q
    using assms dirs_added_is_dir [OF assms(2), of q] unfolding dirs_added_def by metis
  ultimately show ?thesis by (simp add: dirs_added_def)
qed

lemma dirs_added_other: "dirs_added p d d1 \<Longrightarrow> \<not> prefix q p \<Longrightarrow> nodes d1 q = nodes d q"
  unfolding dirs_added_def by blast

lemma dirs_added_goos: "dirs_added p d d1 \<Longrightarrow> goos d1 = goos d"
  unfolding dirs_added_def by (metis file_system.select_convs(6) file_system.surjective file_system.update_convs(1))

lemma Lstat_real:
  assumes "Lstat (abs_path (xs @ [x])) w = (r, w1)" "plain (xs @ [x])" "real_dirs (nodes (data w)) xs"
  shows "data w1 = data w \<and> (\<forall>n. r = Inr n \<longrightarrow> n = nodes (data w) (xs @ [x]))"
  using assms(1) physical_real [OF assms(2,3), of False]
  by (auto simp: Lstat_def exec_stat_def node_at_def dest!: statement_cases)

lemma exec_mkdir_real:
  assumes "exec_mkdir (abs_path (xs @ [x])) perm t d = (r, d1)" "plain (xs @ [x])" "real_dirs (nodes d) xs"
  shows "dirs_added (xs @ [x]) d d1 \<and>
    (nodes d (xs @ [x]) = None \<longrightarrow> (\<forall>b. r = Inr b \<longrightarrow> is_dir (nodes d1) (xs @ [x])))"
  using assms(1) physical_real [OF assms(2,3), of False]
  by (auto simp: exec_mkdir_def node_at_def dirs_added_def is_dir_def split: if_splits)

lemma Mkdir_real:
  assumes "Mkdir (abs_path (xs @ [x])) perm w = (r, w1)" "plain (xs @ [x])" "real_dirs (nodes (data w)) xs"
  shows "dirs_added (xs @ [x]) (data w) (data w1) \<and>
    (nodes (data w) (xs @ [x]) = None \<longrightarrow> (\<forall>b. r = Inr b \<longrightarrow> is_dir (nodes (data w1)) (xs @ [x])))"
  using assms(1) exec_mkdir_real [OF _ assms(2,3)]
  by (auto simp: Mkdir_def dest!: statement_cases)

lemma ensure_element_real:
  assumes "ensure_element (abs_path (xs @ [x])) w = (r, w1)" "plain (xs @ [x])" "real_dirs (nodes (data w)) xs"
    "goos (data w) \<noteq> ''darwin''"
  shows "dirs_added (xs @ [x]) (data w) (data w1) \<and> (r = Inr () \<longrightarrow> is_dir (nodes (data w1)) (xs @ [x]))"
proof -
  obtain n w2 where stat: "Lstat (abs_path (xs @ [x])) w = (n, w2)" by fastforce
  note s = Lstat_real [OF stat assms(2,3)]
  show ?thesis
  proof (cases n)
    case (Inl e)
    with stat s assms(1) show ?thesis by (auto simp: ensure_element_def runtime_goos_def andThen_def)
  next
    case (Inr v)
    show ?thesis
    proof (cases v)
      case None
      obtain b w3 where made: "Mkdir (abs_path (xs @ [x])) DirMode w2 = (b, w3)" by fastforce
      from Mkdir_real [OF made assms(2)] s assms(3) Inr None stat made assms(1) show ?thesis
        by (cases b) (auto simp: ensure_element_def runtime_goos_def andThen_def ok_def)
    next
      case (Some a)
      have "data w1 = data w2 \<and> (r = Inr () \<longrightarrow> (\<exists>m. a = Dir_Node m))"
        using assms(1,4) stat Inr Some s
        by (cases a) (auto simp: ensure_element_def runtime_goos_def andThen_def ok_def fail_def allowedPlatformRootSymlink_def)
      moreover from s Inr Some have "nodes (data w) (xs @ [x]) = Some a" "data w2 = data w" by auto
      ultimately show ?thesis by (auto simp: is_dir_def)
    qed
  qed
qed

lemma ensure_elements_real:
  assumes "ensure_elements (abs_path xs) ys w = (r, w1)" "plain (xs @ ys)" "real_dirs (nodes (data w)) xs"
    "goos (data w) \<noteq> ''darwin''"
  shows "dirs_added (xs @ ys) (data w) (data w1) \<and> (r = Inr () \<longrightarrow> real_dirs (nodes (data w1)) (xs @ ys))"
  using assms
proof (induction ys arbitrary: xs w)
  case (Cons y ys)
  have "plain xs" "plain_element y" using Cons.prems(2) by simp_all
  then have y: "y \<noteq> []" "y \<noteq> dot" "plain xs" "plain_element y" by (simp_all add: plain_element_def)
  obtain v w2 where step: "ensure_element (abs_path (xs @ [y])) w = (v, w2)" by fastforce
  have plain_y: "plain (xs @ [y])" using y by simp
  from ensure_element_real [OF step plain_y Cons.prems(3,4)]
  have s: "dirs_added (xs @ [y]) (data w) (data w2)" "v = Inr () \<Longrightarrow> is_dir (nodes (data w2)) (xs @ [y])" by auto
  have s1: "dirs_added (xs @ y # ys) (data w) (data w2)" using dirs_added_mono [OF s(1)] by (simp add: prefix_def)
  have run: "andThen (ensure_element (abs_path (xs @ [y]))) (\<lambda>_. ensure_elements (abs_path (xs @ [y])) ys) w = (r, w1)"
    using Cons.prems(1) y Join_abs_path [OF y(3,4)] by (simp add: Let_def)
  show ?case
  proof (cases v)
    case (Inl e)
    with run step s1 show ?thesis by (auto simp: andThen_def)
  next
    case (Inr u)
    with run step have rest: "ensure_elements (abs_path (xs @ [y])) ys w2 = (r, w1)" by (simp add: andThen_def)
    have "real_dirs (nodes (data w2)) (xs @ [y])"
      using s(2) Inr dirs_added_real [OF s(1) Cons.prems(3)] by simp
    with Cons.IH [OF rest] Cons.prems(2,4) dirs_added_goos [OF s(1)]
    show ?thesis using dirs_added_trans [OF s1] by auto
  qed
qed (simp add: ok_def)

lemma ensureDirNoSymlink_real:
  assumes "ensureDirNoSymlink (abs_path xs) w = (r, w1)" "plain xs" "goos (data w) \<noteq> ''darwin''"
  shows "dirs_added xs (data w) (data w1) \<and> (r = Inr () \<longrightarrow> real_dirs (nodes (data w1)) xs)"
proof (cases "xs = []")
  case True
  with assms(1) trim_abs_path [of "[]"] show ?thesis
    by (simp add: ensureDirNoSymlink_def Let_def ok_def)
next
  case False
  with assms(1) trim_abs_path [OF assms(2)] Clean_abs_path [OF assms(2)]
  have "ensure_elements (abs_path []) xs w = (r, w1)"
    by (simp add: ensureDirNoSymlink_def Let_def) (simp add: abs_path_def)
  from ensure_elements_real [OF this] assms show ?thesis by simp
qed

subsection \<open>Replacing a file\<close>

text \<open>Only the nodes at some paths differ.\<close>

definition changed_at :: "string list set \<Rightarrow> ('z) file_system_scheme \<Rightarrow> ('z) file_system_scheme \<Rightarrow> bool" where
  "changed_at ps d d1 \<longleftrightarrow> d1 = d\<lparr>nodes := nodes d1\<rparr> \<and> (\<forall>q. q \<notin> ps \<longrightarrow> nodes d1 q = nodes d q)"

lemma changed_at_refl [simp]: "changed_at ps d d"
  by (simp add: changed_at_def)

lemma changed_at_update: "changed_at {p} d (d\<lparr>nodes := (nodes d)(p := n)\<rparr>)"
  by (simp add: changed_at_def)

lemma changed_at_mono: "changed_at ps d d1 \<Longrightarrow> ps \<subseteq> qs \<Longrightarrow> changed_at qs d d1"
  by (auto simp: changed_at_def)

lemma changed_at_trans:
  assumes "changed_at ps d d1" "changed_at ps d1 d2"
  shows "changed_at ps d d2"
proof -
  have "d2 = d1\<lparr>nodes := nodes d2\<rparr>" "d1 = d\<lparr>nodes := nodes d1\<rparr>" using assms by (simp_all add: changed_at_def)
  then have "d2 = d\<lparr>nodes := nodes d2\<rparr>" by (metis file_system.update_convs(1) file_system.surjective)
  with assms show ?thesis by (simp add: changed_at_def)
qed

lemma settle_data: "settle w = (r, w1) \<Longrightarrow> data w1 = data w"
  by (auto simp: settle_def dest!: statement_cases)

lemma snd_settle_data [simp]: "data (snd (settle w)) = data w"
  by (metis prod.collapse settle_data)

lemma ctx_err_same: "ctx_err w = (r, w1) \<Longrightarrow> data w1 = data w"
  by (auto simp: ctx_err_def split: prod.splits option.splits dest: external_dataD)

lemma append_bytes_changed: "changed_at {h} d (append_bytes h bs d)"
  by (auto simp: append_bytes_def changed_at_update split: option.split node.split)

lemma write_bytes_law:
  assumes "write_bytes h bs w = (r, w1)" "nodes (data w) h = Some (File_Node m [])"
  shows "changed_at {h} (data w) (data w1) \<and>
    (\<exists>got. nodes (data w1) h = Some (File_Node m got) \<and> (r = Inr () \<longrightarrow> got = bs))"
proof -
  obtain e w2 where ext: "external w = (e, w2)" by fastforce
  have "\<exists>got. data w1 = append_bytes h got (data w) \<and> (r = Inr () \<longrightarrow> got = bs)"
    using ext external_dataD [OF ext] assms(1) by (cases e) (auto simp: write_bytes_def)
  with assms(2) show ?thesis by (auto simp: append_bytes_def changed_at_update)
qed

lemma rejectUnsafe_real:
  assumes "rejectUnsafeExistingFile (abs_path (xs @ [x])) w = (r, w1)" "plain (xs @ [x])" "real_dirs (nodes (data w)) xs"
  shows "data w1 = data w \<and> (r = Inr () \<longrightarrow> nodes (data w) (xs @ [x]) = None \<or> (\<exists>m bs. nodes (data w) (xs @ [x]) = Some (File_Node m bs)))"
proof -
  obtain n w2 where stat: "Lstat (abs_path (xs @ [x])) w = (n, w2)" by fastforce
  note s = Lstat_real [OF stat assms(2,3)]
  show ?thesis
  proof (cases n)
    case (Inl e)
    with stat s assms(1) show ?thesis by (auto simp: rejectUnsafeExistingFile_def andThen_def)
  next
    case (Inr v)
    have "data w1 = data w2 \<and> (r = Inr () \<longrightarrow> v = None \<or> (\<exists>m bs. v = Some (File_Node m bs)))"
      using assms(1) stat Inr
      by (auto simp: rejectUnsafeExistingFile_def andThen_def ok_def fail_def split: option.splits node.splits)
    with s Inr show ?thesis by auto
  qed
qed

lemma Itoa_chars: "c \<in> set (Itoa n) \<Longrightarrow> c \<noteq> slash"
  using nat_text_digits [of "nat n"] nat_text_digits [of "nat (- n)"]
  by (auto simp: Itoa_def list_all_iff digit_char_def byte_def split: if_splits)

lemma temp_name_plain: "plain_element base \<Longrightarrow> plain_element (temp_name base process now i)"
  by (auto simp: plain_element_def temp_name_def dot_def dotdot_def dest!: Itoa_chars)

lemma temp_name_other: "temp_name base process now i \<noteq> base"
proof
  assume "temp_name base process now i = base"
  then have "length (temp_name base process now i) = length base" by simp
  then show False by (simp add: temp_name_def)
qed

lemma exec_open_excl:
  assumes "exec_open True nofollow (abs_path (xs @ [x])) perm t d = (r, d1)" "plain (xs @ [x])" "real_dirs (nodes d) xs"
  shows "(r = Inr (Some (xs @ [x])) \<and> nodes d (xs @ [x]) = None \<and>
      d1 = d\<lparr>nodes := (nodes d)(xs @ [x] \<mapsto> File_Node (perm AND NOT (umask d)) [])\<rparr>) \<or>
    (d1 = d \<and> (\<forall>h. r \<noteq> Inr (Some h)))"
  using assms(1) physical_real [OF assms(2,3), of False]
  by (auto simp: exec_open_def node_at_def split: option.splits)

definition temp_made ::
    "string list \<Rightarrow> string \<Rightarrow> ('z) file_system_scheme \<Rightarrow> go_error + string list \<times> string \<Rightarrow> ('z) file_system_scheme \<Rightarrow> bool" where
  "temp_made xs base d r d1 \<longleftrightarrow>
     (case r of
        Inl e \<Rightarrow> d1 = d
      | Inr (h, path) \<Rightarrow>
          \<exists>x m. plain_element x \<and> x \<noteq> base \<and> h = xs @ [x] \<and> path = abs_path h \<and> nodes d h = None \<and>
            d1 = d\<lparr>nodes := (nodes d)(h \<mapsto> File_Node m [])\<rparr>)"

lemma create_temp_law:
  assumes "create_temp tries i (abs_path xs) base w = (r, w1)" "plain xs" "plain_element base" "real_dirs (nodes (data w)) xs"
  shows "temp_made xs base (data w) r (data w1)"
  using assms
proof (induction tries arbitrary: i w)
  case (Suc tries)
  let ?x = "temp_name base (pid (data w)) (wall w) i"
  have x: "plain_element ?x" "?x \<noteq> base" using temp_name_plain [OF Suc.prems(3)] temp_name_other by blast+
  have pl: "plain (xs @ [?x])" using x Suc.prems(2) by simp
  obtain v w2 where run: "open_call True False (abs_path (xs @ [?x])) FileMode w = (v, w2)" by fastforce
  from run have o: "(v = Inr (Some (xs @ [?x])) \<and> nodes (data w) (xs @ [?x]) = None \<and>
      data w2 = (data w)\<lparr>nodes := (nodes (data w))(xs @ [?x] \<mapsto> File_Node (FileMode AND NOT (umask (data w))) [])\<rparr>) \<or>
      (data w2 = data w \<and> (\<forall>h. v \<noteq> Inr (Some h)))"
  proof -
    from run have "(\<exists>e. v = Inl e \<and> data w2 = data w) \<or>
        exec_open True False (abs_path (xs @ [?x])) FileMode (wall w) (data w) = (v, data w2)"
      by (auto simp: open_call_def dest: statement_cases)
    with exec_open_excl [OF _ pl Suc.prems(4)] show ?thesis by blast
  qed
  have step: "create_temp (Suc tries) i (abs_path xs) base w =
      (case v of Inl e \<Rightarrow> (Inl e, w2)
       | Inr None \<Rightarrow> create_temp tries (Suc i) (abs_path xs) base w2
       | Inr (Some h) \<Rightarrow> (Inr (h, abs_path (xs @ [?x])), w2))"
    using run Join_abs_path [OF Suc.prems(2) x(1)]
    by (simp add: andThen_def getpid_def time_now_def Let_def ok_def split: sum.split option.split)
  show ?case
  proof (cases "\<exists>h. v = Inr (Some h)")
    case True
    with o have v: "v = Inr (Some (xs @ [?x]))" by auto
    with step Suc.prems(1) have "r = Inr (xs @ [?x], abs_path (xs @ [?x]))" "w1 = w2" by simp_all
    moreover from v o have "nodes (data w) (xs @ [?x]) = None"
      "data w2 = (data w)\<lparr>nodes := (nodes (data w))(xs @ [?x] \<mapsto> File_Node (FileMode AND NOT (umask (data w))) [])\<rparr>"
      by auto
    ultimately show ?thesis using x unfolding temp_made_def by (simp del: create_temp.simps) (rule exI, rule refl)
  next
    case False
    with o have same: "data w2 = data w" by auto
    show ?thesis
    proof (cases v)
      case (Inl e)
      with step Suc.prems(1) have "r = Inl e" "w2 = w1" by simp_all
      with same show ?thesis by (simp add: temp_made_def)
    next
      case (Inr u)
      with False have "u = None" by (cases u) auto
      with Inr step Suc.prems(1) have "create_temp tries (Suc i) (abs_path xs) base w2 = (r, w1)" by simp
      from Suc.IH [OF this] Suc.prems(2-4) same show ?thesis by simp
    qed
  qed
qed (auto simp: fail_def temp_made_def)

lemma exec_rename_real:
  assumes "exec_rename (abs_path (xs @ [x])) (abs_path (xs @ [y])) t d = (r, d1)" "plain (xs @ [x])" "plain_element y"
    "real_dirs (nodes d) xs" "nodes d (xs @ [x]) = Some (File_Node m bs)" "x \<noteq> y"
  shows "(r = Inr () \<and> d1 = d\<lparr>nodes := (nodes d)(xs @ [x] := None, xs @ [y] \<mapsto> File_Node m bs)\<rparr>) \<or>
    (\<exists>e. r = Inl e \<and> d1 = d)"
proof -
  have "physical False d (abs_path (xs @ [x])) = Inr (xs @ [x])" "physical False d (abs_path (xs @ [y])) = Inr (xs @ [y])"
    using physical_real [OF assms(2,4), of False] physical_real [of xs y d False] assms(2-4) by auto
  with assms(1,5) show ?thesis
    by (auto simp: exec_rename_def node_at_def split: option.splits node.splits)
qed

lemma replace_file_law:
  assumes "replace_file (xs @ [x]) (abs_path (xs @ [x])) (abs_path (xs @ [y])) bs w = (r, w1)"
    "plain (xs @ [x])" "plain_element y" "real_dirs (nodes (data w)) xs" "nodes (data w) (xs @ [x]) = Some (File_Node m [])" "x \<noteq> y"
  shows "(r = Inr () \<and> changed_at {xs @ [x], xs @ [y]} (data w) (data w1) \<and>
      nodes (data w1) (xs @ [x]) = None \<and> nodes (data w1) (xs @ [y]) = Some (File_Node m bs)) \<or>
    (\<exists>e. r = Inl e \<and> changed_at {xs @ [x]} (data w) (data w1))"
proof -
  obtain v w2 where run: "write_bytes (xs @ [x]) bs w = (v, w2)" by fastforce
  note wr = write_bytes_law [OF run assms(5)]
  obtain u w3 where part: "on_error (andThen (write_bytes (xs @ [x]) bs) (\<lambda>_. andThen ctx_err (\<lambda>_. settle))) settle w = (u, w3)"
    by fastforce
  have d3: "data w3 = data w2" and done_write: "u = Inr () \<Longrightarrow> v = Inr ()"
    using part run
    by (auto simp: on_error_def andThen_def split: prod.splits sum.splits dest!: ctx_err_same settle_data)
  obtain c w4 where closed: "settle w3 = (c, w4)" by fastforce
  then have d4: "data w4 = data w3" by (rule settle_data)
  show ?thesis
  proof (cases "u = Inr () \<and> c = Inr ()")
    case False
    with assms(1) part closed d3 d4 wr show ?thesis
      by (cases u; cases c) (auto simp: replace_file_def andThen_def)
  next
    case True
    with assms(1) part closed have ren: "Rename (abs_path (xs @ [x])) (abs_path (xs @ [y])) w4 = (r, w1)"
      by (simp add: replace_file_def andThen_def)
    have n4: "nodes (data w4) (xs @ [x]) = Some (File_Node m bs)" and c4: "changed_at {xs @ [x]} (data w) (data w4)"
      using wr done_write True d3 d4 by auto
    have "real_dirs (nodes (data w4)) xs"
      using assms(4) c4 by (auto simp: real_dirs_def is_dir_def changed_at_def prefix_def)
    from ren exec_rename_real [OF _ assms(2,3) this n4 assms(6)]
    have "(r = Inr () \<and> data w1 = (data w4)\<lparr>nodes := (nodes (data w4))(xs @ [x] := None, xs @ [y] \<mapsto> File_Node m bs)\<rparr>) \<or>
        (\<exists>e. r = Inl e \<and> data w1 = data w4)"
      by (auto simp: Rename_def dest!: statement_cases)
    then show ?thesis
    proof
      assume done_rename: "r = Inr () \<and> data w1 = (data w4)\<lparr>nodes := (nodes (data w4))(xs @ [x] := None, xs @ [y] \<mapsto> File_Node m bs)\<rparr>"
      then have "changed_at {xs @ [x], xs @ [y]} (data w4) (data w1)" by (simp add: changed_at_def)
      with changed_at_trans [OF changed_at_mono [OF c4]] done_rename assms(6) show ?thesis by auto
    qed (use c4 in auto)
  qed
qed

lemma Remove_real:
  assumes "Remove (abs_path (xs @ [x])) w = (r, w1)" "plain (xs @ [x])" "real_dirs (nodes (data w)) xs"
  shows "changed_at {xs @ [x]} (data w) (data w1)"
proof -
  have "changed_at {xs @ [x]} d (snd (exec_remove (abs_path (xs @ [x])) t d))" if "real_dirs (nodes d) xs" for t d
    using physical_real [OF assms(2) that, of False]
    by (auto simp: exec_remove_def changed_at_update split: option.split node.split)
  with assms(1,3) show ?thesis unfolding Remove_def using statement_cases [of _ w r w1]
    by (metis changed_at_refl snd_conv)
qed

lemma syncDir_data: "syncDir p w = (r, w1) \<Longrightarrow> data w1 = data w"
  by (auto simp: syncDir_def andThen_def exec_stat_def fail_def split: prod.splits sum.splits if_splits
      dest!: statement_cases settle_data)

text \<open>
  The file at a path after an attempt to replace it: as it was, or with the new contents in full; and
  what else may differ: directories made on the way to it, and, after a failure, a new name beside it.
\<close>

definition replaced :: "string list \<Rightarrow> string \<Rightarrow> string \<Rightarrow> bool \<Rightarrow> ('z) file_system_scheme \<Rightarrow> ('z) file_system_scheme \<Rightarrow> bool" where
  "replaced xs y bs success d d1 \<longleftrightarrow>
     (nodes d1 (xs @ [y]) = nodes d (xs @ [y]) \<or> (\<exists>m. nodes d1 (xs @ [y]) = Some (File_Node m bs))) \<and>
     (success \<longrightarrow> (\<exists>m. nodes d1 (xs @ [y]) = Some (File_Node m bs)) \<and> real_dirs (nodes d1) xs) \<and>
     (\<forall>q. q \<noteq> xs @ [y] \<longrightarrow> nodes d1 q = nodes d q \<or>
        nodes d q = None \<and> (prefix q xs \<and> is_dir (nodes d1) q \<or> \<not> success \<and> (\<exists>x. q = xs @ [x])))"

lemma dirs_added_replaced: "dirs_added xs d d1 \<Longrightarrow> replaced xs y bs False d d1"
  using dirs_added_other [of xs d d1 "xs @ [y]"] by (auto simp: replaced_def dirs_added_def)

lemma changed_real: "changed_at ps d d1 \<Longrightarrow> \<forall>q \<in> ps. \<not> prefix q xs \<Longrightarrow> real_dirs (nodes d1) xs = real_dirs (nodes d) xs"
  by (auto simp: changed_at_def real_dirs_def is_dir_def) metis+

lemma not_prefix_snoc [simp]: "\<not> prefix (xs @ [x]) xs"
  by (auto simp: prefix_def)

lemma replaced_after_dirs:
  assumes "dirs_added xs d d2" "changed_at ({xs @ [x], xs @ [y]}) d2 d1" "nodes d2 (xs @ [x]) = None"
    "success \<Longrightarrow> nodes d1 (xs @ [x]) = None \<and> (\<exists>m. nodes d1 (xs @ [y]) = Some (File_Node m bs)) \<and> real_dirs (nodes d2) xs"
    "nodes d1 (xs @ [y]) = nodes d2 (xs @ [y]) \<or> (\<exists>m. nodes d1 (xs @ [y]) = Some (File_Node m bs))"
  shows "replaced xs y bs success d d1"
proof -
  have o: "nodes d2 (xs @ [z]) = nodes d (xs @ [z])" for z using dirs_added_other [OF assms(1)] by simp
  have "nodes d1 q = nodes d q \<or> nodes d q = None \<and> (prefix q xs \<and> is_dir (nodes d1) q \<or> \<not> success \<and> (\<exists>x. q = xs @ [x]))"
    if "q \<noteq> xs @ [y]" for q
  proof (cases "q = xs @ [x]")
    case True
    with assms(3,4) o [of x] show ?thesis by (cases success) auto
  next
    case False
    with that assms(2) have "nodes d1 q = nodes d2 q" by (simp add: changed_at_def)
    with assms(1) show ?thesis by (auto simp: dirs_added_def is_dir_def)
  qed
  moreover have "real_dirs (nodes d1) xs" if success
    using changed_real [OF assms(2), of xs] assms(4) [OF that] by auto
  ultimately show ?thesis using assms(4,5) o [of y] by (auto simp: replaced_def)
qed

lemma atomicWriteFile_law:
  assumes "atomicWriteFile c (abs_path (xs @ [y])) bs w = (r, w1)" "plain (xs @ [y])" "goos (data w) \<noteq> ''darwin''"
  shows "replaced xs y bs (r = Inr ()) (data w) (data w1)"
proof -
  let ?p = "abs_path (xs @ [y])"
  have xs: "plain xs" "plain_element y" using assms(2) by simp_all
  have unchanged: "replaced xs y bs False (data w) (data w)" by (rule dirs_added_replaced) simp
  obtain a w2 where polled: "(ctx_err :: (unit, _) op) w = (a, w2)" by fastforce
  have d2: "data w2 = data w" using ctx_err_same [OF polled] .
  obtain b w3 where walked: "ensureDirNoSymlink (abs_path xs) w2 = (b, w3)" by fastforce
  from ensureDirNoSymlink_real [OF walked xs(1)] assms(3) d2
  have d3: "dirs_added xs (data w) (data w3)" "b = Inr () \<Longrightarrow> real_dirs (nodes (data w3)) xs" by auto
  show ?thesis
  proof (cases "c = Nil_Context \<or> a \<noteq> Inr () \<or> b \<noteq> Inr ()")
    case True
    with assms(1) polled walked d2 unchanged dirs_added_replaced [OF d3(1)] Dir_abs_path [OF assms(2)] show ?thesis
      by (cases a; cases b) (auto simp: atomicWriteFile_def fail_def andThen_def Let_def split: if_splits)
  next
    case False
    then have ab: "c \<noteq> Nil_Context" "a = Inr ()" "b = Inr ()" by auto
    have real3: "real_dirs (nodes (data w3)) xs" using d3 ab by simp
    have run: "andThen (rejectUnsafeExistingFile ?p) (\<lambda>_.
        andThen (createAtomicTempFile (abs_path xs) y) (\<lambda>(h, tmpPath).
        andThen (on_error (replace_file h tmpPath ?p bs) (Remove tmpPath)) (\<lambda>_. syncDir (abs_path xs)))) w3 = (r, w1)"
      using assms(1) polled walked ab
      by (simp add: atomicWriteFile_def andThen_def Let_def Dir_abs_path [OF assms(2)] Base_abs_path [OF assms(2)])
    obtain e w4 where checked: "rejectUnsafeExistingFile ?p w3 = (e, w4)" by fastforce
    from rejectUnsafe_real [OF checked assms(2) real3] have d4: "data w4 = data w3" by blast
    obtain f w5 where made: "createAtomicTempFile (abs_path xs) y w4 = (f, w5)" by fastforce
    from create_temp_law [OF made [unfolded createAtomicTempFile_def] xs] real3 d4
    have temp: "temp_made xs y (data w3) f (data w5)" by simp
    show ?thesis
    proof (cases "e \<noteq> Inr () \<or> (\<exists>g. f = Inl g)")
      case True
      with run checked made temp d4 have "data w1 = data w3" "r \<noteq> Inr ()"
        by (cases e; auto simp: andThen_def temp_made_def)+
      with dirs_added_replaced [OF d3(1)] show ?thesis by simp
    next
      case False
      with temp obtain x m where ef: "e = Inr ()" "f = Inr (xs @ [x], abs_path (xs @ [x]))"
        and x: "plain_element x" "x \<noteq> y" "nodes (data w3) (xs @ [x]) = None"
        and d5: "data w5 = (data w3)\<lparr>nodes := (nodes (data w3))(xs @ [x] \<mapsto> File_Node m [])\<rparr>"
        by (cases f) (auto simp: temp_made_def)
      have pl: "plain (xs @ [x])" using x xs by simp
      have c5: "changed_at {xs @ [x]} (data w3) (data w5)" using d5 by (simp add: changed_at_update)
      have real5: "real_dirs (nodes (data w5)) xs" using changed_real [OF c5, of xs] real3 by auto
      obtain g w6 where rep: "replace_file (xs @ [x]) (abs_path (xs @ [x])) ?p bs w5 = (g, w6)" by fastforce
      have n5: "nodes (data w5) (xs @ [x]) = Some (File_Node m [])" using d5 by simp
      note law = replace_file_law [OF rep pl xs(2) real5 n5 x(2)]
      show ?thesis
      proof (cases g)
        case (Inr u)
        with law have c6: "changed_at {xs @ [x], xs @ [y]} (data w5) (data w6)"
          "nodes (data w6) (xs @ [x]) = None" "nodes (data w6) (xs @ [y]) = Some (File_Node m bs)" by auto
        from run checked made ef rep Inr have "syncDir (abs_path xs) w6 = (r, w1)"
          by (simp add: andThen_def on_error_def)
        then have d1: "data w1 = data w6" by (rule syncDir_data)
        have "changed_at {xs @ [x], xs @ [y]} (data w3) (data w6)"
          using changed_at_trans [OF changed_at_mono [OF c5] c6(1)] by simp
        then show ?thesis
          using replaced_after_dirs [OF d3(1), of x y "data w6" "r = Inr ()" bs] x(3) c6(2,3) real3 d1 by auto
      next
        case (Inl k)
        with law have c6: "changed_at {xs @ [x]} (data w5) (data w6)" by auto
        obtain l w7 where rem: "Remove (abs_path (xs @ [x])) w6 = (l, w7)" by fastforce
        from run checked made ef rep Inl rem have r: "r = Inl k" "data w1 = data w7"
          by (auto simp: andThen_def on_error_def)
        have "real_dirs (nodes (data w6)) xs" using changed_real [OF c6, of xs] real5 by auto
        from Remove_real [OF rem pl this] have "changed_at {xs @ [x]} (data w3) (data w7)"
          using changed_at_trans [OF c5 changed_at_trans [OF c6]] by blast
        then have "changed_at {xs @ [x], xs @ [y]} (data w3) (data w7)" "nodes (data w7) (xs @ [y]) = nodes (data w3) (xs @ [y])"
          using x(2) by (auto simp: changed_at_def)
        from replaced_after_dirs [OF d3(1) this(1) x(3), of False] this(2) r show ?thesis by auto
      qed
    qed
  qed
qed

subsection \<open>Evidence\<close>

text \<open>Nothing that was there is touched.\<close>

definition keeps_nodes :: "('z) file_system_scheme \<Rightarrow> ('z) file_system_scheme \<Rightarrow> bool" where
  "keeps_nodes d d1 \<longleftrightarrow> goos d1 = goos d \<and> (\<forall>q. nodes d q \<noteq> None \<longrightarrow> nodes d1 q = nodes d q)"

lemma keeps_nodes_refl [simp]: "keeps_nodes d d"
  by (simp add: keeps_nodes_def)

lemma keeps_nodes_trans: "keeps_nodes d d1 \<Longrightarrow> keeps_nodes d1 d2 \<Longrightarrow> keeps_nodes d d2"
  unfolding keeps_nodes_def by metis

definition additive :: "('a, ('z) file_system_scheme) op \<Rightarrow> bool" where
  "additive m \<longleftrightarrow> (\<forall>w. keeps_nodes (data w) (data (snd (m w))))"

named_theorems additive_intros

lemma additive_ok [additive_intros]: "additive (ok x)"
  by (simp add: additive_def ok_def)

lemma additive_fail [additive_intros]: "additive (fail e)"
  by (simp add: additive_def fail_def)

lemma additive_andThen [additive_intros]: "additive m \<Longrightarrow> (\<And>a. additive (f a)) \<Longrightarrow> additive (andThen m f)"
  unfolding additive_def andThen_def
  by (auto split: prod.split sum.split) (metis keeps_nodes_trans snd_conv)+

lemma additive_statement: "(\<And>t d. keeps_nodes d (snd (f t d))) \<Longrightarrow> additive (statement f)"
  unfolding additive_def
proof
  fix w :: "'a file_system_scheme world"
  assume step: "\<And>t d. keeps_nodes d (snd (f t d))"
  obtain r w1 where run: "statement f w = (r, w1)" by fastforce
  from statement_cases [OF run] have "data w1 = data w \<or> f (wall w) (data w) = (r, data w1)" by blast
  with step [of "data w" "wall w"] run show "keeps_nodes (data w) (data (snd (statement f w)))" by auto
qed

lemma additive_Stat [additive_intros]: "additive (Stat p)" "additive (Lstat p)"
  unfolding Stat_def Lstat_def by (rule additive_statement, simp add: exec_stat_def split: sum.split)+

lemma additive_Mkdir [additive_intros]: "additive (Mkdir p perm)"
  unfolding Mkdir_def
  by (rule additive_statement) (auto simp: exec_mkdir_def keeps_nodes_def node_at_def split: sum.split)

lemma additive_goos [additive_intros]: "additive runtime_goos"
  by (simp add: additive_def runtime_goos_def)

lemma additive_node_case [additive_intros]:
  "(\<And>a. additive (f a)) \<Longrightarrow> (\<And>a b. additive (g a b)) \<Longrightarrow> (\<And>a. additive (h a)) \<Longrightarrow> (\<And>a. additive (i a)) \<Longrightarrow>
   additive (case n of Dir_Node a \<Rightarrow> f a | File_Node a b \<Rightarrow> g a b | Link_Node a \<Rightarrow> h a | Special_Node a \<Rightarrow> i a)"
  by (simp split: node.split)

lemma additive_option_case [additive_intros]:
  "additive m \<Longrightarrow> (\<And>a. additive (f a)) \<Longrightarrow> additive (case n of None \<Rightarrow> m | Some a \<Rightarrow> f a)"
  by (simp split: option.split)

lemma additive_if [additive_intros]: "additive m \<Longrightarrow> additive n \<Longrightarrow> additive (if b then m else n)"
  by simp

lemma additive_mkdir_step [additive_intros]: "additive (mkdir_step p perm)"
  unfolding mkdir_step_def by (intro additive_intros)

lemma additive_mkdir_from [additive_intros]: "additive (mkdir_from base xs perm)"
  by (induction xs arbitrary: base) (auto simp: Let_def intro!: additive_intros)

lemma additive_ensure_element [additive_intros]: "additive (ensure_element p)"
  unfolding ensure_element_def by (intro additive_intros)

lemma additive_ensure_elements [additive_intros]: "additive (ensure_elements p xs)"
  by (induction xs arbitrary: p) (auto simp: Let_def intro!: additive_intros)

lemma additive_ensureDirNoSymlinkUnder: "additive (ensureDirNoSymlinkUnder base path)"
  unfolding ensureDirNoSymlinkUnder_def ensureDir_def MkdirAll_def Let_def by (intro additive_intros)

lemma additive_map_err: "additive m \<Longrightarrow> additive (map_err g m)"
  by (auto simp: additive_def map_err_def split: prod.split sum.split) (metis snd_conv)+

lemma evidencePath_Inr:
  assumes "evidencePath logDir i f = Inr path"
  obtains s g where "path = abs_path (path_elements (Clean logDir) @ [''incidents'', ''open'', s, g])"
    "plain (path_elements (Clean logDir) @ [''incidents'', ''open'', s, g])"
proof -
  from assms obtain s g dir where s: "sanitizeSegment i = Inr s" and g: "sanitizeSegment f = Inr g"
    and dir: "secureJoin (Clean logDir) [''incidents'', ''open'', s] = Inr dir" and path: "secureJoin dir [g] = Inr path"
    by (auto simp: evidencePath_def split: if_splits sum.splits option.splits)
  have base: "IsAbs (Clean logDir)" using dir by (auto simp: secureJoin_def split: if_splits)
  then obtain b where b: "path_elements (Clean logDir) = b" "Clean logDir = abs_path b" "plain b"
    using clean_path_elements [of logDir] by (metis Clean_idem IsAbs_Clean)
  have pl: "plain_element s" "plain_element g" "plain_element ''incidents''" "plain_element ''open''"
    using sanitizeSegment_Inr [OF s] sanitizeSegment_Inr [OF g] by (simp_all add: plain_element_def dot_def dotdot_def)
  have join: "secureJoin (abs_path xs) ys = Inr p \<Longrightarrow> plain xs \<Longrightarrow> plain ys \<Longrightarrow> p = abs_path (xs @ ys)" for xs ys p
    using Join_abs_elements [of xs ys] by (auto simp: secureJoin_def Let_def split: if_splits option.splits)
  have "dir = abs_path (b @ [''incidents'', ''open'', s])"
    using join [of b "[''incidents'', ''open'', s]" dir] dir b pl by simp
  with join [of "b @ [''incidents'', ''open'', s]" "[g]" path] path b pl
  have "path = abs_path (b @ [''incidents'', ''open'', s, g])" by simp
  with b pl that show thesis by simp
qed

end
