(* ===== verification/Files_Properties.thy ===== *)
theory Files_Properties
  imports Storage_Files_Laws
begin

text \<open>
  What the file writers of \<open>internal/storage\<close> guarantee: a file is replaced at once or not at all,
  evidence stays below its directory and behind no link, and sanitized JSON holds no secret.
\<close>


definition example_files :: file_system where
  "example_files =
     \<lparr>nodes = [[''l''] \<mapsto> Dir_Node 488, [''l'', ''f''] \<mapsto> File_Node 416 ''old''], cwd = [], umask = 18, pid = 7,
      torn = 1, goos = ''linux''\<rparr>"

definition files_world :: "failure option list \<Rightarrow> file_system world" where
  "files_world fs = \<lparr>data = example_files, script = fs, wall = 7\<rparr>"


text \<open>The place of a file of an incident below the log directory.\<close>

definition evidence_place :: "string \<Rightarrow> string \<Rightarrow> string \<Rightarrow> string list" where
  "evidence_place logDir s g = path_elements (Clean logDir) @ [''incidents'', ''open'', s, g]"

text \<open>
  C26: writing evidence leaves everything that was there as it was, except one file two levels below
  \<open>incidents/open\<close> of the log directory, whatever the incident and the file are called; that file has
  its old contents or the redacted ones in full. When it succeeds, the path it reports names that
  file, with the redacted contents, and no directory on the way from the root is a link.
\<close>

theorem evidence_contained:
  assumes "WriteText logDir c incidentID filename content w = (r, w1)" "goos (data w) \<noteq> ''darwin''"
  shows "\<exists>s g.
    (\<forall>q. nodes (data w) q \<noteq> None \<longrightarrow> nodes (data w1) q = nodes (data w) q \<or>
       q = evidence_place logDir s g \<and> (\<exists>m. nodes (data w1) q = Some (File_Node m (Redact content)))) \<and>
    (\<forall>path. r = Inr path \<longrightarrow> path = abs_path (evidence_place logDir s g) \<and>
       (\<exists>m. nodes (data w1) (evidence_place logDir s g) = Some (File_Node m (Redact content))) \<and>
       real_dirs (nodes (data w1)) (butlast (evidence_place logDir s g)))"
proof (cases "evidencePath logDir incidentID filename")
  case (Inl e)
  then have "data w1 = data w" "\<And>p. r \<noteq> Inr p"
    using assms(1) by (auto simp: WriteText_def evidence_dir_def text_result_def lift_result_def andThen_def map_err_def fail_def)
  then show ?thesis by auto
next
  case (Inr path)
  then obtain s g where p: "path = abs_path (evidence_place logDir s g)" "plain (evidence_place logDir s g)"
    unfolding evidence_place_def by (rule evidencePath_Inr)
  let ?xs = "path_elements (Clean logDir) @ [''incidents'', ''open'', s]"
  have place: "evidence_place logDir s g = ?xs @ [g]" by (simp add: evidence_place_def)
  obtain a w2 where made: "ensureDirNoSymlinkUnder (Clean logDir) (Dir_of path) w = (a, w2)" by fastforce
  then have keep: "keeps_nodes (data w) (data w2)"
    using additive_ensureDirNoSymlinkUnder [of "Clean logDir" "Dir_of path"] by (auto simp: additive_def dest: spec [of _ w])
  obtain b w3 where written: "atomicWriteFile c path (Redact content) w2 = (b, w3)" by fastforce
  have run: "(case a of Inl e \<Rightarrow> r = Inl (wrapError ''evidence mkdir'' ErrorClassWrite e) \<and> w1 = w2
      | Inr u \<Rightarrow> w1 = w3 \<and> (case b of Inl e \<Rightarrow> r = Inl (wrapError ''evidence write'' ErrorClassWrite e) | Inr v \<Rightarrow> r = Inr path))"
    using assms(1) Inr made written
    by (auto simp: WriteText_def evidence_dir_def text_result_def lift_result_def andThen_def map_err_def ok_def
        split: sum.splits)
  show ?thesis
  proof (cases a)
    case (Inl e)
    with run keep show ?thesis by (auto simp: keeps_nodes_def)
  next
    case (Inr u)
    have "goos (data w2) \<noteq> ''darwin''" using keep assms(2) by (simp add: keeps_nodes_def)
    from atomicWriteFile_law [OF written [unfolded p(1) place] _ this] p(2)
    have rep: "replaced ?xs g (Redact content) (b = Inr ()) (data w2) (data w3)" by (simp add: place)
    have others: "nodes (data w3) q = nodes (data w) q \<or>
        q = evidence_place logDir s g \<and> (\<exists>m. nodes (data w3) q = Some (File_Node m (Redact content)))"
      if "nodes (data w) q \<noteq> None" for q
    proof -
      from keep that have same: "nodes (data w2) q = nodes (data w) q" by (simp add: keeps_nodes_def)
      show ?thesis
      proof (cases "q = ?xs @ [g]")
        case True
        with rep same show ?thesis by (simp add: replaced_def place)
      next
        case False
        with rep same that have "nodes (data w3) q = nodes (data w2) q" by (auto simp: replaced_def)
        with same show ?thesis by simp
      qed
    qed
    have succeeded: "b = Inr ()" if "r = Inr path'" for path' using run Inr that by (cases b) auto
    have same: "w1 = w3" "\<And>path'. r = Inr path' \<Longrightarrow> path' = path" using run Inr by (cases b; auto)+
    have there: "b = Inr () \<Longrightarrow> (\<exists>m. nodes (data w3) (evidence_place logDir s g) = Some (File_Node m (Redact content))) \<and>
        real_dirs (nodes (data w3)) (butlast (evidence_place logDir s g))"
      using rep unfolding place butlast_snoc by (simp only: replaced_def simp_thms)
    show ?thesis unfolding same(1)
      by (rule exI [of _ s], rule exI [of _ g]) (use others there [OF succeeded] same(2) p(1) in blast)
  qed
qed

theorem evidence_contained_witness:
  "\<exists>s g. \<forall>q. nodes example_files q \<noteq> None \<longrightarrow>
     nodes (data (snd (WriteText ''/l'' Live_Context ''../a'' ''b.txt'' ''x'' (files_world [])))) q = nodes example_files q \<or>
     q = evidence_place ''/l'' s g"
proof -
  obtain r w1 where run: "WriteText ''/l'' Live_Context ''../a'' ''b.txt'' ''x'' (files_world []) = (r, w1)" by fastforce
  have "goos (data (files_world [])) \<noteq> ''darwin''" by (simp add: files_world_def example_files_def)
  from evidence_contained [OF run this] show ?thesis unfolding run by (auto simp: files_world_def)
qed

text \<open>The texts of a JSON value, and whether every member with a sensitive key is hidden.\<close>

fun json_texts :: "json \<Rightarrow> string set" where
  "json_texts (J_String s) = {s}"
| "json_texts (J_Array xs) = (\<Union>x \<in> set xs. json_texts x)"
| "json_texts (J_Object kvs) = (\<Union>(k, v) \<in> set kvs. json_texts v)"
| "json_texts v = {}"

fun secrets_hidden :: "json \<Rightarrow> bool" where
  "secrets_hidden (J_Array xs) = (\<forall>x \<in> set xs. secrets_hidden x)"
| "secrets_hidden (J_Object kvs) =
     (\<forall>(k, v) \<in> set kvs. (IsSensitiveKey k \<longrightarrow> v = J_String Replacement) \<and> secrets_hidden v)"
| "secrets_hidden v = True"

lemma sanitized_sensitive: "IsSensitiveKey k \<Longrightarrow> sanitizeJSONValue k v = J_String Replacement"
  by (cases v) auto

lemma sanitized_texts: "s \<in> json_texts (sanitizeJSONValue key v) \<Longrightarrow> s = Replacement \<or> (\<exists>t \<in> json_texts v. s = Redact t)"
  by (induction key v rule: sanitizeJSONValue.induct) (fastforce split: if_splits)+

lemma sanitized_hidden: "secrets_hidden (sanitizeJSONValue key v)"
  by (induction key v rule: sanitizeJSONValue.induct) (auto simp: sanitized_sensitive)

text \<open>
  C27: what is written as JSON is an encoding of a value in which every member with a sensitive key,
  at any depth, has the replacement as its value, and every other text is a redacted text of the
  value that was given.
\<close>

theorem written_json_clean:
  "case sanitizedJSONBytes val indent of
     Inl e \<Rightarrow> val = Inl e
   | Inr bs \<Rightarrow> (\<exists>given clean. val = Inr given \<and> bs = (if indent then marshal_indent 0 clean else marshal clean) \<and>
       secrets_hidden clean \<and> (\<forall>s \<in> json_texts clean. s = Replacement \<or> (\<exists>t \<in> json_texts given. s = Redact t)))"
proof (cases val)
  case (Inr given)
  let ?clean = "sanitizeJSONValue [] given"
  have "secrets_hidden ?clean" "\<forall>s \<in> json_texts ?clean. s = Replacement \<or> (\<exists>t \<in> json_texts given. s = Redact t)"
    using sanitized_hidden sanitized_texts by blast+
  with Inr show ?thesis by (auto simp: sanitizedJSONBytes_def Let_def)
qed (simp add: sanitizedJSONBytes_def)

theorem written_json_clean_witness:
  "\<exists>given clean. Inr (J_Object [(''password'', J_String ''p'')]) = Inr given \<and> secrets_hidden clean \<and>
     sanitizedJSONBytes (Inr given) False = Inr (marshal clean)"
proof -
  let ?v = "Inr (J_Object [(''password'', J_String ''p'')]) :: go_error + json"
  obtain bs where "sanitizedJSONBytes ?v False = Inr bs" by (simp add: sanitizedJSONBytes_def)
  with written_json_clean [of ?v False] show ?thesis by auto
qed

end
