(* ===== verification/Storage_Doctor.thy ===== *)
theory Storage_Doctor
  imports Storage_Open
begin

text \<open>
  \<open>doctor.go\<close>: the checks of the storage, run one after the other until one fails. The names
  \<open>os.CreateTemp\<close> tries are the parameter \<open>rnd\<close>.
\<close>

definition DefaultDatabaseFile :: string where "DefaultDatabaseFile = ''state.db''"
definition DefaultCurrentMetricsFile :: string where "DefaultCurrentMetricsFile = ''metrics-current.json''"

record DoctorOptions =
  do_StateDir :: string
  do_LogDir :: string
  do_DatabaseFile :: string
  do_CurrentMetricsFile :: string
  do_BusyTimeout :: duration
  do_WAL :: bool

datatype DoctorStatus = DoctorPass | DoctorWarn | DoctorFail

record DoctorCheck =
  dc_Name :: string
  dc_Status :: DoctorStatus
  dc_Message :: string

definition plain_filename_error :: "string \<Rightarrow> string \<Rightarrow> go_error option" where
  "plain_filename_error field name =
     map_option (\<lambda>e. Wrap_Error field (Text_Error e)) (validatePlainFilename name)"

definition validateDoctorOptions :: "DoctorOptions \<Rightarrow> go_error option" where
  "validateDoctorOptions opts =
     (if do_StateDir opts = [] then Some (Text_Error ''state_dir is required'')
      else if do_LogDir opts = [] then Some (Text_Error ''log_dir is required'')
      else if \<not> IsAbs (do_StateDir opts) \<or> \<not> IsAbs (do_LogDir opts)
      then Some (Text_Error ''storage directories must be absolute paths'')
      else case plain_filename_error ''database_file'' (do_DatabaseFile opts) of
             Some e \<Rightarrow> Some e
           | None \<Rightarrow> plain_filename_error ''current_metrics_file'' (do_CurrentMetricsFile opts))"

fun create_probe :: "nat \<Rightarrow> nat \<Rightarrow> (nat \<Rightarrow> string) \<Rightarrow> string \<Rightarrow> (string list \<times> string, connection) op" where
  "create_probe 0 i rnd dir = fail (path_error ''createtemp'' (Join [dir, ''.pooly-doctor-probe-*'']) EEXIST)"
| "create_probe (Suc tries) i rnd dir =
     (let path = Join [dir, ''.pooly-doctor-probe-'' @ rnd i]
      in andThen (open_call True False path 0x180) (\<lambda>handle.
         case handle of
           Some h \<Rightarrow> ok (h, path)
         | None \<Rightarrow> create_probe tries (Suc i) rnd dir))"

definition probeWritableFile :: "(nat \<Rightarrow> string) \<Rightarrow> string \<Rightarrow> (unit, connection) op" where
  "probeWritableFile rnd dir =
     andThen ctx_err (\<lambda>_.
     andThen (create_probe 10000 0 rnd dir) (\<lambda>(h, path).
     on_error
       (andThen (on_error (andThen (write_bytes h (''ok'' @ [CHR 0x0A])) (\<lambda>_. settle)) settle) (\<lambda>_.
        andThen settle (\<lambda>_. Remove path)))
       (Remove path)))"

subsection \<open>The run\<close>

type_synonym checks_run = "DoctorCheck list \<Rightarrow> connection world \<Rightarrow> DoctorCheck list \<times> connection world"

definition check_step :: "string \<Rightarrow> ('a, connection) op \<Rightarrow> ('a \<Rightarrow> string) \<Rightarrow> checks_run \<Rightarrow> checks_run" where
  "check_step name m message next_check cs w =
     (case m w of
        (Inl e, w1) \<Rightarrow> (cs @ [\<lparr>dc_Name = name, dc_Status = DoctorFail, dc_Message = error_text e\<rparr>], w1)
      | (Inr a, w1) \<Rightarrow> next_check (cs @ [\<lparr>dc_Name = name, dc_Status = DoctorPass, dc_Message = message a\<rparr>]) w1)"

definition ignore :: "(unit, connection) op \<Rightarrow> checks_run \<Rightarrow> checks_run" where
  "ignore m next_check cs w = next_check cs (snd (m w))"

definition finish_checks :: checks_run where
  "finish_checks cs w = (cs, w)"

definition check_dir :: "(nat \<Rightarrow> string) \<Rightarrow> string \<Rightarrow> string \<Rightarrow> checks_run \<Rightarrow> checks_run" where
  "check_dir rnd name path next_check =
     check_step name (ensureDir path) (\<lambda>_. ''directory exists or was created'')
     (check_step (name @ '' writable probe'') (probeWritableFile rnd path) (\<lambda>_. ''temporary probe succeeded'') next_check)"

definition doctor_event :: "go_error + json" where
  "doctor_event = Inr (J_Object [(''doctor'', J_String ''ok'')])"

definition close_writer :: "EventWriter \<Rightarrow> (unit, connection) op" where
  "close_writer ew w = (case EventWriter_Close ew w of ((r, ew1), w1) \<Rightarrow> (r, w1))"

definition append_event :: "string \<Rightarrow> (unit, connection) op" where
  "append_event path =
     andThen (OpenEventWriter Live_Context \<lparr>eo_Path = path, eo_MaxEventBytes = 4096, eo_SyncOnWrite = True\<rparr>) (\<lambda>ew.
     andThen (on_error (EventWriter_Write ew Live_Context doctor_event) (close_writer ew)) (\<lambda>_.
     close_writer ew))"

definition check_files :: "DoctorOptions \<Rightarrow> checks_run" where
  "check_files opts =
     (let currentProbe = Join [do_StateDir opts, ''.pooly-doctor-current-state.json''];
          eventPath = Join [do_LogDir opts, ''events'', ''.pooly-doctor.jsonl'']
      in ignore (Remove currentProbe)
         (check_step ''current-state atomic write''
            (andThen (WriteCurrentState Live_Context currentProbe doctor_event)
               (\<lambda>_ w. (Inr (), snd (Remove currentProbe w))))
            (\<lambda>_. ''temporary current-state write succeeded'')
         (ignore (Remove eventPath)
         (check_step ''jsonl append''
            (andThen (append_event eventPath) (\<lambda>_ w. (Inr (), snd (Remove eventPath w))))
            (\<lambda>_. ''temporary event append succeeded'') finish_checks))))"

definition check_database :: "DoctorOptions \<Rightarrow> checks_run" where
  "check_database opts =
     check_step ''database ping'' Store_Ping (\<lambda>_. ''ping succeeded'')
     (check_step ''migration version'' SchemaVersion (\<lambda>v. ''schema version '' @ Itoa v)
     (check_step ''writable transaction'' WritableProbe (\<lambda>_. ''temporary transaction succeeded'')
     (check_files opts)))"

text \<open>\<open>defer store.Close()\<close>.\<close>

definition closing :: "checks_run \<Rightarrow> checks_run" where
  "closing run cs w = (case run cs w of (cs1, w1) \<Rightarrow> (cs1, if cn_open (data w1) then snd (close_handle w1) else w1))"

definition doctor_defaults :: "DoctorOptions \<Rightarrow> DoctorOptions" where
  "doctor_defaults opts =
     opts\<lparr>do_DatabaseFile := (if do_DatabaseFile opts = [] then DefaultDatabaseFile else do_DatabaseFile opts),
          do_CurrentMetricsFile :=
            (if do_CurrentMetricsFile opts = [] then DefaultCurrentMetricsFile else do_CurrentMetricsFile opts),
          do_BusyTimeout := (if do_BusyTimeout opts \<le> 0 then 5000 * millisecond else do_BusyTimeout opts)\<rparr>"

definition doctor_sqlite_options :: "DoctorOptions \<Rightarrow> SQLiteOptions" where
  "doctor_sqlite_options opts =
     \<lparr>so_Path = Join [do_StateDir opts, do_DatabaseFile opts], so_CreateParentDirs = True,
      so_BusyTimeout = do_BusyTimeout opts, so_WAL = do_WAL opts, so_Synchronous = ''NORMAL''\<rparr>"

definition RunDoctor :: "(nat \<Rightarrow> string) \<Rightarrow> ctx \<Rightarrow> DoctorOptions \<Rightarrow> connection world \<Rightarrow> DoctorCheck list \<times> connection world" where
  "RunDoctor rnd c options w =
     (if c = Nil_Context
      then ([\<lparr>dc_Name = ''context'', dc_Status = DoctorFail, dc_Message = ''context is nil''\<rparr>], w)
      else
        (let opts = doctor_defaults options
         in check_step ''storage configuration'' (checked (validateDoctorOptions opts)) (\<lambda>_. ''storage paths are configured'')
            (check_dir rnd ''state directory'' (do_StateDir opts)
            (check_dir rnd ''log directory'' (do_LogDir opts)
            (check_step ''database open'' (Open c (doctor_sqlite_options opts)) (\<lambda>_. ''database opened'')
            (closing (check_database opts))))) [] w))"

definition DoctorFailed :: "DoctorCheck list \<Rightarrow> bool" where
  "DoctorFailed checks \<longleftrightarrow> list_ex (\<lambda>c. dc_Status c = DoctorFail) checks"

subsection \<open>A report\<close>

definition doctor_names :: "string list" where
  "doctor_names =
     [''storage configuration'', ''state directory'', ''state directory writable probe'', ''log directory'',
      ''log directory writable probe'', ''database open'', ''database ping'', ''migration version'',
      ''writable transaction'', ''current-state atomic write'', ''jsonl append'']"

text \<open>The checks so far have the first names and passed; a run extends them, and only the last one can have failed.\<close>

definition passed :: "DoctorCheck list \<Rightarrow> nat \<Rightarrow> bool" where
  "passed cs n \<longleftrightarrow> map dc_Name cs = take n doctor_names \<and> (\<forall>c \<in> set cs. dc_Status c = DoctorPass)"

definition report_ok :: "DoctorCheck list \<Rightarrow> bool" where
  "report_ok cs \<longleftrightarrow>
     passed cs (length doctor_names) \<or>
     (\<exists>n < length doctor_names. map dc_Name cs = take (Suc n) doctor_names \<and> passed (butlast cs) n \<and> dc_Status (last cs) = DoctorFail)"

definition reports :: "nat \<Rightarrow> checks_run \<Rightarrow> bool" where
  "reports n run \<longleftrightarrow> (\<forall>cs w. passed cs n \<longrightarrow> report_ok (fst (run cs w)))"

lemma reports_finish: "reports (length doctor_names) finish_checks"
  by (simp add: reports_def finish_checks_def report_ok_def)

lemma reports_step:
  assumes "n < length doctor_names" "doctor_names ! n = name" "reports m next_check" "m = Suc n"
  shows "reports n (check_step name call message next_check)"
  unfolding reports_def
proof (intro allI impI)
  fix cs and w :: "connection world"
  assume cs: "passed cs n"
  have names: "take (Suc n) doctor_names = take n doctor_names @ [name]"
    using assms(1,2) by (simp add: take_Suc_conv_app_nth)
  show "report_ok (fst (check_step name call message next_check cs w))"
  proof (cases "call w")
    case (Pair r w1)
    show ?thesis
    proof (cases r)
      case (Inl e)
      with Pair cs assms(1) names show ?thesis
        by (auto simp: check_step_def report_ok_def passed_def intro!: exI [of _ n])
    next
      case (Inr a)
      with cs names have "passed (cs @ [\<lparr>dc_Name = name, dc_Status = DoctorPass, dc_Message = message a\<rparr>]) (Suc n)"
        by (simp add: passed_def)
      with assms(3,4) Pair Inr show ?thesis by (auto simp: check_step_def reports_def)
    qed
  qed
qed

lemma reports_ignore: "reports n next_check \<Longrightarrow> reports n (ignore m next_check)"
  by (simp add: reports_def ignore_def)

lemma reports_closing: "reports n run \<Longrightarrow> reports n (closing run)"
  by (simp add: reports_def closing_def split: prod.split) (metis fst_conv)

lemma length_doctor_names: "length doctor_names = 11"
  by (simp add: doctor_names_def)

lemma doctor_name:
  "doctor_names ! 0 = ''storage configuration''" "doctor_names ! 1 = ''state directory''"
  "doctor_names ! 2 = ''state directory writable probe''" "doctor_names ! 3 = ''log directory''"
  "doctor_names ! 4 = ''log directory writable probe''" "doctor_names ! 5 = ''database open''"
  "doctor_names ! 6 = ''database ping''" "doctor_names ! 7 = ''migration version''"
  "doctor_names ! 8 = ''writable transaction''" "doctor_names ! 9 = ''current-state atomic write''"
  "doctor_names ! 10 = ''jsonl append''"
  by (simp_all add: doctor_names_def)

lemmas reports_numbered = reports_step [unfolded length_doctor_names]

lemma reports_files: "reports 9 (check_files opts)"
  unfolding check_files_def Let_def
  by (rule reports_ignore, rule reports_numbered [of 9 _ 10], simp, simp add: doctor_name,
      rule reports_ignore, rule reports_numbered [of 10 _ 11])
    (simp_all add: doctor_name reports_finish [unfolded length_doctor_names])

lemma reports_database: "reports 6 (check_database opts)"
  unfolding check_database_def
  by (rule reports_numbered [of 6 _ 7], simp, simp add: doctor_name, rule reports_numbered [of 7 _ 8], simp,
      simp add: doctor_name, rule reports_numbered [of 8 _ 9])
    (simp_all add: doctor_name reports_files)

text \<open>
  A run of the doctor either reports that every check passed, in order, or stops at the first
  that fails: the checks before it passed and it is the last of the report.
\<close>

theorem doctor_report: "report_ok (fst (RunDoctor rnd Live_Context options w))"
proof -
  let ?o = "doctor_defaults options"
  have "reports 0 (check_step ''storage configuration'' (checked (validateDoctorOptions ?o)) (\<lambda>_. ''storage paths are configured'')
            (check_dir rnd ''state directory'' (do_StateDir ?o)
            (check_dir rnd ''log directory'' (do_LogDir ?o)
            (check_step ''database open'' (Open Live_Context (doctor_sqlite_options ?o)) (\<lambda>_. ''database opened'')
            (closing (check_database ?o))))))"
    unfolding check_dir_def
    by (rule reports_numbered [of 0 _ 1], simp, simp add: doctor_name, rule reports_numbered [of 1 _ 2], simp,
        simp add: doctor_name del: One_nat_def, rule reports_numbered [of 2 _ 3], simp, simp add: doctor_name,
        rule reports_numbered [of 3 _ 4], simp, simp add: doctor_name, rule reports_numbered [of 4 _ 5], simp,
        simp add: doctor_name, rule reports_numbered [of 5 _ 6], simp, simp add: doctor_name,
        rule reports_closing, rule reports_database)
      simp_all
  then show ?thesis
    by (simp add: reports_def RunDoctor_def Let_def passed_def)
qed

end
