(* ===== verification/Scheduler_Steps.thy ===== *)
theory Scheduler_Steps
  imports Scheduler
begin

text \<open>
  The scheduler's calls interleaved: each call of \<open>RunOnce\<close> is a process whose atomic steps are
  what it does between two accesses to the shared status (\<open>mu\<close>) or the cycle lock (\<open>cycleMu\<close>), and
  \<open>Start\<close> and \<open>Stop\<close> step in between. \<open>finishCycle\<close> reads the status, works outside the
  lock and writes it back in a later step, as the code does.
\<close>

datatype phase =
    Ready
  | Holding instant
  | Working instant
  | Finishing instant duration "go_error option" bool
  | Storing instant duration "go_error option" bool SchedulerStatus
  | Unlocking
  | Returned

text \<open>\<open>marks\<close> and \<open>stopped\<close> are ghosts: attempts marked, and whether a stop came after the last start.\<close>

record machine =
  mc_status :: SchedulerStatus
  mc_lock :: bool
  mc_phase :: "nat \<Rightarrow> phase"
  marks :: int
  stopped :: bool

definition stored :: "SchedulerStatus \<Rightarrow> instant \<Rightarrow> duration \<Rightarrow> go_error option \<Rightarrow> SchedulerStatus \<Rightarrow> bool" where
  "stored base t d err b \<longleftrightarrow>
     (\<exists>now. b = cycleStatus now base t d err) \<or>
     (err = None \<and> (\<exists>now e. b = cycleStatus now base t d (Some (persist_error e))))"

inductive step :: "machine \<Rightarrow> machine \<Rightarrow> bool" where
  enter: "mc_phase m i = Ready \<Longrightarrow> \<not> mc_lock m \<Longrightarrow>
    step m (m\<lparr>mc_lock := True, mc_phase := (mc_phase m)(i := Holding t)\<rparr>)"
| refused: "mc_phase m i = Ready \<Longrightarrow> mc_lock m \<Longrightarrow>
    step m (m\<lparr>mc_phase := (mc_phase m)(i := Finishing t 0 (Some overlap_error) False)\<rparr>)"
| mark: "mc_phase m i = Holding t \<Longrightarrow>
    step m (m\<lparr>mc_status := markAttempt t (mc_status m), marks := marks m + 1, mc_phase := (mc_phase m)(i := Working t)\<rparr>)"
| work: "mc_phase m i = Working t \<Longrightarrow>
    step m (m\<lparr>mc_phase := (mc_phase m)(i := Finishing t d err True)\<rparr>)"
| snapshot: "mc_phase m i = Finishing t d err own \<Longrightarrow>
    step m (m\<lparr>mc_phase := (mc_phase m)(i := Storing t d err own (mc_status m))\<rparr>)"
| store: "mc_phase m i = Storing t d err own base \<Longrightarrow> stored base t d err b \<Longrightarrow>
    step m (m\<lparr>mc_status := b, mc_phase := (mc_phase m)(i := (if own then Unlocking else Returned))\<rparr>)"
| unlock: "mc_phase m i = Unlocking \<Longrightarrow>
    step m (m\<lparr>mc_lock := False, mc_phase := (mc_phase m)(i := Returned)\<rparr>)"
| again: "mc_phase m i = Returned \<Longrightarrow> step m (m\<lparr>mc_phase := (mc_phase m)(i := Ready)\<rparr>)"
| start: "\<not> ss_Running (mc_status m) \<Longrightarrow>
    step m (m\<lparr>mc_status := mark_started (mc_status m), stopped := False\<rparr>)"
| stop: "step m (m\<lparr>mc_status := mark_stopped (mc_status m), stopped := True\<rparr>)"

inductive_cases stepE: "step m m1"

definition initial_machine :: "duration \<Rightarrow> int \<Rightarrow> machine" where
  "initial_machine interval max_failures =
     \<lparr>mc_status = initial_status True interval max_failures, mc_lock = False, mc_phase = (\<lambda>_. Ready), marks = 0,
      stopped = True\<rparr>"

inductive reachable :: "machine \<Rightarrow> bool" where
  reach_initial: "reachable (initial_machine interval max_failures)"
| reach_step: "reachable m \<Longrightarrow> step m m1 \<Longrightarrow> reachable m1"

text \<open>The phases of a call that took the cycle lock.\<close>

fun in_cycle :: "phase \<Rightarrow> bool" where
  "in_cycle (Holding t) = True"
| "in_cycle (Working t) = True"
| "in_cycle (Finishing t d err own) = own"
| "in_cycle (Storing t d err own base) = own"
| "in_cycle Unlocking = True"
| "in_cycle _ = False"

definition exclusive :: "machine \<Rightarrow> bool" where
  "exclusive m \<longleftrightarrow>
     (mc_lock m \<longleftrightarrow> (\<exists>i. in_cycle (mc_phase m i))) \<and>
     (\<forall>i j. in_cycle (mc_phase m i) \<longrightarrow> in_cycle (mc_phase m j) \<longrightarrow> i = j)"

text \<open>A step of one call that keeps it inside or outside its cycle keeps exclusion.\<close>

lemma exclusive_same:
  assumes "exclusive m" "in_cycle p = in_cycle (mc_phase m i)" "mc_lock m1 = mc_lock m" "mc_phase m1 = (mc_phase m)(i := p)"
  shows "exclusive m1"
  using assms by (simp add: exclusive_def) (metis (full_types))

lemma exclusive_step:
  assumes "step m m1" "exclusive m"
  shows "exclusive m1"
  using assms(1)
proof cases
  case (enter i t)
  with assms(2) show ?thesis by (auto simp: exclusive_def)
next
  case (unlock i)
  with assms(2) have "in_cycle (mc_phase m i)" by simp
  with assms(2) unlock show ?thesis by (auto simp: exclusive_def)
next
  case (refused i t)
  with assms(2) show ?thesis by (intro exclusive_same [OF assms(2)]) auto
next
  case (mark i t)
  with assms(2) show ?thesis by (intro exclusive_same [OF assms(2)]) auto
next
  case (work i t d err)
  with assms(2) show ?thesis by (intro exclusive_same [OF assms(2)]) auto
next
  case (snapshot i t d err own)
  with assms(2) show ?thesis by (intro exclusive_same [OF assms(2)]) auto
next
  case (store i t d err own base b)
  with assms(2) show ?thesis by (intro exclusive_same [OF assms(2)]) auto
next
  case (again i)
  with assms(2) show ?thesis by (intro exclusive_same [OF assms(2)]) auto
qed (use assms(2) in \<open>simp_all add: exclusive_def\<close>)

lemma reachable_exclusive: "reachable m \<Longrightarrow> exclusive m"
proof (induction rule: reachable.induct)
  case (reach_initial interval max_failures)
  then show ?case by (simp add: exclusive_def initial_machine_def)
qed (rule exclusive_step)

text \<open>The status and every copy of it that a call is going to write back count at most the attempts.\<close>

definition counted :: "machine \<Rightarrow> SchedulerStatus \<Rightarrow> bool" where
  "counted m s \<longleftrightarrow> 0 \<le> ss_CycleCount s \<and> ss_CycleCount s \<le> marks m"

definition counts_bounded :: "machine \<Rightarrow> bool" where
  "counts_bounded m \<longleftrightarrow>
     counted m (mc_status m) \<and> (\<forall>i t d err own base. mc_phase m i = Storing t d err own base \<longrightarrow> counted m base)"

lemma stored_count: "stored base t d err b \<Longrightarrow> ss_CycleCount b = ss_CycleCount base"
  by (auto simp: stored_def cycleStatus_def Let_def split: option.split)

lemma marks_grow: "step m m1 \<Longrightarrow> marks m \<le> marks m1"
  by (induction rule: step.induct) simp_all

lemma counts_step:
  assumes "step m m1" "counts_bounded m" "marks m1 < 2 ^ 63"
  shows "counts_bounded m1"
  using assms(1)
proof cases
  case (mark i t)
  then have "wrap64 (ss_CycleCount (mc_status m) + 1) = ss_CycleCount (mc_status m) + 1"
    using assms(2,3) by (intro wrap64_small) (auto simp: counts_bounded_def counted_def)
  with mark assms(2) show ?thesis by (fastforce simp: counts_bounded_def counted_def markAttempt_def)
next
  case (store i t d err own base b)
  with assms(2) show ?thesis by (auto simp: counts_bounded_def counted_def stored_count split: if_splits)
qed (use assms(2) in \<open>auto simp: counts_bounded_def counted_def mark_started_def mark_stopped_def split: if_splits\<close>)

lemma reachable_counts: "reachable m \<Longrightarrow> marks m < 2 ^ 63 \<Longrightarrow> counts_bounded m"
proof (induction rule: reachable.induct)
  case (reach_initial interval max_failures)
  then show ?case by (simp add: counts_bounded_def counted_def initial_machine_def initial_status_def)
next
  case (reach_step m m1)
  from marks_grow [OF reach_step.hyps(2)] reach_step.prems have "marks m < 2 ^ 63" by simp
  from counts_step [OF reach_step.hyps(2) reach_step.IH [OF this] reach_step.prems] show ?case .
qed

subsection \<open>What interleaving guarantees\<close>

text \<open>
  C28: at every moment at most one call of \<open>RunOnce\<close> is in a cycle, the cycle lock is held exactly
  while one is, and the cycle counter is never above the number of attempts.
\<close>

theorem one_cycle_at_a_time:
  assumes "reachable m" "marks m < 2 ^ 63"
  shows "(mc_lock m \<longleftrightarrow> (\<exists>i. in_cycle (mc_phase m i))) \<and>
    (\<forall>i j. in_cycle (mc_phase m i) \<and> in_cycle (mc_phase m j) \<longrightarrow> i = j) \<and>
    0 \<le> ss_CycleCount (mc_status m) \<and> ss_CycleCount (mc_status m) \<le> marks m"
  using reachable_exclusive [OF assms(1)] reachable_counts [OF assms]
  by (simp add: exclusive_def counts_bounded_def counted_def)

theorem one_cycle_at_a_time_witness:
  "\<exists>m :: machine. mc_phase m 0 = Holding 5 \<and> mc_phase m 1 = Ready \<and> mc_lock m \<and> ss_CycleCount (mc_status m) \<le> 0"
proof -
  let ?m = "initial_machine 1 1"
  let ?m1 = "?m\<lparr>mc_lock := True, mc_phase := (mc_phase ?m)(0 := Holding 5)\<rparr>"
  have "step ?m ?m1" by (rule enter) (simp_all add: initial_machine_def)
  from reach_step [OF reach_initial this] have "reachable ?m1" .
  from one_cycle_at_a_time [OF this] have "ss_CycleCount (mc_status ?m1) \<le> 0"
    by (simp add: initial_machine_def)
  then have "mc_phase ?m1 0 = Holding 5 \<and> mc_phase ?m1 1 = Ready \<and> mc_lock ?m1 \<and> ss_CycleCount (mc_status ?m1) \<le> 0"
    by (simp add: initial_machine_def)
  then show ?thesis by blast
qed

lemma cycleStatus_fields:
  "ss_Running (cycleStatus n b t d e) = ss_Running b"
  "ss_CurrentlyRunningCycle (cycleStatus n b t d e) = False"
  "ss_CycleCount (cycleStatus n b t d e) = ss_CycleCount b"
  by (simp_all add: cycleStatus_def Let_def split: option.split)

text \<open>The steps that stop the scheduler, mark an attempt, and write a status back, on a given machine.\<close>

definition stopping :: "machine \<Rightarrow> machine" where
  "stopping m = m\<lparr>mc_status := mark_stopped (mc_status m), stopped := True\<rparr>"

definition marking :: "nat \<Rightarrow> instant \<Rightarrow> machine \<Rightarrow> machine" where
  "marking j t m =
     m\<lparr>mc_status := markAttempt t (mc_status m), marks := marks m + 1, mc_phase := (mc_phase m)(j := Working t)\<rparr>"

definition writing :: "nat \<Rightarrow> bool \<Rightarrow> SchedulerStatus \<Rightarrow> machine \<Rightarrow> machine" where
  "writing i own b m =
     m\<lparr>mc_status := b, mc_phase := (mc_phase m)(i := (if own then Unlocking else Returned))\<rparr>"

lemma step_stopping: "step m (stopping m)"
  unfolding stopping_def by (rule stop)

lemma step_marking: "mc_phase m j = Holding t \<Longrightarrow> step m (marking j t m)"
  unfolding marking_def by (rule mark)

lemma step_writing: "mc_phase m i = Storing t d err own base \<Longrightarrow> stored base t d err b \<Longrightarrow> step m (writing i own b m)"
  unfolding writing_def by (rule store)

lemma stored_fields:
  "stored base t d err b \<Longrightarrow> ss_Running b = ss_Running base \<and> \<not> ss_CurrentlyRunningCycle b \<and> ss_CycleCount b = ss_CycleCount base"
  by (auto simp: stored_def cycleStatus_fields)

text \<open>
  C29: a call that has read the status and is about to write it back undoes what is done to it in
  between, in every state of the machine. A stop that comes in between shows the scheduler as not
  running; after the write it shows what the earlier reading showed, although the stop was the last
  one to say. An attempt that another call marks in between is counted and shown as running; after
  the write it is missing from the counter, and the other call, still working, is no longer shown.
\<close>

theorem updates_can_be_lost:
  assumes "mc_phase m i = Storing t d err own base" "stored base t d err b"
  shows "step m (stopping m) \<and> \<not> ss_Running (mc_status (stopping m)) \<and>
    step (stopping m) (writing i own b (stopping m)) \<and> stopped (writing i own b (stopping m)) \<and>
    ss_Running (mc_status (writing i own b (stopping m))) = ss_Running base \<and>
    (\<forall>j t1. j \<noteq> i \<longrightarrow> mc_phase m j = Holding t1 \<longrightarrow>
       step m (marking j t1 m) \<and> ss_CycleCount (mc_status (marking j t1 m)) = wrap64 (ss_CycleCount (mc_status m) + 1) \<and>
       ss_CurrentlyRunningCycle (mc_status (marking j t1 m)) \<and>
       step (marking j t1 m) (writing i own b (marking j t1 m)) \<and>
       marks (writing i own b (marking j t1 m)) = marks m + 1 \<and>
       mc_phase (writing i own b (marking j t1 m)) j = Working t1 \<and>
       ss_CycleCount (mc_status (writing i own b (marking j t1 m))) = ss_CycleCount base \<and>
       \<not> ss_CurrentlyRunningCycle (mc_status (writing i own b (marking j t1 m))))"
proof -
  have "mc_phase (stopping m) i = Storing t d err own base" using assms(1) by (simp add: stopping_def)
  moreover have "mc_phase (marking j t1 m) i = Storing t d err own base" if "j \<noteq> i" for j t1
    using assms(1) that by (simp add: marking_def)
  ultimately show ?thesis
    using stored_fields [OF assms(2)] assms(2) step_writing
    by (auto simp: step_stopping step_marking writing_def [symmetric] stopping_def [symmetric] marking_def [symmetric])
      (simp_all add: stopping_def marking_def writing_def mark_stopped_def markAttempt_def)
qed

text \<open>A reachable state: one call has taken the lock, and an overlapping one has read the status of a running scheduler.\<close>

lemma overlapping_state:
  "\<exists>m base. reachable m \<and> mc_phase m 1 = Storing 1 0 (Some overlap_error) False base \<and> mc_phase m 0 = Holding 1 \<and>
     ss_Running base \<and> ss_CycleCount base = marks m"
proof -
  obtain m1 where 1: "reachable m1" "mc_phase m1 = (\<lambda>_. Ready)" "\<not> mc_lock m1" "ss_Running (mc_status m1)"
      "ss_CycleCount (mc_status m1) = marks m1"
    by (rule that [OF reach_step [OF reach_initial [of 1 1] start]])
      (simp_all add: initial_machine_def initial_status_def mark_started_def)
  obtain m2 where 2: "reachable m2" "mc_phase m2 = (\<lambda>_. Ready)(0 := Holding 1)" "mc_lock m2" "ss_Running (mc_status m2)"
      "ss_CycleCount (mc_status m2) = marks m2"
    by (rule that [OF reach_step [OF 1(1) enter [of _ 0 1]]]) (simp_all add: 1)
  obtain m3 where 3: "reachable m3" "mc_phase m3 = (\<lambda>_. Ready)(0 := Holding 1, 1 := Finishing 1 0 (Some overlap_error) False)"
      "ss_Running (mc_status m3)" "ss_CycleCount (mc_status m3) = marks m3"
    by (rule that [OF reach_step [OF 2(1) refused [of _ 1 1]]]) (simp_all add: 2)
  obtain m4 where "reachable m4" "mc_phase m4 1 = Storing 1 0 (Some overlap_error) False (mc_status m3)" "mc_phase m4 0 = Holding 1"
      "marks m4 = marks m3"
    by (rule that [OF reach_step [OF 3(1) snapshot [of _ 1 1 0 "Some overlap_error" False]]]) (simp_all add: 3)
  with 3 show ?thesis by metis
qed

theorem updates_can_be_lost_witness:
  "(\<exists>m. reachable m \<and> stopped m \<and> ss_Running (mc_status m)) \<and>
   (\<exists>m. reachable m \<and> mc_phase m 0 = Working 1 \<and> \<not> ss_CurrentlyRunningCycle (mc_status m) \<and>
      ss_CycleCount (mc_status m) < marks m)"
proof -
  obtain m base where m: "reachable m" "mc_phase m 1 = Storing 1 0 (Some overlap_error) False base" "mc_phase m 0 = Holding 1"
      "ss_Running base" "ss_CycleCount base = marks m"
    using overlapping_state by blast
  have "stored base 1 0 (Some overlap_error) (cycleStatus 1 base 1 0 (Some overlap_error))" by (auto simp: stored_def)
  from updates_can_be_lost [OF m(2) this] m show ?thesis by (metis reach_step less_add_one zero_neq_one)
qed

subsection \<open>Cycles one after the other\<close>

lemma failures_Cons: "failures (e # es) = (if e = None then 0 else 1) + failures es"
  by (simp add: failures_def)

lemma run_cycles_unlocked: "\<not> sc_locked s \<Longrightarrow> \<not> sc_locked (snd (run_cycles opts n s))"
proof (induction n arbitrary: s)
  case (Suc n)
  obtain result err s1 where run: "RunOnce opts Live_Context s = ((result, err), s1)" by (metis prod.collapse)
  with RunOnce_accounts [OF Suc.prems run] Suc.IH [of s1] show ?case by (simp split: prod.split) (metis snd_conv)
qed simp

lemma run_cycles_length: "length (fst (run_cycles opts n s)) = n"
proof (induction n arbitrary: s)
  case (Suc n)
  then show ?case by (auto split: prod.split) (metis fst_conv)
qed simp

text \<open>The counters after some cycles from the counters before; a success resets the consecutive ones.\<close>

definition counters_after :: "go_error option list \<Rightarrow> SchedulerStatus \<Rightarrow> SchedulerStatus \<Rightarrow> bool" where
  "counters_after errs a b \<longleftrightarrow>
     ss_CycleCount b = wrap64 (ss_CycleCount a + int (length errs)) \<and>
     ss_FailedCycleCount b = wrap64 (ss_FailedCycleCount a + int (failures errs)) \<and>
     ss_ConsecutiveFailures b =
       wrap64 (int (trailing_failures errs) + (if None \<in> set errs then 0 else ss_ConsecutiveFailures a)) \<and>
     ss_Running b = ss_Running a"

lemma wrap64_absorb: "wrap64 (wrap64 a + b) = wrap64 (a + b)"
  by (simp add: wrap64_def mod_simps algebra_simps)

lemma wrap64_absorb_right: "wrap64 (a + wrap64 b) = wrap64 (a + b)"
  using wrap64_absorb [of b a] by (simp add: add.commute)

lemma trailing_Cons:
  "trailing_failures (e # errs) =
     (if None \<in> set errs then trailing_failures errs else length errs + (if e = None then 0 else 1))"
  unfolding trailing_failures_def by (simp add: takeWhile_append) (metis option.distinct(1))

lemma trailing_all: "None \<notin> set errs \<Longrightarrow> trailing_failures errs = length errs"
proof -
  assume "None \<notin> set errs"
  then have "\<forall>e\<in>set (rev errs). e \<noteq> None" by (simp del: not_None_eq) metis
  then have "takeWhile (\<lambda>e. e \<noteq> None) (rev errs) = rev errs" by (rule takeWhile_eq_all_conv [THEN iffD2])
  then show ?thesis by (simp only: trailing_failures_def length_rev)
qed

lemma counters_Cons:
  assumes "accounts e a b" "counters_after errs b c"
  shows "counters_after (e # errs) a c"
proof (cases e)
  case None
  with assms show ?thesis
    by (auto simp: counters_after_def accounts_def failures_Cons trailing_Cons trailing_all wrap64_absorb wrap64_absorb_right algebra_simps)
next
  case (Some x)
  with assms have b: "ss_CycleCount b = wrap64 (ss_CycleCount a + 1)" "ss_Running b = ss_Running a"
    "ss_FailedCycleCount b = wrap64 (ss_FailedCycleCount a + 1)"
    "ss_ConsecutiveFailures b = wrap64 (ss_ConsecutiveFailures a + 1)"
    by (simp_all add: accounts_def)
  with Some assms(2) show ?thesis
    by (auto simp: counters_after_def failures_Cons trailing_Cons trailing_all wrap64_absorb wrap64_absorb_right algebra_simps)
qed

text \<open>An empty list of cycles leaves counters that are within their range.\<close>

definition counters_ranged :: "SchedulerStatus \<Rightarrow> bool" where
  "counters_ranged a \<longleftrightarrow> wrap64 (ss_CycleCount a) = ss_CycleCount a \<and>
     wrap64 (ss_FailedCycleCount a) = ss_FailedCycleCount a \<and>
     wrap64 (ss_ConsecutiveFailures a) = ss_ConsecutiveFailures a"

lemma wrap64_idem: "wrap64 (wrap64 n) = wrap64 n"
  using wrap64_absorb [of n 0] by simp

lemma accounts_ranged: "accounts e a b \<Longrightarrow> counters_ranged a \<Longrightarrow> counters_ranged b"
  by (cases e) (auto simp: accounts_def counters_ranged_def wrap64_idem, simp_all add: wrap64_def)

lemma run_cycles_counters:
  "\<not> sc_locked s \<Longrightarrow> counters_ranged (sc_status s) \<Longrightarrow>
   counters_after (fst (run_cycles opts n s)) (sc_status s) (sc_status (snd (run_cycles opts n s)))"
proof (induction n arbitrary: s)
  case 0
  then show ?case by (simp add: counters_after_def counters_ranged_def failures_def trailing_failures_def)
next
  case (Suc n)
  obtain result err s1 where run: "RunOnce opts Live_Context s = ((result, err), s1)" by (metis prod.collapse)
  with RunOnce_accounts [OF Suc.prems(1) run] have acc: "accounts err (sc_status s) (sc_status s1)" "\<not> sc_locked s1"
    by simp_all
  from counters_Cons [OF acc(1) Suc.IH [OF acc(2) accounts_ranged [OF acc(1) Suc.prems(2)]]] run
  show ?case by (simp split: prod.split) (metis fst_conv snd_conv)
qed

text \<open>
  C30: after any number of cycles run one after the other by a new scheduler, whatever their stages
  do, the cycle counter is the number of cycles modulo the width of the counter, and the failure
  counters are the failures and the failures since the last success.
\<close>

theorem cycles_accounted:
  "case run_cycles (fst (NewScheduler opts w)) n (snd (NewScheduler opts w)) of (errs, s) \<Rightarrow>
    length errs = n \<and> ss_CycleCount (sc_status s) = wrap64 (int n) \<and>
    ss_FailedCycleCount (sc_status s) = wrap64 (int (failures errs)) \<and>
    ss_ConsecutiveFailures (sc_status s) = wrap64 (int (trailing_failures errs)) \<and> \<not> sc_locked s"
proof -
  obtain o1 s0 where new: "NewScheduler opts w = (o1, s0)" by (metis prod.collapse)
  then have fresh: "\<not> sc_locked s0" "ss_CycleCount (sc_status s0) = 0" "ss_FailedCycleCount (sc_status s0) = 0"
      "ss_ConsecutiveFailures (sc_status s0) = 0"
    by (auto simp: NewScheduler_def Let_def initial_status_def)
  obtain errs s where run: "run_cycles o1 n s0 = (errs, s)" by (metis prod.collapse)
  have "counters_ranged (sc_status s0)" by (simp add: counters_ranged_def fresh wrap64_def)
  from run_cycles_counters [OF fresh(1) this, of o1 n] run
  have after: "counters_after errs (sc_status s0) (sc_status s)" by simp
  have len: "length errs = n" using run_cycles_length [of o1 n s0] run by simp
  with after run_cycles_unlocked [OF fresh(1), of o1 n] run show ?thesis
    by (simp add: new counters_after_def fresh)
qed

end
