(* ===== verification/Config_Schema.thy ===== *)
theory Config_Schema
  imports Go_Duration
begin

text \<open>
  \<open>internal/config/schema.go\<close>, \<open>config.go\<close> and \<open>defaults.go\<close>: the configuration as records, with the
  fields in the order of the structs, the text form of its durations, and the defaults. The value of
  a threshold is whatever YAML decodes; a Go map of labels is the list of its entries, with distinct
  keys, in the order an iteration visits them.
\<close>

subsection \<open>Sections\<close>

record NodeConfig =
  nc_ID :: string
  nc_Name :: string
  nc_Hostname :: string
  nc_Region :: string
  nc_Role :: string
  nc_Environment :: string
  nc_Ring :: string

record SchedulerConfig =
  sd_Enabled :: bool
  sd_Interval :: duration
  sd_RunOnStart :: bool
  sd_CycleTimeout :: duration
  sd_MaxConsecutiveFailures :: int

record AgentConfig =
  ac_Scheduler :: SchedulerConfig

record APIConfig =
  api_Enabled :: bool
  api_Bind :: string
  api_Listen :: string
  api_AllowNonLoopback :: bool
  api_ReadTimeout :: duration
  api_WriteTimeout :: duration
  api_ShutdownTimeout :: duration

record ReportsConfig =
  rep_Enabled :: bool
  rep_MaxIncidents :: int
  rep_IncludeResolved :: bool

record LoggingConfig =
  lg_Level :: string
  lg_Format :: string

record CommandPaths =
  cmd_Systemctl :: string
  cmd_Journalctl :: string
  cmd_SSHD :: string
  cmd_SS :: string
  cmd_UFW :: string
  cmd_Visudo :: string
  cmd_Auditctl :: string
  cmd_Ausearch :: string

record ResourceToggleConfig =
  tg_Enabled :: bool

record PressureConfig =
  pc_Enabled :: bool
  pc_MissingIsOK :: bool

record FilesystemConfig =
  fc_Enabled :: bool
  fc_Mounts :: "string list"

record DiskIOConfig =
  dc_Enabled :: bool
  dc_AutoDiscover :: bool
  dc_Exclude :: "string list"

record NetworkConfig =
  nw_Enabled :: bool
  nw_AutoDiscover :: bool
  nw_Include :: "string list"
  nw_Exclude :: "string list"

record ResourcesConfig =
  rs_Enabled :: bool
  rs_Interval :: duration
  rs_Timeout :: duration
  rs_CPU :: ResourceToggleConfig
  rs_Memory :: ResourceToggleConfig
  rs_Pressure :: PressureConfig
  rs_Filesystem :: FilesystemConfig
  rs_DiskIO :: DiskIOConfig
  rs_Network :: NetworkConfig
  rs_Uptime :: ResourceToggleConfig

record SystemdConfig =
  sy_Enabled :: bool
  sy_Interval :: duration
  sy_Timeout :: duration
  sy_Notify :: bool
  sy_Watchdog :: bool
  sy_WatchdogInterval :: duration
  sy_CriticalServices :: "string list"

record SSHExpectedConfig =
  se_Ports :: "int list"
  se_ForbiddenPorts :: "int list"
  se_PermitRootLogin :: string
  se_PasswordAuthentication :: string
  se_KbdInteractiveAuthentication :: string
  se_PermitEmptyPasswords :: string
  se_PubkeyAuthentication :: string
  se_StrictModes :: string
  se_PermitUserEnvironment :: string

record SSHConfig =
  sh_Enabled :: bool
  sh_Interval :: duration
  sh_Timeout :: duration
  sh_EventDriven :: bool
  sh_Expected :: SSHExpectedConfig

record JournalStreamConfig =
  js_Enabled :: bool
  js_Interval :: duration
  js_Timeout :: duration
  js_MaxRecords :: int
  js_MaxBytes :: int
  js_MaxFieldBytes :: int

record JournalConfig =
  jc_Auth :: JournalStreamConfig
  jc_Services :: JournalStreamConfig
  jc_Kernel :: JournalStreamConfig

record FilewatchTargetConfig =
  ft_Name :: string
  ft_Path :: string
  ft_Type :: string
  ft_Hash :: bool
  ft_Manifest :: bool
  ft_AllowPrivateKeyHash :: bool

record FilewatchConfig =
  fw_Enabled :: bool
  fw_Debounce :: duration
  fw_PeriodicVerifyInterval :: duration
  fw_Timeout :: duration
  fw_MaxFileBytes :: int
  fw_MaxDirectoryEntries :: int
  fw_Targets :: "FilewatchTargetConfig list"

record AuditConfig =
  ad_Enabled :: bool
  ad_Mode :: string
  ad_ManageRules :: bool

text \<open>A Go value of type \<open>any\<close>; the last constructor stands for the types the code rejects.\<close>

datatype any_value =
    Any_Nil
  | Any_Int int
  | Any_Int64 int
  | Any_Float64 float64
  | Any_Float32 float64
  | Any_Bool bool
  | Any_String string
  | Any_Other string

record RuleThresholdConfig =
  tc_Operator :: string
  tc_Value :: any_value
  tc_For :: duration

record RuleConfig =
  rc_ID :: string
  rc_Enabled :: bool
  rc_Collector :: string
  rc_Metric :: string
  rc_Target :: string
  rc_EventCategory :: string
  rc_Warn :: "RuleThresholdConfig option"
  rc_Fail :: "RuleThresholdConfig option"
  rc_Critical :: "RuleThresholdConfig option"
  rc_RecoverFor :: duration
  rc_MissingData :: string
  rc_StaleData :: string
  rc_Summary :: string
  rc_Labels :: "(string \<times> string) list"

record NotificationConfig =
  no_PaidReceiversEnabledByDefault :: bool

record NotifyReceiverConfig =
  nr_ID :: string
  nr_DisplayName :: string
  nr_Enabled :: bool
  nr_Type :: string
  nr_URLEnv :: string
  nr_Timeout :: duration
  nr_Events :: "string list"
  nr_Severities :: "string list"
  nr_AllowInsecureLocal :: bool

record NotifyConfig =
  nt_Enabled :: bool
  nt_DryRun :: bool
  nt_Receivers :: "NotifyReceiverConfig list"

record ReceiverConfig =
  rv_Name :: string
  rv_Type :: string
  rv_CostClass :: string
  rv_Enabled :: bool
  rv_WebhookEnv :: string
  rv_URLEnv :: string
  rv_TokenEnv :: string
  rv_APIKeyEnv :: string

record SQLiteConfig =
  sq_BusyTimeout :: duration
  sq_WAL :: bool

record StorageConfig =
  st_StateDir :: string
  st_LogDir :: string
  st_DatabaseFile :: string
  st_CurrentMetricsFile :: string
  st_SQLite :: SQLiteConfig

record Config =
  cf_Version :: string
  cf_Node :: NodeConfig
  cf_Agent :: AgentConfig
  cf_API :: APIConfig
  cf_Reports :: ReportsConfig
  cf_Logging :: LoggingConfig
  cf_Commands :: CommandPaths
  cf_Resources :: ResourcesConfig
  cf_Systemd :: SystemdConfig
  cf_SSH :: SSHConfig
  cf_Journal :: JournalConfig
  cf_Filewatch :: FilewatchConfig
  cf_Audit :: AuditConfig
  cf_Rules :: "RuleConfig list"
  cf_Notify :: NotifyConfig
  cf_Notification :: NotificationConfig
  cf_Receivers :: "ReceiverConfig list"
  cf_Storage :: StorageConfig

subsection \<open>Durations in YAML\<close>

datatype yaml_node = Scalar_Node string | Other_Node

definition MarshalYAML :: "duration \<Rightarrow> string" where
  "MarshalYAML d = (if d = 0 then [] else duration_text d)"

definition UnmarshalYAML :: "yaml_node \<Rightarrow> string + duration" where
  "UnmarshalYAML node =
     (case node of
        Scalar_Node v \<Rightarrow>
          if v = [] then Inr 0
          else (case ParseDuration v of
                  None \<Rightarrow> Inl ''must be a Go duration such as 30s, 5m, or 1h''
                | Some d \<Rightarrow> Inr d)
      | Other_Node \<Rightarrow> Inl ''must be a duration string'')"

subsection \<open>Defaults\<close>

definition CurrentConfigVersion :: string where "CurrentConfigVersion = ''1''"
definition DefaultAPIBind :: string where "DefaultAPIBind = ''127.0.0.1:9587''"
definition DefaultStateDir :: string where "DefaultStateDir = ''/var/lib/pooly-sentinel''"
definition DefaultLogDir :: string where "DefaultLogDir = ''/var/log/pooly-sentinel''"

definition EffectiveAPIListen :: "APIConfig \<Rightarrow> string" where
  "EffectiveAPIListen cfg = (if api_Bind cfg \<noteq> [] then api_Bind cfg else api_Listen cfg)"

definition minute :: duration where "minute = 60 * second"
definition hour :: duration where "hour = 60 * minute"
definition millisecond :: duration where "millisecond = 1000000"

text \<open>A constant of the source with two decimal places.\<close>

definition hundredths :: "int \<Rightarrow> any_value" where
  "hundredths n = Any_Float64 (round64 (of_int n / 100))"

definition config_threshold :: "string \<Rightarrow> any_value \<Rightarrow> duration \<Rightarrow> RuleThresholdConfig option" where
  "config_threshold operator v d = Some \<lparr>tc_Operator = operator, tc_Value = v, tc_For = d\<rparr>"

definition default_rule ::
    "string \<Rightarrow> bool \<Rightarrow> string \<Rightarrow> string \<Rightarrow> string \<Rightarrow> RuleThresholdConfig option \<Rightarrow>
     RuleThresholdConfig option \<Rightarrow> RuleThresholdConfig option \<Rightarrow> duration \<Rightarrow> RuleConfig" where
  "default_rule rule_id enabled collector metric target warn fl critical recover_for =
     \<lparr>rc_ID = rule_id, rc_Enabled = enabled, rc_Collector = collector, rc_Metric = metric, rc_Target = target,
      rc_EventCategory = [], rc_Warn = warn, rc_Fail = fl, rc_Critical = critical, rc_RecoverFor = recover_for,
      rc_MissingData = ''stale'', rc_StaleData = ''stale'',
      rc_Summary = ''{{rule_id}} threshold state for {{target}}'', rc_Labels = []\<rparr>"

definition defaultRules :: "RuleConfig list" where
  "defaultRules =
     [default_rule ''cpu-used-sustained'' True ''resources'' ''pooly_cpu_used_ratio'' ''system''
        (config_threshold ''greater_than_or_equal'' (hundredths 85) (10 * minute))
        (config_threshold ''greater_than_or_equal'' (hundredths 95) (10 * minute)) None (5 * minute),
      default_rule ''memory-available-low'' True ''resources'' ''pooly_memory_available_ratio'' ''system''
        (config_threshold ''less_than'' (hundredths 15) (10 * minute))
        (config_threshold ''less_than'' (hundredths 8) (10 * minute))
        (config_threshold ''less_than'' (hundredths 4) (5 * minute)) (5 * minute),
      default_rule ''filesystem-capacity-high'' True ''filesystem'' ''pooly_filesystem_used_ratio'' ''any''
        (config_threshold ''greater_than_or_equal'' (hundredths 85) (10 * minute))
        (config_threshold ''greater_than_or_equal'' (hundredths 95) (10 * minute)) None (5 * minute),
      default_rule ''filesystem-inodes-high'' True ''filesystem'' ''pooly_filesystem_inodes_used_ratio'' ''any''
        (config_threshold ''greater_than_or_equal'' (hundredths 85) (10 * minute))
        (config_threshold ''greater_than_or_equal'' (hundredths 95) (10 * minute)) None (5 * minute),
      default_rule ''required-network-interface-down'' False ''network'' ''pooly_network_interface_up'' ''eth0''
        None (config_threshold ''boolean_false'' Any_Nil (2 * minute)) None (2 * minute),
      default_rule ''required-systemd-service-failed'' False ''systemd'' ''pooly_systemd_unit_failed'' ''ssh.service''
        None (config_threshold ''boolean_true'' Any_Nil minute) None (2 * minute),
      default_rule ''forbidden-ssh-listener'' False ''ssh_listeners'' ''pooly_ssh_forbidden_port_listening'' ''22''
        None (config_threshold ''boolean_true'' Any_Nil minute) None (2 * minute),
      default_rule ''ssh-hardening-drift'' False ''ssh_effective_config'' ''pooly_ssh_directive_expected_match'' ''any''
        (config_threshold ''boolean_false'' Any_Nil (5 * minute))
        (config_threshold ''boolean_false'' Any_Nil (30 * minute)) None (5 * minute),
      (default_rule ''kernel-oom-event'' False ''journal'' [] ''kernel'' None
        (config_threshold ''event_category_match'' (Any_String ''kernel_oom'') 0) None (5 * minute))
        \<lparr>rc_EventCategory := ''kernel_oom'', rc_Summary := ''{{rule_id}} event state for {{target}}''\<rparr>]"

definition default_stream :: "duration \<Rightarrow> JournalStreamConfig" where
  "default_stream interval =
     \<lparr>js_Enabled = False, js_Interval = interval, js_Timeout = 3 * second, js_MaxRecords = 100,
      js_MaxBytes = 256 * 1024, js_MaxFieldBytes = 512\<rparr>"

definition Default :: Config where
  "Default =
     \<lparr>cf_Version = CurrentConfigVersion,
      cf_Node = \<lparr>nc_ID = [], nc_Name = [], nc_Hostname = [], nc_Region = [], nc_Role = [],
        nc_Environment = ''production'', nc_Ring = ''alpha''\<rparr>,
      cf_Agent = \<lparr>ac_Scheduler = \<lparr>sd_Enabled = False, sd_Interval = 60 * second, sd_RunOnStart = False,
        sd_CycleTimeout = 45 * second, sd_MaxConsecutiveFailures = 5\<rparr>\<rparr>,
      cf_API = \<lparr>api_Enabled = False, api_Bind = [], api_Listen = DefaultAPIBind, api_AllowNonLoopback = False,
        api_ReadTimeout = 5 * second, api_WriteTimeout = 10 * second, api_ShutdownTimeout = 10 * second\<rparr>,
      cf_Reports = \<lparr>rep_Enabled = True, rep_MaxIncidents = 100, rep_IncludeResolved = True\<rparr>,
      cf_Logging = \<lparr>lg_Level = ''info'', lg_Format = ''text''\<rparr>,
      cf_Commands = \<lparr>cmd_Systemctl = ''/bin/systemctl'', cmd_Journalctl = ''/bin/journalctl'',
        cmd_SSHD = ''/usr/sbin/sshd'', cmd_SS = ''/usr/sbin/ss'', cmd_UFW = ''/usr/sbin/ufw'',
        cmd_Visudo = ''/usr/sbin/visudo'', cmd_Auditctl = ''/usr/sbin/auditctl'', cmd_Ausearch = ''/usr/sbin/ausearch''\<rparr>,
      cf_Resources = \<lparr>rs_Enabled = True, rs_Interval = 30 * second, rs_Timeout = 3 * second,
        rs_CPU = \<lparr>tg_Enabled = True\<rparr>, rs_Memory = \<lparr>tg_Enabled = True\<rparr>,
        rs_Pressure = \<lparr>pc_Enabled = True, pc_MissingIsOK = True\<rparr>,
        rs_Filesystem = \<lparr>fc_Enabled = True,
          fc_Mounts = [''/'', ''/home'', ''/var'', ''/var/log'', ''/var/lib'', ''/var/lib/pooly-sentinel'',
                       ''/var/log/pooly-sentinel'']\<rparr>,
        rs_DiskIO = \<lparr>dc_Enabled = True, dc_AutoDiscover = True, dc_Exclude = [''loop*'', ''ram*'', ''fd*'', ''sr*'']\<rparr>,
        rs_Network = \<lparr>nw_Enabled = True, nw_AutoDiscover = True, nw_Include = [],
          nw_Exclude = [''lo'', ''docker*'', ''veth*'', ''br-*'']\<rparr>,
        rs_Uptime = \<lparr>tg_Enabled = True\<rparr>\<rparr>,
      cf_Systemd = \<lparr>sy_Enabled = False, sy_Interval = 30 * second, sy_Timeout = 3 * second, sy_Notify = True,
        sy_Watchdog = True, sy_WatchdogInterval = 30 * second,
        sy_CriticalServices = [''ssh.service'', ''fail2ban.service'', ''pooly-sentinel-agent.service'',
                               ''miningcore.service'']\<rparr>,
      cf_SSH = \<lparr>sh_Enabled = False, sh_Interval = 5 * minute, sh_Timeout = 3 * second, sh_EventDriven = True,
        sh_Expected = \<lparr>se_Ports = [6200], se_ForbiddenPorts = [22], se_PermitRootLogin = ''no'',
          se_PasswordAuthentication = ''no'', se_KbdInteractiveAuthentication = ''no'',
          se_PermitEmptyPasswords = ''no'', se_PubkeyAuthentication = ''yes'', se_StrictModes = ''yes'',
          se_PermitUserEnvironment = ''no''\<rparr>\<rparr>,
      cf_Journal = \<lparr>jc_Auth = default_stream (10 * second), jc_Services = default_stream (30 * second),
        jc_Kernel = default_stream (60 * second)\<rparr>,
      cf_Filewatch = \<lparr>fw_Enabled = False, fw_Debounce = 2 * second, fw_PeriodicVerifyInterval = 5 * minute,
        fw_Timeout = 3 * second, fw_MaxFileBytes = 1024 * 1024, fw_MaxDirectoryEntries = 256, fw_Targets = []\<rparr>,
      cf_Audit = \<lparr>ad_Enabled = False, ad_Mode = ''observe_only'', ad_ManageRules = False\<rparr>,
      cf_Rules = defaultRules,
      cf_Notify = \<lparr>nt_Enabled = False, nt_DryRun = True,
        nt_Receivers = [\<lparr>nr_ID = ''local-webhook'', nr_DisplayName = ''Local webhook'', nr_Enabled = False,
          nr_Type = ''webhook'', nr_URLEnv = ''POOLY_WEBHOOK_URL'', nr_Timeout = 5 * second,
          nr_Events = [''opened'', ''escalated'', ''resolved''],
          nr_Severities = [''warning'', ''failure'', ''critical''], nr_AllowInsecureLocal = False\<rparr>]\<rparr>,
      cf_Notification = \<lparr>no_PaidReceiversEnabledByDefault = False\<rparr>,
      cf_Receivers = [\<lparr>rv_Name = ''local_file'', rv_Type = ''file'', rv_CostClass = ''free_core'', rv_Enabled = True,
        rv_WebhookEnv = [], rv_URLEnv = [], rv_TokenEnv = [], rv_APIKeyEnv = []\<rparr>],
      cf_Storage = \<lparr>st_StateDir = DefaultStateDir, st_LogDir = DefaultLogDir, st_DatabaseFile = ''state.db'',
        st_CurrentMetricsFile = ''metrics-current.json'', st_SQLite = \<lparr>sq_BusyTimeout = 5 * second, sq_WAL = True\<rparr>\<rparr>\<rparr>"

end
