(* ===== verification/Go_Net.thy ===== *)
theory Go_Net
  imports Go_Prelude
begin

text \<open>
  What the sources use of the package \<open>net\<close>: \<open>SplitHostPort\<close>, \<open>ParseIP\<close> for both families (the
  sixteen bytes of the address, an IPv4 address in its mapped form) and \<open>IP.IsLoopback\<close>.
\<close>

definition last_index :: "char \<Rightarrow> string \<Rightarrow> nat option" where
  "last_index c s =
     (if c \<in> set s then Some (length s - 1 - length (takeWhile (\<lambda>x. x \<noteq> c) (rev s))) else None)"

definition first_index :: "char \<Rightarrow> string \<Rightarrow> nat option" where
  "first_index c s = (if c \<in> set s then Some (length (takeWhile (\<lambda>x. x \<noteq> c) s)) else None)"

definition no_brackets :: "string \<Rightarrow> nat \<Rightarrow> nat \<Rightarrow> bool" where
  "no_brackets s j k \<longleftrightarrow> CHR ''['' \<notin> set (drop j s) \<and> CHR '']'' \<notin> set (drop k s)"

text \<open>Host and port, or nothing when \<open>SplitHostPort\<close> fails.\<close>

definition SplitHostPort :: "string \<Rightarrow> (string \<times> string) option" where
  "SplitHostPort s =
     (case last_index (CHR '':'') s of
        None \<Rightarrow> None
      | Some i \<Rightarrow>
          if prefix ''['' s then
            (case first_index (CHR '']'') s of
               None \<Rightarrow> None
             | Some e \<Rightarrow>
                 if e + 1 = i \<and> no_brackets s 1 (e + 1)
                 then Some (take (e - 1) (drop 1 s), drop (i + 1) s) else None)
          else if CHR '':'' \<in> set (take i s) then None
          else if no_brackets s 0 0 then Some (take i s, drop (i + 1) s) else None)"

subsection \<open>Addresses\<close>

definition net_digit :: "char \<Rightarrow> bool" where
  "net_digit c \<longleftrightarrow> 48 \<le> byte c \<and> byte c \<le> 57"

text \<open>One octet: one to three digits, no leading zero, at most 255.\<close>

definition octet :: "string \<Rightarrow> nat option" where
  "octet s =
     (let n = foldl (\<lambda>n c. 10 * n + (byte c - 48)) 0 s in
      if s = [] \<or> \<not> list_all net_digit s \<or> (1 < length s \<and> hd s = CHR ''0'') \<or> 255 < n then None else Some n)"

definition ipv4_fields :: "string \<Rightarrow> nat list option" where
  "ipv4_fields s =
     (case map octet (split_on (CHR ''.'') s) of
        [Some a, Some b, Some c, Some d] \<Rightarrow> Some [a, b, c, d]
      | _ \<Rightarrow> None)"

definition hex_value :: "char \<Rightarrow> nat option" where
  "hex_value c =
     (if 48 \<le> byte c \<and> byte c \<le> 57 then Some (byte c - 48)
      else if 97 \<le> byte c \<and> byte c \<le> 102 then Some (byte c - 87)
      else if 65 \<le> byte c \<and> byte c \<le> 70 then Some (byte c - 55) else None)"

definition hex_group :: "string \<Rightarrow> nat" where
  "hex_group s = foldl (\<lambda>n c. 16 * n + the (hex_value c)) 0 s"

text \<open>
  The groups of an IPv6 address: \<open>bytes\<close> are those read so far, \<open>ell\<close> the place of the \<open>::\<close>. Eight
  rounds are enough, every round but the last adds two bytes.
\<close>

fun ipv6_groups :: "nat \<Rightarrow> nat list \<Rightarrow> nat option \<Rightarrow> string \<Rightarrow> (nat list \<times> nat option \<times> string) option" where
  "ipv6_groups 0 bytes ell s = Some (bytes, ell, s)"
| "ipv6_groups (Suc n) bytes ell s =
     (let g = takeWhile (\<lambda>c. hex_value c \<noteq> None) s; t = drop (length g) s; i = length bytes in
      if g = [] \<or> 4 < length g then None
      else if prefix ''.'' t then
        (if (ell = None \<and> i \<noteq> 12) \<or> 16 < i + 4 then None
         else (case ipv4_fields s of None \<Rightarrow> None | Some f \<Rightarrow> Some (bytes @ f, ell, [])))
      else
        (let bytes1 = bytes @ [hex_group g div 256, hex_group g mod 256] in
         if t = [] then Some (bytes1, ell, [])
         else if hd t \<noteq> CHR '':'' \<or> tl t = [] then None
         else if hd (tl t) = CHR '':'' then
           (if ell \<noteq> None then None
            else if tl (tl t) = [] then Some (bytes1, Some (length bytes1), [])
            else ipv6_groups n bytes1 (Some (length bytes1)) (tl (tl t)))
         else ipv6_groups n bytes1 ell (tl t)))"

definition parse_ipv6 :: "string \<Rightarrow> nat list option" where
  "parse_ipv6 s =
     (let lead = prefix ''::'' s; t = (if lead then drop 2 s else s) in
      if lead \<and> t = [] then Some (replicate 16 0)
      else
        (case ipv6_groups 8 [] (if lead then Some 0 else None) t of
           None \<Rightarrow> None
         | Some (bytes, ell, left) \<Rightarrow>
             if left \<noteq> [] then None
             else (case ell of
                 None \<Rightarrow> if length bytes = 16 then Some bytes else None
               | Some e \<Rightarrow>
                   if length bytes = 16 then None
                   else Some (take e bytes @ replicate (16 - length bytes) 0 @ drop e bytes))))"

text \<open>\<open>ParseIP\<close>: the first dot, colon or percent sign decides; an address with a zone is refused.\<close>

definition ParseIP :: "string \<Rightarrow> nat list option" where
  "ParseIP s =
     (case dropWhile (\<lambda>c. c \<notin> set ''.:%'') s of
        [] \<Rightarrow> None
      | c # _ \<Rightarrow>
          if c = CHR ''.'' then map_option (\<lambda>f. replicate 10 0 @ [255, 255] @ f) (ipv4_fields s)
          else if c = CHR ''%'' \<or> CHR ''%'' \<in> set s then None
          else parse_ipv6 s)"

definition IsLoopback :: "nat list \<Rightarrow> bool" where
  "IsLoopback ip =
     (if take 12 ip = replicate 10 0 @ [255, 255] then ip ! 12 = 127
      else ip = replicate 15 0 @ [1])"

lemma ipv4_length: "ipv4_fields s = Some f \<Longrightarrow> length f = 4"
  by (auto simp: ipv4_fields_def split: list.splits option.splits)

text \<open>Every parsed address has sixteen bytes.\<close>

definition ell_inside :: "nat option \<Rightarrow> nat list \<Rightarrow> bool" where
  "ell_inside ell bytes \<longleftrightarrow> (case ell of None \<Rightarrow> True | Some i \<Rightarrow> i \<le> length bytes)"

lemma ipv6_groups_length:
  "ipv6_groups n bytes ell s = Some (b, e, left) \<Longrightarrow> length bytes + 2 * n \<le> 16 \<Longrightarrow>
   ell_inside ell bytes \<Longrightarrow> length b \<le> 16 \<and> ell_inside e b"
proof (induction n arbitrary: bytes ell s)
  case (Suc n)
  have longer: "ell_inside (Some (length xs)) xs" "ell_inside ell (bytes @ xs)" for xs
    using Suc.prems(3) by (auto simp: ell_inside_def split: option.splits)
  let ?g = "takeWhile (\<lambda>c. hex_value c \<noteq> None) s" let ?t = "drop (length ?g) s"
  let ?bytes = "bytes @ [hex_group ?g div 256, hex_group ?g mod 256]"
  have len: "length ?bytes + 2 * n \<le> 16" using Suc.prems(2) by simp
  from Suc.prems(1) consider
      f where "16 \<ge> length bytes + 4" "ipv4_fields s = Some f" "b = bytes @ f" "e = ell"
    | "b = ?bytes" "e = ell"
    | "b = ?bytes" "e = Some (length ?bytes)"
    | "ipv6_groups n ?bytes (Some (length ?bytes)) (tl (tl ?t)) = Some (b, e, left)"
    | "ipv6_groups n ?bytes ell (tl ?t) = Some (b, e, left)"
    by (simp only: ipv6_groups.simps Let_def split: if_splits option.splits) auto
  then show ?case
  proof cases
    case 1
    then show ?thesis by (simp only: longer) (simp add: ipv4_length)
  next
    case 4
    from Suc.IH [OF 4 len longer(1)] show ?thesis .
  next
    case 5
    from Suc.IH [OF 5 len longer(2)] show ?thesis .
  qed (use len longer in \<open>auto simp: ell_inside_def\<close>)
qed auto

lemma parse_ipv6_length: "parse_ipv6 s = Some ip \<Longrightarrow> length ip = 16"
  by (auto simp: ell_inside_def parse_ipv6_def Let_def split: if_splits option.splits dest!: ipv6_groups_length)

lemma ParseIP_length: "ParseIP s = Some ip \<Longrightarrow> length ip = 16"
  by (auto simp: ParseIP_def ipv4_length parse_ipv6_length split: list.splits if_splits)

text \<open>Loopback addresses, others, and texts that are none.\<close>

lemma ParseIP_examples:
  "map_option IsLoopback (ParseIP ''127.0.0.1'') = Some True" "map_option IsLoopback (ParseIP ''::1'') = Some True"
  "ParseIP ''127.0.0.01'' = None" "ParseIP ''1::2::3'' = None" "ParseIP ''fe80::1%eth0'' = None"
  by (code_simp, code_simp, code_simp, code_simp, code_simp)

lemma SplitHostPort_examples:
  "SplitHostPort ''127.0.0.1:9587'' = Some (''127.0.0.1'', ''9587'')"
  "SplitHostPort ''[::1]:80'' = Some (''::1'', ''80'')" "SplitHostPort ''::1:80'' = None"
  by (code_simp, code_simp, code_simp)

end
