(* ===== verification/Go_Glob.thy ===== *)
theory Go_Glob
  imports Go_Prelude
begin

text \<open>
  \<open>path.Match\<close>: shell patterns with \<open>*\<close>, \<open>?\<close>, character classes and escapes. The pattern is read
  chunk by chunk, a chunk being what stands between two stars; an ill-formed pattern is \<open>None\<close>.
\<close>

text \<open>The code point of a rune given by its bytes; a byte that is no rune reads as U+FFFD.\<close>

definition rune_value :: "string \<Rightarrow> nat" where
  "rune_value r =
     (case map byte r of
        [a] \<Rightarrow> if a < 128 then a else 65533
      | [a, b] \<Rightarrow> (a - 192) * 64 + (b - 128)
      | [a, b, c] \<Rightarrow> (a - 224) * 4096 + (b - 128) * 64 + (c - 128)
      | [a, b, c, d] \<Rightarrow> (a - 240) * 262144 + (b - 128) * 4096 + (c - 128) * 64 + (d - 128)
      | _ \<Rightarrow> 65533)"

definition first_rune :: "string \<Rightarrow> string" where
  "first_rune s = take (rune_len s) s"

definition invalid_rune :: "string \<Rightarrow> bool" where
  "invalid_rune r \<longleftrightarrow> (case r of [c] \<Rightarrow> \<not> ascii c | _ \<Rightarrow> False)"

definition getEsc :: "string \<Rightarrow> (nat \<times> string) option" where
  "getEsc chunk =
     (if chunk = [] \<or> hd chunk = CHR ''-'' \<or> hd chunk = CHR '']'' then None
      else
        (let c = (if hd chunk = CHR 0x5C then tl chunk else chunk); r = first_rune c; left = drop (rune_len c) c in
         if c = [] \<or> invalid_rune r \<or> left = [] then None else Some (rune_value r, left)))"

lemma getEsc_shorter: "getEsc chunk = Some (r, left) \<Longrightarrow> length left < length chunk"
proof -
  assume some: "getEsc chunk = Some (r, left)"
  let ?c = "if hd chunk = CHR 0x5C then tl chunk else chunk"
  from some have "left = drop (rune_len ?c) ?c" "?c \<noteq> []"
    by (auto simp: getEsc_def Let_def split: if_splits)
  with drop_shorter [OF rune_len_pos, of ?c] have "length left < length ?c" by metis
  also have "length ?c \<le> length chunk" by simp
  finally show ?thesis .
qed

function class_ranges :: "string \<Rightarrow> nat \<Rightarrow> bool \<Rightarrow> bool \<Rightarrow> (string \<times> bool) option" where
  "class_ranges chunk r first matched =
     (if prefix '']'' chunk \<and> \<not> first then Some (tl chunk, matched)
      else
        (case getEsc chunk of
           None \<Rightarrow> None
         | Some (lo, c1) \<Rightarrow>
             if hd c1 = CHR ''-'' then
               (case getEsc (tl c1) of
                  None \<Rightarrow> None
                | Some (hi, c2) \<Rightarrow> class_ranges c2 r False (matched \<or> (lo \<le> r \<and> r \<le> hi)))
             else class_ranges c1 r False (matched \<or> (lo \<le> r \<and> r \<le> lo))))"
  by pat_completeness auto
termination
proof (relation "measure (\<lambda>(chunk, r, first, matched). length chunk)", goal_cases)
  case (2 chunk r first matched p lo c1 q hi c2)
  then have "length c2 < length (tl c1)" "length c1 < length chunk" by (auto dest: getEsc_shorter)
  then show ?case by simp
next
  case (3 chunk r first matched p lo c1)
  then show ?case by (auto dest: getEsc_shorter)
qed simp

declare class_ranges.simps [simp del]

lemma class_ranges_shorter: "class_ranges chunk r first m = Some (c, k) \<Longrightarrow> length c \<le> length chunk"
proof (induction chunk r first m rule: class_ranges.induct)
  case (1 chunk r first matched)
  show ?case
  proof (cases "prefix '']'' chunk \<and> \<not> first")
    case True
    with "1.prems" show ?thesis by (auto simp: class_ranges.simps [of chunk])
  next
    case False
    with "1.prems" obtain lo c1 where lo: "getEsc chunk = Some (lo, c1)"
      by (auto simp: class_ranges.simps [of chunk] split: option.splits)
    show ?thesis
    proof (cases "hd c1 = CHR ''-''")
      case True
      with False lo "1.prems" obtain hi c2 where hi: "getEsc (tl c1) = Some (hi, c2)"
        by (auto simp: class_ranges.simps [of chunk] split: option.splits)
      from "1.prems" have "class_ranges c2 r False (matched \<or> (lo \<le> r \<and> r \<le> hi)) = Some (c, k)"
        by (simp only: class_ranges.simps [of chunk] if_not_P [OF False] lo hi if_P [OF True] option.case prod.case)
      from "1.IH"(1) [OF False lo refl True hi refl this] have "length c \<le> length c2" .
      with getEsc_shorter [OF lo] getEsc_shorter [OF hi] show ?thesis by simp
    next
      case other: False
      from "1.prems" have "class_ranges c1 r False (matched \<or> (lo \<le> r \<and> r \<le> lo)) = Some (c, k)"
        by (simp only: class_ranges.simps [of chunk] if_not_P [OF False] lo other option.case prod.case if_False)
      from "1.IH"(2) [OF False lo refl other this] have "length c \<le> length c1" .
      with getEsc_shorter [OF lo] show ?thesis by simp
    qed
  qed
qed

text \<open>Once a chunk has failed to match, the rest of it is only checked for its form.\<close>

function matchChunk :: "string \<Rightarrow> string \<Rightarrow> bool \<Rightarrow> (string \<times> bool) option" where
  "matchChunk chunk s failed0 =
     (if chunk = [] then Some (if failed0 then ([], False) else (s, True))
      else
        (let failed = (failed0 \<or> s = []); after = drop (rune_len s) s in
         if hd chunk = CHR ''['' then
           (let r = (if failed then 0 else rune_value (first_rune s));
                negated = prefix ''^'' (tl chunk);
                c = (if negated then tl (tl chunk) else tl chunk)
            in case class_ranges c r True False of
                 None \<Rightarrow> None
               | Some (c1, m) \<Rightarrow> matchChunk c1 (if failed then s else after) (failed \<or> m = negated))
         else if hd chunk = CHR ''?'' then
           matchChunk (tl chunk) (if failed then s else after) (failed \<or> hd s = CHR ''/'')
         else if hd chunk = CHR 0x5C then
           (if tl chunk = [] then None
            else matchChunk (tl (tl chunk)) (if failed then s else tl s) (failed \<or> hd (tl chunk) \<noteq> hd s))
         else matchChunk (tl chunk) (if failed then s else tl s) (failed \<or> hd chunk \<noteq> hd s)))"
  by pat_completeness auto
termination
proof (relation "measure (\<lambda>(chunk, s, failed). length chunk)", goal_cases)
  case (2 chunk s failed0 failed after r negated c p c1 m)
  then have "length c1 \<le> length c" by (auto dest: class_ranges_shorter)
  moreover from 2 have "length c < length chunk" by (cases chunk) auto
  ultimately show ?case by simp
qed auto

declare matchChunk.simps [simp del]

fun scan_length :: "bool \<Rightarrow> string \<Rightarrow> nat" where
  "scan_length inrange [] = 0"
| "scan_length inrange (c # cs) =
     (if c = CHR 0x5C then (case cs of [] \<Rightarrow> 1 | d # ds \<Rightarrow> 2 + scan_length inrange ds)
      else if c = CHR ''['' then 1 + scan_length True cs
      else if c = CHR '']'' then 1 + scan_length False cs
      else if c = CHR ''*'' \<and> \<not> inrange then 0
      else 1 + scan_length inrange cs)"

definition scanChunk :: "string \<Rightarrow> bool \<times> string \<times> string" where
  "scanChunk pattern =
     (let p = dropWhile (\<lambda>c. c = CHR ''*'') pattern; i = scan_length False p
      in (prefix ''*'' pattern, take i p, drop i p))"

lemma scanChunk_shorter: "pattern \<noteq> [] \<Longrightarrow> scanChunk pattern = (star, chunk, left) \<Longrightarrow> length left < length pattern"
proof -
  assume "pattern \<noteq> []" "scanChunk pattern = (star, chunk, left)"
  then obtain c cs where pat: "pattern = c # cs" and left: "left = drop (scan_length False (dropWhile (\<lambda>c. c = CHR ''*'') pattern)) (dropWhile (\<lambda>c. c = CHR ''*'') pattern)"
    by (cases pattern) (auto simp: scanChunk_def Let_def)
  show ?thesis
  proof (cases "c = CHR ''*''")
    case True
    have "length left \<le> length (dropWhile (\<lambda>c. c = CHR ''*'') cs)" using left pat True by simp
    also have "\<dots> \<le> length cs" by (rule length_dropWhile_le)
    finally show ?thesis using pat by simp
  next
    case False
    then have "0 < scan_length False pattern" by (simp add: pat split: list.split)
    with left pat False show ?thesis by simp
  qed
qed

fun star_skip :: "string \<Rightarrow> bool \<Rightarrow> string \<Rightarrow> string option option" where
  "star_skip chunk at_end [] = Some None"
| "star_skip chunk at_end (c # cs) =
     (if c = CHR ''/'' then Some None
      else
        (case matchChunk chunk cs False of
           None \<Rightarrow> None
         | Some (t, ok) \<Rightarrow> if ok \<and> \<not> (at_end \<and> t \<noteq> []) then Some (Some t) else star_skip chunk at_end cs))"

function rest_valid :: "string \<Rightarrow> bool" where
  "rest_valid pattern =
     (if pattern = [] then True
      else (case scanChunk pattern of (star, chunk, left) \<Rightarrow> matchChunk chunk [] False \<noteq> None \<and> rest_valid left))"
  by pat_completeness auto
termination
  by (relation "measure length") (auto dest: scanChunk_shorter [OF _ sym])

declare rest_valid.simps [simp del]

function Match_path :: "string \<Rightarrow> string \<Rightarrow> bool option" where
  "Match_path pattern name =
     (if pattern = [] then Some (name = [])
      else
        (case scanChunk pattern of
           (star, chunk, left) \<Rightarrow>
             if star \<and> chunk = [] then Some (CHR ''/'' \<notin> set name)
             else
               (case matchChunk chunk name False of
                  None \<Rightarrow> None
                | Some (t, ok) \<Rightarrow>
                    if ok \<and> (t = [] \<or> left \<noteq> []) then Match_path left t
                    else
                      (case (if star then star_skip chunk (left = []) name else Some None) of
                         None \<Rightarrow> None
                       | Some (Some u) \<Rightarrow> Match_path left u
                       | Some None \<Rightarrow> if rest_valid left then Some False else None))))"
  by pat_completeness auto
termination
  by (relation "measure (\<lambda>(pattern, name). length pattern)") (auto dest: scanChunk_shorter [OF _ sym])

declare Match_path.simps [simp del]

text \<open>A pattern without special characters matches exactly itself.\<close>

definition literal_char :: "char \<Rightarrow> bool" where
  "literal_char c \<longleftrightarrow> c \<noteq> CHR ''['' \<and> c \<noteq> CHR ''?'' \<and> c \<noteq> CHR 0x5C \<and> c \<noteq> CHR ''*''"

lemma matchChunk_failed: "list_all literal_char chunk \<Longrightarrow> matchChunk chunk s True = Some ([], False)"
  by (induction chunk arbitrary: s) (simp_all add: matchChunk.simps [of "_ # _"] matchChunk.simps [of "[]"] literal_char_def)

lemma matchChunk_literal:
  "list_all literal_char chunk \<Longrightarrow>
   matchChunk chunk s False = Some (if prefix chunk s then (drop (length chunk) s, True) else ([], False))"
proof (induction chunk arbitrary: s)
  case (Cons c chunk)
  then have c: "c \<noteq> CHR ''[''" "c \<noteq> CHR ''?''" "c \<noteq> CHR 0x5C" and chunk: "list_all literal_char chunk"
    by (auto simp: literal_char_def [of c])
  show ?case
  proof (cases s)
    case Nil
    with c chunk show ?thesis by (simp add: matchChunk.simps [of "_ # _"] matchChunk_failed)
  next
    case (Cons d s')
    with c chunk Cons.IH [OF chunk] show ?thesis
      by (cases "c = d") (simp_all add: matchChunk.simps [of "_ # _"] matchChunk_failed)
  qed
qed (simp add: matchChunk.simps)

lemma scan_literal: "list_all literal_char p \<Longrightarrow> scan_length False p = length p"
  by (induction p) (auto simp: literal_char_def)

lemma Match_path_literal:
  assumes "list_all literal_char p"
  shows "Match_path p name = Some (name = p)"
proof (cases p)
  case Nil
  then show ?thesis by (simp add: Match_path.simps)
next
  case (Cons c cs)
  with assms have drop: "dropWhile (\<lambda>c. c = CHR ''*'') p = p" "\<not> prefix ''*'' p" by (auto simp: literal_char_def)
  with assms have scan: "scanChunk p = (False, p, [])" by (simp add: scanChunk_def scan_literal)
  have "p \<noteq> []" by (simp add: Cons)
  with matchChunk_literal [OF assms, of name] show ?thesis
    by (auto simp: Match_path.simps [of p] Match_path.simps [of "[]"] rest_valid.simps [of "[]"] scan prefix_def)
qed

end
