(* ===== verification/Config_Validate.thy ===== *)
theory Config_Validate
  imports Config_Schema Go_Net Go_Glob Go_Path
begin

text \<open>
  \<open>internal/config/validate.go\<close>: every validator as the list of the errors it adds, composed in the
  order of the calls. A loop that remembers what it has seen is \<open>errors_seen\<close>, which threads the
  memory through the elements.
\<close>

subsection \<open>Errors\<close>

record ValidationError =
  ve_Field :: string
  ve_Message :: string

type_synonym ValidationErrors = "ValidationError list"

definition add :: "string \<Rightarrow> string \<Rightarrow> ValidationErrors" where
  "add field message = [\<lparr>ve_Field = field, ve_Message = message\<rparr>]"

text \<open>The errors a failed check adds.\<close>

definition error_if :: "bool \<Rightarrow> string \<Rightarrow> string \<Rightarrow> ValidationErrors" where
  "error_if b field message = (if b then add field message else [])"

definition validation_text :: "ValidationErrors \<Rightarrow> string" where
  "validation_text e =
     (if e = [] then ''configuration validation failed''
      else Redact (''configuration validation failed: '' @
        join_with ''; '' (map (\<lambda>x. ve_Field x @ '': '' @ ve_Message x) e)))"

definition at_index :: "string \<Rightarrow> nat \<Rightarrow> string" where
  "at_index field i = field @ ''['' @ Itoa (int i) @ '']''"

fun errors_seen :: "(nat \<Rightarrow> 's \<Rightarrow> 'a \<Rightarrow> ValidationErrors) \<Rightarrow> ('a \<Rightarrow> 's \<Rightarrow> 's) \<Rightarrow> nat \<Rightarrow> 's \<Rightarrow> 'a list \<Rightarrow> ValidationErrors" where
  "errors_seen body note i seen [] = []"
| "errors_seen body note i seen (x # xs) = body i seen x @ errors_seen body note (Suc i) (note x seen) xs"

definition errors_each :: "(nat \<Rightarrow> 'a \<Rightarrow> ValidationErrors) \<Rightarrow> 'a list \<Rightarrow> ValidationErrors" where
  "errors_each body xs = errors_seen (\<lambda>i seen. body i) (\<lambda>x seen. seen) 0 () xs"

text \<open>Remembering a key that is not empty.\<close>

definition note_key :: "string \<Rightarrow> string list \<Rightarrow> string list" where
  "note_key k seen = (if k = [] then seen else k # seen)"

subsection \<open>Patterns\<close>

definition alnum_char :: "char \<Rightarrow> bool" where
  "alnum_char c \<longleftrightarrow> (65 \<le> byte c \<and> byte c \<le> 90) \<or> (97 \<le> byte c \<and> byte c \<le> 122) \<or> (48 \<le> byte c \<and> byte c \<le> 57)"

definition whole :: "(char \<Rightarrow> bool) \<Rightarrow> string \<Rightarrow> bool" where
  "whole p s \<longleftrightarrow> s \<noteq> [] \<and> list_all p s"

definition safeIdentifierPattern :: "string \<Rightarrow> bool" where
  "safeIdentifierPattern = whole (\<lambda>c. alnum_char c \<or> c \<in> set ''_.-'')"

definition ruleTargetPattern :: "string \<Rightarrow> bool" where
  "ruleTargetPattern = whole (\<lambda>c. alnum_char c \<or> c \<in> set ''_.@:/-'')"

definition lower_or_digit :: "char \<Rightarrow> bool" where
  "lower_or_digit c \<longleftrightarrow> (97 \<le> byte c \<and> byte c \<le> 122) \<or> (48 \<le> byte c \<and> byte c \<le> 57) \<or> c = CHR ''_''"

definition ruleMetricPattern :: "string \<Rightarrow> bool" where
  "ruleMetricPattern s \<longleftrightarrow> prefix ''pooly_'' s \<and> whole lower_or_digit (drop 6 s)"

definition pressureMetricPattern :: "string \<Rightarrow> bool" where
  "pressureMetricPattern s \<longleftrightarrow>
     s \<in> set [''pooly_pressure_'' @ a @ ''_'' @ b @ ''_'' @ c.
              a \<leftarrow> [''cpu'', ''memory'', ''io''], b \<leftarrow> [''some'', ''full''],
              c \<leftarrow> [''avg10'', ''avg60'', ''avg300'', ''total_microseconds'']]"

definition unit_kinds :: "string list" where
  "unit_kinds =
     [''.service'', ''.socket'', ''.timer'', ''.target'', ''.mount'', ''.path'', ''.slice'', ''.scope'']"

definition unitNamePattern :: "string \<Rightarrow> bool" where
  "unitNamePattern s \<longleftrightarrow>
     list_ex (\<lambda>k. suffix k s \<and> whole (\<lambda>c. alnum_char c \<or> c \<in> set ''_.@:-'') (take (length s - length k) s)) unit_kinds"

definition envNamePattern :: "string \<Rightarrow> bool" where
  "envNamePattern s \<longleftrightarrow>
     s \<noteq> [] \<and> list_all (\<lambda>c. (65 \<le> byte c \<and> byte c \<le> 90) \<or> (48 \<le> byte c \<and> byte c \<le> 57) \<or> c = CHR ''_'') s \<and>
     \<not> (48 \<le> byte (hd s) \<and> byte (hd s) \<le> 57)"

definition knownRuleMetrics :: "string list" where
  "knownRuleMetrics =
   [''pooly_cpu_count'', ''pooly_cpu_iowait_ratio'', ''pooly_cpu_load1'', ''pooly_cpu_load15'',
    ''pooly_cpu_load15_per_cpu'', ''pooly_cpu_load1_per_cpu'', ''pooly_cpu_load5'', ''pooly_cpu_load5_per_cpu'',
    ''pooly_cpu_steal_ratio'', ''pooly_cpu_used_ratio'', ''pooly_disk_daily_read_bytes'',
    ''pooly_disk_daily_write_bytes'', ''pooly_disk_io_in_progress'', ''pooly_disk_io_time_seconds_total'',
    ''pooly_disk_read_bytes_total'', ''pooly_disk_read_time_seconds_total'', ''pooly_disk_reads_total'',
    ''pooly_disk_weighted_io_time_seconds_total'', ''pooly_disk_write_bytes_total'',
    ''pooly_disk_write_time_seconds_total'', ''pooly_disk_writes_total'', ''pooly_filesystem_available_bytes'',
    ''pooly_filesystem_free_bytes'', ''pooly_filesystem_inodes_free'', ''pooly_filesystem_inodes_total'',
    ''pooly_filesystem_inodes_used_ratio'', ''pooly_filesystem_readonly'', ''pooly_filesystem_size_bytes'',
    ''pooly_filesystem_used_bytes'', ''pooly_filesystem_used_ratio'', ''pooly_filewatch_manifest_complete'',
    ''pooly_filewatch_manifest_truncated'', ''pooly_filewatch_target_changed'', ''pooly_filewatch_target_exists'',
    ''pooly_filewatch_target_oversized'', ''pooly_filewatch_target_size_bytes'', ''pooly_filewatch_target_symlink'',
    ''pooly_journal_events_total'', ''pooly_journal_truncated'', ''pooly_memory_available_bytes'',
    ''pooly_memory_available_ratio'', ''pooly_memory_buffers_bytes'', ''pooly_memory_cached_bytes'',
    ''pooly_memory_dirty_bytes'', ''pooly_memory_free_bytes'', ''pooly_memory_kernel_stack_bytes'',
    ''pooly_memory_page_tables_bytes'', ''pooly_memory_slab_bytes'', ''pooly_memory_sreclaimable_bytes'',
    ''pooly_memory_sunreclaim_bytes'', ''pooly_memory_total_bytes'', ''pooly_memory_used_ratio'',
    ''pooly_memory_writeback_bytes'', ''pooly_network_daily_receive_bytes'', ''pooly_network_daily_transmit_bytes'',
    ''pooly_network_interface_carrier'', ''pooly_network_interface_mtu_bytes'', ''pooly_network_interface_up'',
    ''pooly_network_receive_bytes_total'', ''pooly_network_receive_dropped_total'',
    ''pooly_network_receive_errors_total'', ''pooly_network_receive_packets_total'',
    ''pooly_network_transmit_bytes_total'', ''pooly_network_transmit_dropped_total'',
    ''pooly_network_transmit_errors_total'', ''pooly_network_transmit_packets_total'',
    ''pooly_ssh_directive_expected_match'', ''pooly_ssh_expected_port_listening'',
    ''pooly_ssh_forbidden_port_listening'', ''pooly_swap_free_bytes'', ''pooly_swap_total_bytes'',
    ''pooly_swap_used_ratio'', ''pooly_system_boot_id_changed'', ''pooly_system_boot_time_timestamp_seconds'',
    ''pooly_system_uptime_seconds'', ''pooly_systemd_unit_activating'', ''pooly_systemd_unit_active'',
    ''pooly_systemd_unit_active_enter_monotonic_seconds'', ''pooly_systemd_unit_deactivating'',
    ''pooly_systemd_unit_exec_main_code'', ''pooly_systemd_unit_exec_main_status'', ''pooly_systemd_unit_failed'',
    ''pooly_systemd_unit_main_pid'', ''pooly_systemd_unit_present'', ''pooly_systemd_unit_restart_count'',
    ''pooly_tasks_runnable'', ''pooly_tasks_total'']"

subsection \<open>Single values\<close>

definition requireString :: "string \<Rightarrow> string \<Rightarrow> ValidationErrors" where
  "requireString field v = error_if (trim_space v = []) field ''is required''"

definition validateNoSecretLiteral :: "string \<Rightarrow> string \<Rightarrow> ValidationErrors" where
  "validateNoSecretLiteral field v =
     (if v = [] then [] else error_if (Redact v \<noteq> v) field ''must not contain a secret literal'')"

definition validateOneOf :: "string \<Rightarrow> string \<Rightarrow> string list \<Rightarrow> ValidationErrors" where
  "validateOneOf field v allowed =
     error_if (v \<notin> set allowed) field (''must be one of '' @ join_with '', '' allowed)"

definition validateDuration :: "string \<Rightarrow> duration \<Rightarrow> ValidationErrors" where
  "validateDuration field d = error_if (d \<le> 0) field ''must be greater than zero''"

definition validateDurationLimit :: "string \<Rightarrow> duration \<Rightarrow> duration \<Rightarrow> ValidationErrors" where
  "validateDurationLimit field d limit =
     (if d \<le> 0 then add field ''must be greater than zero''
      else error_if (limit < d) field (''must be '' @ duration_text limit @ '' or less''))"

definition validateNonNegativeDuration :: "string \<Rightarrow> duration \<Rightarrow> ValidationErrors" where
  "validateNonNegativeDuration field d = error_if (d < 0) field ''must not be negative''"

definition validateIntRange :: "string \<Rightarrow> int \<Rightarrow> int \<Rightarrow> int \<Rightarrow> ValidationErrors" where
  "validateIntRange field v lo hi =
     error_if (v < lo \<or> hi < v) field (''must be between '' @ Itoa lo @ '' and '' @ Itoa hi)"

definition validateInt64Range :: "string \<Rightarrow> int \<Rightarrow> int \<Rightarrow> int \<Rightarrow> ValidationErrors" where
  "validateInt64Range field v lo hi =
     error_if (v < lo \<or> hi < v) field (''must be between '' @ Itoa lo @ '' and '' @ Itoa hi)"

definition validateYesNo :: "string \<Rightarrow> string \<Rightarrow> ValidationErrors" where
  "validateYesNo field v = validateOneOf field v [''yes'', ''no'']"

definition validateAbsolutePath :: "string \<Rightarrow> string \<Rightarrow> ValidationErrors" where
  "validateAbsolutePath field v =
     requireString field v @
     error_if (v \<noteq> [] \<and> \<not> IsAbs v) field ''must be an absolute path'' @
     validateNoSecretLiteral field v"

definition validateFileName :: "string \<Rightarrow> string \<Rightarrow> ValidationErrors" where
  "validateFileName field v =
     requireString field v @
     (if v = [] then []
      else error_if (IsAbs v \<or> Base v \<noteq> v \<or> v = ''.'' \<or> v = ''..'') field ''must be a plain filename'' @
           validateNoSecretLiteral field v)"

definition validateUnitName :: "string \<Rightarrow> string \<Rightarrow> ValidationErrors" where
  "validateUnitName field v =
     (if v = [] then [] else error_if (\<not> unitNamePattern v) field ''must be a safe systemd unit name'')"

definition validateEnvField :: "string \<Rightarrow> string \<Rightarrow> ValidationErrors" where
  "validateEnvField field v =
     (if v = [] then []
      else error_if (\<not> envNamePattern v) field ''must name an environment variable, not contain a secret value'' @
           validateNoSecretLiteral field v)"

definition validateAPIBind :: "string \<Rightarrow> string \<Rightarrow> bool \<Rightarrow> ValidationErrors" where
  "validateAPIBind field bind allowNonLoopback =
     (case SplitHostPort bind of
        None \<Rightarrow> add field ''must be host:port''
      | Some (host, port) \<Rightarrow>
          error_if (port = []) field ''must include a port'' @
          (if host = ''localhost'' then []
           else (case ParseIP host of
                   None \<Rightarrow> add field ''host must be localhost or an IP address''
                 | Some ip \<Rightarrow>
                     error_if (\<not> IsLoopback ip \<and> \<not> allowNonLoopback) field
                       ''must bind to localhost or loopback unless api.allow_non_loopback is explicitly true'')))"

subsection \<open>Lists\<close>

definition validateStringListLimit :: "string \<Rightarrow> 'a list \<Rightarrow> nat \<Rightarrow> ValidationErrors" where
  "validateStringListLimit field vs limit =
     error_if (limit < length vs) field (''must contain no more than '' @ Itoa (int limit) @ '' entries'')"

definition validateDuplicateStrings :: "string \<Rightarrow> string list \<Rightarrow> ValidationErrors" where
  "validateDuplicateStrings field vs =
     errors_seen (\<lambda>i seen v. if v = [] then [] else error_if (v \<in> set seen) (at_index field i) ''duplicates another entry'')
       note_key 0 [] vs"

definition validateGlobList :: "string \<Rightarrow> string list \<Rightarrow> nat \<Rightarrow> ValidationErrors" where
  "validateGlobList field vs limit =
     validateStringListLimit field vs limit @
     errors_each (\<lambda>i v.
       requireString (at_index field i) v @
       (if v = [] then []
        else error_if (Match_path v ''candidate'' = None) (at_index field i) ''must be a valid glob pattern'' @
             validateNoSecretLiteral (at_index field i) v)) vs"

definition validatePorts :: "string \<Rightarrow> int list \<Rightarrow> ValidationErrors" where
  "validatePorts field ports =
     (if ports = [] then add field ''must include at least one port''
      else errors_each (\<lambda>i port. error_if (port < 1 \<or> 65535 < port) (at_index field i) ''must be between 1 and 65535'') ports)"

subsection \<open>Sections\<close>

definition validateScheduler :: "SchedulerConfig \<Rightarrow> ValidationErrors" where
  "validateScheduler cfg =
     validateDurationLimit ''agent.scheduler.interval'' (sd_Interval cfg) (24 * hour) @
     error_if (0 < sd_Interval cfg \<and> sd_Interval cfg < 10 * second) ''agent.scheduler.interval'' ''must be at least 10s'' @
     validateDurationLimit ''agent.scheduler.cycle_timeout'' (sd_CycleTimeout cfg) (23 * hour) @
     error_if (0 < sd_Interval cfg \<and> sd_Interval cfg \<le> sd_CycleTimeout cfg) ''agent.scheduler.cycle_timeout''
       ''must be less than agent.scheduler.interval'' @
     validateIntRange ''agent.scheduler.max_consecutive_failures'' (sd_MaxConsecutiveFailures cfg) 0 1000"

definition validateAPI :: "APIConfig \<Rightarrow> ValidationErrors" where
  "validateAPI cfg =
     (let listen = EffectiveAPIListen cfg in
      (if listen = [] then add ''api.listen'' ''is required''
       else validateAPIBind ''api.listen'' listen (api_AllowNonLoopback cfg)) @
      (if api_Bind cfg \<noteq> [] then validateAPIBind ''api.bind'' (api_Bind cfg) (api_AllowNonLoopback cfg) else []) @
      (if api_Listen cfg \<noteq> [] then validateAPIBind ''api.listen'' (api_Listen cfg) (api_AllowNonLoopback cfg) else []) @
      validateDurationLimit ''api.read_timeout'' (api_ReadTimeout cfg) (30 * second) @
      validateDurationLimit ''api.write_timeout'' (api_WriteTimeout cfg) (30 * second) @
      validateDurationLimit ''api.shutdown_timeout'' (api_ShutdownTimeout cfg) (30 * second))"

definition validateReports :: "ReportsConfig \<Rightarrow> ValidationErrors" where
  "validateReports cfg = validateIntRange ''reports.max_incidents'' (rep_MaxIncidents cfg) 1 1000"

text \<open>The paths are in a Go map: \<open>ord\<close> is the order in which the iteration visits the entries.\<close>

definition validateCommandPaths ::
    "((string \<times> string) list \<Rightarrow> (string \<times> string) list) \<Rightarrow> CommandPaths \<Rightarrow> ValidationErrors" where
  "validateCommandPaths ord paths =
     errors_each (\<lambda>i (field, v). validateAbsolutePath field v)
       (ord [(''commands.systemctl'', cmd_Systemctl paths), (''commands.journalctl'', cmd_Journalctl paths),
             (''commands.sshd'', cmd_SSHD paths), (''commands.ss'', cmd_SS paths), (''commands.ufw'', cmd_UFW paths),
             (''commands.visudo'', cmd_Visudo paths), (''commands.auditctl'', cmd_Auditctl paths),
             (''commands.ausearch'', cmd_Ausearch paths)])"

definition validateMount :: "nat \<Rightarrow> string list \<Rightarrow> string \<Rightarrow> ValidationErrors" where
  "validateMount i seen mount =
     (let field = at_index ''resources.filesystem.mounts'' i in
      requireString field mount @
      (if mount \<noteq> [] then
         error_if (\<not> IsAbs mount) field ''must be an absolute path'' @
         error_if (Clean mount \<in> set seen) field ''duplicates another mount after normalization''
       else []) @
      validateNoSecretLiteral field mount)"

definition note_path :: "string \<Rightarrow> string list \<Rightarrow> string list" where
  "note_path p seen = (if p = [] then seen else Clean p # seen)"

definition validateResources :: "ResourcesConfig \<Rightarrow> ValidationErrors" where
  "validateResources cfg =
     validateDuration ''resources.interval'' (rs_Interval cfg) @
     validateDuration ''resources.timeout'' (rs_Timeout cfg) @
     error_if (0 < rs_Interval cfg \<and> rs_Interval cfg \<le> rs_Timeout cfg) ''resources.timeout''
       ''must be less than resources.interval'' @
     validateStringListLimit ''resources.filesystem.mounts'' (fc_Mounts (rs_Filesystem cfg)) 64 @
     errors_seen validateMount note_path 0 [] (fc_Mounts (rs_Filesystem cfg)) @
     validateGlobList ''resources.diskio.exclude'' (dc_Exclude (rs_DiskIO cfg)) 64 @
     validateGlobList ''resources.network.include'' (nw_Include (rs_Network cfg)) 64 @
     validateGlobList ''resources.network.exclude'' (nw_Exclude (rs_Network cfg)) 64 @
     validateDuplicateStrings ''resources.network.include'' (nw_Include (rs_Network cfg)) @
     validateDuplicateStrings ''resources.network.exclude'' (nw_Exclude (rs_Network cfg))"

definition validateJournalStream :: "string \<Rightarrow> JournalStreamConfig \<Rightarrow> ValidationErrors" where
  "validateJournalStream pre cfg =
     validateDuration (pre @ ''.interval'') (js_Interval cfg) @
     validateDuration (pre @ ''.timeout'') (js_Timeout cfg) @
     error_if (0 < js_Interval cfg \<and> js_Interval cfg \<le> js_Timeout cfg) (pre @ ''.timeout'')
       (''must be less than '' @ pre @ ''.interval'') @
     validateIntRange (pre @ ''.max_records'') (js_MaxRecords cfg) 1 1000 @
     validateInt64Range (pre @ ''.max_bytes'') (js_MaxBytes cfg) 4096 (4 * 1024 * 1024) @
     validateIntRange (pre @ ''.max_field_bytes'') (js_MaxFieldBytes cfg) 64 4096"

definition validateTarget :: "nat \<Rightarrow> string list \<times> string list \<Rightarrow> FilewatchTargetConfig \<Rightarrow> ValidationErrors" where
  "validateTarget i seen target =
     (let pre = at_index ''filewatch.targets'' i in
      requireString (pre @ ''.name'') (ft_Name target) @
      requireString (pre @ ''.path'') (ft_Path target) @
      validateNoSecretLiteral (pre @ ''.name'') (ft_Name target) @
      validateNoSecretLiteral (pre @ ''.path'') (ft_Path target) @
      validateOneOf (pre @ ''.type'') (ft_Type target) [''file'', ''directory'', ''any''] @
      (if ft_Path target \<noteq> [] then
         error_if (\<not> IsAbs (ft_Path target)) (pre @ ''.path'') ''must be an absolute path'' @
         error_if (Clean (ft_Path target) \<in> set (fst seen)) (pre @ ''.path'')
           ''duplicates another target after normalization''
       else []) @
      (if ft_Name target \<noteq> [] then
         error_if (\<not> safeIdentifierPattern (ft_Name target)) (pre @ ''.name'')
           ''must contain only letters, numbers, dot, underscore, or dash'' @
         error_if (ft_Name target \<in> set (snd seen)) (pre @ ''.name'') ''duplicates another target name''
       else []) @
      error_if (ft_AllowPrivateKeyHash target \<and> \<not> ft_Hash target) (pre @ ''.allow_private_key_hash'')
        ''requires hash to be true'')"

definition note_watch :: "FilewatchTargetConfig \<Rightarrow> string list \<times> string list \<Rightarrow> string list \<times> string list" where
  "note_watch target seen = (note_path (ft_Path target) (fst seen), note_key (ft_Name target) (snd seen))"

definition validateFilewatch :: "FilewatchConfig \<Rightarrow> ValidationErrors" where
  "validateFilewatch cfg =
     error_if (0 < fw_PeriodicVerifyInterval cfg \<and> fw_PeriodicVerifyInterval cfg \<le> fw_Timeout cfg)
       ''filewatch.timeout'' ''must be less than filewatch.periodic_verify_interval'' @
     validateInt64Range ''filewatch.max_file_bytes'' (fw_MaxFileBytes cfg) 1 (128 * 1024 * 1024) @
     validateIntRange ''filewatch.max_directory_entries'' (fw_MaxDirectoryEntries cfg) 1 10000 @
     error_if (128 < length (fw_Targets cfg)) ''filewatch.targets'' ''must contain no more than 128 entries'' @
     errors_seen validateTarget note_watch 0 ([], []) (fw_Targets cfg)"

subsection \<open>Receivers\<close>

definition validateNotifyTimeout :: "string \<Rightarrow> duration \<Rightarrow> ValidationErrors" where
  "validateNotifyTimeout field d =
     (if d \<le> 0 then add field ''must be greater than zero''
      else error_if (30 * second < d) field ''must be 30s or less'')"

definition validateNotifyEvents :: "string \<Rightarrow> string list \<Rightarrow> ValidationErrors" where
  "validateNotifyEvents field events =
     validateStringListLimit field events 16 @
     errors_seen (\<lambda>i seen event.
       validateOneOf (at_index field i) event [''opened'', ''escalated'', ''resolved'', ''reopened''] @
       validateNoSecretLiteral (at_index field i) event @
       error_if (event \<in> set seen) (at_index field i) ''duplicates another event filter'') (#) 0 [] events"

definition validateNotifySeverities :: "string \<Rightarrow> string list \<Rightarrow> ValidationErrors" where
  "validateNotifySeverities field severities =
     validateStringListLimit field severities 16 @
     errors_seen (\<lambda>i seen severity.
       validateOneOf (at_index field i) severity [''warning'', ''failure'', ''critical'', ''none''] @
       validateNoSecretLiteral (at_index field i) severity @
       error_if (severity \<in> set seen) (at_index field i) ''duplicates another severity filter'') (#) 0 [] severities"

definition validateNotifyReceiver :: "nat \<Rightarrow> string list \<Rightarrow> NotifyReceiverConfig \<Rightarrow> ValidationErrors" where
  "validateNotifyReceiver i seen receiver =
     (let pre = at_index ''notify.receivers'' i in
      requireString (pre @ ''.id'') (nr_ID receiver) @
      requireString (pre @ ''.type'') (nr_Type receiver) @
      validateNoSecretLiteral (pre @ ''.id'') (nr_ID receiver) @
      validateNoSecretLiteral (pre @ ''.display_name'') (nr_DisplayName receiver) @
      (if nr_ID receiver \<noteq> [] then
         error_if (\<not> safeIdentifierPattern (nr_ID receiver)) (pre @ ''.id'')
           ''must contain only letters, numbers, dot, underscore, or dash'' @
         error_if (nr_ID receiver \<in> set seen) (pre @ ''.id'') ''duplicates another notification receiver id''
       else []) @
      error_if (80 < length (nr_DisplayName receiver)) (pre @ ''.display_name'') ''must be 80 bytes or shorter'' @
      validateOneOf (pre @ ''.type'') (nr_Type receiver) [''webhook'', ''noop''] @
      validateNotifyTimeout (pre @ ''.timeout'') (nr_Timeout receiver) @
      validateEnvField (pre @ ''.url_env'') (nr_URLEnv receiver) @
      error_if (nr_Type receiver = ''webhook'' \<and> nr_Enabled receiver \<and> nr_URLEnv receiver = []) (pre @ ''.url_env'')
        ''is required when an enabled webhook receiver is configured'' @
      validateNotifyEvents (pre @ ''.events'') (nr_Events receiver) @
      validateNotifySeverities (pre @ ''.severities'') (nr_Severities receiver))"

definition validateNotify :: "NotifyConfig \<Rightarrow> ValidationErrors" where
  "validateNotify cfg =
     error_if (32 < length (nt_Receivers cfg)) ''notify.receivers'' ''must contain no more than 32 entries'' @
     errors_seen validateNotifyReceiver (\<lambda>r. note_key (nr_ID r)) 0 [] (nt_Receivers cfg)"

definition wanted_cost_class :: "string \<Rightarrow> string option" where
  "wanted_cost_class =
     map_of [(''file'', ''free_core''), (''noop'', ''free_core''), (''discord'', ''free_external''),
             (''gotify'', ''free_self_hosted''), (''ntfy'', ''free_self_hosted''), (''pushover'', ''paid_external''),
             (''twilio_sms'', ''paid_external''), (''aws_sns_sms'', ''paid_external'')]"

definition validateReceiverCostClass :: "string \<Rightarrow> ReceiverConfig \<Rightarrow> ValidationErrors" where
  "validateReceiverCostClass pre receiver =
     (case wanted_cost_class (rv_Type receiver) of
        None \<Rightarrow> []
      | Some expected \<Rightarrow>
          error_if (rv_CostClass receiver \<noteq> expected) (pre @ ''.cost_class'')
            (''must be '' @ expected @ '' for receiver type '' @ rv_Type receiver))"

definition validateReceiver :: "nat \<Rightarrow> string list \<Rightarrow> ReceiverConfig \<Rightarrow> ValidationErrors" where
  "validateReceiver i seen receiver =
     (let pre = at_index ''receivers'' i in
      requireString (pre @ ''.name'') (rv_Name receiver) @
      requireString (pre @ ''.type'') (rv_Type receiver) @
      requireString (pre @ ''.cost_class'') (rv_CostClass receiver) @
      validateNoSecretLiteral (pre @ ''.name'') (rv_Name receiver) @
      (if rv_Name receiver \<noteq> [] then
         error_if (rv_Name receiver \<in> set seen) (pre @ ''.name'') ''must be unique'' else []) @
      validateOneOf (pre @ ''.type'') (rv_Type receiver)
        [''file'', ''discord'', ''gotify'', ''ntfy'', ''noop'', ''pushover'', ''twilio_sms'', ''aws_sns_sms''] @
      validateOneOf (pre @ ''.cost_class'') (rv_CostClass receiver)
        [''free_core'', ''free_self_hosted'', ''free_external'', ''paid_external''] @
      validateReceiverCostClass pre receiver @
      validateEnvField (pre @ ''.webhook_env'') (rv_WebhookEnv receiver) @
      validateEnvField (pre @ ''.url_env'') (rv_URLEnv receiver) @
      validateEnvField (pre @ ''.token_env'') (rv_TokenEnv receiver) @
      validateEnvField (pre @ ''.api_key_env'') (rv_APIKeyEnv receiver) @
      error_if (rv_Type receiver = ''discord'' \<and> rv_Enabled receiver \<and> rv_WebhookEnv receiver = []) (pre @ ''.webhook_env'')
        ''is required when an enabled Discord receiver is configured'' @
      error_if (rv_CostClass receiver = ''paid_external'' \<and> rv_Enabled receiver) (pre @ ''.enabled'')
        ''paid receivers must be disabled by default'')"

definition validateReceivers :: "ReceiverConfig list \<Rightarrow> ValidationErrors" where
  "validateReceivers receivers = errors_seen validateReceiver (\<lambda>r. note_key (rv_Name r)) 0 [] receivers"

subsection \<open>Rules\<close>

definition isKnownRuleMetric :: "string \<Rightarrow> bool" where
  "isKnownRuleMetric metric \<longleftrightarrow> metric \<in> set knownRuleMetrics \<or> pressureMetricPattern metric"

definition numericRuleValue :: "any_value \<Rightarrow> float64 option" where
  "numericRuleValue v =
     (case v of
        Any_Int n \<Rightarrow> Some (round64 (of_int n)) | Any_Int64 n \<Rightarrow> Some (round64 (of_int n))
      | Any_Float64 x \<Rightarrow> Some x | Any_Float32 x \<Rightarrow> Some x | _ \<Rightarrow> None)"

definition is_finite :: "float64 \<Rightarrow> bool" where
  "is_finite x \<longleftrightarrow> x \<noteq> NaN \<and> x \<noteq> PInf \<and> x \<noteq> NInf"

definition operator_names :: "string list" where
  "operator_names =
     [''greater_than'', ''greater_than_or_equal'', ''less_than'', ''less_than_or_equal'', ''equal'', ''not_equal'',
      ''boolean_true'', ''boolean_false'', ''state_match'', ''event_category_match'']"

definition requires_numeric :: "string \<Rightarrow> bool" where
  "requires_numeric operator \<longleftrightarrow>
     operator \<in> set [''greater_than'', ''greater_than_or_equal'', ''less_than'', ''less_than_or_equal'']"

definition requires_string :: "string \<Rightarrow> bool" where
  "requires_string operator \<longleftrightarrow> operator \<in> set [''state_match'', ''event_category_match'']"

definition validateThresholdValue :: "string \<Rightarrow> string \<Rightarrow> RuleThresholdConfig \<Rightarrow> ValidationErrors" where
  "validateThresholdValue field metric threshold =
     (if requires_numeric (tc_Operator threshold) then
        (case numericRuleValue (tc_Value threshold) of
           None \<Rightarrow> add field ''must be a finite number''
         | Some x \<Rightarrow>
             if \<not> is_finite x then add field ''must be a finite number''
             else
               error_if (contains_sub metric ''_ratio'' \<and> (fl_less x (Fin 0) \<or> fl_less (Fin 1) x)) field
                 ''ratio thresholds must be between 0 and 1'' @
               error_if (fl_less x (Fin 0) \<and> \<not> contains_sub metric ''temperature'') field
                 ''must not be negative for this metric'')
      else if requires_string (tc_Operator threshold) then
        (case tc_Value threshold of
           Any_String v \<Rightarrow>
             if trim_space v = [] then add field ''must be a non-empty string''
             else
               validateNoSecretLiteral field v @
               error_if (128 < length v \<or> \<not> ruleTargetPattern v) field ''must use only safe bounded characters''
         | _ \<Rightarrow> add field ''must be a non-empty string'')
      else if tc_Operator threshold = ''boolean_true'' \<or> tc_Operator threshold = ''boolean_false'' then []
      else
        (case tc_Value threshold of
           Any_Bool b \<Rightarrow> []
         | Any_String v \<Rightarrow>
             error_if (trim_space v = []) field ''must not be empty'' @ validateNoSecretLiteral field v
         | v \<Rightarrow>
             (case numericRuleValue v of
                None \<Rightarrow> add field ''must be a number, boolean, or string''
              | Some x \<Rightarrow> error_if (\<not> is_finite x) field ''must be finite'')))"

definition validateRuleThreshold :: "string \<Rightarrow> string \<Rightarrow> RuleThresholdConfig \<Rightarrow> ValidationErrors" where
  "validateRuleThreshold field metric threshold =
     validateOneOf (field @ ''.operator'') (tc_Operator threshold) operator_names @
     validateNonNegativeDuration (field @ ''.for'') (tc_For threshold) @
     validateThresholdValue (field @ ''.value'') metric threshold"

definition validateRulePolicy :: "string \<Rightarrow> string \<Rightarrow> ValidationErrors" where
  "validateRulePolicy field v =
     (if v = [] then []
      else validateOneOf field v [''ignore'', ''stale'', ''warn'', ''fail''] @ validateNoSecretLiteral field v)"

definition rule_labels :: "string list" where
  "rule_labels =
     [''collector'', ''cpu'', ''mount'', ''device'', ''interface'', ''pressure_type'', ''window'', ''unit'', ''stream'',
      ''directive'', ''port'', ''watch'', ''event_category'']"

definition validateRuleLabels :: "string \<Rightarrow> (string \<times> string) list \<Rightarrow> ValidationErrors" where
  "validateRuleLabels field labels =
     error_if (16 < length labels) field ''must contain no more than 16 labels'' @
     errors_each (\<lambda>i (key, v).
       error_if (key \<notin> set rule_labels) (field @ ''.'' @ key) ''is not an allowlisted rule label'' @
       error_if (trim_space v = []) (field @ ''.'' @ key) ''must not be empty'' @
       error_if (128 < length v \<or> contains_any v [CHR 0x0A, CHR 0x0D, CHR 0x09]) (field @ ''.'' @ key)
         ''must be bounded and single-line'' @
       validateNoSecretLiteral (field @ ''.'' @ key) v) labels"

definition collector_names :: "string list" where
  "collector_names =
     [''resources'', ''cpu'', ''load'', ''memory'', ''pressure'', ''filesystem'', ''diskio'', ''network'', ''uptime'',
      ''systemd'', ''journal'', ''ssh'', ''ssh_effective_config'', ''ssh_listeners'', ''filewatch'']"

definition identifier_error :: string where
  "identifier_error = ''must contain only letters, numbers, dot, underscore, or dash''"

definition validateThresholdOption :: "string \<Rightarrow> string \<Rightarrow> RuleThresholdConfig option \<Rightarrow> ValidationErrors" where
  "validateThresholdOption field metric t =
     (case t of None \<Rightarrow> [] | Some threshold \<Rightarrow> validateRuleThreshold field metric threshold)"

definition validateRuleMetric :: "string \<Rightarrow> RuleConfig \<Rightarrow> ValidationErrors" where
  "validateRuleMetric pre rule =
     error_if (rc_Metric rule = [] \<and> rc_EventCategory rule = []) (pre @ ''.metric'') ''metric or event_category is required'' @
     (if rc_Metric rule \<noteq> [] then
        (if \<not> ruleMetricPattern (rc_Metric rule) then add (pre @ ''.metric'') ''must be a supported pooly_ metric name''
         else error_if (\<not> isKnownRuleMetric (rc_Metric rule)) (pre @ ''.metric'') ''is not emitted by the implemented collectors'') @
        validateNoSecretLiteral (pre @ ''.metric'') (rc_Metric rule)
      else []) @
     (if rc_EventCategory rule \<noteq> [] then
        error_if (\<not> safeIdentifierPattern (rc_EventCategory rule)) (pre @ ''.event_category'') identifier_error @
        validateNoSecretLiteral (pre @ ''.event_category'') (rc_EventCategory rule)
      else [])"

definition validateRuleTarget :: "string \<Rightarrow> RuleConfig \<Rightarrow> ValidationErrors" where
  "validateRuleTarget pre rule =
     (if rc_Target rule \<noteq> [] \<and> rc_Target rule \<noteq> ''any'' then
        error_if (128 < length (rc_Target rule)) (pre @ ''.target'') ''must be 128 bytes or shorter'' @
        error_if (\<not> ruleTargetPattern (rc_Target rule)) (pre @ ''.target'') ''must use only safe target characters'' @
        validateNoSecretLiteral (pre @ ''.target'') (rc_Target rule)
      else [])"

definition validateRule :: "nat \<Rightarrow> string list \<Rightarrow> RuleConfig \<Rightarrow> ValidationErrors" where
  "validateRule i seen rule =
     (let pre = at_index ''rules'' i in
      requireString (pre @ ''.id'') (rc_ID rule) @
      validateNoSecretLiteral (pre @ ''.id'') (rc_ID rule) @
      (if rc_ID rule \<noteq> [] then
         error_if (\<not> safeIdentifierPattern (rc_ID rule)) (pre @ ''.id'') identifier_error @
         error_if (rc_ID rule \<in> set seen) (pre @ ''.id'') ''duplicates another rule id''
       else []) @
      requireString (pre @ ''.collector'') (rc_Collector rule) @
      validateOneOf (pre @ ''.collector'') (rc_Collector rule) collector_names @
      validateNoSecretLiteral (pre @ ''.collector'') (rc_Collector rule) @
      validateRuleMetric pre rule @
      validateRuleTarget pre rule @
      validateNonNegativeDuration (pre @ ''.recover_for'') (rc_RecoverFor rule) @
      validateNoSecretLiteral (pre @ ''.summary'') (rc_Summary rule) @
      error_if (240 < length (rc_Summary rule)) (pre @ ''.summary'') ''must be 240 bytes or shorter'' @
      validateRuleLabels (pre @ ''.labels'') (rc_Labels rule) @
      validateThresholdOption (pre @ ''.warn'') (rc_Metric rule) (rc_Warn rule) @
      validateThresholdOption (pre @ ''.fail'') (rc_Metric rule) (rc_Fail rule) @
      validateThresholdOption (pre @ ''.critical'') (rc_Metric rule) (rc_Critical rule) @
      error_if (rc_Warn rule = None \<and> rc_Fail rule = None \<and> rc_Critical rule = None) pre
        ''at least one warn, fail, or critical threshold is required'' @
      validateRulePolicy (pre @ ''.missing_data'') (rc_MissingData rule) @
      validateRulePolicy (pre @ ''.stale_data'') (rc_StaleData rule))"

definition validateRules :: "RuleConfig list \<Rightarrow> ValidationErrors" where
  "validateRules rules =
     error_if (128 < length rules) ''rules'' ''must contain no more than 128 entries'' @
     errors_seen validateRule (\<lambda>r. note_key (rc_ID r)) 0 [] rules"

subsection \<open>The whole configuration\<close>

definition validateVersion :: "string \<Rightarrow> ValidationErrors" where
  "validateVersion v =
     (if v = [] then add ''version'' ''is required''
      else error_if (v \<noteq> CurrentConfigVersion) ''version''
        (''must match supported configuration version '' @ CurrentConfigVersion))"

definition validateNode :: "NodeConfig \<Rightarrow> ValidationErrors" where
  "validateNode n =
     requireString ''node.id'' (nc_ID n) @ requireString ''node.name'' (nc_Name n) @
     requireString ''node.hostname'' (nc_Hostname n) @ requireString ''node.region'' (nc_Region n) @
     requireString ''node.role'' (nc_Role n) @ requireString ''node.environment'' (nc_Environment n) @
     requireString ''node.ring'' (nc_Ring n) @
     validateNoSecretLiteral ''node.id'' (nc_ID n) @ validateNoSecretLiteral ''node.name'' (nc_Name n) @
     validateNoSecretLiteral ''node.hostname'' (nc_Hostname n) @ validateNoSecretLiteral ''node.region'' (nc_Region n) @
     validateNoSecretLiteral ''node.role'' (nc_Role n) @ validateNoSecretLiteral ''node.environment'' (nc_Environment n) @
     validateNoSecretLiteral ''node.ring'' (nc_Ring n)"

definition validateSystemd :: "SystemdConfig \<Rightarrow> ValidationErrors" where
  "validateSystemd cfg =
     validateDuration ''systemd.interval'' (sy_Interval cfg) @
     validateDuration ''systemd.timeout'' (sy_Timeout cfg) @
     validateDuration ''systemd.watchdog_interval'' (sy_WatchdogInterval cfg) @
     error_if (0 < sy_Interval cfg \<and> sy_Interval cfg \<le> sy_Timeout cfg) ''systemd.timeout'' ''must be less than systemd.interval'' @
     error_if (5 * minute < sy_WatchdogInterval cfg) ''systemd.watchdog_interval'' ''must be 5m or less'' @
     validateStringListLimit ''systemd.critical_services'' (sy_CriticalServices cfg) 64 @
     errors_each (\<lambda>i service.
       let field = at_index ''systemd.critical_services'' i in
       requireString field service @ validateUnitName field service @ validateNoSecretLiteral field service)
       (sy_CriticalServices cfg) @
     validateDuplicateStrings ''systemd.critical_services'' (sy_CriticalServices cfg)"

definition validateSSH :: "SSHConfig \<Rightarrow> ValidationErrors" where
  "validateSSH cfg =
     (let e = sh_Expected cfg in
      validateDuration ''ssh.interval'' (sh_Interval cfg) @
      validateDuration ''ssh.timeout'' (sh_Timeout cfg) @
      error_if (0 < sh_Interval cfg \<and> sh_Interval cfg \<le> sh_Timeout cfg) ''ssh.timeout'' ''must be less than ssh.interval'' @
      validatePorts ''ssh.expected.ports'' (se_Ports e) @
      validatePorts ''ssh.expected.forbidden_ports'' (se_ForbiddenPorts e) @
      validateYesNo ''ssh.expected.permitrootlogin'' (se_PermitRootLogin e) @
      validateYesNo ''ssh.expected.passwordauthentication'' (se_PasswordAuthentication e) @
      validateYesNo ''ssh.expected.kbdinteractiveauthentication'' (se_KbdInteractiveAuthentication e) @
      validateYesNo ''ssh.expected.permitemptypasswords'' (se_PermitEmptyPasswords e) @
      validateYesNo ''ssh.expected.pubkeyauthentication'' (se_PubkeyAuthentication e) @
      validateYesNo ''ssh.expected.strictmodes'' (se_StrictModes e) @
      validateYesNo ''ssh.expected.permituserenvironment'' (se_PermitUserEnvironment e))"

definition validateStorage :: "StorageConfig \<Rightarrow> ValidationErrors" where
  "validateStorage cfg =
     validateAbsolutePath ''storage.state_dir'' (st_StateDir cfg) @
     validateAbsolutePath ''storage.log_dir'' (st_LogDir cfg) @
     validateFileName ''storage.database_file'' (st_DatabaseFile cfg) @
     validateFileName ''storage.current_metrics_file'' (st_CurrentMetricsFile cfg) @
     validateDuration ''storage.sqlite.busy_timeout'' (sq_BusyTimeout (st_SQLite cfg))"

text \<open>No error is the empty list.\<close>

definition Validate ::
    "((string \<times> string) list \<Rightarrow> (string \<times> string) list) \<Rightarrow> Config \<Rightarrow> ValidationErrors" where
  "Validate ord c =
     validateVersion (cf_Version c) @
     validateNode (cf_Node c) @
     validateScheduler (ac_Scheduler (cf_Agent c)) @
     validateAPI (cf_API c) @
     validateReports (cf_Reports c) @
     validateOneOf ''logging.format'' (lg_Format (cf_Logging c)) [''text'', ''json''] @
     validateOneOf ''logging.level'' (lg_Level (cf_Logging c)) [''debug'', ''info'', ''warn'', ''error''] @
     validateCommandPaths ord (cf_Commands c) @
     validateResources (cf_Resources c) @
     validateSystemd (cf_Systemd c) @
     validateSSH (cf_SSH c) @
     validateJournalStream ''journal.auth'' (jc_Auth (cf_Journal c)) @
     validateJournalStream ''journal.services'' (jc_Services (cf_Journal c)) @
     validateJournalStream ''journal.kernel'' (jc_Kernel (cf_Journal c)) @
     validateDuration ''filewatch.debounce'' (fw_Debounce (cf_Filewatch c)) @
     validateDuration ''filewatch.periodic_verify_interval'' (fw_PeriodicVerifyInterval (cf_Filewatch c)) @
     validateDuration ''filewatch.timeout'' (fw_Timeout (cf_Filewatch c)) @
     validateFilewatch (cf_Filewatch c) @
     validateOneOf ''audit.mode'' (ad_Mode (cf_Audit c)) [''observe_only''] @
     error_if (ad_ManageRules (cf_Audit c)) ''audit.manage_rules'' ''must be false during alpha'' @
     validateRules (cf_Rules c) @
     validateNotify (cf_Notify c) @
     error_if (no_PaidReceiversEnabledByDefault (cf_Notification c))
       ''notification.paid_receivers_enabled_by_default'' ''must be false'' @
     validateReceivers (cf_Receivers c) @
     validateStorage (cf_Storage c)"

end
