(* ===== verification/Config_Load.thy ===== *)
theory Config_Load
  imports Config_Validate Notify
begin

text \<open>
  Loading a configuration, \<open>internal/config/loader.go\<close>, and what is built from it: the rules of the
  engine (\<open>internal/rules/config.go\<close>) and the options of the notifier
  (\<open>internal/notify/config.go\<close>). The YAML decoder, the file and the environment are parameters;
  \<open>url_parse\<close> is \<open>net/url.Parse\<close>: scheme, host with its port, and host name.
\<close>

subsection \<open>Loading\<close>

text \<open>
  \<open>decode bytes c\<close> fills \<open>c\<close> from the document or fails; \<open>read\<close> is the contents of the file. The
  contexts are asked through the world, as they may end at any moment.
\<close>

definition LoadBytes ::
    "(string \<Rightarrow> Config \<Rightarrow> go_error + Config) \<Rightarrow> ((string \<times> string) list \<Rightarrow> (string \<times> string) list) \<Rightarrow>
     ctx \<Rightarrow> string \<Rightarrow> (Config, 'd) op" where
  "LoadBytes decode ord ctx bytes =
     (if ctx = Nil_Context then fail (Text_Error ''config load context is nil'')
      else
        andThen (map_err redacted_error ctx_err) (\<lambda>_.
          if trim_space bytes = [] then fail (Text_Error ''config is empty'')
          else
            (case decode bytes Default of
               Inl e \<Rightarrow> fail (Wrap_Error ''decode config'' (redacted_error e))
             | Inr cfg \<Rightarrow>
                 andThen (map_err redacted_error ctx_err) (\<lambda>_.
                   if Validate ord cfg \<noteq> [] then fail (Text_Error (validation_text (Validate ord cfg)))
                   else ok cfg))))"

definition LoadFile ::
    "(string \<Rightarrow> go_error + string) \<Rightarrow> (string \<Rightarrow> Config \<Rightarrow> go_error + Config) \<Rightarrow>
     ((string \<times> string) list \<Rightarrow> (string \<times> string) list) \<Rightarrow> ctx \<Rightarrow> string \<Rightarrow> (Config, 'd) op" where
  "LoadFile read decode ord ctx path =
     (if ctx = Nil_Context then fail (Text_Error ''config load context is nil'')
      else
        andThen (map_err redacted_error ctx_err) (\<lambda>_.
          if path = [] then fail (Text_Error ''config path is required'')
          else
            (case read path of
               Inl e \<Rightarrow> fail (Wrap_Error ''read config'' (redacted_error e))
             | Inr bytes \<Rightarrow>
                 andThen (map_err redacted_error ctx_err) (\<lambda>_. LoadBytes decode ord ctx bytes))))"

subsection \<open>Rules\<close>

definition Operator_of :: "string \<Rightarrow> Operator" where
  "Operator_of s =
     (if s = ''greater_than'' then OpGreaterThan
      else if s = ''greater_than_or_equal'' then OpGreaterThanOrEqual
      else if s = ''less_than'' then OpLessThan
      else if s = ''less_than_or_equal'' then OpLessThanOrEqual
      else if s = ''equal'' then OpEqual
      else if s = ''not_equal'' then OpNotEqual
      else if s = ''boolean_true'' then OpBooleanTrue
      else if s = ''boolean_false'' then OpBooleanFalse
      else if s = ''state_match'' then OpStateMatch
      else if s = ''event_category_match'' then OpEventCategoryMatch
      else Operator_Other s)"

definition Policy_of :: "string \<Rightarrow> Policy" where
  "Policy_of s =
     (if s = ''ignore'' then PolicyIgnore
      else if s = ''stale'' then PolicyStale
      else if s = ''warn'' then PolicyWarn
      else if s = ''fail'' then PolicyFail
      else Policy_Other s)"

definition policyOrDefault :: "string \<Rightarrow> Policy \<Rightarrow> Policy" where
  "policyOrDefault v fallback = (if v = [] then fallback else Policy_of v)"

definition number_value :: "float64 \<Rightarrow> string \<Rightarrow> Value" where
  "number_value x s = \<lparr>v_Number = x, v_String = s, v_Bool = False, v_Kind = ''number''\<rparr>"

definition valueFromConfig :: "any_value \<Rightarrow> go_error + Value" where
  "valueFromConfig v =
     (case v of
        Any_Nil \<Rightarrow> Inr \<lparr>v_Number = Fin 0, v_String = [], v_Bool = False, v_Kind = []\<rparr>
      | Any_Int n \<Rightarrow> Inr (number_value (round64 (of_int n)) [])
      | Any_Int64 n \<Rightarrow> Inr (number_value (round64 (of_int n)) [])
      | Any_Float64 x \<Rightarrow> Inr (number_value x [])
      | Any_Float32 x \<Rightarrow> Inr (number_value x [])
      | Any_Bool b \<Rightarrow> Inr \<lparr>v_Number = Fin 0, v_String = [], v_Bool = b, v_Kind = ''bool''\<rparr>
      | Any_String s \<Rightarrow>
          (let text = trim_space s in
           case ParseFloat text of
             Inr x \<Rightarrow> Inr (number_value x text)
           | Inl e \<Rightarrow> Inr \<lparr>v_Number = Fin 0, v_String = text, v_Bool = False, v_Kind = ''string''\<rparr>)
      | Any_Other type_name \<Rightarrow> Inl (Text_Error (''unsupported threshold value type '' @ type_name)))"

definition thresholdFromConfig :: "RuleThresholdConfig option \<Rightarrow> go_error + Threshold option" where
  "thresholdFromConfig cfg =
     (case cfg of
        None \<Rightarrow> Inr None
      | Some c \<Rightarrow>
          (case valueFromConfig (tc_Value c) of
             Inl e \<Rightarrow> Inl e
           | Inr v \<Rightarrow> Inr (Some \<lparr>th_Operator = Operator_of (tc_Operator c), th_Value = v, th_For = tc_For c\<rparr>)))"

definition ruleFromConfig :: "RuleConfig \<Rightarrow> go_error + Rule" where
  "ruleFromConfig item =
     (case thresholdFromConfig (rc_Warn item) of
        Inl e \<Rightarrow> Inl (Wrap_Error (''rule '' @ rc_ID item @ '' warn'') e)
      | Inr warn \<Rightarrow>
          (case thresholdFromConfig (rc_Fail item) of
             Inl e \<Rightarrow> Inl (Wrap_Error (''rule '' @ rc_ID item @ '' fail'') e)
           | Inr fl \<Rightarrow>
               (case thresholdFromConfig (rc_Critical item) of
                  Inl e \<Rightarrow> Inl (Wrap_Error (''rule '' @ rc_ID item @ '' critical'') e)
                | Inr critical \<Rightarrow>
                    Inr \<lparr>ru_ID = rc_ID item, ru_Enabled = rc_Enabled item, ru_Collector = rc_Collector item,
                         ru_Metric = rc_Metric item, ru_Target = rc_Target item,
                         ru_EventCategory = rc_EventCategory item, ru_Warn = warn, ru_Fail = fl,
                         ru_Critical = critical, ru_RecoverFor = rc_RecoverFor item,
                         ru_MissingData = policyOrDefault (rc_MissingData item) PolicyStale,
                         ru_StaleData = policyOrDefault (rc_StaleData item) PolicyStale,
                         ru_Summary = rc_Summary item, ru_Labels = map_of (rc_Labels item)\<rparr>)))"

fun rulesFrom :: "RuleConfig list \<Rightarrow> go_error + Rule list" where
  "rulesFrom [] = Inr []"
| "rulesFrom (item # items) =
     (case ruleFromConfig item of
        Inl e \<Rightarrow> Inl e
      | Inr rule \<Rightarrow> (case rulesFrom items of Inl e \<Rightarrow> Inl e | Inr rules \<Rightarrow> Inr (rule # rules)))"

definition FromConfig :: "Config \<Rightarrow> go_error + Rule list" where
  "FromConfig cfg = rulesFrom (cf_Rules cfg)"

subsection \<open>Notification options\<close>

record url =
  url_Scheme :: string
  url_Host :: string
  url_Hostname :: string

definition isLocalHost :: "string \<Rightarrow> bool" where
  "isLocalHost host \<longleftrightarrow>
     host = ''localhost'' \<or> (case ParseIP host of None \<Rightarrow> False | Some ip \<Rightarrow> IsLoopback ip)"

definition validateWebhookURL :: "(string \<Rightarrow> url option) \<Rightarrow> string \<Rightarrow> bool \<Rightarrow> go_error + string" where
  "validateWebhookURL url_parse rawURL allowInsecureLocal =
     (case url_parse rawURL of
        None \<Rightarrow> Inl (Text_Error ''could not be parsed'')
      | Some parsed \<Rightarrow>
          if trim_space (url_Host parsed) = [] then Inl (Text_Error ''host is required'')
          else if url_Scheme parsed \<noteq> ''https'' then
            (if url_Scheme parsed = ''http'' \<and> allowInsecureLocal \<and> isLocalHost (url_Hostname parsed) then Inr rawURL
             else Inl (Text_Error ''must use HTTPS unless local testing is explicitly allowed''))
          else Inr rawURL)"

definition notifyEvents :: "string list \<Rightarrow> string list" where
  "notifyEvents vs = (if vs = [] then [EventOpened, EventEscalated, EventResolved] else vs)"

definition notifySeverities :: "string list \<Rightarrow> string list" where
  "notifySeverities vs = (if vs = [] then [''warning'', ''failure'', ''critical''] else vs)"

record Options =
  no_Enabled :: bool
  no_DryRun :: bool
  no_Receivers :: "ReceiverSpec list"
  no_EvidenceRoot :: string

text \<open>The specification before the environment is asked for the address.\<close>

definition base_spec :: "NotifyReceiverConfig \<Rightarrow> ReceiverSpec" where
  "base_spec receiver =
     \<lparr>sp_ID = nr_ID receiver, sp_DisplayName = nr_DisplayName receiver, sp_Enabled = nr_Enabled receiver,
      sp_Type = nr_Type receiver, sp_URL = [], sp_URLConfigured = (nr_URLEnv receiver \<noteq> []),
      sp_Timeout = (if nr_Timeout receiver = 0 then 5 * second else nr_Timeout receiver),
      sp_Events = notifyEvents (nr_Events receiver), sp_Severities = notifySeverities (nr_Severities receiver),
      sp_AllowInsecureLocal = nr_AllowInsecureLocal receiver, sp_CostClass = ''free_core''\<rparr>"

definition receiver_spec ::
    "(string \<Rightarrow> url option) \<Rightarrow> (string \<Rightarrow> string option) \<Rightarrow> bool \<Rightarrow> NotifyReceiverConfig \<Rightarrow> go_error + ReceiverSpec" where
  "receiver_spec url_parse env dry_run receiver =
     (let spec = base_spec receiver in
      if sp_Type spec \<noteq> ''webhook'' then Inr spec
      else
        (let spec1 = spec\<lparr>sp_CostClass := ''free_external''\<rparr>;
             rawURL = (case env (nr_URLEnv receiver) of None \<Rightarrow> [] | Some v \<Rightarrow> v)
         in if nr_Enabled receiver \<and> \<not> dry_run \<and> env (nr_URLEnv receiver) = None
            then Inl (Text_Error (''notify receiver '' @ nr_ID receiver @ '' URL environment variable is not set''))
            else if rawURL = [] then Inr spec1
            else
              (case validateWebhookURL url_parse rawURL (nr_AllowInsecureLocal receiver) of
                 Inl e \<Rightarrow> Inl (Wrap_Error (''notify receiver '' @ nr_ID receiver @ '' URL is invalid'') e)
               | Inr parsed \<Rightarrow> Inr (spec1\<lparr>sp_URL := parsed\<rparr>))))"

fun receiver_specs ::
    "(string \<Rightarrow> url option) \<Rightarrow> (string \<Rightarrow> string option) \<Rightarrow> bool \<Rightarrow> NotifyReceiverConfig list \<Rightarrow>
     go_error + ReceiverSpec list" where
  "receiver_specs url_parse env dry_run [] = Inr []"
| "receiver_specs url_parse env dry_run (r # rs) =
     (case receiver_spec url_parse env dry_run r of
        Inl e \<Rightarrow> Inl e
      | Inr spec \<Rightarrow>
          (case receiver_specs url_parse env dry_run rs of Inl e \<Rightarrow> Inl e | Inr specs \<Rightarrow> Inr (spec # specs)))"

definition OptionsFromConfig ::
    "(string \<Rightarrow> url option) \<Rightarrow> (string \<Rightarrow> string option) \<Rightarrow> Config \<Rightarrow> go_error + Options" where
  "OptionsFromConfig url_parse env cfg =
     (case receiver_specs url_parse env (nt_DryRun (cf_Notify cfg)) (nt_Receivers (cf_Notify cfg)) of
        Inl e \<Rightarrow> Inl e
      | Inr specs \<Rightarrow>
          Inr \<lparr>no_Enabled = nt_Enabled (cf_Notify cfg), no_DryRun = nt_DryRun (cf_Notify cfg),
               no_Receivers = specs, no_EvidenceRoot = st_LogDir (cf_Storage cfg)\<rparr>)"

end
