(* ===== verification/Config_Laws.thy ===== *)
theory Config_Laws
  imports Config_Load
begin

text \<open>
  What an accepted configuration is: a predicate for every section, written without the messages and
  the order of the checks, and for every validator the lemma that it adds no error exactly if the
  predicate holds.
\<close>

named_theorems config_simps \<open>validators and their predicates\<close>

subsection \<open>Loops\<close>

lemma add_not_Nil [simp]: "add field m \<noteq> []"
  by (simp add: add_def)

lemma error_if_Nil [simp]: "error_if b field m = [] \<longleftrightarrow> \<not> b"
  by (simp add: error_if_def)

lemma errors_seen_plain:
  assumes "\<And>i seen x. body i seen x = [] \<longleftrightarrow> P x"
  shows "errors_seen body note i seen xs = [] \<longleftrightarrow> (\<forall>x\<in>set xs. P x)"
  by (induction xs arbitrary: i seen) (simp_all add: assms)

lemma errors_each_Nil:
  "(\<And>i x. body i x = [] \<longleftrightarrow> P x) \<Longrightarrow> errors_each body xs = [] \<longleftrightarrow> (\<forall>x\<in>set xs. P x)"
  by (simp add: errors_each_def errors_seen_plain)

text \<open>A loop that refuses a key it has seen accepts lists whose keys, where they count, are distinct.\<close>

lemma errors_seen_distinct:
  assumes body: "\<And>i seen x. body i seen x = [] \<longleftrightarrow> P x \<and> (c x \<longrightarrow> k x \<notin> set seen)"
    and noted: "\<And>x seen. set (note x seen) = (if c x then insert (k x) (set seen) else set seen)"
  shows "errors_seen body note i seen xs = [] \<longleftrightarrow>
    (\<forall>x\<in>set xs. P x) \<and> distinct (map k (filter c xs)) \<and> k ` set (filter c xs) \<inter> set seen = {}"
  by (induction xs arbitrary: i seen) (auto simp: body noted)

lemma errors_seen_distinct_pair:
  assumes body: "\<And>i seen x. body i seen x = [] \<longleftrightarrow>
      P x \<and> (c x \<longrightarrow> k x \<notin> set (fst seen)) \<and> (d x \<longrightarrow> l x \<notin> set (snd seen))"
    and noted: "\<And>x seen. set (fst (note x seen)) = (if c x then insert (k x) (set (fst seen)) else set (fst seen))"
      "\<And>x seen. set (snd (note x seen)) = (if d x then insert (l x) (set (snd seen)) else set (snd seen))"
  shows "errors_seen body note i seen xs = [] \<longleftrightarrow>
    (\<forall>x\<in>set xs. P x) \<and> distinct (map k (filter c xs)) \<and> k ` set (filter c xs) \<inter> set (fst seen) = {} \<and>
    distinct (map l (filter d xs)) \<and> l ` set (filter d xs) \<inter> set (snd seen) = {}"
  by (induction xs arbitrary: i seen) (auto simp: body noted)

lemma note_key_set: "set (note_key k seen) = (if k \<noteq> [] then insert k (set seen) else set seen)"
  by (simp add: note_key_def)

lemma note_path_set: "set (note_path p seen) = (if p \<noteq> [] then insert (Clean p) (set seen) else set seen)"
  by (simp add: note_path_def)

subsection \<open>Single values\<close>

definition present :: "string \<Rightarrow> bool" where
  "present v \<longleftrightarrow> trim_space v \<noteq> []"

definition clean_text :: "string \<Rightarrow> bool" where
  "clean_text v \<longleftrightarrow> Redact v = v"

lemma present_not_Nil: "present v \<Longrightarrow> v \<noteq> []"
  by (auto simp: present_def trim_space_def trim_left.simps [of "[]"] trim_rev.simps [of "[]"] space_prefix_def space_suffix_def)

lemma wide_space_bytes: "wide_space bs \<Longrightarrow> b \<in> set bs \<Longrightarrow> 128 \<le> b"
  by (auto simp: wide_space_def split: list.splits)

lemma suffix_space: "c \<in> set (take (space_suffix r) r) \<Longrightarrow> ascii_space c \<or> \<not> ascii c"
proof (cases r)
  case (Cons d ds)
  assume c: "c \<in> set (take (space_suffix r) r)"
  have wide: "\<not> ascii c" if "wide_space (map byte (rev (take n r)))" "c \<in> set (take n r)" for n
    using that wide_space_bytes [OF that(1), of "byte c"] by (auto simp: ascii_def)
  consider "space_suffix r = 1" "ascii_space d" | n where "space_suffix r = n" "wide_space (map byte (rev (take n r)))"
    | "space_suffix r = 0"
    unfolding space_suffix_def Cons by (simp only: list.case) metis
  then show ?thesis
    using c wide by cases (auto simp: Cons)
qed simp

lemma trim_rev_keeps: "c \<in> set r \<Longrightarrow> \<not> ascii_space c \<Longrightarrow> ascii c \<Longrightarrow> c \<in> set (trim_rev r)"
proof (induction r rule: trim_rev.induct)
  case (1 r)
  show ?case
  proof (cases "space_suffix r = 0")
    case False
    have "c \<notin> set (take (space_suffix r) r)" using suffix_space "1.prems" by blast
    then have "c \<in> set (drop (space_suffix r) r)" using "1.prems"(1) by (metis Un_iff append_take_drop_id set_append)
    from "1.IH" [OF False this "1.prems"(2,3)] False show ?thesis by (subst trim_rev.simps) simp
  next
    case True
    with "1.prems" show ?thesis by (subst trim_rev.simps) simp
  qed
qed

lemma present_char: "\<not> ascii_space c \<Longrightarrow> ascii c \<Longrightarrow> present (c # s)"
proof -
  assume c: "\<not> ascii_space c" "ascii c"
  have "\<not> wide_space (byte c # bs)" for bs
    using wide_space_bytes [of "byte c # bs" "byte c"] c by (auto simp: ascii_def)
  then have "space_prefix (c # s) = 0"
    using c by (simp add: space_prefix_def numeral_2_eq_2 numeral_3_eq_3)
  then have "trim_left (c # s) = c # s" by (subst trim_left.simps) simp
  with trim_rev_keeps [of c "rev (c # s)"] c show ?thesis by (auto simp: present_def trim_space_def)
qed

lemma present_types: "present ''webhook''" "present ''noop''"
  by (rule present_char; simp add: ascii_space_def ascii_def byte_def)+

lemma clean_Nil [simp]: "clean_text []"
  by (simp add: clean_text_def)

lemma requireString_Nil [config_simps]: "requireString f v = [] \<longleftrightarrow> present v"
  by (simp add: requireString_def present_def)

lemma noSecret_Nil [config_simps]: "validateNoSecretLiteral f v = [] \<longleftrightarrow> clean_text v"
  by (auto simp: validateNoSecretLiteral_def clean_text_def)

lemma oneOf_Nil [config_simps]: "validateOneOf f v allowed = [] \<longleftrightarrow> v \<in> set allowed"
  by (simp add: validateOneOf_def)

lemma duration_Nil [config_simps]: "validateDuration f d = [] \<longleftrightarrow> 0 < d"
  by (auto simp: validateDuration_def)

lemma durationLimit_Nil [config_simps]: "validateDurationLimit f d limit = [] \<longleftrightarrow> 0 < d \<and> d \<le> limit"
  by (auto simp: validateDurationLimit_def)

lemma nonNegative_Nil [config_simps]: "validateNonNegativeDuration f d = [] \<longleftrightarrow> 0 \<le> d"
  by (auto simp: validateNonNegativeDuration_def)

lemma intRange_Nil [config_simps]: "validateIntRange f v lo hi = [] \<longleftrightarrow> lo \<le> v \<and> v \<le> hi"
  by (auto simp: validateIntRange_def)

lemma int64Range_Nil [config_simps]: "validateInt64Range f v lo hi = [] \<longleftrightarrow> lo \<le> v \<and> v \<le> hi"
  by (auto simp: validateInt64Range_def)

lemma yesNo_Nil [config_simps]: "validateYesNo f v = [] \<longleftrightarrow> v = ''yes'' \<or> v = ''no''"
  by (simp add: validateYesNo_def config_simps)

lemma limit_Nil [config_simps]: "validateStringListLimit f vs n = [] \<longleftrightarrow> length vs \<le> n"
  by (simp add: validateStringListLimit_def not_less)

definition absolute_path :: "string \<Rightarrow> bool" where
  "absolute_path v \<longleftrightarrow> present v \<and> IsAbs v \<and> clean_text v"

lemma absolutePath_Nil [config_simps]: "validateAbsolutePath f v = [] \<longleftrightarrow> absolute_path v"
  by (auto simp: validateAbsolutePath_def absolute_path_def config_simps dest: present_not_Nil)

definition plain_filename :: "string \<Rightarrow> bool" where
  "plain_filename v \<longleftrightarrow> present v \<and> \<not> IsAbs v \<and> Base v = v \<and> v \<noteq> ''.'' \<and> v \<noteq> ''..'' \<and> clean_text v"

lemma fileName_Nil [config_simps]: "validateFileName f v = [] \<longleftrightarrow> plain_filename v"
  by (auto simp: validateFileName_def plain_filename_def config_simps dest: present_not_Nil)

definition env_field :: "string \<Rightarrow> bool" where
  "env_field v \<longleftrightarrow> v = [] \<or> (envNamePattern v \<and> clean_text v)"

lemma envField_Nil [config_simps]: "validateEnvField f v = [] \<longleftrightarrow> env_field v"
  by (auto simp: validateEnvField_def env_field_def config_simps)

definition safe_bind :: "bool \<Rightarrow> string \<Rightarrow> bool" where
  "safe_bind anywhere bind \<longleftrightarrow>
     (\<exists>host port. SplitHostPort bind = Some (host, port) \<and> port \<noteq> [] \<and>
       (host = ''localhost'' \<or> (\<exists>ip. ParseIP host = Some ip \<and> (IsLoopback ip \<or> anywhere))))"

lemma ParseIP_localhost: "ParseIP ''localhost'' = None"
  by (simp add: ParseIP_def)

lemma apiBind_Nil [config_simps]: "validateAPIBind f bind anywhere = [] \<longleftrightarrow> safe_bind anywhere bind"
  by (auto simp: validateAPIBind_def safe_bind_def split: option.splits)

definition port_list :: "int list \<Rightarrow> bool" where
  "port_list ports \<longleftrightarrow> ports \<noteq> [] \<and> (\<forall>p\<in>set ports. 1 \<le> p \<and> p \<le> 65535)"

lemma ports_Nil [config_simps]: "validatePorts f ports = [] \<longleftrightarrow> port_list ports"
proof -
  have "errors_each (\<lambda>i port. error_if (port < 1 \<or> 65535 < port) (at_index f i) m) ports = [] \<longleftrightarrow>
      (\<forall>p\<in>set ports. 1 \<le> p \<and> p \<le> 65535)" for m
    by (rule errors_each_Nil) auto
  then show ?thesis by (simp add: validatePorts_def port_list_def)
qed

definition glob_list :: "nat \<Rightarrow> string list \<Rightarrow> bool" where
  "glob_list n vs \<longleftrightarrow> length vs \<le> n \<and> (\<forall>v\<in>set vs. present v \<and> clean_text v \<and> Match_path v ''candidate'' \<noteq> None)"

lemma globList_Nil [config_simps]: "validateGlobList f vs n = [] \<longleftrightarrow> glob_list n vs"
  unfolding validateGlobList_def glob_list_def append_is_Nil_conv limit_Nil
  by (intro conj_cong refl errors_each_Nil) (auto simp: config_simps dest: present_not_Nil)

lemma duplicate_Nil [config_simps]:
  "validateDuplicateStrings f vs = [] \<longleftrightarrow> distinct (filter (\<lambda>v. v \<noteq> []) vs)"
proof -
  have "validateDuplicateStrings f vs = [] \<longleftrightarrow>
      (\<forall>x\<in>set vs. True) \<and> distinct (map (\<lambda>x. x) (filter (\<lambda>v. v \<noteq> []) vs)) \<and>
      (\<lambda>x. x) ` set (filter (\<lambda>v. v \<noteq> []) vs) \<inter> set [] = {}"
    unfolding validateDuplicateStrings_def
    by (rule errors_seen_distinct) (auto simp: note_key_set)
  then show ?thesis by simp
qed

subsection \<open>Sections\<close>

definition scheduler_ok :: "SchedulerConfig \<Rightarrow> bool" where
  "scheduler_ok cfg \<longleftrightarrow>
     10 * second \<le> sd_Interval cfg \<and> sd_Interval cfg \<le> 24 * hour \<and>
     0 < sd_CycleTimeout cfg \<and> sd_CycleTimeout cfg \<le> 23 * hour \<and> sd_CycleTimeout cfg < sd_Interval cfg \<and>
     0 \<le> sd_MaxConsecutiveFailures cfg \<and> sd_MaxConsecutiveFailures cfg \<le> 1000"

lemma scheduler_Nil [config_simps]: "validateScheduler cfg = [] \<longleftrightarrow> scheduler_ok cfg"
  by (auto simp: validateScheduler_def scheduler_ok_def config_simps second_def)

definition api_ok :: "APIConfig \<Rightarrow> bool" where
  "api_ok cfg \<longleftrightarrow>
     (api_Bind cfg \<noteq> [] \<or> api_Listen cfg \<noteq> []) \<and>
     (\<forall>a\<in>{api_Bind cfg, api_Listen cfg}. a \<noteq> [] \<longrightarrow> safe_bind (api_AllowNonLoopback cfg) a) \<and>
     (\<forall>d\<in>{api_ReadTimeout cfg, api_WriteTimeout cfg, api_ShutdownTimeout cfg}. 0 < d \<and> d \<le> 30 * second)"

lemma api_Nil [config_simps]: "validateAPI cfg = [] \<longleftrightarrow> api_ok cfg"
  by (auto simp: validateAPI_def api_ok_def config_simps EffectiveAPIListen_def Let_def)

definition node_ok :: "NodeConfig \<Rightarrow> bool" where
  "node_ok n \<longleftrightarrow>
     (\<forall>v\<in>{nc_ID n, nc_Name n, nc_Hostname n, nc_Region n, nc_Role n, nc_Environment n, nc_Ring n}.
        present v \<and> clean_text v)"

lemma node_Nil [config_simps]: "validateNode n = [] \<longleftrightarrow> node_ok n"
  by (auto simp: validateNode_def node_ok_def config_simps)

definition commands_ok :: "CommandPaths \<Rightarrow> bool" where
  "commands_ok p \<longleftrightarrow>
     (\<forall>v\<in>{cmd_Systemctl p, cmd_Journalctl p, cmd_SSHD p, cmd_SS p, cmd_UFW p, cmd_Visudo p, cmd_Auditctl p,
           cmd_Ausearch p}. absolute_path v)"

lemma commands_Nil:
  assumes "\<And>xs. set (ord xs) = set xs"
  shows "validateCommandPaths ord p = [] \<longleftrightarrow> commands_ok p"
proof -
  have "validateCommandPaths ord p = [] \<longleftrightarrow> (\<forall>(field, v)\<in>set (ord [(''commands.systemctl'', cmd_Systemctl p),
      (''commands.journalctl'', cmd_Journalctl p), (''commands.sshd'', cmd_SSHD p), (''commands.ss'', cmd_SS p),
      (''commands.ufw'', cmd_UFW p), (''commands.visudo'', cmd_Visudo p), (''commands.auditctl'', cmd_Auditctl p),
      (''commands.ausearch'', cmd_Ausearch p)]). absolute_path v)"
    unfolding validateCommandPaths_def by (rule errors_each_Nil) (auto simp: config_simps)
  then show ?thesis by (simp add: assms commands_ok_def)
qed

definition mounts_ok :: "string list \<Rightarrow> bool" where
  "mounts_ok ms \<longleftrightarrow> length ms \<le> 64 \<and> (\<forall>m\<in>set ms. absolute_path m) \<and> distinct (map Clean ms)"

lemma mounts_Nil:
  "errors_seen validateMount note_path 0 [] ms = [] \<longleftrightarrow> (\<forall>m\<in>set ms. absolute_path m) \<and> distinct (map Clean ms)"
proof -
  have "errors_seen validateMount note_path 0 [] ms = [] \<longleftrightarrow> (\<forall>m\<in>set ms. absolute_path m) \<and>
      distinct (map Clean (filter (\<lambda>m. m \<noteq> []) ms)) \<and> Clean ` set (filter (\<lambda>m. m \<noteq> []) ms) \<inter> set [] = {}"
    by (rule errors_seen_distinct)
      (auto simp: validateMount_def Let_def config_simps absolute_path_def note_path_set dest: present_not_Nil)
  moreover have "filter (\<lambda>m. m \<noteq> []) ms = ms" if "\<forall>m\<in>set ms. absolute_path m"
    using that by (auto simp: filter_id_conv absolute_path_def dest: present_not_Nil)
  ultimately show ?thesis by auto
qed

definition resources_ok :: "ResourcesConfig \<Rightarrow> bool" where
  "resources_ok cfg \<longleftrightarrow>
     0 < rs_Timeout cfg \<and> rs_Timeout cfg < rs_Interval cfg \<and> mounts_ok (fc_Mounts (rs_Filesystem cfg)) \<and>
     glob_list 64 (dc_Exclude (rs_DiskIO cfg)) \<and> glob_list 64 (nw_Include (rs_Network cfg)) \<and>
     glob_list 64 (nw_Exclude (rs_Network cfg)) \<and> distinct (nw_Include (rs_Network cfg)) \<and>
     distinct (nw_Exclude (rs_Network cfg))"

lemma glob_list_filter: "glob_list n vs \<Longrightarrow> filter (\<lambda>v. v \<noteq> []) vs = vs"
  by (auto simp: glob_list_def filter_id_conv dest: present_not_Nil)

lemma resources_Nil [config_simps]: "validateResources cfg = [] \<longleftrightarrow> resources_ok cfg"
  by (auto simp: validateResources_def resources_ok_def config_simps mounts_Nil mounts_ok_def glob_list_filter)

definition stream_ok :: "JournalStreamConfig \<Rightarrow> bool" where
  "stream_ok cfg \<longleftrightarrow>
     0 < js_Timeout cfg \<and> js_Timeout cfg < js_Interval cfg \<and> 1 \<le> js_MaxRecords cfg \<and> js_MaxRecords cfg \<le> 1000 \<and>
     4096 \<le> js_MaxBytes cfg \<and> js_MaxBytes cfg \<le> 4 * 1024 * 1024 \<and>
     64 \<le> js_MaxFieldBytes cfg \<and> js_MaxFieldBytes cfg \<le> 4096"

lemma stream_Nil [config_simps]: "validateJournalStream f cfg = [] \<longleftrightarrow> stream_ok cfg"
  by (auto simp: validateJournalStream_def stream_ok_def config_simps)

definition unit_ok :: "string \<Rightarrow> bool" where
  "unit_ok s \<longleftrightarrow> present s \<and> unitNamePattern s \<and> clean_text s"

definition systemd_ok :: "SystemdConfig \<Rightarrow> bool" where
  "systemd_ok cfg \<longleftrightarrow>
     0 < sy_Timeout cfg \<and> sy_Timeout cfg < sy_Interval cfg \<and>
     0 < sy_WatchdogInterval cfg \<and> sy_WatchdogInterval cfg \<le> 5 * minute \<and>
     length (sy_CriticalServices cfg) \<le> 64 \<and> (\<forall>s\<in>set (sy_CriticalServices cfg). unit_ok s) \<and>
     distinct (sy_CriticalServices cfg)"

lemma systemd_Nil [config_simps]: "validateSystemd cfg = [] \<longleftrightarrow> systemd_ok cfg"
proof -
  have units: "errors_each (\<lambda>i service. let field = at_index f i in
      requireString field service @ validateUnitName field service @ validateNoSecretLiteral field service) ss = [] \<longleftrightarrow>
      (\<forall>s\<in>set ss. unit_ok s)" for f ss
    by (rule errors_each_Nil)
      (auto simp: Let_def config_simps validateUnitName_def unit_ok_def dest: present_not_Nil)
  have "filter (\<lambda>v. v \<noteq> []) ss = ss" if "\<forall>s\<in>set ss. unit_ok s" for ss
    using that by (auto simp: filter_id_conv unit_ok_def dest: present_not_Nil)
  then show ?thesis
    by (auto simp: validateSystemd_def systemd_ok_def config_simps units)
qed

definition ssh_ok :: "SSHConfig \<Rightarrow> bool" where
  "ssh_ok cfg \<longleftrightarrow>
     0 < sh_Timeout cfg \<and> sh_Timeout cfg < sh_Interval cfg \<and>
     port_list (se_Ports (sh_Expected cfg)) \<and> port_list (se_ForbiddenPorts (sh_Expected cfg)) \<and>
     (\<forall>get\<in>{se_PermitRootLogin, se_PasswordAuthentication, se_KbdInteractiveAuthentication, se_PermitEmptyPasswords,
            se_PubkeyAuthentication, se_StrictModes, se_PermitUserEnvironment}.
        get (sh_Expected cfg) = ''yes'' \<or> get (sh_Expected cfg) = ''no'')"

lemma ssh_Nil [config_simps]: "validateSSH cfg = [] \<longleftrightarrow> ssh_ok cfg"
  by (auto simp: validateSSH_def ssh_ok_def config_simps Let_def)

definition storage_ok :: "StorageConfig \<Rightarrow> bool" where
  "storage_ok cfg \<longleftrightarrow> absolute_path (st_StateDir cfg) \<and> absolute_path (st_LogDir cfg) \<and>
     plain_filename (st_DatabaseFile cfg) \<and> plain_filename (st_CurrentMetricsFile cfg) \<and>
     0 < sq_BusyTimeout (st_SQLite cfg)"

lemma storage_Nil [config_simps]: "validateStorage cfg = [] \<longleftrightarrow> storage_ok cfg"
  by (simp add: validateStorage_def storage_ok_def config_simps)

definition target_ok :: "FilewatchTargetConfig \<Rightarrow> bool" where
  "target_ok t \<longleftrightarrow> present (ft_Name t) \<and> safeIdentifierPattern (ft_Name t) \<and> clean_text (ft_Name t) \<and>
     absolute_path (ft_Path t) \<and> ft_Type t \<in> {''file'', ''directory'', ''any''} \<and>
     (ft_AllowPrivateKeyHash t \<longrightarrow> ft_Hash t)"

definition filewatch_ok :: "FilewatchConfig \<Rightarrow> bool" where
  "filewatch_ok cfg \<longleftrightarrow>
     0 < fw_Debounce cfg \<and> 0 < fw_Timeout cfg \<and> fw_Timeout cfg < fw_PeriodicVerifyInterval cfg \<and>
     1 \<le> fw_MaxFileBytes cfg \<and> fw_MaxFileBytes cfg \<le> 128 * 1024 * 1024 \<and>
     1 \<le> fw_MaxDirectoryEntries cfg \<and> fw_MaxDirectoryEntries cfg \<le> 10000 \<and>
     length (fw_Targets cfg) \<le> 128 \<and> (\<forall>t\<in>set (fw_Targets cfg). target_ok t) \<and>
     distinct (map (\<lambda>t. Clean (ft_Path t)) (fw_Targets cfg)) \<and> distinct (map ft_Name (fw_Targets cfg))"

lemma targets_Nil:
  "errors_seen validateTarget note_watch 0 ([], []) ts = [] \<longleftrightarrow>
     (\<forall>t\<in>set ts. target_ok t) \<and> distinct (map (\<lambda>t. Clean (ft_Path t)) ts) \<and> distinct (map ft_Name ts)"
proof -
  let ?named = "\<lambda>t. ft_Name t \<noteq> []" and ?pathed = "\<lambda>t. ft_Path t \<noteq> []"
  have "errors_seen validateTarget note_watch 0 ([], []) ts = [] \<longleftrightarrow> (\<forall>t\<in>set ts. target_ok t) \<and>
      distinct (map (\<lambda>t. Clean (ft_Path t)) (filter ?pathed ts)) \<and>
      (\<lambda>t. Clean (ft_Path t)) ` set (filter ?pathed ts) \<inter> set (fst ([], [] :: string list)) = {} \<and>
      distinct (map ft_Name (filter ?named ts)) \<and>
      ft_Name ` set (filter ?named ts) \<inter> set (snd ([] :: string list, [])) = {}"
    by (rule errors_seen_distinct_pair)
      (auto simp: validateTarget_def Let_def config_simps target_ok_def absolute_path_def note_watch_def note_path_set
        note_key_set dest: present_not_Nil)
  moreover have "filter ?pathed ts = ts" "filter ?named ts = ts" if "\<forall>t\<in>set ts. target_ok t"
    using that by (auto simp: filter_id_conv target_ok_def absolute_path_def dest: present_not_Nil)
  ultimately show ?thesis by auto
qed

lemma filewatch_Nil [config_simps]:
  "validateDuration f (fw_Debounce cfg) = [] \<and> validateDuration g (fw_PeriodicVerifyInterval cfg) = [] \<and>
   validateDuration h (fw_Timeout cfg) = [] \<and> validateFilewatch cfg = [] \<longleftrightarrow> filewatch_ok cfg"
  by (auto simp: validateFilewatch_def filewatch_ok_def config_simps targets_Nil)

subsection \<open>Receivers\<close>

definition filter_ok :: "string list \<Rightarrow> string list \<Rightarrow> bool" where
  "filter_ok allowed vs \<longleftrightarrow> distinct vs \<and> set vs \<subseteq> set allowed \<and> length vs \<le> 16 \<and> (\<forall>v\<in>set vs. clean_text v)"

lemma filters_Nil:
  assumes "\<And>i seen x. body i seen x = [] \<longleftrightarrow> x \<in> set allowed \<and> clean_text x \<and> x \<notin> set seen"
  shows "validateStringListLimit f vs 16 @ errors_seen body (#) 0 [] vs = [] \<longleftrightarrow> filter_ok allowed vs"
proof -
  have "errors_seen body (#) 0 [] vs = [] \<longleftrightarrow> (\<forall>x\<in>set vs. x \<in> set allowed \<and> clean_text x) \<and>
      distinct (map (\<lambda>x. x) (filter (\<lambda>x. True) vs)) \<and> (\<lambda>x. x) ` set (filter (\<lambda>x. True) vs) \<inter> set [] = {}"
    by (rule errors_seen_distinct) (simp_all add: assms)
  then show ?thesis by (auto simp: filter_ok_def config_simps)
qed

lemma events_Nil [config_simps]:
  "validateNotifyEvents f vs = [] \<longleftrightarrow> filter_ok [''opened'', ''escalated'', ''resolved'', ''reopened''] vs"
  unfolding validateNotifyEvents_def by (rule filters_Nil) (simp add: config_simps)

lemma severities_Nil [config_simps]:
  "validateNotifySeverities f vs = [] \<longleftrightarrow> filter_ok [''warning'', ''failure'', ''critical'', ''none''] vs"
  unfolding validateNotifySeverities_def by (rule filters_Nil) (simp add: config_simps)

lemma notifyTimeout_Nil [config_simps]: "validateNotifyTimeout f d = [] \<longleftrightarrow> 0 < d \<and> d \<le> 30 * second"
  by (auto simp: validateNotifyTimeout_def)

definition notify_receiver_ok :: "NotifyReceiverConfig \<Rightarrow> bool" where
  "notify_receiver_ok r \<longleftrightarrow>
     present (nr_ID r) \<and> safeIdentifierPattern (nr_ID r) \<and> clean_text (nr_ID r) \<and> clean_text (nr_DisplayName r) \<and>
     length (nr_DisplayName r) \<le> 80 \<and> nr_Type r \<in> {''webhook'', ''noop''} \<and>
     0 < nr_Timeout r \<and> nr_Timeout r \<le> 30 * second \<and> env_field (nr_URLEnv r) \<and>
     (nr_Type r = ''webhook'' \<and> nr_Enabled r \<longrightarrow> nr_URLEnv r \<noteq> []) \<and>
     filter_ok [''opened'', ''escalated'', ''resolved'', ''reopened''] (nr_Events r) \<and>
     filter_ok [''warning'', ''failure'', ''critical'', ''none''] (nr_Severities r)"

definition notify_ok :: "NotifyConfig \<Rightarrow> bool" where
  "notify_ok cfg \<longleftrightarrow> length (nt_Receivers cfg) \<le> 32 \<and> (\<forall>r\<in>set (nt_Receivers cfg). notify_receiver_ok r) \<and>
     distinct (map nr_ID (nt_Receivers cfg))"

lemma notify_Nil [config_simps]: "validateNotify cfg = [] \<longleftrightarrow> notify_ok cfg"
proof -
  let ?rs = "nt_Receivers cfg"
  have "errors_seen validateNotifyReceiver (\<lambda>r. note_key (nr_ID r)) 0 [] ?rs = [] \<longleftrightarrow>
      (\<forall>r\<in>set ?rs. notify_receiver_ok r) \<and> distinct (map nr_ID (filter (\<lambda>r. nr_ID r \<noteq> []) ?rs)) \<and>
      nr_ID ` set (filter (\<lambda>r. nr_ID r \<noteq> []) ?rs) \<inter> set [] = {}"
    by (rule errors_seen_distinct)
      (auto simp: validateNotifyReceiver_def Let_def config_simps notify_receiver_ok_def note_key_set present_types
        dest: present_not_Nil)
  moreover have "filter (\<lambda>r. nr_ID r \<noteq> []) ?rs = ?rs" if "\<forall>r\<in>set ?rs. notify_receiver_ok r"
    using that by (auto simp: filter_id_conv notify_receiver_ok_def dest: present_not_Nil)
  ultimately show ?thesis by (auto simp: validateNotify_def notify_ok_def)
qed

definition receiver_ok :: "ReceiverConfig \<Rightarrow> bool" where
  "receiver_ok r \<longleftrightarrow>
     present (rv_Name r) \<and> clean_text (rv_Name r) \<and> wanted_cost_class (rv_Type r) = Some (rv_CostClass r) \<and>
     (\<forall>v\<in>{rv_WebhookEnv r, rv_URLEnv r, rv_TokenEnv r, rv_APIKeyEnv r}. env_field v) \<and>
     (rv_Type r = ''discord'' \<and> rv_Enabled r \<longrightarrow> rv_WebhookEnv r \<noteq> []) \<and>
     (rv_CostClass r = ''paid_external'' \<longrightarrow> \<not> rv_Enabled r)"

definition receivers_ok :: "ReceiverConfig list \<Rightarrow> bool" where
  "receivers_ok rs \<longleftrightarrow> (\<forall>r\<in>set rs. receiver_ok r) \<and> distinct (map rv_Name rs)"

lemma receiver_Nil: "validateReceiver i seen r = [] \<longleftrightarrow> receiver_ok r \<and> (rv_Name r \<noteq> [] \<longrightarrow> rv_Name r \<notin> set seen)"
proof -
  have types: "present (rv_Type r)" "present (rv_CostClass r)"
    if "wanted_cost_class (rv_Type r) = Some (rv_CostClass r)"
    using that by (auto simp: wanted_cost_class_def ascii_space_def ascii_def byte_def split: if_splits
        intro!: present_char dest!: sym [of _ "rv_CostClass r"])
  have known: "rv_Type r \<in> set [''file'', ''discord'', ''gotify'', ''ntfy'', ''noop'', ''pushover'', ''twilio_sms'', ''aws_sns_sms'']
      \<and> rv_CostClass r \<in> set [''free_core'', ''free_self_hosted'', ''free_external'', ''paid_external''] \<and>
      validateReceiverCostClass f r = [] \<longleftrightarrow> wanted_cost_class (rv_Type r) = Some (rv_CostClass r)" for f
    unfolding wanted_cost_class_def validateReceiverCostClass_def by auto
  show ?thesis
    unfolding validateReceiver_def Let_def append_is_Nil_conv oneOf_Nil
    using known [of "at_index ''receivers'' i"] types
    by (simp add: config_simps receiver_ok_def) (blast dest: present_not_Nil)
qed

lemma receivers_Nil [config_simps]: "validateReceivers rs = [] \<longleftrightarrow> receivers_ok rs"
proof -
  have "validateReceivers rs = [] \<longleftrightarrow> (\<forall>r\<in>set rs. receiver_ok r) \<and>
      distinct (map rv_Name (filter (\<lambda>r. rv_Name r \<noteq> []) rs)) \<and>
      rv_Name ` set (filter (\<lambda>r. rv_Name r \<noteq> []) rs) \<inter> set [] = {}"
    unfolding validateReceivers_def
    by (rule errors_seen_distinct) (auto simp: receiver_Nil note_key_set)
  moreover have "filter (\<lambda>r. rv_Name r \<noteq> []) rs = rs" if "\<forall>r\<in>set rs. receiver_ok r"
    using that by (auto simp: filter_id_conv receiver_ok_def dest: present_not_Nil)
  ultimately show ?thesis by (auto simp: receivers_ok_def)
qed

end
