(* ===== verification/Config_Properties.thy ===== *)
theory Config_Properties
  imports Config_Laws
begin

text \<open>
  The rules of an accepted configuration, the predicate for the whole of it, and what follows: the
  validator accepts exactly the well-formed configurations, in whatever order it visits its maps;
  the conversion of their rules cannot fail and gives rules the engine can judge; loading returns
  nothing else.
\<close>

subsection \<open>Rules\<close>

definition threshold_value_ok :: "string \<Rightarrow> RuleThresholdConfig \<Rightarrow> bool" where
  "threshold_value_ok metric t =
     (if requires_numeric (tc_Operator t) then
        (\<exists>x. numericRuleValue (tc_Value t) = Some x \<and> is_finite x \<and>
          (contains_sub metric ''_ratio'' \<longrightarrow> \<not> fl_less x (Fin 0) \<and> \<not> fl_less (Fin 1) x) \<and>
          (fl_less x (Fin 0) \<longrightarrow> contains_sub metric ''temperature''))
      else if requires_string (tc_Operator t) then
        (\<exists>v. tc_Value t = Any_String v \<and> present v \<and> clean_text v \<and> ruleTargetPattern v \<and> length v \<le> 128)
      else if tc_Operator t = ''boolean_true'' \<or> tc_Operator t = ''boolean_false'' then True
      else
        ((\<exists>b. tc_Value t = Any_Bool b) \<or> (\<exists>v. tc_Value t = Any_String v \<and> present v \<and> clean_text v) \<or>
         (\<exists>x. numericRuleValue (tc_Value t) = Some x \<and> is_finite x)))"

definition threshold_ok :: "string \<Rightarrow> RuleThresholdConfig \<Rightarrow> bool" where
  "threshold_ok metric t \<longleftrightarrow> tc_Operator t \<in> set operator_names \<and> 0 \<le> tc_For t \<and> threshold_value_ok metric t"

lemma thresholdValue_Nil: "validateThresholdValue f metric t = [] \<longleftrightarrow> threshold_value_ok metric t"
  unfolding validateThresholdValue_def threshold_value_ok_def
  by (auto simp: config_simps present_def numericRuleValue_def not_less split: option.splits any_value.splits)

lemma threshold_Nil [config_simps]: "validateRuleThreshold f metric t = [] \<longleftrightarrow> threshold_ok metric t"
  by (simp add: validateRuleThreshold_def threshold_ok_def config_simps thresholdValue_Nil)

lemma thresholdOption_Nil [config_simps]:
  "validateThresholdOption f metric t = [] \<longleftrightarrow> (\<forall>x. t = Some x \<longrightarrow> threshold_ok metric x)"
  by (auto simp: validateThresholdOption_def config_simps split: option.splits)

definition policy_ok :: "string \<Rightarrow> bool" where
  "policy_ok v \<longleftrightarrow> v = [] \<or> (v \<in> {''ignore'', ''stale'', ''warn'', ''fail''} \<and> clean_text v)"

lemma policy_Nil [config_simps]: "validateRulePolicy f v = [] \<longleftrightarrow> policy_ok v"
  by (auto simp: validateRulePolicy_def policy_ok_def config_simps)

definition label_ok :: "string \<times> string \<Rightarrow> bool" where
  "label_ok l \<longleftrightarrow> fst l \<in> set rule_labels \<and> present (snd l) \<and> length (snd l) \<le> 128 \<and>
     \<not> contains_any (snd l) [CHR 0x0A, CHR 0x0D, CHR 0x09] \<and> clean_text (snd l)"

lemma labels_Nil [config_simps]:
  "validateRuleLabels f ls = [] \<longleftrightarrow> length ls \<le> 16 \<and> (\<forall>l\<in>set ls. label_ok l)"
proof -
  have "errors_each (\<lambda>i (key, v).
       error_if (key \<notin> set rule_labels) (f @ ''.'' @ key) ''is not an allowlisted rule label'' @
       error_if (trim_space v = []) (f @ ''.'' @ key) ''must not be empty'' @
       error_if (128 < length v \<or> contains_any v [CHR 0x0A, CHR 0x0D, CHR 0x09]) (f @ ''.'' @ key)
         ''must be bounded and single-line'' @
       validateNoSecretLiteral (f @ ''.'' @ key) v) ls = [] \<longleftrightarrow> (\<forall>l\<in>set ls. label_ok l)"
    by (rule errors_each_Nil) (auto simp: label_ok_def config_simps present_def)
  then show ?thesis by (auto simp: validateRuleLabels_def)
qed

definition metric_ok :: "RuleConfig \<Rightarrow> bool" where
  "metric_ok r \<longleftrightarrow>
     (rc_Metric r \<noteq> [] \<or> rc_EventCategory r \<noteq> []) \<and>
     (rc_Metric r \<noteq> [] \<longrightarrow> ruleMetricPattern (rc_Metric r) \<and> isKnownRuleMetric (rc_Metric r) \<and> clean_text (rc_Metric r)) \<and>
     (rc_EventCategory r \<noteq> [] \<longrightarrow> safeIdentifierPattern (rc_EventCategory r) \<and> clean_text (rc_EventCategory r))"

lemma metric_Nil [config_simps]: "validateRuleMetric f r = [] \<longleftrightarrow> metric_ok r"
  by (auto simp: validateRuleMetric_def metric_ok_def config_simps)

definition rule_target_ok :: "string \<Rightarrow> bool" where
  "rule_target_ok t \<longleftrightarrow> t = [] \<or> t = ''any'' \<or> (length t \<le> 128 \<and> ruleTargetPattern t \<and> clean_text t)"

lemma target_Nil [config_simps]: "validateRuleTarget f r = [] \<longleftrightarrow> rule_target_ok (rc_Target r)"
  by (auto simp: validateRuleTarget_def rule_target_ok_def config_simps)

definition rule_ok :: "RuleConfig \<Rightarrow> bool" where
  "rule_ok r \<longleftrightarrow>
     present (rc_ID r) \<and> safeIdentifierPattern (rc_ID r) \<and> clean_text (rc_ID r) \<and>
     rc_Collector r \<in> set collector_names \<and> clean_text (rc_Collector r) \<and>
     metric_ok r \<and> rule_target_ok (rc_Target r) \<and> 0 \<le> rc_RecoverFor r \<and>
     clean_text (rc_Summary r) \<and> length (rc_Summary r) \<le> 240 \<and>
     length (rc_Labels r) \<le> 16 \<and> (\<forall>l\<in>set (rc_Labels r). label_ok l) \<and>
     (\<forall>t. rc_Warn r = Some t \<or> rc_Fail r = Some t \<or> rc_Critical r = Some t \<longrightarrow> threshold_ok (rc_Metric r) t) \<and>
     (rc_Warn r \<noteq> None \<or> rc_Fail r \<noteq> None \<or> rc_Critical r \<noteq> None) \<and>
     policy_ok (rc_MissingData r) \<and> policy_ok (rc_StaleData r)"

lemma present_collector: "c \<in> set collector_names \<Longrightarrow> present c"
  by (auto simp: collector_names_def ascii_space_def ascii_def byte_def intro!: present_char)

lemma rule_Nil: "validateRule i seen r = [] \<longleftrightarrow> rule_ok r \<and> (rc_ID r \<noteq> [] \<longrightarrow> rc_ID r \<notin> set seen)"
proof -
  have "validateRule i seen r = [] \<longleftrightarrow>
      present (rc_ID r) \<and> clean_text (rc_ID r) \<and> (rc_ID r \<noteq> [] \<longrightarrow> safeIdentifierPattern (rc_ID r) \<and> rc_ID r \<notin> set seen) \<and>
      present (rc_Collector r) \<and> rc_Collector r \<in> set collector_names \<and> clean_text (rc_Collector r) \<and>
      metric_ok r \<and> rule_target_ok (rc_Target r) \<and> 0 \<le> rc_RecoverFor r \<and>
      clean_text (rc_Summary r) \<and> length (rc_Summary r) \<le> 240 \<and>
      (length (rc_Labels r) \<le> 16 \<and> (\<forall>l\<in>set (rc_Labels r). label_ok l)) \<and>
      (\<forall>t. rc_Warn r = Some t \<longrightarrow> threshold_ok (rc_Metric r) t) \<and>
      (\<forall>t. rc_Fail r = Some t \<longrightarrow> threshold_ok (rc_Metric r) t) \<and>
      (\<forall>t. rc_Critical r = Some t \<longrightarrow> threshold_ok (rc_Metric r) t) \<and>
      \<not> (rc_Warn r = None \<and> rc_Fail r = None \<and> rc_Critical r = None) \<and>
      policy_ok (rc_MissingData r) \<and> policy_ok (rc_StaleData r)"
    unfolding validateRule_def Let_def append_is_Nil_conv config_simps error_if_Nil by (simp add: not_less)
  moreover have "present (rc_ID r) \<longleftrightarrow> present (rc_ID r) \<and> rc_ID r \<noteq> []" using present_not_Nil by blast
  moreover have "rc_Collector r \<in> set collector_names \<longleftrightarrow> present (rc_Collector r) \<and> rc_Collector r \<in> set collector_names"
    using present_collector by blast
  moreover have "(\<forall>t. rc_Warn r = Some t \<or> rc_Fail r = Some t \<or> rc_Critical r = Some t \<longrightarrow> threshold_ok (rc_Metric r) t) \<longleftrightarrow>
      (\<forall>t. rc_Warn r = Some t \<longrightarrow> threshold_ok (rc_Metric r) t) \<and>
      (\<forall>t. rc_Fail r = Some t \<longrightarrow> threshold_ok (rc_Metric r) t) \<and>
      (\<forall>t. rc_Critical r = Some t \<longrightarrow> threshold_ok (rc_Metric r) t)"
    by blast
  ultimately show ?thesis unfolding rule_ok_def by argo
qed

definition rules_ok :: "RuleConfig list \<Rightarrow> bool" where
  "rules_ok rs \<longleftrightarrow> length rs \<le> 128 \<and> (\<forall>r\<in>set rs. rule_ok r) \<and> distinct (map rc_ID rs)"

lemma rules_Nil [config_simps]: "validateRules rs = [] \<longleftrightarrow> rules_ok rs"
proof -
  have "errors_seen validateRule (\<lambda>r. note_key (rc_ID r)) 0 [] rs = [] \<longleftrightarrow> (\<forall>r\<in>set rs. rule_ok r) \<and>
      distinct (map rc_ID (filter (\<lambda>r. rc_ID r \<noteq> []) rs)) \<and> rc_ID ` set (filter (\<lambda>r. rc_ID r \<noteq> []) rs) \<inter> set [] = {}"
    by (rule errors_seen_distinct) (auto simp: rule_Nil note_key_set)
  moreover have "filter (\<lambda>r. rc_ID r \<noteq> []) rs = rs" if "\<forall>r\<in>set rs. rule_ok r"
    using that by (auto simp: filter_id_conv rule_ok_def dest: present_not_Nil)
  ultimately show ?thesis by (auto simp: validateRules_def rules_ok_def)
qed

subsection \<open>The whole configuration\<close>

definition well_formed :: "Config \<Rightarrow> bool" where
  "well_formed c \<longleftrightarrow>
     cf_Version c = CurrentConfigVersion \<and> node_ok (cf_Node c) \<and> scheduler_ok (ac_Scheduler (cf_Agent c)) \<and>
     api_ok (cf_API c) \<and> 1 \<le> rep_MaxIncidents (cf_Reports c) \<and> rep_MaxIncidents (cf_Reports c) \<le> 1000 \<and>
     lg_Format (cf_Logging c) \<in> {''text'', ''json''} \<and>
     lg_Level (cf_Logging c) \<in> {''debug'', ''info'', ''warn'', ''error''} \<and>
     commands_ok (cf_Commands c) \<and> resources_ok (cf_Resources c) \<and> systemd_ok (cf_Systemd c) \<and> ssh_ok (cf_SSH c) \<and>
     stream_ok (jc_Auth (cf_Journal c)) \<and> stream_ok (jc_Services (cf_Journal c)) \<and> stream_ok (jc_Kernel (cf_Journal c)) \<and>
     filewatch_ok (cf_Filewatch c) \<and> ad_Mode (cf_Audit c) = ''observe_only'' \<and> \<not> ad_ManageRules (cf_Audit c) \<and>
     rules_ok (cf_Rules c) \<and> notify_ok (cf_Notify c) \<and>
     \<not> no_PaidReceiversEnabledByDefault (cf_Notification c) \<and> receivers_ok (cf_Receivers c) \<and>
     storage_ok (cf_Storage c)"

lemma version_Nil: "validateVersion v = [] \<longleftrightarrow> v = CurrentConfigVersion"
  by (auto simp: validateVersion_def CurrentConfigVersion_def)

lemma validated:
  assumes "\<And>xs. set (ord xs) = set xs"
  shows "Validate ord c = [] \<longleftrightarrow> well_formed c"
proof -
  have reports: "validateReports r = [] \<longleftrightarrow> 1 \<le> rep_MaxIncidents r \<and> rep_MaxIncidents r \<le> 1000" for r
    by (simp add: validateReports_def config_simps)
  have filewatch: "validateDuration a (fw_Debounce cfg) = [] \<and> validateDuration b (fw_PeriodicVerifyInterval cfg) = [] \<and>
      validateDuration d (fw_Timeout cfg) = [] \<and> validateFilewatch cfg = [] \<and> P \<longleftrightarrow> filewatch_ok cfg \<and> P" for a b d cfg P
    using filewatch_Nil by blast
  show ?thesis
    unfolding Validate_def append_is_Nil_conv filewatch well_formed_def
    by (simp add: config_simps version_Nil reports commands_Nil [OF assms])
qed

subsection \<open>The rules the engine gets\<close>

definition typed_threshold :: "Threshold \<Rightarrow> bool" where
  "typed_threshold t \<longleftrightarrow>
     0 \<le> th_For t \<and>
     (case th_Operator t of
        Operator_Other s \<Rightarrow> False
      | OpBooleanTrue \<Rightarrow> True | OpBooleanFalse \<Rightarrow> True
      | OpStateMatch \<Rightarrow> v_String (th_Value t) \<noteq> [] \<and> Redact (v_String (th_Value t)) = v_String (th_Value t)
      | OpEventCategoryMatch \<Rightarrow> v_String (th_Value t) \<noteq> [] \<and> Redact (v_String (th_Value t)) = v_String (th_Value t)
      | OpEqual \<Rightarrow> v_Kind (th_Value t) \<in> {''number'', ''bool'', ''string''}
      | OpNotEqual \<Rightarrow> v_Kind (th_Value t) \<in> {''number'', ''bool'', ''string''}
      | _ \<Rightarrow> v_Kind (th_Value t) = ''number'' \<and> is_finite (v_Number (th_Value t)))"

definition typed_rule :: "Rule \<Rightarrow> bool" where
  "typed_rule r \<longleftrightarrow>
     ru_ID r \<noteq> [] \<and> Redact (ru_ID r) = ru_ID r \<and>
     (ru_Target r = ''any'' \<or> Redact (ru_Target r) = ru_Target r) \<and>
     (ru_Metric r \<noteq> [] \<or> ru_EventCategory r \<noteq> []) \<and> 0 \<le> ru_RecoverFor r \<and>
     (\<forall>t. ru_Warn r = Some t \<or> ru_Fail r = Some t \<or> ru_Critical r = Some t \<longrightarrow> typed_threshold t) \<and>
     (ru_Warn r \<noteq> None \<or> ru_Fail r \<noteq> None \<or> ru_Critical r \<noteq> None) \<and>
     (\<forall>p\<in>{ru_MissingData r, ru_StaleData r}. p \<in> {PolicyIgnore, PolicyStale, PolicyWarn, PolicyFail})"

text \<open>Trimming leaves a text of target characters alone.\<close>

lemma trim_target: "ruleTargetPattern v \<Longrightarrow> trim_space v = v"
proof -
  assume "ruleTargetPattern v"
  then have v: "v \<noteq> []" "list_all (\<lambda>c. ascii c \<and> \<not> ascii_space c) v"
    by (auto simp: ruleTargetPattern_def whole_def alnum_char_def ascii_def ascii_space_def byte_def list_all_iff)
  have wide: "\<not> wide_space (map byte bs)" if "bs \<noteq> []" "list_all ascii bs" for bs
    using that wide_space_bytes [of "map byte bs" "byte (hd bs)"] by (cases bs) (auto simp: ascii_def)
  have left: "space_prefix s = 0" "space_suffix s = 0" if "list_all (\<lambda>c. ascii c \<and> \<not> ascii_space c) s" for s
  proof -
    from that have "\<not> wide_space (map byte (take (Suc n) s))" "\<not> wide_space (map byte (rev (take (Suc n) s)))" if "s \<noteq> []" for n
      using that by (intro wide; auto simp: list_all_iff dest: in_set_takeD)+
    with that show "space_prefix s = 0" "space_suffix s = 0"
      by (auto simp: space_prefix_def space_suffix_def numeral_2_eq_2 numeral_3_eq_3 split: list.splits)
  qed
  have "trim_left v = v" by (subst trim_left.simps) (simp add: left v)
  moreover have "trim_rev (rev v) = rev v" by (subst trim_rev.simps) (simp add: left v list_all_rev)
  ultimately show ?thesis by (simp add: trim_space_def)
qed

lemma valueFromConfig_Some: "(\<forall>s. v \<noteq> Any_Other s) \<Longrightarrow> \<exists>x. valueFromConfig v = Inr x"
  by (cases v) (auto simp: valueFromConfig_def Let_def split: sum.splits)

lemma numeric_value: "numericRuleValue v = Some x \<Longrightarrow> valueFromConfig v = Inr (number_value x [])"
  by (cases v) (auto simp: numericRuleValue_def valueFromConfig_def)

lemma operator_typed: "s \<in> set operator_names \<Longrightarrow> Operator_of s \<noteq> Operator_Other t"
  by (auto simp: operator_names_def Operator_of_def)

lemma policy_typed: "policy_ok v \<Longrightarrow> policyOrDefault v PolicyStale \<in> {PolicyIgnore, PolicyStale, PolicyWarn, PolicyFail}"
  by (auto simp: policy_ok_def policyOrDefault_def Policy_of_def)

text \<open>A string threshold keeps its text, whether or not it reads as a number.\<close>

lemma string_value:
  "valueFromConfig (Any_String v) = Inr x \<Longrightarrow>
   v_String x = trim_space v \<and> (v_Kind x = ''number'' \<or> v_Kind x = ''string'')"
  by (auto simp: valueFromConfig_def Let_def number_value_def split: sum.splits)

text \<open>A boolean threshold whose value, which the engine ignores, is a list or another unknown type.\<close>

definition odd_value :: "RuleThresholdConfig \<Rightarrow> bool" where
  "odd_value t \<longleftrightarrow> tc_Operator t \<in> {''boolean_true'', ''boolean_false''} \<and> (\<exists>s. tc_Value t = Any_Other s)"

lemma threshold_typed:
  assumes "threshold_ok metric t" "\<not> odd_value t"
  shows "\<exists>x. thresholdFromConfig (Some t) = Inr (Some x) \<and> typed_threshold x"
proof -
  have ok: "tc_Operator t \<in> set operator_names" "0 \<le> tc_For t" "threshold_value_ok metric t"
    using assms(1) by (simp_all add: threshold_ok_def)
  have conv: "thresholdFromConfig (Some t) = Inr (Some \<lparr>th_Operator = Operator_of (tc_Operator t), th_Value = v, th_For = tc_For t\<rparr>)"
    if "valueFromConfig (tc_Value t) = Inr v" for v
    using that by (simp add: thresholdFromConfig_def)
  consider (numeric) "requires_numeric (tc_Operator t)" | (string) "requires_string (tc_Operator t)" "\<not> requires_numeric (tc_Operator t)"
    | (bool) "tc_Operator t = ''boolean_true'' \<or> tc_Operator t = ''boolean_false''"
    | (other) "tc_Operator t = ''equal'' \<or> tc_Operator t = ''not_equal''"
    using ok(1) by (auto simp: operator_names_def requires_numeric_def requires_string_def)
  then show ?thesis
  proof cases
    case numeric
    with ok(3) obtain x where x: "numericRuleValue (tc_Value t) = Some x" "is_finite x"
      by (auto simp: threshold_value_ok_def)
    show ?thesis using numeric ok(2) x(2)
      by (auto simp: conv [OF numeric_value [OF x(1)]] typed_threshold_def requires_numeric_def Operator_of_def number_value_def)
  next
    case string
    with ok(3) obtain v where v: "tc_Value t = Any_String v" "present v" "clean_text v" "ruleTargetPattern v"
      by (auto simp: threshold_value_ok_def)
    obtain x where x: "valueFromConfig (tc_Value t) = Inr x" using valueFromConfig_Some [of "tc_Value t"] v(1) by auto
    with string_value [of v x] v trim_target [OF v(4)] present_not_Nil [OF v(2)] have "v_String x = v" "v \<noteq> []" by simp_all
    then show ?thesis using string(1) ok(2) v(3)
      by (auto simp: conv [OF x] typed_threshold_def requires_string_def Operator_of_def clean_text_def)
  next
    case bool
    with assms(2) obtain v where v: "valueFromConfig (tc_Value t) = Inr v"
      using valueFromConfig_Some [of "tc_Value t"] by (auto simp: odd_value_def)
    show ?thesis using bool ok(2) by (auto simp: conv [OF v] typed_threshold_def Operator_of_def)
  next
    case other
    with ok(3) consider b where "tc_Value t = Any_Bool b" | v where "tc_Value t = Any_String v"
      | x where "numericRuleValue (tc_Value t) = Some x"
      by (auto simp: threshold_value_ok_def requires_numeric_def requires_string_def)
    then obtain v where v: "valueFromConfig (tc_Value t) = Inr v" "v_Kind v \<in> {''number'', ''bool'', ''string''}"
    proof cases
      case 1
      then show ?thesis by (intro that) (auto simp: valueFromConfig_def)
    next
      case (2 s)
      with valueFromConfig_Some [of "tc_Value t"] string_value [of s] show ?thesis by (auto intro: that)
    next
      case 3
      from numeric_value [OF this] show ?thesis by (intro that) (auto simp: number_value_def)
    qed
    show ?thesis using other ok(2) v(2) by (auto simp: conv [OF v(1)] typed_threshold_def Operator_of_def)
  qed
qed

lemma odd_threshold_fails: "odd_value t \<Longrightarrow> \<exists>e. thresholdFromConfig (Some t) = Inl e"
  by (auto simp: odd_value_def thresholdFromConfig_def valueFromConfig_def)

definition config_thresholds :: "RuleConfig \<Rightarrow> RuleThresholdConfig set" where
  "config_thresholds r = {t. rc_Warn r = Some t \<or> rc_Fail r = Some t \<or> rc_Critical r = Some t}"

lemma thresholdFromConfig_typed:
  assumes "\<And>x. t = Some x \<Longrightarrow> threshold_ok metric x" "\<forall>x. t = Some x \<longrightarrow> \<not> odd_value x"
  obtains y where "thresholdFromConfig t = Inr y" "\<forall>x. y = Some x \<longrightarrow> typed_threshold x" "y = None \<longleftrightarrow> t = None"
proof (cases t)
  case None
  then show ?thesis by (intro that [of None]) (simp_all add: thresholdFromConfig_def)
next
  case (Some x)
  with assms have "threshold_ok metric x" "\<not> odd_value x" by simp_all
  from threshold_typed [OF this] Some show ?thesis by (auto intro: that)
qed

lemma rule_typed:
  assumes "rule_ok r"
  shows "(if \<exists>t\<in>config_thresholds r. odd_value t then \<exists>e. ruleFromConfig r = Inl e
    else \<exists>x. ruleFromConfig r = Inr x \<and> typed_rule x \<and> ru_ID x = rc_ID r)"
proof -
  have ok: "\<And>t. rc_Warn r = Some t \<Longrightarrow> threshold_ok (rc_Metric r) t" "\<And>t. rc_Fail r = Some t \<Longrightarrow> threshold_ok (rc_Metric r) t"
      "\<And>t. rc_Critical r = Some t \<Longrightarrow> threshold_ok (rc_Metric r) t"
    using assms by (simp_all add: rule_ok_def)
  show ?thesis
  proof (cases "\<exists>t\<in>config_thresholds r. odd_value t")
    case True
    then consider x where "rc_Warn r = Some x" "odd_value x" | x where "rc_Fail r = Some x" "odd_value x"
      | x where "rc_Critical r = Some x" "odd_value x"
      by (auto simp: config_thresholds_def)
    then have "(\<exists>e. thresholdFromConfig (rc_Warn r) = Inl e) \<or> (\<exists>e. thresholdFromConfig (rc_Fail r) = Inl e) \<or>
        (\<exists>e. thresholdFromConfig (rc_Critical r) = Inl e)"
      by cases (auto dest: odd_threshold_fails)
    then have "\<exists>e. ruleFromConfig r = Inl e"
      by (elim disjE exE) (simp_all add: ruleFromConfig_def split: sum.split)
    with True show ?thesis by simp
  next
    case False
    then have none: "\<forall>x. rc_Warn r = Some x \<longrightarrow> \<not> odd_value x" "\<forall>x. rc_Fail r = Some x \<longrightarrow> \<not> odd_value x"
        "\<forall>x. rc_Critical r = Some x \<longrightarrow> \<not> odd_value x"
      by (auto simp: config_thresholds_def)
    obtain warn where w: "thresholdFromConfig (rc_Warn r) = Inr warn" "\<forall>x. warn = Some x \<longrightarrow> typed_threshold x"
        "warn = None \<longleftrightarrow> rc_Warn r = None"
      by (rule thresholdFromConfig_typed [OF ok(1) none(1)])
    obtain fl where f: "thresholdFromConfig (rc_Fail r) = Inr fl" "\<forall>x. fl = Some x \<longrightarrow> typed_threshold x"
        "fl = None \<longleftrightarrow> rc_Fail r = None"
      by (rule thresholdFromConfig_typed [OF ok(2) none(2)])
    obtain cr where c: "thresholdFromConfig (rc_Critical r) = Inr cr" "\<forall>x. cr = Some x \<longrightarrow> typed_threshold x"
        "cr = None \<longleftrightarrow> rc_Critical r = None"
      by (rule thresholdFromConfig_typed [OF ok(3) none(3)])
    have policies: "policyOrDefault (rc_MissingData r) PolicyStale \<in> {PolicyIgnore, PolicyStale, PolicyWarn, PolicyFail}"
        "policyOrDefault (rc_StaleData r) PolicyStale \<in> {PolicyIgnore, PolicyStale, PolicyWarn, PolicyFail}"
      using assms by (simp_all only: rule_ok_def policy_typed)
    have target: "rc_Target r = ''any'' \<or> Redact (rc_Target r) = rc_Target r"
      using assms by (auto simp: rule_ok_def rule_target_ok_def clean_text_def)
    have ident: "rc_ID r \<noteq> []" "Redact (rc_ID r) = rc_ID r" "rc_Metric r \<noteq> [] \<or> rc_EventCategory r \<noteq> []" "0 \<le> rc_RecoverFor r"
        "rc_Warn r \<noteq> None \<or> rc_Fail r \<noteq> None \<or> rc_Critical r \<noteq> None"
      using assms by (auto simp: rule_ok_def clean_text_def metric_ok_def dest: present_not_Nil)
    have some: "warn \<noteq> None \<or> fl \<noteq> None \<or> cr \<noteq> None" using ident(5) w(3) f(3) c(3) by argo
    from False w c f policies target ident some show ?thesis
      by (simp add: ruleFromConfig_def typed_rule_def del: not_None_eq)
  qed
qed

lemma rules_typed:
  assumes "\<forall>r\<in>set rs. rule_ok r"
  shows "(if \<exists>r\<in>set rs. \<exists>t\<in>config_thresholds r. odd_value t then \<exists>e. rulesFrom rs = Inl e
    else \<exists>xs. rulesFrom rs = Inr xs \<and> (\<forall>x\<in>set xs. typed_rule x) \<and> map ru_ID xs = map rc_ID rs)"
  using assms
proof (induction rs)
  case (Cons r rs)
  then have r: "rule_ok r" and rs: "\<forall>r\<in>set rs. rule_ok r" by simp_all
  show ?case using rule_typed [OF r] Cons.IH [OF rs] by (auto split: if_splits)
qed simp

lemma configured_rules:
  assumes "well_formed c"
  shows "if \<exists>r\<in>set (cf_Rules c). \<exists>t\<in>config_thresholds r. odd_value t then \<exists>e. FromConfig c = Inl e
    else \<exists>rules. FromConfig c = Inr rules \<and> (\<forall>r\<in>set rules. typed_rule r) \<and>
      map ru_ID rules = map rc_ID (cf_Rules c) \<and> distinct (map ru_ID rules)"
proof -
  have "\<forall>r\<in>set (cf_Rules c). rule_ok r" "distinct (map rc_ID (cf_Rules c))"
    using assms by (simp_all add: well_formed_def rules_ok_def)
  with rules_typed [of "cf_Rules c"] show ?thesis
    by (cases "\<exists>r\<in>set (cf_Rules c). \<exists>t\<in>config_thresholds r. odd_value t") (simp_all only: FromConfig_def if_True if_False, metis)
qed

subsection \<open>Receivers\<close>

text \<open>An address a webhook may have: HTTPS, or plain HTTP to this host where the receiver allows it.\<close>

definition safe_url :: "(string \<Rightarrow> url option) \<Rightarrow> bool \<Rightarrow> string \<Rightarrow> bool" where
  "safe_url url_parse local s \<longleftrightarrow>
     (\<exists>u. url_parse s = Some u \<and> trim_space (url_Host u) \<noteq> [] \<and>
       (url_Scheme u = ''https'' \<or> (url_Scheme u = ''http'' \<and> local \<and> isLocalHost (url_Hostname u))))"

lemma webhook_url: "validateWebhookURL url_parse s local = Inr t \<Longrightarrow> t = s \<and> safe_url url_parse local s"
  by (auto simp: validateWebhookURL_def safe_url_def split: option.splits if_splits)

definition typed_spec :: "(string \<Rightarrow> url option) \<Rightarrow> (string \<Rightarrow> string option) \<Rightarrow> bool \<Rightarrow> NotifyReceiverConfig \<Rightarrow> ReceiverSpec \<Rightarrow> bool" where
  "typed_spec url_parse env dry r spec \<longleftrightarrow>
     sp_ID spec = nr_ID r \<and> sp_ID spec \<noteq> [] \<and> Redact (sp_ID spec) = sp_ID spec \<and> sp_Type spec = nr_Type r \<and>
     0 < sp_Timeout spec \<and> sp_Timeout spec \<le> 30 * second \<and> sp_Events spec \<noteq> [] \<and> sp_Severities spec \<noteq> [] \<and>
     (sp_URL spec \<noteq> [] \<longrightarrow> sp_Type spec = ''webhook'' \<and> env (nr_URLEnv r) = Some (sp_URL spec) \<and>
        safe_url url_parse (sp_AllowInsecureLocal spec) (sp_URL spec)) \<and>
     (sp_Type spec = ''webhook'' \<and> sp_Enabled spec \<and> \<not> dry \<and> sp_URL spec = [] \<longrightarrow> env (nr_URLEnv r) = Some [])"

lemma spec_typed:
  assumes "notify_receiver_ok r" "receiver_spec url_parse env dry r = Inr spec"
  shows "typed_spec url_parse env dry r spec"
proof -
  have base: "sp_ID (base_spec r) = nr_ID r" "nr_ID r \<noteq> []" "Redact (nr_ID r) = nr_ID r" "0 < sp_Timeout (base_spec r)"
      "sp_Timeout (base_spec r) \<le> 30 * second" "sp_Events (base_spec r) \<noteq> []" "sp_Severities (base_spec r) \<noteq> []"
      "sp_URL (base_spec r) = []" "sp_Type (base_spec r) = nr_Type r" "sp_Enabled (base_spec r) = nr_Enabled r"
      "sp_AllowInsecureLocal (base_spec r) = nr_AllowInsecureLocal r"
    using assms(1) by (auto simp: notify_receiver_ok_def base_spec_def clean_text_def notifyEvents_def notifySeverities_def
        dest: present_not_Nil)
  show ?thesis
  proof (cases "nr_Type r = ''webhook''")
    case False
    with assms(2) base have "spec = base_spec r" by (simp add: receiver_spec_def Let_def)
    with base False show ?thesis by (simp add: typed_spec_def)
  next
    case True
    then have t: "nr_Type r = ''webhook''" .
    let ?spec = "(base_spec r)\<lparr>sp_CostClass := ''free_external''\<rparr>"
    from assms(2) t base(9) consider
        "spec = ?spec" "env (nr_URLEnv r) = None" "\<not> (nr_Enabled r \<and> \<not> dry)"
      | "spec = ?spec" "env (nr_URLEnv r) = Some []"
      | u where "env (nr_URLEnv r) = Some u" "u \<noteq> []" "spec = ?spec\<lparr>sp_URL := u\<rparr>" "safe_url url_parse (nr_AllowInsecureLocal r) u"
      by (auto simp: receiver_spec_def Let_def split: if_splits option.splits sum.splits dest: webhook_url)
    then show ?thesis using base t by cases (auto simp: typed_spec_def)
  qed
qed

lemma specs_typed:
  "receiver_specs url_parse env dry rs = Inr specs \<Longrightarrow> \<forall>r\<in>set rs. notify_receiver_ok r \<Longrightarrow>
   list_all2 (typed_spec url_parse env dry) rs specs"
  by (induction rs arbitrary: specs) (auto split: sum.splits intro: spec_typed)

lemma specs_named: "list_all2 (typed_spec url_parse env dry) rs specs \<Longrightarrow> \<forall>spec\<in>set specs. sp_ID spec \<noteq> []"
  by (induction rs specs rule: list_all2_induct) (auto simp: typed_spec_def)

lemma receivers_built:
  "list_all2 (typed_spec url_parse env dry) rs specs \<Longrightarrow> \<forall>r\<in>set rs. nr_Type r \<in> {''webhook'', ''noop''} \<Longrightarrow>
   \<exists>xs. BuildReceivers client specs = Inr xs \<and> map rc_spec xs = specs"
  by (induction rs specs rule: list_all2_induct)
    (auto simp: typed_spec_def NewWebhookReceiver_def NewNoopReceiver_def)

end
