(* ===== verification/Config_Defaults.thy ===== *)
theory Config_Defaults
  imports Config_Properties
begin

text \<open>
  The default configuration of \<open>defaults.go\<close> with a name for the node is well-formed: every section is
  checked against its predicate by evaluation, the numbers of the thresholds as the doubles they are.
\<close>

subsection \<open>Decimal constants\<close>

text \<open>A rational between 0 and 1 rounds to a double between 0 and 1.\<close>

lemma bit_length_mono: "m \<le> n \<Longrightarrow> bit_length m \<le> bit_length n"
proof (induction n arbitrary: m rule: bit_length.induct)
  case (1 n)
  show ?case
  proof (cases "m \<le> 0")
    case True
    have "0 \<le> bit_length n" for n by (induction n rule: bit_length.induct) (subst bit_length.simps, simp)
    with True show ?thesis by (subst bit_length.simps) simp
  next
    case False
    with 1 have "bit_length (m div 2) \<le> bit_length (n div 2)" by (simp add: zdiv_mono1)
    with False 1(2) show ?thesis by (subst (1 2) bit_length.simps) simp
  qed
qed

lemma round_even_bounds:
  assumes "0 \<le> y" "y \<le> of_int n"
  shows "0 \<le> round_even y \<and> round_even y \<le> n"
proof -
  let ?f = "\<lfloor>y\<rfloor>"
  have "0 \<le> ?f" "?f \<le> n" using assms by (simp_all add: floor_le_iff)
  moreover have "?f + 1 \<le> n \<or> y - of_int ?f = 0"
  proof (cases "?f = n")
    case True
    then have "of_int n \<le> y" by (simp add: le_floor_iff [symmetric])
    with assms(2) True show ?thesis by simp
  qed (use \<open>?f \<le> n\<close> in simp)
  ultimately show ?thesis by (auto simp: round_even_def Let_def)
qed

lemma round_unit:
  assumes "0 < x" "x \<le> 1"
  shows "case round64 x of Fin r \<Rightarrow> 0 \<le> r \<and> r \<le> 1 | _ \<Rightarrow> False"
proof -
  obtain p q where pq: "quotient_of x = (p, q)" by (metis prod.collapse)
  have q: "0 < q" "x = of_int p / of_int q"
    using quotient_of_denom_pos [OF pq] quotient_of_div [OF pq] by simp_all
  with assms have "of_int p \<le> (of_int q :: rat)" by (simp add: pos_divide_le_eq)
  then have "bit_length p \<le> bit_length q" by (intro bit_length_mono) simp
  then have neg: "last_place x < 0" by (simp add: last_place_def pq Let_def)
  define k where "k = nat (- last_place x)"
  have two: "two_to (last_place x) = 1 / 2 ^ k" using neg by (simp add: two_to_def k_def)
  let ?n = "round_even (x / two_to (last_place x))"
  have "0 \<le> ?n \<and> ?n \<le> 2 ^ k" using assms by (intro round_even_bounds) (simp_all add: two)
  then have "of_int ?n \<le> (of_int (2 ^ k) :: rat)" "0 \<le> (of_int ?n :: rat)" by (simp_all only: of_int_le_iff of_int_0_le_iff)
  then have "0 \<le> of_int ?n * two_to (last_place x) \<and> of_int ?n * two_to (last_place x) \<le> 1"
    by (simp add: two)
  moreover from this have "\<not> (2 :: rat) ^ 1024 \<le> of_int ?n * two_to (last_place x)" by simp
  ultimately show ?thesis using assms(1) by (simp add: round64_def round_positive_def Let_def)
qed

subsection \<open>Sections\<close>

lemmas text_simps =
  clean_text_def plain_text_def space_rune_def present_char ascii_space_def ascii_def byte_def whole_def
  alnum_char_def safeIdentifierPattern_def ruleTargetPattern_def lower_or_digit_def ruleMetricPattern_def

lemmas time_simps = second_def minute_def hour_def

lemma default_number:
  "n \<in> {85, 95, 15, 8, 4} \<Longrightarrow> case round64 (of_int n / 100) of Fin r \<Rightarrow> 0 \<le> r \<and> r \<le> 1 | _ \<Rightarrow> False"
  by (rule round_unit) auto

lemma default_threshold:
  assumes "operator \<in> {''greater_than_or_equal'', ''less_than''}" "n \<in> {85, 95, 15, 8, 4}" "0 \<le> d"
  shows "threshold_ok metric \<lparr>tc_Operator = operator, tc_Value = hundredths n, tc_For = d\<rparr>"
proof -
  obtain r where "round64 (of_int n / 100) = Fin r" "0 \<le> r" "r \<le> 1"
    using default_number [OF assms(2)] by (auto split: float64.splits)
  then show ?thesis using assms(1,3)
    by (auto simp: threshold_ok_def threshold_value_ok_def hundredths_def requires_numeric_def operator_names_def
        numericRuleValue_def is_finite_def finite_value_def)
qed

lemma boolean_threshold:
  "operator \<in> {''boolean_true'', ''boolean_false''} \<Longrightarrow> 0 \<le> d \<Longrightarrow>
   threshold_ok metric \<lparr>tc_Operator = operator, tc_Value = v, tc_For = d\<rparr>"
  by (auto simp: threshold_ok_def threshold_value_ok_def requires_numeric_def requires_string_def operator_names_def)

lemma stale_ok: "policy_ok ''stale''"
  by (simp add: policy_ok_def text_simps)

lemma default_rule_ok:
  assumes "present rule_id" "safeIdentifierPattern rule_id" "clean_text rule_id"
    "collector \<in> set collector_names" "clean_text collector"
    "ruleMetricPattern metric" "isKnownRuleMetric metric" "clean_text metric" "rule_target_ok target" "0 \<le> recover"
    "\<And>t. warn = Some t \<or> fl = Some t \<or> critical = Some t \<Longrightarrow> threshold_ok metric t" "fl \<noteq> None"
  shows "rule_ok (default_rule rule_id enabled collector metric target warn fl critical recover)"
proof -
  have "metric \<noteq> []" using assms(6) by (auto simp: ruleMetricPattern_def)
  with assms show ?thesis
    by (auto simp: rule_ok_def default_rule_def metric_ok_def stale_ok) (simp add: text_simps)
qed

lemma oom_rule_ok: "rule_ok (defaultRules ! 8)"
  by (simp add: defaultRules_def default_rule_def rule_ok_def metric_ok_def stale_ok config_threshold_def threshold_ok_def
      threshold_value_ok_def requires_numeric_def requires_string_def operator_names_def rule_target_ok_def
      collector_names_def text_simps time_simps)

lemma default_identifiers:
  "list_all (\<lambda>s. present s \<and> safeIdentifierPattern s \<and> clean_text s)
    [''cpu-used-sustained'', ''memory-available-low'', ''filesystem-capacity-high'', ''filesystem-inodes-high'',
     ''required-network-interface-down'', ''required-systemd-service-failed'', ''forbidden-ssh-listener'',
     ''ssh-hardening-drift'']"
  by (simp add: text_simps)

lemma default_collectors:
  "list_all (\<lambda>s. s \<in> set collector_names \<and> clean_text s)
    [''resources'', ''filesystem'', ''network'', ''systemd'', ''ssh_listeners'', ''ssh_effective_config'']"
  by (simp add: collector_names_def text_simps)

lemma default_metrics:
  "list_all (\<lambda>s. ruleMetricPattern s \<and> isKnownRuleMetric s \<and> clean_text s)
    [''pooly_cpu_used_ratio'', ''pooly_memory_available_ratio'', ''pooly_filesystem_used_ratio'',
     ''pooly_filesystem_inodes_used_ratio'', ''pooly_network_interface_up'', ''pooly_systemd_unit_failed'',
     ''pooly_ssh_forbidden_port_listening'', ''pooly_ssh_directive_expected_match'']"
  by (simp add: isKnownRuleMetric_def knownRuleMetrics_def) (simp add: text_simps)

lemma default_targets: "list_all rule_target_ok [''system'', ''any'', ''eth0'', ''ssh.service'', ''22'']"
  by (simp add: rule_target_ok_def text_simps)

lemma default_times: "0 \<le> 5 * minute" "0 \<le> 10 * minute" "0 \<le> 30 * minute" "0 \<le> 2 * minute" "0 \<le> minute"
  by (simp_all add: time_simps)

lemmas default_texts =
  default_identifiers [simplified] default_collectors [simplified] default_metrics [simplified] default_targets [simplified]

lemma default_rules_list: "list_all rule_ok defaultRules"
  unfolding defaultRules_def config_threshold_def list.pred_inject(2)
  apply (intro conjI)
  subgoal by (rule default_rule_ok) (auto simp: default_texts default_times intro!: default_threshold)
  subgoal by (rule default_rule_ok) (auto simp: default_texts default_times intro!: default_threshold)
  subgoal by (rule default_rule_ok) (auto simp: default_texts default_times intro!: default_threshold)
  subgoal by (rule default_rule_ok) (auto simp: default_texts default_times intro!: default_threshold)
  subgoal by (rule default_rule_ok) (auto simp: default_texts default_times intro!: boolean_threshold)
  subgoal by (rule default_rule_ok) (auto simp: default_texts default_times intro!: boolean_threshold)
  subgoal by (rule default_rule_ok) (auto simp: default_texts default_times intro!: boolean_threshold)
  subgoal by (rule default_rule_ok) (auto simp: default_texts default_times intro!: boolean_threshold)
  subgoal using oom_rule_ok by (simp add: defaultRules_def config_threshold_def)
  by simp

lemma default_rules_ok: "rules_ok defaultRules"
proof -
  have "map rc_ID defaultRules = [''cpu-used-sustained'', ''memory-available-low'', ''filesystem-capacity-high'',
      ''filesystem-inodes-high'', ''required-network-interface-down'', ''required-systemd-service-failed'',
      ''forbidden-ssh-listener'', ''ssh-hardening-drift'', ''kernel-oom-event'']"
    by (simp add: defaultRules_def default_rule_def)
  then have "distinct (map rc_ID defaultRules)" by simp
  moreover have "length defaultRules = 9" by (simp add: defaultRules_def)
  ultimately show ?thesis using default_rules_list by (simp add: rules_ok_def list_all_iff)
qed

lemma default_paths: "list_all absolute_path
    [''/bin/systemctl'', ''/bin/journalctl'', ''/usr/sbin/sshd'', ''/usr/sbin/ss'', ''/usr/sbin/ufw'', ''/usr/sbin/visudo'',
     ''/usr/sbin/auditctl'', ''/usr/sbin/ausearch'', ''/'', ''/home'', ''/var'', ''/var/log'', ''/var/lib'',
     ''/var/lib/pooly-sentinel'', ''/var/log/pooly-sentinel'']"
  by (simp add: absolute_path_def IsAbs_def text_simps)

lemma default_mounts: "distinct (map Clean
    [''/'', ''/home'', ''/var'', ''/var/log'', ''/var/lib'', ''/var/lib/pooly-sentinel'', ''/var/log/pooly-sentinel''])"
  by code_simp

lemma default_files: "plain_filename ''state.db''" "plain_filename ''metrics-current.json''"
proof -
  have "Base ''state.db'' = ''state.db''" "Base ''metrics-current.json'' = ''metrics-current.json''"
    by (code_simp, code_simp)
  then show "plain_filename ''state.db''" "plain_filename ''metrics-current.json''"
    by (simp_all add: plain_filename_def IsAbs_def text_simps)
qed

lemma default_globs: "glob_list 64 [''loop*'', ''ram*'', ''fd*'', ''sr*'']" "glob_list 64 [''lo'', ''docker*'', ''veth*'', ''br-*'']"
proof -
  have "Match_path ''loop*'' ''candidate'' \<noteq> None" "Match_path ''ram*'' ''candidate'' \<noteq> None"
    "Match_path ''fd*'' ''candidate'' \<noteq> None" "Match_path ''sr*'' ''candidate'' \<noteq> None"
    "Match_path ''lo'' ''candidate'' \<noteq> None" "Match_path ''docker*'' ''candidate'' \<noteq> None"
    "Match_path ''veth*'' ''candidate'' \<noteq> None" "Match_path ''br-*'' ''candidate'' \<noteq> None"
    by (code_simp, code_simp, code_simp, code_simp, code_simp, code_simp, code_simp, code_simp)
  then show "glob_list 64 [''loop*'', ''ram*'', ''fd*'', ''sr*'']" "glob_list 64 [''lo'', ''docker*'', ''veth*'', ''br-*'']"
    by (simp_all add: glob_list_def text_simps del: not_None_eq)
qed

lemma default_units: "list_all unit_ok [''ssh.service'', ''fail2ban.service'', ''pooly-sentinel-agent.service'', ''miningcore.service'']"
  by (simp add: unit_ok_def unitNamePattern_def unit_kinds_def suffix_def text_simps)

lemma default_bind: "safe_bind False DefaultAPIBind"
  using ParseIP_examples(1) SplitHostPort_examples(1) by (auto simp: safe_bind_def DefaultAPIBind_def)

lemma default_receivers: "notify_ok (cf_Notify Default)" "receivers_ok (cf_Receivers Default)"
  by (simp_all add: Default_def notify_ok_def notify_receiver_ok_def receivers_ok_def receiver_ok_def filter_ok_def
      env_field_def envNamePattern_def wanted_cost_class_def text_simps time_simps)

lemma default_sections:
  "scheduler_ok (ac_Scheduler (cf_Agent Default))" "api_ok (cf_API Default)" "commands_ok (cf_Commands Default)"
  "resources_ok (cf_Resources Default)" "systemd_ok (cf_Systemd Default)" "ssh_ok (cf_SSH Default)"
  "stream_ok (jc_Auth (cf_Journal Default))" "stream_ok (jc_Services (cf_Journal Default))"
  "stream_ok (jc_Kernel (cf_Journal Default))" "filewatch_ok (cf_Filewatch Default)" "storage_ok (cf_Storage Default)"
  using default_paths default_mounts default_files default_globs default_units default_bind [unfolded DefaultAPIBind_def]
  by (simp_all add: Default_def DefaultAPIBind_def scheduler_ok_def api_ok_def commands_ok_def resources_ok_def mounts_ok_def systemd_ok_def
      ssh_ok_def port_list_def stream_ok_def default_stream_def filewatch_ok_def storage_ok_def DefaultStateDir_def
      DefaultLogDir_def glob_list_def time_simps)

lemma default_well_formed: "node_ok n \<Longrightarrow> well_formed (Default\<lparr>cf_Node := n\<rparr>)"
  using default_sections default_receivers default_rules_ok
  by (simp add: well_formed_def) (simp add: Default_def)

text \<open>A node for the witnesses.\<close>

definition example_node :: NodeConfig where
  "example_node = \<lparr>nc_ID = ''n1'', nc_Name = ''n1'', nc_Hostname = ''h'', nc_Region = ''r'', nc_Role = ''r'',
     nc_Environment = ''production'', nc_Ring = ''alpha''\<rparr>"

definition example_config :: Config where
  "example_config = Default\<lparr>cf_Node := example_node\<rparr>"

lemma example_well_formed: "well_formed example_config"
  unfolding example_config_def by (rule default_well_formed) (simp add: example_node_def node_ok_def text_simps)

subsection \<open>Properties\<close>

text \<open>
  C32: the validator accepts a configuration exactly if it is well-formed, whatever the order in which
  it visits the entries of its maps.
\<close>

theorem Validate_well_formed:
  assumes "\<And>xs. set (ord xs) = set xs"
  shows "Validate ord c = [] \<longleftrightarrow> well_formed c"
  using assms by (rule validated)

theorem Validate_well_formed_witness: "Validate rev example_config = []"
  using Validate_well_formed [of rev example_config] example_well_formed by simp

lemma LoadFile_Inr:
  assumes "LoadFile read decode ord ctx path w = (Inr c, w1)"
  shows "\<exists>bytes. read path = Inr bytes \<and> decode bytes Default = Inr c \<and> Validate ord c = []"
  using assms
  by (auto simp: LoadFile_def LoadBytes_def andThen_def map_err_def fail_def ok_def split: if_splits sum.splits prod.splits)

text \<open>
  C31: what the loader returns, whatever the file and the decoder, is well-formed, and its rules convert
  to rules that keep their distinct identifiers, are typed for the engine and are stored under the
  names they are looked up by; only a boolean threshold with a value of a type the conversion does not
  know, which the validator never looks at, makes the conversion fail.
\<close>

theorem loaded_rules_typed:
  assumes "\<And>xs. set (ord xs) = set xs" "LoadFile read decode ord ctx path w = (Inr c, w1)"
  shows "well_formed c \<and>
    (if \<exists>r\<in>set (cf_Rules c). \<exists>t\<in>config_thresholds r. odd_value t then \<exists>e. FromConfig c = Inl e
     else \<exists>rules. FromConfig c = Inr rules \<and> (\<forall>r\<in>set rules. typed_rule r) \<and>
       map ru_ID rules = map rc_ID (cf_Rules c) \<and> distinct (map ru_ID rules))"
proof -
  from LoadFile_Inr [OF assms(2)] have "well_formed c" by (auto simp: validated [OF assms(1)])
  then show ?thesis by (intro conjI configured_rules)
qed

definition example_world :: "unit world" where
  "example_world = \<lparr>data = (), script = [], wall = 0\<rparr>"

lemma example_load:
  "LoadFile (\<lambda>_. Inr ''x'') (\<lambda>_ _. Inr example_config) rev Live_Context ''c'' example_world = (Inr example_config, example_world)"
proof -
  have "Validate rev example_config = []" using validated [of rev example_config] example_well_formed by simp
  moreover have "trim_space ''x'' \<noteq> []"
    using present_char [of "CHR ''x''" "[]"] by (simp add: present_def ascii_space_def ascii_def byte_def)
  ultimately show ?thesis
    by (simp add: LoadFile_def LoadBytes_def andThen_def map_err_def ctx_err_def external_def example_world_def ok_def)
qed

theorem loaded_rules_typed_witness: "\<exists>rules. FromConfig example_config = Inr rules \<and> distinct (map ru_ID rules)"
proof -
  have "\<not> (\<exists>r\<in>set (cf_Rules example_config). \<exists>t\<in>config_thresholds r. odd_value t)"
    by (auto simp: example_config_def Default_def defaultRules_def config_threshold_def default_rule_def
        config_thresholds_def odd_value_def hundredths_def)
  with loaded_rules_typed [OF _ example_load] show ?thesis by (simp only: set_rev if_False) blast
qed

text \<open>
  C33: the notifier built from a well-formed configuration sends to an address only if it came from the
  variable its receiver names and is HTTPS, or plain HTTP to this host where the receiver allows it;
  every receiver can be built, has a name that redaction keeps, events, severities and a time limit;
  an enabled webhook outside a dry run lacks an address only if its variable is set to nothing.
\<close>

theorem webhook_addresses_safe:
  assumes "well_formed c" "OptionsFromConfig url_parse env c = Inr opts"
  shows "list_all2 (typed_spec url_parse env (no_DryRun opts)) (nt_Receivers (cf_Notify c)) (no_Receivers opts) \<and>
    (\<exists>rs. BuildReceivers client (no_Receivers opts) = Inr rs \<and> map rc_spec rs = no_Receivers opts)"
proof -
  let ?rs = "nt_Receivers (cf_Notify c)"
  have ok: "\<forall>r\<in>set ?rs. notify_receiver_ok r" using assms(1) by (simp add: well_formed_def notify_ok_def)
  from assms(2) have specs: "receiver_specs url_parse env (no_DryRun opts) ?rs = Inr (no_Receivers opts)"
    by (auto simp: OptionsFromConfig_def split: sum.splits)
  note typed = specs_typed [OF specs ok]
  have "\<forall>r\<in>set ?rs. nr_Type r \<in> {''webhook'', ''noop''}" using ok by (auto simp: notify_receiver_ok_def)
  from typed receivers_built [OF typed this] show ?thesis by blast
qed

theorem webhook_addresses_safe_witness:
  "\<exists>opts. OptionsFromConfig (\<lambda>_. Some \<lparr>url_Scheme = ''https'', url_Host = ''h'', url_Hostname = ''h''\<rparr>)
      (\<lambda>_. Some ''https://h/x'') example_config = Inr opts \<and> map sp_URL (no_Receivers opts) = [''https://h/x''] \<and>
      sp_ID (hd (no_Receivers opts)) \<noteq> []"
proof -
  let ?parse = "\<lambda>_. Some \<lparr>url_Scheme = ''https'', url_Host = ''h'', url_Hostname = ''h''\<rparr>"
  let ?env = "\<lambda>_ :: string. Some ''https://h/x''"
  have "trim_space ''h'' \<noteq> []"
    using present_char [of "CHR ''h''" "[]"] by (simp add: present_def ascii_space_def ascii_def byte_def)
  then obtain opts where opts: "OptionsFromConfig ?parse ?env example_config = Inr opts" "map sp_URL (no_Receivers opts) = [''https://h/x'']"
    by (simp add: OptionsFromConfig_def receiver_spec_def base_spec_def validateWebhookURL_def example_config_def Default_def Let_def)
  have "\<forall>spec\<in>set (no_Receivers opts). sp_ID spec \<noteq> []"
    by (rule specs_named [OF webhook_addresses_safe [OF example_well_formed opts(1), THEN conjunct1]])
  moreover have "no_Receivers opts \<noteq> []" using opts(2) by auto
  ultimately have "sp_ID (hd (no_Receivers opts)) \<noteq> []" by simp
  from opts this show ?thesis by (intro exI conjI)
qed

end
