(* ===== verification/Go_Url.thy ===== *)
theory Go_Url
  imports Go_Net
begin

text \<open>
  What the sources use of \<open>net/url\<close>: unescaping of a path segment and of a query component, and
  the query of a request as \<open>URL.Query\<close> parses it, the malformed pairs left out.
\<close>

datatype escape_mode = Path_Segment | Query_Component

fun unescape :: "escape_mode \<Rightarrow> string \<Rightarrow> string option" where
  "unescape mode [] = Some []"
| "unescape mode (c # s) =
     (if c = CHR ''%'' then
        (case s of
           a # b # t \<Rightarrow>
             (case (hex_value a, hex_value b) of
                (Some x, Some y) \<Rightarrow> map_option ((#) (char_of (16 * x + y))) (unescape mode t)
              | _ \<Rightarrow> None)
         | _ \<Rightarrow> None)
      else map_option ((#) (if mode = Query_Component \<and> c = CHR ''+'' then CHR '' '' else c)) (unescape mode s))"

definition PathUnescape :: "string \<Rightarrow> string option" where
  "PathUnescape s = unescape Path_Segment s"

definition QueryUnescape :: "string \<Rightarrow> string option" where
  "QueryUnescape s = unescape Query_Component s"

text \<open>\<open>strings.Cut\<close>: what stands before and after the first separator.\<close>

definition cut_at :: "char \<Rightarrow> string \<Rightarrow> string \<times> string" where
  "cut_at c s = (takeWhile (\<lambda>x. x \<noteq> c) s, drop 1 (dropWhile (\<lambda>x. x \<noteq> c) s))"

text \<open>One pair of a query: one with a semicolon, an empty one or one that does not unescape is skipped.\<close>

definition query_pair :: "string \<Rightarrow> (string \<times> string) option" where
  "query_pair part =
     (if part = [] \<or> CHR '';'' \<in> set part then None
      else (case (QueryUnescape (fst (cut_at (CHR ''='') part)), QueryUnescape (snd (cut_at (CHR ''='') part))) of
          (Some k, Some v) \<Rightarrow> Some (k, v)
        | _ \<Rightarrow> None))"

definition Query :: "string \<Rightarrow> (string \<times> string) list" where
  "Query raw = List.map_filter query_pair (split_on (CHR ''&'') raw)"

text \<open>\<open>Values.Get\<close>: the first value of a key, the empty text when it has none.\<close>

definition values_get :: "(string \<times> string) list \<Rightarrow> string \<Rightarrow> string" where
  "values_get values key = (case map_of values key of None \<Rightarrow> [] | Some v \<Rightarrow> v)"

lemma unescape_plain: "CHR ''%'' \<notin> set s \<Longrightarrow> PathUnescape s = Some s"
  unfolding PathUnescape_def by (induction s) auto

lemma Query_example: "values_get (Query ''limit=7&a=b%20c&a=d&x;y=1&bad=%zz'') ''a'' = ''b c''"
  by code_simp

end
