(* ===== verification/Reports.thy ===== *)
theory Reports
  imports Storage_Queries Storage_Open Scheduler
begin

text \<open>
  \<open>internal/reports/summary.go\<close>: the summary of the store that the API and the command line show.
  The store is the record of the five calls the generator makes. A count map of Go is a finite map
  that is ranged over in an order the runtime picks: the parameter \<open>order\<close> is that choice.
\<close>

record 'd ReportStore =
  ps_Ping :: "(unit, 'd) op"
  ps_SchemaVersion :: "(int, 'd) op"
  ps_IncidentStatusCounts :: "(string \<rightharpoonup> int, 'd) op"
  ps_NotificationDeliveryStatusCounts :: "(string \<rightharpoonup> int, 'd) op"
  ps_ListRecentIncidents :: "int \<Rightarrow> (IncidentRecord list, 'd) op"

record 'd ReportOptions =
  ro_Enabled :: bool
  ro_MaxIncidents :: int
  ro_IncludeResolved :: bool
  ro_SchedulerStatus :: "('d world \<Rightarrow> SchedulerStatus) option"

record IncidentSummary =
  is_ID :: string
  is_NodeID :: string
  is_Type :: string
  is_Target :: string
  is_Condition :: string
  is_Severity :: string
  is_Status :: string
  is_Summary :: string
  is_FirstSeen :: instant
  is_LastSeen :: instant
  is_OccurrenceCount :: int
  is_LastTransition :: "instant option"
  is_ResolvedAt :: "instant option"
  is_UpdatedAt :: instant

record Summary =
  sm_GeneratedAt :: instant
  sm_StorageAvailable :: bool
  sm_SchemaVersion :: int
  sm_OpenIncidentsBySeverity :: "string \<rightharpoonup> int"
  sm_IncidentStatusCounts :: "string \<rightharpoonup> int"
  sm_NotificationDeliveryCounts :: "string \<rightharpoonup> int"
  sm_Scheduler :: SchedulerStatus
  sm_RecentResolvedIncidents :: "IncidentSummary list"
  sm_KnownLimitations :: "string list"
  sm_ErrorClass :: string
  sm_ErrorSummary :: string

type_synonym map_order = "(string \<rightharpoonup> int) \<Rightarrow> string list"

text \<open>A range over a map visits every key once.\<close>

definition ranges :: "map_order \<Rightarrow> bool" where
  "ranges order \<longleftrightarrow> (\<forall>m. finite (dom m) \<longrightarrow> distinct (order m) \<and> set (order m) = dom m)"

definition redactCountMap :: "map_order \<Rightarrow> (string \<rightharpoonup> int) \<Rightarrow> (string \<rightharpoonup> int)" where
  "redactCountMap order input = fold (\<lambda>key output. output(Redact key := input key)) (order input) Map.empty"

text \<open>A UTC reading of an instant is the instant.\<close>

definition utc_pointer :: "instant option \<Rightarrow> instant option" where
  "utc_pointer input = (case input of None \<Rightarrow> None | Some t \<Rightarrow> Some t)"

definition safeIncidentSummary :: "IncidentRecord \<Rightarrow> IncidentSummary" where
  "safeIncidentSummary r =
     \<lparr>is_ID = Redact (inc_ID r), is_NodeID = Redact (inc_NodeID r), is_Type = Redact (inc_Type r),
      is_Target = Redact (inc_Target r), is_Condition = Redact (inc_Condition r),
      is_Severity = Redact (inc_Severity r), is_Status = Redact (inc_Status r),
      is_Summary = Redact (inc_Summary r), is_FirstSeen = inc_FirstSeen r, is_LastSeen = inc_LastSeen r,
      is_OccurrenceCount = inc_OccurrenceCount r, is_LastTransition = utc_pointer (inc_LastTransition r),
      is_ResolvedAt = utc_pointer (inc_ResolvedAt r), is_UpdatedAt = inc_UpdatedAt r\<rparr>"

text \<open>The zero value of a scheduler status.\<close>

definition no_scheduler_status :: SchedulerStatus where
  "no_scheduler_status = cy_Status no_result"

definition initial_summary :: "instant \<Rightarrow> SchedulerStatus \<Rightarrow> Summary" where
  "initial_summary now scheduler =
     \<lparr>sm_GeneratedAt = now, sm_StorageAvailable = False, sm_SchemaVersion = 0,
      sm_OpenIncidentsBySeverity = Map.empty, sm_IncidentStatusCounts = Map.empty,
      sm_NotificationDeliveryCounts = Map.empty, sm_Scheduler = scheduler, sm_RecentResolvedIncidents = [],
      sm_KnownLimitations =
        [''production scheduler is disabled unless explicitly configured'',
         ''report delivery is not implemented'', ''dashboard and remediation are not implemented''],
      sm_ErrorClass = [], sm_ErrorSummary = []\<rparr>"

definition count_up :: "(string \<rightharpoonup> int) \<Rightarrow> string \<Rightarrow> (string \<rightharpoonup> int)" where
  "count_up counts key = counts(key \<mapsto> wrap64 ((case counts key of None \<Rightarrow> 0 | Some n \<Rightarrow> n) + 1))"

text \<open>The loop over the listed incidents: the open ones are counted, the resolved ones collected.\<close>

fun tally :: "bool \<Rightarrow> IncidentRecord list \<Rightarrow> Summary \<Rightarrow> Summary" where
  "tally resolved [] s = s"
| "tally resolved (i # is) s =
     tally resolved is
       (if inc_Status i = ''open''
        then s\<lparr>sm_OpenIncidentsBySeverity := count_up (sm_OpenIncidentsBySeverity s) (Redact (inc_Severity i))\<rparr>
        else if resolved \<and> inc_Status i = ''resolved''
        then s\<lparr>sm_RecentResolvedIncidents := sm_RecentResolvedIncidents s @ [safeIncidentSummary i]\<rparr>
        else s)"

text \<open>
  \<open>sort.Slice\<close> on the collected incidents. It promises an order by the key only; the listing is
  already in that order, where the sort moves nothing, as the stable one here.
\<close>

definition sort_resolved :: "Summary \<Rightarrow> Summary" where
  "sort_resolved s = s\<lparr>sm_RecentResolvedIncidents := sort_desc is_UpdatedAt (sm_RecentResolvedIncidents s)\<rparr>"

definition storage_problem :: "string \<Rightarrow> Summary \<Rightarrow> Summary" where
  "storage_problem summary s = s\<lparr>sm_ErrorClass := ''storage'', sm_ErrorSummary := summary\<rparr>"

definition report_step ::
    "('a, 'd) op \<Rightarrow> ('a \<Rightarrow> Summary \<Rightarrow> 'd world \<Rightarrow> (Summary \<times> go_error option) \<times> 'd world) \<Rightarrow>
     Summary \<Rightarrow> 'd world \<Rightarrow> (Summary \<times> go_error option) \<times> 'd world" where
  "report_step m k s w = (case m w of (Inl e, w1) \<Rightarrow> ((s, Some e), w1) | (Inr x, w1) \<Rightarrow> k x s w1)"

definition effective_incidents :: "int \<Rightarrow> int" where
  "effective_incidents n = (if n \<le> 0 \<or> n > 1000 then 100 else n)"

definition Generate ::
    "map_order \<Rightarrow> ('d, 'z) ReportStore_scheme option \<Rightarrow> 'd ReportOptions \<Rightarrow> 'd world \<Rightarrow>
     (Summary \<times> go_error option) \<times> 'd world" where
  "Generate order store opts w =
     (let scheduler = (case ro_SchedulerStatus opts of None \<Rightarrow> no_scheduler_status
                       | Some status \<Rightarrow> SafeSchedulerStatus (status w));
          s = initial_summary (wall w) scheduler
      in case store of
           None \<Rightarrow> ((storage_problem ''storage is unavailable'' s, None), w)
         | Some st \<Rightarrow>
             (case ps_Ping st w of
                (Inl e, w1) \<Rightarrow> ((storage_problem (Redact (error_text e)) s, None), w1)
              | (Inr u, w1) \<Rightarrow>
                  report_step (ps_SchemaVersion st) (\<lambda>version s.
                  report_step (ps_IncidentStatusCounts st) (\<lambda>counts s.
                  report_step (ps_NotificationDeliveryStatusCounts st) (\<lambda>deliveries s.
                  report_step (ps_ListRecentIncidents st (effective_incidents (ro_MaxIncidents opts))) (\<lambda>incidents s w.
                    ((sort_resolved (tally (ro_IncludeResolved opts) incidents s), None), w))
                    (s\<lparr>sm_NotificationDeliveryCounts := redactCountMap order deliveries\<rparr>))
                    (s\<lparr>sm_IncidentStatusCounts := redactCountMap order counts\<rparr>))
                    (s\<lparr>sm_SchemaVersion := version\<rparr>))
                    (s\<lparr>sm_StorageAvailable := True\<rparr>) w1))"

end
