(* ===== verification/Api.thy ===== *)
theory Api
  imports Go_Url Reports Notify
begin

text \<open>
  \<open>internal/api/server.go\<close> and \<open>status.go\<close>: the read-only HTTP interface. A server is its options,
  its readiness, its listener and the error its serving ended with; a request is a method, a path
  and a raw query; a response is a status, the headers and the value whose JSON is the body. The
  store is the interface the handlers call, a record of operations.
\<close>

definition defaultLimit :: int where "defaultLimit = 100"
definition maxLimit :: int where "maxLimit = 500"

record 'd ApiStore = "'d ReportStore" +
  ps_GetIncident :: "string \<Rightarrow> (IncidentRecord, 'd) op"
  ps_ListRecentNotificationDeliveries :: "string \<Rightarrow> int \<Rightarrow> (NotificationDeliveryRecord list, 'd) op"

text \<open>A listener is its address; \<open>ao_Listener\<close> is one the caller brings.\<close>

record 'd ApiOptions =
  ao_Enabled :: bool
  ao_Listen :: string
  ao_AllowNonLoopback :: bool
  ao_ReadTimeout :: duration
  ao_WriteTimeout :: duration
  ao_ShutdownTimeout :: duration
  ao_Store :: "'d ApiStore option"
  ao_Reports :: "'d ReportOptions"
  ao_SchedulerStatus :: "('d world \<Rightarrow> SchedulerStatus) option"
  ao_EvidenceRoot :: string
  ao_Listener :: "string option"

record 'd Server =
  as_opts :: "'d ApiOptions"
  as_listener :: "string option"
  as_ready :: bool
  as_serveErr :: "string option"

subsection \<open>The server\<close>

definition validateListen :: "string \<Rightarrow> bool \<Rightarrow> go_error option" where
  "validateListen listen allowNonLoopback =
     (case SplitHostPort listen of
        None \<Rightarrow> Some (Text_Error ''api listen address must be host:port'')
      | Some (host, _) \<Rightarrow>
          if host = ''localhost'' then None
          else
            (case ParseIP host of
               None \<Rightarrow> Some (Text_Error ''api listen host must be localhost or an IP address'')
             | Some ip \<Rightarrow>
                 if \<not> IsLoopback ip \<and> \<not> allowNonLoopback
                 then Some (Text_Error ''api listen address must be loopback unless explicitly allowed'')
                 else None))"

definition api_defaults :: "'d ApiOptions \<Rightarrow> 'd ApiOptions" where
  "api_defaults opts =
     opts\<lparr>ao_ReadTimeout := (if ao_ReadTimeout opts \<le> 0 then 5 * second else ao_ReadTimeout opts),
          ao_WriteTimeout := (if ao_WriteTimeout opts \<le> 0 then 10 * second else ao_WriteTimeout opts),
          ao_ShutdownTimeout := (if ao_ShutdownTimeout opts \<le> 0 then 10 * second else ao_ShutdownTimeout opts),
          ao_Listen := (if ao_Listen opts = [] then ''127.0.0.1:9587'' else ao_Listen opts)\<rparr>"

definition NewServer :: "'d ApiOptions \<Rightarrow> go_error + 'd Server" where
  "NewServer options =
     (let opts = api_defaults options;
          s = \<lparr>as_opts = opts, as_listener = None, as_ready = False, as_serveErr = None\<rparr>
      in if ao_Enabled opts
         then (case validateListen (ao_Listen opts) (ao_AllowNonLoopback opts) of
                 Some e \<Rightarrow> Inl e | None \<Rightarrow> Inr s)
         else Inr s)"

definition SetReady :: "bool \<Rightarrow> 'd Server option \<Rightarrow> 'd Server option" where
  "SetReady r s = map_option (\<lambda>s. s\<lparr>as_ready := r\<rparr>) s"

definition Ready_api :: "'d Server option \<Rightarrow> bool" where
  "Ready_api s = (case s of None \<Rightarrow> False | Some s \<Rightarrow> as_ready s)"

definition Addr :: "'d Server option \<Rightarrow> string" where
  "Addr s = (case s of None \<Rightarrow> [] | Some s \<Rightarrow> (case as_listener s of Some a \<Rightarrow> a | None \<Rightarrow> []))"

text \<open>\<open>listen\<close> is what the network says to an address: an error, or the address it listens on.\<close>

definition Server_Start ::
    "(string \<Rightarrow> go_error + string) \<Rightarrow> 'd Server option \<Rightarrow> 'd world \<Rightarrow>
     (go_error option \<times> 'd Server option) \<times> 'd world" where
  "Server_Start listen server w =
     (case server of
        None \<Rightarrow> ((None, None), w)
      | Some s \<Rightarrow>
          if \<not> ao_Enabled (as_opts s) then ((None, Some s), w)
          else
            (case ctx_err w of
               (Inl e, w1) \<Rightarrow> ((Some e, Some s), w1)
             | (Inr u, w1) \<Rightarrow>
                 if as_listener s \<noteq> None then ((None, Some s), w1)
                 else
                   (case (case ao_Listener (as_opts s) of Some a \<Rightarrow> Inr a | None \<Rightarrow> listen (ao_Listen (as_opts s))) of
                      Inl e \<Rightarrow> ((Some (Wrap_Error ''api listen'' (redacted_error e)), Some s), w1)
                    | Inr a \<Rightarrow> ((None, Some (s\<lparr>as_listener := Some a, as_serveErr := Some []\<rparr>)), w1))))"

definition recordServeError :: "go_error \<Rightarrow> 'd Server option \<Rightarrow> 'd Server option" where
  "recordServeError err s =
     map_option (\<lambda>s. s\<lparr>as_serveErr := Some (Redact (error_text err))\<rparr>) (SetReady False s)"

definition serveError :: "'d Server option \<Rightarrow> string" where
  "serveError s =
     (case s of None \<Rightarrow> [] | Some s \<Rightarrow> (case as_serveErr s of None \<Rightarrow> [] | Some t \<Rightarrow> Redact t))"

text \<open>
  The serving goroutine ends: with an error, unless the server was closed (\<open>http.ErrServerClosed\<close>,
  \<open>None\<close> here).
\<close>

definition serve_ended :: "go_error option \<Rightarrow> 'd Server option \<Rightarrow> 'd Server option" where
  "serve_ended e s = (case e of None \<Rightarrow> s | Some e \<Rightarrow> recordServeError e s)"

text \<open>
  \<open>shutdown\<close> is what the HTTP server's own \<open>Shutdown\<close> reports, given the timeout put on the
  context when the caller's has no deadline.
\<close>

definition Server_Shutdown ::
    "(duration option \<Rightarrow> go_error option) \<Rightarrow> bool \<Rightarrow> 'd Server option \<Rightarrow> go_error option \<times> 'd Server option" where
  "Server_Shutdown shutdown has_deadline server =
     (case server of
        None \<Rightarrow> (None, None)
      | Some s \<Rightarrow>
          if \<not> ao_Enabled (as_opts s) then (None, Some s)
          else
            (let s1 = s\<lparr>as_ready := False\<rparr> in
             if as_listener s1 = None then (None, Some s1)
             else
               (let timeout = ao_ShutdownTimeout (as_opts s1);
                    err = shutdown (if \<not> has_deadline \<and> 0 < timeout then Some timeout else None);
                    s2 = s1\<lparr>as_listener := None\<rparr>
                in (map_option (\<lambda>e. Wrap_Error ''api shutdown'' (redacted_error e)) err, Some s2))))"

subsection \<open>Responses\<close>

record StatusResponse =
  sr_ServiceStatus :: string
  sr_CurrentTime :: instant
  sr_StorageAvailable :: bool
  sr_SchemaVersion :: int
  sr_OpenIncidentCount :: int
  sr_ResolvedIncidentCount :: int
  sr_NotificationDeliveryCount :: int
  sr_IncidentCounts :: "string \<rightharpoonup> int"
  sr_DeliveryCounts :: "string \<rightharpoonup> int"
  sr_Readiness :: bool
  sr_Scheduler :: SchedulerStatus
  sr_ErrorClass :: string
  sr_ErrorSummary :: string

record IncidentResponse =
  ri_ID :: string
  ri_Fingerprint :: string
  ri_NodeID :: string
  ri_Type :: string
  ri_Target :: string
  ri_Condition :: string
  ri_Severity :: string
  ri_Status :: string
  ri_Summary :: string
  ri_FirstSeen :: instant
  ri_LastSeen :: instant
  ri_LastAlerted :: "instant option"
  ri_OccurrenceCount :: int
  ri_EvidencePath :: string
  ri_ResolvedAt :: "instant option"
  ri_LastTransition :: "instant option"
  ri_UpdatedAt :: instant

record DeliveryResponse =
  rd_ID :: string
  rd_IncidentID :: string
  rd_Receiver :: string
  rd_CostClass :: string
  rd_Status :: string
  rd_Attempt :: int
  rd_AttemptedAt :: instant
  rd_DeliveredAt :: "instant option"
  rd_ErrorClass :: string
  rd_ErrorSummary :: string

definition safeIncident :: "(string \<Rightarrow> bool) \<Rightarrow> IncidentRecord \<Rightarrow> string \<Rightarrow> IncidentResponse" where
  "safeIncident has_scheme r evidenceRoot =
     \<lparr>ri_ID = Redact (inc_ID r), ri_Fingerprint = Redact (inc_Fingerprint r), ri_NodeID = Redact (inc_NodeID r),
      ri_Type = Redact (inc_Type r), ri_Target = Redact (inc_Target r), ri_Condition = Redact (inc_Condition r),
      ri_Severity = Redact (inc_Severity r), ri_Status = Redact (inc_Status r), ri_Summary = Redact (inc_Summary r),
      ri_FirstSeen = inc_FirstSeen r, ri_LastSeen = inc_LastSeen r, ri_LastAlerted = utc_pointer (inc_LastAlerted r),
      ri_OccurrenceCount = inc_OccurrenceCount r,
      ri_EvidencePath = SafeEvidencePath has_scheme (inc_EvidencePath r) evidenceRoot,
      ri_ResolvedAt = utc_pointer (inc_ResolvedAt r), ri_LastTransition = utc_pointer (inc_LastTransition r),
      ri_UpdatedAt = inc_UpdatedAt r\<rparr>"

definition safeDelivery :: "NotificationDeliveryRecord \<Rightarrow> DeliveryResponse" where
  "safeDelivery r =
     \<lparr>rd_ID = Redact (nd_ID r), rd_IncidentID = Redact (nd_IncidentID r), rd_Receiver = Redact (nd_Receiver r),
      rd_CostClass = Redact (nd_CostClass r), rd_Status = Redact (nd_Status r), rd_Attempt = nd_Attempt r,
      rd_AttemptedAt = nd_AttemptedAt r, rd_DeliveredAt = utc_pointer (nd_DeliveredAt r),
      rd_ErrorClass = Redact (nd_ErrorClass r), rd_ErrorSummary = Redact (nd_ErrorSummary r)\<rparr>"

datatype api_value =
    Error_Value string
  | Health_Value instant
  | Ready_Value bool instant
  | Status_Value StatusResponse
  | Incident_Value IncidentResponse
  | Incidents_Value "IncidentResponse list"
  | Deliveries_Value "DeliveryResponse list"
  | Report_Value Summary

text \<open>The times of a value: \<open>json.Marshal\<close> fails exactly when one of them has no text.\<close>

definition opt_times :: "instant option list \<Rightarrow> instant list" where
  "opt_times ts = List.map_filter (\<lambda>t. t) ts"

definition scheduler_times :: "SchedulerStatus \<Rightarrow> instant list" where
  "scheduler_times s = opt_times [ss_LastAttemptAt s, ss_LastSuccessfulCycleAt s]"

definition incident_times :: "IncidentResponse \<Rightarrow> instant list" where
  "incident_times r =
     [ri_FirstSeen r, ri_LastSeen r, ri_UpdatedAt r] @ opt_times [ri_LastAlerted r, ri_ResolvedAt r, ri_LastTransition r]"

definition summary_times :: "IncidentSummary \<Rightarrow> instant list" where
  "summary_times r =
     [is_FirstSeen r, is_LastSeen r, is_UpdatedAt r] @ opt_times [is_LastTransition r, is_ResolvedAt r]"

fun value_times :: "api_value \<Rightarrow> instant list" where
  "value_times (Error_Value t) = []"
| "value_times (Health_Value t) = [t]"
| "value_times (Ready_Value b t) = [t]"
| "value_times (Status_Value s) = sr_CurrentTime s # scheduler_times (sr_Scheduler s)"
| "value_times (Incident_Value r) = incident_times r"
| "value_times (Incidents_Value rs) = concat (map incident_times rs)"
| "value_times (Deliveries_Value rs) = concat (map (\<lambda>r. rd_AttemptedAt r # opt_times [rd_DeliveredAt r]) rs)"
| "value_times (Report_Value s) =
     sm_GeneratedAt s # scheduler_times (sm_Scheduler s) @ concat (map summary_times (sm_RecentResolvedIncidents s))"

definition value_encodes :: "api_value \<Rightarrow> bool" where
  "value_encodes v = list_all json_time (value_times v)"

record Response =
  rsp_Status :: int
  rsp_Headers :: "(string \<times> string) list"
  rsp_Body :: api_value

definition response_headers :: "(string \<times> string) list" where
  "response_headers =
     [(''Content-Type'', ''application/json''), (''Cache-Control'', ''no-store''),
      (''X-Content-Type-Options'', ''nosniff'')]"

definition writeJSON :: "int \<Rightarrow> api_value \<Rightarrow> Response" where
  "writeJSON status v =
     (if value_encodes v
      then \<lparr>rsp_Status = status, rsp_Headers = response_headers, rsp_Body = v\<rparr>
      else \<lparr>rsp_Status = 500, rsp_Headers = response_headers,
            rsp_Body = Error_Value ''json response could not be encoded''\<rparr>)"

definition writeError :: "int \<Rightarrow> string \<Rightarrow> Response" where
  "writeError status message = writeJSON status (Error_Value (Redact message))"

definition writeStorageError :: "go_error \<Rightarrow> Response" where
  "writeStorageError err =
     (if errors_is err ErrNotFound then writeError 404 ''not found'' else writeError 500 ''storage error'')"

subsection \<open>Handlers\<close>

record Request =
  rq_Method :: string
  rq_Path :: string
  rq_RawQuery :: string

definition parseLimit :: "(string \<times> string) list \<Rightarrow> Response + int" where
  "parseLimit values =
     (let raw = values_get values ''limit'' in
      if raw = [] then Inr defaultLimit
      else
        (case ParseInt raw of
           Inl e \<Rightarrow> Inl (writeError 400 ''invalid limit'')
         | Inr limit \<Rightarrow>
             if limit < 1 \<or> limit > maxLimit then Inl (writeError 400 ''invalid limit'') else Inr limit))"

definition setStatusError :: "string \<Rightarrow> string \<Rightarrow> StatusResponse \<Rightarrow> StatusResponse" where
  "setStatusError cls summary r =
     (if sr_ErrorClass r \<noteq> [] then r
      else r\<lparr>sr_ServiceStatus := ''degraded'', sr_ErrorClass := Redact cls, sr_ErrorSummary := Redact summary\<rparr>)"

definition initial_response :: "'d Server \<Rightarrow> 'd world \<Rightarrow> StatusResponse" where
  "initial_response s w =
     \<lparr>sr_ServiceStatus = ''running'', sr_CurrentTime = wall w, sr_StorageAvailable = False, sr_SchemaVersion = 0,
      sr_OpenIncidentCount = 0, sr_ResolvedIncidentCount = 0, sr_NotificationDeliveryCount = 0,
      sr_IncidentCounts = Map.empty, sr_DeliveryCounts = Map.empty, sr_Readiness = as_ready s,
      sr_Scheduler = (case ao_SchedulerStatus (as_opts s) of None \<Rightarrow> no_scheduler_status
                      | Some status \<Rightarrow> SafeSchedulerStatus (status w)),
      sr_ErrorClass = [], sr_ErrorSummary = []\<rparr>"

definition serve_status :: "'d Server \<Rightarrow> StatusResponse \<Rightarrow> StatusResponse" where
  "serve_status s r =
     (let serveErr = serveError (Some s) in
      if serveErr \<noteq> []
      then r\<lparr>sr_ServiceStatus := ''degraded'', sr_Readiness := False, sr_ErrorClass := ''api_serve'',
             sr_ErrorSummary := serveErr\<rparr>
      else r)"

definition status_step ::
    "('a, 'd) op \<Rightarrow> ('a \<Rightarrow> StatusResponse \<Rightarrow> 'd world \<Rightarrow> StatusResponse \<times> 'd world) \<Rightarrow>
     StatusResponse \<Rightarrow> 'd world \<Rightarrow> StatusResponse \<times> 'd world" where
  "status_step m k r w =
     (case m w of
        (Inl e, w1) \<Rightarrow> (setStatusError ''storage'' (Redact (error_text e)) r, w1)
      | (Inr x, w1) \<Rightarrow> k x r w1)"

definition count_of :: "(string \<rightharpoonup> int) \<Rightarrow> string \<Rightarrow> int" where
  "count_of counts key = (case counts key of None \<Rightarrow> 0 | Some n \<Rightarrow> n)"

definition total_count :: "map_order \<Rightarrow> (string \<rightharpoonup> int) \<Rightarrow> int" where
  "total_count order counts = foldl (\<lambda>n key. wrap64 (n + count_of counts key)) 0 (order counts)"

definition server_status :: "map_order \<Rightarrow> 'd Server \<Rightarrow> 'd world \<Rightarrow> StatusResponse \<times> 'd world" where
  "server_status order s w =
     (let response = serve_status s (initial_response s w) in
      case ao_Store (as_opts s) of
        None \<Rightarrow> (setStatusError ''storage'' ''storage is unavailable'' response, w)
      | Some store \<Rightarrow>
          status_step (ps_Ping store) (\<lambda>_ r.
          status_step (ps_SchemaVersion store) (\<lambda>version r.
          status_step (ps_IncidentStatusCounts store) (\<lambda>incidents r.
          status_step (ps_NotificationDeliveryStatusCounts store) (\<lambda>deliveries r w.
            (r\<lparr>sr_DeliveryCounts := redactCountMap order deliveries,
               sr_NotificationDeliveryCount := total_count order deliveries\<rparr>, w))
            (r\<lparr>sr_IncidentCounts := redactCountMap order incidents,
               sr_OpenIncidentCount := count_of incidents ''open'',
               sr_ResolvedIncidentCount := count_of incidents ''resolved''\<rparr>))
            (r\<lparr>sr_SchemaVersion := version\<rparr>))
            (r\<lparr>sr_StorageAvailable := True\<rparr>)) response w)"

definition handleHealth :: "'d world \<Rightarrow> Response" where
  "handleHealth w = writeJSON 200 (Health_Value (wall w))"

definition handleReady :: "'d Server \<Rightarrow> 'd world \<Rightarrow> Response" where
  "handleReady s w = writeJSON (if as_ready s then 200 else 503) (Ready_Value (as_ready s) (wall w))"

definition handleStatus :: "map_order \<Rightarrow> 'd Server \<Rightarrow> 'd world \<Rightarrow> Response \<times> 'd world" where
  "handleStatus order s w = (case server_status order s w of (r, w1) \<Rightarrow> (writeJSON 200 (Status_Value r), w1))"

definition stored_answer ::
    "('a, 'd) op \<Rightarrow> ('a \<Rightarrow> api_value) \<Rightarrow> 'd world \<Rightarrow> Response \<times> 'd world" where
  "stored_answer m render w =
     (case m w of
        (Inl e, w1) \<Rightarrow> (writeStorageError e, w1)
      | (Inr x, w1) \<Rightarrow> (writeJSON 200 (render x), w1))"

definition unavailable :: Response where
  "unavailable = writeError 503 ''storage unavailable''"

definition handleIncidents :: "(string \<Rightarrow> bool) \<Rightarrow> 'd Server \<Rightarrow> Request \<Rightarrow> 'd world \<Rightarrow> Response \<times> 'd world" where
  "handleIncidents has_scheme s r w =
     (case ao_Store (as_opts s) of
        None \<Rightarrow> (unavailable, w)
      | Some store \<Rightarrow>
          (case parseLimit (Query (rq_RawQuery r)) of
             Inl response \<Rightarrow> (response, w)
           | Inr limit \<Rightarrow>
               stored_answer (ps_ListRecentIncidents store limit)
                 (\<lambda>records. Incidents_Value (map (\<lambda>x. safeIncident has_scheme x (ao_EvidenceRoot (as_opts s))) records)) w))"

definition incidents_path :: string where "incidents_path = ''/incidents/''"

definition handleIncident :: "(string \<Rightarrow> bool) \<Rightarrow> 'd Server \<Rightarrow> Request \<Rightarrow> 'd world \<Rightarrow> Response \<times> 'd world" where
  "handleIncident has_scheme s r w =
     (case ao_Store (as_opts s) of
        None \<Rightarrow> (unavailable, w)
      | Some store \<Rightarrow>
          (let ident = drop (length incidents_path) (rq_Path r) in
           if ident = [] \<or> CHR ''/'' \<in> set ident then (writeError 404 ''not found'', w)
           else
             (case PathUnescape ident of
                None \<Rightarrow> (writeError 400 ''invalid incident id'', w)
              | Some unescaped \<Rightarrow>
                  if trim_space unescaped = [] then (writeError 400 ''invalid incident id'', w)
                  else stored_answer (ps_GetIncident store unescaped)
                         (\<lambda>x. Incident_Value (safeIncident has_scheme x (ao_EvidenceRoot (as_opts s)))) w)))"

definition handleDeliveries :: "'d Server \<Rightarrow> Request \<Rightarrow> 'd world \<Rightarrow> Response \<times> 'd world" where
  "handleDeliveries s r w =
     (case ao_Store (as_opts s) of
        None \<Rightarrow> (unavailable, w)
      | Some store \<Rightarrow>
          (case parseLimit (Query (rq_RawQuery r)) of
             Inl response \<Rightarrow> (response, w)
           | Inr limit \<Rightarrow>
               stored_answer
                 (ps_ListRecentNotificationDeliveries store (values_get (Query (rq_RawQuery r)) ''incident_id'') limit)
                 (\<lambda>records. Deliveries_Value (map safeDelivery records)) w))"

text \<open>
  The wrapper of the store for the reports. Without a store only the ping answers; the other calls
  would dereference a nil interface and panic, and the generator does not reach them.
\<close>

definition nil_panic :: go_error where
  "nil_panic = Text_Error ''runtime error: invalid memory address or nil pointer dereference''"

definition reportStore :: "'d ApiStore option \<Rightarrow> 'd ReportStore" where
  "reportStore store =
     (case store of
        None \<Rightarrow>
          \<lparr>ps_Ping = fail ErrClosed, ps_SchemaVersion = fail nil_panic, ps_IncidentStatusCounts = fail nil_panic,
           ps_NotificationDeliveryStatusCounts = fail nil_panic, ps_ListRecentIncidents = (\<lambda>_. fail nil_panic)\<rparr>
      | Some s \<Rightarrow>
          \<lparr>ps_Ping = ps_Ping s, ps_SchemaVersion = ps_SchemaVersion s,
           ps_IncidentStatusCounts = ps_IncidentStatusCounts s,
           ps_NotificationDeliveryStatusCounts = ps_NotificationDeliveryStatusCounts s,
           ps_ListRecentIncidents = ps_ListRecentIncidents s\<rparr>)"

definition handleReport :: "map_order \<Rightarrow> 'd Server \<Rightarrow> 'd world \<Rightarrow> Response \<times> 'd world" where
  "handleReport order s w =
     (if \<not> ro_Enabled (ao_Reports (as_opts s)) then (writeError 404 ''reports disabled'', w)
      else
        (case Generate order (Some (reportStore (ao_Store (as_opts s)))) (ao_Reports (as_opts s)) w of
           ((summary, Some e), w1) \<Rightarrow> (writeStorageError e, w1)
         | ((summary, None), w1) \<Rightarrow> (writeJSON 200 (Report_Value summary), w1)))"

definition handle_request ::
    "map_order \<Rightarrow> (string \<Rightarrow> bool) \<Rightarrow> 'd Server \<Rightarrow> Request \<Rightarrow> 'd world \<Rightarrow> Response \<times> 'd world" where
  "handle_request order has_scheme s r w =
     (let path = rq_Path r in
      if rq_Method r \<noteq> ''GET'' then (writeError 405 ''method not allowed'', w)
      else if path = ''/healthz'' then (handleHealth w, w)
      else if path = ''/readyz'' then (handleReady s w, w)
      else if path = ''/status'' \<or> path = ''/metrics/status'' then handleStatus order s w
      else if path = ''/incidents'' then handleIncidents has_scheme s r w
      else if prefix incidents_path path then handleIncident has_scheme s r w
      else if path = ''/notifications/deliveries'' then handleDeliveries s r w
      else if path = ''/reports/summary'' then handleReport order s w
      else (writeError 404 ''not found'', w))"

end
