(* ===== verification/Api_Laws.thy ===== *)
theory Api_Laws
  imports Api Storage_Opened Notify_Laws
begin

text \<open>
  The contract of the API's store as a locale, the laws of the handlers proved inside it, its
  interpretation on the SQL store, and the properties of the interface.
\<close>

subsection \<open>Errors that do not say "not found"\<close>

definition op_benign :: "('a, 'd) op \<Rightarrow> bool" where
  "op_benign m \<longleftrightarrow> (\<forall>w. benign (fst (m w)))"

lemma op_benignD: "op_benign m \<Longrightarrow> m w = (Inl e, w1) \<Longrightarrow> \<not> errors_is e ErrNotFound"
  by (metis benign_def fst_conv op_benign_def)

named_theorems benign_intros \<open>operations whose errors never say "not found"\<close>

lemma op_benign_andThen [benign_intros]: "op_benign m \<Longrightarrow> (\<And>a. op_benign (f a)) \<Longrightarrow> op_benign (andThen m f)"
  by (auto simp: op_benign_def benign_def andThen_def split: prod.splits sum.splits) (metis fst_conv)+

lemma op_benign_map_err [benign_intros]: "op_benign m \<Longrightarrow> op_benign (map_err (wrapError op c) m)"
  by (auto simp: op_benign_def benign_def map_err_def wrapError_is_sentinel split: prod.splits sum.splits)
     (metis fst_conv)+

lemma op_benign_statement: "(\<And>t d. benign (fst (f t d))) \<Longrightarrow> op_benign (statement f)"
  by (auto simp: op_benign_def benign_def statement_def split: prod.splits option.splits dest: external_failure)
     (metis fst_conv)

lemma op_benign_query [benign_intros]: "op_benign (statement (query f))"
  by (rule op_benign_statement) (simp add: query_def)

lemma op_benign_history [benign_intros]: "op_benign (statement (query_history f))"
  by (rule op_benign_statement) (simp add: query_history_def benign_def split: option.split)

lemma op_benign_ok [benign_intros]: "op_benign (ok a)"
  by (simp add: op_benign_def ok_def)

lemma op_benign_lift [benign_intros]: "benign r \<Longrightarrow> op_benign (lift_result r)"
  by (cases r) (simp_all add: op_benign_def lift_result_def ok_def fail_def)

lemma op_benign_handles [benign_intros]: "op_benign database_handle" "op_benign connection_handle"
  by (simp_all add: op_benign_def benign_def database_handle_def connection_handle_def wrapError_is_sentinel)

lemma op_benign_validated: "(\<And>e. r = Some e \<Longrightarrow> \<not> errors_is e ErrNotFound) \<Longrightarrow> op_benign (validated op r)"
  by (cases r) (simp_all add: op_benign_def benign_def wrapError_is_sentinel)

lemma benign_those: "(\<And>r. r \<in> set rs \<Longrightarrow> benign r) \<Longrightarrow> benign (those_rows rs)"
  by (induction rs rule: those_rows.induct) (auto simp: benign_def split: sum.splits)

lemma op_benign_list_rows: "(\<And>r. benign (scan r)) \<Longrightarrow> op_benign (list_rows op1 op2 select scan)"
  unfolding list_rows_def by (intro benign_intros benign_those) auto

lemma benign_scanDelivery: "benign (scanNotificationDelivery row)"
  unfolding scanNotificationDelivery_def
  by (intro benign_column benign_parseTime benign_scanNullableTime benign_Inr)

lemma op_benign_limit [benign_intros]: "op_benign (validated op (limit_error n))"
  by (rule op_benign_validated) (auto simp: limit_error_def split: if_splits)

subsection \<open>The contract\<close>

locale read_store =
  fixes store :: "'d ApiStore"
    and listing :: "'d \<Rightarrow> IncidentRecord list"
    and lookup :: "'d \<Rightarrow> string \<Rightarrow> IncidentRecord option"
  assumes ping_reads: "keeps (\<lambda>d. d) (ps_Ping store)"
    and version_reads: "keeps (\<lambda>d. d) (ps_SchemaVersion store)"
    and incident_counts_read: "keeps (\<lambda>d. d) (ps_IncidentStatusCounts store)"
    and delivery_counts_read: "keeps (\<lambda>d. d) (ps_NotificationDeliveryStatusCounts store)"
    and listing_reads: "keeps (\<lambda>d. d) (ps_ListRecentIncidents store n)"
    and lookup_reads: "keeps (\<lambda>d. d) (ps_GetIncident store i)"
    and deliveries_read: "keeps (\<lambda>d. d) (ps_ListRecentNotificationDeliveries store i n)"
    and listing_found: "ps_ListRecentIncidents store n w = (Inr rs, w1) \<Longrightarrow> 0 < n \<Longrightarrow> rs = take (nat n) (listing (data w))"
    and deliveries_found: "ps_ListRecentNotificationDeliveries store i n w = (Inr ds, w1) \<Longrightarrow> 0 < n \<Longrightarrow> length ds \<le> nat n"
    and lookup_found: "ps_GetIncident store i w = (Inr r, w1) \<Longrightarrow> lookup (data w) i = Some r"
    and lookup_missing: "ps_GetIncident store i w = (Inl e, w1) \<Longrightarrow> errors_is e ErrNotFound \<Longrightarrow> lookup (data w) i = None"
    and listing_benign: "op_benign (ps_ListRecentIncidents store n)"
    and deliveries_benign: "op_benign (ps_ListRecentNotificationDeliveries store i n)"
    and version_benign: "op_benign (ps_SchemaVersion store)"
    and incident_counts_benign: "op_benign (ps_IncidentStatusCounts store)"
    and delivery_counts_benign: "op_benign (ps_NotificationDeliveryStatusCounts store)"
begin

lemmas store_reads =
  ping_reads version_reads incident_counts_read delivery_counts_read listing_reads lookup_reads deliveries_read

end

subsection \<open>The SQL store\<close>

text \<open>
  The store of the agent: the handle with its settings, and the tables. The two halves are opened
  and closed together.
\<close>

type_synonym store_data = "connection \<times> database"

definition on_connection :: "('a, connection) op \<Rightarrow> ('a, store_data) op" where
  "on_connection m w =
     (case m \<lparr>data = fst (data w), script = script w, wall = wall w\<rparr> of
        (x, w1) \<Rightarrow> (x, w\<lparr>data := (data w1, snd (data w)), script := script w1, wall := wall w1\<rparr>))"

definition on_tables :: "('a, database) op \<Rightarrow> ('a, store_data) op" where
  "on_tables m w =
     (case m \<lparr>data = snd (data w), script = script w, wall = wall w\<rparr> of
        (x, w1) \<Rightarrow> (x, w\<lparr>data := (fst (data w), data w1), script := script w1, wall := wall w1\<rparr>))"

definition sql_store :: "store_data ApiStore" where
  "sql_store =
     \<lparr>ps_Ping = on_connection Store_Ping, ps_SchemaVersion = on_connection SchemaVersion,
      ps_IncidentStatusCounts = on_tables IncidentStatusCounts,
      ps_NotificationDeliveryStatusCounts = on_tables NotificationDeliveryStatusCounts,
      ps_ListRecentIncidents = (\<lambda>n. on_tables (ListRecentIncidents n)),
      ps_GetIncident = (\<lambda>i. on_tables (GetIncident i)),
      ps_ListRecentNotificationDeliveries = (\<lambda>i n. on_tables (ListRecentNotificationDeliveries i n))\<rparr>"

lemma keeps_on_connection: "keeps (\<lambda>d. d) m \<Longrightarrow> keeps (\<lambda>d. d) (on_connection m)"
  by (auto simp: keeps_def [of _ "on_connection m"] on_connection_def split: prod.split dest!: keepsD)

lemma keeps_on_tables: "keeps (\<lambda>d. d) m \<Longrightarrow> keeps (\<lambda>d. d) (on_tables m)"
  by (auto simp: keeps_def [of _ "on_tables m"] on_tables_def split: prod.split dest!: keepsD)

lemma op_benign_on: "op_benign m \<Longrightarrow> op_benign (on_connection m)" "op_benign n \<Longrightarrow> op_benign (on_tables n)"
  by (auto simp: op_benign_def on_connection_def on_tables_def split: prod.split) (metis fst_conv)+

lemma on_tables_run:
  assumes "on_tables m w = (x, w1)"
  obtains v v1 where "data v = snd (data w)" "wall v = wall w" "script v = script w" "m v = (x, v1)"
proof -
  obtain v1 where "m \<lparr>data = snd (data w), script = script w, wall = wall w\<rparr> = (x, v1)"
    using assms by (auto simp: on_tables_def split: prod.splits)
  then show ?thesis by (intro that [of "\<lparr>data = snd (data w), script = script w, wall = wall w\<rparr>"]) simp_all
qed

definition all_incidents :: "store_data \<Rightarrow> IncidentRecord list" where
  "all_incidents d = map (\<lambda>row. the (scanned (scanIncident row))) (recent_incidents (snd d))"

definition stored_incident_row :: "store_data \<Rightarrow> string \<Rightarrow> IncidentRecord option" where
  "stored_incident_row d i =
     Option.bind (get_row (\<lambda>x. ir_id x = i) (incident_rows (snd d))) (\<lambda>row. scanned (scanIncident row))"

lemma map_scan_Inr: "map scan rows = map Inr xs \<Longrightarrow> xs = map (\<lambda>r. the (scanned (scan r))) rows"
  by (induction rows arbitrary: xs) (auto simp: scanned_def)

lemma sql_reads:
  "keeps (\<lambda>d. d) (ps_Ping sql_store)" "keeps (\<lambda>d. d) (ps_SchemaVersion sql_store)"
  "keeps (\<lambda>d. d) (ps_IncidentStatusCounts sql_store)" "keeps (\<lambda>d. d) (ps_NotificationDeliveryStatusCounts sql_store)"
  "keeps (\<lambda>d. d) (ps_ListRecentIncidents sql_store n)" "keeps (\<lambda>d. d) (ps_GetIncident sql_store i)"
  "keeps (\<lambda>d. d) (ps_ListRecentNotificationDeliveries sql_store i n)"
proof -
  have "keeps (\<lambda>d. d) connection_handle" by (simp add: keeps_def connection_handle_def)
  note frames = frame_intros this keeps_on_connection keeps_on_tables keeps_GetIncident
  show "keeps (\<lambda>d. d) (ps_Ping sql_store)" "keeps (\<lambda>d. d) (ps_SchemaVersion sql_store)"
    "keeps (\<lambda>d. d) (ps_IncidentStatusCounts sql_store)" "keeps (\<lambda>d. d) (ps_NotificationDeliveryStatusCounts sql_store)"
    "keeps (\<lambda>d. d) (ps_ListRecentIncidents sql_store n)" "keeps (\<lambda>d. d) (ps_GetIncident sql_store i)"
    "keeps (\<lambda>d. d) (ps_ListRecentNotificationDeliveries sql_store i n)"
    by (simp_all add: sql_store_def Store_Ping_def SchemaVersion_def currentSchemaVersion_def IncidentStatusCounts_def
        NotificationDeliveryStatusCounts_def count_statuses_def ListRecentIncidents_def
        ListRecentNotificationDeliveries_def frames)
qed

lemma sql_benign:
  "op_benign (ps_SchemaVersion sql_store)" "op_benign (ps_IncidentStatusCounts sql_store)"
  "op_benign (ps_NotificationDeliveryStatusCounts sql_store)" "op_benign (ps_ListRecentIncidents sql_store n)"
  "op_benign (ps_ListRecentNotificationDeliveries sql_store i n)"
  by (simp_all add: sql_store_def SchemaVersion_def currentSchemaVersion_def IncidentStatusCounts_def
      NotificationDeliveryStatusCounts_def count_statuses_def ListRecentIncidents_def
      ListRecentNotificationDeliveries_def op_benign_on benign_intros op_benign_list_rows benign_scanIncident
      benign_scanDelivery)

lemma sql_listing:
  assumes "ps_ListRecentIncidents sql_store n w = (Inr rs, w1)" "0 < n"
  shows "rs = take (nat n) (all_incidents (data w))"
proof -
  from assms(1) obtain v v1 where "data v = snd (data w)" "ListRecentIncidents n v = (Inr rs, v1)"
    by (auto simp: sql_store_def elim!: on_tables_run)
  then have "map scanIncident (take (nat n) (recent_incidents (snd (data w)))) = map Inr rs"
    by (auto simp: ListRecentIncidents_def andThen_Inr_iff dest!: validated_cases database_handle_cases list_rows_Inr)
  then show ?thesis by (simp add: map_scan_Inr all_incidents_def take_map)
qed

lemma sql_deliveries:
  assumes "ps_ListRecentNotificationDeliveries sql_store i n w = (Inr ds, w1)" "0 < n"
  shows "length ds \<le> nat n"
proof -
  from assms(1) obtain v v1 where run: "ListRecentNotificationDeliveries i n v = (Inr ds, v1)"
    by (auto simp: sql_store_def elim!: on_tables_run)
  then obtain xs where "map scanNotificationDelivery (take (nat n) xs) = map Inr ds"
    by (auto simp: ListRecentNotificationDeliveries_def andThen_Inr_iff dest!: validated_cases database_handle_cases list_rows_Inr)
  then have "length (map scanNotificationDelivery (take (nat n) xs)) = length (map Inr ds :: (go_error + _) list)" by (rule arg_cong)
  then show ?thesis by simp
qed

lemma sql_lookup:
  assumes "ps_GetIncident sql_store i w = (x, w1)"
  shows "x = Inr r \<Longrightarrow> stored_incident_row (data w) i = Some r"
    "x = Inl e \<Longrightarrow> errors_is e ErrNotFound \<Longrightarrow> stored_incident_row (data w) i = None"
proof -
  from assms obtain v v1 where d: "data v = snd (data w)" and run: "GetIncident i v = (x, v1)"
    by (auto simp: sql_store_def elim!: on_tables_run)
  show "x = Inr r \<Longrightarrow> stored_incident_row (data w) i = Some r"
    using run d
    by (auto simp: GetIncident_def getIncident_def andThen_Inr_iff stored_incident_row_def scanned_def
        dest!: validated_cases database_handle_cases query_row_result)
  show "x = Inl e \<Longrightarrow> errors_is e ErrNotFound \<Longrightarrow> stored_incident_row (data w) i = None"
    using run d
    by (auto simp: GetIncident_def getIncident_def andThen_Inl_iff stored_incident_row_def wrapError_is_sentinel
        split: if_splits dest!: validated_cases database_handle_cases query_row_result required_not_found
        dest: benignD [OF benign_scanIncident])
qed

interpretation sql: read_store sql_store all_incidents stored_incident_row
  by unfold_locales (auto simp: sql_reads sql_benign sql_deliveries dest: sql_listing sql_lookup)

subsection \<open>The handlers\<close>

text \<open>A handler that leaves the data of the store alone.\<close>

definition reads_only :: "('d world \<Rightarrow> 'a \<times> 'd world) \<Rightarrow> bool" where
  "reads_only f \<longleftrightarrow> (\<forall>w. data (snd (f w)) = data w)"

named_theorems reads_intros \<open>handlers that leave the data of the store alone\<close>

lemma reads_only_same [reads_intros]: "reads_only (\<lambda>w. (f w, w))"
  by (simp add: reads_only_def)

lemma reads_result:
  assumes "keeps (\<lambda>d. d) m" "\<And>e w1. data w1 = data w \<Longrightarrow> data (snd (f e w1)) = data w"
    "\<And>x w1. data w1 = data w \<Longrightarrow> data (snd (g x w1)) = data w"
  shows "data (snd (case m w of (Inl e, w1) \<Rightarrow> f e w1 | (Inr x, w1) \<Rightarrow> g x w1)) = data w"
proof -
  obtain x w1 where m: "m w = (x, w1)" by fastforce
  with keepsD [OF assms(1) m] assms(2,3) show ?thesis by (cases x) simp_all
qed

lemma reads_only_status_step [reads_intros]:
  "keeps (\<lambda>d. d) m \<Longrightarrow> (\<And>x r. reads_only (k x r)) \<Longrightarrow> reads_only (status_step m k r)"
  unfolding reads_only_def status_step_def by (intro allI reads_result) simp_all

lemma reads_only_report_step [reads_intros]:
  "keeps (\<lambda>d. d) m \<Longrightarrow> (\<And>x r. reads_only (k x r)) \<Longrightarrow> reads_only (report_step m k r)"
  unfolding reads_only_def report_step_def by (intro allI reads_result) simp_all

lemma reads_only_stored_answer [reads_intros]: "keeps (\<lambda>d. d) m \<Longrightarrow> reads_only (stored_answer m render)"
  unfolding reads_only_def stored_answer_def by (intro allI reads_result) simp_all

text \<open>What the interface answers with: the texts of its errors are fixed.\<close>

definition error_texts :: "string list" where
  "error_texts =
     [''method not allowed'', ''not found'', ''storage unavailable'', ''invalid limit'', ''invalid incident id'',
      ''reports disabled'', ''storage error'', ''json response could not be encoded'']"

definition well_formed_answer :: "Response \<Rightarrow> bool" where
  "well_formed_answer rsp \<longleftrightarrow>
     rsp_Headers rsp = response_headers \<and> rsp_Status rsp \<in> {200, 400, 404, 405, 500, 503} \<and> value_encodes (rsp_Body rsp) \<and>
     (rsp_Status rsp \<noteq> 200 \<longrightarrow>
        rsp_Body rsp \<in> Error_Value ` set error_texts \<or>
        (\<exists>t. rsp_Status rsp = 503 \<and> rsp_Body rsp = Ready_Value False t))"

lemma value_encodes_error [simp]: "value_encodes (Error_Value t)"
  by (simp add: value_encodes_def)

lemma well_formed_writeJSON: "well_formed_answer (writeJSON 200 v)"
  by (auto simp: well_formed_answer_def writeJSON_def error_texts_def)

lemma error_texts_plain: "t \<in> set error_texts \<Longrightarrow> Redact t = t"
  by (auto simp: error_texts_def plain_text_def)

lemma well_formed_writeError:
  "t \<in> set error_texts \<Longrightarrow> status \<in> {400, 404, 405, 500, 503} \<Longrightarrow> well_formed_answer (writeError status t)"
  by (auto simp: well_formed_answer_def writeError_def writeJSON_def error_texts_plain)

lemma well_formed_ready: "well_formed_answer (handleReady s w)"
  by (auto simp: well_formed_answer_def handleReady_def writeJSON_def error_texts_def)

lemma well_formed_storage: "well_formed_answer (writeStorageError e)"
  by (simp add: writeStorageError_def well_formed_writeError error_texts_def)

lemma parseLimit_range: "parseLimit values = Inr limit \<Longrightarrow> 1 \<le> limit \<and> limit \<le> maxLimit"
  by (auto simp: parseLimit_def Let_def defaultLimit_def maxLimit_def split: if_splits sum.splits)

lemma parseLimit_refused: "parseLimit values = Inl rsp \<Longrightarrow> rsp = writeError 400 ''invalid limit''"
  by (auto simp: parseLimit_def Let_def split: if_splits sum.splits)

text \<open>What follows from the contract alone, for a server with that store or with none.\<close>

context read_store
begin

lemma reads_only_Generate:
  assumes "st = reportStore None \<or> st = reportStore (Some store)"
  shows "reads_only (Generate order (Some st) opts)"
proof -
  have "keeps (\<lambda>d. d) (ps_Ping st)" "keeps (\<lambda>d. d) (ps_SchemaVersion st)" "keeps (\<lambda>d. d) (ps_IncidentStatusCounts st)"
    "keeps (\<lambda>d. d) (ps_NotificationDeliveryStatusCounts st)" "keeps (\<lambda>d. d) (ps_ListRecentIncidents st n)" for n
    using assms by (auto simp: reportStore_def store_reads keeps_fail)
  note steps = this
  have pinged: "reads_only (\<lambda>w. case ps_Ping st w of (Inl e, w1) \<Rightarrow> (f w e, w1) | (Inr x, w1) \<Rightarrow> g w x w1)"
    if "\<And>w x. reads_only (g w x)" for f :: "'d world \<Rightarrow> go_error \<Rightarrow> Summary \<times> go_error option" and g
    using steps(1) that unfolding reads_only_def by (intro allI reads_result) simp_all
  then show ?thesis
    unfolding Generate_def Let_def option.case by (intro pinged reads_intros steps)
qed

lemma reads_only_status:
  assumes "ao_Store (as_opts s) = None \<or> ao_Store (as_opts s) = Some store"
  shows "reads_only (server_status order s)"
proof (cases "ao_Store (as_opts s) = None")
  case False
  with assms have "ao_Store (as_opts s) = Some store" by simp
  moreover have "reads_only (status_step (ps_Ping store) k r)" if "\<And>x r. reads_only (k x r)" for k r
    using that by (intro reads_intros ping_reads)
  ultimately show ?thesis
    by (auto simp: server_status_def reads_only_def [of "server_status order s"] Let_def store_reads reads_intros
        intro!: reads_only_status_step [unfolded reads_only_def, rule_format])
qed (simp add: server_status_def reads_only_def Let_def)

lemma reads_only_lists:
  assumes "ao_Store (as_opts s) = None \<or> ao_Store (as_opts s) = Some store"
  shows "reads_only (handleIncidents has_scheme s r)" "reads_only (handleIncident has_scheme s r)"
    "reads_only (handleDeliveries s r)"
  using assms reads_only_stored_answer [OF listing_reads] reads_only_stored_answer [OF lookup_reads]
    reads_only_stored_answer [OF deliveries_read]
  by (auto simp: reads_only_def handleIncidents_def handleIncident_def handleDeliveries_def Let_def
      split: sum.split option.split)

lemma reads_only_handle:
  assumes "ao_Store (as_opts s) = None \<or> ao_Store (as_opts s) = Some store"
  shows "reads_only (handle_request order has_scheme s r)"
proof -
  have report: "reads_only (handleReport order s)"
  proof -
    have "reads_only (Generate order (Some (reportStore (ao_Store (as_opts s)))) (ao_Reports (as_opts s)))"
      using assms by (intro reads_only_Generate) auto
    then have "data w1 = data w"
      if "Generate order (Some (reportStore (ao_Store (as_opts s)))) (ao_Reports (as_opts s)) w = (x, w1)" for x w w1
      using that unfolding reads_only_def by (metis snd_conv)
    then show ?thesis
      by (auto simp: reads_only_def handleReport_def split: prod.split option.split)
  qed
  have status: "reads_only (handleStatus order s)"
    using reads_only_status [OF assms] by (simp add: reads_only_def handleStatus_def split: prod.split) (metis snd_conv)
  show ?thesis
    using report status reads_only_lists [OF assms] by (simp add: handle_request_def Let_def reads_only_def)
qed

lemma listing_answer:
  assumes "handleIncidents has_scheme s r w = (rsp, w1)" "ao_Store (as_opts s) = Some store" "rsp_Status rsp = 200"
  obtains limit where "parseLimit (Query (rq_RawQuery r)) = Inr limit"
    "rsp_Body rsp = Incidents_Value (map (\<lambda>x. safeIncident has_scheme x (ao_EvidenceRoot (as_opts s)))
       (take (nat limit) (listing (data w))))"
proof -
  have no: "rsp_Status (writeStorageError e) \<noteq> 200" "rsp_Status (writeError 400 t) \<noteq> 200" for e t
    by (simp_all add: writeStorageError_def writeError_def writeJSON_def)
  have "0 < limit" if "parseLimit (Query (rq_RawQuery r)) = Inr limit" for limit
    using parseLimit_range [OF that] by simp
  moreover have "rsp_Body (writeJSON 200 v) = v" if "rsp_Status (writeJSON 200 v) = 200" for v
    using that by (simp add: writeJSON_def split: if_splits)
  ultimately show ?thesis
    using assms no that
    by (auto simp: handleIncidents_def stored_answer_def split: sum.splits prod.splits dest!: listing_found parseLimit_refused
        dest: sym)
qed

end

end
