(* ===== verification/Api_Properties.thy ===== *)
theory Api_Properties
  imports Api_Laws
begin

text \<open>
  The properties of the HTTP interface over the SQL store: it only reads, its answers and errors
  come from a fixed stock, and a listing is the most recent incidents, rendered one by one.
\<close>

definition serves :: "store_data Server \<Rightarrow> bool" where
  "serves s \<longleftrightarrow> ao_Store (as_opts s) = None \<or> ao_Store (as_opts s) = Some sql_store"

lemma well_formed_stored: "well_formed_answer (fst (stored_answer m render w))"
  by (simp add: stored_answer_def well_formed_storage well_formed_writeJSON split: prod.split sum.split)

lemma well_formed_handle: "well_formed_answer (fst (handle_request order has_scheme s r w))"
proof -
  have texts: "t \<in> set error_texts \<Longrightarrow> st \<in> {400, 404, 405, 503} \<Longrightarrow> well_formed_answer (writeError st t)" for st t
    by (rule well_formed_writeError) auto
  note answers = texts well_formed_stored well_formed_storage well_formed_writeJSON well_formed_ready
  have "well_formed_answer (fst (handleStatus order s w))" "well_formed_answer (fst (handleReport order s w))"
    "well_formed_answer (fst (handleIncidents has_scheme s r w))" "well_formed_answer (fst (handleIncident has_scheme s r w))"
    "well_formed_answer (fst (handleDeliveries s r w))"
    by (auto simp: handleStatus_def handleReport_def handleIncidents_def handleIncident_def handleDeliveries_def
        unavailable_def Let_def error_texts_def
        intro!: answers split: prod.split sum.split option.split dest!: parseLimit_refused)
  then show ?thesis
    by (auto simp: handle_request_def Let_def handleHealth_def error_texts_def intro!: answers)
qed

text \<open>
  The two values that tell of an error of the store with status 200, and what they may tell: one of
  two classes, and a text that went through the redaction.
\<close>

definition error_shown :: "api_value \<Rightarrow> (string \<times> string) option" where
  "error_shown v =
     (case v of
        Status_Value r \<Rightarrow> Some (sr_ErrorClass r, sr_ErrorSummary r)
      | Report_Value sm \<Rightarrow> Some (sm_ErrorClass sm, sm_ErrorSummary sm)
      | _ \<Rightarrow> None)"

definition error_redacted :: "api_value \<Rightarrow> bool" where
  "error_redacted v \<longleftrightarrow>
     (\<forall>cls summary. error_shown v = Some (cls, summary) \<longrightarrow>
        cls \<in> {[], ''storage'', ''api_serve''} \<and> (\<exists>t. summary = Redact t) \<and> (cls = [] \<longrightarrow> summary = []))"

abbreviation status_clean :: "StatusResponse \<Rightarrow> bool" where
  "status_clean r \<equiv> error_redacted (Status_Value r)"

lemma Redact_storage [simp]: "Redact ''storage'' = ''storage''"
  by (simp add: plain_text_def)

lemma status_clean_set: "status_clean r \<Longrightarrow> status_clean (setStatusError ''storage'' summary r)"
  by (auto simp: error_redacted_def error_shown_def setStatusError_def)

lemma status_clean_initial: "status_clean (serve_status s (initial_response s w))"
proof -
  have "\<exists>t. serveError (Some s) = Redact t" if "serveError (Some s) \<noteq> []"
    using that by (auto simp: serveError_def split: option.splits)
  moreover have "\<exists>t. [] = Redact t" by (rule exI [of _ "[]"]) (simp add: plain_text_def)
  ultimately show ?thesis by (auto simp: error_redacted_def error_shown_def serve_status_def initial_response_def Let_def)
qed

lemma status_clean_fields [simp]:
  "status_clean (r\<lparr>sr_StorageAvailable := b\<rparr>) = status_clean r" "status_clean (r\<lparr>sr_SchemaVersion := n\<rparr>) = status_clean r"
  "status_clean (r\<lparr>sr_IncidentCounts := m, sr_OpenIncidentCount := i, sr_ResolvedIncidentCount := j\<rparr>) = status_clean r"
  "status_clean (r\<lparr>sr_DeliveryCounts := m, sr_NotificationDeliveryCount := i\<rparr>) = status_clean r"
  by (simp_all add: error_redacted_def error_shown_def)

lemma status_clean_step:
  "status_clean r \<Longrightarrow> (\<And>x w. status_clean (fst (k x r w))) \<Longrightarrow> status_clean (fst (status_step m k r w))"
  by (auto simp: status_step_def status_clean_set split: prod.split sum.split)

lemma status_clean_server: "status_clean (fst (server_status order s w))"
proof -
  have c: "status_clean (serve_status s (initial_response s w))" by (rule status_clean_initial)
  show ?thesis
  proof (cases "ao_Store (as_opts s)")
    case None
    with c show ?thesis by (simp add: server_status_def Let_def status_clean_set)
  next
    case (Some store)
    show ?thesis
      unfolding server_status_def Let_def Some option.case
      by (intro status_clean_step c) (simp_all add: c)
  qed
qed

lemma report_clean:
  assumes "Generate order store opts w = ((sm, None), w1)"
  shows "error_redacted (Report_Value sm)"
proof -
  have tally: "sm_ErrorClass (tally b is s0) = sm_ErrorClass s0" "sm_ErrorSummary (tally b is s0) = sm_ErrorSummary s0" for b "is" s0
    by (induction b "is" s0 rule: tally.induct) auto
  have problem: "error_redacted (Report_Value (storage_problem (Redact t) s0))" for t s0
    by (auto simp: error_redacted_def error_shown_def storage_problem_def)
  show ?thesis
  proof (cases store)
    case None
    have "Redact ''storage is unavailable'' = ''storage is unavailable''" by (simp add: plain_text_def)
    with None assms problem [of "''storage is unavailable''"] show ?thesis by (auto simp: Generate_def Let_def)
  next
    case (Some st)
    show ?thesis
    proof (cases "ps_Ping st w")
      case (Pair p w2)
      show ?thesis
      proof (cases p)
        case (Inl e)
        with Some Pair assms problem show ?thesis by (auto simp: Generate_def Let_def)
      next
        case (Inr u)
        with Some Pair assms have "sm_ErrorClass sm = []" "sm_ErrorSummary sm = []"
          by (auto simp: Generate_def Let_def report_step_def initial_summary_def sort_resolved_def tally
              split: prod.splits sum.splits)
        moreover have "\<exists>t. [] = Redact t" by (rule exI [of _ "[]"]) (simp add: plain_text_def)
        ultimately show ?thesis by (simp add: error_redacted_def error_shown_def)
      qed
    qed
  qed
qed

lemma error_redacted_other [simp]:
  "error_redacted (Error_Value t)" "error_redacted (Health_Value now)" "error_redacted (Ready_Value b now)"
  "error_redacted (Incident_Value i)" "error_redacted (Incidents_Value is)" "error_redacted (Deliveries_Value ds)"
  by (simp_all add: error_redacted_def error_shown_def)

lemma error_redacted_writeJSON: "error_redacted v \<Longrightarrow> error_redacted (rsp_Body (writeJSON st v))"
  by (simp add: writeJSON_def)

lemma error_redacted_handle: "error_redacted (rsp_Body (fst (handle_request order has_scheme s r w)))"
proof -
  have error: "error_redacted (rsp_Body (writeError st t))" "error_redacted (rsp_Body (writeStorageError e))" for st t e
    by (simp_all add: writeError_def writeStorageError_def error_redacted_writeJSON)
  have stored: "error_redacted (rsp_Body (fst (stored_answer m render w)))" if "\<And>x. error_redacted (render x)" for m render
    using that by (auto simp: stored_answer_def error error_redacted_writeJSON split: prod.split sum.split)
  have limit: "error_redacted (rsp_Body rsp)" if "parseLimit values = Inl rsp" for "values" rsp
    using parseLimit_refused [OF that] error by simp
  have "error_redacted (rsp_Body (fst (handleStatus order s w)))"
    using status_clean_server [of order s w] by (auto simp: handleStatus_def error_redacted_writeJSON split: prod.split)
  moreover have "error_redacted (rsp_Body (fst (handleReport order s w)))"
    by (auto simp: handleReport_def error error_redacted_writeJSON split: prod.split option.split dest: report_clean)
  moreover have "error_redacted (rsp_Body (fst (handleIncidents has_scheme s r w)))"
    "error_redacted (rsp_Body (fst (handleDeliveries s r w)))"
    by (auto simp: handleIncidents_def handleDeliveries_def unavailable_def error stored
        split: option.split sum.split dest: limit)
  moreover have "error_redacted (rsp_Body (fst (handleIncident has_scheme s r w)))"
    by (auto simp: handleIncident_def unavailable_def error stored Let_def split: option.split)
  ultimately show ?thesis
    by (auto simp: handle_request_def Let_def handleHealth_def handleReady_def error error_redacted_writeJSON)
qed

text \<open>
  C34: every request to the HTTP interface only reads. Whatever the method, the path and the query are and
  whatever fails in the store, the data of the store is as before, the answer has one of six statuses and the
  three fixed headers, and an answer other than 200 says one of eight fixed texts (or that the agent
  is not ready). Of the answers with 200, only the status and the report tell of an error: its class is
  fixed and its text went through the redaction. Any method but GET gets a 405.
\<close>

theorem api_reads_only:
  assumes "serves s" "handle_request order has_scheme s r w = (rsp, w1)"
  shows "data w1 = data w \<and> well_formed_answer rsp \<and> error_redacted (rsp_Body rsp) \<and>
    (rq_Method r \<noteq> ''GET'' \<longrightarrow> rsp_Status rsp = 405)"
proof -
  have "reads_only (handle_request order has_scheme s r)"
    using assms(1) unfolding serves_def by (rule sql.reads_only_handle)
  then have "data w1 = data w" using assms(2) unfolding reads_only_def by (metis snd_conv)
  moreover have "well_formed_answer rsp" "error_redacted (rsp_Body rsp)"
    using well_formed_handle [of order has_scheme s r w] error_redacted_handle [of order has_scheme s r w] assms(2) by simp_all
  moreover have "rsp_Status rsp = 405" if "rq_Method r \<noteq> ''GET''"
    using assms(2) that by (auto simp: handle_request_def writeError_def writeJSON_def)
  ultimately show ?thesis by blast
qed

definition example_server :: "store_data Server" where
  "example_server =
     \<lparr>as_opts = \<lparr>ao_Enabled = True, ao_Listen = ''127.0.0.1:9587'', ao_AllowNonLoopback = False, ao_ReadTimeout = 5 * second,
        ao_WriteTimeout = 10 * second, ao_ShutdownTimeout = 10 * second, ao_Store = Some sql_store,
        ao_Reports = \<lparr>ro_Enabled = True, ro_MaxIncidents = 100, ro_IncludeResolved = True, ro_SchedulerStatus = None\<rparr>,
        ao_SchedulerStatus = None, ao_EvidenceRoot = ''/var/log/pooly'', ao_Listener = None\<rparr>,
      as_listener = Some ''127.0.0.1:9587'', as_ready = True, as_serveErr = Some []\<rparr>"

definition example_request :: Request where
  "example_request = \<lparr>rq_Method = ''GET'', rq_Path = ''/incidents'', rq_RawQuery = ''limit=7''\<rparr>"

definition example_data :: store_data where
  "example_data = (fresh_connection\<lparr>cn_open := True\<rparr>, empty_database)"

theorem api_reads_only_witness:
  "data (snd (handle_request (\<lambda>_. []) (\<lambda>_. False) example_server example_request
     \<lparr>data = example_data, script = [Some (Driver_Error ''disk I/O error'')], wall = 5\<rparr>)) = example_data"
  using api_reads_only [of example_server "\<lambda>_. []" "\<lambda>_. False" example_request, OF _ surjective_pairing]
  by (simp add: serves_def example_server_def)

text \<open>A listing succeeds when nothing fails and every row scans.\<close>

lemma those_rows_scans: "list_all (\<lambda>r. scanned (scan r) \<noteq> None) rows \<Longrightarrow>
  those_rows (map scan rows) = Inr (map (\<lambda>r. the (scanned (scan r))) rows)"
  by (induction rows) (auto simp: scanned_def split: sum.splits)

lemma ListRecentIncidents_quiet:
  assumes "quiet v" "db_open (data v)" "1 \<le> n" "n \<le> 1000"
    "list_all (\<lambda>r. scanned (scanIncident r) \<noteq> None) (recent_incidents (data v))"
  shows "ListRecentIncidents n v = (Inr (take (nat n) (map (\<lambda>r. the (scanned (scanIncident r))) (recent_incidents (data v)))), v)"
proof -
  have "list_all (\<lambda>r. scanned (scanIncident r) \<noteq> None) (take (nat n) (recent_incidents (data v)))"
    using assms(5) by (auto simp: list_all_iff dest: in_set_takeD)
  from those_rows_scans [OF this] assms show ?thesis
    by (simp add: ListRecentIncidents_def limit_error_def andThen_def list_rows_def map_err_def query_def
        lift_result_def ok_def take_map)
qed

definition readable :: "store_data \<Rightarrow> bool" where
  "readable d \<longleftrightarrow> db_open (snd d) \<and> list_all (\<lambda>r. scanned (scanIncident r) \<noteq> None) (recent_incidents (snd d))"

lemma sql_listing_quiet:
  assumes "quiet w" "readable (data w)" "1 \<le> n" "n \<le> 500"
  shows "ps_ListRecentIncidents sql_store n w = (Inr (take (nat n) (all_incidents (data w))), w)"
  using assms ListRecentIncidents_quiet [of "\<lparr>data = snd (data w), script = script w, wall = wall w\<rparr>" n]
  by (simp add: sql_store_def on_tables_def readable_def all_incidents_def quiet_def)

text \<open>
  Rows in the order of their update times to the second: of two rows whose column holds the text of
  an instant, the earlier one is not from an earlier second.
\<close>

definition latest_second_first :: "incident_row list \<Rightarrow> bool" where
  "latest_second_first rows \<longleftrightarrow>
     sorted_wrt (\<lambda>a b. \<forall>s t. ir_updated_at a = Time_Text s \<longrightarrow> ir_updated_at b = Time_Text t \<longrightarrow> t div second \<le> s div second) rows"

lemma text_key_seconds: "text_key (Time_Text t) \<le> text_key (Time_Text s) \<Longrightarrow> t div second \<le> s div second"
  by (auto simp: text_key_def second_def less_eq_prod_def)

text \<open>
  C35: a request for the incidents is answered with the first rows of the table in the order of the
  stored update times, the latest text first and equal texts by identifier. With an open database
  whose rows scan and nothing failing, and with a limit the interface accepts (none given is 100, at
  most 500), the body has the first that many of all rows in this order, each rendered with every
  text redacted and its evidence path made relative or dropped; the answer is 200 unless a stored
  time lies outside the years JSON can write. The order of the texts is the order of the times to the
  second; within a second the texts with fewer digits of the fraction do not sort by time.
\<close>

theorem incidents_listed:
  assumes "quiet w" "readable (data w)" "ao_Store (as_opts s) = Some sql_store"
    "rq_Method r = ''GET''" "rq_Path r = ''/incidents''" "parseLimit (Query (rq_RawQuery r)) = Inr limit"
  shows "handle_request order has_scheme s r w =
      (writeJSON 200 (Incidents_Value
         (map (\<lambda>x. safeIncident has_scheme x (ao_EvidenceRoot (as_opts s))) (take (nat limit) (all_incidents (data w))))), w) \<and>
    1 \<le> limit \<and> limit \<le> 500 \<and>
    mset (recent_incidents (snd (data w))) = mset (incident_rows (snd (data w))) \<and>
    sorted_wrt (\<lambda>a b. text_key (ir_updated_at b) \<le> text_key (ir_updated_at a)) (recent_incidents (snd (data w))) \<and>
    latest_second_first (recent_incidents (snd (data w)))"
proof -
  from parseLimit_range [OF assms(6)] have range: "1 \<le> limit" "limit \<le> 500" by (simp_all add: maxLimit_def)
  have sorted: "sorted_wrt (\<lambda>a b. text_key (ir_updated_at b) \<le> text_key (ir_updated_at a)) (recent_incidents (snd (data w)))"
    using sorted_sort_key [of "\<lambda>x. text_key (ir_updated_at x)" "rev (sort_key (\<lambda>x. map byte (ir_id x)) (incident_rows (snd (data w))))"]
    by (simp add: recent_incidents_def sort_desc_def sorted_wrt_rev sorted_wrt_map)
  then have "latest_second_first (recent_incidents (snd (data w)))"
    unfolding latest_second_first_def by (rule sorted_wrt_mono_rel [rotated]) (metis text_key_seconds)
  moreover have "mset (recent_incidents (snd (data w))) = mset (incident_rows (snd (data w)))"
    by (simp add: recent_incidents_def sort_desc_def)
  ultimately show ?thesis
    using sorted range sql_listing_quiet [OF assms(1,2) range] assms
    by (simp add: handle_request_def handleIncidents_def stored_answer_def)
qed

definition example_incident :: IncidentRecord where
  "example_incident =
     \<lparr>inc_ID = ''i1'', inc_Fingerprint = ''f1'', inc_NodeID = ''n1'', inc_Type = ''disk'', inc_Target = ''root'',
      inc_Condition = ''full'', inc_Severity = ''warning'', inc_Status = ''open'', inc_Summary = ''disk is full'',
      inc_FirstSeen = 1, inc_LastSeen = 2, inc_LastAlerted = None, inc_OccurrenceCount = 1, inc_EvidencePath = [],
      inc_ResolvedAt = None, inc_LastTransition = None, inc_UpdatedAt = 2\<rparr>"

definition example_listing :: "store_data world" where
  "example_listing =
     \<lparr>data = (fresh_connection, empty_database\<lparr>incident_rows := [incident_values 5 example_incident]\<rparr>),
      script = [], wall = 5\<rparr>"

lemma example_readable: "incident_readable (incident_values 5 example_incident)"
  by (simp add: values_readable example_incident_def readable_time_def orNow_def is_zero_time_def)

lemma example_query: "parseLimit (Query ''limit=7'') = Inr 7"
proof -
  have "values_get (Query ''limit=7'') ''limit'' = ''7''" "Itoa 7 = ''7''" by (code_simp, code_simp)
  with ParseInt_Itoa [of 7] show ?thesis by (simp add: parseLimit_def maxLimit_def)
qed

lemma example_recent: "recent_incidents (snd (data example_listing)) = [incident_values 5 example_incident]"
  by (simp add: recent_incidents_def sort_desc_def example_listing_def)

theorem incidents_listed_witness:
  "fst (handle_request (\<lambda>_. []) (\<lambda>_. False) example_server example_request example_listing) =
     writeJSON 200 (Incidents_Value [safeIncident (\<lambda>_. False) (stored_incident 5 example_incident) ''/var/log/pooly''])"
proof -
  have "readable (data example_listing)"
    using example_recent by (simp add: readable_def example_readable) (simp add: example_listing_def empty_database_def)
  moreover have "all_incidents (data example_listing) = [stored_incident 5 example_incident]"
    by (simp add: all_incidents_def example_recent example_readable)
  ultimately show ?thesis
    using incidents_listed [of example_listing example_server example_request 7 "\<lambda>_. []" "\<lambda>_. False"] example_query
    by (simp add: example_server_def example_request_def quiet_def example_listing_def)
qed

end
