(* ===== verification/Lifecycle.thy ===== *)
theory Lifecycle
  imports Scheduler
begin

text \<open>
  \<open>internal/agent/lifecycle.go\<close>: how the agent brings its services up and takes them down. A
  service is a record of calls on a state of any type, \<open>RuntimeOptions\<close> says which services there
  are, and \<open>RunInfrastructure\<close> calls them in the order of the code. The abstract specification is
  an automaton over the events of a run, which says what may happen when; the code refines it.
\<close>

record 'r APIService =
  svc_Start :: "'r \<Rightarrow> go_error option \<times> 'r"
  svc_SetReady :: "bool \<Rightarrow> 'r \<Rightarrow> 'r"
  svc_Shutdown :: "duration \<Rightarrow> 'r \<Rightarrow> go_error option \<times> 'r"
  svc_Addr :: "'r \<Rightarrow> string"

record 'r SchedulerService =
  sch_Start :: "'r \<Rightarrow> go_error option \<times> 'r"
  sch_Stop :: "duration \<Rightarrow> 'r \<Rightarrow> go_error option \<times> 'r"

record 'r Notifier =
  ntf_Ready :: "'r \<Rightarrow> go_error option \<times> 'r"
  ntf_Stopping :: "'r \<Rightarrow> go_error option \<times> 'r"

text \<open>
  The watchdog goroutine: it is started, its context is canceled, and the wait for it ends with the
  goroutine or with the timeout.
\<close>

record 'r Watchdog =
  wdg_Run :: "'r \<Rightarrow> 'r"
  wdg_Cancel :: "'r \<Rightarrow> 'r"
  wdg_Wait :: "duration \<Rightarrow> 'r \<Rightarrow> 'r"

record 'r RuntimeOptions =
  rto_Store :: "('r \<Rightarrow> go_error option \<times> 'r) option"
  rto_API :: "'r APIService option"
  rto_Scheduler :: "'r SchedulerService option"
  rto_Notifier :: "'r Notifier option"
  rto_ShutdownTimeout :: duration
  rto_WatchdogEnabled :: bool
  rto_RunWatchdog :: "'r Watchdog option"

text \<open>The context of the run: its error when asked, and the wait for its end.\<close>

record 'r RunContext =
  rcx_Err :: "'r \<Rightarrow> go_error option \<times> 'r"
  rcx_Wait :: "'r \<Rightarrow> 'r"

definition errAPIAddressUnavailable :: go_error where
  "errAPIAddressUnavailable = Text_Error ''api listener address unavailable after start''"

definition closeStore :: "('r \<Rightarrow> go_error option \<times> 'r) option \<Rightarrow> 'r \<Rightarrow> go_error option \<times> 'r" where
  "closeStore store r = (case store of None \<Rightarrow> (None, r) | Some close \<Rightarrow> close r)"

definition effective_timeout :: "duration \<Rightarrow> duration" where
  "effective_timeout d = (if d \<le> 0 then 10 * second else d)"

definition with_service :: "'s option \<Rightarrow> ('s \<Rightarrow> 'r \<Rightarrow> 'r) \<Rightarrow> 'r \<Rightarrow> 'r" where
  "with_service service call r = (case service of None \<Rightarrow> r | Some s \<Rightarrow> call s r)"

text \<open>\<open>errors.Join\<close>: the errors that are not nil.\<close>

definition join_two :: "go_error option \<Rightarrow> go_error option \<Rightarrow> go_error option" where
  "join_two a b =
     (case (a, b) of (None, e) \<Rightarrow> e | (Some e, None) \<Rightarrow> Some e | (Some e, Some f) \<Rightarrow> Some (Joined_Error e f))"

definition waitForWatchdog :: "'r Watchdog option \<Rightarrow> duration \<Rightarrow> 'r \<Rightarrow> 'r" where
  "waitForWatchdog watchdog timeout r =
     (case watchdog of None \<Rightarrow> r | Some w \<Rightarrow> wdg_Wait w (effective_timeout timeout) r)"

definition running_watchdog :: "'r RuntimeOptions \<Rightarrow> 'r Watchdog option" where
  "running_watchdog opts = (if rto_WatchdogEnabled opts then rto_RunWatchdog opts else None)"

definition tear_down :: "'r RuntimeOptions \<Rightarrow> duration \<Rightarrow> 'r \<Rightarrow> go_error option \<times> 'r" where
  "tear_down opts timeout r0 =
     (let watchdog = running_watchdog opts;
          r1 = waitForWatchdog watchdog timeout (with_service watchdog wdg_Cancel r0);
          r2 = with_service (rto_API opts) (\<lambda>a. svc_SetReady a False) r1;
          r3 = with_service (rto_Scheduler opts) (\<lambda>s r. snd (sch_Stop s timeout r)) r2;
          r4 = with_service (rto_Notifier opts) (\<lambda>n r. snd (ntf_Stopping n r)) r3;
          (api_err, r5) = (case rto_API opts of None \<Rightarrow> (None, r4) | Some a \<Rightarrow> svc_Shutdown a timeout r4);
          (close_err, r6) = closeStore (rto_Store opts) r5
      in (join_two api_err close_err, r6))"

definition run_services :: "'r RunContext \<Rightarrow> 'r RuntimeOptions \<Rightarrow> duration \<Rightarrow> 'r \<Rightarrow> go_error option \<times> 'r" where
  "run_services ctx opts timeout r0 =
     (let r1 = with_service (rto_API opts) (\<lambda>a. svc_SetReady a True) r0;
          r2 = with_service (rto_Notifier opts) (\<lambda>n r. snd (ntf_Ready n r)) r1;
          r3 = with_service (running_watchdog opts) wdg_Run r2
      in tear_down opts timeout (rcx_Wait ctx r3))"

definition start_scheduler :: "'r RunContext \<Rightarrow> 'r RuntimeOptions \<Rightarrow> duration \<Rightarrow> 'r \<Rightarrow> go_error option \<times> 'r" where
  "start_scheduler ctx opts timeout r =
     (case rto_Scheduler opts of
        None \<Rightarrow> run_services ctx opts timeout r
      | Some s \<Rightarrow>
          (case sch_Start s r of
             (Some e, r1) \<Rightarrow>
               (Some e, snd (closeStore (rto_Store opts)
                  (with_service (rto_API opts) (\<lambda>a r. snd (svc_Shutdown a timeout r)) r1)))
           | (None, r1) \<Rightarrow> run_services ctx opts timeout r1))"

definition start_api :: "'r RunContext \<Rightarrow> 'r RuntimeOptions \<Rightarrow> duration \<Rightarrow> 'r \<Rightarrow> go_error option \<times> 'r" where
  "start_api ctx opts timeout r =
     (case rto_API opts of
        None \<Rightarrow> start_scheduler ctx opts timeout r
      | Some a \<Rightarrow>
          (case svc_Start a r of
             (Some e, r1) \<Rightarrow> (Some e, snd (closeStore (rto_Store opts) r1))
           | (None, r1) \<Rightarrow>
               if svc_Addr a r1 = [] then
                 (let (shutdown_err, r2) = svc_Shutdown a timeout r1;
                      (close_err, r3) = closeStore (rto_Store opts) r2
                  in (join_two (join_two (Some (Wrap_Error ''api start'' errAPIAddressUnavailable)) shutdown_err) close_err, r3))
               else start_scheduler ctx opts timeout r1))"

definition RunInfrastructure :: "'r RunContext option \<Rightarrow> 'r RuntimeOptions \<Rightarrow> 'r \<Rightarrow> go_error option \<times> 'r" where
  "RunInfrastructure context opts r =
     (case context of
        None \<Rightarrow> (Some Context_Canceled, r)
      | Some ctx \<Rightarrow>
          (case rcx_Err ctx r of
             (Some e, r1) \<Rightarrow> (Some e, r1)
           | (None, r1) \<Rightarrow> start_api ctx opts (effective_timeout (rto_ShutdownTimeout opts)) r1))"

subsection \<open>Events\<close>

datatype event =
    Api_Start bool | Api_Ready bool | Api_Shutdown
  | Sched_Start bool | Sched_Stop
  | Sd_Ready | Sd_Stopping
  | Watchdog_On | Watchdog_Off
  | Context_Ended | Store_Closed

text \<open>The same services on a state that also records what was called, the latest first.\<close>

type_synonym 'r recorded = "'r \<times> event list"

definition silent :: "('r \<Rightarrow> 'r) \<Rightarrow> event \<Rightarrow> 'r recorded \<Rightarrow> 'r recorded" where
  "silent call e r = (call (fst r), e # snd r)"

definition answered :: "('r \<Rightarrow> go_error option \<times> 'r) \<Rightarrow> (bool \<Rightarrow> event) \<Rightarrow> 'r recorded \<Rightarrow> go_error option \<times> 'r recorded" where
  "answered call e r = (case call (fst r) of (err, r1) \<Rightarrow> (err, (r1, e (err = None) # snd r)))"

definition recorded_api :: "'r APIService \<Rightarrow> 'r recorded APIService" where
  "recorded_api a =
     \<lparr>svc_Start = answered (svc_Start a) Api_Start, svc_SetReady = (\<lambda>b. silent (svc_SetReady a b) (Api_Ready b)),
      svc_Shutdown = (\<lambda>d. answered (svc_Shutdown a d) (\<lambda>_. Api_Shutdown)), svc_Addr = (\<lambda>r. svc_Addr a (fst r))\<rparr>"

definition recorded_scheduler :: "'r SchedulerService \<Rightarrow> 'r recorded SchedulerService" where
  "recorded_scheduler s =
     \<lparr>sch_Start = answered (sch_Start s) Sched_Start, sch_Stop = (\<lambda>d. answered (sch_Stop s d) (\<lambda>_. Sched_Stop))\<rparr>"

definition recorded_notifier :: "'r Notifier \<Rightarrow> 'r recorded Notifier" where
  "recorded_notifier n =
     \<lparr>ntf_Ready = answered (ntf_Ready n) (\<lambda>_. Sd_Ready), ntf_Stopping = answered (ntf_Stopping n) (\<lambda>_. Sd_Stopping)\<rparr>"

text \<open>A wait is not an event: the watchdog is off when its context is canceled and it has been waited for.\<close>

definition recorded_watchdog :: "'r Watchdog \<Rightarrow> 'r recorded Watchdog" where
  "recorded_watchdog w =
     \<lparr>wdg_Run = silent (wdg_Run w) Watchdog_On, wdg_Cancel = (\<lambda>r. (wdg_Cancel w (fst r), snd r)),
      wdg_Wait = (\<lambda>d. silent (wdg_Wait w d) Watchdog_Off)\<rparr>"

definition recorded_options :: "'r RuntimeOptions \<Rightarrow> 'r recorded RuntimeOptions" where
  "recorded_options opts =
     \<lparr>rto_Store = map_option (\<lambda>close. answered close (\<lambda>_. Store_Closed)) (rto_Store opts),
      rto_API = map_option recorded_api (rto_API opts),
      rto_Scheduler = map_option recorded_scheduler (rto_Scheduler opts),
      rto_Notifier = map_option recorded_notifier (rto_Notifier opts),
      rto_ShutdownTimeout = rto_ShutdownTimeout opts, rto_WatchdogEnabled = rto_WatchdogEnabled opts,
      rto_RunWatchdog = map_option recorded_watchdog (rto_RunWatchdog opts)\<rparr>"

definition recorded_context :: "'r RunContext \<Rightarrow> 'r recorded RunContext" where
  "recorded_context c =
     \<lparr>rcx_Err = (\<lambda>r. case rcx_Err c (fst r) of (e, r1) \<Rightarrow> (e, (r1, snd r))), rcx_Wait = silent (rcx_Wait c) Context_Ended\<rparr>"

subsection \<open>The specification\<close>

record lifecycle =
  lc_api :: bool
  lc_ready :: bool
  lc_scheduler :: bool
  lc_watchdog :: bool
  lc_announced :: bool
  lc_ended :: bool
  lc_store :: bool

definition lifecycle_start :: "'r RuntimeOptions \<Rightarrow> lifecycle" where
  "lifecycle_start opts =
     \<lparr>lc_api = False, lc_ready = False, lc_scheduler = False, lc_watchdog = False, lc_announced = False,
      lc_ended = False, lc_store = (rto_Store opts \<noteq> None)\<rparr>"

text \<open>
  What may happen when. The interface is up before the scheduler starts; readiness is set, and
  announced, only with both up; only the end of the context ends a run that became ready; then
  the watchdog ends first, readiness is withdrawn, the scheduler stops, systemd is told, the interface
  goes down, and the store is closed when nothing that uses it is up. The order of the first two is the
  code's: \<open>lifecycle.go\<close> cancels the watchdog, and waits for it at most the shutdown timeout, before it
  withdraws readiness, where the shutdown order of \<open>docs/run-lifecycle.md\<close> names readiness first. A
  service counts as down once its stop was called, whatever that call answered.
\<close>

definition allowed :: "'r RuntimeOptions \<Rightarrow> lifecycle \<Rightarrow> event \<Rightarrow> bool" where
  "allowed opts s e =
     (let all_up = ((rto_API opts \<noteq> None \<longrightarrow> lc_api s) \<and> (rto_Scheduler opts \<noteq> None \<longrightarrow> lc_scheduler s) \<and> \<not> lc_ended s)
      in case e of
        Api_Start _ \<Rightarrow> \<not> lc_api s \<and> \<not> lc_scheduler s \<and> \<not> lc_ended s \<and> lc_store s = (rto_Store opts \<noteq> None)
      | Sched_Start _ \<Rightarrow> \<not> lc_scheduler s \<and> \<not> lc_ready s \<and> \<not> lc_ended s \<and> (rto_API opts \<noteq> None \<longrightarrow> lc_api s)
      | Api_Ready True \<Rightarrow> all_up
      | Sd_Ready \<Rightarrow> all_up \<and> (rto_API opts \<noteq> None \<longrightarrow> lc_ready s)
      | Watchdog_On \<Rightarrow> all_up \<and> (rto_Notifier opts \<noteq> None \<longrightarrow> lc_announced s)
      | Context_Ended \<Rightarrow> all_up
      | Watchdog_Off \<Rightarrow> lc_watchdog s \<and> lc_ended s
      | Api_Ready False \<Rightarrow> lc_ended s \<and> \<not> lc_watchdog s
      | Sched_Stop \<Rightarrow> lc_scheduler s \<and> lc_ended s \<and> \<not> lc_ready s
      | Sd_Stopping \<Rightarrow> lc_announced s \<and> lc_ended s \<and> \<not> lc_ready s \<and> \<not> lc_scheduler s
      | Api_Shutdown \<Rightarrow> lc_api s \<and> \<not> lc_ready s \<and> \<not> lc_scheduler s
      | Store_Closed \<Rightarrow> lc_store s \<and> \<not> lc_api s \<and> \<not> lc_scheduler s \<and> \<not> lc_watchdog s \<and> \<not> lc_announced s)"

fun after :: "event \<Rightarrow> lifecycle \<Rightarrow> lifecycle" where
  "after (Api_Start up) s = s\<lparr>lc_api := up\<rparr>"
| "after (Api_Ready b) s = s\<lparr>lc_ready := b\<rparr>"
| "after Api_Shutdown s = s\<lparr>lc_api := False\<rparr>"
| "after (Sched_Start up) s = s\<lparr>lc_scheduler := up\<rparr>"
| "after Sched_Stop s = s\<lparr>lc_scheduler := False\<rparr>"
| "after Sd_Ready s = s\<lparr>lc_announced := True\<rparr>"
| "after Sd_Stopping s = s\<lparr>lc_announced := False\<rparr>"
| "after Watchdog_On s = s\<lparr>lc_watchdog := True\<rparr>"
| "after Watchdog_Off s = s\<lparr>lc_watchdog := False\<rparr>"
| "after Context_Ended s = s\<lparr>lc_ended := True\<rparr>"
| "after Store_Closed s = s\<lparr>lc_store := False\<rparr>"

text \<open>The state after a recorded run, if every event of it was allowed.\<close>

fun follows :: "'r RuntimeOptions \<Rightarrow> event list \<Rightarrow> lifecycle option" where
  "follows opts [] = Some (lifecycle_start opts)"
| "follows opts (e # es) =
     (case follows opts es of None \<Rightarrow> None | Some s \<Rightarrow> if allowed opts s e then Some (after e s) else None)"

definition all_down :: "lifecycle \<Rightarrow> bool" where
  "all_down s \<longleftrightarrow> \<not> lc_api s \<and> \<not> lc_ready s \<and> \<not> lc_scheduler s \<and> \<not> lc_watchdog s \<and> \<not> lc_announced s \<and> \<not> lc_store s"

end
