(* ===== verification/Lifecycle_Laws.thy ===== *)
theory Lifecycle_Laws
  imports Lifecycle
begin

text \<open>
  The run of the agent refines the specification of its lifecycle: the events of each part of the
  run are a list that only depends on which services there are and which start failed, and every such
  list is a path of the automaton that ends with everything down.
\<close>

definition on_presence :: "'s option \<Rightarrow> event list \<Rightarrow> event list" where
  "on_presence service es = (if service = None then [] else es)"

text \<open>The events of the three parts, the latest first.\<close>

definition down_events :: "'r RuntimeOptions \<Rightarrow> event list" where
  "down_events opts =
     on_presence (rto_Store opts) [Store_Closed] @ on_presence (rto_API opts) [Api_Shutdown] @
     on_presence (rto_Notifier opts) [Sd_Stopping] @ on_presence (rto_Scheduler opts) [Sched_Stop] @
     on_presence (rto_API opts) [Api_Ready False] @ on_presence (running_watchdog opts) [Watchdog_Off]"

definition run_events :: "'r RuntimeOptions \<Rightarrow> event list" where
  "run_events opts =
     down_events opts @ [Context_Ended] @ on_presence (running_watchdog opts) [Watchdog_On] @
     on_presence (rto_Notifier opts) [Sd_Ready] @ on_presence (rto_API opts) [Api_Ready True]"

definition relate :: "event list \<Rightarrow> event list \<Rightarrow> go_error option \<times> 'r \<Rightarrow> go_error option \<times> 'r recorded" where
  "relate new es x = (fst x, (snd x, new @ es))"

lemmas recorded_defs = recorded_api_def recorded_scheduler_def recorded_notifier_def recorded_watchdog_def recorded_context_def

lemma recorded_options_simps [simp]:
  "rto_Store (recorded_options opts) = map_option (\<lambda>close. answered close (\<lambda>_. Store_Closed)) (rto_Store opts)"
  "rto_API (recorded_options opts) = map_option recorded_api (rto_API opts)"
  "rto_Scheduler (recorded_options opts) = map_option recorded_scheduler (rto_Scheduler opts)"
  "rto_Notifier (recorded_options opts) = map_option recorded_notifier (rto_Notifier opts)"
  "rto_ShutdownTimeout (recorded_options opts) = rto_ShutdownTimeout opts"
  "running_watchdog (recorded_options opts) = map_option recorded_watchdog (running_watchdog opts)"
  by (simp_all add: recorded_options_def running_watchdog_def)

lemma recorded_close:
  "closeStore (map_option (\<lambda>close. answered close (\<lambda>_. Store_Closed)) store) (r, es) =
     relate (on_presence store [Store_Closed]) es (closeStore store r)"
  by (cases store) (simp_all add: closeStore_def answered_def on_presence_def relate_def split: prod.split)

lemma recorded_tear_down:
  "tear_down (recorded_options opts) t (r, es) = relate (down_events opts) es (tear_down opts t r)"
proof -
  define r1 where "r1 = waitForWatchdog (running_watchdog opts) t (with_service (running_watchdog opts) wdg_Cancel r)"
  define es1 where "es1 = on_presence (running_watchdog opts) [Watchdog_Off] @ es"
  have 1: "waitForWatchdog (map_option recorded_watchdog (running_watchdog opts)) t
      (with_service (map_option recorded_watchdog (running_watchdog opts)) wdg_Cancel (r, es)) = (r1, es1)"
    by (cases "running_watchdog opts")
       (simp_all add: r1_def es1_def waitForWatchdog_def with_service_def recorded_watchdog_def silent_def on_presence_def)
  define r2 where "r2 = with_service (rto_API opts) (\<lambda>a. svc_SetReady a False) r1"
  define es2 where "es2 = on_presence (rto_API opts) [Api_Ready False] @ es1"
  have 2: "with_service (map_option recorded_api (rto_API opts)) (\<lambda>a. svc_SetReady a False) (r1, es1) = (r2, es2)"
    by (cases "rto_API opts") (simp_all add: r2_def es2_def with_service_def recorded_api_def silent_def on_presence_def)
  define r3 where "r3 = with_service (rto_Scheduler opts) (\<lambda>s r. snd (sch_Stop s t r)) r2"
  define es3 where "es3 = on_presence (rto_Scheduler opts) [Sched_Stop] @ es2"
  have 3: "with_service (map_option recorded_scheduler (rto_Scheduler opts)) (\<lambda>s r. snd (sch_Stop s t r)) (r2, es2) = (r3, es3)"
    by (cases "rto_Scheduler opts")
       (simp_all add: r3_def es3_def with_service_def recorded_scheduler_def answered_def on_presence_def split: prod.split)
  define r4 where "r4 = with_service (rto_Notifier opts) (\<lambda>n r. snd (ntf_Stopping n r)) r3"
  define es4 where "es4 = on_presence (rto_Notifier opts) [Sd_Stopping] @ es3"
  have 4: "with_service (map_option recorded_notifier (rto_Notifier opts)) (\<lambda>n r. snd (ntf_Stopping n r)) (r3, es3) = (r4, es4)"
    by (cases "rto_Notifier opts")
       (simp_all add: r4_def es4_def with_service_def recorded_notifier_def answered_def on_presence_def split: prod.split)
  have "tear_down opts t r =
      (let (e, r5) = (case rto_API opts of None \<Rightarrow> (None, r4) | Some a \<Rightarrow> svc_Shutdown a t r4);
           (f, r6) = closeStore (rto_Store opts) r5 in (join_two e f, r6))"
    unfolding tear_down_def r4_def r3_def r2_def r1_def Let_def ..
  moreover have "tear_down (recorded_options opts) t (r, es) =
      (let (e, r5) = (case map_option recorded_api (rto_API opts) of None \<Rightarrow> (None, (r4, es4)) | Some a \<Rightarrow> svc_Shutdown a t (r4, es4));
           (f, r6) = closeStore (rto_Store (recorded_options opts)) r5 in (join_two e f, r6))"
    unfolding tear_down_def recorded_options_simps(2-6) 1 2 3 4 Let_def ..
  moreover obtain e r5 where shut: "(case rto_API opts of None \<Rightarrow> (None, r4) | Some a \<Rightarrow> svc_Shutdown a t r4) = (e, r5)"
    by fastforce
  then have "(case map_option recorded_api (rto_API opts) of None \<Rightarrow> (None, (r4, es4)) | Some a \<Rightarrow> svc_Shutdown a t (r4, es4)) =
      (e, (r5, on_presence (rto_API opts) [Api_Shutdown] @ es4))"
    by (cases "rto_API opts") (simp_all add: recorded_api_def answered_def on_presence_def)
  moreover obtain f r6 where "closeStore (rto_Store opts) r5 = (f, r6)" by fastforce
  ultimately show ?thesis
    using shut by (simp add: recorded_close relate_def down_events_def es1_def es2_def es3_def es4_def)
qed

lemma recorded_run_services:
  "run_services (recorded_context c) (recorded_options opts) t (r, es) =
     relate (run_events opts) es (run_services c opts t r)"
  unfolding run_services_def
  by (cases "rto_API opts"; cases "rto_Notifier opts"; cases "running_watchdog opts")
     (simp_all add: with_service_def recorded_tear_down recorded_defs silent_def answered_def Let_def
       run_events_def on_presence_def relate_def split: prod.split)

subsection \<open>The lists are paths of the specification\<close>

definition brought_up :: "'r RuntimeOptions \<Rightarrow> lifecycle" where
  "brought_up opts =
     (lifecycle_start opts)\<lparr>lc_api := (rto_API opts \<noteq> None), lc_scheduler := (rto_Scheduler opts \<noteq> None)\<rparr>"

lemma run_events_path:
  assumes "follows opts es = Some (brought_up opts)"
  shows "\<exists>s. follows opts (run_events opts @ es) = Some s \<and> all_down s"
  using assms
  by (cases "rto_API opts"; cases "rto_Scheduler opts"; cases "rto_Notifier opts"; cases "running_watchdog opts"; cases "rto_Store opts")
     (simp_all add: run_events_def down_events_def on_presence_def brought_up_def lifecycle_start_def allowed_def all_down_def)

lemma start_scheduler_path:
  assumes "start_scheduler (recorded_context c) (recorded_options opts) t (r, es) = (err, (r1, es1))"
    "follows opts es = Some ((brought_up opts)\<lparr>lc_scheduler := False\<rparr>)"
  shows "start_scheduler c opts t r = (err, r1) \<and> (\<exists>s. follows opts es1 = Some s \<and> all_down s)"
proof (cases "rto_Scheduler opts")
  case None
  then have "follows opts es = Some (brought_up opts)" using assms(2) by (simp add: brought_up_def lifecycle_start_def)
  note path = run_events_path [OF this]
  obtain x y where "run_services c opts t r = (x, y)" by fastforce
  with path show ?thesis
    using assms(1) None by (auto simp: start_scheduler_def recorded_run_services relate_def)
next
  case (Some sch)
  obtain e r2 where start: "sch_Start sch r = (e, r2)" by fastforce
  show ?thesis
  proof (cases e)
    case None
    have "follows opts (Sched_Start True # es) = Some (brought_up opts)"
      using assms(2) Some by (cases "rto_API opts") (simp_all add: allowed_def brought_up_def lifecycle_start_def)
    note path = run_events_path [OF this]
    obtain x y where "run_services c opts t r2 = (x, y)" by fastforce
    with path show ?thesis
      using assms(1) Some start None
      by (auto simp: start_scheduler_def recorded_run_services relate_def recorded_scheduler_def answered_def)
  next
    case (Some f)
    obtain x r3 where shut: "(case rto_API opts of None \<Rightarrow> (None, r2) | Some a \<Rightarrow> svc_Shutdown a t r2) = (x, r3)" by fastforce
    then have r3: "with_service (rto_API opts) (\<lambda>a r. snd (svc_Shutdown a t r)) r2 = r3"
      by (cases "rto_API opts") (simp_all add: with_service_def)
    from shut have "with_service (map_option recorded_api (rto_API opts)) (\<lambda>a r. snd (svc_Shutdown a t r)) (r2, Sched_Start False # es) =
        (r3, on_presence (rto_API opts) [Api_Shutdown] @ Sched_Start False # es)"
      by (cases "rto_API opts") (simp_all add: with_service_def recorded_api_def answered_def on_presence_def)
    with assms(1) start \<open>rto_Scheduler opts = Some sch\<close> Some r3
    have "start_scheduler c opts t r = (err, r1)"
      "es1 = on_presence (rto_Store opts) [Store_Closed] @ on_presence (rto_API opts) [Api_Shutdown] @ Sched_Start False # es"
      by (auto simp: start_scheduler_def recorded_scheduler_def answered_def recorded_close relate_def)
    then show ?thesis
      using assms(2) \<open>rto_Scheduler opts = Some sch\<close>
      by (cases "rto_API opts"; cases "rto_Store opts")
         (simp_all add: on_presence_def allowed_def brought_up_def lifecycle_start_def all_down_def)
  qed
qed

lemma start_api_path:
  assumes "start_api (recorded_context c) (recorded_options opts) t (r, []) = (err, (r1, es1))"
  shows "start_api c opts t r = (err, r1) \<and> (\<exists>s. follows opts es1 = Some s \<and> all_down s)"
proof (cases "rto_API opts")
  case None
  with start_scheduler_path [of c opts t r "[]" err r1 es1] assms show ?thesis
    by (simp add: start_api_def brought_up_def lifecycle_start_def)
next
  case (Some a)
  obtain e r2 where start: "svc_Start a r = (e, r2)" by fastforce
  note here = start Some assms
  show ?thesis
  proof (cases e)
    case None
    obtain x r3 where shut: "svc_Shutdown a t r2 = (x, r3)" by fastforce
    obtain y r4 where close: "closeStore (rto_Store opts) r3 = (y, r4)" by fastforce
    show ?thesis
    proof (cases "svc_Addr a r2 = []")
      case True
      with here None shut close have "start_api c opts t r = (err, r1)"
        "es1 = on_presence (rto_Store opts) [Store_Closed] @ [Api_Shutdown, Api_Start True]"
        by (auto simp: start_api_def recorded_api_def answered_def recorded_close relate_def)
      then show ?thesis
        using Some by (cases "rto_Store opts") (simp_all add: on_presence_def allowed_def lifecycle_start_def all_down_def)
    next
      case False
      with here None start_scheduler_path [of c opts t r2 "[Api_Start True]" err r1 es1] show ?thesis
        by (simp add: start_api_def recorded_api_def answered_def allowed_def brought_up_def lifecycle_start_def)
    qed
  next
    case (Some f)
    with here have "start_api c opts t r = (err, r1)"
      "es1 = on_presence (rto_Store opts) [Store_Closed] @ [Api_Start False]"
      by (auto simp: start_api_def recorded_api_def answered_def recorded_close relate_def)
    then show ?thesis
      using here by (cases "rto_Store opts") (simp_all add: on_presence_def allowed_def lifecycle_start_def all_down_def)
  qed
qed

text \<open>C36: the run of the agent refines the specification of its lifecycle. Whatever services there are, however
  each of their calls turns out and whatever they do to the state, the calls of a run are allowed by
  the automaton one after another: the interface is up before the scheduler starts, readiness is set
  and announced only with both up, and after the end of the context the watchdog is ended first, then
  readiness is withdrawn, then the scheduler is stopped, then systemd is told, then the interface is
  shut down, and the store is closed last. The place of readiness is the code's, not the document's:
  \<open>docs/run-lifecycle.md\<close> has it withdrawn before the watchdog is stopped. A run that passes the first
  look at its context ends with the stop of every service that is up called, whatever these calls
  answered, the announcement withdrawn and the store told to close; one that does not has done
  nothing, and has left the store open. Recording the calls changes nothing else.\<close>

theorem lifecycle_refines:
  assumes "RunInfrastructure (Some (recorded_context c)) (recorded_options opts) (r, []) = (err, (r1, es))"
  shows "RunInfrastructure (Some c) opts r = (err, r1) \<and>
    (\<exists>s. follows opts es = Some s \<and>
       (if fst (rcx_Err c r) = None then all_down s else es = [] \<and> err = fst (rcx_Err c r) \<and> s = lifecycle_start opts))"
proof -
  obtain e r2 where ctx: "rcx_Err c r = (e, r2)" by fastforce
  show ?thesis
  proof (cases e)
    case None
    with assms ctx have "start_api (recorded_context c) (recorded_options opts) (effective_timeout (rto_ShutdownTimeout opts)) (r2, []) =
        (err, (r1, es))"
      by (simp add: RunInfrastructure_def recorded_context_def)
    from start_api_path [OF this] ctx None show ?thesis by (simp add: RunInfrastructure_def)
  next
    case (Some f)
    with assms ctx show ?thesis by (auto simp: RunInfrastructure_def recorded_context_def)
  qed
qed

text \<open>A run of every service, the closing of the store failing.\<close>

definition example_services :: "bool RuntimeOptions" where
  "example_services =
     \<lparr>rto_Store = Some (\<lambda>r. (Some ErrClosed, False)),
      rto_API = Some \<lparr>svc_Start = (\<lambda>r. (None, r)), svc_SetReady = (\<lambda>b r. r), svc_Shutdown = (\<lambda>d r. (None, r)), svc_Addr = (\<lambda>r. ''127.0.0.1:9587'')\<rparr>,
      rto_Scheduler = Some \<lparr>sch_Start = (\<lambda>r. (None, r)), sch_Stop = (\<lambda>d r. (Some Context_DeadlineExceeded, r))\<rparr>,
      rto_Notifier = Some \<lparr>ntf_Ready = (\<lambda>r. (None, r)), ntf_Stopping = (\<lambda>r. (None, r))\<rparr>,
      rto_ShutdownTimeout = 0, rto_WatchdogEnabled = True,
      rto_RunWatchdog = Some \<lparr>wdg_Run = (\<lambda>r. r), wdg_Cancel = (\<lambda>r. r), wdg_Wait = (\<lambda>d r. r)\<rparr>\<rparr>"

definition example_context :: "bool RunContext" where
  "example_context = \<lparr>rcx_Err = (\<lambda>r. (None, r)), rcx_Wait = (\<lambda>r. r)\<rparr>"

theorem lifecycle_refines_witness:
  "RunInfrastructure (Some example_context) example_services True = (Some ErrClosed, False) \<and>
   (\<exists>s. follows example_services
      (snd (snd (RunInfrastructure (Some (recorded_context example_context)) (recorded_options example_services) (True, [])))) = Some s \<and>
      all_down s)"
proof -
  let ?x = "RunInfrastructure (Some (recorded_context example_context)) (recorded_options example_services) (True, [])"
  have "RunInfrastructure (Some example_context) example_services True = (Some ErrClosed, False)"
    by (simp add: RunInfrastructure_def example_services_def example_context_def start_api_def start_scheduler_def
        run_services_def tear_down_def with_service_def closeStore_def waitForWatchdog_def running_watchdog_def join_two_def)
  with lifecycle_refines [of example_context example_services True "fst ?x" "fst (snd ?x)" "snd (snd ?x)"]
  show ?thesis by (simp add: example_context_def)
qed

end
