(* ===== verification/Go_Json_Parse.thy ===== *)
theory Go_Json_Parse
  imports Go_Json Go_Numbers Go_Net
begin

text \<open>
  \<open>json.Unmarshal\<close>: the text of a document is parsed into a tree in which a number is its literal and an
  object the list of its members, and a tree is then decoded into a value of Go. Whether a decoder
  fails is all that matters of its error: every caller drops the target of a failed \<open>Unmarshal\<close>.
  \<open>print_tree\<close> is \<open>json.Marshal\<close> of a struct, whose members are written in the order of its fields.
\<close>

datatype json_tree =
    T_Null
  | T_Bool bool
  | T_Number string
  | T_String string
  | T_Array "json_tree list"
  | T_Object "(string \<times> json_tree) list"

subsection \<open>Strings\<close>

text \<open>The UTF-8 text of a code point; a surrogate is replaced.\<close>

definition encode_rune :: "nat \<Rightarrow> string" where
  "encode_rune n =
     (let n = (if (0xD800 \<le> n \<and> n \<le> 0xDFFF) \<or> 0x10FFFF < n then 0xFFFD else n) in
      if n < 0x80 then [char_of n]
      else if n < 0x800 then [char_of (0xC0 + n div 64), char_of (0x80 + n mod 64)]
      else if n < 0x10000 then [char_of (0xE0 + n div 4096), char_of (0x80 + n div 64 mod 64), char_of (0x80 + n mod 64)]
      else [char_of (0xF0 + n div 262144), char_of (0x80 + n div 4096 mod 64), char_of (0x80 + n div 64 mod 64),
            char_of (0x80 + n mod 64)])"

definition replacement_rune :: string where
  "replacement_rune = encode_rune 0xFFFD"

text \<open>The four hexadecimal digits of an escape.\<close>

definition hex_four :: "string \<Rightarrow> nat option" where
  "hex_four s =
     (if 4 \<le> length s \<and> list_all (\<lambda>c. hex_value c \<noteq> None) (take 4 s) then Some (hex_group (take 4 s)) else None)"

text \<open>
  The code point of an escape and the number of characters it takes after its \<open>u\<close>: a high
  surrogate takes a following low one with it, and a surrogate alone is replaced.
\<close>

definition unicode_escape :: "string \<Rightarrow> (nat \<times> nat) option" where
  "unicode_escape s =
     (case hex_four s of
        None \<Rightarrow> None
      | Some a \<Rightarrow>
          if 0xD800 \<le> a \<and> a \<le> 0xDFFF then
            (case drop 4 s of
               b # u # t \<Rightarrow>
                 (case (if b = CHR 0x5C \<and> u = CHR ''u'' then hex_four t else None) of
                    Some l \<Rightarrow>
                      if a < 0xDC00 \<and> 0xDC00 \<le> l \<and> l \<le> 0xDFFF
                      then Some ((a - 0xD800) * 1024 + (l - 0xDC00) + 0x10000, 10) else Some (0xFFFD, 4)
                  | None \<Rightarrow> Some (0xFFFD, 4))
             | _ \<Rightarrow> Some (0xFFFD, 4))
          else Some (a, 4))"

definition simple_escape :: "char \<Rightarrow> char option" where
  "simple_escape c =
     (if c \<in> {CHR 0x22, CHR 0x5C, CHR ''/''} then Some c
      else if c = CHR ''b'' then Some (char_of (8::nat)) else if c = CHR ''f'' then Some (char_of (12::nat))
      else if c = CHR ''n'' then Some (char_of (10::nat)) else if c = CHR ''r'' then Some (char_of (13::nat))
      else if c = CHR ''t'' then Some (char_of (9::nat)) else None)"

text \<open>A byte of 128 and more that is no part of a UTF-8 sequence is replaced.\<close>

definition clean_rune :: "string \<Rightarrow> string" where
  "clean_rune r = (case r of [c] \<Rightarrow> if 128 \<le> byte c then replacement_rune else r | _ \<Rightarrow> r)"

definition prepend :: "'a list \<Rightarrow> ('a list \<times> 'b) option \<Rightarrow> ('a list \<times> 'b) option" where
  "prepend xs r = (case r of None \<Rightarrow> None | Some (ys, b) \<Rightarrow> Some (xs @ ys, b))"

text \<open>What follows an opening quote: the decoded text and what follows the closing quote.\<close>

lemma drop_less: "length (drop k t) < Suc (Suc (length t))"
  by simp

function json_text :: "string \<Rightarrow> (string \<times> string) option" where
  "json_text s =
     (if s = [] then None
      else if hd s = CHR 0x22 then Some ([], tl s)
      else if hd s = CHR 0x5C then
        (case tl s of
           [] \<Rightarrow> None
         | e # t \<Rightarrow>
             if e = CHR ''u'' then
               (case unicode_escape t of None \<Rightarrow> None | Some (n, k) \<Rightarrow> prepend (encode_rune n) (json_text (drop k t)))
             else (case simple_escape e of None \<Rightarrow> None | Some c \<Rightarrow> prepend [c] (json_text t)))
      else if byte (hd s) < 32 then None
      else prepend (clean_rune (take (rune_len s) s)) (json_text (drop (rune_len s) s)))"
  by pat_completeness auto
termination
  by (relation "measure length") (auto simp: neq_Nil_conv rune_len_pos simp del: length_drop intro: drop_shorter drop_less)

declare json_text.simps [simp del]

subsection \<open>Documents\<close>

definition json_space :: "char \<Rightarrow> bool" where
  "json_space c \<longleftrightarrow> byte c \<in> {32, 9, 10, 13}"

definition skip_space :: "string \<Rightarrow> string" where
  "skip_space s = dropWhile json_space s"

text \<open>A number literal: an integer without leading zeros, a fraction, an exponent.\<close>

definition number_fraction :: "string \<Rightarrow> (string \<times> string) option" where
  "number_fraction s =
     (if prefix ''.'' s then
        (let ds = takeWhile digit_char (tl s) in if ds = [] then None else Some (CHR ''.'' # ds, drop (length ds) (tl s)))
      else Some ([], s))"

definition number_exponent :: "string \<Rightarrow> (string \<times> string) option" where
  "number_exponent s =
     (if s \<noteq> [] \<and> hd s \<in> {CHR ''e'', CHR ''E''} then
        (let t = tl s;
             sign = (if t \<noteq> [] \<and> hd t \<in> {CHR ''+'', CHR ''-''} then [hd t] else []);
             ds = takeWhile digit_char (drop (length sign) t)
         in if ds = [] then None else Some (hd s # sign @ ds, drop (length sign + length ds) t))
      else Some ([], s))"

definition json_literal :: "string \<Rightarrow> (string \<times> string) option" where
  "json_literal s =
     (let sign = (if prefix ''-'' s then ''-'' else []);
          t = drop (length sign) s;
          ds = (if prefix ''0'' t then ''0'' else takeWhile digit_char t)
      in if ds = [] then None
         else
           (case number_fraction (drop (length ds) t) of
              None \<Rightarrow> None
            | Some (f, u) \<Rightarrow>
                (case number_exponent u of None \<Rightarrow> None | Some (e, v) \<Rightarrow> Some (sign @ ds @ f @ e, v))))"

definition max_depth :: nat where "max_depth = 10000"

text \<open>
  The fuel bounds the number of nested calls: a call consumes a character before the next one, so
  one more than the length of the text is enough.
\<close>

fun json_value :: "nat \<Rightarrow> nat \<Rightarrow> string \<Rightarrow> (json_tree \<times> string) option"
and json_elements :: "nat \<Rightarrow> nat \<Rightarrow> string \<Rightarrow> (json_tree list \<times> string) option"
and json_members :: "nat \<Rightarrow> nat \<Rightarrow> string \<Rightarrow> ((string \<times> json_tree) list \<times> string) option" where
  "json_value 0 depth s = None"
| "json_value (Suc n) depth s =
     (case s of
        [] \<Rightarrow> None
      | c # t \<Rightarrow>
          if c = CHR 0x22 then map_option (\<lambda>(x, u). (T_String x, u)) (json_text t)
          else if c = CHR ''{'' then
            (if max_depth \<le> depth then None
             else let u = skip_space t in
               if prefix ''}'' u then Some (T_Object [], tl u)
               else map_option (\<lambda>(ms, v). (T_Object ms, v)) (json_members n (Suc depth) u))
          else if c = CHR ''['' then
            (if max_depth \<le> depth then None
             else let u = skip_space t in
               if prefix '']'' u then Some (T_Array [], tl u)
               else map_option (\<lambda>(xs, v). (T_Array xs, v)) (json_elements n (Suc depth) u))
          else if prefix ''true'' s then Some (T_Bool True, drop 4 s)
          else if prefix ''false'' s then Some (T_Bool False, drop 5 s)
          else if prefix ''null'' s then Some (T_Null, drop 4 s)
          else map_option (\<lambda>(l, u). (T_Number l, u)) (json_literal s))"
| "json_elements 0 depth s = None"
| "json_elements (Suc n) depth s =
     (case json_value n depth s of
        None \<Rightarrow> None
      | Some (x, t) \<Rightarrow>
          let u = skip_space t in
          if prefix '','' u then prepend [x] (json_elements n depth (skip_space (tl u)))
          else if prefix '']'' u then Some ([x], tl u) else None)"
| "json_members 0 depth s = None"
| "json_members (Suc n) depth s =
     (if \<not> prefix [CHR 0x22] s then None
      else
        (case json_text (tl s) of
           None \<Rightarrow> None
         | Some (k, t) \<Rightarrow>
             let u = skip_space t in
             if \<not> prefix '':'' u then None
             else
               (case json_value n depth (skip_space (tl u)) of
                  None \<Rightarrow> None
                | Some (x, v) \<Rightarrow>
                    let w = skip_space v in
                    if prefix '','' w then prepend [(k, x)] (json_members n depth (skip_space (tl w)))
                    else if prefix ''}'' w then Some ([(k, x)], tl w) else None)))"

definition parse_json :: "string \<Rightarrow> json_tree option" where
  "parse_json s =
     (case json_value (length s + 1) 0 (skip_space s) of
        Some (x, t) \<Rightarrow> if skip_space t = [] then Some x else None
      | None \<Rightarrow> None)"

subsection \<open>Decoding\<close>

text \<open>A decoder takes what the target holds; \<open>null\<close> leaves a target that is no map or pointer as it is.\<close>

definition decode_uint64 :: "json_tree \<Rightarrow> nat \<Rightarrow> nat option" where
  "decode_uint64 x old =
     (case x of
        T_Null \<Rightarrow> Some old
      | T_Number l \<Rightarrow> (case ParseUint l of Inl e \<Rightarrow> None | Inr n \<Rightarrow> Some n)
      | _ \<Rightarrow> None)"

definition decode_int64 :: "json_tree \<Rightarrow> int \<Rightarrow> int option" where
  "decode_int64 x old =
     (case x of
        T_Null \<Rightarrow> Some old
      | T_Number l \<Rightarrow> (case ParseInt l of Inl e \<Rightarrow> None | Inr n \<Rightarrow> Some n)
      | _ \<Rightarrow> None)"

definition decode_string :: "json_tree \<Rightarrow> string \<Rightarrow> string option" where
  "decode_string x old = (case x of T_Null \<Rightarrow> Some old | T_String t \<Rightarrow> Some t | _ \<Rightarrow> None)"

definition decode_bool :: "json_tree \<Rightarrow> bool \<Rightarrow> bool option" where
  "decode_bool x old = (case x of T_Null \<Rightarrow> Some old | T_Bool b \<Rightarrow> Some b | _ \<Rightarrow> None)"

text \<open>The field a member sets: the one of its name, else the first that equals it but for case.\<close>

definition field_for :: "string list \<Rightarrow> string \<Rightarrow> string option" where
  "field_for names key =
     (if key \<in> set names then Some key else List.find (\<lambda>n. equal_fold n key) names)"

text \<open>A field is its name and the decoder into the struct that holds it; other members are ignored.\<close>

type_synonym 's field = "string \<times> (json_tree \<Rightarrow> 's \<Rightarrow> 's option)"

fun decode_members :: "'s field list \<Rightarrow> (string \<times> json_tree) list \<Rightarrow> 's \<Rightarrow> 's option" where
  "decode_members fields [] s = Some s"
| "decode_members fields ((k, x) # ms) s =
     (case field_for (map fst fields) k of
        None \<Rightarrow> decode_members fields ms s
      | Some n \<Rightarrow>
          (case map_of fields n of
             None \<Rightarrow> decode_members fields ms s
           | Some set_field \<Rightarrow> (case set_field x s of None \<Rightarrow> None | Some s1 \<Rightarrow> decode_members fields ms s1)))"

definition decode_struct :: "'s field list \<Rightarrow> json_tree \<Rightarrow> 's \<Rightarrow> 's option" where
  "decode_struct fields x s =
     (case x of T_Null \<Rightarrow> Some s | T_Object ms \<Rightarrow> decode_members fields ms s | _ \<Rightarrow> None)"

text \<open>One field of a struct: read, decode, write back.\<close>

definition field :: "string \<Rightarrow> ('s \<Rightarrow> 'v) \<Rightarrow> ('v \<Rightarrow> 's \<Rightarrow> 's) \<Rightarrow> (json_tree \<Rightarrow> 'v \<Rightarrow> 'v option) \<Rightarrow> 's field" where
  "field name get put decode = (name, \<lambda>x s. map_option (\<lambda>v. put v s) (decode x (get s)))"

text \<open>
  A map, as the list of its entries with the last written in the place of an earlier one of its key;
  an entry is decoded into a fresh value. \<open>null\<close> makes the map nil.
\<close>

fun put_entry :: "'k \<Rightarrow> 'v \<Rightarrow> ('k \<times> 'v) list \<Rightarrow> ('k \<times> 'v) list" where
  "put_entry k v [] = [(k, v)]"
| "put_entry k v ((k1, v1) # m) = (if k1 = k then (k, v) # m else (k1, v1) # put_entry k v m)"

fun decode_entries :: "(json_tree \<Rightarrow> 'v option) \<Rightarrow> (string \<times> json_tree) list \<Rightarrow> (string \<times> 'v) list \<Rightarrow> (string \<times> 'v) list option" where
  "decode_entries decode [] m = Some m"
| "decode_entries decode ((k, x) # ms) m =
     (case decode x of None \<Rightarrow> None | Some v \<Rightarrow> decode_entries decode ms (put_entry k v m))"

definition decode_map :: "(json_tree \<Rightarrow> 'v option) \<Rightarrow> json_tree \<Rightarrow> (string \<times> 'v) list option \<Rightarrow> (string \<times> 'v) list option option" where
  "decode_map decode x old =
     (case x of
        T_Null \<Rightarrow> Some None
      | T_Object ms \<Rightarrow> map_option Some (decode_entries decode ms (case old of None \<Rightarrow> [] | Some m \<Rightarrow> m))
      | _ \<Rightarrow> None)"

text \<open>A pointer: \<open>null\<close> clears it, another value is decoded into what it points to or a fresh value.\<close>

definition decode_pointer :: "'v \<Rightarrow> (json_tree \<Rightarrow> 'v \<Rightarrow> 'v option) \<Rightarrow> json_tree \<Rightarrow> 'v option \<Rightarrow> 'v option option" where
  "decode_pointer fresh decode x old =
     (if x = T_Null then Some None
      else map_option Some (decode x (case old of None \<Rightarrow> fresh | Some v \<Rightarrow> v)))"

definition Unmarshal :: "(json_tree \<Rightarrow> 's \<Rightarrow> 's option) \<Rightarrow> string \<Rightarrow> 's \<Rightarrow> 's option" where
  "Unmarshal decode text s = (case parse_json text of None \<Rightarrow> None | Some x \<Rightarrow> decode x s)"

subsection \<open>Printing\<close>

fun print_tree :: "json_tree \<Rightarrow> string" where
  "print_tree T_Null = ''null''"
| "print_tree (T_Bool b) = (if b then ''true'' else ''false'')"
| "print_tree (T_Number l) = l"
| "print_tree (T_String s) = quote_json s"
| "print_tree (T_Array xs) = ''['' @ join_with '','' (map print_tree xs) @ '']''"
| "print_tree (T_Object ms) = ''{'' @ join_with '','' (map (\<lambda>(k, v). quote_json k @ '':'' @ print_tree v) ms) @ ''}''"

text \<open>\<open>Marshal\<close> of a map: the entries in the order of their keys.\<close>

definition map_tree :: "('v \<Rightarrow> json_tree) \<Rightarrow> (string \<times> 'v) list \<Rightarrow> json_tree" where
  "map_tree tree m = T_Object (map (\<lambda>(k, v). (k, tree v)) (sort_key (\<lambda>(k, _). map byte k) m))"

definition uint_tree :: "nat \<Rightarrow> json_tree" where
  "uint_tree n = T_Number (nat_text n)"

definition int_tree :: "int \<Rightarrow> json_tree" where
  "int_tree n = T_Number (Itoa n)"

end
