(* ===== verification/Go_Json_Laws.thy ===== *)
theory Go_Json_Laws
  imports Go_Json_Parse
begin

text \<open>
  Parsing what was printed: a tree with UTF-8 texts and integer literals, nested less than the limit,
  is read back from its text. The baselines the collectors keep are such trees.
\<close>

subsection \<open>Strings\<close>

definition valid_text :: "string \<Rightarrow> bool" where
  "valid_text s \<longleftrightarrow> list_all (\<lambda>r. clean_rune r = r) (runes s)"

lemma json_text_end: "json_text (CHR 0x22 # rest) = Some ([], rest)"
  by (simp add: json_text.simps)

lemma hex_digit_value:
  assumes "k < 16"
  shows "hex_value (''0123456789abcdef'' ! k) = Some k"
proof -
  have "\<forall>k \<in> set [0..<16]. hex_value (''0123456789abcdef'' ! k) = Some k" by code_simp
  with assms show ?thesis by simp
qed

definition hex_char :: "nat \<Rightarrow> char" where
  "hex_char k = ''0123456789abcdef'' ! k"

lemma hex4_chars:
  "hex4 n = [CHR 0x5C, CHR ''u'', hex_char (n div 4096 mod 16), hex_char (n div 256 mod 16), hex_char (n div 16 mod 16),
     hex_char (n mod 16)]"
  unfolding hex4_def hex_char_def by simp

lemma hex_four_chars:
  assumes "a < 16" "b < 16" "c < 16" "d < 16"
  shows "hex_four ([hex_char a, hex_char b, hex_char c, hex_char d] @ rest) = Some (16 * (16 * (16 * a + b) + c) + d)"
  using assms [THEN hex_digit_value] by (simp add: hex_four_def hex_group_def flip: hex_char_def)

lemma hex_four_hex4:
  assumes "n < 65536"
  shows "hex_four (drop 2 (hex4 n) @ rest) = Some n"
proof -
  have "n div 256 = n div 16 div 16" "n div 4096 = n div 16 div 16 div 16" by (simp_all flip: div_mult2_eq)
  moreover have "n div 4096 < 16" using assms by simp
  ultimately have "16 * (16 * (16 * (n div 4096 mod 16) + n div 256 mod 16) + n div 16 mod 16) + n mod 16 = n"
    by (metis mod_less mult_div_mod_eq)
  with hex_four_chars [of "n div 4096 mod 16" "n div 256 mod 16" "n div 16 mod 16" "n mod 16" rest]
  show ?thesis unfolding hex4_chars by (simp only: append_Cons append_Nil drop_Suc_Cons drop_0 numeral_2_eq_2)
qed

lemma json_text_hex4:
  assumes "n < 0xD800"
  shows "json_text (hex4 n @ rest) = prepend (encode_rune n) (json_text rest)"
proof -
  obtain t where h: "hex4 n = CHR 0x5C # CHR ''u'' # t" "length t = 4"
    by (simp add: hex4_chars)
  have "unicode_escape (t @ rest) = Some (n, 4)"
    using hex_four_hex4 [of n rest] assms h by (simp add: unicode_escape_def)
  with h show ?thesis
    by (subst json_text.simps) simp
qed

lemma encode_ascii: "n < 128 \<Longrightarrow> encode_rune n = [char_of n]"
  by (simp add: encode_rune_def)

lemma char_of_byte: "char_of (byte c) = c"
  by (simp add: byte_def)

lemma byte_eq_iff: "byte c = byte d \<longleftrightarrow> c = d"
  by (metis char_of_byte)

lemma json_text_plain:
  assumes "byte (hd r) \<ge> 32" "hd r \<noteq> CHR 0x22" "hd r \<noteq> CHR 0x5C" "rune_len (r @ rest) = length r" "clean_rune r = r" "r \<noteq> []"
  shows "json_text (r @ rest) = prepend r (json_text rest)"
  using assms by (subst json_text.simps) simp

lemma short_escapes:
  "list_all (\<lambda>(b, e). escape_rune [char_of b] = [CHR 0x5C, e] \<and> simple_escape e = Some (char_of b) \<and> e \<noteq> CHR ''u'')
     [(8::nat, CHR ''b''), (9, CHR ''t''), (10, CHR ''n''), (12, CHR ''f''), (13, CHR ''r'')]"
  by code_simp

lemma json_text_escape: "simple_escape e = Some c \<Longrightarrow> e \<noteq> CHR ''u'' \<Longrightarrow>
  json_text (CHR 0x5C # e # rest) = prepend [c] (json_text rest)"
  by (subst json_text.simps) simp

lemma json_text_ascii:
  assumes "byte c < 128"
  shows "json_text (escape_rune [c] @ rest) = prepend [c] (json_text rest)"
proof -
  have quotes: "byte c = 34 \<longleftrightarrow> c = CHR 0x22" "byte c = 92 \<longleftrightarrow> c = CHR 0x5C"
    using byte_eq_iff [of c "CHR 0x22"] byte_eq_iff [of c "CHR 0x5C"] by (simp_all add: byte_def)
  consider "c = CHR 0x22 \<or> c = CHR 0x5C" | "byte c = 8 \<or> byte c = 9 \<or> byte c = 10 \<or> byte c = 12 \<or> byte c = 13"
    | "\<not> (c = CHR 0x22 \<or> c = CHR 0x5C)" "\<not> (byte c = 8 \<or> byte c = 9 \<or> byte c = 10 \<or> byte c = 12 \<or> byte c = 13)"
      "byte c < 32 \<or> c \<in> set ''<>&''"
    | "\<not> (c = CHR 0x22 \<or> c = CHR 0x5C)" "\<not> (byte c = 8 \<or> byte c = 9 \<or> byte c = 10 \<or> byte c = 12 \<or> byte c = 13)"
      "\<not> (byte c < 32 \<or> c \<in> set ''<>&'')"
    by blast
  then show ?thesis
  proof cases
    case 1
    with quotes have "escape_rune [c] = [CHR 0x5C, c]" "simple_escape c = Some c" "c \<noteq> CHR ''u''"
      by (auto simp: escape_rune_def simple_escape_def)
    then show ?thesis by (simp add: json_text_escape)
  next
    case 2
    then obtain e where "escape_rune [char_of (byte c)] = [CHR 0x5C, e]" "simple_escape e = Some (char_of (byte c))" "e \<noteq> CHR ''u''"
      using short_escapes by fastforce
    then show ?thesis by (simp add: json_text_escape char_of_byte)
  next
    case 3
    with quotes have "escape_rune [c] = hex4 (byte c)" by (simp add: escape_rune_def Let_def)
    then show ?thesis using json_text_hex4 [of "byte c" rest] assms by (simp add: encode_ascii char_of_byte)
  next
    case 4
    have "rune_len ([c] @ rest) = 1" using assms by (simp add: rune_len_ascii ascii_def)
    moreover from 4 quotes assms have "escape_rune [c] = [c]" by (simp add: escape_rune_def Let_def)
    ultimately show ?thesis using 4 assms json_text_plain [of "[c]" rest] by (simp add: clean_rune_def)
  qed
qed

text \<open>A sequence of two to four bytes is the same rune whatever follows it.\<close>

lemma rune_shape:
  assumes "2 \<le> rune_len s"
  obtains (two) a b t where "rune_len s = 2" "s = a # b # t" "lead2 (byte a)" "cont (byte b)"
  | (three) a b c t where "rune_len s = 3" "s = a # b # c # t" "second3 (byte a) (byte b)" "cont (byte c)" "\<not> (lead2 (byte a) \<and> cont (byte b))"
  | (four) a b c d t where "rune_len s = 4" "s = a # b # c # d # t" "second4 (byte a) (byte b)" "cont (byte c)" "cont (byte d)"
    "\<not> (lead2 (byte a) \<and> cont (byte b))" "\<not> (second3 (byte a) (byte b) \<and> cont (byte c))"
proof -
  from assms obtain a b u where s: "s = a # b # u"
    by (cases s; cases "tl s") (auto simp: rune_len_def)
  show ?thesis
  proof (cases "lead2 (byte a) \<and> cont (byte b)")
    case True
    then show ?thesis using s two by (simp add: rune_len_def)
  next
    case False
    note low = this
    from assms s low obtain c v where u: "u = c # v"
      by (cases u) (auto simp: rune_len_def split: if_splits)
    show ?thesis
    proof (cases "second3 (byte a) (byte b) \<and> cont (byte c)")
      case True
      then have "rune_len s = 3" using s u low by (simp add: rune_len_def)
      then show ?thesis using s u low True three by blast
    next
      case False
      with assms s u low obtain d t where v: "v = d # t" "second4 (byte a) (byte b)" "cont (byte c)" "cont (byte d)"
        by (cases v) (auto simp: rune_len_def split: if_splits)
      then have "rune_len s = 4" using s u low False by (simp add: rune_len_def)
      then show ?thesis using s u v low False four by blast
    qed
  qed
qed

lemma lead_bytes:
  "lead2 a \<Longrightarrow> 194 \<le> a" "second3 a b \<Longrightarrow> 194 \<le> a" "second4 a b \<Longrightarrow> 194 \<le> a"
  by (auto simp: lead2_def second3_def second4_def split: if_splits)

lemma rune_len_prefix:
  assumes "2 \<le> rune_len s" "r = take (rune_len s) s"
  shows "rune_len (r @ rest) = length r \<and> 2 \<le> length r \<and> 194 \<le> byte (hd r)"
  using assms(1) by (rule rune_shape) (use assms(2) in \<open>auto simp: rune_len_def dest: lead_bytes\<close>)

lemma separators:
  "encode_rune 0x2028 = [char_of (0xE2::nat), char_of (0x80::nat), char_of (0xA8::nat)]"
  "encode_rune 0x2029 = [char_of (0xE2::nat), char_of (0x80::nat), char_of (0xA9::nat)]"
  by (simp_all add: encode_rune_def)

lemma map_byte_eq: "map byte r = bs \<Longrightarrow> r = map char_of bs"
  by (auto simp: comp_def char_of_byte)

lemma json_text_wide:
  assumes "2 \<le> rune_len s" "r = take (rune_len s) s"
  shows "json_text (escape_rune r @ rest) = prepend r (json_text rest)"
proof -
  note shape = rune_len_prefix [OF assms, of rest]
  obtain a b t where r: "r = a # b # t" using shape by (cases r; cases "tl r") auto
  consider "map byte r = [0xE2, 0x80, 0xA8]" | "map byte r = [0xE2, 0x80, 0xA9]"
    | "map byte r \<noteq> [0xE2, 0x80, 0xA8]" "map byte r \<noteq> [0xE2, 0x80, 0xA9]" by blast
  then show ?thesis
  proof cases
    case 1
    then have "escape_rune r = hex4 0x2028" using r by (auto simp: escape_rune_def)
    moreover have "r = encode_rune 0x2028" using map_byte_eq [OF 1] by (simp add: separators)
    ultimately show ?thesis using json_text_hex4 [of "0x2028" rest] by simp
  next
    case 2
    then have "escape_rune r = hex4 0x2029" using r by (auto simp: escape_rune_def)
    moreover have "r = encode_rune 0x2029" using map_byte_eq [OF 2] by (simp add: separators)
    ultimately show ?thesis using json_text_hex4 [of "0x2029" rest] by simp
  next
    case 3
    then have "escape_rune r = r" using r by (auto simp: escape_rune_def)
    moreover have "byte (CHR 0x22) = 34" "byte (CHR 0x5C) = 92" by (simp_all add: byte_def)
    then have "hd r \<noteq> CHR 0x22" "hd r \<noteq> CHR 0x5C" using shape by auto
    moreover have "clean_rune r = r" using r by (simp add: clean_rune_def)
    ultimately show ?thesis using shape r json_text_plain [of r rest] by simp
  qed
qed

lemma json_text_rune:
  assumes "s \<noteq> []" "r = take (rune_len s) s" "clean_rune r = r"
  shows "json_text (escape_rune r @ rest) = prepend r (json_text rest)"
proof (cases "2 \<le> rune_len s")
  case True
  with assms json_text_wide show ?thesis by blast
next
  case False
  with rune_len_pos [of s] have "rune_len s = 1" by simp
  then obtain c where r: "r = [c]" using assms(1,2) by (cases s) auto
  have "clean_rune [c] \<noteq> [c]" if "128 \<le> byte c"
    using that by (simp add: clean_rune_def replacement_rune_def encode_rune_def)
  with assms(3) r have "byte c < 128" by fastforce
  with r json_text_ascii show ?thesis by blast
qed

lemma prepend_append: "prepend xs (prepend ys r) = prepend (xs @ ys) r"
  by (simp add: prepend_def split: option.split)

lemma json_text_runes:
  "valid_text s \<Longrightarrow> json_text (concat (map escape_rune (runes s)) @ rest) = prepend s (json_text rest)"
proof (induction s rule: runes.induct)
  case (1 s)
  show ?case
  proof (cases "s = []")
    case True
    then show ?thesis by (simp add: prepend_def split: option.split)
  next
    case False
    let ?r = "take (rune_len s) s"
    have split: "runes s = ?r # runes (drop (rune_len s) s)" using False by (simp add: runes.simps [of s])
    with "1.prems" have valid: "clean_rune ?r = ?r" "valid_text (drop (rune_len s) s)" by (simp_all add: valid_text_def)
    have "json_text (concat (map escape_rune (runes s)) @ rest) =
        json_text (escape_rune ?r @ concat (map escape_rune (runes (drop (rune_len s) s))) @ rest)"
      by (simp add: split)
    also have "\<dots> = prepend ?r (prepend (drop (rune_len s) s) (json_text rest))"
      using json_text_rune [OF False refl valid(1)] "1.IH" [OF False valid(2)] by simp
    finally show ?thesis by (simp add: prepend_append)
  qed
qed

lemma json_text_quoted:
  assumes "valid_text s"
  shows "json_text (tl (quote_json s) @ rest) = Some (s, rest)"
  using json_text_runes [OF assms, of "CHR 0x22 # rest"] by (simp add: quote_json_def json_text_end prepend_def)

subsection \<open>Documents\<close>

text \<open>What may follow a value inside a document.\<close>

definition follows_value :: "string \<Rightarrow> bool" where
  "follows_value s \<longleftrightarrow> s = [] \<or> hd s \<in> {CHR '','', CHR '']'', CHR ''}''}"

lemma nat_text_zero: "nat_text 0 = ''0''"
  by (simp add: nat_text.simps char_of_def bit_iff_odd)

lemma digit_zero: "(n::nat) < 10 \<Longrightarrow> char_of (48 + n) = CHR ''0'' \<longleftrightarrow> n = 0"
proof
  assume small: "n < 10" and zero: "char_of (48 + n) = CHR ''0''"
  have "digit_value (char_of (48 + n)) = digit_value (CHR ''0'')" using zero by simp
  then show "n = 0" using small by (simp add: digit_value_digit) (simp add: digit_value_def byte_def)
qed (simp add: char_of_eq_iff)

lemma hd_nat_text: "0 < n \<Longrightarrow> hd (nat_text n) \<noteq> CHR ''0''"
proof (induction n rule: nat_text.induct)
  case (1 n)
  show ?case
  proof (cases "n < 10")
    case True
    with "1.prems" show ?thesis by (simp add: nat_text.simps [of n] digit_zero)
  next
    case False
    with 1 show ?thesis by (simp add: nat_text.simps [of n])
  qed
qed

lemma not_digits: "\<not> digit_char (CHR '','')" "\<not> digit_char (CHR '']'')" "\<not> digit_char (CHR ''}'')"
  by (simp_all add: digit_char_def byte_def)

lemma takeWhile_nat_text: "follows_value rest \<Longrightarrow> takeWhile digit_char (nat_text n @ rest) = nat_text n"
  using nat_text_digits [of n] not_digits
  by (cases rest) (auto simp: follows_value_def takeWhile_append2 list_all_iff)

lemma follows_plain: "follows_value rest \<Longrightarrow> number_fraction rest = Some ([], rest) \<and> number_exponent rest = Some ([], rest)"
  by (cases rest) (auto simp: follows_value_def number_fraction_def number_exponent_def)

lemma nat_text_head: "prefix ''0'' (nat_text n @ rest) \<Longrightarrow> n = 0"
  using hd_nat_text [of n] by (cases "nat_text n") auto

lemma nat_text_sign: "\<not> prefix ''-'' (nat_text n @ rest)"
  using nat_text_unsigned(1) [of n] by (cases "nat_text n") auto

lemma literal_digits:
  assumes "follows_value rest"
  shows "(let ds = (if prefix ''0'' (nat_text n @ rest) then ''0'' else takeWhile digit_char (nat_text n @ rest)) in
     (ds, drop (length ds) (nat_text n @ rest))) = (nat_text n, rest)"
  using takeWhile_nat_text [OF assms, of n] nat_text_head [of n rest] by (auto simp: nat_text_zero)

lemma json_literal_Itoa:
  assumes "follows_value rest"
  shows "json_literal (Itoa k @ rest) = Some (Itoa k, rest)"
proof -
  have digits: "(if prefix ''0'' (nat_text n @ rest) then ''0'' else takeWhile digit_char (nat_text n @ rest)) = nat_text n" for n
    using literal_digits [OF assms, of n] by (simp only: Let_def prod.inject)
  have unsigned: "json_literal (nat_text n @ rest) = Some (nat_text n, rest)" for n
    using follows_plain [OF assms] nat_text_sign [of n rest]
    by (simp only: json_literal_def Let_def if_False drop_0 list.size digits) (simp add: nat_text_not_Nil)
  have signed: "json_literal (CHR ''-'' # nat_text n @ rest) = Some (CHR ''-'' # nat_text n, rest)" for n
  proof -
    have "prefix ''-'' (CHR ''-'' # nat_text n @ rest)" "drop (length ''-'') (CHR ''-'' # nat_text n @ rest) = nat_text n @ rest"
      by simp_all
    then show ?thesis using follows_plain [OF assms]
      by (simp only: json_literal_def Let_def if_True digits) (simp add: nat_text_not_Nil)
  qed
  show ?thesis by (simp add: Itoa_def unsigned signed)
qed

lemma Itoa_head: "\<exists>c t. Itoa k = c # t \<and> (digit_char c \<or> c = CHR ''-'')"
proof (cases "k < 0")
  case False
  obtain c t where "nat_text (nat k) = c # t" by (metis nat_text_not_Nil neq_Nil_conv)
  with False nat_text_digits [of "nat k"] show ?thesis by (simp add: Itoa_def)
qed (simp add: Itoa_def)

text \<open>A tree that \<open>Marshal\<close> may have written, with at most \<open>n\<close> levels of arrays and objects.\<close>

fun printable :: "nat \<Rightarrow> json_tree \<Rightarrow> bool" where
  "printable n T_Null = True"
| "printable n (T_Bool b) = True"
| "printable n (T_Number l) = (\<exists>k. l = Itoa k)"
| "printable n (T_String s) = valid_text s"
| "printable 0 (T_Array xs) = False"
| "printable (Suc n) (T_Array xs) = (\<forall>x \<in> set xs. printable n x)"
| "printable 0 (T_Object ms) = False"
| "printable (Suc n) (T_Object ms) = (\<forall>m \<in> set ms. valid_text (fst m) \<and> printable n (snd m))"

definition reads_back :: "nat \<Rightarrow> json_tree \<Rightarrow> bool" where
  "reads_back depth x \<longleftrightarrow>
     (\<forall>rest fuel. follows_value rest \<longrightarrow> length (print_tree x) \<le> fuel \<longrightarrow>
        json_value fuel depth (print_tree x @ rest) = Some (x, rest))"

lemma skip_none: "s \<noteq> [] \<Longrightarrow> \<not> json_space (hd s) \<Longrightarrow> skip_space s = s"
  by (cases s) (auto simp: skip_space_def)

lemma no_space [simp]:
  "\<not> json_space (CHR '','')" "\<not> json_space (CHR '']'')" "\<not> json_space (CHR ''}'')" "\<not> json_space (CHR '':'')"
  "\<not> json_space (CHR ''{'')" "\<not> json_space (CHR ''['')" "\<not> json_space (CHR 0x22)" "\<not> json_space (CHR ''-'')"
  "\<not> json_space (CHR ''t'')" "\<not> json_space (CHR ''f'')" "\<not> json_space (CHR ''n'')"
  "digit_char c \<Longrightarrow> \<not> json_space c"
  by (auto simp: json_space_def byte_def digit_char_def)

lemma print_head: "printable n x \<Longrightarrow> \<exists>c t. print_tree x = c # t \<and> \<not> json_space c \<and> c \<notin> {CHR '']'', CHR ''}''}"
proof (cases x)
  case (T_Number l)
  assume "printable n x"
  with T_Number obtain k where l: "l = Itoa k" by auto
  obtain c t where "Itoa k = c # t" "digit_char c \<or> c = CHR ''-''" using Itoa_head by blast
  with l T_Number not_digits show ?thesis by auto
qed (auto simp: quote_json_def)

lemma reads_simple:
  "reads_back d T_Null" "reads_back d (T_Bool b)"
  "valid_text s \<Longrightarrow> reads_back d (T_String s)" "reads_back d (T_Number (Itoa k))"
proof -
  have word: "json_value fuel d (print_tree x @ rest) = Some (x, rest)"
    if "x \<in> {T_Null, T_Bool True, T_Bool False}" "0 < fuel" for x fuel rest
    using that by (cases fuel) auto
  show "reads_back d T_Null" unfolding reads_back_def by (intro allI impI word) auto
  show "reads_back d (T_Bool b)" unfolding reads_back_def using word [of "T_Bool b"] by (cases b) auto
  have quoted: "json_value fuel d (quote_json s @ rest) = Some (T_String s, rest)" if "valid_text s" "0 < fuel" for s fuel rest
    using json_text_quoted [OF that(1), of rest] that(2) by (cases fuel) (simp_all add: quote_json_def)
  have "0 < length (quote_json s)" by (simp add: quote_json_def)
  then show "reads_back d (T_String s)" if "valid_text s"
    unfolding reads_back_def using quoted [OF that] by (metis print_tree.simps(4) order_less_le_trans)
  obtain c t where head: "Itoa k = c # t" "digit_char c \<or> c = CHR ''-''" using Itoa_head by blast
  then have other: "c \<notin> {CHR 0x22, CHR ''{'', CHR ''['', CHR ''t'', CHR ''f'', CHR ''n''}"
    by (auto simp: digit_char_def byte_def)
  have number: "json_value fuel d (Itoa k @ rest) = Some (T_Number (Itoa k), rest)" if "follows_value rest" "0 < fuel" for fuel rest
    using json_literal_Itoa [OF that(1), of k] that(2) other head by (cases fuel) auto
  then show "reads_back d (T_Number (Itoa k))"
    using head by (auto simp: reads_back_def)
qed

lemma reads_elements:
  assumes "xs \<noteq> []" "\<forall>x \<in> set xs. reads_back d x \<and> (\<exists>n. printable n x)"
    "length (join_with '','' (map print_tree xs)) < fuel"
  shows "json_elements fuel d (join_with '','' (map print_tree xs) @ '']'' @ rest) = Some (xs, rest)"
  using assms
proof (induction xs arbitrary: fuel rule: induct_list012)
  case (2 x)
  then obtain m where "fuel = Suc m" by (cases fuel) auto
  with 2 show ?case by (auto simp: reads_back_def follows_value_def skip_none)
next
  case (3 x y ys)
  from "3.prems" obtain m where fuel: "fuel = Suc m" by (cases fuel) auto
  let ?tail = "join_with '','' (map print_tree (y # ys)) @ '']'' @ rest"
  have "json_value m d (print_tree x @ CHR '','' # ?tail) = Some (x, CHR '','' # ?tail)"
    using "3.prems" fuel by (simp add: reads_back_def follows_value_def)
  moreover have "json_elements m d ?tail = Some (y # ys, rest)"
    using "3.prems" fuel by (intro "3.IH") auto
  moreover have "skip_space ?tail = ?tail"
  proof -
    obtain n where "printable n y" using "3.prems" by auto
    then obtain c t where "print_tree y = c # t" "\<not> json_space c" using print_head by blast
    then show ?thesis by (cases ys) (simp_all add: skip_none)
  qed
  ultimately show ?case by (simp add: fuel skip_none prepend_def)
qed simp

text \<open>What is left to read starts with no space.\<close>

lemma reads_members:
  assumes "ms \<noteq> []" "\<forall>m \<in> set ms. valid_text (fst m) \<and> reads_back d (snd m) \<and> (\<exists>n. printable n (snd m))"
    "length (join_with '','' (map (\<lambda>(k, v). quote_json k @ '':'' @ print_tree v) ms)) < fuel"
  shows "json_members fuel d (join_with '','' (map (\<lambda>(k, v). quote_json k @ '':'' @ print_tree v) ms) @ ''}'' @ rest) = Some (ms, rest)"
  using assms
proof (induction ms arbitrary: fuel rule: induct_list012)
  case (2 m)
  then obtain k x n where m: "m = (k, x)" "valid_text k" "reads_back d x" "printable n x" by (cases m) auto
  then obtain j where fuel: "fuel = Suc j" using 2 by (cases fuel) auto
  have key: "json_text (tl (quote_json k) @ r) = Some (k, r)" for r by (rule json_text_quoted) (rule m)
  have "json_value j d (print_tree x @ CHR ''}'' # rest) = Some (x, CHR ''}'' # rest)"
    using 2 fuel m by (simp add: reads_back_def follows_value_def quote_json_def)
  moreover obtain c t where "print_tree x = c # t" "\<not> json_space c" using m(4) print_head by blast
  ultimately show ?case using key [of "CHR '':'' # print_tree x @ CHR ''}'' # rest"]
    by (simp add: fuel m(1) skip_none quote_json_def)
next
  case (3 m m2 ms)
  from "3.prems" obtain k x n where m: "m = (k, x)" "valid_text k" "reads_back d x" "printable n x" by (cases m) auto
  from "3.prems" obtain j where fuel: "fuel = Suc j" by (cases fuel) auto
  let ?show = "\<lambda>(k, v). quote_json k @ '':'' @ print_tree v"
  let ?tail = "join_with '','' (map ?show (m2 # ms)) @ ''}'' @ rest"
  have key: "json_text (tl (quote_json k) @ r) = Some (k, r)" for r by (rule json_text_quoted) (rule m)
  have "json_value j d (print_tree x @ CHR '','' # ?tail) = Some (x, CHR '','' # ?tail)"
    using "3.prems" fuel m by (simp add: reads_back_def follows_value_def quote_json_def)
  moreover have "json_members j d ?tail = Some (m2 # ms, rest)"
    using "3.prems" fuel m by (intro "3.IH") auto
  moreover have "skip_space ?tail = ?tail"
    by (cases ms; cases m2) (simp_all add: skip_none quote_json_def)
  moreover obtain c t where "print_tree x = c # t" "\<not> json_space c" using m(4) print_head by blast
  ultimately show ?case using key [of "CHR '':'' # print_tree x @ CHR '','' # ?tail"]
    by (simp add: fuel m(1) skip_none quote_json_def prepend_def)
qed simp

lemma printable_reads_back:
  "printable n x \<Longrightarrow> n + d \<le> max_depth \<Longrightarrow> reads_back d x"
proof (induction n x arbitrary: d rule: printable.induct)
  case (6 n xs)
  have inner: "\<forall>x \<in> set xs. reads_back (Suc d) x \<and> (\<exists>n. printable n x)" using 6 by auto
  show ?case unfolding reads_back_def
  proof (intro allI impI)
    fix rest fuel
    assume after: "follows_value rest" and fuel: "length (print_tree (T_Array xs)) \<le> fuel"
    then obtain j where j: "fuel = Suc j" by (cases fuel) auto
    show "json_value fuel d (print_tree (T_Array xs) @ rest) = Some (T_Array xs, rest)"
    proof (cases xs)
      case Nil
      with j "6.prems" show ?thesis by (simp add: skip_none)
    next
      case (Cons y ys)
      let ?body = "join_with '','' (map print_tree xs) @ '']'' @ rest"
      have "json_elements j (Suc d) ?body = Some (xs, rest)"
        using inner Cons fuel j by (intro reads_elements) auto
      moreover obtain c t where "print_tree y = c # t" "\<not> json_space c" "c \<noteq> CHR '']''"
        using inner Cons print_head by (metis insertCI list.set_intros(1))
      then obtain t2 where "?body = c # t2" "\<not> json_space c" "c \<noteq> CHR '']''" using Cons by (cases ys) auto
      ultimately show ?thesis using "6.prems" by (simp add: j skip_none)
    qed
  qed
next
  case (8 n ms)
  let ?show = "\<lambda>(k, v). quote_json k @ '':'' @ print_tree v"
  have inner: "\<forall>m \<in> set ms. valid_text (fst m) \<and> reads_back (Suc d) (snd m) \<and> (\<exists>n. printable n (snd m))" using 8 by auto
  show ?case unfolding reads_back_def
  proof (intro allI impI)
    fix rest fuel
    assume after: "follows_value rest" and fuel: "length (print_tree (T_Object ms)) \<le> fuel"
    then obtain j where j: "fuel = Suc j" by (cases fuel) auto
    show "json_value fuel d (print_tree (T_Object ms) @ rest) = Some (T_Object ms, rest)"
    proof (cases ms)
      case Nil
      with j "8.prems" show ?thesis by (simp add: skip_none)
    next
      case (Cons y ys)
      let ?body = "join_with '','' (map ?show ms) @ ''}'' @ rest"
      have "json_members j (Suc d) ?body = Some (ms, rest)"
        using inner Cons fuel j by (intro reads_members) auto
      moreover obtain t2 where "?body = CHR 0x22 # t2" using Cons by (cases ys; cases y) (auto simp: quote_json_def)
      ultimately show ?thesis using "8.prems" by (simp add: j skip_none)
    qed
  qed
qed (auto simp: reads_simple)

lemma parse_print:
  assumes "printable n x" "n \<le> max_depth"
  shows "parse_json (print_tree x) = Some x"
proof -
  have "reads_back 0 x" using assms by (simp add: printable_reads_back)
  moreover have "follows_value []" "length (print_tree x) \<le> length (print_tree x) + 1" by (simp_all add: follows_value_def)
  ultimately have "json_value (length (print_tree x) + 1) 0 (print_tree x @ []) = Some (x, [])"
    unfolding reads_back_def by blast
  moreover obtain c t where "print_tree x = c # t" "\<not> json_space c" using assms print_head by blast
  then have "skip_space (print_tree x) = print_tree x" "skip_space [] = []" by (simp_all add: skip_none) (simp add: skip_space_def)
  ultimately show ?thesis by (simp only: parse_json_def append_Nil2 option.case prod.case simp_thms if_True)
qed

end
