(* ===== verification/Go_Quote.thy ===== *)
theory Go_Quote
  imports Go_Float Go_Glob Go_Url
begin

text \<open>
  Texts the sources build with \<open>fmt\<close>: \<open>%q\<close> (\<open>strconv.Quote\<close>) and \<open>%x\<close>. Which runes are printable
  is decided here for ASCII and Latin-1; every rune above U+00FF counts as printable. Also
  \<open>strings.Cut\<close> with the report of whether the separator was there, and \<open>float64\<close> arithmetic on
  counters.
\<close>

definition hex_digit_text :: "nat \<Rightarrow> char" where
  "hex_digit_text k = ''0123456789abcdef'' ! k"

function hex_text :: "nat \<Rightarrow> string" where
  "hex_text n = (if n < 16 then [hex_digit_text n] else hex_text (n div 16) @ [hex_digit_text (n mod 16)])"
  by pat_completeness auto
termination by (relation "measure id") auto

declare hex_text.simps [simp del]

definition short_escape :: "nat \<Rightarrow> char option" where
  "short_escape b = map_of [(7, CHR ''a''), (8, CHR ''b''), (12, CHR ''f''), (10, CHR ''n''), (13, CHR ''r''), (9, CHR ''t''),
     (11, CHR ''v'')] b"

definition hex_escape :: "char \<Rightarrow> nat \<Rightarrow> nat \<Rightarrow> string" where
  "hex_escape kind width n =
     [CHR 0x5C, kind] @ map (\<lambda>i. hex_digit_text (n div 16 ^ i mod 16)) (rev [0..<width])"

definition quote_rune :: "string \<Rightarrow> string" where
  "quote_rune r =
     (case r of
        [c] \<Rightarrow>
          (if c = CHR 0x22 \<or> c = CHR 0x5C then [CHR 0x5C, c]
           else if 32 \<le> byte c \<and> byte c < 127 then [c]
           else (case short_escape (byte c) of
                   Some e \<Rightarrow> [CHR 0x5C, e]
                 | None \<Rightarrow> hex_escape (CHR ''x'') 2 (byte c)))
      | _ \<Rightarrow>
          (let n = rune_value r
           in if n < 0xA1 \<or> n = 0xAD then hex_escape (CHR ''u'') 4 n else r))"

definition Quote :: "string \<Rightarrow> string" where
  "Quote s = [CHR 0x22] @ concat (map quote_rune (runes s)) @ [CHR 0x22]"

definition Cut :: "char \<Rightarrow> string \<Rightarrow> (string \<times> string) option" where
  "Cut c s = (if c \<in> set s then Some (cut_at c s) else None)"

text \<open>Counters are \<open>uint64\<close>: sums and products wrap.\<close>

definition wrap_u64 :: "nat \<Rightarrow> nat" where
  "wrap_u64 n = n mod 2 ^ 64"

text \<open>\<open>float64(n)\<close> of an integer, and division.\<close>

definition fl_of_nat :: "nat \<Rightarrow> float64" where
  "fl_of_nat n = round64 (of_nat n)"

definition fl_negative :: "float64 \<Rightarrow> bool" where
  "fl_negative x = (case x of NInf \<Rightarrow> True | Neg_Zero \<Rightarrow> True | Fin r \<Rightarrow> r < 0 | _ \<Rightarrow> False)"

definition fl_signed :: "bool \<Rightarrow> float64 \<Rightarrow> float64" where
  "fl_signed neg x = (if neg then fl_neg x else x)"

text \<open>
  Division of IEEE 754. The quotient of finite numbers is rounded once; a zero quotient has the
  sign of the operands.
\<close>

definition fl_div :: "float64 \<Rightarrow> float64 \<Rightarrow> float64" where
  "fl_div x y =
     (let neg = (fl_negative x \<noteq> fl_negative y);
          zero = (\<lambda>z. z = Neg_Zero \<or> z = Fin 0); inf = (\<lambda>z. z = PInf \<or> z = NInf)
      in if x = NaN \<or> y = NaN then NaN
         else if inf x then (if inf y then NaN else fl_signed neg PInf)
         else if inf y then fl_signed neg (Fin 0)
         else if zero y then (if zero x then NaN else fl_signed neg PInf)
         else (let q = round64 (\<bar>finite_value x\<bar> / \<bar>finite_value y\<bar>) in fl_signed neg q))"

end
