(* ===== verification/Resource_Types.thy ===== *)
theory Resource_Types
  imports Rule_Conditions Go_Quote Go_Json_Parse Go_Path Go_Time
begin

text \<open>
  What the collectors of \<open>internal/collectors/resources\<close> share: the classes of errors, metrics and
  observations (\<open>types.go\<close>), the interfaces to the files of the kernel (\<open>FileSource\<close>) and to the
  kept baselines (\<open>StateStore\<close>), the options, the platform check, counters and their daily totals
  (\<open>state.go\<close>). The files an operating system serves are a parameter: a \<open>FileSource\<close> reads them.
\<close>

subsection \<open>Metrics and observations\<close>

definition MetricGauge :: string where "MetricGauge = ''gauge''"
definition MetricCounter :: string where "MetricCounter = ''counter''"

definition ErrorSourceMissing :: string where "ErrorSourceMissing = ''source_missing''"
definition ErrorPermissionDenied :: string where "ErrorPermissionDenied = ''permission_denied''"
definition ErrorParse :: string where "ErrorParse = ''parse_error''"
definition ErrorTimeout :: string where "ErrorTimeout = ''timeout''"
definition ErrorState :: string where "ErrorState = ''state_error''"
definition ErrorCommand :: string where "ErrorCommand = ''command_error''"
definition ErrorOversized :: string where "ErrorOversized = ''oversized''"
definition ErrorSourceChanged :: string where "ErrorSourceChanged = ''source_changed''"
definition ErrorSourceType :: string where "ErrorSourceType = ''source_type''"

text \<open>The pattern \<open>^pooly_[a-z0-9_]+$\<close>.\<close>

definition metric_name_char :: "char \<Rightarrow> bool" where
  "metric_name_char c \<longleftrightarrow> (97 \<le> byte c \<and> byte c \<le> 122) \<or> digit_char c \<or> c = CHR ''_''"

definition metric_name :: "string \<Rightarrow> bool" where
  "metric_name s \<longleftrightarrow> prefix ''pooly_'' s \<and> drop 6 s \<noteq> [] \<and> list_all metric_name_char (drop 6 s)"

definition allowedLabels :: "string list" where
  "allowedLabels =
     [''collector'', ''cpu'', ''mount'', ''device'', ''interface'', ''pressure_type'', ''window'', ''unit'', ''stream'',
      ''directive'', ''port'', ''profile'', ''watch'', ''event_category'']"

text \<open>Labels are given in the order in which the map is ranged over; the first fault is reported.\<close>

fun clean_labels :: "(string \<times> string) list \<Rightarrow> (string \<rightharpoonup> string) \<Rightarrow> go_error + (string \<rightharpoonup> string)" where
  "clean_labels [] cleaned = Inr cleaned"
| "clean_labels ((k, v) # ls) cleaned =
     (if k \<notin> set allowedLabels then Inl (Text_Error (''label '' @ Quote k @ '' is not allowed''))
      else if v = [] then Inl (Text_Error (''label '' @ Quote k @ '' is empty''))
      else if contains_any v [CHR 0x0A, CHR 0x0D, CHR 0x09]
      then Inl (Text_Error (''label '' @ Quote k @ '' contains control characters''))
      else clean_labels ls (cleaned(k \<mapsto> v)))"

definition NewMetric ::
    "string \<Rightarrow> float64 \<Rightarrow> string \<Rightarrow> string \<Rightarrow> (string \<times> string) list \<Rightarrow> instant \<Rightarrow> go_error + Metric" where
  "NewMetric name value kind unit labels ts =
     (if \<not> metric_name name then Inl (Text_Error (''invalid metric name '' @ Quote name))
      else if kind \<noteq> MetricGauge \<and> kind \<noteq> MetricCounter then Inl (Text_Error (''invalid metric kind '' @ Quote kind))
      else
        (case clean_labels labels Map.empty of
           Inl e \<Rightarrow> Inl e
         | Inr cleaned \<Rightarrow>
             Inr \<lparr>m_Name = name, m_Value = value, m_Kind = kind, m_Unit = unit, m_Labels = cleaned, m_Timestamp = ts\<rparr>))"

text \<open>
  A row of the tables the collectors build their metrics from. \<open>mustMetric\<close> of each row in turn: the
  first error ends the collection, or is dropped with its row.
\<close>

record metric_row =
  row_name :: string
  row_value :: float64
  row_unit :: string
  row_kind :: string
  row_labels :: "(string \<times> string) list"

definition gauge :: "(string \<times> string) list \<Rightarrow> string \<Rightarrow> float64 \<Rightarrow> string \<Rightarrow> metric_row" where
  "gauge labels name value unit =
     \<lparr>row_name = name, row_value = value, row_unit = unit, row_kind = MetricGauge, row_labels = labels\<rparr>"

definition counter :: "(string \<times> string) list \<Rightarrow> string \<Rightarrow> float64 \<Rightarrow> string \<Rightarrow> metric_row" where
  "counter labels name value unit =
     \<lparr>row_name = name, row_value = value, row_unit = unit, row_kind = MetricCounter, row_labels = labels\<rparr>"

definition mustMetric :: "Metric list \<Rightarrow> metric_row \<Rightarrow> instant \<Rightarrow> go_error + Metric list" where
  "mustMetric metrics r ts =
     (case NewMetric (row_name r) (row_value r) (row_kind r) (row_unit r) (row_labels r) ts of
        Inl e \<Rightarrow> Inl e
      | Inr m \<Rightarrow> Inr (metrics @ [m]))"

fun must_metrics :: "Metric list \<Rightarrow> metric_row list \<Rightarrow> instant \<Rightarrow> go_error + Metric list" where
  "must_metrics metrics [] ts = Inr metrics"
| "must_metrics metrics (r # rs) ts =
     (case mustMetric metrics r ts of Inl e \<Rightarrow> Inl e | Inr ms \<Rightarrow> must_metrics ms rs ts)"

fun try_metrics :: "Metric list \<Rightarrow> metric_row list \<Rightarrow> instant \<Rightarrow> Metric list" where
  "try_metrics metrics [] ts = metrics"
| "try_metrics metrics (r # rs) ts =
     (case mustMetric metrics r ts of Inl e \<Rightarrow> try_metrics metrics rs ts | Inr ms \<Rightarrow> try_metrics ms rs ts)"

text \<open>\<open>time.Since\<close> reads the clock of the world.\<close>

definition successObservation ::
    "string \<Rightarrow> string \<Rightarrow> instant \<Rightarrow> Metric list \<Rightarrow> string \<Rightarrow> 'd world \<Rightarrow> Observation \<times> 'd world" where
  "successObservation name target started metrics summary w =
     (\<lparr>ob_Collector = name, ob_Target = target, ob_Timestamp = started, ob_Duration = time_sub (wall w) started,
       ob_Success = True, ob_Supported = True, ob_Stale = False, ob_Metrics = metrics, ob_Summary = summary,
       ob_ErrorClass = ErrorNone, ob_Fields = Map.empty, ob_Events = []\<rparr>, w)"

definition failureObservation ::
    "string \<Rightarrow> string \<Rightarrow> instant \<Rightarrow> string \<Rightarrow> string \<Rightarrow> 'd world \<Rightarrow> Observation \<times> 'd world" where
  "failureObservation name target started cls summary w =
     (\<lparr>ob_Collector = name, ob_Target = target, ob_Timestamp = started, ob_Duration = time_sub (wall w) started,
       ob_Success = False, ob_Supported = (cls \<noteq> ErrorUnsupported), ob_Stale = False, ob_Metrics = [],
       ob_Summary = summary, ob_ErrorClass = cls, ob_Fields = Map.empty, ob_Events = []\<rparr>, w)"

definition unsupportedObservation :: "string \<Rightarrow> string \<Rightarrow> 'd world \<Rightarrow> Observation \<times> 'd world" where
  "unsupportedObservation name target w = failureObservation name target (wall w) ErrorUnsupported ''unsupported platform'' w"

definition classifyReadError :: "go_error option \<Rightarrow> string" where
  "classifyReadError err =
     (case err of
        None \<Rightarrow> ErrorNone
      | Some e \<Rightarrow>
          if errors_is e ErrNotExist then ErrorSourceMissing
          else if errors_is e ErrPermission then ErrorPermissionDenied else ErrorInternal)"

subsection \<open>Files and options\<close>

type_synonym dir_entry = "string \<times> bool"

record 'd FileSource =
  src_ReadFile :: "string \<Rightarrow> (string, 'd) op"
  src_ReadDir :: "string \<Rightarrow> (dir_entry list, 'd) op"

record 'd StateStore =
  ss_Get :: "string \<Rightarrow> string \<Rightarrow> (string, 'd) op"
  ss_Upsert :: "string \<Rightarrow> string \<Rightarrow> string \<Rightarrow> string \<Rightarrow> (unit, 'd) op"

definition cleanSourcePath :: "string \<Rightarrow> string" where
  "cleanSourcePath name =
     (if name = [] then name
      else let clean = Clean name in
        if prefix ''/'' name \<and> \<not> prefix ''/'' clean then ''/'' @ clean else clean)"

definition MapFileSource ::
    "(string \<rightharpoonup> string) option \<Rightarrow> (string \<rightharpoonup> dir_entry list) option \<Rightarrow> 'd FileSource" where
  "MapFileSource files dirs =
     \<lparr>src_ReadFile = (\<lambda>name. case files of
          None \<Rightarrow> fail ErrNotExist
        | Some m \<Rightarrow> (case m (cleanSourcePath name) of Some v \<Rightarrow> ok v | None \<Rightarrow> fail ErrNotExist)),
      src_ReadDir = (\<lambda>name. case dirs of
          None \<Rightarrow> fail ErrNotExist
        | Some m \<Rightarrow> (case m (cleanSourcePath name) of Some v \<Rightarrow> ok v | None \<Rightarrow> fail ErrNotExist))\<rparr>"

definition GOOS :: string where "GOOS = ''linux''"

definition Supported :: "bool option \<Rightarrow> bool" where
  "Supported override = (case override of Some b \<Rightarrow> b | None \<Rightarrow> GOOS = ''linux'')"

record 'd Options =
  op_Source :: "'d FileSource option"
  op_State :: "'d StateStore option"
  op_Persist :: bool
  op_PlatformSupported :: "bool option"
  op_FilesystemMounts :: "string list"
  op_DiskAutoDiscover :: bool
  op_DiskExclude :: "string list"
  op_NetworkAutoDiscover :: bool
  op_NetworkInclude :: "string list"
  op_NetworkExclude :: "string list"
  op_PressureMissingOK :: bool
  op_CPUEnabled :: bool
  op_LoadEnabled :: bool
  op_MemoryEnabled :: bool
  op_PressureEnabled :: bool
  op_FilesystemEnabled :: bool
  op_DiskIOEnabled :: bool
  op_NetworkEnabled :: bool
  op_UptimeEnabled :: bool

record CollectorInfo =
  ci_Name :: string
  ci_Enabled :: bool
  ci_Supported :: bool

definition optionsWithDefaults :: "'d FileSource \<Rightarrow> 'd Options \<Rightarrow> 'd Options" where
  "optionsWithDefaults os opts =
     (let opts = (if op_Source opts = None then opts\<lparr>op_Source := Some os\<rparr> else opts);
          opts = (if op_FilesystemMounts opts = []
                  then opts\<lparr>op_FilesystemMounts := [''/'', ''/home'', ''/var'', ''/var/log'', ''/var/lib'',
                              ''/var/lib/pooly-sentinel'', ''/var/log/pooly-sentinel'']\<rparr> else opts);
          opts = (if op_DiskExclude opts = []
                  then opts\<lparr>op_DiskExclude := [''loop*'', ''ram*'', ''fd*'', ''sr*'']\<rparr> else opts)
      in if op_NetworkExclude opts = []
         then opts\<lparr>op_NetworkExclude := [''lo'', ''docker*'', ''veth*'', ''br-*'']\<rparr> else opts)"

definition DefaultOptions :: "'d FileSource \<Rightarrow> 'd Options" where
  "DefaultOptions os =
     \<lparr>op_Source = Some os, op_State = None, op_Persist = False, op_PlatformSupported = None, op_FilesystemMounts = [],
      op_DiskAutoDiscover = True, op_DiskExclude = [], op_NetworkAutoDiscover = True, op_NetworkInclude = [],
      op_NetworkExclude = [], op_PressureMissingOK = True, op_CPUEnabled = True, op_LoadEnabled = True,
      op_MemoryEnabled = True, op_PressureEnabled = True, op_FilesystemEnabled = True, op_DiskIOEnabled = True,
      op_NetworkEnabled = True, op_UptimeEnabled = True\<rparr>"

definition ListCollectors :: "'d FileSource \<Rightarrow> 'd Options \<Rightarrow> CollectorInfo list" where
  "ListCollectors os opts =
     (let opts = optionsWithDefaults os opts; supported = Supported (op_PlatformSupported opts);
          info = (\<lambda>name enabled. \<lparr>ci_Name = name, ci_Enabled = enabled, ci_Supported = supported\<rparr>)
      in [info ''cpu'' (op_CPUEnabled opts), info ''load'' (op_LoadEnabled opts), info ''memory'' (op_MemoryEnabled opts),
          info ''pressure'' (op_PressureEnabled opts), info ''filesystem'' (op_FilesystemEnabled opts),
          info ''diskio'' (op_DiskIOEnabled opts), info ''network'' (op_NetworkEnabled opts),
          info ''uptime'' (op_UptimeEnabled opts)])"

definition RequiredFailed :: "Observation list \<Rightarrow> bool" where
  "RequiredFailed obs = list_ex (\<lambda>ob. \<not> ob_Success ob \<and> ob_Supported ob) obs"

definition MetricNames :: "Observation \<Rightarrow> string list" where
  "MetricNames ob = sort_key (map byte) (map m_Name (ob_Metrics ob))"

text \<open>The patterns of a list are tried in turn; a malformed one matches nothing.\<close>

definition pathMatch :: "string \<Rightarrow> string \<Rightarrow> bool option" where
  "pathMatch pattern name = Match_path pattern name"

definition matchesAny :: "string \<Rightarrow> string list \<Rightarrow> bool" where
  "matchesAny value patterns = list_ex (\<lambda>p. pathMatch p value = Some True) patterns"

definition includeName :: "string \<Rightarrow> string list \<Rightarrow> string list \<Rightarrow> bool" where
  "includeName value include exclude =
     (if include \<noteq> [] \<and> value \<notin> set include \<and> \<not> matchesAny value include then False
      else \<not> matchesAny value exclude)"

fun unique_from :: "(string \<Rightarrow> go_error + string) \<Rightarrow> string list \<Rightarrow> string list \<Rightarrow> go_error + string list" where
  "unique_from clean [] out = Inr out"
| "unique_from clean (v # vs) out =
     (case clean v of
        Inl e \<Rightarrow> Inl e
      | Inr n \<Rightarrow>
          if n \<in> set out then Inl (Text_Error (''duplicate entry '' @ Quote n))
          else unique_from clean vs (out @ [n]))"

definition uniqueNormalized :: "string list \<Rightarrow> (string \<Rightarrow> go_error + string) \<Rightarrow> go_error + string list" where
  "uniqueNormalized values clean = unique_from clean values []"

definition parseUintText :: "string \<Rightarrow> string \<Rightarrow> go_error + nat" where
  "parseUintText text name =
     (case ParseUint (trim_space text) of
        Inl e \<Rightarrow> Inl (Text_Error (name @ '' is malformed''))
      | Inr n \<Rightarrow> Inr n)"

definition readUintFile :: "'d FileSource \<Rightarrow> string \<Rightarrow> (nat, 'd) op" where
  "readUintFile source name = andThen (src_ReadFile source name) (\<lambda>text. lift_result (parseUintText text name))"

text \<open>A call whose error and result are handled apart; what follows returns no error.\<close>

definition attempt :: "('a, 'd) op \<Rightarrow> (go_error \<Rightarrow> 'd world \<Rightarrow> 'b) \<Rightarrow> ('a \<Rightarrow> 'd world \<Rightarrow> 'b) \<Rightarrow> 'd world \<Rightarrow> 'b" where
  "attempt m h k w = (case m w of (Inl e, w1) \<Rightarrow> h e w1 | (Inr a, w1) \<Rightarrow> k a w1)"

definition source_of :: "'d Options \<Rightarrow> 'd FileSource" where
  "source_of opts = the (op_Source opts)"

subsection \<open>Counters\<close>

record CounterDelta =
  cd_Delta :: nat
  cd_Reset :: bool
  cd_Valid :: bool

definition CalculateCounterDelta :: "nat \<Rightarrow> nat \<Rightarrow> bool \<Rightarrow> CounterDelta" where
  "CalculateCounterDelta previous current hasPrevious =
     (if \<not> hasPrevious then \<lparr>cd_Delta = 0, cd_Reset = False, cd_Valid = False\<rparr>
      else if current < previous then \<lparr>cd_Delta = 0, cd_Reset = True, cd_Valid = False\<rparr>
      else \<lparr>cd_Delta = current - previous, cd_Reset = False, cd_Valid = True\<rparr>)"

record DailyCounter =
  dc_Day :: string
  dc_Total :: nat

text \<open>The date of an instant, which its RFC 3339 text starts with.\<close>

definition day_text :: "instant \<Rightarrow> string" where
  "day_text t = takeWhile (\<lambda>c. c \<noteq> CHR ''T'') (rfc3339 t)"

definition UpdateDailyCounter :: "DailyCounter \<Rightarrow> instant \<Rightarrow> CounterDelta \<Rightarrow> DailyCounter" where
  "UpdateDailyCounter previous now delta =
     (let day = day_text now;
          previous = (if dc_Day previous \<noteq> day then \<lparr>dc_Day = day, dc_Total = 0\<rparr> else previous)
      in if cd_Valid delta \<and> \<not> cd_Reset delta
         then previous\<lparr>dc_Total := wrap_u64 (dc_Total previous + cd_Delta delta)\<rparr> else previous)"

definition ratio :: "nat \<Rightarrow> nat \<Rightarrow> float64" where
  "ratio numerator denominator =
     (if denominator = 0 then Fin 0
      else let value = fl_div (fl_of_nat numerator) (fl_of_nat denominator)
        in if value \<in> {NaN, PInf, NInf} then Fin 0 else value)"

definition boolFloat :: "bool \<Rightarrow> float64" where
  "boolFloat b = (if b then Fin 1 else Fin 0)"

subsection \<open>Baselines\<close>

text \<open>A baseline that is not there yet is no error; it is read with the decoder of its type.\<close>

definition loadState ::
    "'s \<Rightarrow> (json_tree \<Rightarrow> 's \<Rightarrow> 's option) \<Rightarrow> 'd StateStore option \<Rightarrow> string \<Rightarrow> string \<Rightarrow> ('s \<times> bool, 'd) op" where
  "loadState zero decode store collector target w =
     (case store of
        None \<Rightarrow> (Inr (zero, False), w)
      | Some st \<Rightarrow>
          (case ss_Get st collector target w of
             (Inl e, w1) \<Rightarrow> if errors_is e ErrNotFound then (Inr (zero, False), w1) else (Inl e, w1)
           | (Inr raw, w1) \<Rightarrow>
               (case Unmarshal decode raw zero of
                  None \<Rightarrow> (Inl (Text_Error ''malformed state''), w1)
                | Some s \<Rightarrow> (Inr (s, True), w1))))"

definition saveState :: "'d StateStore option \<Rightarrow> bool \<Rightarrow> string \<Rightarrow> string \<Rightarrow> json_tree \<Rightarrow> (unit, 'd) op" where
  "saveState store persist collector target state =
     (if \<not> persist then ok ()
      else case store of None \<Rightarrow> ok () | Some st \<Rightarrow> ss_Upsert st collector target ''ok'' (print_tree state))"

text \<open>\<open>MemoryStateStore\<close>: its key joins collector and target with a zero byte, and it may be told to fail.\<close>

record memory_store =
  mem_data :: "string \<rightharpoonup> string"
  mem_fail :: bool

definition stateKey :: "string \<Rightarrow> string \<Rightarrow> string" where
  "stateKey collector target = collector @ [char_of (0::nat)] @ target"

definition NewMemoryStateStore :: memory_store where
  "NewMemoryStateStore = \<lparr>mem_data = Map.empty, mem_fail = False\<rparr>"

definition SetFail :: "bool \<Rightarrow> memory_store \<Rightarrow> memory_store" where
  "SetFail b s = s\<lparr>mem_fail := b\<rparr>"

definition memory_get :: "string \<Rightarrow> string \<Rightarrow> (string, memory_store) op" where
  "memory_get collector target =
     andThen ctx_err (\<lambda>_ w.
       if mem_fail (data w) then (Inl (Text_Error ''state failure''), w)
       else case mem_data (data w) (stateKey collector target) of
              None \<Rightarrow> (Inl ErrNotFound, w)
            | Some v \<Rightarrow> (Inr v, w))"

definition memory_upsert :: "string \<Rightarrow> string \<Rightarrow> string \<Rightarrow> string \<Rightarrow> (unit, memory_store) op" where
  "memory_upsert collector target status text =
     andThen ctx_err (\<lambda>_ w.
       if mem_fail (data w) then (Inl (Text_Error ''state failure''), w)
       else (Inr (), w\<lparr>data := (data w)\<lparr>mem_data := (mem_data (data w))(stateKey collector target \<mapsto> text)\<rparr>\<rparr>))"

definition memory_state_store :: "memory_store StateStore" where
  "memory_state_store = \<lparr>ss_Get = memory_get, ss_Upsert = memory_upsert\<rparr>"

end
