(* ===== verification/Resource_Parsers.thy ===== *)
theory Resource_Parsers
  imports Resource_Types
begin

text \<open>
  The parsers of the kernel's files (\<open>cpu.go\<close>, \<open>load.go\<close>, \<open>memory.go\<close>, \<open>pressure.go\<close>, \<open>uptime.go\<close>,
  \<open>diskio.go\<close>, \<open>filesystem.go\<close>), the filter of disk devices, and the baselines of the collectors with
  their JSON forms.
\<close>

definition malformed :: "string \<Rightarrow> go_error" where
  "malformed what = Text_Error (what @ '' is malformed'')"

definition read_uint :: "string \<Rightarrow> string \<Rightarrow> go_error + nat" where
  "read_uint what s = (case ParseUint s of Inl e \<Rightarrow> Inl (malformed what) | Inr n \<Rightarrow> Inr n)"

definition read_float :: "string \<Rightarrow> string \<Rightarrow> go_error + float64" where
  "read_float what s = (case ParseFloat s of Inl e \<Rightarrow> Inl (malformed what) | Inr x \<Rightarrow> Inr x)"

definition lines_of :: "string \<Rightarrow> string list" where
  "lines_of text = split_on (CHR 0x0A) text"

definition bind_sum :: "go_error + 'a \<Rightarrow> ('a \<Rightarrow> go_error + 'b) \<Rightarrow> go_error + 'b" where
  "bind_sum r f = (case r of Inl e \<Rightarrow> Inl e | Inr a \<Rightarrow> f a)"

definition value_at :: "nat list \<Rightarrow> nat \<Rightarrow> nat" where
  "value_at xs i = (if i < length xs then xs ! i else 0)"

fun uint_values :: "(nat \<Rightarrow> go_error) \<Rightarrow> nat \<Rightarrow> string list \<Rightarrow> go_error + nat list" where
  "uint_values err i [] = Inr []"
| "uint_values err i (f # fs) =
     (case ParseUint f of
        Inl e \<Rightarrow> Inl (err i)
      | Inr n \<Rightarrow> (case uint_values err (Suc i) fs of Inl e \<Rightarrow> Inl e | Inr ns \<Rightarrow> Inr (n # ns)))"

text \<open>The result of a parser over lines: each line gives an error, nothing or a record.\<close>

fun collect_lines :: "(string \<Rightarrow> go_error + 'a option) \<Rightarrow> string list \<Rightarrow> go_error + 'a list" where
  "collect_lines f [] = Inr []"
| "collect_lines f (l # ls) =
     (case f l of
        Inl e \<Rightarrow> Inl e
      | Inr x \<Rightarrow>
          (case collect_lines f ls of
             Inl e \<Rightarrow> Inl e
           | Inr xs \<Rightarrow> Inr (case x of None \<Rightarrow> xs | Some a \<Rightarrow> a # xs)))"

subsection \<open>Processors\<close>

record CPUStat =
  cp_Name :: string
  cp_User :: nat
  cp_Nice :: nat
  cp_System :: nat
  cp_Idle :: nat
  cp_IOWait :: nat
  cp_IRQ :: nat
  cp_SoftIRQ :: nat
  cp_Steal :: nat
  cp_Guest :: nat
  cp_GuestNice :: nat

definition Total :: "CPUStat \<Rightarrow> nat" where
  "Total s = wrap_u64 (cp_User s + cp_Nice s + cp_System s + cp_Idle s + cp_IOWait s + cp_IRQ s + cp_SoftIRQ s + cp_Steal s)"

definition Busy :: "CPUStat \<Rightarrow> nat" where
  "Busy s = (let total = Total s; idle = wrap_u64 (cp_Idle s + cp_IOWait s) in if total < idle then 0 else total - idle)"

definition isCPUName :: "string \<Rightarrow> bool" where
  "isCPUName name \<longleftrightarrow> 3 < length name \<and> prefix ''cpu'' name \<and> list_all digit_char (drop 3 name)"

definition cpu_line :: "string \<Rightarrow> go_error + CPUStat option" where
  "cpu_line line =
     (let fields = Fields line
      in if fields = [] \<or> \<not> prefix ''cpu'' (hd fields) then Inr None
         else if hd fields \<noteq> ''cpu'' \<and> \<not> isCPUName (hd fields) then Inr None
         else if length fields < 8 then Inl (Text_Error (''cpu line '' @ Quote (hd fields) @ '' is truncated''))
         else
           (case uint_values (\<lambda>_. Text_Error (''cpu line '' @ Quote (hd fields) @ '' has malformed value'')) 0
                   (take 10 (tl fields)) of
              Inl e \<Rightarrow> Inl e
            | Inr vs \<Rightarrow>
                Inr (Some \<lparr>cp_Name = hd fields, cp_User = value_at vs 0, cp_Nice = value_at vs 1, cp_System = value_at vs 2,
                  cp_Idle = value_at vs 3, cp_IOWait = value_at vs 4, cp_IRQ = value_at vs 5, cp_SoftIRQ = value_at vs 6,
                  cp_Steal = value_at vs 7, cp_Guest = value_at vs 8, cp_GuestNice = value_at vs 9\<rparr>)))"

definition ParseProcStatCPU :: "string \<Rightarrow> go_error + CPUStat list" where
  "ParseProcStatCPU text =
     bind_sum (collect_lines cpu_line (lines_of text))
       (\<lambda>stats. if stats = [] then Inl (Text_Error ''no cpu lines found'') else Inr stats)"

definition CPUCount :: "CPUStat list \<Rightarrow> nat" where
  "CPUCount stats = length (filter (\<lambda>s. isCPUName (cp_Name s)) stats)"

subsection \<open>Load\<close>

record LoadAvg =
  la_Load1 :: float64
  la_Load5 :: float64
  la_Load15 :: float64
  la_Runnable :: nat
  la_TotalTasks :: nat
  la_RecentPID :: nat

definition ParseLoadAvg :: "string \<Rightarrow> go_error + LoadAvg" where
  "ParseLoadAvg text =
     (let fields = Fields text
      in if length fields < 5
         then Inl (Text_Error (''loadavg has '' @ nat_text (length fields) @ '' fields, want at least 5''))
         else
           bind_sum (read_float ''load1'' (fields ! 0)) (\<lambda>load1.
           bind_sum (read_float ''load5'' (fields ! 1)) (\<lambda>load5.
           bind_sum (read_float ''load15'' (fields ! 2)) (\<lambda>load15.
             (let taskParts = split_on (CHR ''/'') (fields ! 3)
              in if length taskParts \<noteq> 2 then Inl (malformed ''task field'')
                 else
                   bind_sum (read_uint ''runnable tasks'' (taskParts ! 0)) (\<lambda>runnable.
                   bind_sum (read_uint ''total tasks'' (taskParts ! 1)) (\<lambda>total.
                   bind_sum (read_uint ''recent pid'' (fields ! 4)) (\<lambda>pid.
                     Inr \<lparr>la_Load1 = load1, la_Load5 = load5, la_Load15 = load15, la_Runnable = runnable,
                       la_TotalTasks = total, la_RecentPID = pid\<rparr>))))))))"

subsection \<open>Memory\<close>

type_synonym MemInfo = "string \<rightharpoonup> nat"

definition requiredMemInfoFields :: "string list" where
  "requiredMemInfoFields =
     [''MemTotal'', ''MemAvailable'', ''MemFree'', ''Buffers'', ''Cached'', ''SwapTotal'', ''SwapFree'', ''Dirty'',
      ''Writeback'', ''Slab'', ''SReclaimable'', ''SUnreclaim'', ''KernelStack'', ''PageTables'']"

definition trim_suffix :: "string \<Rightarrow> string \<Rightarrow> string" where
  "trim_suffix s p = (if suffix p s then take (length s - length p) s else s)"

fun meminfo_lines :: "string list \<Rightarrow> MemInfo \<Rightarrow> go_error + MemInfo" where
  "meminfo_lines [] m = Inr m"
| "meminfo_lines (l # ls) m =
     (let line = trim_space l
      in if line = [] then meminfo_lines ls m
         else
           (let parts = Fields line
            in if length parts < 2 then Inl (Text_Error ''meminfo line is truncated'')
               else
                 (let key = trim_suffix (parts ! 0) '':''
                  in case ParseUint (parts ! 1) of
                       Inl e \<Rightarrow> Inl (malformed (''meminfo field '' @ key))
                     | Inr value \<Rightarrow>
                         if (2 ^ 64 - 1) div 1024 < value
                         then Inl (Text_Error (''meminfo field '' @ key @ '' overflows bytes''))
                         else meminfo_lines ls (m(key \<mapsto> value * 1024)))))"

definition ParseMemInfo :: "string \<Rightarrow> go_error + MemInfo" where
  "ParseMemInfo text =
     bind_sum (meminfo_lines (lines_of text) Map.empty) (\<lambda>m.
       case List.find (\<lambda>key. m key = None) requiredMemInfoFields of
         Some key \<Rightarrow> Inl (Text_Error (''meminfo missing required field '' @ key))
       | None \<Rightarrow>
           if m ''MemTotal'' = Some 0 then Inl (Text_Error ''MemTotal must be greater than zero'') else Inr m)"

definition mem_value :: "MemInfo \<Rightarrow> string \<Rightarrow> nat" where
  "mem_value m key = (case m key of None \<Rightarrow> 0 | Some v \<Rightarrow> v)"

subsection \<open>Pressure\<close>

record PSIRecord =
  psi_Type :: string
  psi_Avg10 :: float64
  psi_Avg60 :: float64
  psi_Avg300 :: float64
  psi_Total :: nat

fun psi_fields :: "string list \<Rightarrow> PSIRecord \<Rightarrow> go_error + PSIRecord" where
  "psi_fields [] r = Inr r"
| "psi_fields (f # fs) r =
     (case Cut (CHR ''='') f of
        None \<Rightarrow> Inl (malformed (''psi field '' @ Quote f))
      | Some (key, value) \<Rightarrow>
          if key = ''avg10'' then bind_sum (read_float ''psi avg10'' value) (\<lambda>x. psi_fields fs (r\<lparr>psi_Avg10 := x\<rparr>))
          else if key = ''avg60'' then bind_sum (read_float ''psi avg60'' value) (\<lambda>x. psi_fields fs (r\<lparr>psi_Avg60 := x\<rparr>))
          else if key = ''avg300'' then bind_sum (read_float ''psi avg300'' value) (\<lambda>x. psi_fields fs (r\<lparr>psi_Avg300 := x\<rparr>))
          else if key = ''total'' then bind_sum (read_uint ''psi total'' value) (\<lambda>x. psi_fields fs (r\<lparr>psi_Total := x\<rparr>))
          else Inl (Text_Error (''unknown psi field '' @ Quote key)))"

fun psi_lines :: "string list \<Rightarrow> (string \<times> PSIRecord) list \<Rightarrow> go_error + (string \<times> PSIRecord) list" where
  "psi_lines [] records = Inr records"
| "psi_lines (l # ls) records =
     (let line = trim_space l
      in if line = [] then psi_lines ls records
         else
           (let fields = Fields line
            in if length fields < 5 then Inl (Text_Error (''psi line '' @ Quote (fields ! 0) @ '' is truncated''))
               else if fields ! 0 \<noteq> ''some'' \<and> fields ! 0 \<noteq> ''full''
               then Inl (Text_Error (''unknown psi record type '' @ Quote (fields ! 0)))
               else
                 bind_sum (psi_fields (tl fields)
                     \<lparr>psi_Type = fields ! 0, psi_Avg10 = Fin 0, psi_Avg60 = Fin 0, psi_Avg300 = Fin 0, psi_Total = 0\<rparr>)
                   (\<lambda>r. psi_lines ls (put_entry (psi_Type r) r records))))"

definition ParsePSI :: "string \<Rightarrow> go_error + (string \<times> PSIRecord) list" where
  "ParsePSI text =
     bind_sum (psi_lines (lines_of text) [])
       (\<lambda>records. if records = [] then Inl (Text_Error ''no psi records found'') else Inr records)"

subsection \<open>Uptime\<close>

definition ParseProcUptime :: "string \<Rightarrow> go_error + float64" where
  "ParseProcUptime text =
     (let fields = Fields text
      in if fields = [] then Inl (Text_Error ''uptime is truncated'')
         else bind_sum (read_float ''uptime'' (fields ! 0)) (\<lambda>value.
           if fl_less value (Fin 0) then Inl (Text_Error ''uptime cannot be negative'') else Inr value))"

fun boot_time_lines :: "string list \<Rightarrow> go_error + nat" where
  "boot_time_lines [] = Inl (Text_Error ''btime not found'')"
| "boot_time_lines (l # ls) =
     (let fields = Fields l
      in if fields = [] \<or> fields ! 0 \<noteq> ''btime'' then boot_time_lines ls
         else if length fields \<noteq> 2 then Inl (malformed ''btime line'')
         else read_uint ''btime'' (fields ! 1))"

definition ParseBootTime :: "string \<Rightarrow> go_error + nat" where
  "ParseBootTime text = boot_time_lines (lines_of text)"

definition ParseBootID :: "string \<Rightarrow> go_error + string" where
  "ParseBootID text =
     (let value = trim_space text
      in if value = [] then Inl (Text_Error ''boot id is empty'')
         else if length value < 8 \<or> contains_any value [CHR '' '', CHR 0x09, CHR 0x0D, CHR 0x0A]
         then Inl (malformed ''boot id'') else Inr value)"

subsection \<open>Disks\<close>

record DiskStat =
  dk_Device :: string
  dk_Reads :: nat
  dk_SectorsRead :: nat
  dk_ReadMilliseconds :: nat
  dk_Writes :: nat
  dk_SectorsWritten :: nat
  dk_WriteMilliseconds :: nat
  dk_IOInProgress :: nat
  dk_IOMilliseconds :: nat
  dk_WeightedMilliseconds :: nat

definition parseDiskFields :: "string list \<Rightarrow> go_error + DiskStat" where
  "parseDiskFields texts =
     (if length texts < 11 then Inl (Text_Error ''disk fields are truncated'')
      else
        bind_sum (uint_values (\<lambda>i. malformed (''disk field '' @ nat_text i)) 0 texts) (\<lambda>vs.
          Inr \<lparr>dk_Device = [], dk_Reads = vs ! 0, dk_SectorsRead = vs ! 2, dk_ReadMilliseconds = vs ! 3, dk_Writes = vs ! 4,
            dk_SectorsWritten = vs ! 6, dk_WriteMilliseconds = vs ! 7, dk_IOInProgress = vs ! 8, dk_IOMilliseconds = vs ! 9,
            dk_WeightedMilliseconds = vs ! 10\<rparr>))"

definition disk_line :: "string \<Rightarrow> go_error + DiskStat option" where
  "disk_line line =
     (let fields = Fields line
      in if fields = [] then Inr None
         else if length fields < 14 then Inl (Text_Error ''diskstats line is truncated'')
         else bind_sum (parseDiskFields (drop 3 fields)) (\<lambda>s. Inr (Some (s\<lparr>dk_Device := fields ! 2\<rparr>))))"

definition ParseDiskStats :: "string \<Rightarrow> go_error + DiskStat list" where
  "ParseDiskStats text =
     bind_sum (collect_lines disk_line (lines_of text))
       (\<lambda>stats. if stats = [] then Inl (Text_Error ''no diskstats records found'') else Inr stats)"

definition ParseSysBlockStat :: "string \<Rightarrow> string \<Rightarrow> go_error + DiskStat" where
  "ParseSysBlockStat device text =
     (let fields = Fields text
      in if length fields < 11 then Inl (Text_Error (''block stat for '' @ device @ '' is truncated''))
         else bind_sum (parseDiskFields fields) (\<lambda>s. Inr (s\<lparr>dk_Device := device\<rparr>)))"

definition ReadBytes :: "DiskStat \<Rightarrow> nat" where
  "ReadBytes d = wrap_u64 (dk_SectorsRead d * 512)"

definition WriteBytes :: "DiskStat \<Rightarrow> nat" where
  "WriteBytes d = wrap_u64 (dk_SectorsWritten d * 512)"

definition allDigits :: "string \<Rightarrow> bool" where
  "allDigits value \<longleftrightarrow> list_all digit_char value \<and> value \<noteq> []"

text \<open>The whole device a partition belongs to, or the empty string.\<close>

definition partitionParent :: "string \<Rightarrow> string" where
  "partitionParent device =
     (if prefix ''nvme'' device \<or> prefix ''mmcblk'' device then
        (case last_index (CHR ''p'') device of
           None \<Rightarrow> []
         | Some i \<Rightarrow>
             if 0 < i \<and> i < length device - 1 \<and> allDigits (drop (i + 1) device) then take i device else [])
      else
        (let stem = rev (dropWhile digit_char (rev device))
         in if length stem < length device \<and> 3 \<le> length stem then stem else []))"

definition whole_devices :: "DiskStat list \<Rightarrow> string list \<Rightarrow> string set" where
  "whole_devices stats exclude =
     set (map dk_Device (filter (\<lambda>s. \<not> matchesAny (dk_Device s) exclude \<and> partitionParent (dk_Device s) = []) stats))"

definition FilterDiskDevices :: "DiskStat list \<Rightarrow> string list \<Rightarrow> DiskStat list" where
  "FilterDiskDevices stats exclude =
     filter (\<lambda>s. \<not> matchesAny (dk_Device s) exclude \<and>
       \<not> (partitionParent (dk_Device s) \<noteq> [] \<and> partitionParent (dk_Device s) \<in> whole_devices stats exclude)) stats"

subsection \<open>File systems\<close>

record rawFSStat =
  raw_Blocks :: nat
  raw_BlockSize :: nat
  raw_FreeBlocks :: nat
  raw_AvailBlocks :: nat
  raw_Files :: nat
  raw_FreeFiles :: nat
  raw_ReadOnly :: bool
  raw_Type :: string

record FSStat =
  fs_SizeBytes :: nat
  fs_FreeBytes :: nat
  fs_AvailableBytes :: nat
  fs_UsedBytes :: nat
  fs_UsedRatio :: float64
  fs_InodesTotal :: nat
  fs_InodesFree :: nat
  fs_InodesUsedRatio :: float64
  fs_ReadOnly :: bool
  fs_Type :: string

definition ComputeFSStat :: "rawFSStat \<Rightarrow> go_error + FSStat" where
  "ComputeFSStat raw =
     (if raw_Blocks raw = 0 \<or> raw_BlockSize raw = 0
      then Inl (Text_Error ''filesystem has zero blocks or block size'')
      else
        (let size = wrap_u64 (raw_Blocks raw * raw_BlockSize raw);
             free = wrap_u64 (raw_FreeBlocks raw * raw_BlockSize raw);
             available = wrap_u64 (raw_AvailBlocks raw * raw_BlockSize raw);
             used = (if free \<le> size then size - free else 0);
             usedInodes = (if raw_FreeFiles raw \<le> raw_Files raw then raw_Files raw - raw_FreeFiles raw else 0)
         in Inr \<lparr>fs_SizeBytes = size, fs_FreeBytes = free, fs_AvailableBytes = available, fs_UsedBytes = used,
              fs_UsedRatio = fl_sub (Fin 1) (ratio available size), fs_InodesTotal = raw_Files raw,
              fs_InodesFree = raw_FreeFiles raw,
              fs_InodesUsedRatio = (if 0 < raw_Files raw then ratio usedInodes (raw_Files raw) else Fin 0),
              fs_ReadOnly = raw_ReadOnly raw, fs_Type = raw_Type raw\<rparr>))"

definition mount_path :: "string \<Rightarrow> go_error + string" where
  "mount_path value =
     (if value = [] then Inl (Text_Error ''mount path is empty'')
      else if \<not> IsAbs value then Inl (Text_Error ''mount path must be absolute'')
      else Inr (Clean value))"

definition normalizeMounts :: "string list \<Rightarrow> go_error + string list" where
  "normalizeMounts mounts = uniqueNormalized mounts mount_path"

fun dedupe_from :: "string list \<Rightarrow> string list \<Rightarrow> string list" where
  "dedupe_from [] out = out"
| "dedupe_from (v # vs) out = dedupe_from vs (if v \<in> set out then out else out @ [v])"

definition dedupeStrings :: "string list \<Rightarrow> string list" where
  "dedupeStrings values = dedupe_from values []"

text \<open>What \<open>unix.Statfs\<close> fills in; the block size and the type are signed.\<close>

record Statfs_t =
  st_Type :: int
  st_Bsize :: int
  st_Blocks :: nat
  st_Bfree :: nat
  st_Bavail :: nat
  st_Files :: nat
  st_Ffree :: nat
  st_Flags :: int

definition statFilesystem :: "(string \<Rightarrow> (Statfs_t, 'd) op) \<Rightarrow> string \<Rightarrow> (rawFSStat, 'd) op" where
  "statFilesystem Statfs path =
     andThen (map_err (Wrap_Error (''statfs '' @ path @ '' failed'')) (Statfs path)) (\<lambda>st.
       ok \<lparr>raw_Blocks = st_Blocks st, raw_BlockSize = nat (st_Bsize st mod 2 ^ 64), raw_FreeBlocks = st_Bfree st,
         raw_AvailBlocks = st_Bavail st, raw_Files = st_Files st, raw_FreeFiles = st_Ffree st,
         raw_ReadOnly = (st_Flags st mod 2 \<noteq> 0),
         raw_Type = (if st_Type st < 0 then ''-0x'' @ hex_text (nat (- st_Type st)) else ''0x'' @ hex_text (nat (st_Type st)))\<rparr>)"

subsection \<open>Baselines\<close>

definition zero_cpu :: CPUStat where
  "zero_cpu = \<lparr>cp_Name = [], cp_User = 0, cp_Nice = 0, cp_System = 0, cp_Idle = 0, cp_IOWait = 0, cp_IRQ = 0,
     cp_SoftIRQ = 0, cp_Steal = 0, cp_Guest = 0, cp_GuestNice = 0\<rparr>"

definition cpu_fields :: "CPUStat field list" where
  "cpu_fields =
     [field ''name'' cp_Name (\<lambda>v s. s\<lparr>cp_Name := v\<rparr>) decode_string,
      field ''user'' cp_User (\<lambda>v s. s\<lparr>cp_User := v\<rparr>) decode_uint64,
      field ''nice'' cp_Nice (\<lambda>v s. s\<lparr>cp_Nice := v\<rparr>) decode_uint64,
      field ''system'' cp_System (\<lambda>v s. s\<lparr>cp_System := v\<rparr>) decode_uint64,
      field ''idle'' cp_Idle (\<lambda>v s. s\<lparr>cp_Idle := v\<rparr>) decode_uint64,
      field ''iowait'' cp_IOWait (\<lambda>v s. s\<lparr>cp_IOWait := v\<rparr>) decode_uint64,
      field ''irq'' cp_IRQ (\<lambda>v s. s\<lparr>cp_IRQ := v\<rparr>) decode_uint64,
      field ''softirq'' cp_SoftIRQ (\<lambda>v s. s\<lparr>cp_SoftIRQ := v\<rparr>) decode_uint64,
      field ''steal'' cp_Steal (\<lambda>v s. s\<lparr>cp_Steal := v\<rparr>) decode_uint64,
      field ''guest'' cp_Guest (\<lambda>v s. s\<lparr>cp_Guest := v\<rparr>) decode_uint64,
      field ''guest_nice'' cp_GuestNice (\<lambda>v s. s\<lparr>cp_GuestNice := v\<rparr>) decode_uint64]"

definition cpu_tree :: "CPUStat \<Rightarrow> json_tree" where
  "cpu_tree s = T_Object
     [(''name'', T_String (cp_Name s)), (''user'', uint_tree (cp_User s)), (''nice'', uint_tree (cp_Nice s)),
      (''system'', uint_tree (cp_System s)), (''idle'', uint_tree (cp_Idle s)), (''iowait'', uint_tree (cp_IOWait s)),
      (''irq'', uint_tree (cp_IRQ s)), (''softirq'', uint_tree (cp_SoftIRQ s)), (''steal'', uint_tree (cp_Steal s)),
      (''guest'', uint_tree (cp_Guest s)), (''guest_nice'', uint_tree (cp_GuestNice s))]"

record cpuState =
  cst_Stats :: "(string \<times> CPUStat) list option"

definition zero_cpu_state :: cpuState where
  "zero_cpu_state = \<lparr>cst_Stats = None\<rparr>"

definition map_json :: "('v \<Rightarrow> json_tree) \<Rightarrow> (string \<times> 'v) list option \<Rightarrow> json_tree" where
  "map_json tree m = (case m of None \<Rightarrow> T_Null | Some xs \<Rightarrow> map_tree tree xs)"

definition cpu_state_fields :: "cpuState field list" where
  "cpu_state_fields =
     [field ''stats'' cst_Stats (\<lambda>v s. s\<lparr>cst_Stats := v\<rparr>) (decode_map (\<lambda>x. decode_struct cpu_fields x zero_cpu))]"

definition cpu_state_tree :: "cpuState \<Rightarrow> json_tree" where
  "cpu_state_tree s = T_Object [(''stats'', map_json cpu_tree (cst_Stats s))]"

definition cpuStateFromStats :: "CPUStat list \<Rightarrow> string" where
  "cpuStateFromStats stats =
     print_tree (cpu_state_tree \<lparr>cst_Stats = Some (fold (\<lambda>s. put_entry (cp_Name s) s) stats [])\<rparr>)"

definition map_get :: "'v \<Rightarrow> (string \<times> 'v) list option \<Rightarrow> string \<Rightarrow> 'v \<times> bool" where
  "map_get zero m key =
     (case m of
        None \<Rightarrow> (zero, False)
      | Some xs \<Rightarrow> (case map_of xs key of None \<Rightarrow> (zero, False) | Some v \<Rightarrow> (v, True)))"

definition zero_daily :: DailyCounter where
  "zero_daily = \<lparr>dc_Day = [], dc_Total = 0\<rparr>"

definition daily_fields :: "DailyCounter field list" where
  "daily_fields =
     [field ''day'' dc_Day (\<lambda>v s. s\<lparr>dc_Day := v\<rparr>) decode_string,
      field ''total'' dc_Total (\<lambda>v s. s\<lparr>dc_Total := v\<rparr>) decode_uint64]"

definition daily_tree :: "DailyCounter \<Rightarrow> json_tree" where
  "daily_tree d = T_Object [(''day'', T_String (dc_Day d)), (''total'', uint_tree (dc_Total d))]"

text \<open>The two daily totals of a device or interface, under the names of its direction.\<close>

record daily_pair =
  dp_in :: DailyCounter
  dp_out :: DailyCounter

definition zero_pair :: daily_pair where
  "zero_pair = \<lparr>dp_in = zero_daily, dp_out = zero_daily\<rparr>"

definition pair_fields :: "string \<Rightarrow> string \<Rightarrow> daily_pair field list" where
  "pair_fields inward outward =
     [field inward dp_in (\<lambda>v s. s\<lparr>dp_in := v\<rparr>) (decode_struct daily_fields),
      field outward dp_out (\<lambda>v s. s\<lparr>dp_out := v\<rparr>) (decode_struct daily_fields)]"

definition pair_tree :: "string \<Rightarrow> string \<Rightarrow> daily_pair \<Rightarrow> json_tree" where
  "pair_tree inward outward p = T_Object [(inward, daily_tree (dp_in p)), (outward, daily_tree (dp_out p))]"

definition zero_disk :: DiskStat where
  "zero_disk = \<lparr>dk_Device = [], dk_Reads = 0, dk_SectorsRead = 0, dk_ReadMilliseconds = 0, dk_Writes = 0,
     dk_SectorsWritten = 0, dk_WriteMilliseconds = 0, dk_IOInProgress = 0, dk_IOMilliseconds = 0, dk_WeightedMilliseconds = 0\<rparr>"

definition disk_fields :: "DiskStat field list" where
  "disk_fields =
     [field ''device'' dk_Device (\<lambda>v s. s\<lparr>dk_Device := v\<rparr>) decode_string,
      field ''reads'' dk_Reads (\<lambda>v s. s\<lparr>dk_Reads := v\<rparr>) decode_uint64,
      field ''sectors_read'' dk_SectorsRead (\<lambda>v s. s\<lparr>dk_SectorsRead := v\<rparr>) decode_uint64,
      field ''read_milliseconds'' dk_ReadMilliseconds (\<lambda>v s. s\<lparr>dk_ReadMilliseconds := v\<rparr>) decode_uint64,
      field ''writes'' dk_Writes (\<lambda>v s. s\<lparr>dk_Writes := v\<rparr>) decode_uint64,
      field ''sectors_written'' dk_SectorsWritten (\<lambda>v s. s\<lparr>dk_SectorsWritten := v\<rparr>) decode_uint64,
      field ''write_milliseconds'' dk_WriteMilliseconds (\<lambda>v s. s\<lparr>dk_WriteMilliseconds := v\<rparr>) decode_uint64,
      field ''io_in_progress'' dk_IOInProgress (\<lambda>v s. s\<lparr>dk_IOInProgress := v\<rparr>) decode_uint64,
      field ''io_milliseconds'' dk_IOMilliseconds (\<lambda>v s. s\<lparr>dk_IOMilliseconds := v\<rparr>) decode_uint64,
      field ''weighted_milliseconds'' dk_WeightedMilliseconds (\<lambda>v s. s\<lparr>dk_WeightedMilliseconds := v\<rparr>) decode_uint64]"

definition disk_tree :: "DiskStat \<Rightarrow> json_tree" where
  "disk_tree s = T_Object
     [(''device'', T_String (dk_Device s)), (''reads'', uint_tree (dk_Reads s)), (''sectors_read'', uint_tree (dk_SectorsRead s)),
      (''read_milliseconds'', uint_tree (dk_ReadMilliseconds s)), (''writes'', uint_tree (dk_Writes s)),
      (''sectors_written'', uint_tree (dk_SectorsWritten s)), (''write_milliseconds'', uint_tree (dk_WriteMilliseconds s)),
      (''io_in_progress'', uint_tree (dk_IOInProgress s)), (''io_milliseconds'', uint_tree (dk_IOMilliseconds s)),
      (''weighted_milliseconds'', uint_tree (dk_WeightedMilliseconds s))]"

text \<open>The state of a collector with records and daily totals per device or interface.\<close>

record 's counted_state =
  cnt_Stats :: "(string \<times> 's) list option"
  cnt_Daily :: "(string \<times> daily_pair) list option"

definition zero_counted :: "'s counted_state" where
  "zero_counted = \<lparr>cnt_Stats = None, cnt_Daily = None\<rparr>"

definition counted_fields :: "'s field list \<Rightarrow> 's \<Rightarrow> string \<Rightarrow> string \<Rightarrow> 's counted_state field list" where
  "counted_fields fs zero inward outward =
     [field ''stats'' cnt_Stats (\<lambda>v s. s\<lparr>cnt_Stats := v\<rparr>) (decode_map (\<lambda>x. decode_struct fs x zero)),
      field ''daily'' cnt_Daily (\<lambda>v s. s\<lparr>cnt_Daily := v\<rparr>)
        (decode_map (\<lambda>x. decode_struct (pair_fields inward outward) x zero_pair))]"

definition counted_tree :: "('s \<Rightarrow> json_tree) \<Rightarrow> string \<Rightarrow> string \<Rightarrow> 's counted_state \<Rightarrow> json_tree" where
  "counted_tree tree inward outward s = T_Object
     [(''stats'', map_json tree (cnt_Stats s)), (''daily'', map_json (pair_tree inward outward) (cnt_Daily s))]"

definition decode_disk_state :: "json_tree \<Rightarrow> DiskStat counted_state \<Rightarrow> DiskStat counted_state option" where
  "decode_disk_state = decode_struct (counted_fields disk_fields zero_disk ''read_bytes'' ''write_bytes'')"

definition disk_state_tree :: "DiskStat counted_state \<Rightarrow> json_tree" where
  "disk_state_tree = counted_tree disk_tree ''read_bytes'' ''write_bytes''"

record NetworkStat =
  nw_Interface :: string
  nw_RXBytes :: nat
  nw_TXBytes :: nat
  nw_RXPackets :: nat
  nw_TXPackets :: nat
  nw_RXErrors :: nat
  nw_TXErrors :: nat
  nw_RXDropped :: nat
  nw_TXDropped :: nat
  nw_OperState :: string
  nw_Carrier :: "nat option"
  nw_MTU :: nat

definition zero_network :: NetworkStat where
  "zero_network = \<lparr>nw_Interface = [], nw_RXBytes = 0, nw_TXBytes = 0, nw_RXPackets = 0, nw_TXPackets = 0, nw_RXErrors = 0,
     nw_TXErrors = 0, nw_RXDropped = 0, nw_TXDropped = 0, nw_OperState = [], nw_Carrier = None, nw_MTU = 0\<rparr>"

definition network_fields :: "NetworkStat field list" where
  "network_fields =
     [field ''interface'' nw_Interface (\<lambda>v s. s\<lparr>nw_Interface := v\<rparr>) decode_string,
      field ''rx_bytes'' nw_RXBytes (\<lambda>v s. s\<lparr>nw_RXBytes := v\<rparr>) decode_uint64,
      field ''tx_bytes'' nw_TXBytes (\<lambda>v s. s\<lparr>nw_TXBytes := v\<rparr>) decode_uint64,
      field ''rx_packets'' nw_RXPackets (\<lambda>v s. s\<lparr>nw_RXPackets := v\<rparr>) decode_uint64,
      field ''tx_packets'' nw_TXPackets (\<lambda>v s. s\<lparr>nw_TXPackets := v\<rparr>) decode_uint64,
      field ''rx_errors'' nw_RXErrors (\<lambda>v s. s\<lparr>nw_RXErrors := v\<rparr>) decode_uint64,
      field ''tx_errors'' nw_TXErrors (\<lambda>v s. s\<lparr>nw_TXErrors := v\<rparr>) decode_uint64,
      field ''rx_dropped'' nw_RXDropped (\<lambda>v s. s\<lparr>nw_RXDropped := v\<rparr>) decode_uint64,
      field ''tx_dropped'' nw_TXDropped (\<lambda>v s. s\<lparr>nw_TXDropped := v\<rparr>) decode_uint64,
      field ''operstate'' nw_OperState (\<lambda>v s. s\<lparr>nw_OperState := v\<rparr>) decode_string,
      field ''carrier'' nw_Carrier (\<lambda>v s. s\<lparr>nw_Carrier := v\<rparr>) (decode_pointer 0 decode_uint64),
      field ''mtu'' nw_MTU (\<lambda>v s. s\<lparr>nw_MTU := v\<rparr>) decode_uint64]"

definition network_tree :: "NetworkStat \<Rightarrow> json_tree" where
  "network_tree s = T_Object
     ([(''interface'', T_String (nw_Interface s)), (''rx_bytes'', uint_tree (nw_RXBytes s)), (''tx_bytes'', uint_tree (nw_TXBytes s)),
       (''rx_packets'', uint_tree (nw_RXPackets s)), (''tx_packets'', uint_tree (nw_TXPackets s)),
       (''rx_errors'', uint_tree (nw_RXErrors s)), (''tx_errors'', uint_tree (nw_TXErrors s)),
       (''rx_dropped'', uint_tree (nw_RXDropped s)), (''tx_dropped'', uint_tree (nw_TXDropped s)),
       (''operstate'', T_String (nw_OperState s))] @
      (case nw_Carrier s of None \<Rightarrow> [] | Some c \<Rightarrow> [(''carrier'', uint_tree c)]) @ [(''mtu'', uint_tree (nw_MTU s))])"

definition decode_network_state :: "json_tree \<Rightarrow> NetworkStat counted_state \<Rightarrow> NetworkStat counted_state option" where
  "decode_network_state = decode_struct (counted_fields network_fields zero_network ''rx_bytes'' ''tx_bytes'')"

definition network_state_tree :: "NetworkStat counted_state \<Rightarrow> json_tree" where
  "network_state_tree = counted_tree network_tree ''rx_bytes'' ''tx_bytes''"

record bootState =
  bt_BootID :: string

definition decode_boot_state :: "json_tree \<Rightarrow> bootState \<Rightarrow> bootState option" where
  "decode_boot_state = decode_struct [field ''boot_id'' bt_BootID (\<lambda>v s. s\<lparr>bt_BootID := v\<rparr>) decode_string]"

definition boot_state_tree :: "bootState \<Rightarrow> json_tree" where
  "boot_state_tree s = T_Object [(''boot_id'', T_String (bt_BootID s))]"

end
