(* ===== verification/Resource_Collectors.thy ===== *)
theory Resource_Collectors
  imports Resource_Parsers
begin

text \<open>
  The collectors of \<open>internal/collectors/resources\<close> and \<open>Collect\<close>. A collector never fails: whatever
  goes wrong becomes an observation with an error class. The clock, the context, the files and the
  baselines are reached through the world; \<open>Statfs\<close> stands for \<open>unix.Statfs\<close>, \<open>os\<close> for the files of the
  operating system, and \<open>reversed\<close> says, for a pressure area, whether the range over its map of at
  most two records starts with the later one.
\<close>

type_synonym 'd observer = "'d world \<Rightarrow> Observation \<times> 'd world"
type_synonym 'd observers = "'d world \<Rightarrow> Observation list \<times> 'd world"

definition single :: "'d observer \<Rightarrow> 'd observers" where
  "single f w = (case f w of (ob, w1) \<Rightarrow> ([ob], w1))"

text \<open>The end of a collector whose metrics must all be valid.\<close>

definition with_metrics ::
    "string \<Rightarrow> string \<Rightarrow> instant \<Rightarrow> metric_row list \<Rightarrow> string \<Rightarrow> 'd observer" where
  "with_metrics name target started rows summary =
     (case must_metrics [] rows started of
        Inl e \<Rightarrow> failureObservation name target started ErrorInternal (error_text e)
      | Inr metrics \<Rightarrow> successObservation name target started metrics summary)"

subsection \<open>Processors\<close>

definition cpu_rows :: "CPUStat \<Rightarrow> nat \<Rightarrow> nat \<Rightarrow> nat \<Rightarrow> nat \<Rightarrow> metric_row list" where
  "cpu_rows stat elapsed busy iowait steal =
     (let labels = [(''cpu'', if cp_Name stat = ''cpu'' then ''all'' else cp_Name stat)]
      in [gauge labels ''pooly_cpu_used_ratio'' (ratio busy elapsed) ''ratio'',
          gauge labels ''pooly_cpu_iowait_ratio'' (ratio iowait elapsed) ''ratio'',
          gauge labels ''pooly_cpu_steal_ratio'' (ratio steal elapsed) ''ratio''])"

fun cpu_deltas ::
    "cpuState \<Rightarrow> instant \<Rightarrow> CPUStat list \<Rightarrow> Metric list \<Rightarrow> string \<Rightarrow> go_error + Metric list \<times> string" where
  "cpu_deltas previous ts [] metrics cls = Inr (metrics, cls)"
| "cpu_deltas previous ts (stat # stats) metrics cls =
     (case map_get zero_cpu (cst_Stats previous) (cp_Name stat) of
        (prev, exists) \<Rightarrow>
          if \<not> exists then cpu_deltas previous ts stats metrics cls
          else
            (let totalDelta = CalculateCounterDelta (Total prev) (Total stat) True;
                 busyDelta = CalculateCounterDelta (Busy prev) (Busy stat) True;
                 iowaitDelta = CalculateCounterDelta (cp_IOWait prev) (cp_IOWait stat) True;
                 stealDelta = CalculateCounterDelta (cp_Steal prev) (cp_Steal stat) True
             in if cd_Reset totalDelta \<or> cd_Reset busyDelta \<or> cd_Reset iowaitDelta \<or> cd_Reset stealDelta
                then cpu_deltas previous ts stats metrics ErrorCounterReset
                else if \<not> cd_Valid totalDelta \<or> cd_Delta totalDelta = 0
                then cpu_deltas previous ts stats metrics cls
                else
                  (case must_metrics metrics
                          (cpu_rows stat (cd_Delta totalDelta) (cd_Delta busyDelta) (cd_Delta iowaitDelta) (cd_Delta stealDelta)) ts of
                     Inl e \<Rightarrow> Inl e
                   | Inr ms \<Rightarrow> cpu_deltas previous ts stats ms cls)))"

definition cpu_state :: "CPUStat list \<Rightarrow> cpuState" where
  "cpu_state stats = \<lparr>cst_Stats = Some (fold (\<lambda>s. put_entry (cp_Name s) s) stats [])\<rparr>"

definition cpu_observation :: "instant \<Rightarrow> Metric list \<Rightarrow> string \<Rightarrow> string \<Rightarrow> 'd observer" where
  "cpu_observation started metrics cls summary w =
     (case successObservation ''cpu'' ''all'' started metrics summary w of
        (ob, w1) \<Rightarrow>
          (if cls = ErrorCounterReset
           then ob\<lparr>ob_Stale := True, ob_ErrorClass := ErrorCounterReset,
                   ob_Summary := ''cpu counter reset detected; baseline refreshed''\<rparr>
           else ob, w1))"

definition CollectCPU :: "'d Options \<Rightarrow> 'd observer" where
  "CollectCPU opts w =
     (let started = wall w; failed = failureObservation ''cpu'' ''all'' started
      in attempt ctx_err (\<lambda>e. failed ErrorTimeout (error_text e)) (\<lambda>_.
         attempt (src_ReadFile (source_of opts) ''/proc/stat'')
           (\<lambda>e. failed (classifyReadError (Some e)) ''read /proc/stat failed'') (\<lambda>text.
           case ParseProcStatCPU text of
             Inl e \<Rightarrow> failed ErrorParse (error_text e)
           | Inr stats \<Rightarrow>
               attempt (loadState zero_cpu_state (decode_struct cpu_state_fields) (op_State opts) ''cpu'' ''all'')
                 (\<lambda>_. failed ErrorState ''load cpu baseline failed'') (\<lambda>(previous, found).
                 case must_metrics [] [gauge [] ''pooly_cpu_count'' (fl_of_nat (CPUCount stats)) ''count''] started of
                   Inl e \<Rightarrow> failed ErrorInternal (error_text e)
                 | Inr metrics \<Rightarrow>
                     (case (if found then cpu_deltas previous started stats metrics ErrorNone else Inr (metrics, ErrorNone)) of
                        Inl e \<Rightarrow> failed ErrorInternal (error_text e)
                      | Inr (metrics, cls) \<Rightarrow>
                          attempt (saveState (op_State opts) (op_Persist opts) ''cpu'' ''all'' (cpu_state_tree (cpu_state stats)))
                            (\<lambda>_. failed ErrorState ''save cpu baseline failed'')
                            (\<lambda>_. cpu_observation started metrics cls
                               (if found then ''cpu deltas collected'' else ''baseline recorded'')))))) w)"

subsection \<open>Load and memory\<close>

definition load_rows :: "LoadAvg \<Rightarrow> nat \<Rightarrow> metric_row list" where
  "load_rows load cpuCount =
     [gauge [] ''pooly_cpu_load1'' (la_Load1 load) ''load'',
      gauge [] ''pooly_cpu_load5'' (la_Load5 load) ''load'',
      gauge [] ''pooly_cpu_load15'' (la_Load15 load) ''load'',
      gauge [] ''pooly_cpu_load1_per_cpu'' (fl_div (la_Load1 load) (fl_of_nat cpuCount)) ''load_per_cpu'',
      gauge [] ''pooly_cpu_load5_per_cpu'' (fl_div (la_Load5 load) (fl_of_nat cpuCount)) ''load_per_cpu'',
      gauge [] ''pooly_cpu_load15_per_cpu'' (fl_div (la_Load15 load) (fl_of_nat cpuCount)) ''load_per_cpu'',
      gauge [] ''pooly_tasks_runnable'' (fl_of_nat (la_Runnable load)) ''count'',
      gauge [] ''pooly_tasks_total'' (fl_of_nat (la_TotalTasks load)) ''count'']"

text \<open>The number of processors, one when it cannot be read.\<close>

definition counted_cpus :: "go_error + string \<Rightarrow> nat" where
  "counted_cpus statData =
     (let n = (case statData of
                 Inl e \<Rightarrow> 0
               | Inr text \<Rightarrow> (case ParseProcStatCPU text of Inl e \<Rightarrow> 0 | Inr stats \<Rightarrow> CPUCount stats))
      in if n = 0 then 1 else n)"

definition CollectLoad :: "'d Options \<Rightarrow> 'd observer" where
  "CollectLoad opts w =
     (let started = wall w; failed = failureObservation ''load'' ''all'' started
      in attempt ctx_err (\<lambda>e. failed ErrorTimeout (error_text e)) (\<lambda>_.
         attempt (src_ReadFile (source_of opts) ''/proc/loadavg'')
           (\<lambda>e. failed (classifyReadError (Some e)) ''read /proc/loadavg failed'') (\<lambda>text.
           case ParseLoadAvg text of
             Inl e \<Rightarrow> failed ErrorParse (error_text e)
           | Inr load \<Rightarrow> (\<lambda>w.
               case src_ReadFile (source_of opts) ''/proc/stat'' w of
                 (statData, w1) \<Rightarrow>
                   with_metrics ''load'' ''all'' started (load_rows load (counted_cpus statData)) ''load averages collected'' w1))) w)"

definition memory_rows :: "MemInfo \<Rightarrow> metric_row list" where
  "memory_rows mem =
     (let bytes = (\<lambda>name key. gauge [] name (fl_of_nat (mem_value mem key)) ''bytes'');
          availableRatio = ratio (mem_value mem ''MemAvailable'') (mem_value mem ''MemTotal'');
          usedRatio = fl_sub (Fin 1) availableRatio;
          swapUsedRatio = (if 0 < mem_value mem ''SwapTotal''
                           then fl_sub (Fin 1) (ratio (mem_value mem ''SwapFree'') (mem_value mem ''SwapTotal'')) else Fin 0)
      in [bytes ''pooly_memory_total_bytes'' ''MemTotal'', bytes ''pooly_memory_available_bytes'' ''MemAvailable'',
          bytes ''pooly_memory_free_bytes'' ''MemFree'', gauge [] ''pooly_memory_used_ratio'' usedRatio ''ratio'',
          gauge [] ''pooly_memory_available_ratio'' availableRatio ''ratio'', bytes ''pooly_swap_total_bytes'' ''SwapTotal'',
          bytes ''pooly_swap_free_bytes'' ''SwapFree'', gauge [] ''pooly_swap_used_ratio'' swapUsedRatio ''ratio'',
          bytes ''pooly_memory_dirty_bytes'' ''Dirty'', bytes ''pooly_memory_writeback_bytes'' ''Writeback'',
          bytes ''pooly_memory_slab_bytes'' ''Slab'', bytes ''pooly_memory_buffers_bytes'' ''Buffers'',
          bytes ''pooly_memory_cached_bytes'' ''Cached'', bytes ''pooly_memory_sreclaimable_bytes'' ''SReclaimable'',
          bytes ''pooly_memory_sunreclaim_bytes'' ''SUnreclaim'', bytes ''pooly_memory_kernel_stack_bytes'' ''KernelStack'',
          bytes ''pooly_memory_page_tables_bytes'' ''PageTables''])"

definition CollectMemory :: "'d Options \<Rightarrow> 'd observer" where
  "CollectMemory opts w =
     (let started = wall w; failed = failureObservation ''memory'' ''all'' started
      in attempt ctx_err (\<lambda>e. failed ErrorTimeout (error_text e)) (\<lambda>_.
         attempt (src_ReadFile (source_of opts) ''/proc/meminfo'')
           (\<lambda>e. failed (classifyReadError (Some e)) ''read /proc/meminfo failed'') (\<lambda>text.
           case ParseMemInfo text of
             Inl e \<Rightarrow> failed ErrorParse (error_text e)
           | Inr mem \<Rightarrow> with_metrics ''memory'' ''all'' started (memory_rows mem) ''memory collected'')) w)"

subsection \<open>Pressure\<close>

definition psi_rows :: "string \<Rightarrow> PSIRecord \<Rightarrow> metric_row list" where
  "psi_rows area r =
     (let name = (\<lambda>what. ''pooly_pressure_'' @ area @ ''_'' @ psi_Type r @ ''_'' @ what);
          window = (\<lambda>win. [(''pressure_type'', psi_Type r), (''window'', win)])
      in [gauge (window ''avg10'') (name ''avg10'') (psi_Avg10 r) ''percent'',
          gauge (window ''avg60'') (name ''avg60'') (psi_Avg60 r) ''percent'',
          gauge (window ''avg300'') (name ''avg300'') (psi_Avg300 r) ''percent'',
          counter [(''pressure_type'', psi_Type r)] (name ''total_microseconds'') (fl_of_nat (psi_Total r)) ''microseconds''])"

definition collectPressureArea :: "bool \<Rightarrow> 'd Options \<Rightarrow> string \<Rightarrow> 'd observer" where
  "collectPressureArea later_first opts area w =
     (let started = wall w; failed = failureObservation ''pressure'' area started
      in attempt ctx_err (\<lambda>e. failed ErrorTimeout (error_text e)) (\<lambda>_.
         attempt (src_ReadFile (source_of opts) (''/proc/pressure/'' @ area))
           (\<lambda>e. let cls = classifyReadError (Some e)
             in if cls = ErrorSourceMissing \<and> op_PressureMissingOK opts
                then failed ErrorUnsupported ''psi file unavailable'' else failed cls ''read psi failed'') (\<lambda>text.
           case ParsePSI text of
             Inl e \<Rightarrow> failed ErrorParse (error_text e)
           | Inr records \<Rightarrow>
               with_metrics ''pressure'' area started
                 (concat (map (\<lambda>(k, r). psi_rows area r) (if later_first then rev records else records))) ''psi collected'')) w)"

fun observe_all :: "('a \<Rightarrow> 'd observer) \<Rightarrow> 'a list \<Rightarrow> 'd observers" where
  "observe_all f [] w = ([], w)"
| "observe_all f (x # xs) w =
     (case f x w of (ob, w1) \<Rightarrow> (case observe_all f xs w1 of (obs, w2) \<Rightarrow> (ob # obs, w2)))"

definition CollectPressure :: "(string \<Rightarrow> bool) \<Rightarrow> 'd Options \<Rightarrow> 'd observers" where
  "CollectPressure reversed opts =
     observe_all (\<lambda>area. collectPressureArea (reversed area) opts area) [''cpu'', ''memory'', ''io'']"

subsection \<open>File systems\<close>

definition errFilesystemUnsupported :: go_error where
  "errFilesystemUnsupported = Text_Error ''unsupported platform''"

definition filesystem_rows :: "string \<Rightarrow> FSStat \<Rightarrow> metric_row list" where
  "filesystem_rows mount stat =
     (let g = gauge [(''mount'', mount)]
      in [g ''pooly_filesystem_size_bytes'' (fl_of_nat (fs_SizeBytes stat)) ''bytes'',
          g ''pooly_filesystem_available_bytes'' (fl_of_nat (fs_AvailableBytes stat)) ''bytes'',
          g ''pooly_filesystem_free_bytes'' (fl_of_nat (fs_FreeBytes stat)) ''bytes'',
          g ''pooly_filesystem_used_bytes'' (fl_of_nat (fs_UsedBytes stat)) ''bytes'',
          g ''pooly_filesystem_used_ratio'' (fs_UsedRatio stat) ''ratio'',
          g ''pooly_filesystem_inodes_total'' (fl_of_nat (fs_InodesTotal stat)) ''count'',
          g ''pooly_filesystem_inodes_free'' (fl_of_nat (fs_InodesFree stat)) ''count'',
          g ''pooly_filesystem_inodes_used_ratio'' (fs_InodesUsedRatio stat) ''ratio'',
          g ''pooly_filesystem_readonly'' (boolFloat (fs_ReadOnly stat)) ''state''])"

definition collectFilesystem :: "(string \<Rightarrow> (Statfs_t, 'd) op) \<Rightarrow> string \<Rightarrow> 'd observer" where
  "collectFilesystem Statfs mount w =
     (let started = wall w; failed = failureObservation ''filesystem'' mount started
      in attempt ctx_err (\<lambda>e. failed ErrorTimeout (error_text e)) (\<lambda>_.
         attempt (statFilesystem Statfs mount)
           (\<lambda>e. failed (if e = errFilesystemUnsupported then ErrorUnsupported else ErrorInternal) (error_text e)) (\<lambda>raw.
           case ComputeFSStat raw of
             Inl e \<Rightarrow> failed ErrorParse (error_text e)
           | Inr stat \<Rightarrow> with_metrics ''filesystem'' mount started (filesystem_rows mount stat) ''filesystem collected'')) w)"

definition CollectFilesystems :: "(string \<Rightarrow> (Statfs_t, 'd) op) \<Rightarrow> 'd Options \<Rightarrow> 'd observers" where
  "CollectFilesystems Statfs opts w =
     (case normalizeMounts (op_FilesystemMounts opts) of
        Inl e \<Rightarrow> single (failureObservation ''filesystem'' ''all'' (wall w) ErrorInternal (error_text e)) w
      | Inr mounts \<Rightarrow> observe_all (collectFilesystem Statfs) mounts w)"

subsection \<open>Disks\<close>

fun block_stats :: "'d FileSource \<Rightarrow> dir_entry list \<Rightarrow> (DiskStat list, 'd) op" where
  "block_stats source [] = ok []"
| "block_stats source ((device, is_dir) # entries) =
     (if \<not> is_dir then block_stats source entries
      else
        attempt (src_ReadFile source (''/sys/block/'' @ device @ ''/stat''))
          (\<lambda>_. block_stats source entries) (\<lambda>text.
          andThen (lift_result (ParseSysBlockStat device text)) (\<lambda>stat.
          andThen (block_stats source entries) (\<lambda>stats. ok (stat # stats)))))"

definition disk_fallback :: "'d FileSource \<Rightarrow> (DiskStat list, 'd) op" where
  "disk_fallback source = andThen (src_ReadFile source ''/proc/diskstats'') (\<lambda>text. lift_result (ParseDiskStats text))"

definition discoverDiskStats :: "'d Options \<Rightarrow> (DiskStat list, 'd) op" where
  "discoverDiskStats opts =
     (let source = source_of opts
      in andThen ctx_err (\<lambda>_.
           if op_DiskAutoDiscover opts then
             attempt (src_ReadDir source ''/sys/block'')
               (\<lambda>e. if errors_is e ErrNotExist then disk_fallback source else fail e)
               (\<lambda>entries. andThen (block_stats source entries)
                  (\<lambda>stats. if stats \<noteq> [] then ok stats else disk_fallback source))
           else disk_fallback source))"

definition disk_rows :: "DiskStat \<Rightarrow> metric_row list" where
  "disk_rows stat =
     (let labels = [(''device'', dk_Device stat)];
          seconds = (\<lambda>name ms. counter labels name (fl_div (fl_of_nat ms) (Fin 1000)) ''seconds'')
      in [counter labels ''pooly_disk_read_bytes_total'' (fl_of_nat (ReadBytes stat)) ''bytes'',
          counter labels ''pooly_disk_write_bytes_total'' (fl_of_nat (WriteBytes stat)) ''bytes'',
          counter labels ''pooly_disk_reads_total'' (fl_of_nat (dk_Reads stat)) ''count'',
          counter labels ''pooly_disk_writes_total'' (fl_of_nat (dk_Writes stat)) ''count'',
          seconds ''pooly_disk_read_time_seconds_total'' (dk_ReadMilliseconds stat),
          seconds ''pooly_disk_write_time_seconds_total'' (dk_WriteMilliseconds stat),
          seconds ''pooly_disk_io_time_seconds_total'' (dk_IOMilliseconds stat),
          seconds ''pooly_disk_weighted_io_time_seconds_total'' (dk_WeightedMilliseconds stat),
          gauge labels ''pooly_disk_io_in_progress'' (fl_of_nat (dk_IOInProgress stat)) ''count''])"

definition diskObservation :: "instant \<Rightarrow> DiskStat \<Rightarrow> 'd observer" where
  "diskObservation started stat =
     successObservation ''diskio'' (dk_Device stat) started (try_metrics [] (disk_rows stat) started) ''disk counters collected''"

text \<open>
  What the disk and the network collector do for one device: the record becomes the new baseline,
  the daily totals grow by what was counted since the old one, and a counter that fell marks the
  observation as stale.
\<close>

record 's counting =
  cg_name :: string
  cg_label :: string
  cg_key :: "'s \<Rightarrow> string"
  cg_in :: "'s \<Rightarrow> nat"
  cg_out :: "'s \<Rightarrow> nat"
  cg_zero :: 's
  cg_daily_in :: string
  cg_daily_out :: string

definition disk_counting :: "DiskStat counting" where
  "disk_counting =
     \<lparr>cg_name = ''disk'', cg_label = ''device'', cg_key = dk_Device, cg_in = ReadBytes, cg_out = WriteBytes, cg_zero = zero_disk,
      cg_daily_in = ''pooly_disk_daily_read_bytes'', cg_daily_out = ''pooly_disk_daily_write_bytes''\<rparr>"

definition network_counting :: "NetworkStat counting" where
  "network_counting =
     \<lparr>cg_name = ''network'', cg_label = ''interface'', cg_key = nw_Interface, cg_in = nw_RXBytes, cg_out = nw_TXBytes,
      cg_zero = zero_network, cg_daily_in = ''pooly_network_daily_receive_bytes'',
      cg_daily_out = ''pooly_network_daily_transmit_bytes''\<rparr>"

definition deltas_of :: "'s counting \<Rightarrow> 's counted_state \<Rightarrow> 's \<Rightarrow> CounterDelta \<times> CounterDelta" where
  "deltas_of c prev stat =
     (case map_get (cg_zero c) (cnt_Stats prev) (cg_key c stat) of
        (prevStat, found) \<Rightarrow>
          (CalculateCounterDelta (cg_in c prevStat) (cg_in c stat) found,
           CalculateCounterDelta (cg_out c prevStat) (cg_out c stat) found))"

definition daily_of :: "'s counting \<Rightarrow> instant \<Rightarrow> 's counted_state \<Rightarrow> 's counted_state \<Rightarrow> 's \<Rightarrow> daily_pair" where
  "daily_of c started prev current stat =
     (let (inDelta, outDelta) = deltas_of c prev stat;
          daily = fst (map_get zero_pair (cnt_Daily current) (cg_key c stat))
      in \<lparr>dp_in = UpdateDailyCounter (dp_in daily) started inDelta,
          dp_out = UpdateDailyCounter (dp_out daily) started outDelta\<rparr>)"

definition put_map :: "'k \<Rightarrow> 'v \<Rightarrow> ('k \<times> 'v) list option \<Rightarrow> ('k \<times> 'v) list option" where
  "put_map k v m = Some (put_entry k v (case m of None \<Rightarrow> [] | Some xs \<Rightarrow> xs))"

definition count_device ::
    "'s counting \<Rightarrow> instant \<Rightarrow> 's counted_state \<Rightarrow> bool \<Rightarrow> 's counted_state \<Rightarrow> 's \<Rightarrow> Observation \<Rightarrow>
     Observation \<times> 's counted_state" where
  "count_device c started prev hasPrev current0 stat ob =
     (let current = current0\<lparr>cnt_Stats := put_map (cg_key c stat) stat (cnt_Stats current0)\<rparr>
      in if \<not> hasPrev then (ob, current)
         else
           (let (inDelta, outDelta) = deltas_of c prev stat;
                daily = daily_of c started prev current stat;
                ob1 = (if cd_Reset inDelta \<or> cd_Reset outDelta
                       then ob\<lparr>ob_Stale := True, ob_ErrorClass := ErrorCounterReset,
                               ob_Summary := cg_name c @ '' counter reset detected; baseline refreshed''\<rparr>
                       else ob);
                labels = [(cg_label c, cg_key c stat)]
            in (ob1\<lparr>ob_Metrics := try_metrics (ob_Metrics ob1)
                       [gauge labels (cg_daily_in c) (fl_of_nat (dc_Total (dp_in daily))) ''bytes'',
                        gauge labels (cg_daily_out c) (fl_of_nat (dc_Total (dp_out daily))) ''bytes''] started\<rparr>,
                current\<lparr>cnt_Daily := put_map (cg_key c stat) daily (cnt_Daily current)\<rparr>)))"

fun count_devices ::
    "'s counting \<Rightarrow> ('s \<Rightarrow> 'd observer) \<Rightarrow> instant \<Rightarrow> 's counted_state \<Rightarrow> bool \<Rightarrow> 's list \<Rightarrow> 's counted_state \<Rightarrow>
     'd world \<Rightarrow> (Observation list \<times> 's counted_state) \<times> 'd world" where
  "count_devices c observe started prev hasPrev [] current w = (([], current), w)"
| "count_devices c observe started prev hasPrev (stat # stats) current w =
     (case observe stat w of
        (ob, w1) \<Rightarrow>
          (case count_device c started prev hasPrev current stat ob of
             (ob1, current1) \<Rightarrow>
               (case count_devices c observe started prev hasPrev stats current1 w1 of
                  ((obs, current2), w2) \<Rightarrow> ((ob1 # obs, current2), w2))))"

definition fresh_counted :: "'s counted_state \<Rightarrow> bool \<Rightarrow> 's counted_state" where
  "fresh_counted prev hasPrev =
     \<lparr>cnt_Stats = Some [], cnt_Daily = (if hasPrev \<and> cnt_Daily prev \<noteq> None then cnt_Daily prev else Some [])\<rparr>"

definition CollectDiskIO :: "'d Options \<Rightarrow> 'd observers" where
  "CollectDiskIO opts w =
     (let started = wall w; failed = (\<lambda>cls summary. single (failureObservation ''diskio'' ''all'' started cls summary))
      in attempt (discoverDiskStats opts)
           (\<lambda>e. failed (classifyReadError (Some e)) (error_text e)) (\<lambda>stats.
         attempt (loadState zero_counted decode_disk_state (op_State opts) ''diskio'' ''all'')
           (\<lambda>_. failed ErrorState ''load disk baseline failed'') (\<lambda>(prev, hasPrev) w1.
           case count_devices disk_counting (diskObservation started) started prev hasPrev
                  (FilterDiskDevices stats (op_DiskExclude opts)) (fresh_counted prev hasPrev) w1 of
             ((obs, current), w2) \<Rightarrow>
               attempt (saveState (op_State opts) (op_Persist opts) ''diskio'' ''all'' (disk_state_tree current))
                 (\<lambda>_. failed ErrorState ''save disk baseline failed'') (\<lambda>_ w3. (obs, w3)) w2)) w)"

subsection \<open>Networks\<close>

definition readNetworkStat :: "'d FileSource \<Rightarrow> string \<Rightarrow> (NetworkStat, 'd) op" where
  "readNetworkStat source iface =
     (let base = ''/sys/class/net/'' @ iface; read = (\<lambda>name. readUintFile source (base @ ''/'' @ name))
      in andThen (read ''statistics/rx_bytes'') (\<lambda>rx_bytes.
         andThen (read ''statistics/tx_bytes'') (\<lambda>tx_bytes.
         andThen (read ''statistics/rx_packets'') (\<lambda>rx_packets.
         andThen (read ''statistics/tx_packets'') (\<lambda>tx_packets.
         andThen (read ''statistics/rx_errors'') (\<lambda>rx_errors.
         andThen (read ''statistics/tx_errors'') (\<lambda>tx_errors.
         andThen (read ''statistics/rx_dropped'') (\<lambda>rx_dropped.
         andThen (read ''statistics/tx_dropped'') (\<lambda>tx_dropped.
         andThen (read ''mtu'') (\<lambda>mtu.
         andThen (src_ReadFile source (base @ ''/operstate'')) (\<lambda>operstate.
         andThen (attempt (read ''carrier'') (\<lambda>e. if errors_is e ErrNotExist then ok None else fail e) (\<lambda>n. ok (Some n))) (\<lambda>carrier.
           ok \<lparr>nw_Interface = iface, nw_RXBytes = rx_bytes, nw_TXBytes = tx_bytes, nw_RXPackets = rx_packets,
             nw_TXPackets = tx_packets, nw_RXErrors = rx_errors, nw_TXErrors = tx_errors, nw_RXDropped = rx_dropped,
             nw_TXDropped = tx_dropped, nw_OperState = trim_space operstate, nw_Carrier = carrier, nw_MTU = mtu\<rparr>))))))))))))"

fun network_stats :: "'d Options \<Rightarrow> dir_entry list \<Rightarrow> (NetworkStat list, 'd) op" where
  "network_stats opts [] = ok []"
| "network_stats opts ((iface, is_dir) # entries) =
     (if \<not> is_dir \<or> \<not> includeName iface (op_NetworkInclude opts) (op_NetworkExclude opts) then network_stats opts entries
      else
        andThen (readNetworkStat (source_of opts) iface) (\<lambda>stat.
        andThen (network_stats opts entries) (\<lambda>stats. ok (stat # stats))))"

definition discoverNetworkStats :: "'d Options \<Rightarrow> (NetworkStat list, 'd) op" where
  "discoverNetworkStats opts =
     andThen ctx_err (\<lambda>_. andThen (src_ReadDir (source_of opts) ''/sys/class/net'') (network_stats opts))"

definition network_rows :: "NetworkStat \<Rightarrow> metric_row list" where
  "network_rows stat =
     (let labels = [(''interface'', nw_Interface stat)];
          carrier = (case nw_Carrier stat of None \<Rightarrow> Fin (- 1) | Some c \<Rightarrow> fl_of_nat c);
          up = (if nw_OperState stat = ''up'' then Fin 1
                else if nw_OperState stat \<in> set [''down'', ''lowerlayerdown'', ''dormant'', ''notpresent'', ''testing''] then Fin 0
                else Fin (- 1));
          count = (\<lambda>name n unit. counter labels name (fl_of_nat n) unit)
      in [count ''pooly_network_receive_bytes_total'' (nw_RXBytes stat) ''bytes'',
          count ''pooly_network_transmit_bytes_total'' (nw_TXBytes stat) ''bytes'',
          count ''pooly_network_receive_packets_total'' (nw_RXPackets stat) ''count'',
          count ''pooly_network_transmit_packets_total'' (nw_TXPackets stat) ''count'',
          count ''pooly_network_receive_errors_total'' (nw_RXErrors stat) ''count'',
          count ''pooly_network_transmit_errors_total'' (nw_TXErrors stat) ''count'',
          count ''pooly_network_receive_dropped_total'' (nw_RXDropped stat) ''count'',
          count ''pooly_network_transmit_dropped_total'' (nw_TXDropped stat) ''count'',
          gauge labels ''pooly_network_interface_up'' up ''state'',
          gauge labels ''pooly_network_interface_carrier'' carrier ''state'',
          gauge labels ''pooly_network_interface_mtu_bytes'' (fl_of_nat (nw_MTU stat)) ''bytes''])"

definition networkObservation :: "instant \<Rightarrow> NetworkStat \<Rightarrow> 'd observer" where
  "networkObservation started stat =
     successObservation ''network'' (nw_Interface stat) started (try_metrics [] (network_rows stat) started)
       (''network interface '' @ nw_OperState stat @ '' collected'')"

definition CollectNetwork :: "'d Options \<Rightarrow> 'd observers" where
  "CollectNetwork opts w =
     (let started = wall w; failed = (\<lambda>cls summary. single (failureObservation ''network'' ''all'' started cls summary))
      in attempt (discoverNetworkStats opts)
           (\<lambda>e. failed (classifyReadError (Some e)) (error_text e)) (\<lambda>stats.
         attempt (loadState zero_counted decode_network_state (op_State opts) ''network'' ''all'')
           (\<lambda>_. failed ErrorState ''load network baseline failed'') (\<lambda>(prev, hasPrev) w1.
           case count_devices network_counting (networkObservation started) started prev hasPrev stats
                  (fresh_counted prev hasPrev) w1 of
             ((obs, current), w2) \<Rightarrow>
               attempt (saveState (op_State opts) (op_Persist opts) ''network'' ''all'' (network_state_tree current))
                 (\<lambda>_. failed ErrorState ''save network baseline failed'') (\<lambda>_ w3. (obs, w3)) w2)) w)"

subsection \<open>Uptime\<close>

definition uptime_rows :: "float64 \<Rightarrow> nat \<Rightarrow> float64 \<Rightarrow> metric_row list" where
  "uptime_rows uptimeSeconds bootTime changed =
     [gauge [] ''pooly_system_uptime_seconds'' uptimeSeconds ''seconds'',
      gauge [] ''pooly_system_boot_time_timestamp_seconds'' (fl_of_nat bootTime) ''timestamp_seconds'',
      gauge [] ''pooly_system_boot_id_changed'' changed ''state'']"

definition boot_changed :: "bootState \<Rightarrow> bool \<Rightarrow> string \<Rightarrow> bool" where
  "boot_changed previous found bootID \<longleftrightarrow> found \<and> bt_BootID previous \<noteq> [] \<and> bt_BootID previous \<noteq> bootID"

definition CollectUptime :: "'d Options \<Rightarrow> 'd observer" where
  "CollectUptime opts w =
     (let started = wall w; failed = failureObservation ''uptime'' ''system'' started;
          read = src_ReadFile (source_of opts);
          unread = (\<lambda>summary e. failed (classifyReadError (Some e)) summary)
      in attempt ctx_err (\<lambda>e. failed ErrorTimeout (error_text e)) (\<lambda>_.
         attempt (read ''/proc/uptime'') (unread ''read /proc/uptime failed'') (\<lambda>uptimeData.
         attempt (read ''/proc/stat'') (unread ''read /proc/stat failed'') (\<lambda>statData.
         attempt (read ''/proc/sys/kernel/random/boot_id'') (unread ''read boot_id failed'') (\<lambda>bootIDData.
           case bind_sum (ParseProcUptime uptimeData) (\<lambda>uptime. bind_sum (ParseBootTime statData) (\<lambda>bootTime.
                bind_sum (ParseBootID bootIDData) (\<lambda>bootID. Inr (uptime, bootTime, bootID)))) of
             Inl e \<Rightarrow> failed ErrorParse (error_text e)
           | Inr (uptimeSeconds, bootTime, bootID) \<Rightarrow>
               attempt (loadState \<lparr>bt_BootID = []\<rparr> decode_boot_state (op_State opts) ''uptime'' ''boot'')
                 (\<lambda>_. failed ErrorState ''load boot state failed'') (\<lambda>(previous, found).
               attempt (saveState (op_State opts) (op_Persist opts) ''uptime'' ''boot'' (boot_state_tree \<lparr>bt_BootID = bootID\<rparr>))
                 (\<lambda>_. failed ErrorState ''save boot state failed'') (\<lambda>_.
                 with_metrics ''uptime'' ''system'' started
                   (uptime_rows uptimeSeconds bootTime (if boot_changed previous found bootID then Fin 1 else Fin 0))
                   (if boot_changed previous found bootID then ''boot id changed''
                    else if found then ''uptime collected'' else ''boot baseline recorded''))))))) w)"

subsection \<open>All collectors\<close>

definition and_observe :: "bool \<Rightarrow> 'd observers \<Rightarrow> 'd observers \<Rightarrow> 'd observers" where
  "and_observe enabled f before w =
     (case before w of
        (obs, w1) \<Rightarrow> if enabled then (case f w1 of (more_obs, w2) \<Rightarrow> (obs @ more_obs, w2)) else (obs, w1))"

definition collect_enabled :: "(string \<Rightarrow> (Statfs_t, 'd) op) \<Rightarrow> (string \<Rightarrow> bool) \<Rightarrow> 'd Options \<Rightarrow> 'd observers" where
  "collect_enabled Statfs reversed opts =
     and_observe (op_UptimeEnabled opts) (single (CollectUptime opts))
     (and_observe (op_NetworkEnabled opts) (CollectNetwork opts)
     (and_observe (op_DiskIOEnabled opts) (CollectDiskIO opts)
     (and_observe (op_FilesystemEnabled opts) (CollectFilesystems Statfs opts)
     (and_observe (op_PressureEnabled opts) (CollectPressure reversed opts)
     (and_observe (op_MemoryEnabled opts) (single (CollectMemory opts))
     (and_observe (op_LoadEnabled opts) (single (CollectLoad opts))
     (and_observe (op_CPUEnabled opts) (single (CollectCPU opts)) (\<lambda>w. ([], w)))))))))"

definition Collect ::
    "'d FileSource \<Rightarrow> (string \<Rightarrow> (Statfs_t, 'd) op) \<Rightarrow> (string \<Rightarrow> bool) \<Rightarrow> ctx \<Rightarrow> 'd Options \<Rightarrow> 'd observers" where
  "Collect os Statfs reversed ctx opts0 w =
     (let opts = optionsWithDefaults os opts0
      in if ctx = Nil_Context
         then single (failureObservation ''resources'' ''all'' (wall w) ErrorInternal ''context is nil'') w
         else
           attempt ctx_err
             (\<lambda>e. single (failureObservation ''resources'' ''all'' (wall w) ErrorTimeout (error_text e)))
             (\<lambda>_. if \<not> Supported (op_PlatformSupported opts)
                then observe_all (\<lambda>info. unsupportedObservation (ci_Name info) ''all'')
                       (filter ci_Enabled (ListCollectors os opts))
                else collect_enabled Statfs reversed opts) w)"

end
