(* ===== verification/Redaction_Calm.thy ===== *)
theory Redaction_Calm
  imports Redaction
begin

text \<open>
  Texts that hold no letter every secret word of the patterns needs one of (\<open>k\<close>, \<open>s\<close>, \<open>w\<close> or \<open>z\<close>, in
  either case) and no mark a query starts with are left alone by \<open>Redact\<close>. JSON texts may be of this
  kind, since colons and quotes are allowed.
\<close>

definition telling :: "string \<Rightarrow> bool" where
  "telling r \<longleftrightarrow> fold_rune r \<in> {''k'', ''s'', ''w'', ''z''} \<or> one_of ''?&'' r"

definition calm_text :: "string \<Rightarrow> bool" where
  "calm_text s \<longleftrightarrow> list_all (\<lambda>r. \<not> telling r) (runes s)"

lemma telling_fold [simp]: "fold_rune r \<in> {''k'', ''s'', ''w'', ''z''} \<Longrightarrow> telling r"
  by (simp add: telling_def)

lemma fold_letters [simp]:
  "fold_rune ''s'' = ''s''" "fold_rune ''k'' = ''k''"
  by (simp_all add: fold_rune_def lower_char_def)

lemma needs_ilit_letter: "c \<in> set s \<Longrightarrow> c \<in> set ''kswz'' \<Longrightarrow> needs telling (ilit s)"
proof (induction s)
  case (Cons d s)
  show ?case
  proof (cases "c = d")
    case True
    have "needs telling (Chr (\<lambda>x. fold_rune x = [d]))" using Cons.prems True by (auto intro!: needs_chr)
    then show ?thesis by (simp add: ilit_def needs_cat1)
  next
    case False
    with Cons show ?thesis by (auto simp: ilit_def intro: needs_cat2)
  qed
qed simp

lemma needs_lit_letter: "CHR ''s'' \<in> set s \<or> CHR ''k'' \<in> set s \<Longrightarrow> needs telling (lit s)"
  by (auto intro: needs_lit [of "CHR ''s''"] needs_lit [of "CHR ''k''"])

lemma telling_discord: "needs telling discordWebhookPattern"
  unfolding discordWebhookPattern_def by (rule needs_cats [of "lit ''https://''"]) (auto intro: needs_lit_letter)

lemma telling_generic: "needs telling genericWebhookTokenURLPattern"
  unfolding genericWebhookTokenURLPattern_def
  by (rule needs_cats [of "ilit ''webhook''"]) (auto intro: needs_ilit_letter [of "CHR ''w''"])

lemma telling_private: "needs telling privateKeyPattern"
  unfolding privateKeyPattern_def
  by (rule needs_cats [of "ilit ''private key-----''"]) (auto intro: needs_ilit_letter [of "CHR ''k''"])

lemma telling_authorized: "needs telling authorizedKeyPattern"
  unfolding authorizedKeyPattern_def
  by (rule needs_cats [OF list.set_intros(2) [OF list.set_intros(1)]], rule needs_alts)
     (auto intro: needs_lit_letter intro!: needs_cat1 [OF needs_lit_letter])

lemma telling_authorization: "needs telling authorizationPattern"
  unfolding authorizationPattern_def
  by (rule needs_cats [OF list.set_intros(2) [OF list.set_intros(1)]], rule needs_group,
      rule needs_cats [of "ilit ''authorization''"]) (auto intro: needs_ilit_letter [of "CHR ''z''"])

lemma telling_query: "needs telling querySecretPattern"
  unfolding querySecretPattern_def
  by (rule needs_cats [OF list.set_intros(1)], rule needs_group, rule needs_cats [OF list.set_intros(1)])
     (auto intro: needs_chr simp: telling_def)

lemma telling_words:
  "needs telling (ilit ''token'')" "needs telling (ilit ''secret'')" "needs telling (ilit ''password'')"
  "needs telling (ilit ''passwd'')" "needs telling (ilit ''pwd'')" "needs telling (ilit ''apikey'')"
  "needs telling (ilit ''authorization'')" "needs telling (ilit ''webhook'')" "needs telling (ilit ''client_secret'')"
  "needs telling (ilit ''key'')"
  by (auto intro: needs_ilit_letter [of "CHR ''k''"] needs_ilit_letter [of "CHR ''s''"] needs_ilit_letter [of "CHR ''w''"]
      needs_ilit_letter [of "CHR ''z''"])

lemma telling_api_key: "needs telling api_key_word"
  unfolding api_key_word_def by (rule needs_cats [of "ilit ''key''"]) (simp_all add: telling_words)

lemma telling_secret: "needs telling secret_words"
  unfolding secret_words_def
proof (rule needs_alts)
  have "needs telling (cats [ilit ''private'', opt (Chr (one_of ''_-'')), ilit ''key''])"
    by (rule needs_cats [of "ilit ''key''"]) (simp_all add: telling_words)
  then show "needs telling r" if "r \<in> set [ilit ''token'', ilit ''secret'', ilit ''password'', ilit ''passwd'', ilit ''pwd'',
      api_key_word, ilit ''apikey'', ilit ''authorization'', ilit ''webhook'',
      cats [ilit ''private'', opt (Chr (one_of ''_-'')), ilit ''key'']]" for r
    using that telling_words telling_api_key by (auto simp del: cats.simps)
qed

lemma telling_key_value: "needs telling keyValuePattern"
  unfolding keyValuePattern_def
proof (rule needs_cats [OF list.set_intros(2) [OF list.set_intros(1)]], rule needs_group, rule needs_alts)
  have "needs telling (cats [Star (Chr key_rune), secret_words, Star (Chr key_rune)])"
    by (rule needs_cats [of secret_words]) (simp_all add: telling_secret)
  then show "needs telling r" if "r \<in> set [cats [Star (Chr key_rune), secret_words, Star (Chr key_rune)], ilit ''password'',
      ilit ''passwd'', ilit ''pwd'', ilit ''token'', api_key_word, ilit ''apikey'', ilit ''secret'', ilit ''client_secret'',
      ilit ''authorization'', ilit ''webhook'']" for r
    using that telling_words telling_api_key by (auto simp del: cats.simps)
qed

lemma Redact_calm:
  assumes "calm_text s"
  shows "Redact s = s"
proof -
  have "replace_all_string p tmpl s = s" if "needs telling p" for p tmpl
    using replace_all_string_needs [OF that] assms by (simp add: calm_text_def)
  then show ?thesis
    by (simp add: Redact_def telling_discord telling_generic telling_private telling_authorized
        telling_authorization telling_query telling_key_value)
qed

lemma calm_ascii: "list_all (\<lambda>c. ascii c \<and> \<not> telling [c]) s \<Longrightarrow> calm_text s"
proof -
  assume all: "list_all (\<lambda>c. ascii c \<and> \<not> telling [c]) s"
  then have "list_all ascii s" by (simp add: list_all_iff)
  with all show ?thesis by (simp add: calm_text_def runes_ascii list_all_iff)
qed

lemma telling_ascii: "telling [c] \<longleftrightarrow> lower_char c \<in> set ''kswz'' \<or> c \<in> set ''?&''"
  by (auto simp: telling_def fold_rune_def one_of_def)

end
