(* ===== verification/Resource_State.thy ===== *)
theory Resource_State
  imports Resource_Collectors Storage_Integrity Go_Json_Laws Redaction_Calm
begin

text \<open>
  The baselines of the collectors: \<open>StorageStateStore\<close> of \<open>state.go\<close> keeps them in the database, and
  the interface \<open>baseline_store\<close> states what the collectors rely on, namely that a baseline is read as
  it was kept, if the time of the write can be read back. The database keeps its redacted text.
\<close>

definition storage_state_store :: "bool \<Rightarrow> database StateStore" where
  "storage_state_store opened =
     \<lparr>ss_Get = (\<lambda>collector target.
        if \<not> opened then fail ErrNotFound
        else andThen (GetCollectorState collector target) (\<lambda>r. ok (cs_StateJSON r))),
      ss_Upsert = (\<lambda>collector target status text w.
        if \<not> opened then ok () w
        else UpsertCollectorState
          \<lparr>cs_Collector = collector, cs_Target = target, cs_Status = status, cs_StateJSON = text,
           cs_LastAttemptAt = Some (wall w), cs_LastSuccessAt = Some (wall w), cs_LastErrorClass = [],
           cs_LastErrorSummary = [], cs_UpdatedAt = 0\<rparr> w)\<rparr>"

locale baseline_store =
  fixes store :: "'d StateStore"
    and sound :: "'d \<Rightarrow> bool"
    and kept :: "string \<Rightarrow> string"
  assumes get_quiet: "quiet w \<Longrightarrow> snd (ss_Get store c t w) = w"
    and get_after: "quiet w \<Longrightarrow> sound (data w) \<Longrightarrow> trim_space c \<noteq> [] \<Longrightarrow> trim_space t \<noteq> [] \<Longrightarrow>
      \<exists>w1. ss_Upsert store c t ''ok'' text w = (Inr (), w1) \<and> quiet w1 \<and> sound (data w1) \<and>
        (readable_time (wall w) \<longrightarrow>
          (\<forall>w2. quiet w2 \<longrightarrow> data w2 = data w1 \<longrightarrow> fst (ss_Get store c t w2) = Inr (kept text)))"
begin

lemma load_quiet: "quiet w \<Longrightarrow> snd (loadState zero decode (Some store) c t w) = w"
  using get_quiet [of w c t] by (auto simp: loadState_def split: prod.splits sum.splits option.splits)

lemma load_after_save:
  assumes "quiet w" "sound (data w)" "trim_space c \<noteq> []" "trim_space t \<noteq> []"
    "Unmarshal decode (kept (print_tree tree)) zero = Some s"
  shows "\<exists>w1. saveState (Some store) True c t tree w = (Inr (), w1) \<and> quiet w1 \<and> sound (data w1) \<and>
    (readable_time (wall w) \<longrightarrow>
      (\<forall>w2. quiet w2 \<longrightarrow> data w2 = data w1 \<longrightarrow> loadState zero decode (Some store) c t w2 = (Inr (s, True), w2)))"
proof -
  obtain w1 where w1: "ss_Upsert store c t ''ok'' (print_tree tree) w = (Inr (), w1)" "quiet w1" "sound (data w1)"
      "\<And>w2. readable_time (wall w) \<Longrightarrow> quiet w2 \<Longrightarrow> data w2 = data w1 \<Longrightarrow>
        fst (ss_Get store c t w2) = Inr (kept (print_tree tree))"
    using get_after [OF assms(1-4)] by blast
  have "loadState zero decode (Some store) c t w2 = (Inr (s, True), w2)"
    if "quiet w2" "data w2 = data w1" "readable_time (wall w)" for w2
  proof -
    have "ss_Get store c t w2 = (Inr (kept (print_tree tree)), w2)"
      using w1(4) [OF that(3,1,2)] get_quiet [OF that(1), of c t] by (metis prod.collapse)
    then show ?thesis using assms(5) by (simp add: loadState_def)
  qed
  with w1 show ?thesis by (auto simp: saveState_def)
qed

end

interpretation memory_baselines: baseline_store memory_state_store "\<lambda>d. \<not> mem_fail d" "\<lambda>s. s"
proof
  fix w :: "memory_store world" and c t body :: string
  assume "quiet w"
  then show "snd (ss_Get memory_state_store c t w) = w"
    by (simp add: memory_state_store_def memory_get_def andThen_def split: option.split)
  assume "\<not> mem_fail (data w)"
  with \<open>quiet w\<close> show "\<exists>w1. ss_Upsert memory_state_store c t ''ok'' body w = (Inr (), w1) \<and> quiet w1 \<and> \<not> mem_fail (data w1) \<and>
      (readable_time (wall w) \<longrightarrow>
        (\<forall>w2. quiet w2 \<longrightarrow> data w2 = data w1 \<longrightarrow> fst (ss_Get memory_state_store c t w2) = Inr body))"
    by (auto simp: memory_state_store_def memory_get_def memory_upsert_def andThen_def)
qed

lemma upsert_collector_quiet:
  assumes "quiet w" "db_open (data w)" "validateCollectorState r = None"
  shows "UpsertCollectorState r w = (Inr (), w\<lparr>data := snd (exec_put_collector r (wall w) (data w))\<rparr>)"
  using assms by (simp add: UpsertCollectorState_def andThen_def map_err_def exec_put_collector_def database_handle_def)

lemma get_collector_quiet: "quiet w \<Longrightarrow> snd (GetCollectorState c t w) = w"
  by (auto simp: GetCollectorState_def andThen_def query_row_quiet database_handle_def validated_def fail_def ok_def checked_def
      map_err_def split: sum.splits option.splits)

interpretation sql_baselines: baseline_store "storage_state_store True" db_open Redact
proof
  fix w :: "database world" and c t body :: string
  assume quiet: "quiet w"
  show "snd (ss_Get (storage_state_store True) c t w) = w"
    using get_collector_quiet [OF quiet, of c t] by (auto simp: storage_state_store_def andThen_def ok_def split: prod.split sum.split)
  assume opened: "db_open (data w)" and names: "trim_space c \<noteq> []" "trim_space t \<noteq> []"
  let ?r = "\<lparr>cs_Collector = c, cs_Target = t, cs_Status = ''ok'', cs_StateJSON = body,
    cs_LastAttemptAt = Some (wall w), cs_LastSuccessAt = Some (wall w), cs_LastErrorClass = [], cs_LastErrorSummary = [], cs_UpdatedAt = 0\<rparr>"
  let ?w1 = "w\<lparr>data := snd (exec_put_collector ?r (wall w) (data w))\<rparr>"
  have "required c f = None" "required t f = None" for f using names by (simp_all add: required_def)
  note filled = this
  moreover have "required ''ok'' ''status'' = None" by code_simp
  ultimately have valid: "validateCollectorState ?r = None" by (simp add: validateCollectorState_def)
  have put: "ss_Upsert (storage_state_store True) c t ''ok'' body w = (Inr (), ?w1)"
    using upsert_collector_quiet [OF quiet opened valid] by (simp add: storage_state_store_def)
  have times: "collector_readable (collector_values (wall w) ?r)" if "readable_time (wall w)"
    using that by (simp add: values_readable orNow_def)
  have get: "\<exists>r1. fst (GetCollectorState c t ?w1) = Inr r1 \<and> cs_StateJSON r1 = Redact body" if "readable_time (wall w)"
    using upsert_get_collector [OF quiet opened valid times [OF that]] upsert_collector_quiet [OF quiet opened valid]
    by (auto simp: andThen_def collector_of_row_def collector_values_def)
  show "\<exists>w1. ss_Upsert (storage_state_store True) c t ''ok'' body w = (Inr (), w1) \<and> quiet w1 \<and> db_open (data w1) \<and>
      (readable_time (wall w) \<longrightarrow>
        (\<forall>w2. quiet w2 \<longrightarrow> data w2 = data w1 \<longrightarrow> fst (ss_Get (storage_state_store True) c t w2) = Inr (Redact body)))"
  proof (intro exI [of _ ?w1] conjI allI impI)
    fix w2 :: "database world"
    assume now: "readable_time (wall w)" and w2: "quiet w2" "data w2 = data ?w1"
    have "fst (GetCollectorState c t w2) = fst (GetCollectorState c t ?w1)"
      using w2 quiet filled
      by (simp add: GetCollectorState_def andThen_def query_row_quiet database_handle_def split: option.split)
    then show "fst (ss_Get (storage_state_store True) c t w2) = Inr (Redact body)"
      using get [OF now] by (auto simp: storage_state_store_def andThen_def ok_def split: prod.splits sum.splits)
  qed (use put quiet opened in \<open>simp_all add: exec_put_collector_def\<close>)
qed

end
