(* ===== verification/Go_Float_Laws.thy ===== *)
theory Go_Float_Laws
  imports Go_Quote
begin

text \<open>
  Rounding is monotone on the positive rationals, and a quotient of counters of which the first is
  at most the second lies between zero and one.
\<close>

lemma two_to_powi: "two_to e = 2 powi e"
  by (simp add: two_to_def power_int_def inverse_eq_divide power_one_over)

lemma two_to_pos: "0 < two_to e"
  by (simp add: two_to_powi)

lemma two_to_add: "two_to (a + b) = two_to a * two_to b"
  by (simp add: two_to_powi power_int_add)

lemma two_to_mono: "a \<le> b \<Longrightarrow> two_to a \<le> two_to b"
  by (simp add: two_to_powi power_int_increasing)

lemma two_to_less: "two_to a < two_to b \<Longrightarrow> a < b"
  using two_to_mono [of b a] by force

lemma two_to_nat: "0 \<le> e \<Longrightarrow> two_to e = 2 ^ nat e"
  by (simp add: two_to_def)

subsection \<open>The last place\<close>

lemma bit_length_nonneg: "0 \<le> bit_length n"
  by (induction n rule: bit_length.induct) (subst bit_length.simps, simp)

lemma bit_length_bounds:
  assumes "0 < n"
  shows "two_to (bit_length n - 1) \<le> of_int n \<and> of_int n < two_to (bit_length n)"
  using assms
proof (induction n rule: bit_length.induct)
  case (1 n)
  show ?case
  proof (cases "n = 1")
    case True
    have "bit_length 1 = 1" by (simp add: bit_length.simps [of 1] bit_length.simps [of 0])
    with True show ?thesis by (simp add: two_to_def)
  next
    case False
    with "1.prems" have half: "0 < n div 2" by simp
    then have step: "bit_length n = 1 + bit_length (n div 2)" using "1.prems" by (simp add: bit_length.simps [of n])
    have ih: "two_to (bit_length (n div 2) - 1) \<le> of_int (n div 2)" "of_int (n div 2) < two_to (bit_length (n div 2))"
      using "1.IH" "1.prems" half by auto
    let ?b = "bit_length (n div 2)"
    have low: "two_to ?b = 2 * two_to (?b - 1)" using two_to_add [of 1 "?b - 1"] by (simp add: two_to_def)
    have high: "two_to (1 + ?b) = 2 * two_to ?b" using two_to_add [of 1 ?b] by (simp add: two_to_def)
    have "2 * (n div 2) \<le> n" by simp
    then have "2 * of_int (n div 2) \<le> (of_int n :: rat)" by (metis of_int_le_iff of_int_mult of_int_numeral)
    moreover have "of_int n < two_to (1 + ?b)"
    proof -
      obtain m :: int where m: "two_to ?b = of_int m"
        using bit_length_nonneg [of "n div 2"] two_to_nat by (metis of_int_numeral of_int_power)
      with ih(2) have "n div 2 < m" by simp
      then have "n < 2 * m" by simp
      then have "of_int n < 2 * (of_int m :: rat)" by (metis of_int_less_iff of_int_mult of_int_numeral)
      with m high show ?thesis by simp
    qed
    ultimately show ?thesis using ih low step by simp
  qed
qed

definition fitting :: "rat \<Rightarrow> int \<Rightarrow> bool" where
  "fitting x e \<longleftrightarrow> 2 ^ 52 * two_to e \<le> x \<and> x < 2 ^ 53 * two_to e"

lemma powers: "(2 :: rat) ^ 52 = two_to 52" "(2 :: rat) ^ 53 = two_to 53"
  by (simp_all add: two_to_def)

lemma fitting_two_to: "fitting x e \<longleftrightarrow> two_to (52 + e) \<le> x \<and> x < two_to (53 + e)"
  by (simp only: fitting_def powers two_to_add)

lemma fitting_mono:
  assumes "fitting x a" "fitting y b" "x \<le> y"
  shows "a \<le> b"
proof -
  have "two_to (52 + a) < two_to (53 + b)" using assms unfolding fitting_two_to by linarith
  then show ?thesis by (auto dest: two_to_less)
qed

lemma last_place_fitting:
  assumes "0 < x"
  obtains e where "fitting x e" "last_place x = max e (- 1074)"
proof -
  obtain p q where pq: "quotient_of x = (p, q)" by fastforce
  then have q: "0 < q" and x: "x = of_int p / of_int q" by (simp_all add: quotient_of_denom_pos quotient_of_div)
  with assms have p: "0 < p" by (simp add: zero_less_divide_iff)
  define e where "e = bit_length p - bit_length q - 53"
  note bp = bit_length_bounds [OF p] and bq = bit_length_bounds [OF q]
  have pos: "0 < (of_int q :: rat)" using q by simp
  have "two_to (52 + e) * of_int q < two_to (52 + e) * two_to (bit_length q)"
    using bq two_to_pos by simp
  also have "\<dots> = two_to (bit_length p - 1)" by (simp add: e_def algebra_simps flip: two_to_add)
  also have "\<dots> \<le> of_int p" using bp by simp
  finally have low: "two_to (52 + e) < x" using pos x by (simp add: pos_less_divide_eq)
  have "of_int p < two_to (bit_length p)" using bp by simp
  also have "\<dots> = two_to (54 + e) * two_to (bit_length q - 1)" by (simp add: e_def algebra_simps flip: two_to_add)
  also have "\<dots> \<le> two_to (54 + e) * of_int q" using bq two_to_pos [of "54 + e"] by simp
  finally have high: "x < two_to (54 + e)" using pos x by (simp add: pos_divide_less_eq)
  have test: "2 ^ 53 \<le> x / two_to e \<longleftrightarrow> two_to (53 + e) \<le> x"
    by (simp only: powers two_to_add pos_le_divide_eq [OF two_to_pos])
  have place: "last_place x = max (if two_to (53 + e) \<le> x then e + 1 else e) (- 1074)"
    by (simp only: last_place_def pq Let_def prod.case test flip: e_def)
  show ?thesis
  proof (rule that [OF _ place])
    have "52 + (e + 1) = 53 + e" "53 + (e + 1) = 54 + e" by simp_all
    with low high show "fitting x (if two_to (53 + e) \<le> x then e + 1 else e)" by (auto simp: fitting_two_to)
  qed
qed

subsection \<open>Rounding is monotone\<close>

lemma round_even_near: "\<bar>of_int (round_even x) - x\<bar> \<le> 1 / 2"
proof -
  have "of_int \<lfloor>x\<rfloor> \<le> x" "x < of_int \<lfloor>x\<rfloor> + 1" by linarith+
  then show ?thesis unfolding round_even_def Let_def by (auto simp only: abs_le_iff of_int_add of_int_1 split: if_splits)
qed

lemma round_even_int [simp]: "round_even (of_int n) = n"
  by (simp add: round_even_def)

lemma round_even_mono:
  assumes "x \<le> y"
  shows "round_even x \<le> round_even y"
proof (rule ccontr)
  assume "\<not> round_even x \<le> round_even y"
  then have above: "round_even y + 1 \<le> round_even x" by simp
  then have "of_int (round_even y) + 1 \<le> (of_int (round_even x) :: rat)" by (metis of_int_1 of_int_add of_int_le_iff)
  with round_even_near [of x] round_even_near [of y] assms have "x = y" by (simp add: abs_le_iff)
  with above show False by simp
qed

definition rounded :: "rat \<Rightarrow> rat" where
  "rounded x = of_int (round_even (x / two_to (last_place x))) * two_to (last_place x)"

lemma round_positive_rounded: "round_positive x = (if 2 ^ 1024 \<le> rounded x then PInf else Fin (rounded x))"
  by (simp add: round_positive_def rounded_def Let_def)

lemma rounded_mono:
  assumes "0 < x" "x \<le> y"
  shows "rounded x \<le> rounded y"
proof -
  obtain a where a: "fitting x a" "last_place x = max a (- 1074)" using last_place_fitting assms(1) by blast
  obtain b where b: "fitting y b" "last_place y = max b (- 1074)" using last_place_fitting assms by (metis less_le_trans)
  have ab: "a \<le> b" using fitting_mono a b assms by blast
  let ?ex = "last_place x" and ?ey = "last_place y"
  show ?thesis
  proof (cases "?ex = ?ey")
    case True
    have "x / two_to ?ey \<le> y / two_to ?ey" using assms two_to_pos by (simp add: divide_right_mono less_imp_le)
    then have "round_even (x / two_to ?ey) \<le> round_even (y / two_to ?ey)" by (rule round_even_mono)
    then show ?thesis using True two_to_pos [of ?ey] by (simp add: rounded_def mult_right_mono)
  next
    case False
    with a(2) b(2) ab have ey: "?ey = b" "?ex < b" "a \<le> ?ex" by auto
    have "x < two_to (53 + a)" using a fitting_two_to by blast
    also have "\<dots> \<le> two_to (53 + ?ex)" using ey two_to_mono by simp
    finally have "x / two_to ?ex \<le> of_int (2 ^ 53)"
      using two_to_pos [of ?ex] by (simp add: pos_divide_le_eq two_to_add flip: powers)
    then have "round_even (x / two_to ?ex) \<le> 2 ^ 53" using round_even_mono round_even_int by metis
    then have "(of_int (round_even (x / two_to ?ex)) :: rat) \<le> of_int (2 ^ 53)" by (simp only: of_int_le_iff)
    then have "rounded x \<le> two_to (53 + ?ex)"
      using two_to_pos [of ?ex] by (simp add: rounded_def two_to_add mult_right_mono flip: powers)
    also have "\<dots> \<le> two_to (52 + b)" using ey by (intro two_to_mono) simp
    also have "\<dots> \<le> rounded y"
    proof -
      have "two_to (52 + b) \<le> y" using b fitting_two_to by blast
      then have "of_int (2 ^ 52) \<le> y / two_to b" using two_to_pos [of b] by (simp add: pos_le_divide_eq two_to_add flip: powers)
      then have "2 ^ 52 \<le> round_even (y / two_to b)" using round_even_mono round_even_int by metis
      then have "(of_int (2 ^ 52) :: rat) \<le> of_int (round_even (y / two_to b))" by (simp only: of_int_le_iff)
      then show ?thesis using two_to_pos [of b] ey by (simp add: rounded_def two_to_add mult_right_mono flip: powers)
    qed
    finally show ?thesis .
  qed
qed

lemma rounded_nonneg: "0 < x \<Longrightarrow> 0 \<le> rounded x"
proof -
  assume "0 < x"
  then have "0 \<le> x / two_to (last_place x)" using two_to_pos by (simp add: less_imp_le)
  then have "round_even 0 \<le> round_even (x / two_to (last_place x))" by (rule round_even_mono)
  moreover have "round_even 0 = 0" using round_even_int [of 0] by simp
  ultimately show ?thesis using two_to_pos [of "last_place x"] by (simp add: rounded_def)
qed

text \<open>Powers of two are exact.\<close>

lemma rounded_power: "0 \<le> k \<Longrightarrow> k \<le> 100 \<Longrightarrow> rounded (two_to k) = two_to k"
proof -
  assume k: "0 \<le> k" "k \<le> 100"
  obtain e where e: "fitting (two_to k) e" "last_place (two_to k) = max e (- 1074)" using last_place_fitting two_to_pos by blast
  have "fitting (two_to k) (k - 52)" using two_to_pos [of k] two_to_add [of 1 k] by (simp add: fitting_two_to) (simp add: two_to_def)
  then have "e = k - 52" using fitting_mono e(1) by (meson order_antisym order_refl)
  with e k have place: "last_place (two_to k) = k - 52" by simp
  have whole: "two_to k = 2 ^ 52 * two_to (k - 52)" unfolding powers two_to_add [symmetric] by simp
  moreover have "2 ^ 52 * two_to (k - 52) / two_to (k - 52) = of_int (2 ^ 52)" using two_to_pos [of "k - 52"] by simp
  ultimately have "round_even (two_to k / two_to (k - 52)) = 2 ^ 52" by (simp only: round_even_int)
  then show ?thesis unfolding rounded_def place using whole by simp
qed

subsection \<open>Counters and ratios\<close>

lemma rounded_one: "rounded 1 = 1"
  using rounded_power [of 0] by (simp add: two_to_def)

lemma fl_of_nat_finite:
  assumes "0 < n" "n < 2 ^ 64"
  shows "fl_of_nat n = Fin (rounded (of_nat n)) \<and> 1 \<le> rounded (of_nat n)"
proof -
  have "rounded 1 \<le> rounded (of_nat n)" using assms by (intro rounded_mono) simp_all
  then have "1 \<le> rounded (of_nat n)" by (simp add: rounded_one)
  moreover have "rounded (of_nat n) \<le> rounded (two_to 64)"
  proof (intro rounded_mono)
    have "(of_nat n :: rat) \<le> of_nat (2 ^ 64)" using assms(2) by (simp only: of_nat_le_iff) 
    then show "of_nat n \<le> two_to 64" by (simp add: two_to_def)
  qed (use assms in simp)
  then have "rounded (of_nat n) \<le> two_to 64" by (simp add: rounded_power)
  then have "\<not> 2 ^ 1024 \<le> rounded (of_nat n)"
    using two_to_mono [of 65 1024] by (simp add: two_to_def)
  ultimately show ?thesis using assms by (simp add: fl_of_nat_def round64_def round_positive_rounded)
qed

lemma ratio_of_counters:
  assumes "n \<le> d" "0 < d" "d < 2 ^ 64"
  shows "\<exists>r. fl_div (fl_of_nat n) (fl_of_nat d) = Fin r \<and> 0 \<le> r \<and> r \<le> 1"
proof (cases "n = 0")
  case True
  have "fl_of_nat 0 = Fin 0" by (simp add: fl_of_nat_def round64_def)
  with True fl_of_nat_finite [OF assms(2,3)] show ?thesis
    by (auto simp: fl_div_def fl_negative_def fl_signed_def finite_value_def round64_def)
next
  case False
  let ?a = "rounded (of_nat n)" and ?b = "rounded (of_nat d)"
  have a: "fl_of_nat n = Fin ?a" "1 \<le> ?a" and b: "fl_of_nat d = Fin ?b" "1 \<le> ?b"
    using fl_of_nat_finite [of n] fl_of_nat_finite [of d] False assms by auto
  have "?a \<le> ?b" using False assms by (intro rounded_mono) simp_all
  then have q: "0 < ?a / ?b" "?a / ?b \<le> 1" using a b by (simp_all add: divide_simps)
  have "rounded (?a / ?b) \<le> 1" using rounded_mono [OF q] rounded_one by simp
  moreover have "0 \<le> rounded (?a / ?b)" by (rule rounded_nonneg) (rule q)
  moreover have "fl_div (fl_of_nat n) (fl_of_nat d) = round64 (?a / ?b)"
    using a b by (auto simp: fl_div_def fl_negative_def fl_signed_def finite_value_def)
  ultimately show ?thesis using q by (auto simp: round64_def round_positive_rounded)
qed

end
