(* ===== verification/Resource_Laws.thy ===== *)
theory Resource_Laws
  imports Resource_State Go_Float_Laws
begin

text \<open>
  What the collectors promise: a reboot is noticed through the kept baseline, the ratios of the
  processor are ratios, and a recognized disk is not counted together with its partitions.
\<close>

subsection \<open>Running a collector\<close>

lemma attempt_simps [simp]:
  "attempt (ok x) h k w = k x w" "attempt (fail e) h k w = h e w"
  by (simp_all add: attempt_def ok_def fail_def)

lemma attempt_Inr: "m w = (Inr a, w1) \<Longrightarrow> attempt m h k w = k a w1"
  by (simp add: attempt_def)

lemma attempt_poll [simp]: "quiet w \<Longrightarrow> attempt ctx_err h k w = k () w"
  by (simp add: attempt_def)

lemma failure_result:
  "failureObservation name target started cls summary w = (ob, w1) \<Longrightarrow> \<not> ob_Success ob \<and> ob_Metrics ob = [] \<and> w1 = w"
  by (auto simp: failureObservation_def)

lemma success_result:
  "successObservation name target started metrics summary w = (ob, w1) \<Longrightarrow>
     ob_Success ob \<and> ob_Metrics ob = metrics \<and> ob_Summary ob = summary \<and> w1 = w"
  by (auto simp: successObservation_def)

subsection \<open>Reboots\<close>

text \<open>What the three files of the uptime collector hold.\<close>

definition boot_files :: "'d Options \<Rightarrow> string \<Rightarrow> string \<Rightarrow> string \<Rightarrow> bool" where
  "boot_files opts uptime stat ident \<longleftrightarrow>
     src_ReadFile (source_of opts) ''/proc/uptime'' = ok uptime \<and> src_ReadFile (source_of opts) ''/proc/stat'' = ok stat \<and>
     src_ReadFile (source_of opts) ''/proc/sys/kernel/random/boot_id'' = ok ident"

text \<open>The form of a boot identifier: hexadecimal digits and dashes.\<close>

definition boot_ident :: "string \<Rightarrow> bool" where
  "boot_ident s \<longleftrightarrow> list_all (\<lambda>c. c \<in> set ''0123456789abcdef-'') s"

lemma ident_chars:
  "list_all (\<lambda>c. ascii c \<and> \<not> telling [c] \<and> escape_rune [c] = [c]) ''0123456789abcdef-''"
  by code_simp

lemma ident_rune: "boot_ident s \<Longrightarrow> c \<in> set s \<Longrightarrow> ascii c \<and> \<not> telling [c] \<and> escape_rune [c] = [c]"
  using ident_chars unfolding boot_ident_def list_all_iff by blast

lemma ident_quoted: "boot_ident s \<Longrightarrow> quote_json s = [CHR 0x22] @ s @ [CHR 0x22]"
proof -
  assume s: "boot_ident s"
  then have "runes s = map (\<lambda>c. [c]) s" by (intro runes_ascii) (simp add: list_all_iff ident_rune)
  moreover have "concat (map escape_rune (map (\<lambda>c. [c]) s)) = s" using ident_rune [OF s] by (induction s) auto
  ultimately show ?thesis by (simp add: quote_json_def)
qed

lemma ident_valid: "boot_ident s \<Longrightarrow> valid_text s"
proof -
  assume s: "boot_ident s"
  then have "runes s = map (\<lambda>c. [c]) s" by (intro runes_ascii) (simp add: list_all_iff ident_rune)
  with s show ?thesis by (auto simp: valid_text_def list_all_iff clean_rune_def dest!: ident_rune) (auto simp: ascii_def)
qed

lemma boot_name: "quote_json ''boot_id'' = [CHR 0x22] @ ''boot_id'' @ [CHR 0x22]" "valid_text ''boot_id''"
    "list_all (\<lambda>c. ascii c \<and> \<not> telling [c]) ([CHR 0x22, CHR ''{'', CHR '':'', CHR ''}''] @ ''boot_id'')"
  by code_simp+

lemma boot_state_kept:
  assumes "boot_ident a"
  shows "Redact (print_tree (boot_state_tree \<lparr>bt_BootID = a\<rparr>)) = print_tree (boot_state_tree \<lparr>bt_BootID = a\<rparr>)"
proof -
  have "print_tree (boot_state_tree \<lparr>bt_BootID = a\<rparr>) =
    [CHR ''{'', CHR 0x22] @ ''boot_id'' @ [CHR 0x22, CHR '':'', CHR 0x22] @ a @ [CHR 0x22, CHR ''}'']"
    by (simp add: boot_state_tree_def boot_name(1) ident_quoted [OF assms])
  moreover have "list_all (\<lambda>c. ascii c \<and> \<not> telling [c]) a" using ident_rune [OF assms] by (simp add: list_all_iff)
  ultimately show ?thesis using boot_name(3) by (intro Redact_calm calm_ascii) simp
qed

lemma boot_state_read:
  assumes "boot_ident a"
  shows "Unmarshal decode_boot_state (print_tree (boot_state_tree \<lparr>bt_BootID = a\<rparr>)) \<lparr>bt_BootID = []\<rparr> = Some \<lparr>bt_BootID = a\<rparr>"
proof -
  have "printable 1 (boot_state_tree \<lparr>bt_BootID = a\<rparr>)"
    using ident_valid [OF assms] boot_name(2) by (simp add: boot_state_tree_def)
  then have "parse_json (print_tree (boot_state_tree \<lparr>bt_BootID = a\<rparr>)) = Some (boot_state_tree \<lparr>bt_BootID = a\<rparr>)"
    by (rule parse_print) (simp add: max_depth_def)
  then show ?thesis
    by (simp add: Unmarshal_def) (simp add: decode_boot_state_def boot_state_tree_def decode_struct_def field_def field_for_def
        decode_string_def)
qed

lemma uptime_metrics:
  "\<exists>ms. must_metrics [] (uptime_rows x n changed) ts = Inr ms \<and>
     map (\<lambda>m. (m_Name m, m_Value m)) ms =
       [(''pooly_system_uptime_seconds'', x), (''pooly_system_boot_time_timestamp_seconds'', fl_of_nat n),
        (''pooly_system_boot_id_changed'', changed)]"
proof -
  have "metric_name ''pooly_system_uptime_seconds''" "metric_name ''pooly_system_boot_time_timestamp_seconds''"
    "metric_name ''pooly_system_boot_id_changed''" by code_simp+
  then show ?thesis by (simp add: uptime_rows_def gauge_def mustMetric_def NewMetric_def)
qed

lemma CollectUptime_run:
  assumes "quiet w" "boot_files opts u s i" "op_State opts = Some store" "op_Persist opts"
    "ParseProcUptime u = Inr x" "ParseBootTime s = Inr n" "ParseBootID i = Inr b"
    "loadState \<lparr>bt_BootID = []\<rparr> decode_boot_state (Some store) ''uptime'' ''boot'' w = (Inr (previous, found), w)"
    "saveState (Some store) True ''uptime'' ''boot'' (boot_state_tree \<lparr>bt_BootID = b\<rparr>) w = (Inr (), w1)"
  shows "CollectUptime opts w =
    with_metrics ''uptime'' ''system'' (wall w)
      (uptime_rows x n (if boot_changed previous found b then Fin 1 else Fin 0))
      (if boot_changed previous found b then ''boot id changed''
       else if found then ''uptime collected'' else ''boot baseline recorded'') w1"
  using assms(1,2,5-7) unfolding CollectUptime_def boot_files_def assms(3) assms(4) [THEN eqTrueI] attempt_def ctx_err_def
  by (simp add: Let_def bind_sum_def ok_def assms(8,9))

lemma CollectUptime_success:
  assumes "quiet w" "boot_files opts u s i" "op_State opts = Some store" "op_Persist opts"
    "CollectUptime opts w = (ob, w1)" "ob_Success ob"
    "\<And>w. quiet w \<Longrightarrow> snd (loadState \<lparr>bt_BootID = []\<rparr> decode_boot_state (Some store) ''uptime'' ''boot'' w) = w"
  obtains b where "ParseBootID i = Inr b"
    "saveState (Some store) True ''uptime'' ''boot'' (boot_state_tree \<lparr>bt_BootID = b\<rparr>) w = (Inr (), w1)"
proof -
  let ?parse = "bind_sum (ParseProcUptime u) (\<lambda>uptime. bind_sum (ParseBootTime s) (\<lambda>bootTime.
    bind_sum (ParseBootID i) (\<lambda>bootID. Inr (uptime, bootTime, bootID))))"
  have run: "CollectUptime opts w = (case ?parse of
      Inl e \<Rightarrow> failureObservation ''uptime'' ''system'' (wall w) ErrorParse (error_text e)
    | Inr (uptimeSeconds, bootTime, bootID) \<Rightarrow>
       attempt (loadState \<lparr>bt_BootID = []\<rparr> decode_boot_state (Some store) ''uptime'' ''boot'')
         (\<lambda>_. failureObservation ''uptime'' ''system'' (wall w) ErrorState ''load boot state failed'') (\<lambda>(previous, found).
       attempt (saveState (Some store) True ''uptime'' ''boot'' (boot_state_tree \<lparr>bt_BootID = bootID\<rparr>))
         (\<lambda>_. failureObservation ''uptime'' ''system'' (wall w) ErrorState ''save boot state failed'') (\<lambda>_.
         with_metrics ''uptime'' ''system'' (wall w)
           (uptime_rows uptimeSeconds bootTime (if boot_changed previous found bootID then Fin 1 else Fin 0))
           (if boot_changed previous found bootID then ''boot id changed''
            else if found then ''uptime collected'' else ''boot baseline recorded'')))) w"
    using assms(1,2) unfolding CollectUptime_def boot_files_def assms(3) assms(4) [THEN eqTrueI] by (simp add: Let_def)
  show ?thesis
  proof (cases ?parse)
    case (Inl e)
    with run assms(5) have "failureObservation ''uptime'' ''system'' (wall w) ErrorParse (error_text e) w = (ob, w1)" by simp
    with assms(6) show ?thesis by (auto dest: failure_result)
  next
    case (Inr p)
    then obtain x n b where p: "?parse = Inr (x, n, b)" by (cases p) auto
    then have id: "ParseBootID i = Inr b" by (auto simp: bind_sum_def split: sum.splits)
    obtain r w2 where load: "loadState \<lparr>bt_BootID = []\<rparr> decode_boot_state (Some store) ''uptime'' ''boot'' w = (r, w2)" by fastforce
    with assms(7) [OF assms(1)] have same: "w2 = w" by simp
    have r: "\<exists>previous found. r = Inr (previous, found)"
      using run p load same assms(5,6) by (cases r) (auto simp: attempt_def dest!: failure_result [OF sym])
    then obtain previous found where r: "r = Inr (previous, found)" by blast
    obtain q w3 where save: "saveState (Some store) True ''uptime'' ''boot'' (boot_state_tree \<lparr>bt_BootID = b\<rparr>) w = (q, w3)" by fastforce
    from run p load same r save assms(5,6) have q: "q = Inr ()"
      by (cases q) (auto simp: attempt_def dest!: failure_result [OF sym])
    let ?changed = "boot_changed previous found b"
    obtain ms where "must_metrics [] (uptime_rows x n (if ?changed then Fin 1 else Fin 0)) (wall w) = Inr ms"
      using uptime_metrics [of x n "if ?changed then Fin 1 else Fin 0" "wall w"] by (elim exE conjE) (rule that)
    then have "w3 = w1"
      using run p load same r save q assms(5) by (simp add: attempt_def with_metrics_def) (metis success_result)
    with save q id show ?thesis by (intro that) auto
  qed
qed

text \<open>
  C37: The uptime collector notices a reboot, and nothing else, through the database: after a
  successful collection of a boot identifier of the kernel's form, the next collection that nothing
  disturbs succeeds and reports a change exactly if the identifier it reads is another one, however
  much later it runs and whatever the first one found. The first collection runs in one of the years
  0 to 9999, whose times the database reads back.
\<close>

theorem reboot_noticed:
  assumes "quiet w" "db_open (data w)"
    and "op_State opts1 = Some (storage_state_store True)" "op_Persist opts1" "boot_files opts1 u1 s1 i1"
    and "op_State opts2 = Some (storage_state_store True)" "op_Persist opts2" "boot_files opts2 u2 s2 i2"
    and "ParseBootID i1 = Inr a" "boot_ident a" "a \<noteq> []"
    and "ParseProcUptime u2 = Inr x" "ParseBootTime s2 = Inr n" "ParseBootID i2 = Inr b" "boot_ident b"
    and "CollectUptime opts1 w = (ob1, w1)" "ob_Success ob1"
    and "quiet w2" "data w2 = data w1" and "readable_time (wall w)"
  shows "\<exists>ob2 w3. CollectUptime opts2 w2 = (ob2, w3) \<and> ob_Success ob2 \<and>
    map (\<lambda>m. (m_Name m, m_Value m)) (ob_Metrics ob2) =
      [(''pooly_system_uptime_seconds'', x), (''pooly_system_boot_time_timestamp_seconds'', fl_of_nat n),
       (''pooly_system_boot_id_changed'', if a = b then Fin 0 else Fin 1)] \<and>
    ob_Summary ob2 = (if a = b then ''uptime collected'' else ''boot id changed'')"
proof -
  let ?store = "storage_state_store True" and ?zero = "\<lparr>bt_BootID = []\<rparr>"
  have names: "trim_space ''uptime'' \<noteq> []" "trim_space ''boot'' \<noteq> []" by code_simp+
  have read: "Unmarshal decode_boot_state (Redact (print_tree (boot_state_tree \<lparr>bt_BootID = c\<rparr>))) ?zero = Some \<lparr>bt_BootID = c\<rparr>"
    if "boot_ident c" for c using boot_state_kept [OF that] boot_state_read [OF that] by simp
  obtain c where "ParseBootID i1 = Inr c"
    and saved: "saveState (Some ?store) True ''uptime'' ''boot'' (boot_state_tree \<lparr>bt_BootID = c\<rparr>) w = (Inr (), w1)"
    by (rule CollectUptime_success [OF assms(1,5,3,4,16,17)]) (rule sql_baselines.load_quiet, assumption, rule that)
  with assms(9) have c: "c = a" by simp
  obtain v where "saveState (Some ?store) True ''uptime'' ''boot'' (boot_state_tree \<lparr>bt_BootID = a\<rparr>) w = (Inr (), v)"
    and v: "db_open (data v)" "\<And>w2. quiet w2 \<Longrightarrow> data w2 = data v \<Longrightarrow>
      loadState ?zero decode_boot_state (Some ?store) ''uptime'' ''boot'' w2 = (Inr (\<lparr>bt_BootID = a\<rparr>, True), w2)"
    using sql_baselines.load_after_save [OF assms(1,2) names read [OF assms(10)]] assms(20)
    by (elim exE conjE) (rule that, assumption+, simp)
  with saved c have same: "v = w1" by simp
  have load: "loadState ?zero decode_boot_state (Some ?store) ''uptime'' ''boot'' w2 = (Inr (\<lparr>bt_BootID = a\<rparr>, True), w2)"
    using v(2) assms(18,19) same by simp
  obtain w3 where save: "saveState (Some ?store) True ''uptime'' ''boot'' (boot_state_tree \<lparr>bt_BootID = b\<rparr>) w2 = (Inr (), w3)"
    using sql_baselines.load_after_save [OF assms(18) _ names read [OF assms(15)]] v(1) same assms(19) by auto
  have changed: "boot_changed \<lparr>bt_BootID = a\<rparr> True b \<longleftrightarrow> a \<noteq> b" using assms(11) by (simp add: boot_changed_def)
  obtain ms where "must_metrics [] (uptime_rows x n (if a = b then Fin 0 else Fin 1)) (wall w2) = Inr ms"
    and ms: "map (\<lambda>m. (m_Name m, m_Value m)) ms =
      [(''pooly_system_uptime_seconds'', x), (''pooly_system_boot_time_timestamp_seconds'', fl_of_nat n),
       (''pooly_system_boot_id_changed'', if a = b then Fin 0 else Fin 1)]"
    using uptime_metrics [of x n "if a = b then Fin 0 else Fin 1" "wall w2"] by (elim exE conjE) (rule that)
  moreover have "CollectUptime opts2 w2 = with_metrics ''uptime'' ''system'' (wall w2)
      (uptime_rows x n (if a = b then Fin 0 else Fin 1)) (if a = b then ''uptime collected'' else ''boot id changed'') w3"
    using CollectUptime_run [OF assms(18,8,6,7,12-14) load save] changed by (cases "a = b") simp_all
  ultimately show ?thesis using ms unfolding with_metrics_def successObservation_def by simp
qed

definition boot_options :: "string \<Rightarrow> database Options" where
  "boot_options ident =
     (DefaultOptions (MapFileSource (Some [''/proc/uptime'' \<mapsto> ''0 7'', ''/proc/stat'' \<mapsto> ''btime 9'',
        ''/proc/sys/kernel/random/boot_id'' \<mapsto> ident]) None))\<lparr>op_State := Some (storage_state_store True), op_Persist := True\<rparr>"

lemma boot_options_files: "boot_files (boot_options ident) ''0 7'' ''btime 9'' ident"
proof -
  have "cleanSourcePath ''/proc/uptime'' = ''/proc/uptime''" "cleanSourcePath ''/proc/stat'' = ''/proc/stat''"
    "cleanSourcePath ''/proc/sys/kernel/random/boot_id'' = ''/proc/sys/kernel/random/boot_id''" by code_simp+
  then show ?thesis
    by (simp add: boot_files_def boot_options_def source_of_def MapFileSource_def DefaultOptions_def)
qed

lemma boot_options_state [simp]:
  "op_State (boot_options ident) = Some (storage_state_store True)" "op_Persist (boot_options ident)"
  by (simp_all add: boot_options_def)

lemma boot_examples:
  "ParseProcUptime ''0 7'' = Inr (Fin 0)" "ParseBootTime ''btime 9'' = Inr 9"
  "ParseBootID ''abcdef01'' = Inr ''abcdef01''" "ParseBootID ''abcdef02'' = Inr ''abcdef02''"
  "boot_ident ''abcdef01''" "boot_ident ''abcdef02''"
proof -
  have "Fields ''0 7'' = [''0'', ''7'']" "ParseFloat ''0'' = Inr (Fin 0)" by code_simp+
  then show "ParseProcUptime ''0 7'' = Inr (Fin 0)" by (simp add: ParseProcUptime_def read_float_def bind_sum_def finite_value_def)
  have "lines_of ''btime 9'' = [''btime 9'']" "Fields ''btime 9'' = [''btime'', ''9'']" "nat_text 9 = ''9''" by code_simp+
  moreover from this(3) have "ParseUint ''9'' = Inr 9" using ParseUint_nat_text [of 9] by simp
  ultimately show "ParseBootTime ''btime 9'' = Inr 9" by (simp add: ParseBootTime_def read_uint_def)
qed code_simp+

lemma first_boot_load:
  "loadState \<lparr>bt_BootID = []\<rparr> decode_boot_state (Some (storage_state_store True)) ''uptime'' ''boot'' storage_world =
     (Inr (\<lparr>bt_BootID = []\<rparr>, False), storage_world)"
proof -
  have "required ''uptime'' ''collector'' = None" "required ''boot'' ''target'' = None" by code_simp+
  then have "GetCollectorState ''uptime'' ''boot'' storage_world = (Inl (notFound ''scan collector state''), storage_world)"
    by (simp add: GetCollectorState_def andThen_def storage_world_def quiet_def query_row_quiet empty_database_def
        database_handle_def get_row_def)
  then show ?thesis by (simp add: loadState_def storage_state_store_def andThen_def)
qed

lemma first_boot:
  obtains ob1 w1 where "CollectUptime (boot_options ''abcdef01'') storage_world = (ob1, w1)" "ob_Success ob1" "quiet w1"
proof -
  have world: "quiet storage_world" "db_open (data storage_world)"
    by (simp_all add: storage_world_def quiet_def empty_database_def)
  have names: "trim_space ''uptime'' \<noteq> []" "trim_space ''boot'' \<noteq> []" by code_simp+
  obtain w1 where save: "saveState (Some (storage_state_store True)) True ''uptime'' ''boot''
      (boot_state_tree \<lparr>bt_BootID = ''abcdef01''\<rparr>) storage_world = (Inr (), w1)" and w1: "quiet w1"
    using sql_baselines.load_after_save [OF world names, of decode_boot_state _ "\<lparr>bt_BootID = []\<rparr>"]
      boot_state_read [OF boot_examples(5)] boot_state_kept [OF boot_examples(5)] by metis
  note run = CollectUptime_run [OF world(1) boot_options_files boot_options_state(1) boot_options_state(2) boot_examples(1-3)
      first_boot_load save]
  obtain ms where "must_metrics [] (uptime_rows (Fin 0) 9 (Fin 0)) (wall storage_world) = Inr ms"
    using uptime_metrics [of "Fin 0" 9 "Fin 0" "wall storage_world"] by (elim exE conjE) (rule that)
  with run have "CollectUptime (boot_options ''abcdef01'') storage_world =
      successObservation ''uptime'' ''system'' (wall storage_world) ms ''boot baseline recorded'' w1"
    by (simp add: with_metrics_def boot_changed_def)
  then have "fst (CollectUptime (boot_options ''abcdef01'') storage_world) = fst (successObservation ''uptime'' ''system''
      (wall storage_world) ms ''boot baseline recorded'' w1)" "snd (CollectUptime (boot_options ''abcdef01'') storage_world) = w1"
    by (simp_all add: successObservation_def)
  then show ?thesis using w1 that [of "fst (CollectUptime (boot_options ''abcdef01'') storage_world)" w1]
    by (simp add: successObservation_def prod_eq_iff)
qed

theorem reboot_noticed_witness:
  "\<exists>ob2 w3. CollectUptime (boot_options ''abcdef02'')
     (snd (CollectUptime (boot_options ''abcdef01'') storage_world)) = (ob2, w3) \<and> ob_Summary ob2 = ''boot id changed''"
proof -
  have world: "quiet storage_world" "db_open (data storage_world)"
    by (simp_all add: storage_world_def quiet_def empty_database_def)
  obtain ob1 w1 where first: "CollectUptime (boot_options ''abcdef01'') storage_world = (ob1, w1)" "ob_Success ob1" "quiet w1"
    by (rule first_boot)
  show ?thesis
    using reboot_noticed [OF world boot_options_state boot_options_files boot_options_state boot_options_files boot_examples(3,5) _
        boot_examples(1,2,4,6) first refl] first(1)
    by (auto simp: storage_world_def readable_time_def)
qed

subsection \<open>Devices and their partitions\<close>

text \<open>
  The kernel's names. The name of the partition \<open>n\<close> of the disk \<open>d\<close> is the disk's name and the number,
  with a \<open>p\<close> between them when the disk's own name ends in a digit. The disks the filter recognizes
  are those of the NVMe and MMC drivers and every disk of at least three characters whose name ends in
  another character than a digit, such as \<open>sda\<close> and \<open>vdb\<close>.
\<close>

definition partition_name :: "string \<Rightarrow> nat \<Rightarrow> string" where
  "partition_name d n = (if digit_char (last d) then d @ ''p'' @ nat_text n else d @ nat_text n)"

definition recognized_disk :: "string \<Rightarrow> bool" where
  "recognized_disk d \<longleftrightarrow>
     (\<exists>a b. d = ''nvme'' @ nat_text a @ ''n'' @ nat_text b) \<or> (\<exists>a. d = ''mmcblk'' @ nat_text a) \<or>
     3 \<le> length d \<and> \<not> digit_char (last d) \<and> \<not> prefix ''nvme'' d \<and> \<not> prefix ''mmcblk'' d"

lemma digits_free: "list_all digit_char s \<Longrightarrow> \<not> digit_char c \<Longrightarrow> c \<notin> set s"
  by (auto simp: list_all_iff)

lemma allDigits_nat_text [simp]: "allDigits (nat_text n)"
  by (simp add: allDigits_def nat_text_digits nat_text_not_Nil)

lemma disk_letters: "\<not> digit_char (CHR ''p'')" "\<not> digit_char (CHR ''n'')"
  by (simp_all add: digit_char_def byte_def)

lemma last_nat_text: "digit_char (last (x @ nat_text n))"
  using nat_text_digits [of n] by (simp add: nat_text_not_Nil list_all_iff)

lemma last_index_last:
  assumes "c \<notin> set t"
  shows "last_index c (s @ c # t) = Some (length s)"
proof -
  from assms have "takeWhile (\<lambda>x. x \<noteq> c) (rev t @ c # rev s) = rev t @ takeWhile (\<lambda>x. x \<noteq> c) (c # rev s)"
    by (intro takeWhile_append2) auto
  then show ?thesis by (simp add: last_index_def)
qed

lemma last_index_Some:
  assumes "last_index c s = Some i"
  shows "i < length s" "s = take i s @ c # drop (i + 1) s"
proof -
  from assms have c: "c \<in> set (rev s)" by (simp add: last_index_def split: if_splits)
  then obtain us vs where split: "rev s = us @ c # vs" "c \<notin> set us" by (meson split_list_first)
  then have s: "s = rev vs @ c # rev us" by (metis append.assoc append_Cons append_Nil rev.simps(2) rev_append rev_rev_ident)
  with last_index_last [of c "rev us" "rev vs"] split assms have "i = length vs" by simp
  with s show "i < length s" "s = take i s @ c # drop (i + 1) s" by auto
qed

lemma family_names:
  shows "prefix ''nvme'' (d @ nat_text n) \<longleftrightarrow> prefix ''nvme'' d"
    "prefix ''mmcblk'' (d @ nat_text n) \<longleftrightarrow> prefix ''mmcblk'' d"
proof -
  have family: "prefix f (d @ nat_text n) \<longleftrightarrow> prefix f d" if "list_all (\<lambda>c. \<not> digit_char c) f" for f
  proof
    assume "prefix f (d @ nat_text n)"
    then consider "prefix f d" | us where "f = d @ us" "prefix us (nat_text n)" by (auto simp: prefix_append)
    then show "prefix f d"
    proof cases
      case (2 us)
      then have "list_all digit_char us" using nat_text_digits [of n] by (auto simp: prefix_def)
      with 2 that show ?thesis by (cases us) auto
    qed
  qed (simp add: prefix_append)
  show "prefix ''nvme'' (d @ nat_text n) \<longleftrightarrow> prefix ''nvme'' d"
    "prefix ''mmcblk'' (d @ nat_text n) \<longleftrightarrow> prefix ''mmcblk'' d"
    by (intro family; simp add: digit_char_def byte_def)+
qed

text \<open>A disk has no parent, and the parent of its partitions is the disk.\<close>

lemma disk_has_no_parent:
  assumes "recognized_disk d"
  shows "partitionParent d = []"
proof -
  consider a b where "d = ''nvme'' @ nat_text a @ ''n'' @ nat_text b" | a where "d = ''mmcblk'' @ nat_text a"
    | "3 \<le> length d" "\<not> digit_char (last d)" "\<not> prefix ''nvme'' d" "\<not> prefix ''mmcblk'' d"
    using assms unfolding recognized_disk_def by blast
  then show ?thesis
  proof cases
    case 3
    then have "dropWhile digit_char (rev d) = rev d" by (cases "rev d") (auto simp: hd_rev [symmetric] last_conv_nth)
    with 3 show ?thesis by (simp add: partitionParent_def)
  qed (use digits_free [OF nat_text_digits disk_letters(1)] in \<open>auto simp: partitionParent_def last_index_def\<close>)
qed

lemma partition_has_parent:
  assumes "recognized_disk d"
  shows "partitionParent (partition_name d n) = d"
proof -
  have p: "CHR ''p'' \<notin> set (nat_text m)" for m using digits_free [OF nat_text_digits disk_letters(1)] .
  consider a b where "d = ''nvme'' @ nat_text a @ ''n'' @ nat_text b" | a where "d = ''mmcblk'' @ nat_text a"
    | "3 \<le> length d" "\<not> digit_char (last d)" "\<not> prefix ''nvme'' d" "\<not> prefix ''mmcblk'' d"
    using assms unfolding recognized_disk_def by blast
  then show ?thesis
  proof cases
    case 1
    have "last_index (CHR ''p'') (d @ CHR ''p'' # nat_text n) = Some (length d)" using last_index_last [OF p] .
    moreover have "digit_char (last d)" using 1 last_nat_text [of "''nvme'' @ nat_text a @ ''n''" b] by simp
    ultimately show ?thesis using 1 by (simp add: partition_name_def partitionParent_def nat_text_not_Nil)
  next
    case 2
    have "last_index (CHR ''p'') (d @ CHR ''p'' # nat_text n) = Some (length d)" using last_index_last [OF p] .
    moreover have "digit_char (last d)" using 2 last_nat_text [of "''mmcblk''" a] by simp
    ultimately show ?thesis using 2 by (simp add: partition_name_def partitionParent_def nat_text_not_Nil)
  next
    case 3
    obtain e c where d: "d = e @ [c]" using 3(1) by (cases d rule: rev_cases) auto
    then have "dropWhile digit_char (rev (nat_text n) @ rev d) = rev d"
      using 3 nat_text_digits [of n] by (subst dropWhile_append2) (auto simp: list_all_iff)
    moreover have "\<not> prefix ''nvme'' (d @ nat_text n)" "\<not> prefix ''mmcblk'' (d @ nat_text n)"
      using 3 by (simp_all add: family_names)
    ultimately show ?thesis using 3 by (simp add: partition_name_def partitionParent_def nat_text_not_Nil)
  qed
qed

lemma parent_of:
  assumes "partitionParent s \<noteq> []"
  shows "\<exists>n. allDigits n \<and> (s = partitionParent s @ n \<or> s = partitionParent s @ ''p'' @ n)"
proof (cases "prefix ''nvme'' s \<or> prefix ''mmcblk'' s")
  case True
  with assms obtain i where "last_index (CHR ''p'') s = Some i" "partitionParent s = take i s" "allDigits (drop (i + 1) s)"
    by (auto simp: partitionParent_def split: option.splits if_splits)
  with last_index_Some(2) show ?thesis by fastforce
next
  case False
  define stem where "stem = rev (dropWhile digit_char (rev s))"
  define k where "k = rev (takeWhile digit_char (rev s))"
  have s: "s = stem @ k" unfolding stem_def k_def rev_append [symmetric] by simp
  have "list_all digit_char k" by (auto simp: k_def list_all_iff dest: set_takeWhileD)
  moreover have parent: "partitionParent s = stem" "length stem < length s"
    using False assms by (auto simp: partitionParent_def stem_def Let_def split: if_splits)
  moreover from parent(2) s have "k \<noteq> []" by auto
  ultimately have "allDigits k" "s = partitionParent s @ k" using s by (simp_all add: allDigits_def)
  then show ?thesis by blast
qed

lemma kept_device:
  "s \<in> set (FilterDiskDevices stats exclude) \<longleftrightarrow> s \<in> set stats \<and> \<not> matchesAny (dk_Device s) exclude \<and>
     (partitionParent (dk_Device s) = [] \<or> partitionParent (dk_Device s) \<notin> whole_devices stats exclude)"
  by (auto simp: FilterDiskDevices_def)

lemma whole_device:
  "d \<in> whole_devices stats exclude \<longleftrightarrow>
     (\<exists>p \<in> set stats. dk_Device p = d \<and> \<not> matchesAny d exclude \<and> partitionParent d = [])"
  by (auto simp: whole_devices_def)

lemma whole_device_kept:
  "d \<in> whole_devices stats exclude \<Longrightarrow> \<exists>p \<in> set (FilterDiskDevices stats exclude). dk_Device p = d"
  unfolding whole_device by (metis kept_device)

text \<open>
  C38: Of the disk devices that were read, the ones kept for counting are none that is excluded; every
  recognized disk that is read and not excluded is kept, and none of its partitions is kept beside it, so
  that its transfers are counted once; and a device that is left out without being excluded is a
  partition, by its name, of a device that is kept. Recognized are the disks of the NVMe and MMC drivers
  and those of at least three characters whose names do not end in a digit.
\<close>

theorem partitions_counted_once:
  assumes "recognized_disk d"
  shows "let kept = set (FilterDiskDevices stats exclude); wanted = {s \<in> set stats. \<not> matchesAny (dk_Device s) exclude} in
    kept \<subseteq> wanted \<and>
    {s \<in> wanted. dk_Device s = d} \<subseteq> kept \<and>
    \<not> {d, partition_name d n} \<subseteq> dk_Device ` kept \<and>
    (\<forall>s \<in> wanted - kept. \<exists>p \<in> kept. \<exists>k. allDigits k \<and>
       (dk_Device s = dk_Device p @ k \<or> dk_Device s = dk_Device p @ ''p'' @ k))"
proof -
  let ?kept = "set (FilterDiskDevices stats exclude)" and ?wanted = "{s \<in> set stats. \<not> matchesAny (dk_Device s) exclude}"
  note d = disk_has_no_parent [OF assms] partition_has_parent [OF assms, of n]
  have "?kept \<subseteq> ?wanted" by (auto simp: kept_device)
  moreover have "{s \<in> ?wanted. dk_Device s = d} \<subseteq> ?kept" using d by (auto simp: kept_device)
  moreover have "\<not> {d, partition_name d n} \<subseteq> dk_Device ` ?kept"
  proof
    assume "{d, partition_name d n} \<subseteq> dk_Device ` ?kept"
    then obtain s p where s: "s \<in> ?kept" "dk_Device s = d" and p: "p \<in> ?kept" "dk_Device p = partition_name d n"
      by (auto simp: image_iff)
    from s d have "d \<in> whole_devices stats exclude" by (auto simp: kept_device whole_device)
    with p d have "d = []" by (simp add: kept_device)
    with assms show False by (auto simp: recognized_disk_def)
  qed
  moreover have "\<exists>p \<in> ?kept. \<exists>k. allDigits k \<and> (dk_Device s = dk_Device p @ k \<or> dk_Device s = dk_Device p @ ''p'' @ k)"
    if "s \<in> ?wanted - ?kept" for s
  proof -
    from that have "partitionParent (dk_Device s) \<noteq> []" "partitionParent (dk_Device s) \<in> whole_devices stats exclude"
      by (auto simp: kept_device)
    with parent_of whole_device_kept show ?thesis by metis
  qed
  ultimately show ?thesis unfolding Let_def by blast
qed

definition example_disks :: "DiskStat list" where
  "example_disks = map (\<lambda>d. \<lparr>dk_Device = d, dk_Reads = 1, dk_SectorsRead = 8, dk_ReadMilliseconds = 1, dk_Writes = 0, dk_SectorsWritten = 0,
     dk_WriteMilliseconds = 0, dk_IOInProgress = 0, dk_IOMilliseconds = 1, dk_WeightedMilliseconds = 1\<rparr>) [''sda'', ''sda1'', ''nvme0n1'', ''nvme0n1p2'']"

theorem partitions_counted_once_witness:
  "\<not> {''sda'', ''sda1''} \<subseteq> dk_Device ` set (FilterDiskDevices example_disks [])"
proof -
  have "recognized_disk ''sda''" by (simp add: recognized_disk_def digit_char_def byte_def)
  moreover have "partition_name ''sda'' 1 = ''sda1''" by code_simp
  ultimately show ?thesis using partitions_counted_once [of "''sda''" example_disks "[]" 1] by (simp add: Let_def)
qed

text \<open>
  The kernel's software arrays, and every other disk whose own name is two characters and a number, are
  not recognized: such a disk and its partitions are all kept, and its transfers are counted twice.
\<close>

lemma numbered_disk_counted_twice:
  assumes "{s, p} \<subseteq> set stats" "dk_Device s = ''md'' @ nat_text a" "dk_Device p = partition_name (''md'' @ nat_text a) n"
    and "\<not> matchesAny (dk_Device s) exclude" "\<not> matchesAny (dk_Device p) exclude"
    and "''md'' @ nat_text a @ ''p'' \<notin> dk_Device ` set stats"
  shows "{s, p} \<subseteq> set (FilterDiskDevices stats exclude)"
proof -
  have "dropWhile digit_char (rev (''md'' @ nat_text a)) = rev ''md''"
    using nat_text_digits [of a] by (subst rev_append, subst dropWhile_append2) (auto simp: list_all_iff digit_char_def byte_def)
  then have "partitionParent (dk_Device s) = []" using assms(2) by (simp add: partitionParent_def)
  moreover have "dropWhile digit_char (rev (''md'' @ nat_text a @ ''p'' @ nat_text n)) = rev (''md'' @ nat_text a @ ''p'')"
    using nat_text_digits [of n] disk_letters by (simp, subst dropWhile_append2) (auto simp: list_all_iff)
  then have "partitionParent (dk_Device p) = ''md'' @ nat_text a @ ''p''"
    using assms(3) last_nat_text [of "''md''" a] by (simp add: partition_name_def partitionParent_def nat_text_not_Nil)
  then have "partitionParent (dk_Device p) \<notin> whole_devices stats exclude"
    using assms(6) unfolding whole_device by (auto simp: image_iff)
  ultimately show ?thesis using assms by (auto simp: kept_device)
qed

end
