(* ===== verification/Resource_Bounds.thy ===== *)
theory Resource_Bounds
  imports Resource_Laws
begin

text \<open>
  The ratios of the processor collector lie between zero and one as long as no counter fell and no
  sum wrapped; a fallen idle counter, which the collector does not check, takes the used ratio above one.
\<close>

definition unit_value :: "float64 \<Rightarrow> bool" where
  "unit_value x \<longleftrightarrow> (case x of Fin r \<Rightarrow> 0 \<le> r \<and> r \<le> 1 | _ \<Rightarrow> False)"

lemma ratio_unit: "n \<le> d \<Longrightarrow> d < 2 ^ 64 \<Longrightarrow> unit_value (ratio n d)"
  using ratio_of_counters [of n d] by (auto simp: unit_value_def ratio_def)

text \<open>No counter of the processor fell and the sum of the counters is a \<open>uint64\<close>.\<close>

definition grown :: "CPUStat \<Rightarrow> CPUStat \<Rightarrow> bool" where
  "grown p s \<longleftrightarrow> cp_User p \<le> cp_User s \<and> cp_Nice p \<le> cp_Nice s \<and> cp_System p \<le> cp_System s \<and> cp_Idle p \<le> cp_Idle s \<and>
     cp_IOWait p \<le> cp_IOWait s \<and> cp_IRQ p \<le> cp_IRQ s \<and> cp_SoftIRQ p \<le> cp_SoftIRQ s \<and> cp_Steal p \<le> cp_Steal s \<and>
     cp_User s + cp_Nice s + cp_System s + cp_Idle s + cp_IOWait s + cp_IRQ s + cp_SoftIRQ s + cp_Steal s < 2 ^ 64"

lemma Total_exact:
  "cp_User s + cp_Nice s + cp_System s + cp_Idle s + cp_IOWait s + cp_IRQ s + cp_SoftIRQ s + cp_Steal s < 2 ^ 64 \<Longrightarrow>
   Total s = cp_User s + cp_Nice s + cp_System s + cp_Idle s + cp_IOWait s + cp_IRQ s + cp_SoftIRQ s + cp_Steal s \<and>
   Busy s = cp_User s + cp_Nice s + cp_System s + cp_IRQ s + cp_SoftIRQ s + cp_Steal s"
  by (simp add: Total_def Busy_def wrap_u64_def)

lemma grown_deltas:
  assumes "grown p s"
  defines "td \<equiv> cd_Delta (CalculateCounterDelta (Total p) (Total s) True)"
  shows "cd_Delta (CalculateCounterDelta (Busy p) (Busy s) True) \<le> td"
    and "cd_Delta (CalculateCounterDelta (cp_IOWait p) (cp_IOWait s) True) \<le> td"
    and "cd_Delta (CalculateCounterDelta (cp_Steal p) (cp_Steal s) True) \<le> td"
    and "td < 2 ^ 64"
proof -
  have small: "cp_User p + cp_Nice p + cp_System p + cp_Idle p + cp_IOWait p + cp_IRQ p + cp_SoftIRQ p + cp_Steal p < 2 ^ 64"
    using assms(1) unfolding grown_def by linarith
  have big: "cp_User s + cp_Nice s + cp_System s + cp_Idle s + cp_IOWait s + cp_IRQ s + cp_SoftIRQ s + cp_Steal s < 2 ^ 64"
    using assms(1) unfolding grown_def by linarith
  show "cd_Delta (CalculateCounterDelta (Busy p) (Busy s) True) \<le> td"
    "cd_Delta (CalculateCounterDelta (cp_IOWait p) (cp_IOWait s) True) \<le> td"
    "cd_Delta (CalculateCounterDelta (cp_Steal p) (cp_Steal s) True) \<le> td" "td < 2 ^ 64"
    using assms(1) big unfolding td_def grown_def CalculateCounterDelta_def 
    by (simp_all add: Total_exact [OF small] Total_exact [OF big]) linarith+
qed

lemma must_metrics_set:
  "must_metrics ms rows ts = Inr ms1 \<Longrightarrow> m \<in> set ms1 \<Longrightarrow>
     m \<in> set ms \<or> (\<exists>r \<in> set rows. m_Value m = row_value r \<and> m_Unit m = row_unit r \<and> m_Name m = row_name r)"
proof (induction ms rows ts arbitrary: ms1 rule: must_metrics.induct)
  case (2 ms r rs ts)
  then obtain ms2 where ms2: "mustMetric ms r ts = Inr ms2" "must_metrics ms2 rs ts = Inr ms1" by (auto split: sum.splits)
  then obtain x where "NewMetric (row_name r) (row_value r) (row_kind r) (row_unit r) (row_labels r) ts = Inr x" "ms2 = ms @ [x]"
    by (auto simp: mustMetric_def split: sum.splits)
  moreover then have "m_Value x = row_value r \<and> m_Unit x = row_unit r \<and> m_Name x = row_name r"
    by (auto simp: NewMetric_def split: if_splits sum.splits)
  ultimately show ?case using "2.IH" [OF ms2 "2.prems"(2)] by auto
qed simp

lemma cpu_deltas_unit:
  assumes "cpu_deltas previous ts stats ms cls = Inr (ms1, cls1)"
    "\<forall>s \<in> set stats. \<forall>p. map_get zero_cpu (cst_Stats previous) (cp_Name s) = (p, True) \<longrightarrow> grown p s"
    "\<forall>m \<in> set ms. m_Unit m = ''ratio'' \<longrightarrow> unit_value (m_Value m)"
  shows "\<forall>m \<in> set ms1. m_Unit m = ''ratio'' \<longrightarrow> unit_value (m_Value m)"
  using assms
proof (induction stats arbitrary: ms cls)
  case (Cons s stats)
  have tail: "\<forall>s \<in> set stats. \<forall>p. map_get zero_cpu (cst_Stats previous) (cp_Name s) = (p, True) \<longrightarrow> grown p s"
    using Cons.prems(2) by simp
  obtain p found where p: "map_get zero_cpu (cst_Stats previous) (cp_Name s) = (p, found)" by fastforce
  show ?case
  proof (cases "found")
    case False
    with Cons.prems(1) p have "cpu_deltas previous ts stats ms cls = Inr (ms1, cls1)" by simp
    from Cons.IH [OF this tail Cons.prems(3)] show ?thesis .
  next
    case True
    define t where "t = CalculateCounterDelta (Total p) (Total s) True"
    define b where "b = CalculateCounterDelta (Busy p) (Busy s) True"
    define i where "i = CalculateCounterDelta (cp_IOWait p) (cp_IOWait s) True"
    define l where "l = CalculateCounterDelta (cp_Steal p) (cp_Steal s) True"
    let ?rows = "cpu_rows s (cd_Delta t) (cd_Delta b) (cd_Delta i) (cd_Delta l)"
    have "grown p s" using Cons.prems(2) p True by simp
    then have rows: "\<forall>r \<in> set ?rows. unit_value (row_value r)"
      using grown_deltas unfolding t_def b_def i_def l_def by (simp add: cpu_rows_def gauge_def Let_def ratio_unit)
    have step: "cpu_deltas previous ts (s # stats) ms cls =
      (if cd_Reset t \<or> cd_Reset b \<or> cd_Reset i \<or> cd_Reset l then cpu_deltas previous ts stats ms ErrorCounterReset
       else if \<not> cd_Valid t \<or> cd_Delta t = 0 then cpu_deltas previous ts stats ms cls
       else (case must_metrics ms ?rows ts of Inl e \<Rightarrow> Inl e | Inr ms2 \<Rightarrow> cpu_deltas previous ts stats ms2 cls))"
      by (simp add: p True Let_def t_def b_def i_def l_def)
    from step Cons.prems(1) consider
        (skipped) cls2 where "cpu_deltas previous ts stats ms cls2 = Inr (ms1, cls1)"
      | (counted) ms2 where "must_metrics ms ?rows ts = Inr ms2" "cpu_deltas previous ts stats ms2 cls = Inr (ms1, cls1)"
      by (simp split: if_splits sum.splits)
    then show ?thesis
    proof cases
      case skipped
      from Cons.IH [OF this tail Cons.prems(3)] show ?thesis .
    next
      case counted
      have "\<forall>m \<in> set ms2. m_Unit m = ''ratio'' \<longrightarrow> unit_value (m_Value m)"
        using must_metrics_set [OF counted(1)] rows Cons.prems(3) by metis
      from Cons.IH [OF counted(2) tail this] show ?thesis .
    qed
  qed
qed simp

lemma cpu_count_metric:
  "must_metrics [] [gauge [] ''pooly_cpu_count'' x ''count''] ts = Inr ms \<Longrightarrow> m \<in> set ms \<Longrightarrow> m_Unit m \<noteq> ''ratio''"
  using must_metrics_set [of "[]" "[gauge [] ''pooly_cpu_count'' x ''count'']" ts ms m] by (auto simp: gauge_def)

lemma CollectCPU_run:
  assumes "quiet w" "src_ReadFile (source_of opts) ''/proc/stat'' = ok body" "ParseProcStatCPU body = Inr stats"
    "loadState zero_cpu_state (decode_struct cpu_state_fields) (op_State opts) ''cpu'' ''all'' w = (Inr (previous, found), w2)"
    "must_metrics [] [gauge [] ''pooly_cpu_count'' (fl_of_nat (CPUCount stats)) ''count''] (wall w) = Inr ms"
  shows "CollectCPU opts w = (case (if found then cpu_deltas previous (wall w) stats ms ErrorNone else Inr (ms, ErrorNone)) of
      Inl e \<Rightarrow> failureObservation ''cpu'' ''all'' (wall w) ErrorInternal (error_text e) w2
    | Inr (metrics, cls) \<Rightarrow>
        attempt (saveState (op_State opts) (op_Persist opts) ''cpu'' ''all'' (cpu_state_tree (cpu_state stats)))
          (\<lambda>_. failureObservation ''cpu'' ''all'' (wall w) ErrorState ''save cpu baseline failed'')
          (\<lambda>_. cpu_observation (wall w) metrics cls (if found then ''cpu deltas collected'' else ''baseline recorded'')) w2)"
  using assms(1) unfolding CollectCPU_def assms(2) attempt_def [of "loadState _ _ _ _ _"]
  by (cases found) (simp_all add: Let_def assms(3-5) del: must_metrics.simps split: sum.split)

lemma cpu_count_row: "\<exists>x. must_metrics [] [gauge [] ''pooly_cpu_count'' v ''count''] ts = Inr [x]"
proof -
  have "metric_name ''pooly_cpu_count''" by code_simp
  then show ?thesis by (simp add: gauge_def mustMetric_def NewMetric_def)
qed

text \<open>
  C39: When the kernel's file is read and parsed and no counter of a processor fell since the baseline,
  every ratio the processor collector reports (used, waiting for I/O, stolen) lies between zero and
  one; in particular no rounding of the counters or of the quotient takes it out of the range.
\<close>

theorem cpu_ratios_bounded:
  assumes "quiet w" "src_ReadFile (source_of opts) ''/proc/stat'' = ok body" "ParseProcStatCPU body = Inr stats"
    and "loadState zero_cpu_state (decode_struct cpu_state_fields) (op_State opts) ''cpu'' ''all'' w = (Inr (previous, found), w2)"
    and "\<forall>s \<in> set stats. \<forall>p. map_get zero_cpu (cst_Stats previous) (cp_Name s) = (p, True) \<longrightarrow> grown p s"
    and "m \<in> set (ob_Metrics (fst (CollectCPU opts w)))" "m_Unit m = ''ratio''"
  shows "\<exists>r. m_Value m = Fin r \<and> 0 \<le> r \<and> r \<le> 1"
proof -
  obtain x where ms: "must_metrics [] [gauge [] ''pooly_cpu_count'' (fl_of_nat (CPUCount stats)) ''count''] (wall w) = Inr [x]"
    using cpu_count_row by blast
  define r where "r = (if found then cpu_deltas previous (wall w) stats [x] ErrorNone else Inr ([x], ErrorNone))"
  note run = CollectCPU_run [OF assms(1-4) ms, folded r_def]
  from assms(6) run obtain metrics cls where r: "r = Inr (metrics, cls)" "m \<in> set metrics"
    by (auto simp: failureObservation_def attempt_def cpu_observation_def successObservation_def
        split: sum.splits prod.splits if_splits)
  have count: "\<forall>m \<in> set [x]. m_Unit m = ''ratio'' \<longrightarrow> unit_value (m_Value m)"
    using cpu_count_metric [OF ms] by blast
  have "unit_value (m_Value m)"
  proof (cases found)
    case True
    with r have "cpu_deltas previous (wall w) stats [x] ErrorNone = Inr (metrics, cls)" by (simp add: r_def)
    from cpu_deltas_unit [OF this assms(5) count] r(2) assms(7) show ?thesis by simp
  next
    case False
    with r count assms(7) show ?thesis by (simp add: r_def)
  qed
  then show ?thesis by (cases "m_Value m") (simp_all add: unit_value_def)
qed

definition idle_cpu :: CPUStat where
  "idle_cpu = zero_cpu\<lparr>cp_Name := ''cpu''\<rparr>"

definition busy_cpu :: CPUStat where
  "busy_cpu = idle_cpu\<lparr>cp_User := 1, cp_Idle := 3\<rparr>"

definition cpu_example_options :: "memory_store Options" where
  "cpu_example_options =
     (DefaultOptions (MapFileSource (Some [''/proc/stat'' \<mapsto> ''cpu 1 0 0 3 0 0 0'']) None))\<lparr>op_State := Some memory_state_store\<rparr>"

definition cpu_example_world :: "memory_store world" where
  "cpu_example_world =
     \<lparr>data = \<lparr>mem_data = [stateKey ''cpu'' ''all'' \<mapsto> print_tree (cpu_state_tree (cpu_state [idle_cpu]))], mem_fail = False\<rparr>,
      script = [], wall = 5\<rparr>"

lemma small_numbers: "ParseUint ''0'' = Inr 0" "ParseUint ''1'' = Inr 1" "ParseUint ''3'' = Inr 3"
proof -
  have "nat_text 0 = ''0''" "nat_text 1 = ''1''" "nat_text 3 = ''3''" by code_simp+
  with ParseUint_nat_text [of 0] ParseUint_nat_text [of 1] ParseUint_nat_text [of 3]
  show "ParseUint ''0'' = Inr 0" "ParseUint ''1'' = Inr 1" "ParseUint ''3'' = Inr 3" by simp_all
qed

lemma cpu_example_parsed: "ParseProcStatCPU ''cpu 1 0 0 3 0 0 0'' = Inr [busy_cpu]"
proof -
  have "lines_of ''cpu 1 0 0 3 0 0 0'' = [''cpu 1 0 0 3 0 0 0'']"
    "Fields ''cpu 1 0 0 3 0 0 0'' = [''cpu'', ''1'', ''0'', ''0'', ''3'', ''0'', ''0'', ''0'']" by code_simp+
  then show ?thesis
    by (simp add: ParseProcStatCPU_def cpu_line_def bind_sum_def small_numbers value_at_def busy_cpu_def idle_cpu_def zero_cpu_def)
qed

lemma cpu_names: "list_all valid_text [''cpu'', ''stats'', ''name'', ''user'', ''nice'', ''system'', ''idle'', ''iowait'', ''irq'',
    ''softirq'', ''steal'', ''guest'', ''guest_nice'']"
  by code_simp

lemma cpu_example_state:
  "Unmarshal (decode_struct cpu_state_fields) (print_tree (cpu_state_tree (cpu_state [idle_cpu]))) zero_cpu_state =
     Some (cpu_state [idle_cpu])"
proof -
  have numbers: "uint_tree n = T_Number (Itoa (int n))" for n by (simp add: uint_tree_def Itoa_def)
  have "printable 3 (cpu_state_tree (cpu_state [idle_cpu]))"
    using cpu_names by (simp add: cpu_state_tree_def cpu_state_def map_json_def map_tree_def cpu_tree_def numbers idle_cpu_def zero_cpu_def
        numeral_3_eq_3) blast
  then have "parse_json (print_tree (cpu_state_tree (cpu_state [idle_cpu]))) = Some (cpu_state_tree (cpu_state [idle_cpu]))"
    by (rule parse_print) (simp add: max_depth_def)
  moreover have "decode_uint64 (uint_tree 0) n = Some 0" for n
    by (simp add: decode_uint64_def uint_tree_def ParseUint_nat_text)
  ultimately show ?thesis
    by (simp add: Unmarshal_def cpu_state_tree_def cpu_state_def map_json_def map_tree_def decode_struct_def cpu_state_fields_def
        field_def field_for_def decode_map_def cpu_tree_def idle_cpu_def zero_cpu_def zero_cpu_state_def cpu_fields_def decode_string_def)
qed

lemma cpu_example_load:
  "loadState zero_cpu_state (decode_struct cpu_state_fields) (op_State cpu_example_options) ''cpu'' ''all'' cpu_example_world =
     (Inr (cpu_state [idle_cpu], True), cpu_example_world)"
  using cpu_example_state
  by (simp add: loadState_def cpu_example_options_def memory_state_store_def memory_get_def cpu_example_world_def andThen_def
      ctx_err_def external_def)

lemma cpu_example_source: "src_ReadFile (source_of cpu_example_options) ''/proc/stat'' = ok ''cpu 1 0 0 3 0 0 0''"
proof -
  have "cleanSourcePath ''/proc/stat'' = ''/proc/stat''" by code_simp
  then show ?thesis by (simp add: cpu_example_options_def source_of_def MapFileSource_def DefaultOptions_def)
qed

lemma cpu_example_deltas:
  "map_get zero_cpu (cst_Stats (cpu_state [idle_cpu])) (cp_Name busy_cpu) = (idle_cpu, True)"
  "Total idle_cpu = 0" "Busy idle_cpu = 0" "Total busy_cpu = 4" "Busy busy_cpu = 1"
  by (simp_all add: map_get_def cpu_state_def Total_def Busy_def wrap_u64_def busy_cpu_def idle_cpu_def zero_cpu_def)

lemma cpu_example_metric:
  "\<exists>m \<in> set (ob_Metrics (fst (CollectCPU cpu_example_options cpu_example_world))). m_Unit m = ''ratio''"
proof -
  have names: "metric_name ''pooly_cpu_count''" "metric_name ''pooly_cpu_used_ratio''" "metric_name ''pooly_cpu_iowait_ratio''"
    "metric_name ''pooly_cpu_steal_ratio''" by code_simp+
  have quiet: "quiet cpu_example_world" by (simp add: cpu_example_world_def quiet_def)
  have state: "op_State cpu_example_options = Some memory_state_store" "\<not> op_Persist cpu_example_options" "cp_Name busy_cpu = ''cpu''"
    "cp_IOWait busy_cpu = 0" "cp_IOWait idle_cpu = 0" "cp_Steal busy_cpu = 0" "cp_Steal idle_cpu = 0"
    by (simp_all add: cpu_example_options_def DefaultOptions_def busy_cpu_def idle_cpu_def zero_cpu_def)
  obtain x where x: "must_metrics [] [gauge [] ''pooly_cpu_count'' (fl_of_nat (CPUCount [busy_cpu])) ''count''] (wall cpu_example_world)
      = Inr [x]" using cpu_count_row by blast
  show ?thesis
    unfolding CollectCPU_run [OF quiet cpu_example_source cpu_example_parsed cpu_example_load x]
    by (simp add: Let_def mustMetric_def NewMetric_def gauge_def names cpu_example_deltas cpu_example_deltas(1) [unfolded state(3)] state
        CalculateCounterDelta_def cpu_rows_def saveState_def cpu_observation_def successObservation_def ErrorNone_def
        ErrorCounterReset_def allowedLabels_def contains_any_def)
qed

theorem cpu_ratios_bounded_witness:
  "\<exists>m \<in> set (ob_Metrics (fst (CollectCPU cpu_example_options cpu_example_world))).
     m_Unit m = ''ratio'' \<and> (\<exists>r. m_Value m = Fin r \<and> 0 \<le> r \<and> r \<le> 1)"
proof -
  have quiet: "quiet cpu_example_world" by (simp add: cpu_example_world_def quiet_def)
  have "grown idle_cpu busy_cpu" by (simp add: grown_def busy_cpu_def idle_cpu_def zero_cpu_def)
  then have up: "\<forall>s \<in> set [busy_cpu]. \<forall>p. map_get zero_cpu (cst_Stats (cpu_state [idle_cpu])) (cp_Name s) = (p, True) \<longrightarrow> grown p s"
    by (simp add: cpu_example_deltas)
  obtain m where m: "m \<in> set (ob_Metrics (fst (CollectCPU cpu_example_options cpu_example_world)))" "m_Unit m = ''ratio''"
    using cpu_example_metric by blast
  with cpu_ratios_bounded [OF quiet cpu_example_source cpu_example_parsed cpu_example_load up m] show ?thesis by blast
qed

text \<open>
  Only a fall of the total, the busy time, the wait and the stolen time is taken for a reset: when the
  idle counter falls while the others grow, the used ratio that is reported is above one.
\<close>

lemma idle_fall_overshoots:
  defines "p \<equiv> zero_cpu\<lparr>cp_Name := ''cpu'', cp_Idle := 100\<rparr>" and "s \<equiv> zero_cpu\<lparr>cp_Name := ''cpu'', cp_Idle := 36, cp_User := 128\<rparr>"
  shows "\<exists>ms m. cpu_deltas (cpu_state [p]) 5 [s] [] ErrorNone = Inr (ms, ErrorNone) \<and> m \<in> set ms \<and>
    m_Name m = ''pooly_cpu_used_ratio'' \<and> m_Value m = Fin 2"
proof -
  have power: "fl_of_nat (2 ^ k) = Fin (two_to (int k))" if "k \<le> 63" for k
  proof -
    have "rounded (two_to (int k)) = two_to (int k)" using that by (intro rounded_power) simp_all
    moreover have "two_to (int k) < 2 ^ 1024"
    proof -
      have "two_to (int k) < two_to 1024" unfolding two_to_powi using that by (intro power_int_strict_increasing) simp_all
      then show ?thesis by (simp add: two_to_def)
    qed
    moreover have "(of_nat (2 ^ k) :: rat) = two_to (int k)" by (simp add: two_to_def)
    ultimately show ?thesis using two_to_pos [of "int k"]
      by (simp add: fl_of_nat_def round64_def round_positive_rounded)
  qed
  have "round64 2 = Fin 2"
    using rounded_power [of 1] by (simp add: round64_def round_positive_rounded two_to_def)
  then have two: "ratio 128 64 = Fin 2"
    using power [of 7] power [of 6]
    by (simp add: ratio_def fl_div_def Let_def two_to_def fl_negative_def fl_signed_def finite_value_def)
  have names: "metric_name ''pooly_cpu_used_ratio''" "metric_name ''pooly_cpu_iowait_ratio''"
    "metric_name ''pooly_cpu_steal_ratio''" by code_simp+
  have "Total p = 100" "Busy p = 0" "Total s = 164" "Busy s = 128"
    by (simp_all add: Total_def Busy_def wrap_u64_def p_def s_def zero_cpu_def)
  then show ?thesis
    by (simp add: p_def s_def cpu_state_def map_get_def zero_cpu_def CalculateCounterDelta_def Let_def cpu_rows_def gauge_def
        mustMetric_def NewMetric_def names two allowedLabels_def contains_any_def) (intro exI conjI, rule disjI1, rule refl, simp_all)
qed

end
