(* ===== verification/Command.thy ===== *)
theory Command
  imports Go_Runtime Go_Path
begin

text \<open>
  Running a program (\<open>internal/command\<close>): which specifications are accepted, how the executable is
  found, how its two output streams are read into buffers of a bounded size, and how the way it
  ended becomes a result and an error. What the system does is a \<open>Host\<close>: it finds files, and
  executing a program yields an outcome, the chunks each stream delivered, how reading it ended,
  what \<open>Wait\<close> returned, the exit code and the state of the contexts at the end.
\<close>

subsection \<open>Specifications and results\<close>

definition CommandNone :: string where "CommandNone = []"
definition CommandValidation :: string where "CommandValidation = ''validation''"
definition CommandMissingExecutable :: string where "CommandMissingExecutable = ''missing_executable''"
definition CommandStartFailed :: string where "CommandStartFailed = ''start_failed''"
definition CommandNonZeroExit :: string where "CommandNonZeroExit = ''non_zero_exit''"
definition CommandTimeout :: string where "CommandTimeout = ''timeout''"
definition CommandCanceled :: string where "CommandCanceled = ''canceled''"
definition CommandOutputLimit :: string where "CommandOutputLimit = ''output_limit''"

lemmas command_classes =
  CommandNone_def CommandValidation_def CommandMissingExecutable_def CommandStartFailed_def
  CommandNonZeroExit_def CommandTimeout_def CommandCanceled_def CommandOutputLimit_def

record CommandSpec =
  cs_Path :: string
  cs_Args :: "string list"
  cs_Timeout :: duration
  cs_MaxStdout :: int
  cs_MaxStderr :: int
  cs_RedactOutput :: bool

record CommandResult =
  cr_Path :: string
  cr_Args :: "string list"
  cr_Stdout :: string
  cr_Stderr :: string
  cr_ExitCode :: int
  cr_Duration :: duration
  cr_ErrorClass :: string

definition Success :: "CommandResult \<Rightarrow> bool" where
  "Success r \<longleftrightarrow> cr_ErrorClass r = CommandNone \<and> cr_ExitCode r = 0"

definition shellNames :: "string list" where
  "shellNames = [''sh'', ''bash'', ''zsh'', ''dash'', ''fish'', ''cmd'', ''cmd.exe'', ''powershell'', ''pwsh'']"

definition shell_chars :: string where
  "shell_chars =
     [CHR 0x00, CHR 0x0A, CHR 0x0D, CHR 0x09, CHR ''|'', CHR ''&'', CHR '';'', CHR ''<'', CHR ''>'', CHR ''('', CHR '')'',
      CHR 0x7B, CHR 0x7D, CHR ''$'', CHR 0x60]"

definition ValidateSpec :: "CommandSpec \<Rightarrow> go_error option" where
  "ValidateSpec spec =
     (if cs_Path spec = [] then Some (Text_Error ''command path is required'')
      else if contains_any (cs_Path spec) shell_chars \<or> contains_sub (cs_Path spec) '' ''
      then Some (Text_Error ''command path must be a single executable path, not a shell command string'')
      else if Base (cs_Path spec) \<in> set shellNames then Some (Text_Error ''shell executables are not allowed'')
      else if cs_MaxStdout spec \<le> 0 then Some (Text_Error ''max stdout must be greater than zero'')
      else if cs_MaxStderr spec \<le> 0 then Some (Text_Error ''max stderr must be greater than zero'')
      else if cs_Timeout spec < 0 then Some (Text_Error ''timeout cannot be negative'')
      else None)"

subsection \<open>The host\<close>

text \<open>A stream as \<open>io.Copy\<close> reads it: the chunks of its reads, and the error it ends with, none at its end.\<close>

record stream =
  st_chunks :: "string list"
  st_error :: "go_error option"

record process_outcome =
  po_stdout_pipe :: "go_error option"
  po_stderr_pipe :: "go_error option"
  po_start :: "go_error option"
  po_stdout :: stream
  po_stderr :: stream
  po_stdout_first :: bool
  po_wait :: "go_error option"
  po_exit_error :: bool
  po_exit_code :: "int option"
  po_parent_err :: "go_error option"
  po_timeout_err :: "go_error option"

record 'd Host =
  ho_Stat :: "string \<Rightarrow> (unit, 'd) op"
  ho_LookPath :: "string \<Rightarrow> (string, 'd) op"
  ho_execute :: "string \<Rightarrow> CommandSpec \<Rightarrow> 'd world \<Rightarrow> process_outcome \<times> 'd world"

text \<open>\<open>os.ErrClosed\<close>: the error of reading from a file that was closed.\<close>

definition os_ErrClosed :: go_error where
  "os_ErrClosed = Text_Error ''file already closed''"

definition resolveExecutable :: "'d Host \<Rightarrow> string \<Rightarrow> (string, 'd) op" where
  "resolveExecutable host path =
     (if IsAbs path \<or> CHR ''/'' \<in> set path then andThen (ho_Stat host path) (\<lambda>_. ok path)
      else ho_LookPath host path)"

subsection \<open>Killing the process group\<close>

definition os_ErrProcessDone :: go_error where
  "os_ErrProcessDone = Text_Error ''os: process already finished''"

definition ESRCH :: go_error where
  "ESRCH = Text_Error ''no such process''"

text \<open>\<open>cmd.Process\<close> is there once the command was started; \<open>grp\<close> and \<open>own\<close> are what the two kills return.\<close>

definition terminateCommandProcessGroup :: "bool \<Rightarrow> go_error option \<Rightarrow> go_error option" where
  "terminateCommandProcessGroup started grp =
     (if \<not> started then Some os_ErrProcessDone else if grp = Some ESRCH then Some os_ErrProcessDone else grp)"

definition cancel_command :: "bool \<Rightarrow> go_error option \<Rightarrow> go_error option \<Rightarrow> go_error option" where
  "cancel_command started grp own =
     (let err = terminateCommandProcessGroup started grp
      in if (case err of None \<Rightarrow> True | Some e \<Rightarrow> errors_is e os_ErrProcessDone) then err
         else if \<not> started then Some os_ErrProcessDone else own)"

subsection \<open>Bounded output\<close>

definition errOutputLimit :: go_error where
  "errOutputLimit = Text_Error ''command output limit exceeded''"

record limitedBuffer =
  lb_buf :: string
  lb_limit :: int
  lb_exceeded :: bool

definition newLimitedBuffer :: "int \<Rightarrow> limitedBuffer" where
  "newLimitedBuffer limit = \<lparr>lb_buf = [], lb_limit = limit, lb_exceeded = False\<rparr>"

definition limited_write :: "string \<Rightarrow> limitedBuffer \<Rightarrow> (int \<times> go_error option) \<times> limitedBuffer" where
  "limited_write p b =
     (let remaining = lb_limit b - int (length (lb_buf b))
      in if remaining \<le> 0 then ((0, Some errOutputLimit), b\<lparr>lb_exceeded := True\<rparr>)
         else if int (length p) > remaining
         then ((remaining, Some errOutputLimit),
               b\<lparr>lb_buf := lb_buf b @ take (nat remaining) p, lb_exceeded := True\<rparr>)
         else ((int (length p), None), b\<lparr>lb_buf := lb_buf b @ p\<rparr>))"

text \<open>\<open>io.Copy\<close>: a read of nothing is not written, a short write is an error.\<close>

fun io_copy :: "string list \<Rightarrow> go_error option \<Rightarrow> limitedBuffer \<Rightarrow> go_error option \<times> limitedBuffer" where
  "io_copy [] end b = (end, b)"
| "io_copy (c # cs) end b =
     (if c = [] then io_copy cs end b
      else case limited_write c b of
             ((n, Some e), b1) \<Rightarrow> (Some e, b1)
           | ((n, None), b1) \<Rightarrow> if n \<noteq> int (length c) then (Some (Text_Error ''short write''), b1) else io_copy cs end b1)"

record streamCopyResult =
  sc_name :: string
  sc_err :: "go_error option"
  sc_exceeded :: bool

definition copyStream :: "string \<Rightarrow> limitedBuffer \<Rightarrow> stream \<Rightarrow> streamCopyResult \<times> limitedBuffer" where
  "copyStream name dst src =
     (case io_copy (st_chunks src) (st_error src) dst of
        (err, dst1) \<Rightarrow>
          let exceeded = (case err of Some e \<Rightarrow> errors_is e errOutputLimit | None \<Rightarrow> False) \<or> lb_exceeded dst1
          in (\<lparr>sc_name = name, sc_err = (if exceeded then None else err), sc_exceeded = exceeded\<rparr>, dst1))"

fun firstCopyError :: "go_error option list \<Rightarrow> go_error option" where
  "firstCopyError [] = None"
| "firstCopyError (None # es) = firstCopyError es"
| "firstCopyError (Some e # es) = (if errors_is e os_ErrClosed then firstCopyError es else Some e)"

subsection \<open>Running\<close>

definition commandWaitDelay :: "duration \<Rightarrow> duration" where
  "commandWaitDelay timeout = (if timeout > 0 \<and> timeout < 2 * second then timeout else 2 * second)"

definition commandError :: "CommandResult \<Rightarrow> string \<Rightarrow> int \<Rightarrow> string \<Rightarrow> go_error \<Rightarrow> go_error" where
  "commandError result cls exitCode stderr err =
     Command_Error cls (cr_Path result) exitCode stderr (Some (redacted_error err))"

definition is_error :: "go_error \<Rightarrow> go_error option \<Rightarrow> bool" where
  "is_error t err = (case err of None \<Rightarrow> False | Some e \<Rightarrow> errors_is e t)"

definition classifyWaitError :: "go_error option \<Rightarrow> go_error option \<Rightarrow> bool \<Rightarrow> string" where
  "classifyWaitError parent timeout exitErr =
     (if is_error Context_DeadlineExceeded timeout \<or> is_error Context_DeadlineExceeded parent then CommandTimeout
      else if is_error Context_Canceled parent \<or> is_error Context_Canceled timeout then CommandCanceled
      else if exitErr then CommandNonZeroExit else CommandStartFailed)"

definition classifyContextError :: "go_error \<Rightarrow> string" where
  "classifyContextError err =
     (if errors_is err Context_DeadlineExceeded then CommandTimeout
      else if errors_is err Context_Canceled then CommandCanceled else CommandStartFailed)"

text \<open>What \<open>Run\<close> makes of an outcome whose command was started: what went wrong, if anything, in order.\<close>

definition verdict :: "process_outcome \<Rightarrow> streamCopyResult \<Rightarrow> streamCopyResult \<Rightarrow> (string \<times> go_error) option" where
  "verdict po out err =
     (if sc_exceeded out \<or> sc_exceeded err then Some (CommandOutputLimit, errOutputLimit)
      else
        (case firstCopyError (if po_stdout_first po then [sc_err out, sc_err err] else [sc_err err, sc_err out]) of
           Some copyErr \<Rightarrow> Some (CommandStartFailed, copyErr)
         | None \<Rightarrow>
             (case po_wait po of
                Some waitErr \<Rightarrow>
                  Some (classifyWaitError (po_parent_err po) (po_timeout_err po) (po_exit_error po), waitErr)
              | None \<Rightarrow> map_option (\<lambda>e. (classifyContextError e, e)) (po_timeout_err po))))"

definition finish_command :: "CommandSpec \<Rightarrow> duration \<Rightarrow> CommandResult \<Rightarrow> process_outcome \<Rightarrow> CommandResult \<times> go_error option" where
  "finish_command spec elapsed result po =
     (let (out, outbuf) = copyStream ''stdout'' (newLimitedBuffer (cs_MaxStdout spec)) (po_stdout po);
          (err, errbuf) = copyStream ''stderr'' (newLimitedBuffer (cs_MaxStderr spec)) (po_stderr po);
          shown = (\<lambda>text. if cs_RedactOutput spec then Redact text else text);
          result = result\<lparr>cr_Duration := elapsed, cr_Stdout := shown (lb_buf outbuf), cr_Stderr := shown (lb_buf errbuf)\<rparr>;
          result = (case po_exit_code po of None \<Rightarrow> result | Some c \<Rightarrow> result\<lparr>cr_ExitCode := c\<rparr>)
      in case verdict po out err of
           None \<Rightarrow> (result\<lparr>cr_ErrorClass := CommandNone\<rparr>, None)
         | Some (cls, e) \<Rightarrow>
             (let result = result\<lparr>cr_ErrorClass := cls\<rparr>
              in (result, Some (commandError result cls (cr_ExitCode result) (cr_Stderr result) e))))"

definition Run :: "'d Host \<Rightarrow> ctx \<Rightarrow> CommandSpec \<Rightarrow> 'd world \<Rightarrow> (CommandResult \<times> go_error option) \<times> 'd world" where
  "Run host ctx spec w =
     (let started = wall w;
          result = \<lparr>cr_Path = cs_Path spec, cr_Args = cs_Args spec, cr_Stdout = [], cr_Stderr = [], cr_ExitCode = -1,
                    cr_Duration = 0, cr_ErrorClass = CommandNone\<rparr>;
          failed = (\<lambda>cls e w1. ((result\<lparr>cr_ErrorClass := cls\<rparr>, Some (commandError result cls 0 [] e)), w1));
          absent = (\<lambda>e. if errors_is e ErrNotExist then CommandMissingExecutable else CommandStartFailed)
      in if ctx = Nil_Context then failed CommandValidation (Text_Error ''context is nil'') w
         else
           (case ValidateSpec spec of
              Some e \<Rightarrow> failed CommandValidation e w
            | None \<Rightarrow>
                (case ctx_err w of
                   (Inl e, w1) \<Rightarrow> failed (classifyContextError e) e w1
                 | (Inr _, w1) \<Rightarrow>
                     (case resolveExecutable host (cs_Path spec) w1 of
                        (Inl e, w2) \<Rightarrow> failed (absent e) e w2
                      | (Inr path, w2) \<Rightarrow>
                          (case ho_execute host path spec w2 of
                             (po, w3) \<Rightarrow>
                               (case po_stdout_pipe po of
                                  Some e \<Rightarrow> failed CommandStartFailed e w3
                                | None \<Rightarrow>
                                    (case po_stderr_pipe po of
                                       Some e \<Rightarrow> failed CommandStartFailed e w3
                                     | None \<Rightarrow>
                                         (case po_start po of
                                            Some e \<Rightarrow> failed (absent e) e w3
                                          | None \<Rightarrow>
                                              (finish_command spec (time_sub (wall w3) started) result po, w3)))))))))"

text \<open>The runner a collector is given.\<close>

type_synonym 'd Runner = "ctx \<Rightarrow> CommandSpec \<Rightarrow> 'd world \<Rightarrow> (CommandResult \<times> go_error option) \<times> 'd world"

end
