(* ===== verification/Command_Laws.thy ===== *)
theory Command_Laws
  imports Command
begin

text \<open>
  What the callers of \<open>Run\<close> rely on: a program is started only from an accepted specification, a
  success has all the output that was read, an error tells its class and the result has the same
  one. The output is all that was read, not all that was written: a stream that was closed under
  its reader passes for one that ended.
\<close>

subsection \<open>Bounded copies\<close>

lemma io_copy_full:
  "int (length (lb_buf b) + length (concat cs)) \<le> lb_limit b \<Longrightarrow>
     io_copy cs end b = (end, b\<lparr>lb_buf := lb_buf b @ concat cs\<rparr>)"
proof (induction cs arbitrary: b)
  case (Cons c cs)
  show ?case
  proof (cases "c = []")
    case False
    then obtain n where "length c = Suc n" by (cases c) auto
    with Cons.prems have "limited_write c b = ((int (length c), None), b\<lparr>lb_buf := lb_buf b @ c\<rparr>)"
      by (auto simp: limited_write_def Let_def)
    with Cons False show ?thesis by simp
  qed (use Cons in simp)
qed simp

lemma io_copy_over:
  "int (length (lb_buf b)) \<le> lb_limit b \<Longrightarrow> int (length (lb_buf b) + length (concat cs)) > lb_limit b \<Longrightarrow>
     io_copy cs end b =
       (Some errOutputLimit, b\<lparr>lb_buf := take (nat (lb_limit b)) (lb_buf b @ concat cs), lb_exceeded := True\<rparr>)"
proof (induction cs arbitrary: b)
  case (Cons c cs)
  show ?case
  proof (cases "c = [] \<or> int (length (lb_buf b) + length c) > lb_limit b")
    case True
    show ?thesis
    proof (cases "c = []")
      case False
      with True Cons.prems have "fst (limited_write c b) = (lb_limit b - int (length (lb_buf b)), Some errOutputLimit)"
        "snd (limited_write c b) = b\<lparr>lb_buf := take (nat (lb_limit b)) (lb_buf b @ c), lb_exceeded := True\<rparr>"
        by (auto simp: limited_write_def Let_def nat_diff_distrib')
      moreover have "take (nat (lb_limit b)) (lb_buf b @ c @ concat cs) = take (nat (lb_limit b)) (lb_buf b @ c)"
        using True False by (simp add: nat_le_iff)
      ultimately show ?thesis using False by (simp add: split_beta)
    qed (use Cons in simp)
  next
    case False
    then obtain n where "length c = Suc n" by (cases c) auto
    with False have "limited_write c b = ((int (length c), None), b\<lparr>lb_buf := lb_buf b @ c\<rparr>)"
      by (auto simp: limited_write_def Let_def)
    moreover have "length c \<le> nat (lb_limit b) - length (lb_buf b)" using False by linarith
    ultimately show ?thesis using Cons False by (simp add: le_nat_iff)
  qed
qed simp

text \<open>A stream copied into a new buffer is within its limit, and then it is read in full, or it is exceeded.\<close>

lemma copyStream_cases:
  assumes "limit > 0" and "\<not> is_error errOutputLimit (st_error s)"
  shows "copyStream name (newLimitedBuffer limit) s =
     (if int (length (concat (st_chunks s))) \<le> limit
      then (\<lparr>sc_name = name, sc_err = st_error s, sc_exceeded = False\<rparr>,
            \<lparr>lb_buf = concat (st_chunks s), lb_limit = limit, lb_exceeded = False\<rparr>)
      else (\<lparr>sc_name = name, sc_err = None, sc_exceeded = True\<rparr>,
            \<lparr>lb_buf = take (nat limit) (concat (st_chunks s)), lb_limit = limit, lb_exceeded = True\<rparr>))"
  using assms io_copy_full [of "newLimitedBuffer limit" "st_chunks s" "st_error s"]
    io_copy_over [of "newLimitedBuffer limit" "st_chunks s" "st_error s"]
  by (auto simp: copyStream_def newLimitedBuffer_def is_error_def split: option.splits)



subsection \<open>The contract\<close>



lemma classify_some [simp]: "classifyWaitError p t x \<noteq> CommandNone" "classifyContextError err \<noteq> CommandNone"
  by (simp_all add: classifyWaitError_def classifyContextError_def command_classes)









subsection \<open>A reader that is closed\<close>

text \<open>
  \<open>Run\<close> waits for the process before its streams are read to the end, and waiting closes them.
  Reading from a closed stream is not taken for a failure, so a part of the output passes for all of it.
\<close>

definition example_command :: CommandSpec where
  "example_command =
     \<lparr>cs_Path = ''/bin/true'', cs_Args = [], cs_Timeout = 0, cs_MaxStdout = 8, cs_MaxStderr = 8, cs_RedactOutput = False\<rparr>"

definition example_host :: "stream \<Rightarrow> unit Host" where
  "example_host s =
     \<lparr>ho_Stat = (\<lambda>_. ok ()), ho_LookPath = (\<lambda>_. fail ErrNotExist),
      ho_execute = (\<lambda>_ _ w.
        (\<lparr>po_stdout_pipe = None, po_stderr_pipe = None, po_start = None, po_stdout = s,
          po_stderr = \<lparr>st_chunks = [], st_error = None\<rparr>, po_stdout_first = True, po_wait = None, po_exit_error = False,
          po_exit_code = Some 0, po_parent_err = None, po_timeout_err = None\<rparr>, w))\<rparr>"

definition idle_world :: "unit world" where
  "idle_world = \<lparr>data = (), script = [], wall = 0\<rparr>"

lemma example_command_valid: "ValidateSpec example_command = None"
  by code_simp

lemma example_run:
  "\<exists>r. Run (example_host s) Live_Context example_command idle_world = ((r, None), idle_world) \<and> Success r \<and>
     cr_Stdout r = concat (st_chunks s)"
  if "length (concat (st_chunks s)) \<le> 8" "st_error s \<in> {None, Some os_ErrClosed}"
proof -
  have "int (length (concat (st_chunks s))) \<le> 8" using that(1) by simp
  then have out: "copyStream ''stdout'' (newLimitedBuffer 8) s =
      (\<lparr>sc_name = ''stdout'', sc_err = st_error s, sc_exceeded = False\<rparr>,
       \<lparr>lb_buf = concat (st_chunks s), lb_limit = 8, lb_exceeded = False\<rparr>)"
    using that(2) by (subst copyStream_cases) (auto simp: is_error_def os_ErrClosed_def errOutputLimit_def)
  have err: "copyStream ''stderr'' (newLimitedBuffer 8) \<lparr>st_chunks = [], st_error = None\<rparr> =
      (\<lparr>sc_name = ''stderr'', sc_err = None, sc_exceeded = False\<rparr>,
       \<lparr>lb_buf = [], lb_limit = 8, lb_exceeded = False\<rparr>)"
    by code_simp
  have poll: "ctx_err idle_world = (Inr (), idle_world)" by (simp add: idle_world_def quiet_def)
  have path: "IsAbs (cs_Path example_command)" by code_simp
  have spec: "cs_MaxStdout example_command = 8" "cs_MaxStderr example_command = 8" "\<not> cs_RedactOutput example_command"
    by (simp_all add: example_command_def)
  show ?thesis
    using that(2) by (auto simp: Run_def example_command_valid poll resolveExecutable_def path example_host_def andThen_def
        finish_command_def verdict_def spec out err Success_def ok_def Let_def)
qed

lemma truncated_output_succeeds:
  "\<exists>r. Run (example_host \<lparr>st_chunks = [''a''], st_error = Some os_ErrClosed\<rparr>) Live_Context example_command idle_world =
        ((r, None), idle_world) \<and> Success r \<and> cr_Stdout r = ''a''"
  using example_run [of "\<lparr>st_chunks = [''a''], st_error = Some os_ErrClosed\<rparr>"] by simp


end
