(* ===== verification/Host_Commands.thy ===== *)
theory Host_Commands
  imports Resource_Collectors Command
begin

text \<open>
  What the collectors that run a program share: the command error in an error (\<open>errors.As\<close>) with its
  class, and the denial of a permission in its text. A collector is given the way commands are run,
  \<open>Run\<close> over a host unless a test replaced it.
\<close>

fun as_command :: "go_error \<Rightarrow> go_error option" where
  "as_command (Command_Error c p n s e) = Some (Command_Error c p n s e)"
| "as_command (Wrap_Error s e) = as_command e"
| "as_command (Storage_Error s c e) = as_command e"
| "as_command (Cycle_Error c s (Some e)) = as_command e"
| "as_command (Joined_Error a b) = (case as_command a of Some e \<Rightarrow> Some e | None \<Rightarrow> as_command b)"
| "as_command (Sys_Error s e) = as_command e"
| "as_command e = None"

fun class_of_command :: "go_error \<Rightarrow> string" where
  "class_of_command (Command_Error c p n s e) = c"
| "class_of_command e = []"

fun stderr_of_command :: "go_error \<Rightarrow> string" where
  "stderr_of_command (Command_Error c p n s e) = s"
| "stderr_of_command e = []"

definition fl_of_int :: "int \<Rightarrow> float64" where
  "fl_of_int n = round64 (of_int n)"

lemma as_commandE:
  assumes "as_command e = Some c"
  obtains cls path code stderr cause where "c = Command_Error cls path code stderr cause"
  using assms by (induction e rule: as_command.induct) (auto split: option.splits)

end
