(* ===== verification/Systemd.thy ===== *)
theory Systemd
  imports Host_Commands
begin

text \<open>
  The collector of systemd units (\<open>internal/collectors/systemd\<close>): \<open>parser.go\<close> reads the output of
  \<open>systemctl show\<close> into the state of a unit, \<open>services.go\<close> runs the program for each configured unit
  and makes the observation of the state, its metrics and fields.
\<close>

subsection \<open>The state of a unit\<close>

record UnitState =
  us_Name :: string
  us_LoadState :: string
  us_ActiveState :: string
  us_SubState :: string
  us_UnitFileState :: string
  us_Result :: string
  us_MainPID :: int
  us_ExecMainCode :: int
  us_ExecMainStatus :: int
  us_NRestarts :: int
  us_ActiveEnterTimestampMonotonic :: int

definition allowedProperties :: "string list" where
  "allowedProperties =
     [''Id'', ''LoadState'', ''ActiveState'', ''SubState'', ''UnitFileState'', ''Result'', ''MainPID'', ''ExecMainCode'',
      ''ExecMainStatus'', ''NRestarts'', ''ActiveEnterTimestampMonotonic'']"

definition propertyList :: string where
  "propertyList = join_with '','' allowedProperties"

definition isAllowedProperty :: "string \<Rightarrow> bool" where
  "isAllowedProperty key \<longleftrightarrow> key \<in> set allowedProperties"

definition safeStateValue :: "string \<Rightarrow> string" where
  "safeStateValue value =
     (let value = trim_space value
      in if value = [] then ''unknown'' else if length value > 64 then take 64 value else value)"

definition parseIntProperty :: "string \<Rightarrow> go_error + int" where
  "parseIntProperty value =
     (if value = [] then Inr 0
      else case ParseInt value of Inl _ \<Rightarrow> Inl (Text_Error ''invalid syntax'') | Inr n \<Rightarrow> Inr n)"

definition parseNonNegativeIntProperty :: "string \<Rightarrow> go_error + int" where
  "parseNonNegativeIntProperty value =
     (case parseIntProperty value of
        Inl e \<Rightarrow> Inl e
      | Inr parsed \<Rightarrow> if parsed < 0 then Inl (Text_Error ''must not be negative'') else Inr parsed)"

definition unit_char :: "char \<Rightarrow> bool" where
  "unit_char c \<longleftrightarrow>
     (97 \<le> byte c \<and> byte c \<le> 122) \<or> (65 \<le> byte c \<and> byte c \<le> 90) \<or> digit_char c \<or> c \<in> set ''_-.@:''"

text \<open>The builder is full at 128 bytes; every rune that is kept is one byte.\<close>

definition normalizeUnitName :: "string \<Rightarrow> string" where
  "normalizeUnitName value =
     (let value = trim_space value; kept = take 128 (filter unit_char value)
      in if value = [] \<or> kept = [] then ''unknown.service'' else kept)"

text \<open>A property is stored in the state, the last one of a name winning.\<close>

definition set_int :: "string \<Rightarrow> go_error + int \<Rightarrow> (int \<Rightarrow> UnitState) \<Rightarrow> go_error + UnitState" where
  "set_int key r f = (case r of Inl _ \<Rightarrow> Inl (Text_Error (key @ '' is malformed'')) | Inr n \<Rightarrow> Inr (f n))"

definition set_property :: "string \<Rightarrow> string \<Rightarrow> UnitState \<Rightarrow> go_error + UnitState" where
  "set_property key value st =
     (if key = ''Id'' then Inr (if value \<noteq> [] then st\<lparr>us_Name := normalizeUnitName value\<rparr> else st)
      else if key = ''LoadState'' then Inr (st\<lparr>us_LoadState := safeStateValue value\<rparr>)
      else if key = ''ActiveState'' then Inr (st\<lparr>us_ActiveState := safeStateValue value\<rparr>)
      else if key = ''SubState'' then Inr (st\<lparr>us_SubState := safeStateValue value\<rparr>)
      else if key = ''UnitFileState'' then Inr (st\<lparr>us_UnitFileState := safeStateValue value\<rparr>)
      else if key = ''Result'' then Inr (st\<lparr>us_Result := safeStateValue value\<rparr>)
      else if key = ''MainPID'' then
        set_int key (parseNonNegativeIntProperty value) (\<lambda>n. st\<lparr>us_MainPID := n\<rparr>)
      else if key = ''ExecMainCode'' then set_int key (parseIntProperty value) (\<lambda>n. st\<lparr>us_ExecMainCode := n\<rparr>)
      else if key = ''ExecMainStatus'' then set_int key (parseIntProperty value) (\<lambda>n. st\<lparr>us_ExecMainStatus := n\<rparr>)
      else if key = ''NRestarts'' then
        set_int key (parseNonNegativeIntProperty value) (\<lambda>n. st\<lparr>us_NRestarts := n\<rparr>)
      else if key = ''ActiveEnterTimestampMonotonic'' then
        set_int key (parseNonNegativeIntProperty value) (\<lambda>n. st\<lparr>us_ActiveEnterTimestampMonotonic := n\<rparr>)
      else Inr st)"

fun show_lines :: "string list \<Rightarrow> UnitState \<Rightarrow> string set \<Rightarrow> go_error + UnitState \<times> string set" where
  "show_lines [] st seen = Inr (st, seen)"
| "show_lines (l # ls) st seen =
     (let line = trim_space l
      in if line = [] then show_lines ls st seen
         else
           (case Cut (CHR ''='') line of
              None \<Rightarrow> Inl (Text_Error ''systemctl show line is malformed'')
            | Some (key, value) \<Rightarrow>
                if \<not> isAllowedProperty key then show_lines ls st seen
                else
                  (case set_property key value st of
                     Inl e \<Rightarrow> Inl e
                   | Inr st1 \<Rightarrow> show_lines ls st1 (insert key seen))))"

fun required_seen :: "string list \<Rightarrow> string set \<Rightarrow> go_error option" where
  "required_seen [] seen = None"
| "required_seen (r # rs) seen =
     (if r \<in> seen then required_seen rs seen else Some (Text_Error (''systemctl show output missing '' @ r)))"

definition zero_unit :: UnitState where
  "zero_unit =
     \<lparr>us_Name = [], us_LoadState = [], us_ActiveState = [], us_SubState = [], us_UnitFileState = [], us_Result = [],
      us_MainPID = 0, us_ExecMainCode = 0, us_ExecMainStatus = 0, us_NRestarts = 0,
      us_ActiveEnterTimestampMonotonic = 0\<rparr>"

definition ParseShowOutput :: "string \<Rightarrow> string \<Rightarrow> go_error + UnitState" where
  "ParseShowOutput unit output =
     bind_sum (show_lines (lines_of output) (zero_unit\<lparr>us_Name := normalizeUnitName unit\<rparr>) {}) (\<lambda>(st, seen).
       case required_seen [''LoadState'', ''ActiveState'', ''SubState''] seen of Some e \<Rightarrow> Inl e | None \<Rightarrow> Inr st)"

subsection \<open>Observations\<close>

definition systemd_success :: "string \<Rightarrow> instant \<Rightarrow> Metric list \<Rightarrow> string \<Rightarrow> 'd observer" where
  "systemd_success target started metrics summary = successObservation ''systemd'' target started metrics summary"

definition systemd_failure :: "string \<Rightarrow> instant \<Rightarrow> string \<Rightarrow> string \<Rightarrow> 'd observer" where
  "systemd_failure target started cls summary = failureObservation ''systemd'' target started cls (Redact summary)"

definition systemd_unsupported :: "string \<Rightarrow> 'd observer" where
  "systemd_unsupported target w = systemd_failure target (wall w) ErrorUnsupported ''unsupported platform'' w"

definition containsPermissionDenied :: "string \<Rightarrow> bool" where
  "containsPermissionDenied value = contains_sub (to_lower (Redact value)) ''permission denied''"

definition classifyCommandError :: "go_error \<Rightarrow> string" where
  "classifyCommandError err =
     (case as_command err of
        None \<Rightarrow> ErrorCommand
      | Some e \<Rightarrow>
          let cls = class_of_command e
          in if cls = CommandTimeout \<or> cls = CommandCanceled then ErrorTimeout
             else if cls = CommandMissingExecutable then ErrorSourceMissing
             else if cls = CommandOutputLimit then ErrorParse
             else if containsPermissionDenied (error_text e) then ErrorPermissionDenied else ErrorCommand)"

definition summaryForState :: "UnitState \<Rightarrow> string" where
  "summaryForState st =
     (if us_LoadState st = ''not-found'' then ''unit missing''
      else if us_ActiveState st = ''active'' then ''unit active''
      else if us_ActiveState st = ''inactive'' then ''unit inactive''
      else if us_ActiveState st = ''failed'' then ''unit failed state observed''
      else if us_ActiveState st = ''activating'' then ''unit activating''
      else if us_ActiveState st = ''deactivating'' then ''unit deactivating''
      else ''unit state collected'')"

definition unit_failed :: "UnitState \<Rightarrow> bool" where
  "unit_failed st \<longleftrightarrow> us_ActiveState st = ''failed'' \<or> (us_Result st \<noteq> [] \<and> us_Result st \<noteq> ''success'')"

definition unit_rows :: "UnitState \<Rightarrow> metric_row list" where
  "unit_rows st =
     (let row = gauge [(''unit'', normalizeUnitName (us_Name st))]
      in [row ''pooly_systemd_unit_present'' (boolFloat (us_LoadState st \<noteq> ''not-found'')) ''state'',
          row ''pooly_systemd_unit_active'' (boolFloat (us_ActiveState st = ''active'')) ''state'',
          row ''pooly_systemd_unit_failed'' (boolFloat (unit_failed st)) ''state'',
          row ''pooly_systemd_unit_activating'' (boolFloat (us_ActiveState st = ''activating'')) ''state'',
          row ''pooly_systemd_unit_deactivating'' (boolFloat (us_ActiveState st = ''deactivating'')) ''state'',
          row ''pooly_systemd_unit_restart_count'' (fl_of_int (us_NRestarts st)) ''count'',
          row ''pooly_systemd_unit_main_pid'' (fl_of_int (us_MainPID st)) ''pid'',
          row ''pooly_systemd_unit_exec_main_code'' (fl_of_int (us_ExecMainCode st)) ''code'',
          row ''pooly_systemd_unit_exec_main_status'' (fl_of_int (us_ExecMainStatus st)) ''status'',
          row ''pooly_systemd_unit_active_enter_monotonic_seconds''
            (fl_div (fl_of_int (us_ActiveEnterTimestampMonotonic st)) (Fin 1000000)) ''seconds''])"

definition stateMetrics :: "UnitState \<Rightarrow> instant \<Rightarrow> go_error + Metric list" where
  "stateMetrics st ts = must_metrics [] (unit_rows st) ts"

definition unit_fields :: "UnitState \<Rightarrow> string \<rightharpoonup> string" where
  "unit_fields st = map_of
     [(''unit'', Redact (us_Name st)), (''load_state'', us_LoadState st), (''active_state'', us_ActiveState st),
      (''sub_state'', us_SubState st), (''unit_file_state'', us_UnitFileState st), (''result'', us_Result st),
      (''main_pid'', Itoa (us_MainPID st)), (''exec_main_code'', Itoa (us_ExecMainCode st)),
      (''exec_main_status'', Itoa (us_ExecMainStatus st)), (''restart_count'', Itoa (us_NRestarts st))]"

definition unitObservation :: "string \<Rightarrow> UnitState \<Rightarrow> instant \<Rightarrow> 'd observer" where
  "unitObservation unit st started w =
     (case stateMetrics st started of
        Inl e \<Rightarrow> systemd_failure unit started ErrorInternal (error_text e) w
      | Inr metrics \<Rightarrow>
          (case systemd_success unit started metrics (summaryForState st) w of
             (ob, w1) \<Rightarrow> (ob\<lparr>ob_Fields := unit_fields st\<rparr>, w1)))"

subsection \<open>The collector\<close>

record 'd SystemdOptions =
  sd_SystemctlPath :: string
  sd_Services :: "string list"
  sd_Timeout :: duration
  sd_MaxStdout :: int
  sd_MaxStderr :: int
  sd_PlatformSupported :: "bool option"
  sd_Runner :: "'d Runner option"

definition systemd_defaults :: "'d Host \<Rightarrow> 'd SystemdOptions" where
  "systemd_defaults host =
     \<lparr>sd_SystemctlPath = ''/bin/systemctl'', sd_Services = [], sd_Timeout = 3 * second, sd_MaxStdout = 64 * 1024,
      sd_MaxStderr = 8 * 1024, sd_PlatformSupported = None, sd_Runner = Some (Run host)\<rparr>"

definition systemd_with_defaults :: "'d Host \<Rightarrow> 'd SystemdOptions \<Rightarrow> 'd SystemdOptions" where
  "systemd_with_defaults host opts =
     (let defaults = systemd_defaults host
      in opts\<lparr>sd_SystemctlPath := (if sd_SystemctlPath opts = [] then sd_SystemctlPath defaults else sd_SystemctlPath opts),
              sd_Timeout := (if sd_Timeout opts = 0 then sd_Timeout defaults else sd_Timeout opts),
              sd_MaxStdout := (if sd_MaxStdout opts = 0 then sd_MaxStdout defaults else sd_MaxStdout opts),
              sd_MaxStderr := (if sd_MaxStderr opts = 0 then sd_MaxStderr defaults else sd_MaxStderr opts),
              sd_Runner := (case sd_Runner opts of None \<Rightarrow> sd_Runner defaults | Some r \<Rightarrow> Some r)\<rparr>)"

definition show_spec :: "'d SystemdOptions \<Rightarrow> string \<Rightarrow> CommandSpec" where
  "show_spec opts unit =
     \<lparr>cs_Path = sd_SystemctlPath opts, cs_Args = [''show'', unit, ''--no-pager'', ''--property='' @ propertyList],
      cs_Timeout = sd_Timeout opts, cs_MaxStdout = sd_MaxStdout opts, cs_MaxStderr = sd_MaxStderr opts,
      cs_RedactOutput = True\<rparr>"

text \<open>What is observed once the program returned: an error of the call, then one of the parser.\<close>

definition observe_show :: "string \<Rightarrow> instant \<Rightarrow> CommandResult \<Rightarrow> go_error option \<Rightarrow> 'd observer" where
  "observe_show unit started result err =
     (let parsed = ParseShowOutput unit (cr_Stdout result)
      in case err of
           Some e \<Rightarrow>
             (let cls = classifyCommandError e
              in case parsed of
                   Inl p \<Rightarrow> if cls = ErrorCommand then systemd_failure unit started ErrorParse (error_text p)
                            else systemd_failure unit started cls ''systemctl show failed''
                 | Inr st \<Rightarrow> if cls = ErrorCommand \<and> us_LoadState st = ''not-found'' then unitObservation unit st started
                             else systemd_failure unit started cls ''systemctl show failed'')
         | None \<Rightarrow>
             (case parsed of
                Inl p \<Rightarrow> systemd_failure unit started ErrorParse (error_text p)
              | Inr st \<Rightarrow> unitObservation unit st started))"

definition collectUnit :: "'d SystemdOptions \<Rightarrow> string \<Rightarrow> 'd observer" where
  "collectUnit opts unit w =
     (let started = wall w
      in attempt ctx_err (\<lambda>e. systemd_failure unit started ErrorTimeout (error_text e)) (\<lambda>_ w1.
           case the (sd_Runner opts) Live_Context (show_spec opts unit) w1 of
             ((result, err), w2) \<Rightarrow> observe_show unit started result err w2) w)"

definition systemd_Collect :: "'d Host \<Rightarrow> ctx \<Rightarrow> 'd SystemdOptions \<Rightarrow> 'd observers" where
  "systemd_Collect host ctx opts0 w =
     (let opts = systemd_with_defaults host opts0; started = wall w
      in if ctx = Nil_Context then single (systemd_failure ''all'' started ErrorInternal ''context is nil'') w
         else
           attempt ctx_err (\<lambda>e. single (systemd_failure ''all'' started ErrorTimeout (error_text e)))
             (\<lambda>_. if \<not> Supported (sd_PlatformSupported opts) then single (systemd_unsupported ''all'')
                else if sd_Services opts = []
                then single (systemd_success ''all'' started [] ''no systemd units configured'')
                else observe_all (collectUnit opts) (sd_Services opts)) w)"

end
