(* ===== verification/Ssh.thy ===== *)
theory Ssh
  imports Host_Commands
begin

text \<open>
  The collector of the SSH server (\<open>internal/collectors/ssh\<close>): \<open>effective.go\<close> reads the effective
  configuration \<open>sshd -T\<close> prints for a login, \<open>ports.go\<close> the listening ports \<open>ss\<close> prints, and
  \<open>syntax.go\<close> compares both with what is expected.
\<close>

subsection \<open>The effective configuration\<close>

record ExpectedConfig =
  ex_Ports :: "int list"
  ex_ForbiddenPorts :: "int list"
  ex_PermitRootLogin :: string
  ex_PasswordAuthentication :: string
  ex_KbdInteractiveAuthentication :: string
  ex_PermitEmptyPasswords :: string
  ex_PubkeyAuthentication :: string
  ex_StrictModes :: string
  ex_PermitUserEnvironment :: string

record effectiveProfile =
  ep_User :: string
  ep_Label :: string

definition effectiveProfiles :: "effectiveProfile list" where
  "effectiveProfiles =
     [\<lparr>ep_User = ''poolyadmin'', ep_Label = ''poolyadmin''\<rparr>,
      \<lparr>ep_User = ''pooly-sil3ntvip3r-admin'', ep_Label = ''admin2''\<rparr>,
      \<lparr>ep_User = ''root'', ep_Label = ''root''\<rparr>]"

fun firstExpectedPort :: "int list \<Rightarrow> int" where
  "firstExpectedPort [] = 0"
| "firstExpectedPort (p # ps) = (if p > 0 \<and> p \<le> 65535 then p else firstExpectedPort ps)"

definition effectiveContextArgs :: "effectiveProfile \<Rightarrow> ExpectedConfig \<Rightarrow> string list" where
  "effectiveContextArgs profile expected =
     (let criteria = [''user='' @ ep_User profile, ''host=localhost'', ''addr=127.0.0.1'', ''laddr=127.0.0.1''];
          port = firstExpectedPort (ex_Ports expected);
          criteria = (if port > 0 then criteria @ [''lport='' @ Itoa port] else criteria)
      in [''-T'', ''-C'', join_with '','' criteria])"

definition expectedDirectives :: "string list" where
  "expectedDirectives =
     [''permitrootlogin'', ''passwordauthentication'', ''kbdinteractiveauthentication'', ''permitemptypasswords'',
      ''pubkeyauthentication'', ''strictmodes'', ''permituserenvironment'']"

definition isSafeDirective :: "string \<Rightarrow> bool" where
  "isSafeDirective key \<longleftrightarrow> key \<in> set expectedDirectives"

fun effective_lines :: "string list \<Rightarrow> (string \<rightharpoonup> string) \<Rightarrow> go_error + (string \<rightharpoonup> string)" where
  "effective_lines [] values = Inr values"
| "effective_lines (l # ls) values =
     (let line = trim_space l
      in if line = [] then effective_lines ls values
         else
           (case Fields line of
              key # value # more_values \<Rightarrow>
                (let key = to_lower key
                 in if \<not> isSafeDirective key then effective_lines ls values
                    else effective_lines ls (values(key \<mapsto> to_lower (join_with '' '' (value # more_values)))))
            | _ \<Rightarrow> Inl (Text_Error ''sshd effective config line is malformed'')))"

definition ParseEffectiveConfig :: "string \<Rightarrow> go_error + (string \<rightharpoonup> string)" where
  "ParseEffectiveConfig output = effective_lines (lines_of output) Map.empty"

definition expectedDirectiveMap :: "ExpectedConfig \<Rightarrow> string \<rightharpoonup> string" where
  "expectedDirectiveMap e = map_of
     [(''permitrootlogin'', to_lower (ex_PermitRootLogin e)),
      (''passwordauthentication'', to_lower (ex_PasswordAuthentication e)),
      (''kbdinteractiveauthentication'', to_lower (ex_KbdInteractiveAuthentication e)),
      (''permitemptypasswords'', to_lower (ex_PermitEmptyPasswords e)),
      (''pubkeyauthentication'', to_lower (ex_PubkeyAuthentication e)),
      (''strictmodes'', to_lower (ex_StrictModes e)),
      (''permituserenvironment'', to_lower (ex_PermitUserEnvironment e))]"

subsection \<open>Listening ports\<close>

text \<open>\<open>strings.ToUpper\<close>, exact on ASCII and on the two other runes whose upper case is ASCII (U+0131, U+017F).\<close>

definition raised_char :: "char \<Rightarrow> char" where
  "raised_char c = (if 97 \<le> byte c \<and> byte c \<le> 122 then char_of (byte c - 32) else c)"

fun to_upper :: "string \<Rightarrow> string" where
  "to_upper [] = []"
| "to_upper (c # cs) =
     (if byte c = 196 \<and> map byte (take 1 cs) = [177] then CHR ''I'' # to_upper (drop 1 cs)
      else if byte c = 197 \<and> map byte (take 1 cs) = [191] then CHR ''S'' # to_upper (drop 1 cs)
      else raised_char c # to_upper cs)"

text \<open>What follows the last occurrence of a separator.\<close>

fun after_last :: "string \<Rightarrow> string \<Rightarrow> string option" where
  "after_last sep [] = None"
| "after_last sep (c # cs) =
     (case after_last sep cs of
        Some r \<Rightarrow> Some r
      | None \<Rightarrow> if prefix sep (c # cs) then Some (drop (length sep) (c # cs)) else None)"

definition trim_char :: "char \<Rightarrow> string \<Rightarrow> string" where
  "trim_char c s = rev (dropWhile (\<lambda>x. x = c) (rev (dropWhile (\<lambda>x. x = c) s)))"

definition parsePort :: "string \<Rightarrow> int option" where
  "parsePort value =
     (case Atoi (trim_char (CHR ''*'') value) of
        Inl _ \<Rightarrow> None
      | Inr port \<Rightarrow> if port < 1 \<or> port > 65535 then None else Some port)"

definition port_after_colon :: "string \<Rightarrow> int option" where
  "port_after_colon value =
     (case after_last '':'' value of None \<Rightarrow> None | Some r \<Rightarrow> if r = [] then None else parsePort r)"

definition parsePortFromAddress :: "string \<Rightarrow> int option" where
  "parsePortFromAddress value0 =
     (let value = trim_space value0
      in if value = [] then None
         else if prefix ''['' value
         then (case after_last '']:'' value of Some r \<Rightarrow> parsePort r | None \<Rightarrow> port_after_colon value)
         else port_after_colon value)"

fun listen_lines :: "string list \<Rightarrow> int set \<Rightarrow> go_error + int set" where
  "listen_lines [] ports = Inr ports"
| "listen_lines (l # ls) ports =
     (let line = trim_space l
      in if line = [] then listen_lines ls ports
         else
           (case Fields line of
              state # recv # send # addr # more_fields \<Rightarrow>
                if to_upper state \<noteq> ''LISTEN'' then listen_lines ls ports
                else listen_lines ls (case parsePortFromAddress addr of Some p \<Rightarrow> insert p ports | None \<Rightarrow> ports)
            | _ \<Rightarrow> Inl (Text_Error ''ss listener line is malformed'')))"

definition ParseListeningPorts :: "string \<Rightarrow> go_error + int set" where
  "ParseListeningPorts output = listen_lines (lines_of output) {}"

subsection \<open>Observations\<close>

definition ssh_success :: "string \<Rightarrow> string \<Rightarrow> instant \<Rightarrow> Metric list \<Rightarrow> string \<Rightarrow> 'd observer" where
  "ssh_success name target started metrics summary = successObservation name target started metrics (Redact summary)"

definition ssh_failure :: "string \<Rightarrow> string \<Rightarrow> instant \<Rightarrow> string \<Rightarrow> string \<Rightarrow> 'd observer" where
  "ssh_failure name target started cls summary = failureObservation name target started cls (Redact summary)"

definition ssh_unsupported :: "string \<Rightarrow> string \<Rightarrow> 'd observer" where
  "ssh_unsupported name target w = ssh_failure name target (wall w) ErrorUnsupported ''unsupported platform'' w"

definition ssh_permission_denied :: "string \<Rightarrow> bool" where
  "ssh_permission_denied value = contains_sub (to_lower (Redact value)) ''permission denied''"

definition commandClass :: "go_error \<Rightarrow> string" where
  "commandClass err =
     (case as_command err of
        None \<Rightarrow> ErrorCommand
      | Some e \<Rightarrow>
          let cls = class_of_command e
          in if cls = CommandTimeout \<or> cls = CommandCanceled then ErrorTimeout
             else if cls = CommandMissingExecutable then ErrorSourceMissing
             else if cls = CommandOutputLimit then ErrorParse
             else if ssh_permission_denied (error_text e) then ErrorPermissionDenied else ErrorCommand)"

definition effectiveCommandClass :: "go_error \<Rightarrow> string" where
  "effectiveCommandClass err =
     (case as_command err of
        Some e \<Rightarrow>
          if class_of_command e = CommandNonZeroExit
          then (if ssh_permission_denied (error_text e) then ErrorPermissionDenied else ErrorParse)
          else commandClass err
      | None \<Rightarrow> commandClass err)"

subsection \<open>The collector\<close>

record 'd SshOptions =
  so_SSHDPath :: string
  so_SSPath :: string
  so_Expected :: ExpectedConfig
  so_Timeout :: duration
  so_MaxStdout :: int
  so_MaxStderr :: int
  so_PlatformSupported :: "bool option"
  so_Runner :: "'d Runner option"

definition no_expectation :: ExpectedConfig where
  "no_expectation =
     \<lparr>ex_Ports = [], ex_ForbiddenPorts = [], ex_PermitRootLogin = [], ex_PasswordAuthentication = [],
      ex_KbdInteractiveAuthentication = [], ex_PermitEmptyPasswords = [], ex_PubkeyAuthentication = [],
      ex_StrictModes = [], ex_PermitUserEnvironment = []\<rparr>"

definition ssh_defaults :: "'d Host \<Rightarrow> 'd SshOptions" where
  "ssh_defaults host =
     \<lparr>so_SSHDPath = ''/usr/sbin/sshd'', so_SSPath = ''/usr/sbin/ss'', so_Expected = no_expectation,
      so_Timeout = 3 * second, so_MaxStdout = 128 * 1024, so_MaxStderr = 8 * 1024, so_PlatformSupported = None,
      so_Runner = Some (Run host)\<rparr>"

definition ssh_with_defaults :: "'d Host \<Rightarrow> 'd SshOptions \<Rightarrow> 'd SshOptions" where
  "ssh_with_defaults host opts =
     (let defaults = ssh_defaults host
      in opts\<lparr>so_SSHDPath := (if so_SSHDPath opts = [] then so_SSHDPath defaults else so_SSHDPath opts),
              so_SSPath := (if so_SSPath opts = [] then so_SSPath defaults else so_SSPath opts),
              so_Timeout := (if so_Timeout opts = 0 then so_Timeout defaults else so_Timeout opts),
              so_MaxStdout := (if so_MaxStdout opts = 0 then so_MaxStdout defaults else so_MaxStdout opts),
              so_MaxStderr := (if so_MaxStderr opts = 0 then so_MaxStderr defaults else so_MaxStderr opts),
              so_Runner := (case so_Runner opts of None \<Rightarrow> so_Runner defaults | Some r \<Rightarrow> Some r)\<rparr>)"

definition ssh_spec :: "'d SshOptions \<Rightarrow> string \<Rightarrow> string list \<Rightarrow> CommandSpec" where
  "ssh_spec opts path args =
     \<lparr>cs_Path = path, cs_Args = args, cs_Timeout = so_Timeout opts, cs_MaxStdout = so_MaxStdout opts,
      cs_MaxStderr = so_MaxStderr opts, cs_RedactOutput = True\<rparr>"

definition text_at :: "(string \<rightharpoonup> string) \<Rightarrow> string \<Rightarrow> string" where
  "text_at m k = (case m k of None \<Rightarrow> [] | Some v \<Rightarrow> v)"

definition directive_matches :: "(string \<rightharpoonup> string) \<Rightarrow> (string \<rightharpoonup> string) \<Rightarrow> string \<Rightarrow> bool" where
  "directive_matches expected actual directive \<longleftrightarrow>
     text_at expected directive \<noteq> [] \<and> text_at actual directive = text_at expected directive"

definition directive_row :: "string \<Rightarrow> string \<Rightarrow> bool \<Rightarrow> metric_row" where
  "directive_row label directive matched =
     gauge [(''directive'', directive), (''profile'', label)] ''pooly_ssh_directive_expected_match'' (boolFloat matched) ''state''"

definition directive_fields ::
    "(string \<rightharpoonup> string) \<Rightarrow> (string \<rightharpoonup> string) \<Rightarrow> string \<Rightarrow> string \<Rightarrow> (string \<rightharpoonup> string) \<Rightarrow> string \<rightharpoonup> string" where
  "directive_fields expected actual label directive fs =
     (let pre = label @ ''_'' @ directive; got = text_at actual directive
      in fs(pre @ ''_expected'' \<mapsto> text_at expected directive,
            pre @ ''_actual'' \<mapsto> (if got = [] then ''missing'' else got)))"

fun judge_directives ::
    "(string \<rightharpoonup> string) \<Rightarrow> (string \<rightharpoonup> string) \<Rightarrow> string \<Rightarrow> instant \<Rightarrow> string list \<Rightarrow>
     Metric list \<times> int \<times> (string \<rightharpoonup> string) \<Rightarrow> go_error + Metric list \<times> int \<times> (string \<rightharpoonup> string)" where
  "judge_directives expected actual label started [] acc = Inr acc"
| "judge_directives expected actual label started (d # ds) (metrics, n, fs) =
     (let matched = directive_matches expected actual d
      in case mustMetric metrics (directive_row label d matched) started of
           Inl e \<Rightarrow> Inl e
         | Inr metrics \<Rightarrow>
             judge_directives expected actual label started ds
               (metrics, if matched then n + 1 else n, directive_fields expected actual label d fs))"

fun effective_profiles ::
    "'d SshOptions \<Rightarrow> instant \<Rightarrow> effectiveProfile list \<Rightarrow> Metric list \<times> int \<times> (string \<rightharpoonup> string) \<Rightarrow> 'd observer" where
  "effective_profiles opts started [] (metrics, n, fs) w =
     (case ssh_success ''ssh_effective_config'' ''sshd'' started metrics ''sshd effective config collected'' w of
        (ob, w1) \<Rightarrow> (ob\<lparr>ob_Fields := fs(''matched_directives'' \<mapsto> Itoa n)\<rparr>, w1))"
| "effective_profiles opts started (p # ps) acc w =
     (let failed = ssh_failure ''ssh_effective_config'' ''sshd'' started
      in case the (so_Runner opts) Live_Context
                (ssh_spec opts (so_SSHDPath opts) (effectiveContextArgs p (so_Expected opts))) w of
           ((result, Some e), w1) \<Rightarrow>
             failed (effectiveCommandClass e) (''sshd effective config command failed for profile '' @ ep_Label p) w1
         | ((result, None), w1) \<Rightarrow>
             (case ParseEffectiveConfig (cr_Stdout result) of
                Inl e \<Rightarrow>
                  failed ErrorParse
                    (''sshd effective config output malformed for profile '' @ ep_Label p @ '': '' @ error_text e) w1
              | Inr actual \<Rightarrow>
                  (case judge_directives (expectedDirectiveMap (so_Expected opts)) actual (ep_Label p) started
                          expectedDirectives acc of
                     Inl e \<Rightarrow> failed ErrorInternal (error_text e) w1
                   | Inr acc \<Rightarrow> effective_profiles opts started ps acc w1)))"

definition collectEffective :: "'d SshOptions \<Rightarrow> 'd observer" where
  "collectEffective opts w =
     effective_profiles opts (wall w) effectiveProfiles ([], 0, [''profiles'' \<mapsto> ''poolyadmin,admin2,root'']) w"

definition port_row :: "string \<Rightarrow> int set \<Rightarrow> int \<Rightarrow> metric_row" where
  "port_row name ports port = gauge [(''port'', Itoa port)] name (boolFloat (port \<in> ports)) ''state''"

definition port_rows :: "ExpectedConfig \<Rightarrow> int set \<Rightarrow> metric_row list" where
  "port_rows expected ports =
     map (port_row ''pooly_ssh_expected_port_listening'' ports) (ex_Ports expected) @
     map (port_row ''pooly_ssh_forbidden_port_listening'' ports) (ex_ForbiddenPorts expected)"

definition collectPorts :: "'d SshOptions \<Rightarrow> 'd observer" where
  "collectPorts opts w =
     (let started = wall w; failed = ssh_failure ''ssh_listeners'' ''tcp'' started
      in case the (so_Runner opts) Live_Context (ssh_spec opts (so_SSPath opts) [''-H'', ''-l'', ''-n'', ''-t'']) w of
           ((result, Some e), w1) \<Rightarrow> failed (commandClass e) ''ss listener collection failed'' w1
         | ((result, None), w1) \<Rightarrow>
             (case ParseListeningPorts (cr_Stdout result) of
                Inl e \<Rightarrow> failed ErrorParse (error_text e) w1
              | Inr ports \<Rightarrow>
                  (case must_metrics [] (port_rows (so_Expected opts) ports) started of
                     Inl e \<Rightarrow> failed ErrorInternal (error_text e) w1
                   | Inr metrics \<Rightarrow>
                       ssh_success ''ssh_listeners'' ''tcp'' started metrics ''ssh listening ports collected'' w1)))"

definition ssh_Collect :: "'d Host \<Rightarrow> ctx \<Rightarrow> 'd SshOptions \<Rightarrow> 'd observers" where
  "ssh_Collect host ctx opts0 w =
     (let opts = ssh_with_defaults host opts0; started = wall w
      in if ctx = Nil_Context then single (ssh_failure ''ssh'' ''all'' started ErrorInternal ''context is nil'') w
         else
           attempt ctx_err (\<lambda>e. single (ssh_failure ''ssh'' ''all'' started ErrorTimeout (error_text e)))
             (\<lambda>_. if \<not> Supported (so_PlatformSupported opts)
                then observe_all (\<lambda>(name, target). ssh_unsupported name target)
                       [(''ssh_effective_config'', ''sshd''), (''ssh_listeners'', ''tcp'')]
                else observe_all (\<lambda>f. f opts) [collectEffective, collectPorts]) w)"

end
