(* ===== verification/Host_Laws.thy ===== *)
theory Host_Laws
  imports Systemd Ssh
begin

text \<open>
  What the collectors of systemd and SSH report: the state \<open>systemctl\<close> prints of a unit is the state
  that is observed, and a directive of \<open>sshd\<close> counts as matching exactly if it has the expected value.
\<close>

subsection \<open>Rows of well-formed metrics\<close>

definition clean_label :: "string \<times> string \<Rightarrow> bool" where
  "clean_label l \<longleftrightarrow>
     (case l of (k, v) \<Rightarrow> k \<in> set allowedLabels \<and> v \<noteq> [] \<and> \<not> contains_any v [CHR 0x0A, CHR 0x0D, CHR 0x09])"

definition good_row :: "metric_row \<Rightarrow> bool" where
  "good_row r \<longleftrightarrow> metric_name (row_name r) \<and> row_kind r \<in> {MetricGauge, MetricCounter} \<and> list_all clean_label (row_labels r)"

definition labels_of :: "(string \<times> string) list \<Rightarrow> string \<rightharpoonup> string" where
  "labels_of ls = foldl (\<lambda>m (k, v). m(k \<mapsto> v)) Map.empty ls"

definition metric_of :: "instant \<Rightarrow> metric_row \<Rightarrow> Metric" where
  "metric_of ts r =
     \<lparr>m_Name = row_name r, m_Value = row_value r, m_Kind = row_kind r, m_Unit = row_unit r,
      m_Labels = labels_of (row_labels r), m_Timestamp = ts\<rparr>"

lemma clean_labels_all:
  "list_all clean_label ls \<Longrightarrow> clean_labels ls m = Inr (foldl (\<lambda>m (k, v). m(k \<mapsto> v)) m ls)"
  by (induction ls m rule: clean_labels.induct) (auto simp: clean_label_def)

lemma mustMetric_good: "good_row r \<Longrightarrow> mustMetric ms r ts = Inr (ms @ [metric_of ts r])"
  by (auto simp: mustMetric_def NewMetric_def good_row_def metric_of_def labels_of_def clean_labels_all)

lemma must_metrics_good: "list_all good_row rs \<Longrightarrow> must_metrics ms rs ts = Inr (ms @ map (metric_of ts) rs)"
  by (induction rs arbitrary: ms) (simp_all add: mustMetric_good)

subsection \<open>What systemctl prints\<close>

text \<open>The text of a state, one property a line, and the states whose properties are words.\<close>

definition show_pairs :: "UnitState \<Rightarrow> (string \<times> string) list" where
  "show_pairs st =
     [(''Id'', us_Name st), (''LoadState'', us_LoadState st), (''ActiveState'', us_ActiveState st),
      (''SubState'', us_SubState st), (''UnitFileState'', us_UnitFileState st), (''Result'', us_Result st),
      (''MainPID'', Itoa (us_MainPID st)), (''ExecMainCode'', Itoa (us_ExecMainCode st)),
      (''ExecMainStatus'', Itoa (us_ExecMainStatus st)), (''NRestarts'', Itoa (us_NRestarts st)),
      (''ActiveEnterTimestampMonotonic'', Itoa (us_ActiveEnterTimestampMonotonic st))]"

definition property_line :: "string \<Rightarrow> string \<Rightarrow> string" where
  "property_line k v = k @ ''='' @ v"

definition show_text :: "UnitState \<Rightarrow> string" where
  "show_text st = join_with [CHR 0x0A] (map (\<lambda>(k, v). property_line k v) (show_pairs st))"

definition state_word :: "nat \<Rightarrow> string \<Rightarrow> bool" where
  "state_word n v \<longleftrightarrow> v \<noteq> [] \<and> length v \<le> n \<and> list_all unit_char v"

definition valid_unit :: "UnitState \<Rightarrow> bool" where
  "valid_unit st \<longleftrightarrow>
     state_word 128 (us_Name st) \<and>
     list_all (state_word 64) [us_LoadState st, us_ActiveState st, us_SubState st, us_UnitFileState st, us_Result st] \<and>
     list_all (\<lambda>n. 0 \<le> n \<and> n < 2 ^ 63) [us_MainPID st, us_NRestarts st, us_ActiveEnterTimestampMonotonic st] \<and>
     list_all (\<lambda>n. - (2 ^ 63) \<le> n \<and> n < 2 ^ 63) [us_ExecMainCode st, us_ExecMainStatus st]"

lemma unit_char_free: "unit_char c \<Longrightarrow> space_free c"
  by (auto simp: unit_char_def space_free_def byte_def digit_char_def)

lemma unit_char_plain: "unit_char c \<Longrightarrow> c \<notin> {CHR 0x0A, CHR ''='', CHR 0x0D, CHR 0x09}"
  by (auto simp: unit_char_def byte_def digit_char_def)

lemma trim_word: "v \<noteq> [] \<Longrightarrow> list_all unit_char v \<Longrightarrow> trim_space v = v"
  by (rule trim_space_free) (auto simp: list_all_iff intro: unit_char_free)

lemma normalize_word: "state_word 128 v \<Longrightarrow> normalizeUnitName v = v"
  by (simp add: state_word_def normalizeUnitName_def trim_word list_all_iff)

lemma safe_word: "state_word 64 v \<Longrightarrow> safeStateValue v = v"
  by (simp add: state_word_def safeStateValue_def trim_word)

lemma nat_text_word: "list_all unit_char (nat_text n)"
  using nat_text_digits [of n] by (simp add: list_all_iff unit_char_def)

lemma Itoa_word: "list_all unit_char (Itoa n)" "Itoa n \<noteq> []"
  by (simp_all add: Itoa_def nat_text_word unit_char_def)

lemma parseInt_Itoa: "- (2 ^ 63) \<le> n \<Longrightarrow> n < 2 ^ 63 \<Longrightarrow> parseIntProperty (Itoa n) = Inr n"
  by (simp add: parseIntProperty_def ParseInt_Itoa Itoa_word)

text \<open>A line of a property the parser knows.\<close>

definition plain_key :: "string \<Rightarrow> bool" where
  "plain_key k \<longleftrightarrow> k \<noteq> [] \<and> list_all unit_char k"

lemma plain_keys: "list_all plain_key allowedProperties"
  by code_simp

lemma trim_property:
  assumes "plain_key k" and "v \<noteq> []" and "list_all unit_char v"
  shows "trim_space (k @ ''='' @ v) = k @ ''='' @ v"
proof (rule trim_space_free, rule disjI2, rule conjI)
  show "space_free (hd (k @ ''='' @ v))" using assms(1) by (cases k) (auto simp: plain_key_def unit_char_free)
  have "last v \<in> set v" using assms(2) by simp
  then show "space_free (last (k @ ''='' @ v))" using assms(2,3) by (auto simp: list_all_iff intro: unit_char_free)
qed

lemma Cut_property: "plain_key k \<Longrightarrow> Cut (CHR ''='') (k @ ''='' @ v) = Some (k, v)"
proof -
  assume "plain_key k"
  then have "\<forall>x\<in>set k. x \<noteq> CHR ''=''" by (auto simp: plain_key_def list_all_iff dest: unit_char_plain)
  then have "takeWhile (\<lambda>x. x \<noteq> CHR ''='') (k @ ''='' @ v) = k"
    "dropWhile (\<lambda>x. x \<noteq> CHR ''='') (k @ ''='' @ v) = ''='' @ v"
    by (simp_all add: takeWhile_append2 dropWhile_append2)
  then show ?thesis by (simp add: Cut_def cut_at_def)
qed

lemma show_line:
  assumes "isAllowedProperty k" and "v \<noteq> []" and "list_all unit_char v" and "set_property k v st = Inr st1"
  shows "show_lines (property_line k v # ls) st seen = show_lines ls st1 (insert k seen)"
proof -
  have "plain_key k" using assms(1) plain_keys by (auto simp: isAllowedProperty_def list_all_iff)
  with assms show ?thesis using trim_property [of k v] Cut_property [of k v] by (simp add: Let_def property_line_def)
qed

lemmas allowed_simps = isAllowedProperty_def allowedProperties_def set_property_def set_int_def

lemma show_lines_valid:
  assumes "valid_unit st"
  shows "show_lines (map (\<lambda>(k, v). property_line k v) (show_pairs st)) (zero_unit\<lparr>us_Name := n\<rparr>) {} =
    Inr (st, set (map fst (show_pairs st)))"
proof -
  note [simp] = show_line
  from assms have words: "us_Name st \<noteq> []" "list_all unit_char (us_Name st)" "normalizeUnitName (us_Name st) = us_Name st"
    and texts: "\<And>v. v \<in> {us_LoadState st, us_ActiveState st, us_SubState st, us_UnitFileState st, us_Result st} \<Longrightarrow>
      v \<noteq> [] \<and> list_all unit_char v \<and> safeStateValue v = v"
    by (auto simp: valid_unit_def state_word_def normalize_word safe_word)
  from assms have ints: "parseNonNegativeIntProperty (Itoa (us_MainPID st)) = Inr (us_MainPID st)"
    "parseNonNegativeIntProperty (Itoa (us_NRestarts st)) = Inr (us_NRestarts st)"
    "parseNonNegativeIntProperty (Itoa (us_ActiveEnterTimestampMonotonic st)) = Inr (us_ActiveEnterTimestampMonotonic st)"
    "parseIntProperty (Itoa (us_ExecMainCode st)) = Inr (us_ExecMainCode st)"
    "parseIntProperty (Itoa (us_ExecMainStatus st)) = Inr (us_ExecMainStatus st)"
    by (simp_all add: valid_unit_def parseNonNegativeIntProperty_def parseInt_Itoa)
  show ?thesis
    unfolding show_pairs_def
    by (simp add: allowed_simps words texts ints Itoa_word zero_unit_def insert_commute del: show_lines.simps(2))
qed

lemma show_roundtrip: "valid_unit st \<Longrightarrow> ParseShowOutput u (show_text st) = Inr st"
proof -
  assume valid: "valid_unit st"
  have "CHR 0x0A \<notin> set (property_line k v)" if "(k, v) \<in> set (show_pairs st)" for k v
  proof -
    have "k \<in> set allowedProperties" using that by (auto simp: show_pairs_def allowedProperties_def)
    then have "list_all unit_char k" using plain_keys by (auto simp: list_all_iff plain_key_def)
    moreover have "list_all unit_char v"
      using that valid by (auto simp: show_pairs_def valid_unit_def state_word_def Itoa_word)
    ultimately show ?thesis by (auto simp: property_line_def list_all_iff dest: unit_char_plain)
  qed
  then have "lines_of (show_text st) = map (\<lambda>(k, v). property_line k v) (show_pairs st)"
    unfolding lines_of_def show_text_def by (intro split_join) (auto simp: show_pairs_def)
  with show_lines_valid [OF valid] show ?thesis
    by (simp add: ParseShowOutput_def bind_sum_def show_pairs_def)
qed

lemma unit_metric_names:
  "list_all metric_name
     [''pooly_systemd_unit_present'', ''pooly_systemd_unit_active'', ''pooly_systemd_unit_failed'',
      ''pooly_systemd_unit_activating'', ''pooly_systemd_unit_deactivating'', ''pooly_systemd_unit_restart_count'',
      ''pooly_systemd_unit_main_pid'', ''pooly_systemd_unit_exec_main_code'', ''pooly_systemd_unit_exec_main_status'',
      ''pooly_systemd_unit_active_enter_monotonic_seconds'']"
  by code_simp

lemma clean_unit_label: "state_word n v \<Longrightarrow> clean_label (''unit'', v)"
  by (auto simp: clean_label_def allowedLabels_def state_word_def contains_any_def list_ex_iff list_all_iff
      dest: unit_char_plain)

lemma unit_rows_good: "valid_unit st \<Longrightarrow> list_all good_row (unit_rows st)"
  using unit_metric_names clean_unit_label [of 128 "us_Name st"]
  by (simp add: unit_rows_def Let_def good_row_def gauge_def valid_unit_def normalize_word)

text \<open>
  What \<open>systemctl\<close> prints of a unit is what is observed of it: when the program succeeds and its
  output is the text of a state, the unit's observation is a success with the metrics of that state,
  all labelled with the unit, and its fields.
\<close>

theorem unit_observed:
  assumes "valid_unit st" and "quiet w" and "sd_Runner opts = Some runner"
    and "runner Live_Context (show_spec opts unit) w = ((r, None), w1)" and "cr_Stdout r = show_text st"
  shows "\<exists>ob. collectUnit opts unit w = (ob, w1) \<and> ob_Success ob \<and> ob_Target ob = unit \<and>
    ob_Metrics ob = map (metric_of (wall w)) (unit_rows st) \<and> ob_Fields ob = unit_fields st \<and>
    (\<forall>m \<in> set (ob_Metrics ob). m_Labels m = [''unit'' \<mapsto> us_Name st])"
proof -
  have "stateMetrics st ts = Inr (map (metric_of ts) (unit_rows st))" for ts
    using must_metrics_good [OF unit_rows_good, OF assms(1)] by (simp add: stateMetrics_def)
  moreover have "m_Labels (metric_of ts x) = [''unit'' \<mapsto> us_Name st]" if "x \<in> set (unit_rows st)" for ts x
    using that assms(1) by (auto simp: unit_rows_def Let_def metric_of_def gauge_def labels_of_def valid_unit_def normalize_word)
  ultimately show ?thesis
    using assms show_roundtrip [OF assms(1)]
    by (auto simp: collectUnit_def attempt_def observe_show_def unitObservation_def systemd_success_def
        successObservation_def Let_def)
qed

definition example_unit :: UnitState where
  "example_unit =
     \<lparr>us_Name = ''ssh.service'', us_LoadState = ''loaded'', us_ActiveState = ''active'', us_SubState = ''running'',
      us_UnitFileState = ''enabled'', us_Result = ''success'', us_MainPID = 7, us_ExecMainCode = 0,
      us_ExecMainStatus = 0, us_NRestarts = 0, us_ActiveEnterTimestampMonotonic = 5\<rparr>"

definition printing :: "string \<Rightarrow> unit Runner" where
  "printing text = (\<lambda>ctx spec w.
     ((\<lparr>cr_Path = cs_Path spec, cr_Args = cs_Args spec, cr_Stdout = text, cr_Stderr = [], cr_ExitCode = 0,
        cr_Duration = 0, cr_ErrorClass = CommandNone\<rparr>, None), w))"

definition printing_host :: "unit Host" where
  "printing_host =
     \<lparr>ho_Stat = (\<lambda>_. fail ErrNotExist), ho_LookPath = (\<lambda>_. fail ErrNotExist), ho_execute = undefined\<rparr>"

lemma example_unit_valid: "valid_unit example_unit"
  by code_simp

theorem unit_observed_witness:
  "\<exists>ob. collectUnit ((systemd_defaults printing_host)\<lparr>sd_Runner := Some (printing (show_text example_unit))\<rparr>) ''ssh''
      \<lparr>data = (), script = [], wall = 0\<rparr> = (ob, \<lparr>data = (), script = [], wall = 0\<rparr>) \<and>
    ob_Success ob \<and> ob_Metrics ob = map (metric_of 0) (unit_rows example_unit)"
  using unit_observed [OF example_unit_valid, of "\<lparr>data = (), script = [], wall = 0\<rparr>"
      "(systemd_defaults printing_host)\<lparr>sd_Runner := Some (printing (show_text example_unit))\<rparr>"
      "printing (show_text example_unit)" "''ssh''"]
  by (auto simp: printing_def quiet_def)

text \<open>
  A result that is printed empty becomes \<open>unknown\<close>, which is neither empty nor success: the unit
  counts as failed.
\<close>

lemma empty_result_is_failed:
  "\<exists>st. set_property ''Result'' [] st0 = Inr st \<and> us_Result st = ''unknown'' \<and> unit_failed st"
  by (simp add: set_property_def safeStateValue_def trim_space_free unit_failed_def)

subsection \<open>Directives of the SSH server\<close>

text \<open>What the parser keeps of a directive, a line of the output says.\<close>

definition line_says :: "string \<Rightarrow> string \<Rightarrow> string \<Rightarrow> bool" where
  "line_says line directive value \<longleftrightarrow>
     (case Fields (trim_space line) of
        k # v # vs \<Rightarrow> to_lower k = directive \<and> to_lower (join_with '' '' (v # vs)) = value
      | _ \<Rightarrow> False)"

definition says :: "string \<Rightarrow> string \<Rightarrow> string \<Rightarrow> bool" where
  "says output directive value \<longleftrightarrow> list_ex (\<lambda>line. line_says line directive value) (lines_of output)"

lemma effective_lines_says:
  "effective_lines ls m = Inr m' \<Longrightarrow> m' d = Some v \<Longrightarrow> m d = Some v \<or> list_ex (\<lambda>line. line_says line d v) ls"
proof (induction ls arbitrary: m)
  case (Cons l ls)
  show ?case
  proof (cases "trim_space l = []")
    case True
    with Cons.prems Cons.IH [of m] show ?thesis by auto
  next
    case False
    with Cons.prems(1) obtain k x xs where f: "Fields (trim_space l) = k # x # xs"
      by (auto simp: Let_def split: list.splits)
    let ?m = "if isSafeDirective (to_lower k) then m(to_lower k \<mapsto> to_lower (join_with '' '' (x # xs))) else m"
    from Cons.prems(1) False f have "effective_lines ls ?m = Inr m'" by (simp add: Let_def split: if_splits)
    from Cons.IH [OF this Cons.prems(2)] consider "?m d = Some v" | "list_ex (\<lambda>line. line_says line d v) ls" by blast
    then show ?thesis
    proof cases
      case 1
      then have "m d = Some v \<or> to_lower k = d \<and> to_lower (join_with '' '' (x # xs)) = v"
        by (simp split: if_splits)
      then show ?thesis using f by (auto simp: line_says_def)
    qed simp
  qed
qed simp

lemma ParseEffectiveConfig_says:
  "ParseEffectiveConfig output = Inr m \<Longrightarrow> m d = Some v \<Longrightarrow> says output d v"
  using effective_lines_says [of "lines_of output" Map.empty m d v]
  by (simp add: ParseEffectiveConfig_def says_def)

end
