(* ===== verification/Spec2Isabelle.thy ===== *)
theory Spec2Isabelle
  imports Rule_Store Notify_Properties Storage_Integrity Scheduler Storage_Opened Files_Properties Storage_Doctor Scheduler_Steps Config_Defaults Api_Properties Lifecycle_Laws Go_Json_Laws Resource_Bounds Command_Laws Host_Laws
begin

text \<open>
  pooly-sentinel is a monitoring agent written in Go: collectors observe a host, rules judge the
  observations, incidents record what the rules raise and resolve, receivers are notified of the
  transitions, and a read-only HTTP interface and reports show the store. This development models the
  packages under \<open>internal/\<close> that decide something and proves what they promise.

  \<^bold>\<open>How the program works, and where it is modelled.\<close> A cycle of the scheduler (\<open>agent/scheduler.go\<close>:
  \<open>Scheduler\<close>, and \<open>Scheduler_Steps\<close> for several callers at once) collects observations, evaluates
  the rules over them, applies the candidates to the incidents, delivers notifications and finishes
  the status. Its parts are:
  \<^item> the collectors: \<open>collectors/resources\<close> (\<open>Resource_Types\<close>, \<open>Resource_Parsers\<close>,
    \<open>Resource_Collectors\<close>, the baselines of \<open>state.go\<close> in \<open>Resource_State\<close>), \<open>collectors/systemd\<close>
    (\<open>Systemd\<close>) and \<open>collectors/ssh\<close> (\<open>Ssh\<close>), the latter two over the command runner of
    \<open>internal/command\<close> (\<open>Command\<close>, \<open>Host_Commands\<close>);
  \<^item> the rules: \<open>rules/condition.go\<close> (\<open>Rule_Conditions\<close>), \<open>rules/engine.go\<close> and \<open>state.go\<close> with the
    memory kept per rule and target (\<open>Rule_Engine\<close>);
  \<^item> the incidents: \<open>internal/incidents\<close> (\<open>Incident_Engine\<close>);
  \<^item> the notifications: \<open>internal/notify\<close> (\<open>Notify\<close>);
  \<^item> the store: \<open>internal/storage\<close>. Records, times and columns are in \<open>Storage_Records\<close>, the tables with
    their keys, constraints and transactions in \<open>Storage\<close>, the other queries in \<open>Storage_Queries\<close>, the
    schema and its migrations in \<open>Storage_Migrations\<close>, opening in \<open>Storage_Open\<close>, paths in
    \<open>Storage_Path\<close>, files in \<open>Storage_Files\<close>, the checks of \<open>doctor.go\<close> in \<open>Storage_Doctor\<close>;
  \<^item> the configuration: \<open>internal/config\<close> (\<open>Config_Schema\<close>, \<open>Config_Validate\<close>) and what is built from it
    (\<open>Config_Load\<close>);
  \<^item> what is shown: \<open>internal/reports\<close> (\<open>Reports\<close>) and \<open>internal/api\<close> (\<open>Api\<close>);
  \<^item> the run of the agent, \<open>agent/lifecycle.go\<close> (\<open>Lifecycle\<close>);
  \<^item> \<open>internal/redaction\<close> (\<open>Redaction\<close>), applied to the free texts that are stored, sent or shown.

  The theories named \<open>Go_\<close> hold what the sources use of Go and its standard library: byte strings,
  instants and 64-bit integers (\<open>Go_Prelude\<close>), errors and the world of an operation (\<open>Go_Runtime\<close>),
  backtracking regular expressions (\<open>Go_Regexp\<close>), IEEE doubles as rationals with explicit rounding
  (\<open>Go_Float\<close>), numbers, durations, RFC 3339 times, JSON in both directions, quoting, globs, paths,
  addresses, URL escapes, SHA-256 and the calls of package \<open>os\<close> on a tree of nodes with links.

  \<^bold>\<open>State and effects.\<close> An operation is a function on a \<open>world\<close> (\<open>Go_Runtime\<close>): the data it works on, a
  script that says of every call to the outside whether it fails and how, and the clock. The data are
  a \<open>database\<close> of rows for the repository, a \<open>connection\<close> for opening and migrations, a
  \<open>file_system\<close> for the files, and a type variable where a component only passes the state on. A call
  that fails is a value \<open>Inl\<close> of the error tree of Go, so every return and every error path of the
  source is a branch. A world is \<open>quiet\<close> when its script lets everything succeed: liveness is stated
  over quiet worlds and safety over all of them. Structures are records with prefixed fields,
  interfaces are records of calls, and a Go map that is ranged over comes with the order as a
  parameter. 64-bit counters wrap with \<open>wrap64\<close> or \<open>wrap_u64\<close>.

  \<^bold>\<open>Interfaces.\<close> The locales \<open>incident_store\<close> and \<open>rule_store\<close> (\<open>Store_Interfaces\<close>), \<open>delivery_store\<close>
  (\<open>Notify_Laws\<close>), \<open>read_store\<close> (\<open>Api_Laws\<close>) and \<open>baseline_store\<close> (\<open>Resource_State\<close>) state what the
  components rely on in a store. Each is interpreted on the SQL repository as it is modelled, in and
  out of a transaction where both are used, and \<open>baseline_store\<close> also on the store in memory; the
  properties rest on the facts of these interpretations.

  \<^bold>\<open>What is shown.\<close>
  \<^item> \<open>Incident_Properties\<close>: opening and resolving alternate, occurrences are counted, failures change
    nothing, fingerprints are sound, a quiet candidate is recorded.
  \<^item> \<open>Rule_Machine\<close>, \<open>Rule_Engine_Laws\<close>, \<open>Rule_Properties\<close>, \<open>Rule_Store\<close>: what the state machine must
    have seen before it alerts or resolves, that no match is lost, that an evaluation happens in the
    database at once, that the stored memory is one the machine reaches; and the two histories in
    which the machine forgets an incident or keeps an old timer.
  \<^item> \<open>Notify_Laws\<close>, \<open>Notify_Properties\<close>: nothing is recorded as delivered twice, what was delivered is
    not sent again, attempts increase.
  \<^item> \<open>Storage_Laws\<close>, \<open>Storage_Integrity\<close>: the constraints hold in every reachable database, rows with
    times of the years 0 to 9999 read back, and an upsert is found by its lookup. \<open>Storage_Schema\<close>,
    \<open>Storage_Opened\<close>: the schema is at a version after any interruption, runs complete, newer schemas
    are refused. \<open>Storage_Files_Laws\<close>, \<open>Files_Properties\<close>, \<open>Storage_Path\<close>: files are replaced at once,
    evidence stays below its directory, written JSON is redacted at every depth.
  \<^item> \<open>Scheduler_Steps\<close>: mutual exclusion of the cycles over all interleavings of the lock steps, the
    counters, and the updates a late write of the status undoes.
  \<^item> \<open>Config_Laws\<close>, \<open>Config_Properties\<close>, \<open>Config_Defaults\<close>: acceptance is a predicate stated without
    the validators, what the loader returns satisfies it, the rules built from it are typed, webhook
    addresses are safe.
  \<^item> \<open>Api_Laws\<close>, \<open>Api_Properties\<close>: requests only read, answers are of a fixed stock, listings are the
    first rows by update time. \<open>Lifecycle_Laws\<close>: the run refines an automaton of its calls.
  \<^item> \<open>Resource_Laws\<close>, \<open>Resource_Bounds\<close>: reboots are noticed through the database, recognized disks are
    counted once, shares of the processor are between 0 and 1. \<open>Command_Laws\<close>: what a result of a
    command says. \<open>Host_Laws\<close>: what \<open>systemctl\<close> and \<open>sshd\<close> print is what is observed.
  \<^item> \<open>Redaction_Calm\<close>, \<open>Go_Regexp\<close>, \<open>Go_Json_Laws\<close>, \<open>Go_Float_Laws\<close>: texts redaction leaves alone, the
    matcher against its relation, reading back printed JSON, rounding.

  \<^bold>\<open>Bounds.\<close> An instant is an integer of nanoseconds; the column of a time holds the instant its RFC
  3339 text stands for, and reading refuses the years outside 0 to 9999 as \<open>time.Parse\<close> does
  (\<open>readable_time\<close>). The order of time columns is the order of their texts (\<open>text_key\<close>), which is the
  order of the times to the second only. The JSON parser takes fuel, the length of the text plus one,
  of which every step that recurs uses at least one character, and refuses more than 10000 levels
  (\<open>max_depth\<close>) as Go does. A path is resolved through at most 40 links, as Linux does. The other recursions are structural or come with a measure.

  \<^bold>\<open>Where the code and its documents differ.\<close> \<open>docs/run-lifecycle.md\<close> has readiness withdrawn before the
  watchdog is stopped; the code stops and awaits the watchdog first, and the automaton of \<open>Lifecycle\<close>
  follows the code. \<open>docs/incident-lifecycle.md\<close> has every cleared condition resolve its incident; a
  condition that clears while an escalation is pending does not. A listing "most recent first" is so
  to the second. Disks such as \<open>md127\<close> are counted together with their partitions (\<open>Resource_Laws\<close>),
  and a command whose output was cut by its closing succeeds (\<open>Command_Laws\<close>).

  \<^bold>\<open>What is not modelled.\<close> The command line and the construction of the components (\<open>cmd/pooly-agent\<close>,
  \<open>internal/version\<close>), logging and the systemd socket are input and output; the journal and file watch
  collectors read programs and files as the modelled collectors do, over the same store contract; the
  store of the scheduler's status is a parameter of the scheduler; the files of \<open>collectors/audit\<close>,
  \<open>internal/metrics\<close>, \<open>internal/retention\<close> and \<open>notify/receivers\<close>, among others, hold no code; the
  fallbacks for other systems than Unix are left out. SQLite is modelled for the statements the code
  has; the YAML decoder, \<open>net/url.Parse\<close>, the HTTP client and server, the environment, the kernel's
  files and what the system does with a started program are parameters.
\<close>

end
